(* ===== verification/Prelude.thy ===== *)
theory Prelude
  imports Main "HOL-Library.Multiset" "HOL-Library.Product_Lexorder" "HOL-Library.Sublist"
begin

text \<open>
  Shared vocabulary of the development: JavaScript strings and decimal numerals, errors as sums,
  sorting for \<open>ORDER BY\<close>, row updates for SQL tables and the contract of a
  transition function with an invariant.

  A JavaScript string is a list of code units; the model uses HOL's \<open>string\<close>, whose characters
  are the code units below 256 (Latin-1), so \<open>length\<close> is JavaScript's \<open>length\<close> and the case
  folding and white space below are JavaScript's on these units.  Timestamps are milliseconds
  (\<open>int\<close>), JavaScript's safe integers and PostgreSQL's integers are \<open>int\<close> or \<open>nat\<close>, and a
  thrown error is the left side of a sum.
\<close>

named_theorems js_simps \<open>evaluation of the string helpers\<close>
named_theorems sql_simps \<open>facts about rows, filters and updates of tables\<close>

type_synonym timestamp = int

section \<open>Errors as sums\<close>

definition bind_result :: "'e + 'a \<Rightarrow> ('a \<Rightarrow> 'e + 'b) \<Rightarrow> 'e + 'b" where
  "bind_result r f = (case r of Inl e \<Rightarrow> Inl e | Inr x \<Rightarrow> f x)"

definition map_error :: "('e \<Rightarrow> 'f) \<Rightarrow> 'e + 'a \<Rightarrow> 'f + 'a" where
  "map_error f r = (case r of Inl e \<Rightarrow> Inl (f e) | Inr x \<Rightarrow> Inr x)"

lemma bind_result_simps [simp]:
  "bind_result (Inl e) f = Inl e" "bind_result (Inr x) f = f x"
  by (simp_all add: bind_result_def)

lemma map_error_simps [simp]:
  "map_error f (Inl e) = Inl (f e)" "map_error f (Inr x) = Inr x"
  by (simp_all add: map_error_def)

lemma bind_result_Inr_iff: "bind_result r f = Inr y \<longleftrightarrow> (\<exists>x. r = Inr x \<and> f x = Inr y)"
  by (cases r) auto

lemma map_error_Inr_iff [simp]: "map_error f r = Inr y \<longleftrightarrow> r = Inr y"
  by (cases r) auto

text \<open>\<open>if (!b) throw e\<close>, and a value that must be there.\<close>

definition ensure :: "bool \<Rightarrow> 'e \<Rightarrow> 'e + unit" where
  "ensure b e = (if b then Inr () else Inl e)"

definition expect :: "'a option \<Rightarrow> 'e \<Rightarrow> 'e + 'a" where
  "expect x e = (case x of None \<Rightarrow> Inl e | Some y \<Rightarrow> Inr y)"

lemma ensure_Inr [simp]: "ensure b e = Inr u \<longleftrightarrow> b"
  and expect_Inr [simp]: "expect x e = Inr y \<longleftrightarrow> x = Some y"
  and ensure_True [simp]: "ensure True e = Inr ()"
  and expect_Some [simp]: "expect (Some y) e = Inr y"
  and ensure_False [simp]: "ensure False e = Inl e"
  and expect_None [simp]: "expect None e = Inl e"
  by (auto simp: ensure_def expect_def split: option.splits)

lemma bind_result_Inl_iff:
  "bind_result r f = Inl e \<longleftrightarrow> r = Inl e \<or> (\<exists>x. r = Inr x \<and> f x = Inl e)"
  by (cases r) auto

lemma map_error_Inl_iff [simp]: "map_error f r = Inl e \<longleftrightarrow> (\<exists>e'. r = Inl e' \<and> e = f e')"
  by (cases r) auto

lemma ensure_Inl [simp]: "ensure b e = Inl e' \<longleftrightarrow> \<not> b \<and> e' = e"
  and expect_Inl [simp]: "expect x e = Inl e' \<longleftrightarrow> x = None \<and> e' = e"
  by (auto simp: ensure_def expect_def split: option.splits)

text \<open>
  A transaction, or a single statement that fails: a failure leaves the state as it was, a result
  comes with the state it commits.
\<close>

definition atomically :: "'s \<Rightarrow> 'e + ('a \<times> 's) \<Rightarrow> ('e + 'a) \<times> 's" where
  "atomically s r = (case r of Inl e \<Rightarrow> (Inl e, s) | Inr (x, s') \<Rightarrow> (Inr x, s'))"

lemma atomically_simps [simp]:
  "atomically s (Inl e) = (Inl e, s)" "atomically s (Inr (x, s')) = (Inr x, s')"
  by (simp_all add: atomically_def)

lemma atomically_Inr [simp]: "atomically s r = (Inr x, s') \<longleftrightarrow> r = Inr (x, s')"
  and atomically_Inl [simp]: "atomically s r = (Inl e, s') \<longleftrightarrow> r = Inl e \<and> s' = s"
  by (auto simp: atomically_def split: sum.splits prod.splits)

lemma fst_atomically_Inl [simp]: "fst (atomically s r) = Inl e \<longleftrightarrow> r = Inl e"
  and fst_atomically_Inr [simp]: "fst (atomically s r) = Inr x \<longleftrightarrow> (\<exists>s'. r = Inr (x, s'))"
  by (auto simp: atomically_def split: sum.splits prod.splits)

lemma snd_atomically:
  assumes "P s" and "\<And>x s'. r = Inr (x, s') \<Longrightarrow> P s'"
  shows "P (snd (atomically s r))"
  using assms by (auto simp: atomically_def split: sum.splits prod.splits)

section \<open>JavaScript strings\<close>

definition code :: "char \<Rightarrow> nat" where
  "code c = of_char c"

definition is_digit :: "char \<Rightarrow> bool" where
  "is_digit c \<longleftrightarrow> 48 \<le> code c \<and> code c \<le> 57"

definition is_lower_alpha :: "char \<Rightarrow> bool" where
  "is_lower_alpha c \<longleftrightarrow> 97 \<le> code c \<and> code c \<le> 122"

definition is_upper_alpha :: "char \<Rightarrow> bool" where
  "is_upper_alpha c \<longleftrightarrow> 65 \<le> code c \<and> code c \<le> 90"

definition is_space :: "char \<Rightarrow> bool" where
  "is_space c \<longleftrightarrow> code c \<in> {9, 10, 11, 12, 13, 32, 160}"

text \<open>\<open>String.prototype.toLowerCase\<close> on code units below 256.\<close>

definition lower_char :: "char \<Rightarrow> char" where
  "lower_char c =
     (if is_upper_alpha c \<or> (192 \<le> code c \<and> code c \<le> 222 \<and> code c \<noteq> 215)
      then char_of (code c + 32) else c)"

definition to_lower :: "string \<Rightarrow> string" where
  "to_lower s = map lower_char s"

definition js_trim :: "string \<Rightarrow> string" where
  "js_trim s = rev (dropWhile is_space (rev (dropWhile is_space s)))"

definition pad_start :: "nat \<Rightarrow> char \<Rightarrow> string \<Rightarrow> string" where
  "pad_start n c s = replicate (n - length s) c @ s"

definition pad_end :: "nat \<Rightarrow> char \<Rightarrow> string \<Rightarrow> string" where
  "pad_end n c s = s @ replicate (n - length s) c"

text \<open>\<open>s.split(c)\<close> for a one-character separator: never empty, and \<open>''.split(c)\<close> is \<open>['']\<close>.\<close>

fun js_split :: "char \<Rightarrow> string \<Rightarrow> string list" where
  "js_split c [] = [[]]"
| "js_split c (x # xs) =
     (if x = c then [] # js_split c xs
      else (case js_split c xs of [] \<Rightarrow> [[x]] | w # ws \<Rightarrow> (x # w) # ws))"

fun js_join :: "string \<Rightarrow> string list \<Rightarrow> string" where
  "js_join sep [] = []"
| "js_join sep [w] = w"
| "js_join sep (w # v # ws) = w @ sep @ js_join sep (v # ws)"

definition strip_prefix :: "string \<Rightarrow> string \<Rightarrow> string option" where
  "strip_prefix p s = (if take (length p) s = p then Some (drop (length p) s) else None)"

lemma strip_prefix_append: "strip_prefix p (p @ s) = Some s"
  by (simp add: strip_prefix_def)

lemma strip_prefix_iff: "strip_prefix p s = Some r \<longleftrightarrow> s = p @ r"
  by (metis append_take_drop_id append_eq_conv_conj option.distinct(1) option.inject strip_prefix_def)

lemma js_split_nonempty [simp]: "js_split c s \<noteq> []"
  by (induction s) (auto split: list.splits)

lemma js_split_join [simp]: "js_join [c] (js_split c s) = s"
proof (induction s)
  case (Cons x xs)
  obtain w ws where "js_split c xs = w # ws"
    by (cases "js_split c xs") auto
  with Cons show ?case by (cases ws) auto
qed simp

lemma js_split_no_sep: "c \<notin> set s \<Longrightarrow> js_split c s = [s]"
  by (induction s) auto

lemma js_split_append: "c \<notin> set s \<Longrightarrow> js_split c (s @ c # t) = s # js_split c t"
  by (induction s) auto

lemma js_split_parts: "w \<in> set (js_split c s) \<Longrightarrow> c \<notin> set w"
proof (induction s arbitrary: w)
  case (Cons x xs)
  then show ?case by (cases "js_split c xs") (auto split: if_splits)
qed simp

text \<open>Splitting a concatenation: only the last piece of the left part can grow.\<close>

lemma js_split_append_gen:
  "js_split c (s @ t) =
     butlast (js_split c s) @
       (last (js_split c s) @ hd (js_split c t)) # tl (js_split c t)"
proof (induction s)
  case Nil
  then show ?case by (simp add: list.collapse)
next
  case (Cons x xs)
  then show ?case
    by (cases "js_split c xs") (auto split: list.splits)
qed

lemma length_pad_start [simp]: "length (pad_start n c s) = max n (length s)"
  by (simp add: pad_start_def)

lemma length_pad_end [simp]: "length (pad_end n c s) = max n (length s)"
  by (simp add: pad_end_def)

lemma set_js_trim: "set (js_trim s) \<subseteq> set s"
proof
  fix x assume "x \<in> set (js_trim s)"
  then show "x \<in> set s"
    unfolding js_trim_def by (metis set_dropWhileD set_rev)
qed

text \<open>\<open>[...new Set(xs)]\<close> keeps the first occurrence of each element.\<close>

definition js_unique :: "'a list \<Rightarrow> 'a list" where
  "js_unique xs = rev (remdups (rev xs))"

lemma set_js_unique [simp]: "set (js_unique xs) = set xs"
  by (simp add: js_unique_def)

lemma distinct_js_unique [simp]: "distinct (js_unique xs)"
  by (simp add: js_unique_def)

section \<open>Decimal numerals\<close>

definition digit :: "nat \<Rightarrow> char" where
  "digit n = char_of (48 + n)"

definition digit_val :: "char \<Rightarrow> nat" where
  "digit_val c = code c - 48"

text \<open>\<open>String(n)\<close> of a non-negative integer and \<open>Number(s)\<close> of a string of digits.\<close>

fun dec_nat :: "nat \<Rightarrow> string" where
  "dec_nat n = (if n < 10 then [digit n] else dec_nat (n div 10) @ [digit (n mod 10)])"

declare dec_nat.simps [simp del]

definition nat_of_dec :: "string \<Rightarrow> nat" where
  "nat_of_dec s = foldl (\<lambda>a c. a * 10 + digit_val c) 0 s"

lemma code_digit [simp]: "n < 10 \<Longrightarrow> code (digit n) = 48 + n"
  by (simp add: code_def digit_def)

lemma digit_val_digit [simp]: "n < 10 \<Longrightarrow> digit_val (digit n) = n"
  by (simp add: digit_val_def)

lemma is_digit_digit [simp]: "n < 10 \<Longrightarrow> is_digit (digit n)"
  by (simp add: is_digit_def)

lemma digit_val_less: "is_digit c \<Longrightarrow> digit_val c < 10"
  by (auto simp: is_digit_def digit_val_def)

lemma digit_of_digit_val: "is_digit c \<Longrightarrow> digit (digit_val c) = c"
  by (auto simp: is_digit_def digit_val_def digit_def code_def)

lemma nat_of_dec_append: "nat_of_dec (s @ [c]) = nat_of_dec s * 10 + digit_val c"
  by (simp add: nat_of_dec_def)

lemma dec_nat_roundtrip [simp]: "nat_of_dec (dec_nat n) = n"
proof (induction n rule: dec_nat.induct)
  case (1 n)
  then show ?case
    by (subst dec_nat.simps) (auto simp: nat_of_dec_append nat_of_dec_def)
qed

lemma dec_nat_digits: "list_all is_digit (dec_nat n)"
proof (induction n rule: dec_nat.induct)
  case (1 n)
  then show ?case by (subst dec_nat.simps) auto
qed

lemma dec_nat_no_dot [simp]: "CHR ''.'' \<notin> set (dec_nat n)"
  using dec_nat_digits [of n] by (auto simp: list_all_iff is_digit_def code_def)

lemma dec_nat_nonempty [simp]: "dec_nat n \<noteq> []"
  by (subst dec_nat.simps) auto

lemma dec_nat_inj: "dec_nat m = dec_nat n \<longleftrightarrow> m = n"
  by (metis dec_nat_roundtrip)

lemma length_dec_nat_le: "n < 10 ^ k \<Longrightarrow> 0 < k \<Longrightarrow> length (dec_nat n) \<le> k"
proof (induction k arbitrary: n)
  case (Suc k)
  show ?case
  proof (cases "n < 10")
    case True
    then show ?thesis by (subst dec_nat.simps) simp
  next
    case False
    with Suc.prems have "0 < k" by (cases k) auto
    moreover have "n div 10 < 10 ^ k"
      using Suc.prems by (simp add: less_mult_imp_div_less mult.commute)
    ultimately have "length (dec_nat (n div 10)) \<le> k" using Suc.IH by blast
    with False show ?thesis by (subst dec_nat.simps) simp
  qed
qed simp

lemma foldl_dec_pad: "foldl (\<lambda>a c. a * 10 + digit_val c) 0 (replicate k (CHR ''0'')) = 0"
  by (induction k) (simp_all add: digit_val_def code_def)

lemma nat_of_dec_pad [simp]: "nat_of_dec (pad_start k (CHR ''0'') s) = nat_of_dec s"
  by (simp add: nat_of_dec_def pad_start_def foldl_dec_pad)

lemma nat_of_dec_bound: "list_all is_digit s \<Longrightarrow> nat_of_dec s < 10 ^ length s"
proof (induction s rule: rev_induct)
  case (snoc c s)
  then have "nat_of_dec s * 10 + digit_val c < 10 ^ length s * 10"
    using digit_val_less[of c] by simp
  then show ?case by (simp add: nat_of_dec_append mult.commute)
qed (simp add: nat_of_dec_def)

section \<open>SQL tables as lists of rows\<close>

text \<open>\<open>UPDATE t SET ... WHERE p\<close> and \<open>DELETE FROM t WHERE p\<close>.\<close>

definition update_where :: "('r \<Rightarrow> bool) \<Rightarrow> ('r \<Rightarrow> 'r) \<Rightarrow> 'r list \<Rightarrow> 'r list" where
  "update_where p f rows = map (\<lambda>r. if p r then f r else r) rows"

definition delete_where :: "('r \<Rightarrow> bool) \<Rightarrow> 'r list \<Rightarrow> 'r list" where
  "delete_where p rows = filter (\<lambda>r. \<not> p r) rows"

text \<open>The first row of a result set, \<open>undefined\<close> in the source when there is none.\<close>

definition first_row :: "'r list \<Rightarrow> 'r option" where
  "first_row rows = (case rows of [] \<Rightarrow> None | r # _ \<Rightarrow> Some r)"

text \<open>Keys for \<open>ORDER BY x DESC\<close>: PostgreSQL sorts NULL first, or last with \<open>NULLS LAST\<close>.\<close>

definition desc_nulls_first :: "int option \<Rightarrow> int \<times> int" where
  "desc_nulls_first x = (case x of None \<Rightarrow> (0, 0) | Some t \<Rightarrow> (1, - t))"

definition desc_nulls_last :: "int option \<Rightarrow> int \<times> int" where
  "desc_nulls_last x = (case x of None \<Rightarrow> (1, 0) | Some t \<Rightarrow> (0, - t))"

lemma length_update_where [simp, sql_simps]: "length (update_where p f rows) = length rows"
  by (simp add: update_where_def)

lemma set_update_where [sql_simps]:
  "set (update_where p f rows) = {if p r then f r else r | r. r \<in> set rows}"
  by (auto simp: update_where_def)

lemma update_where_in: "r \<in> set rows \<Longrightarrow> (if p r then f r else r) \<in> set (update_where p f rows)"
  by (auto simp: update_where_def)

lemma map_update_where [sql_simps]:
  "(\<And>r. p r \<Longrightarrow> g (f r) = g r) \<Longrightarrow> map g (update_where p f rows) = map g rows"
  by (simp add: update_where_def)

lemma update_where_id [sql_simps]: "(\<And>r. r \<in> set rows \<Longrightarrow> \<not> p r) \<Longrightarrow> update_where p f rows = rows"
  by (simp add: update_where_def map_idI)

lemma update_where_Nil [simp]: "update_where p f [] = []"
  and update_where_Cons: "update_where p f (r # rs) = (if p r then f r else r) # update_where p f rs"
  by (simp_all add: update_where_def)

lemma filter_update_where:
  assumes "\<And>r. r \<in> set rows \<Longrightarrow> p r \<Longrightarrow> \<not> P r \<and> \<not> P (f r)"
  shows "filter P (update_where p f rows) = filter P rows"
  using assms by (induction rows) (auto simp: update_where_def)

lemma set_delete_where [simp, sql_simps]: "set (delete_where p rows) = {r \<in> set rows. \<not> p r}"
  by (auto simp: delete_where_def)

lemma first_row_Some: "first_row rows = Some r \<Longrightarrow> r \<in> set rows"
  by (auto simp: first_row_def split: list.splits)

lemma first_row_None [simp]: "first_row rows = None \<longleftrightarrow> rows = []"
  by (auto simp: first_row_def split: list.splits)

lemma first_row_filterD: "first_row (filter p rows) = Some r \<Longrightarrow> r \<in> set rows \<and> p r"
  by (drule first_row_Some) auto

lemma first_row_filter_None: "first_row (filter p rows) = None \<longleftrightarrow> (\<forall>r \<in> set rows. \<not> p r)"
  by (auto simp: filter_empty_conv)

text \<open>A unique key picks one row.\<close>

lemma distinct_key_unique:
  "distinct (map k rows) \<Longrightarrow> r \<in> set rows \<Longrightarrow> r' \<in> set rows \<Longrightarrow> k r = k r' \<Longrightarrow> r = r'"
  by (induction rows) (auto simp: image_iff)

lemma filter_unique_key:
  assumes "distinct (map k rows)" and "r \<in> set rows"
  shows "filter (\<lambda>x. k x = k r) rows = [r]"
  using assms
proof (induction rows)
  case (Cons a rows)
  show ?case
  proof (cases "a = r")
    case True
    with Cons.prems have "filter (\<lambda>x. k x = k r) rows = []"
      by (auto simp: filter_empty_conv image_iff)
    with True show ?thesis by simp
  next
    case False
    with Cons.prems have "k a \<noteq> k r" by (auto simp: image_iff)
    with False Cons show ?thesis by simp
  qed
qed simp

section \<open>Transition functions with an invariant\<close>

text \<open>
  The contract of a component that folds a transition function over the events it receives:
  whatever single steps keep, every run keeps.  Admissible events are those the environment can send.
\<close>

locale invariant_machine =
  fixes advance :: "'s \<Rightarrow> 'e \<Rightarrow> 's" and admissible :: "'e \<Rightarrow> bool" and invar :: "'s \<Rightarrow> bool"
  assumes advance_invar: "invar s \<Longrightarrow> admissible e \<Longrightarrow> invar (advance s e)"
begin

lemma run_invar: "invar s \<Longrightarrow> list_all admissible es \<Longrightarrow> invar (foldl advance s es)"
  by (induction es arbitrary: s) (auto intro: advance_invar)

lemma every_prefix_invar:
  "invar s \<Longrightarrow> list_all admissible es \<Longrightarrow> prefix ds es \<Longrightarrow> invar (foldl advance s ds)"
  by (rule run_invar) (auto simp: prefix_def)

end

end
