(* ===== verification/VideoTiming.thy ===== *)
theory VideoTiming
  imports Prelude
begin

text \<open>
  Video times (\<open>packages/src/video-timing.ts\<close>), their display on the public queue
  (\<open>apps/web/src/lib/shared-video-timing.ts\<close>) and the parsing of the two time fields of a form
  (\<open>parseVideoTiming\<close> of \<open>apps/web/src/components/video-timing-fields.tsx\<close>).

  Seconds are non-negative integers (\<open>nat\<close>), as the schemas of the callers require.
  \<open>Number(digits)\<close> and the products are computed exactly here: below \<open>2 ^ 53\<close> doubles are
  exact too, and above it both sides are rejected by \<open>Number.isSafeInteger\<close>, since rounding is
  monotone.
\<close>

definition max_safe_integer :: nat where
  "max_safe_integer = 2 ^ 53 - 1"

definition get_watch_duration_seconds :: "int \<Rightarrow> int \<Rightarrow> int" where
  "get_watch_duration_seconds start_seconds end_seconds = end_seconds - start_seconds"

text \<open>\<open>Math.round(x / 60)\<close> rounds halves up.\<close>

definition get_rounded_watch_duration_minutes :: "int \<Rightarrow> int" where
  "get_rounded_watch_duration_minutes total_seconds = (total_seconds + 30) div 60"

definition get_rounded_watch_duration_parts :: "int \<Rightarrow> int \<times> int" where
  "get_rounded_watch_duration_parts total_seconds =
     (let total_minutes = get_rounded_watch_duration_minutes total_seconds
      in (total_minutes div 60, total_minutes mod 60))"

record video_time_parts =
  time_hours :: nat
  time_minutes :: nat
  time_seconds :: nat

definition get_video_time_parts :: "nat \<Rightarrow> video_time_parts" where
  "get_video_time_parts total_seconds =
     \<lparr>time_hours = total_seconds div 3600,
      time_minutes = (total_seconds mod 3600) div 60,
      time_seconds = total_seconds mod 60\<rparr>"

definition two_digits :: "nat \<Rightarrow> string" where
  "two_digits n = pad_start 2 (CHR ''0'') (dec_nat n)"

definition format_video_time :: "nat \<Rightarrow> string" where
  "format_video_time total_seconds =
     (let t = get_video_time_parts total_seconds
      in if time_hours t > 0
         then dec_nat (time_hours t) @ '':'' @ two_digits (time_minutes t) @ '':'' @ two_digits (time_seconds t)
         else dec_nat (time_minutes t) @ '':'' @ two_digits (time_seconds t))"

text \<open>The alternatives of the regular expression, piece by piece: \<open>\d+\<close> and \<open>[0-5]\d\<close>.\<close>

definition all_digits :: "string \<Rightarrow> bool" where
  "all_digits w \<longleftrightarrow> w \<noteq> [] \<and> list_all is_digit w"

definition below_sixty :: "string \<Rightarrow> bool" where
  "below_sixty w = (case w of [a, b] \<Rightarrow> is_digit a \<and> code a \<le> 53 \<and> is_digit b | _ \<Rightarrow> False)"

definition safe_total :: "nat \<Rightarrow> nat option" where
  "safe_total total_seconds = (if total_seconds \<le> max_safe_integer then Some total_seconds else None)"

definition parse_video_time :: "string \<Rightarrow> nat option" where
  "parse_video_time txt =
     (case js_split (CHR '':'') (js_trim txt) of
        [hours, minutes, seconds] \<Rightarrow>
          if all_digits hours \<and> below_sixty minutes \<and> below_sixty seconds
          then safe_total (nat_of_dec hours * 3600 + nat_of_dec minutes * 60 + nat_of_dec seconds)
          else None
      | [minutes, seconds] \<Rightarrow>
          if all_digits minutes \<and> below_sixty seconds
          then safe_total (nat_of_dec minutes * 60 + nat_of_dec seconds)
          else None
      | _ \<Rightarrow> None)"

definition get_shared_video_timing_parts ::
    "nat \<Rightarrow> nat option \<Rightarrow> nat option \<Rightarrow> string option \<times> string option" where
  "get_shared_video_timing_parts start_seconds end_seconds duration_seconds =
     ((if start_seconds = 0 then None else Some (format_video_time start_seconds)),
      (case end_seconds of
         None \<Rightarrow> None
       | Some e \<Rightarrow> if end_seconds = duration_seconds then None else Some (format_video_time e)))"

definition parse_video_timing ::
    "string \<Rightarrow> string \<Rightarrow> bool \<Rightarrow> nat option \<Rightarrow> (nat \<times> nat option) option" where
  "parse_video_timing end_time start_time allow_open_end maximum_end_seconds =
     (let start_seconds = parse_video_time start_time;
          normalized_end_time = js_trim end_time;
          end_seconds = (if normalized_end_time = [] then None else parse_video_time normalized_end_time)
      in case start_seconds of
           None \<Rightarrow> None
         | Some s \<Rightarrow>
             (case end_seconds of
                None \<Rightarrow> if allow_open_end \<and> normalized_end_time = [] then Some (s, None) else None
              | Some e \<Rightarrow>
                  if e \<le> s then None
                  else if (case maximum_end_seconds of None \<Rightarrow> False | Some m \<Rightarrow> e > m) then None
                  else Some (s, Some e)))"

section \<open>Times in parts\<close>

lemma video_time_parts_sum:
  "time_hours (get_video_time_parts t) * 3600 + time_minutes (get_video_time_parts t) * 60
     + time_seconds (get_video_time_parts t) = t"
proof -
  have "t mod 3600 mod 60 = t mod 60" by (simp add: mod_mod_cancel)
  moreover have "t mod 3600 div 60 * 60 + t mod 3600 mod 60 = t mod 3600" by (rule div_mult_mod_eq)
  moreover have "t div 3600 * 3600 + t mod 3600 = t" by (rule div_mult_mod_eq)
  ultimately show ?thesis
    unfolding get_video_time_parts_def video_time_parts.simps by linarith
qed

lemma video_time_parts_bounds:
  "time_minutes (get_video_time_parts t) < 60" "time_seconds (get_video_time_parts t) < 60"
  by (simp_all add: get_video_time_parts_def less_mult_imp_div_less)

section \<open>Printing and parsing\<close>

lemma digit_facts:
  assumes "is_digit c"
  shows "c \<noteq> CHR '':''" and "\<not> is_space c"
  using assms by (auto simp: is_digit_def is_space_def code_def)

lemma all_digits_dec_nat [simp]: "all_digits (dec_nat n)"
  by (simp add: all_digits_def dec_nat_digits)

lemma no_colon:
  assumes "list_all is_digit w"
  shows "CHR '':'' \<notin> set w"
  using assms digit_facts(1) by (auto simp: list_all_iff)

lemma two_digits_below_sixty:
  assumes "n < 60"
  shows "below_sixty (two_digits n)" and "nat_of_dec (two_digits n) = n" and "list_all is_digit (two_digits n)"
proof -
  show "nat_of_dec (two_digits n) = n" by (simp add: two_digits_def)
  have "dec_nat n = (if n < 10 then [digit n] else [digit (n div 10), digit (n mod 10)])"
    using assms by (simp add: dec_nat.simps [of n] dec_nat.simps [of "n div 10"] less_mult_imp_div_less)
  moreover have "n div 10 \<le> 5" using assms by simp
  moreover have "is_digit (CHR ''0'')" "code (CHR ''0'') = 48" by (simp_all add: is_digit_def code_def)
  ultimately show "below_sixty (two_digits n)" "list_all is_digit (two_digits n)"
    by (auto simp: two_digits_def pad_start_def below_sixty_def split: if_splits)
qed

lemma js_trim_solid:
  assumes "s \<noteq> []" and "\<not> is_space (hd s)" and "\<not> is_space (last s)"
  shows "js_trim s = s"
proof -
  have "dropWhile is_space s = s" using assms by (cases s) auto
  moreover have "dropWhile is_space (rev s) = rev s"
    using assms by (cases "rev s") (auto simp: last_rev hd_rev [symmetric])
  ultimately show ?thesis by (simp add: js_trim_def)
qed

lemma js_trim_digits_between:
  assumes "all_digits a" and "all_digits b"
  shows "js_trim (a @ m @ b) = a @ m @ b"
proof (rule js_trim_solid)
  show "a @ m @ b \<noteq> []" using assms by (auto simp: all_digits_def)
  have "is_digit (hd a)" "is_digit (last b)"
    using assms by (auto simp: all_digits_def list_all_iff)
  then show "\<not> is_space (hd (a @ m @ b))" "\<not> is_space (last (a @ m @ b))"
    using assms digit_facts(2) by (auto simp: all_digits_def hd_append)
qed

lemma parse_three:
  assumes "all_digits h" and "below_sixty m" and "below_sixty s"
    and "list_all is_digit m" and "list_all is_digit s"
  shows "parse_video_time (h @ '':'' @ m @ '':'' @ s) =
    safe_total (nat_of_dec h * 3600 + nat_of_dec m * 60 + nat_of_dec s)"
proof -
  have s: "all_digits s" using assms by (auto simp: all_digits_def below_sixty_def split: list.splits)
  have "js_trim (h @ ('':'' @ m @ '':'') @ s) = h @ ('':'' @ m @ '':'') @ s"
    using assms(1) s by (rule js_trim_digits_between)
  moreover have "js_split (CHR '':'') (h @ '':'' @ m @ '':'' @ s) = [h, m, s]"
    using assms no_colon by (simp add: js_split_append js_split_no_sep all_digits_def)
  ultimately show ?thesis using assms by (simp add: parse_video_time_def)
qed

lemma parse_two:
  assumes "all_digits m" and "below_sixty s" and "list_all is_digit s"
  shows "parse_video_time (m @ '':'' @ s) = safe_total (nat_of_dec m * 60 + nat_of_dec s)"
proof -
  have s: "all_digits s" using assms by (auto simp: all_digits_def below_sixty_def split: list.splits)
  have "js_trim (m @ '':'' @ s) = m @ '':'' @ s"
    using assms(1) s by (rule js_trim_digits_between)
  moreover have "js_split (CHR '':'') (m @ '':'' @ s) = [m, s]"
    using assms no_colon by (simp add: js_split_append js_split_no_sep all_digits_def)
  ultimately show ?thesis using assms by (simp add: parse_video_time_def)
qed

lemma parse_format_video_time: "parse_video_time (format_video_time t) = safe_total t"
proof -
  let ?p = "get_video_time_parts t"
  note b = two_digits_below_sixty [OF video_time_parts_bounds(1) [of t]]
    two_digits_below_sixty [OF video_time_parts_bounds(2) [of t]]
  show ?thesis
  proof (cases "time_hours ?p > 0")
    case True
    then show ?thesis
      using b parse_three [of "dec_nat (time_hours ?p)"] video_time_parts_sum [of t]
      by (simp add: format_video_time_def Let_def)
  next
    case False
    then show ?thesis
      using b parse_two [of "dec_nat (time_minutes ?p)"] video_time_parts_sum [of t]
      by (simp add: format_video_time_def Let_def)
  qed
qed

text \<open>
  Printing a number of seconds and parsing the text gives the seconds back, for every value
  the parser accepts at all (the safe integers); larger values are refused rather than rounded.
\<close>

theorem format_parse_roundtrip:
  "parse_video_time (format_video_time t) = (if t \<le> max_safe_integer then Some t else None)"
  by (simp add: parse_format_video_time safe_total_def)

section \<open>The timing of a form\<close>

lemma parse_video_time_safe: "parse_video_time s = Some n \<Longrightarrow> n \<le> max_safe_integer"
  by (auto simp: parse_video_time_def safe_total_def split: list.splits if_splits)

lemma js_trim_idem [simp]: "js_trim (js_trim s) = js_trim s"
proof (cases "js_trim s = []")
  case True
  have "js_trim [] = []" by (simp add: js_trim_def)
  with True show ?thesis by simp
next
  case False
  let ?d = "dropWhile is_space s"
  have rev_trim: "rev (js_trim s) = dropWhile is_space (rev ?d)" by (simp add: js_trim_def)
  have l: "\<not> is_space (last (js_trim s))"
    using False hd_dropWhile [of is_space "rev ?d"] rev_trim
    by (metis Nil_is_rev_conv hd_rev)
  obtain k where "js_trim s = take k ?d"
    unfolding js_trim_def by (metis dropWhile_eq_drop rev_drop rev_rev_ident length_rev)
  with False have "hd (js_trim s) = hd ?d" "?d \<noteq> []" by (cases ?d; cases k; auto)+
  with hd_dropWhile [of is_space s] have "\<not> is_space (hd (js_trim s))" by simp
  with False l show ?thesis by (rule_tac js_trim_solid)
qed

lemma parse_video_time_trim [simp]: "parse_video_time (js_trim s) = parse_video_time s"
  by (simp add: parse_video_time_def)

text \<open>
  The two time fields of a form are accepted exactly when the start is a time, and the end is
  a later time not beyond the video's duration, or is left blank where that is allowed; the parsed
  values are those of the two fields.
\<close>

theorem parse_video_timing_iff:
  "parse_video_timing end_time start_time open_end maximum = Some (s, e) \<longleftrightarrow>
     parse_video_time start_time = Some s \<and>
     (case e of
        None \<Rightarrow> open_end \<and> js_trim end_time = []
      | Some n \<Rightarrow> js_trim end_time \<noteq> [] \<and> parse_video_time end_time = Some n \<and> s < n \<and>
          (\<forall>m. maximum = Some m \<longrightarrow> n \<le> m))"
  by (auto simp: parse_video_timing_def Let_def not_less split: option.splits if_splits)

theorem parse_video_timing_iff_witness:
  "parse_video_timing ''1:30'' ''0:05'' False (Some 90) = Some (5, Some 90)"
proof -
  have "parse_video_time ''0:05'' = Some 5" "parse_video_time ''1:30'' = Some 90"
    "js_trim ''1:30'' \<noteq> []"
    by (simp_all add: parse_video_time_def js_trim_def is_space_def all_digits_def below_sixty_def
        is_digit_def nat_of_dec_def digit_val_def code_def safe_total_def max_safe_integer_def)
  then show ?thesis using parse_video_timing_iff [of "''1:30''" "''0:05''" False "Some 90" 5 "Some 90"] by simp
qed

end
