(* ===== verification/Schemas.thy ===== *)
theory Schemas
  imports VideoTiming "HOL-Library.List_Lexorder"
begin

text \<open>
  The validated data of \<open>packages/src/schemas.ts\<close>: identifiers, enumerations, slugs, labels, the
  two money formats with their normalising transformations, and the donation, video, priority and
  user objects the database queries return.  An object schema is a record with the predicate its
  fields must satisfy; a schema with a transformation is a function into \<open>option\<close>, \<open>None\<close> being
  the \<open>ZodError\<close>.  Two checks are the platform's and are arguments: \<open>is_url\<close> (the \<open>URL\<close> parser
  behind \<open>z.url()\<close>) and \<open>number_text\<close> (\<open>String\<close> of a number).
\<close>

section \<open>Numbers and identifiers\<close>

definition z_int :: "int \<Rightarrow> bool" where
  "z_int x \<longleftrightarrow> - int max_safe_integer \<le> x \<and> x \<le> int max_safe_integer"

definition z_positive_int :: "int \<Rightarrow> bool" where
  "z_positive_int x \<longleftrightarrow> z_int x \<and> 0 < x"

definition z_nonnegative_int :: "int \<Rightarrow> bool" where
  "z_nonnegative_int x \<longleftrightarrow> z_int x \<and> 0 \<le> x"

definition optional_holds :: "('a \<Rightarrow> bool) \<Rightarrow> 'a option \<Rightarrow> bool" where
  "optional_holds p x = (case x of None \<Rightarrow> True | Some y \<Rightarrow> p y)"

definition valid_user_id :: "int \<Rightarrow> bool" where "valid_user_id x \<longleftrightarrow> z_positive_int x"

definition valid_video_id :: "int \<Rightarrow> bool" where "valid_video_id x \<longleftrightarrow> 0 < x"

definition valid_video_priority_id :: "int \<Rightarrow> bool" where
  "valid_video_priority_id x \<longleftrightarrow> z_positive_int x"

definition valid_donation_id :: "int \<Rightarrow> bool" where "valid_donation_id x \<longleftrightarrow> 0 < x"

definition valid_auth_user_id :: "string \<Rightarrow> bool" where "valid_auth_user_id s \<longleftrightarrow> 1 \<le> length s"

section \<open>Enumerations\<close>

datatype donation_source = Donationalerts | Donate_stream | Streamlabs | Tourniquet | Streamelements

datatype video_source = Donation_source | Manual_source

datatype queue_currency = RUB | USD | EUR

datatype donation_source_connection_status = Connected | Reauthorization_required | Connection_error

section \<open>Text\<close>

definition slug_char :: "char \<Rightarrow> bool" where
  "slug_char c \<longleftrightarrow> is_lower_alpha c \<or> is_upper_alpha c \<or> is_digit c \<or> c = CHR ''-''"

definition valid_slug :: "string \<Rightarrow> bool" where
  "valid_slug s \<longleftrightarrow> list_all slug_char s \<and> 3 \<le> length s \<and> length s \<le> 47"

text \<open>\<open>z.string().trim().min(1).max(64)\<close> of labels, and \<open>z.string().trim().min(1)\<close> of titles.\<close>

definition parse_label :: "string \<Rightarrow> string option" where
  "parse_label s = (let t = js_trim s in if 1 \<le> length t \<and> length t \<le> 64 then Some t else None)"

definition parse_title :: "string \<Rightarrow> string option" where
  "parse_title s = (let t = js_trim s in if 1 \<le> length t then Some t else None)"

definition valid_currency_code :: "string \<Rightarrow> bool" where
  "valid_currency_code s \<longleftrightarrow> list_all is_upper_alpha s \<and> length s = 3"

definition asset_char :: "char \<Rightarrow> bool" where
  "asset_char c \<longleftrightarrow> is_upper_alpha c \<or> is_digit c \<or> c \<in> set ''- ._()/+''"

definition valid_donation_asset :: "string \<Rightarrow> bool" where
  "valid_donation_asset s =
     (case s of [] \<Rightarrow> False
      | c # cs \<Rightarrow> (is_upper_alpha c \<or> is_digit c) \<and> list_all asset_char cs \<and> length cs \<le> 31)"

section \<open>Money\<close>

text \<open>The pieces of a decimal: \<open>^\d{1,i}(?:\.\d{1,f})?$\<close>.\<close>

definition digits_within :: "nat \<Rightarrow> string \<Rightarrow> bool" where
  "digits_within n w \<longleftrightarrow> list_all is_digit w \<and> 1 \<le> length w \<and> length w \<le> n"

definition decimal_parts :: "nat \<Rightarrow> nat \<Rightarrow> string \<Rightarrow> (string \<times> string) option" where
  "decimal_parts i f s =
     (case js_split (CHR ''.'') s of
        [integer] \<Rightarrow> if digits_within i integer then Some (integer, []) else None
      | [integer, fraction] \<Rightarrow>
          if digits_within i integer \<and> digits_within f fraction then Some (integer, fraction) else None
      | _ \<Rightarrow> None)"

datatype amount_input = NumberInput int string | TextInput string

text \<open>
  \<open>NumberInput x t\<close> is a number whose integral part is \<open>x\<close> (rounded up when it has a fraction) and
  whose \<open>String\<close> is \<open>t\<close>; the union takes numbers between 0 and the largest safe integer.
\<close>

definition amount_text :: "amount_input \<Rightarrow> string option" where
  "amount_text inp =
     (case inp of
        NumberInput x t \<Rightarrow> if 0 \<le> x \<and> x \<le> int max_safe_integer then Some t else None
      | TextInput s \<Rightarrow> Some s)"

definition parse_money_amount :: "amount_input \<Rightarrow> string option" where
  "parse_money_amount inp =
     Option.bind (amount_text inp) (\<lambda>s.
       map_option (\<lambda>(integer, fraction). integer @ ''.'' @ pad_end 2 (CHR ''0'') fraction)
         (decimal_parts 18 2 s))"

definition strip_trailing_zeros :: "string \<Rightarrow> string" where
  "strip_trailing_zeros s = rev (dropWhile (\<lambda>c. c = CHR ''0'') (rev s))"

definition parse_donation_amount :: "amount_input \<Rightarrow> string option" where
  "parse_donation_amount inp =
     Option.bind (amount_text inp) (\<lambda>s.
       map_option (\<lambda>(integer, fraction).
           let significant_fraction = strip_trailing_zeros fraction
           in if length significant_fraction \<le> 2
              then integer @ ''.'' @ pad_end 2 (CHR ''0'') significant_fraction
              else integer @ ''.'' @ significant_fraction)
         (decimal_parts 20 18 s))"

text \<open>The amount a decimal text stands for, in units of \<open>10 ^ - k\<close>.\<close>

definition decimal_units :: "nat \<Rightarrow> string \<Rightarrow> nat" where
  "decimal_units k s =
     (case js_split (CHR ''.'') s of
        integer # fraction # _ \<Rightarrow> nat_of_dec integer * 10 ^ k + nat_of_dec (pad_end k (CHR ''0'') fraction)
      | [integer] \<Rightarrow> nat_of_dec integer * 10 ^ k
      | [] \<Rightarrow> 0)"

section \<open>Objects\<close>

record video_queue =
  videoQueueId :: int
  queueLabel :: string
  queueIsDefault :: bool

text \<open>Parsing a row trims its label: \<open>VideoQueueSchema.parse\<close>.\<close>

definition parse_video_queue :: "video_queue \<Rightarrow> video_queue option" where
  "parse_video_queue q =
     (if z_positive_int (videoQueueId q)
      then map_option (\<lambda>l. q\<lparr>queueLabel := l\<rparr>) (parse_label (queueLabel q))
      else None)"

record donation_item =
  donationId :: int
  donationSource :: donation_source
  sourceDonationId :: string
  donationUserId :: int
  donationAuthor :: "string option"
  donationMessage :: "string option"
  donationAmount :: nat
  donationCurrency :: string
  sourceCreatedAt :: string
  occurredAt :: timestamp

text \<open>Amounts of donations are units of \<open>10 ^ -18\<close>; 20 integral digits make \<open>10 ^ 38\<close> units.\<close>

definition valid_donation :: "donation_item \<Rightarrow> bool" where
  "valid_donation d \<longleftrightarrow>
     valid_donation_id (donationId d) \<and> 1 \<le> length (sourceDonationId d) \<and>
     valid_user_id (donationUserId d) \<and> donationAmount d < 10 ^ 38 \<and>
     valid_donation_asset (donationCurrency d) \<and> 1 \<le> length (sourceCreatedAt d)"

record video_item =
  videoTitle :: "string option"
  durationSeconds :: "int option"
  metadataUnavailable :: bool
  metadataRetryAt :: "timestamp option"
  videoId :: int
  itemQueueId :: int
  itemPriorityId :: "int option"
  providerVideoId :: string
  videoUrl :: string
  queueAmount :: "nat option"
  queueCurrency :: queue_currency
  startSeconds :: int
  endSeconds :: "int option"
  priorityLabel :: "string option"
  watchedAt :: "timestamp option"
  bookmarkedAt :: "timestamp option"
  createdAt :: timestamp
  videoSource :: video_source
  videoDonation :: "donation_item option"

text \<open>Queue amounts are cents; 18 integral digits make \<open>10 ^ 20\<close> cents.\<close>

definition valid_video_base :: "(string \<Rightarrow> bool) \<Rightarrow> video_item \<Rightarrow> bool" where
  "valid_video_base is_url v \<longleftrightarrow>
     optional_holds (\<lambda>t. parse_title t \<noteq> None) (videoTitle v) \<and>
     optional_holds z_positive_int (durationSeconds v) \<and>
     valid_video_id (videoId v) \<and> z_positive_int (itemQueueId v) \<and>
     optional_holds valid_video_priority_id (itemPriorityId v) \<and>
     1 \<le> length (providerVideoId v) \<and> is_url (videoUrl v) \<and>
     optional_holds (\<lambda>a. a < 10 ^ 20) (queueAmount v) \<and>
     z_nonnegative_int (startSeconds v) \<and> optional_holds z_positive_int (endSeconds v)"

definition valid_video :: "(string \<Rightarrow> bool) \<Rightarrow> video_item \<Rightarrow> bool" where
  "valid_video is_url v \<longleftrightarrow>
     valid_video_base is_url v \<and>
     (case videoSource v of
        Donation_source \<Rightarrow> (case videoDonation v of None \<Rightarrow> False | Some d \<Rightarrow> valid_donation d)
      | Manual_source \<Rightarrow> videoDonation v = None) \<and>
     optional_holds (\<lambda>e. e > startSeconds v) (endSeconds v)"

record video_priority =
  videoPriorityId :: int
  priorityName :: string
  minPricePerMinute :: nat
  priorityIsDefault :: bool

definition parse_video_priority :: "video_priority \<Rightarrow> video_priority option" where
  "parse_video_priority p =
     (if valid_video_priority_id (videoPriorityId p) \<and> minPricePerMinute p < 10 ^ 20
      then map_option (\<lambda>l. p\<lparr>priorityName := l\<rparr>) (parse_label (priorityName p))
      else None)"

record public_queue_settings =
  settingsEnabled :: bool
  showAmounts :: bool
  showWatchedVideos :: bool

datatype display_amount = QueueCents nat | DonationUnits nat

record shared_video =
  sharedTitle :: "string option"
  sharedMetadataUnavailable :: bool
  sharedVideoId :: int
  sharedPriorityId :: "int option"
  sharedUrl :: string
  sharedStartSeconds :: int
  sharedEndSeconds :: "int option"
  sharedDurationSeconds :: "int option"
  sharedPriorityLabel :: "string option"
  sharedWatchedAt :: "timestamp option"
  sharedCreatedAt :: timestamp
  displayAmount :: "display_amount option"
  displayCurrency :: "string option"

definition valid_display_amount :: "display_amount \<Rightarrow> bool" where
  "valid_display_amount a =
     (case a of QueueCents n \<Rightarrow> n < 10 ^ 22 | DonationUnits n \<Rightarrow> n < 10 ^ 38)"

definition valid_shared_video :: "(string \<Rightarrow> bool) \<Rightarrow> shared_video \<Rightarrow> bool" where
  "valid_shared_video is_url v \<longleftrightarrow>
     optional_holds (\<lambda>t. parse_title t \<noteq> None) (sharedTitle v) \<and>
     valid_video_id (sharedVideoId v) \<and>
     optional_holds valid_video_priority_id (sharedPriorityId v) \<and> is_url (sharedUrl v) \<and>
     z_nonnegative_int (sharedStartSeconds v) \<and>
     optional_holds z_positive_int (sharedEndSeconds v) \<and>
     optional_holds z_positive_int (sharedDurationSeconds v) \<and>
     optional_holds valid_display_amount (displayAmount v) \<and>
     optional_holds valid_donation_asset (displayCurrency v) \<and>
     optional_holds (\<lambda>e. e > sharedStartSeconds v) (sharedEndSeconds v) \<and>
     (displayAmount v = None) = (displayCurrency v = None)"

record user_info =
  infoUserId :: int
  infoSlug :: string
  infoQueueCurrency :: queue_currency
  hasDonationAlertsConnection :: bool
  hasDonateStreamConnection :: bool
  hasStreamlabsConnection :: bool
  hasTourniquetConnection :: bool
  hasStreamElementsConnection :: bool
  streamElementsConnectionStatus :: "donation_source_connection_status option"
  publicQueueSettings :: public_queue_settings

definition valid_user_info :: "user_info \<Rightarrow> bool" where
  "valid_user_info u \<longleftrightarrow> valid_user_id (infoUserId u) \<and> valid_slug (infoSlug u)"

section \<open>Facts about money\<close>

lemma digits_within_no_dot: "digits_within n w \<Longrightarrow> CHR ''.'' \<notin> set w"
  by (auto simp: digits_within_def list_all_iff is_digit_def code_def)

lemma decimal_parts_Some:
  assumes "decimal_parts i f s = Some (a, b)"
  shows "digits_within i a" and "b = [] \<or> digits_within f b"
    and "s = (if b = [] then a else a @ ''.'' @ b)"
proof -
  obtain w where w: "js_split (CHR ''.'') s = w" and "js_join ''.'' w = s"
    using js_split_join by blast
  with assms show "digits_within i a" "b = [] \<or> digits_within f b" "s = (if b = [] then a else a @ ''.'' @ b)"
    by (auto simp: decimal_parts_def digits_within_def split: list.splits if_splits)
qed

lemma decimal_parts_join:
  assumes "digits_within i a" and "digits_within f b"
  shows "decimal_parts i f (a @ ''.'' @ b) = Some (a, b)"
  using assms digits_within_no_dot by (simp add: decimal_parts_def js_split_append js_split_no_sep)

lemma nat_of_dec_append_gen: "nat_of_dec (a @ b) = nat_of_dec a * 10 ^ length b + nat_of_dec b"
proof (induction b rule: rev_induct)
  case (snoc c b)
  have "nat_of_dec (a @ b @ [c]) = nat_of_dec (a @ b) * 10 + digit_val c"
    using nat_of_dec_append [of "a @ b" c] by simp
  with snoc show ?case by (simp add: nat_of_dec_append algebra_simps)
qed (simp add: nat_of_dec_def)

lemma nat_of_dec_zeros [simp]: "nat_of_dec (replicate k (CHR ''0'')) = 0"
  by (simp add: nat_of_dec_def foldl_dec_pad)

lemma pad_end_value: "length b \<le> k \<Longrightarrow> nat_of_dec (pad_end k (CHR ''0'') b) = nat_of_dec b * 10 ^ (k - length b)"
  by (simp add: pad_end_def nat_of_dec_append_gen)

lemma digits_within_pad_end:
  assumes "b = [] \<or> digits_within n b" and "0 < n"
  shows "digits_within n (pad_end n (CHR ''0'') b)"
  using assms by (auto simp: digits_within_def pad_end_def list_all_iff is_digit_def code_def)

lemma parse_money_amount_Some:
  assumes "parse_money_amount inp = Some t"
  obtains s a b where "amount_text inp = Some s" and "decimal_parts 18 2 s = Some (a, b)"
    and "t = a @ ''.'' @ pad_end 2 (CHR ''0'') b"
  using assms by (auto simp: parse_money_amount_def bind_eq_Some_conv)

lemma decimal_units_join:
  assumes "CHR ''.'' \<notin> set a" and "CHR ''.'' \<notin> set b"
  shows "decimal_units k (a @ ''.'' @ b) = nat_of_dec a * 10 ^ k + nat_of_dec (pad_end k (CHR ''0'') b)"
    and "decimal_units k a = nat_of_dec a * 10 ^ k"
  using assms by (simp_all add: decimal_units_def js_split_append js_split_no_sep)

lemma pad_end_idem [simp]: "pad_end k c (pad_end k c b) = pad_end k c b"
  by (simp add: pad_end_def)

text \<open>
  A money amount is stored as it was written: parsing keeps its value to the cent, yields the
  canonical text with exactly two decimals, and parsing a canonical text changes nothing.
\<close>

theorem money_amount_canonical:
  assumes "parse_money_amount inp = Some t"
  shows "parse_money_amount (TextInput t) = Some t \<and>
    (\<exists>s. amount_text inp = Some s \<and> decimal_units 2 t = decimal_units 2 s) \<and>
    (\<exists>integer fraction. t = integer @ ''.'' @ fraction \<and> digits_within 18 integer \<and>
        list_all is_digit fraction \<and> length fraction = 2)"
proof -
  obtain s a b where s: "amount_text inp = Some s" and parts: "decimal_parts 18 2 s = Some (a, b)"
    and t: "t = a @ ''.'' @ pad_end 2 (CHR ''0'') b"
    using assms by (rule parse_money_amount_Some)
  note p = decimal_parts_Some [OF parts]
  let ?f = "pad_end 2 (CHR ''0'') b"
  have f: "digits_within 2 ?f" using p(2) by (rule digits_within_pad_end) simp
  have len: "length ?f = 2" using p(2) by (auto simp: digits_within_def)
  have again: "parse_money_amount (TextInput t) = Some t"
    unfolding parse_money_amount_def amount_text_def t
    using decimal_parts_join [OF p(1) f] by simp
  have nd: "CHR ''.'' \<notin> set a" "CHR ''.'' \<notin> set ?f" "CHR ''.'' \<notin> set b"
    using p(1,2) f digits_within_no_dot by auto
  have "decimal_units 2 t = nat_of_dec a * 10 ^ 2 + nat_of_dec ?f"
    unfolding t using decimal_units_join(1) [OF nd(1,2)] by simp
  also have "\<dots> = decimal_units 2 s"
  proof (cases "b = []")
    case True
    then have "?f = replicate 2 (CHR ''0'')" by (simp add: pad_end_def)
    then show ?thesis
      using p(3) True decimal_units_join(2) [OF nd(1,3), of 2] by (simp only: nat_of_dec_zeros) simp
  next
    case False
    then show ?thesis using p(3) decimal_units_join(1) [OF nd(1,3), of 2] by simp
  qed
  finally have "decimal_units 2 t = decimal_units 2 s" .
  moreover have "list_all is_digit ?f" using f by (simp add: digits_within_def)
  ultimately show ?thesis using again s p(1) len t by blast
qed

theorem money_amount_canonical_witness:
  "parse_money_amount (TextInput ''7.5'') = Some ''7.50'' \<and>
   parse_money_amount (TextInput ''7.50'') = Some ''7.50''"
proof -
  have h: "parse_money_amount (TextInput ''7.5'') = Some ''7.50''"
    by (simp add: parse_money_amount_def amount_text_def decimal_parts_def digits_within_def
        is_digit_def code_def pad_end_def)
  show ?thesis using h money_amount_canonical [OF h] by simp
qed

section \<open>Stored labels\<close>

text \<open>
  A label that its schema leaves as it is, and the check of the tables with labels:
  \<open>char_length(trim(BOTH FROM label))\<close> between 1 and 64.
\<close>

definition label_ok :: "string \<Rightarrow> bool" where
  "label_ok l \<longleftrightarrow> parse_label l = Some l"

definition label_check :: "string \<Rightarrow> bool" where
  "label_check l \<longleftrightarrow>
     (let t = dropWhile (\<lambda>c. c = CHR '' '') (rev (dropWhile (\<lambda>c. c = CHR '' '') (rev l)))
      in 1 \<le> length t \<and> length t \<le> 64)"

lemma dropWhile_full: "length (dropWhile p xs) = length xs \<Longrightarrow> dropWhile p xs = xs"
proof -
  assume "length (dropWhile p xs) = length xs"
  moreover have "length (takeWhile p xs) + length (dropWhile p xs) = length xs"
    by (metis length_append takeWhile_dropWhile_id)
  ultimately show ?thesis by (metis add_cancel_right_left append_Nil length_0_conv takeWhile_dropWhile_id)
qed

lemma trimmed_ends:
  assumes "js_trim l = l"
  shows "dropWhile is_space l = l" and "dropWhile is_space (rev l) = rev l"
proof -
  let ?d = "dropWhile is_space l"
  have "length (js_trim l) \<le> length ?d"
    unfolding js_trim_def by (metis length_dropWhile_le length_rev)
  moreover have "length ?d \<le> length l" by (rule length_dropWhile_le)
  ultimately have "length ?d = length l" using assms by simp
  then show d: "?d = l" by (rule dropWhile_full)
  show "dropWhile is_space (rev l) = rev l"
    using assms d unfolding js_trim_def by (metis rev_rev_ident)
qed

lemma dropWhile_blank:
  assumes "dropWhile is_space l = l" shows "dropWhile (\<lambda>c. c = CHR '' '') l = l"
  using assms by (auto simp: dropWhile_eq_self_iff is_space_def code_def)

lemma label_ok_check: "label_ok l \<Longrightarrow> label_check l"
proof -
  assume l: "label_ok l"
  then have t: "js_trim l = l" and n: "1 \<le> length l" "length l \<le> 64"
    by (auto simp: label_ok_def parse_label_def Let_def split: if_splits)
  note ends = trimmed_ends [OF t]
  show ?thesis
    using dropWhile_blank [OF ends(1)] dropWhile_blank [OF ends(2)] n by (simp add: label_check_def)
qed

end
