(* ===== verification/Currency.thy ===== *)
theory Currency
  imports Schemas
begin

text \<open>
  Queue currencies and the exchange between them (\<open>packages/src/currency.ts\<close>).  Amounts are
  cents; a conversion multiplies by a fraction of integers, and a rate is always quoted as units
  of the smaller currency for one unit of the larger.  Rounding to the cent is the one of
  PostgreSQL's \<open>round(x, 2)\<close> (half away from zero), applied to the exact quotient.
\<close>

definition rubles_per_unit :: "queue_currency \<Rightarrow> nat" where
  "rubles_per_unit c = (case c of RUB \<Rightarrow> 1 | USD \<Rightarrow> 90 | EUR \<Rightarrow> 100)"

text \<open>Currencies are ordered by the value of their unit.\<close>

instantiation queue_currency :: linorder
begin

definition less_eq_queue_currency :: "queue_currency \<Rightarrow> queue_currency \<Rightarrow> bool" where
  "less_eq_queue_currency a b \<longleftrightarrow> rubles_per_unit a \<le> rubles_per_unit b"

definition less_queue_currency :: "queue_currency \<Rightarrow> queue_currency \<Rightarrow> bool" where
  "less_queue_currency a b \<longleftrightarrow> rubles_per_unit a < rubles_per_unit b"

instance
proof
  fix x y z :: queue_currency
  show "x < y \<longleftrightarrow> x \<le> y \<and> \<not> y \<le> x"
    by (auto simp: less_eq_queue_currency_def less_queue_currency_def)
  show "x \<le> x" by (simp add: less_eq_queue_currency_def)
  show "x \<le> y \<Longrightarrow> y \<le> z \<Longrightarrow> x \<le> z" by (simp add: less_eq_queue_currency_def)
  show "x \<le> y \<Longrightarrow> y \<le> x \<Longrightarrow> x = y"
    by (cases x; cases y) (simp_all add: less_eq_queue_currency_def rubles_per_unit_def)
  show "x \<le> y \<or> y \<le> x" by (auto simp: less_eq_queue_currency_def)
qed

end

definition cents :: "string \<Rightarrow> nat" where
  "cents amount =
     (case js_split (CHR ''.'') amount of
        whole # fraction # _ \<Rightarrow> nat_of_dec whole * 100 + nat_of_dec fraction
      | [whole] \<Rightarrow> nat_of_dec whole * 100 + nat_of_dec ''0''
      | [] \<Rightarrow> 0)"

definition money_amount :: "nat \<Rightarrow> string option" where
  "money_amount n =
     parse_money_amount
       (TextInput (dec_nat (n div 100) @ ''.'' @ pad_start 2 (CHR ''0'') (dec_nat (n mod 100))))"

definition round_div :: "nat \<Rightarrow> nat \<Rightarrow> nat" where
  "round_div numerator denominator = (numerator + denominator div 2) div denominator"

definition conversion_factor_for_currency_change ::
  "queue_currency \<Rightarrow> queue_currency \<Rightarrow> string \<Rightarrow> nat \<times> nat" where
  "conversion_factor_for_currency_change from_c to_c rate =
     (let from_is_larger = rubles_per_unit from_c > rubles_per_unit to_c
      in (if from_is_larger then cents rate else 100, if from_is_larger then 100 else cents rate))"

definition default_currency_change_rate :: "queue_currency \<Rightarrow> queue_currency \<Rightarrow> string option" where
  "default_currency_change_rate from_c to_c =
     (let larger = (if rubles_per_unit from_c > rubles_per_unit to_c then from_c else to_c);
          smaller = (if larger = from_c then to_c else from_c)
      in money_amount (round_div (rubles_per_unit larger) (rubles_per_unit smaller) * 100))"

text \<open>\<open>round(amount * numerator / denominator, 2)\<close> on cents.\<close>

definition round_half_up :: "nat \<Rightarrow> nat \<Rightarrow> nat" where
  "round_half_up n d = (2 * n + d) div (2 * d)"

definition convert_cents :: "nat \<times> nat \<Rightarrow> nat \<Rightarrow> nat" where
  "convert_cents factor amount = round_half_up (amount * fst factor) (snd factor)"

section \<open>Facts\<close>

lemma cents_money: "CHR ''.'' \<notin> set a \<Longrightarrow> CHR ''.'' \<notin> set b \<Longrightarrow>
    cents (a @ ''.'' @ b) = nat_of_dec a * 100 + nat_of_dec b"
  by (simp add: cents_def js_split_append js_split_no_sep)

lemma digits_within_dec_nat: "n < 10 ^ k \<Longrightarrow> 0 < k \<Longrightarrow> digits_within k (dec_nat n)"
  by (auto simp: digits_within_def dec_nat_digits length_dec_nat_le Suc_le_eq)

lemma digits_within_pad_start:
  assumes "digits_within k w" shows "digits_within k (pad_start k (CHR ''0'') w)"
  using assms by (auto simp: digits_within_def pad_start_def list_all_iff is_digit_def code_def)

lemma round_half_up_error:
  assumes "0 < d"
  shows "2 * n < 2 * d * round_half_up n d + d" and "2 * d * round_half_up n d \<le> 2 * n + d"
proof -
  let ?x = "2 * n + d" and ?m = "2 * d"
  have split: "?x = ?m * (?x div ?m) + ?x mod ?m" by simp
  have "?x mod ?m < ?m" using assms by simp
  with split show "2 * n < 2 * d * round_half_up n d + d" "2 * d * round_half_up n d \<le> 2 * n + d"
    unfolding round_half_up_def by linarith+
qed

lemma round_half_up_mono: "m \<le> n \<Longrightarrow> round_half_up m d \<le> round_half_up n d"
  unfolding round_half_up_def by (rule div_le_mono) simp

lemma convert_cents_mono: "a \<le> b \<Longrightarrow> convert_cents f a \<le> convert_cents f b"
  unfolding convert_cents_def by (rule round_half_up_mono) simp

lemma conversion_factor_swap:
  assumes "a \<noteq> b"
  shows "conversion_factor_for_currency_change b a rate =
    prod.swap (conversion_factor_for_currency_change a b rate)"
  using assms by (cases a; cases b)
    (simp_all add: conversion_factor_for_currency_change_def rubles_per_unit_def)

text \<open>
  Changing the queue's currency and changing it back at the same rate brings every amount back
  up to the two roundings: with the rate above one (as it is quoted for the larger currency), an
  amount in the larger currency returns exactly, to the cent.
\<close>

theorem currency_change_and_back:
  assumes "to_c < from_c" and "100 \<le> cents rate"
  shows "convert_cents (conversion_factor_for_currency_change to_c from_c rate)
           (convert_cents (conversion_factor_for_currency_change from_c to_c rate) amount) = amount"
proof -
  let ?r = "cents rate"
  have f: "conversion_factor_for_currency_change from_c to_c rate = (?r, 100)"
    using assms(1) by (simp add: conversion_factor_for_currency_change_def less_queue_currency_def)
  then have g: "conversion_factor_for_currency_change to_c from_c rate = (100, ?r)"
    using assms(1) conversion_factor_swap [of from_c to_c rate] by auto
  define y where "y = round_half_up (amount * ?r) 100"
  have y: "2 * (amount * ?r) < 200 * y + 100" "200 * y \<le> 2 * (amount * ?r) + 100"
    using round_half_up_error [of 100 "amount * ?r"] unfolding y_def by simp_all
  have "round_half_up (y * 100) ?r = amount"
    unfolding round_half_up_def
  proof (rule div_nat_eqI)
    show "2 * ?r * amount \<le> 2 * (y * 100) + ?r" using y assms(2) by (simp add: algebra_simps)
    have "200 * y < 2 * (amount * ?r) + ?r"
    proof (cases "?r = 100")
      case True
      have "200 * y \<le> 200 * amount + 100" using y(2) True by simp
      then have "200 * y < 200 * amount + 100" by presburger
      then show ?thesis using True by simp
    qed (use y(2) assms(2) in linarith)
    then show "2 * (y * 100) + ?r < 2 * ?r * Suc amount" by (simp add: algebra_simps)
  qed
  then show ?thesis by (simp add: f g convert_cents_def y_def)
qed

theorem currency_change_and_back_witness:
  "convert_cents (conversion_factor_for_currency_change RUB USD ''81.47'')
     (convert_cents (conversion_factor_for_currency_change USD RUB ''81.47'') 1999) = 1999"
proof -
  have "100 \<le> cents ''81.47''" by (simp add: cents_def nat_of_dec_def digit_val_def code_def)
  moreover have "RUB < USD" by (simp add: less_queue_currency_def rubles_per_unit_def)
  ultimately show ?thesis using currency_change_and_back [of RUB USD "''81.47''" 1999] by blast
qed

text \<open>
  The rate the settings page proposes is a valid money amount of at least one unit, and the
  exchange proposed for a change is the one proposed for the change back.
\<close>

theorem default_rate_valid:
  "\<exists>rate. default_currency_change_rate a b = Some rate \<and>
     default_currency_change_rate b a = Some rate \<and>
     parse_money_amount (TextInput rate) = Some rate \<and> 100 \<le> cents rate \<and> rate \<noteq> ''0.00''"
proof -
  let ?t = "\<lambda>n. dec_nat n @ ''.'' @ ''00''"
  have p: "parse_money_amount (TextInput (?t n)) = Some (?t n)" and c: "cents (?t n) = n * 100"
    if "n < 1000" for n
  proof -
    have "digits_within 18 (dec_nat n)" using that by (intro digits_within_dec_nat) simp_all
    moreover have "digits_within 2 ''00''" by (simp add: digits_within_def is_digit_def code_def)
    ultimately show "parse_money_amount (TextInput (?t n)) = Some (?t n)"
      using decimal_parts_join [of 18 "dec_nat n" 2 "''00''"]
      by (simp add: parse_money_amount_def amount_text_def pad_end_def)
    have "nat_of_dec ''00'' = 0" by (simp add: nat_of_dec_def digit_val_def code_def)
    then show "cents (?t n) = n * 100"
      using cents_money [of "dec_nat n" "''00''"] by simp
  qed
  let ?n = "\<lambda>a b. round_div (max (rubles_per_unit a) (rubles_per_unit b))
                            (min (rubles_per_unit a) (rubles_per_unit b))"
  have n: "1 \<le> ?n a b \<and> ?n a b < 1000"
    by (cases a; cases b) (simp_all add: rubles_per_unit_def round_div_def)
  have "digit 0 = CHR ''0''"
    using digit_of_digit_val [of "CHR ''0''"] by (simp add: is_digit_def digit_val_def code_def)
  then have z: "dec_nat 0 = ''0''" by (subst dec_nat.simps) simp
  have m: "money_amount (?n a b * 100) = Some (?t (?n a b))"
    using p [of "?n a b"] n by (simp add: money_amount_def z pad_start_def)
  have d: "default_currency_change_rate a b = money_amount (?n a b * 100)"
    "default_currency_change_rate b a = money_amount (?n a b * 100)"
    by (cases a; cases b;
        simp add: default_currency_change_rate_def Let_def rubles_per_unit_def round_div_def)+
  have "cents ''0.00'' = 0" by (simp add: cents_def nat_of_dec_def digit_val_def code_def)
  then have "?t (?n a b) \<noteq> ''0.00''" using c [of "?n a b"] n by auto
  then show ?thesis using d m p [of "?n a b"] c [of "?n a b"] n by auto
qed

end
