(* ===== verification/VideoQueueDb.thy ===== *)
theory VideoQueueDb
  imports Currency
begin

text \<open>
  The PostgreSQL tables behind the video queues, as lists of rows, with the constraints of
  \<open>db/schema.sql\<close> the queue's statements can violate, the trigger that assigns a video its
  priority, and the invariant \<open>db_ok\<close> of a well-formed database.  Amounts of queues are cents,
  amounts of donations units of \<open>10 ^ -18\<close>; quotients of numerics are exact here, where
  PostgreSQL keeps at least sixteen significant digits.
\<close>

section \<open>Rows\<close>

record user_row =
  u_id :: int
  u_auth_id :: string
  u_slug :: string
  u_currency :: queue_currency
  u_public_enabled :: bool
  u_show_amounts :: bool
  u_show_watched :: bool

record queue_row =
  q_id :: int
  q_user :: int
  q_label :: string
  q_default :: bool

record priority_row =
  p_id :: int
  p_user :: int
  p_label :: string
  p_min :: nat
  p_default :: bool

record donation_row =
  d_id :: int
  d_source :: donation_source
  d_source_id :: string
  d_user :: int
  d_author :: "string option"
  d_message :: "string option"
  d_amount :: nat
  d_currency :: string
  d_source_created_at :: string
  d_occurred_at :: timestamp

record video_row =
  v_id :: int
  v_donation :: "int option"
  v_user :: "int option"
  v_added_at :: "timestamp option"
  v_provider_id :: string
  v_url :: string
  v_amount :: "nat option"
  v_start :: int
  v_end :: "int option"
  v_duration :: "int option"
  v_watched_at :: "timestamp option"
  v_bookmarked_at :: "timestamp option"
  v_priority :: "int option"
  v_title :: "string option"
  v_queue :: int

record metadata_job_row =
  j_video :: int
  j_available_at :: timestamp
  j_lease_expires_at :: "timestamp option"
  j_completed_at :: "timestamp option"
  j_last_attempt_at :: "timestamp option"
  j_last_error :: "string option"

record db =
  users :: "user_row list"
  queues :: "queue_row list"
  priorities :: "priority_row list"
  donations :: "donation_row list"
  videos :: "video_row list"
  jobs :: "metadata_job_row list"
  next_user_id :: int
  next_queue_id :: int
  next_priority_id :: int
  next_video_id :: int

datatype pg_error =
    ConstraintViolation string
  | RaisedException string
  | DivisionByZero
  | NumericOutOfRange
  | SequenceLimit

definition in_int4 :: "int \<Rightarrow> bool" where
  "in_int4 x \<longleftrightarrow> - 2147483648 \<le> x \<and> x \<le> 2147483647"

definition in_int8 :: "int \<Rightarrow> bool" where
  "in_int8 x \<longleftrightarrow> - (2 ^ 63) \<le> x \<and> x < 2 ^ 63"

section \<open>Ownership\<close>

text \<open>
  \<open>coalesce(video.user_id, donation.user_id)\<close> after the left join with the donations, given as
  pairs of donation and owner.
\<close>

definition owner_in :: "(int \<times> int) list \<Rightarrow> video_row \<Rightarrow> int option" where
  "owner_in donation_owners v =
     (case v_user v of Some u \<Rightarrow> Some u
      | None \<Rightarrow> Option.bind (v_donation v) (map_of donation_owners))"

definition donation_owners :: "db \<Rightarrow> (int \<times> int) list" where
  "donation_owners db = map (\<lambda>d. (d_id d, d_user d)) (donations db)"

definition owner_of :: "db \<Rightarrow> video_row \<Rightarrow> int option" where
  "owner_of db v = owner_in (donation_owners db) v"

definition find_donation :: "db \<Rightarrow> video_row \<Rightarrow> donation_row option" where
  "find_donation db v = first_row (filter (\<lambda>d. Some (d_id d) = v_donation v) (donations db))"

definition find_priority :: "db \<Rightarrow> video_row \<Rightarrow> priority_row option" where
  "find_priority db v = first_row (filter (\<lambda>p. Some (p_id p) = v_priority v) (priorities db))"

definition find_user :: "db \<Rightarrow> int \<Rightarrow> user_row option" where
  "find_user db uid = first_row (filter (\<lambda>u. u_id u = uid) (users db))"

section \<open>The priority trigger\<close>

text \<open>
  \<open>min_price_per_minute <= queue_amount * 60 / (end_seconds - start_seconds)\<close>, without the
  division; \<open>d\<close> is the length of the clip and not zero.
\<close>

definition affordable :: "nat \<Rightarrow> int \<Rightarrow> nat \<Rightarrow> bool" where
  "affordable amount d threshold \<longleftrightarrow>
     (if 0 < d then int threshold * d \<le> int amount * 60 else int amount * 60 \<le> int threshold * d)"

text \<open>Rows ordered by threshold, the highest first, then by id.\<close>

definition by_threshold :: "priority_row list \<Rightarrow> priority_row list" where
  "by_threshold ps = sort_key (\<lambda>p. (- int (p_min p), p_id p)) ps"

definition priorities_of :: "db \<Rightarrow> int option \<Rightarrow> priority_row list" where
  "priorities_of db uid = filter (\<lambda>p. Some (p_user p) = uid) (priorities db)"

definition pick_priority :: "db \<Rightarrow> int option \<Rightarrow> nat \<Rightarrow> int \<Rightarrow> priority_row option" where
  "pick_priority db uid amount d =
     first_row (by_threshold (filter (\<lambda>p. affordable amount d (p_min p)) (priorities_of db uid)))"

text \<open>The video is not priced: no amount, no end, or a start at or after the end of the video.\<close>

definition unpriced :: "video_row \<Rightarrow> bool" where
  "unpriced v \<longleftrightarrow>
     v_amount v = None \<or> v_end v = None \<or>
     (case v_duration v of None \<Rightarrow> False | Some d \<Rightarrow> v_start v \<ge> d)"

text \<open>
  \<open>set_video_priority_id()\<close>: \<open>old\<close> is the row before an update and \<open>None\<close> for an insert,
  \<open>retain\<close> the transaction-local setting \<open>streambrew.retain_video_priority\<close>.  The statements of
  the application always name a queue, so the default the trigger would fill in is not needed.
\<close>

definition keeps_assignment :: "bool \<Rightarrow> video_row \<Rightarrow> video_row \<Rightarrow> bool" where
  "keeps_assignment retain old new \<longleftrightarrow>
     (v_amount new = v_amount old \<or> retain) \<and> v_start new = v_start old \<and>
     v_end new = v_end old \<and> v_donation new = v_donation old \<and> v_user new = v_user old \<and>
     v_priority new = v_priority old \<and> v_priority old \<noteq> None"

definition queue_belongs :: "db \<Rightarrow> int option \<Rightarrow> int \<Rightarrow> bool" where
  "queue_belongs db owner_id qid \<longleftrightarrow> (\<exists>q \<in> set (queues db). q_id q = qid \<and> Some (q_user q) = owner_id)"

definition priority_belongs :: "db \<Rightarrow> int option \<Rightarrow> int \<Rightarrow> bool" where
  "priority_belongs db owner_id pid \<longleftrightarrow>
     (\<exists>p \<in> set (priorities db). p_id p = pid \<and> Some (p_user p) = owner_id)"

definition set_video_priority_id ::
  "db \<Rightarrow> bool \<Rightarrow> video_row option \<Rightarrow> video_row \<Rightarrow> pg_error + video_row" where
  "set_video_priority_id db retain old new =
     (let owner_id = owner_of db new in
      if \<not> queue_belongs db owner_id (v_queue new)
      then Inl (RaisedException ''video queue does not belong to video owner'')
      else if \<not> optional_holds (priority_belongs db owner_id) (v_priority new)
      then Inl (RaisedException ''video priority does not belong to video owner'')
      else if unpriced new then Inr (new\<lparr>v_priority := None\<rparr>)
      else if optional_holds (\<lambda>prev. keeps_assignment retain prev new) old \<and> old \<noteq> None then Inr new
      else if priorities_of db owner_id \<noteq> [] \<and> the (v_end new) = v_start new then Inl DivisionByZero
      else case pick_priority db owner_id (the (v_amount new)) (the (v_end new) - v_start new) of
             None \<Rightarrow> Inl (RaisedException ''no video priority for user'')
           | Some p \<Rightarrow> Inr (new\<lparr>v_priority := Some (p_id p)\<rparr>))"

text \<open>The domain of \<open>end_seconds\<close>, the trigger, then the table's check constraints.\<close>

definition video_check :: "video_row \<Rightarrow> bool" where
  "video_check v \<longleftrightarrow>
     (v_donation v \<noteq> None \<and> v_user v = None \<and> v_added_at v = None) \<or>
     (v_donation v = None \<and> v_user v \<noteq> None \<and> v_added_at v \<noteq> None)"

definition video_check1 :: "video_row \<Rightarrow> bool" where
  "video_check1 v \<longleftrightarrow> (case v_end v of None \<Rightarrow> True | Some e \<Rightarrow> e > v_start v)"

definition store_video ::
  "db \<Rightarrow> bool \<Rightarrow> video_row option \<Rightarrow> video_row \<Rightarrow> pg_error + video_row" where
  "store_video db retain old new =
     (if \<not> (case v_end new of None \<Rightarrow> True | Some e \<Rightarrow> 0 < e)
      then Inl (ConstraintViolation ''positive_int_check'')
      else bind_result (set_video_priority_id db retain old new) (\<lambda>row.
        if \<not> video_check row then Inl (ConstraintViolation ''video_check'')
        else if \<not> video_check1 row then Inl (ConstraintViolation ''video_check1'')
        else Inr row))"

text \<open>
  \<open>UPDATE video SET ... WHERE p\<close> of columns the trigger watches: \<open>f\<close> evaluates the assignments on a
  row, and one failing row fails the statement.
\<close>

fun store_all :: "('a \<Rightarrow> 'e + 'b) \<Rightarrow> 'a list \<Rightarrow> 'e + 'b list" where
  "store_all f [] = Inr []"
| "store_all f (x # xs) =
     bind_result (f x) (\<lambda>y. bind_result (store_all f xs) (\<lambda>ys. Inr (y # ys)))"

definition update_videos ::
  "db \<Rightarrow> bool \<Rightarrow> (video_row \<Rightarrow> bool) \<Rightarrow> (video_row \<Rightarrow> pg_error + video_row) \<Rightarrow>
    pg_error + video_row list" where
  "update_videos db retain p f =
     store_all (\<lambda>v. if p v then bind_result (f v) (store_video db retain (Some v)) else Inr v) (videos db)"

section \<open>The invariant\<close>

definition queue_keys :: "db \<Rightarrow> (int \<times> int) list" where
  "queue_keys db = map (\<lambda>q. (q_id q, q_user q)) (queues db)"

definition priority_keys :: "db \<Rightarrow> (int \<times> int) list" where
  "priority_keys db = map (\<lambda>p. (p_id p, p_user p)) (priorities db)"

definition user_ids :: "db \<Rightarrow> int list" where
  "user_ids db = map u_id (users db)"

definition int4_id :: "int \<Rightarrow> int \<Rightarrow> bool" where
  "int4_id bound x \<longleftrightarrow> 0 < x \<and> x < bound \<and> in_int4 x"

definition users_ok :: "db \<Rightarrow> bool" where
  "users_ok db \<longleftrightarrow>
     distinct (user_ids db) \<and> distinct (map u_slug (users db)) \<and>
     distinct (map u_auth_id (users db)) \<and> 0 < next_user_id db \<and>
     (\<forall>u \<in> set (users db). int4_id (next_user_id db) (u_id u) \<and> valid_slug (u_slug u))"

definition queues_ok :: "db \<Rightarrow> bool" where
  "queues_ok db \<longleftrightarrow>
     distinct (map q_id (queues db)) \<and>
     distinct (map (\<lambda>q. (q_user q, q_label q)) (queues db)) \<and>
     0 < next_queue_id db \<and>
     (\<forall>q \<in> set (queues db). int4_id (next_queue_id db) (q_id q) \<and> q_user q \<in> set (user_ids db) \<and>
        label_ok (q_label q)) \<and>
     (\<forall>uid \<in> set (user_ids db).
        length (filter (\<lambda>q. q_user q = uid \<and> q_default q) (queues db)) = 1)"

definition priority_row_ok :: "int list \<Rightarrow> int \<Rightarrow> priority_row \<Rightarrow> bool" where
  "priority_row_ok uids bound p \<longleftrightarrow>
     int4_id bound (p_id p) \<and> p_user p \<in> set uids \<and> label_ok (p_label p) \<and>
     p_min p < 10 ^ 20 \<and> (p_min p = 0 \<longleftrightarrow> p_default p)"

definition priorities_ok :: "db \<Rightarrow> bool" where
  "priorities_ok db \<longleftrightarrow>
     distinct (map p_id (priorities db)) \<and>
     distinct (map (\<lambda>p. (p_user p, p_label p)) (priorities db)) \<and> 0 < next_priority_id db \<and>
     (\<forall>p \<in> set (priorities db). priority_row_ok (user_ids db) (next_priority_id db) p) \<and>
     (\<forall>uid \<in> set (user_ids db).
        length (filter (\<lambda>p. p_user p = uid \<and> p_default p) (priorities db)) = 1)"

definition donation_row_ok :: "int list \<Rightarrow> donation_row \<Rightarrow> bool" where
  "donation_row_ok uids d \<longleftrightarrow>
     0 < d_id d \<and> 1 \<le> length (d_source_id d) \<and> d_user d \<in> set uids \<and> d_amount d < 10 ^ 38 \<and>
     valid_donation_asset (d_currency d) \<and> 1 \<le> length (d_source_created_at d)"

definition donations_ok :: "db \<Rightarrow> bool" where
  "donations_ok db \<longleftrightarrow>
     distinct (map d_id (donations db)) \<and>
     (\<forall>d \<in> set (donations db). donation_row_ok (user_ids db) d)"

text \<open>What is stored of the clip itself: its bounds, its length, its price and its title.\<close>

definition clip_ok :: "video_row \<Rightarrow> bool" where
  "clip_ok v \<longleftrightarrow>
     0 \<le> v_start v \<and> in_int4 (v_start v) \<and>
     optional_holds (\<lambda>e. 0 < e \<and> in_int4 e \<and> v_start v < e) (v_end v) \<and>
     optional_holds (\<lambda>d. 0 < d \<and> in_int4 d) (v_duration v) \<and>
     optional_holds (\<lambda>a. a < 10 ^ 20) (v_amount v) \<and>
     optional_holds (\<lambda>t. parse_title t \<noteq> None) (v_title v)"

definition video_row_ok ::
  "int list \<Rightarrow> (int \<times> int) list \<Rightarrow> (int \<times> int) list \<Rightarrow> (int \<times> int) list \<Rightarrow> video_row \<Rightarrow> bool" where
  "video_row_ok uids qks pks dks v \<longleftrightarrow>
     video_check v \<and> clip_ok v \<and>
     (case owner_in dks v of
        None \<Rightarrow> False
      | Some u \<Rightarrow> u \<in> set uids \<and> (v_queue v, u) \<in> set qks \<and>
                  (case v_priority v of None \<Rightarrow> True | Some p \<Rightarrow> (p, u) \<in> set pks)) \<and>
     (v_priority v = None \<longleftrightarrow> unpriced v)"

abbreviation stored_video_ok :: "db \<Rightarrow> video_row \<Rightarrow> bool" where
  "stored_video_ok db v \<equiv>
     video_row_ok (user_ids db) (queue_keys db) (priority_keys db) (donation_owners db) v"

definition videos_ok :: "db \<Rightarrow> bool" where
  "videos_ok db \<longleftrightarrow>
     distinct (map v_id (videos db)) \<and> 0 < next_video_id db \<and>
     (\<forall>v \<in> set (videos db). 0 < v_id v \<and> v_id v < next_video_id db \<and> stored_video_ok db v)"

definition jobs_ok :: "db \<Rightarrow> bool" where
  "jobs_ok db \<longleftrightarrow>
     distinct (map j_video (jobs db)) \<and> (\<forall>j \<in> set (jobs db). j_video j \<in> set (map v_id (videos db)))"

definition db_ok :: "db \<Rightarrow> bool" where
  "db_ok db \<longleftrightarrow> users_ok db \<and> queues_ok db \<and> priorities_ok db \<and> donations_ok db \<and>
     videos_ok db \<and> jobs_ok db"


section \<open>Facts about the trigger\<close>

lemma set_by_threshold [simp]: "set (by_threshold ps) = set ps"
  by (simp add: by_threshold_def)

lemma pick_priority_Some:
  assumes "pick_priority db uid amount d = Some p"
  shows "p \<in> set (priorities db)" and "Some (p_user p) = uid" and "affordable amount d (p_min p)"
proof -
  have "p \<in> set (filter (\<lambda>p. affordable amount d (p_min p)) (priorities_of db uid))"
    using assms first_row_Some unfolding pick_priority_def by force
  then show "p \<in> set (priorities db)" "Some (p_user p) = uid" "affordable amount d (p_min p)"
    by (auto simp: priorities_of_def)
qed

lemma first_sorted_least:
  fixes k :: "'r \<Rightarrow> 'k::linorder"
  assumes "first_row (sort_key k xs) = Some r" and "x \<in> set xs"
  shows "k r \<le> k x"
proof -
  obtain rest where rest: "sort_key k xs = r # rest"
    using assms(1) by (auto simp: first_row_def split: list.splits)
  moreover have "sorted (map k (sort_key k xs))" by simp
  moreover have "x \<in> set (sort_key k xs)" using assms(2) by simp
  ultimately show ?thesis by auto
qed

lemma pick_priority_highest:
  assumes "pick_priority db uid amount d = Some p"
    and "r \<in> set (priorities db)" and "Some (p_user r) = uid" and "affordable amount d (p_min r)"
  shows "p_min r \<le> p_min p"
proof -
  have "r \<in> set (filter (\<lambda>p. affordable amount d (p_min p)) (priorities_of db uid))"
    using assms(2-4) by (simp add: priorities_of_def)
  then have "(- int (p_min p), p_id p) \<le> (- int (p_min r), p_id r)"
    using assms(1) first_sorted_least unfolding pick_priority_def by_threshold_def by fastforce
  then show ?thesis by auto
qed

lemma pick_priority_None:
  "pick_priority db uid amount d = None \<longleftrightarrow>
     (\<forall>p \<in> set (priorities db). Some (p_user p) = uid \<longrightarrow> \<not> affordable amount d (p_min p))"
  by (auto simp: pick_priority_def priorities_of_def by_threshold_def filter_empty_conv
      simp flip: set_empty)

lemma set_video_priority_id_cases:
  assumes "set_video_priority_id db retain old new = Inr r"
  obtains (unassigned) "unpriced new" and "r = new\<lparr>v_priority := None\<rparr>"
  | (kept) prev where "\<not> unpriced new" and "old = Some prev" and "keeps_assignment retain prev new"
      and "r = new"
  | (picked) p where "\<not> unpriced new"
      and "pick_priority db (owner_of db new) (the (v_amount new)) (the (v_end new) - v_start new) = Some p"
      and "r = new\<lparr>v_priority := Some (p_id p)\<rparr>"
proof -
  let ?owner = "owner_of db new"
  have q: "queue_belongs db ?owner (v_queue new)"
    and o: "optional_holds (priority_belongs db ?owner) (v_priority new)"
    using assms by (auto simp: set_video_priority_id_def Let_def split: if_split_asm)
  consider "unpriced new" | prev where "\<not> unpriced new" "old = Some prev" "keeps_assignment retain prev new"
    | "\<not> unpriced new" "\<not> (optional_holds (\<lambda>prev. keeps_assignment retain prev new) old \<and> old \<noteq> None)"
    by (cases old) (auto simp: optional_holds_def)
  then show thesis
  proof cases
    case 1
    then have "r = new\<lparr>v_priority := None\<rparr>"
      using assms q o by (simp add: set_video_priority_id_def Let_def)
    with 1 show thesis by (rule unassigned)
  next
    case (2 prev)
    then have "r = new"
      using assms q o by (simp add: set_video_priority_id_def Let_def optional_holds_def)
    with 2 show thesis by (rule kept)
  next
    case 3
    then obtain p where "pick_priority db ?owner (the (v_amount new)) (the (v_end new) - v_start new) = Some p"
      and "r = new\<lparr>v_priority := Some (p_id p)\<rparr>"
      using assms q o unfolding set_video_priority_id_def Let_def
      by (cases "pick_priority db ?owner (the (v_amount new)) (the (v_end new) - v_start new)")
        (simp_all split: if_split_asm)
    with 3(1) show thesis by (rule picked)
  qed
qed

lemma set_video_priority_id_owned:
  assumes "set_video_priority_id db retain old new = Inr r"
  shows "queue_belongs db (owner_of db new) (v_queue new)"
    and "v_priority new = Some i \<Longrightarrow> priority_belongs db (owner_of db new) i"
  using assms by (auto simp: set_video_priority_id_def Let_def optional_holds_def split: if_split_asm)

lemma set_video_priority_id_Inr:
  assumes "set_video_priority_id db retain old new = Inr r"
  shows "r = new\<lparr>v_priority := v_priority r\<rparr>"
    and "v_priority r = None \<longleftrightarrow> unpriced new"
    and "v_priority r = Some i \<Longrightarrow> priority_belongs db (owner_of db new) i"
proof -
  have "r = new\<lparr>v_priority := v_priority r\<rparr> \<and> (v_priority r = None \<longleftrightarrow> unpriced new) \<and>
    (v_priority r = Some i \<longrightarrow> priority_belongs db (owner_of db new) i)"
    using assms
  proof (cases rule: set_video_priority_id_cases)
    case (kept prev)
    then show ?thesis using set_video_priority_id_owned(2) [OF assms]
      by (auto simp: keeps_assignment_def)
  next
    case (picked p)
    then show ?thesis using pick_priority_Some [OF picked(2)] by (auto simp: priority_belongs_def)
  qed simp
  then show "r = new\<lparr>v_priority := v_priority r\<rparr>" "v_priority r = None \<longleftrightarrow> unpriced new"
    "v_priority r = Some i \<Longrightarrow> priority_belongs db (owner_of db new) i" by blast+
qed

lemma in_queue_keys [sql_simps]: "(i, u) \<in> set (queue_keys db) \<longleftrightarrow> (\<exists>q \<in> set (queues db). q_id q = i \<and> q_user q = u)"
  by (auto simp: queue_keys_def)

lemma in_priority_keys [sql_simps]:
  "(i, u) \<in> set (priority_keys db) \<longleftrightarrow> (\<exists>p \<in> set (priorities db). p_id p = i \<and> p_user p = u)"
  by (auto simp: priority_keys_def)

lemma unpriced_priority [simp]: "unpriced (v\<lparr>v_priority := x\<rparr>) = unpriced v"
  and clip_ok_priority [simp]: "clip_ok (v\<lparr>v_priority := x\<rparr>) = clip_ok v"
  and video_check_priority [simp]: "video_check (v\<lparr>v_priority := x\<rparr>) = video_check v"
  and video_check1_priority [simp]: "video_check1 (v\<lparr>v_priority := x\<rparr>) = video_check1 v"
  and owner_in_priority [simp]: "owner_in dks (v\<lparr>v_priority := x\<rparr>) = owner_in dks v"
  by (simp_all add: unpriced_def clip_ok_def video_check_def video_check1_def owner_in_def
      cong: option.case_cong)

text \<open>What an insert or update of a video leaves in the table.\<close>

definition clip_fields_ok :: "video_row \<Rightarrow> bool" where
  "clip_fields_ok v \<longleftrightarrow>
     0 \<le> v_start v \<and> in_int4 (v_start v) \<and> optional_holds in_int4 (v_end v) \<and>
     optional_holds (\<lambda>d. 0 < d \<and> in_int4 d) (v_duration v) \<and>
     optional_holds (\<lambda>a. a < 10 ^ 20) (v_amount v) \<and>
     optional_holds (\<lambda>t. parse_title t \<noteq> None) (v_title v)"

lemma clip_ok_fields: "clip_ok v \<Longrightarrow> clip_fields_ok v"
  by (auto simp: clip_ok_def clip_fields_ok_def optional_holds_def split: option.splits)

lemma queue_user_known: "queues_ok db \<Longrightarrow> q \<in> set (queues db) \<Longrightarrow> q_user q \<in> set (user_ids db)"
  by (auto simp: queues_ok_def)

lemma store_video_ok:
  assumes "store_video db retain old new = Inr r" and "queues_ok db" and "clip_fields_ok new"
  shows "stored_video_ok db r" and "r = new\<lparr>v_priority := v_priority r\<rparr>"
proof -
  have trig: "set_video_priority_id db retain old new = Inr r" and chk: "video_check r" "video_check1 r"
    and pos: "case v_end new of None \<Rightarrow> True | Some e \<Rightarrow> 0 < e"
    using assms(1) by (auto simp: store_video_def bind_result_Inr_iff split: if_splits)
  note t = set_video_priority_id_Inr [OF trig]
  show eq: "r = new\<lparr>v_priority := v_priority r\<rparr>" by (rule t(1))
  obtain q where q: "q \<in> set (queues db)" "q_id q = v_queue new" "owner_of db new = Some (q_user q)"
    using set_video_priority_id_owned(1) [OF trig] by (auto simp: queue_belongs_def)
  have own: "owner_in (donation_owners db) r = Some (q_user q)"
    using q(3) by (subst eq) (simp add: owner_of_def)
  have queue: "v_queue r = v_queue new" by (subst eq) simp
  have un: "unpriced r = unpriced new" by (subst eq) simp
  have "video_check1 r = video_check1 new" by (subst eq) simp
  then have c1: "video_check1 new" using chk(2) by simp
  have "clip_ok new"
    using assms(3) pos c1 by (auto simp: clip_ok_def clip_fields_ok_def optional_holds_def
        video_check1_def split: option.splits)
  then have "clip_ok r" by (subst eq) simp
  moreover have "(v_queue r, q_user q) \<in> set (queue_keys db)"
    using q queue by (auto simp: in_queue_keys)
  moreover have "q_user q \<in> set (user_ids db)" using assms(2) q(1) by (rule queue_user_known)
  moreover have "(i, q_user q) \<in> set (priority_keys db)" if "v_priority r = Some i" for i
    using t(3) that q(3) by (auto simp: in_priority_keys priority_belongs_def)
  moreover have "v_priority r = None \<longleftrightarrow> unpriced r" using t(2) un by simp
  ultimately show "stored_video_ok db r"
    using chk(1) own by (simp add: video_row_ok_def split: option.splits)
qed


text \<open>With the default priority every priced clip of positive length finds a priority.\<close>

lemma default_priority_exists:
  assumes "priorities_ok db" and "uid \<in> set (user_ids db)"
  obtains p where "p \<in> set (priorities db)" and "p_user p = uid" and "p_min p = 0"
proof -
  have "length (filter (\<lambda>p. p_user p = uid \<and> p_default p) (priorities db)) = 1"
    using assms by (auto simp: priorities_ok_def)
  then obtain p where "p \<in> set (filter (\<lambda>p. p_user p = uid \<and> p_default p) (priorities db))"
    by (cases "filter (\<lambda>p. p_user p = uid \<and> p_default p) (priorities db)") auto
  then have "p \<in> set (priorities db)" "p_user p = uid" "p_default p" by auto
  with assms(1) show thesis by (auto simp: priorities_ok_def priority_row_ok_def intro!: that)
qed

lemma store_video_total:
  assumes "priorities_ok db" and "queues_ok db" and "video_check new"
    and "optional_holds (\<lambda>e. 0 < e \<and> v_start new < e) (v_end new)"
    and "queue_belongs db (owner_of db new) (v_queue new)"
    and "optional_holds (priority_belongs db (owner_of db new)) (v_priority new)"
  obtains r where "store_video db retain old new = Inr r"
proof -
  have pos: "case v_end new of None \<Rightarrow> True | Some e \<Rightarrow> 0 < e" and c1: "video_check1 new"
    using assms(4) by (auto simp: optional_holds_def video_check1_def split: option.splits)
  have "\<exists>r. set_video_priority_id db retain old new = Inr r"
  proof (cases "unpriced new")
    case True
    then show ?thesis using assms(5,6) by (auto simp: set_video_priority_id_def Let_def)
  next
    case False
    then obtain e where e: "v_end new = Some e" by (auto simp: unpriced_def)
    let ?amount = "the (v_amount new)"
    obtain q where q: "q \<in> set (queues db)" "Some (q_user q) = owner_of db new"
      using assms(5) by (auto simp: queue_belongs_def)
    obtain d where d: "d \<in> set (priorities db)" "p_user d = q_user q" "p_min d = 0"
      using assms(1) queue_user_known [OF assms(2) q(1)] by (rule default_priority_exists)
    have len: "0 < e - v_start new" using e assms(4) by (simp add: optional_holds_def)
    then have "affordable ?amount (e - v_start new) (p_min d)" using d(3) by (simp add: affordable_def)
    then have "pick_priority db (owner_of db new) ?amount (e - v_start new) \<noteq> None"
      unfolding pick_priority_None using d q(2) by metis
    then show ?thesis using False e len assms(5,6)
      by (auto simp: set_video_priority_id_def Let_def)
  qed
  then obtain r where trig: "set_video_priority_id db retain old new = Inr r" ..
  then obtain x where "r = new\<lparr>v_priority := x\<rparr>" using set_video_priority_id_Inr(1) by blast
  with trig have "store_video db retain old new = Inr (new\<lparr>v_priority := x\<rparr>)"
    using pos c1 assms(3) by (simp add: store_video_def)
  then show thesis by (rule that)
qed

section \<open>Facts about statements\<close>

lemma store_all_Inr: "store_all f xs = Inr ys \<longleftrightarrow> list_all2 (\<lambda>x y. f x = Inr y) xs ys"
proof (induction xs arbitrary: ys)
  case (Cons x xs)
  then show ?case by (cases ys) (auto simp: bind_result_Inr_iff)
qed auto

lemma store_all_total:
  assumes "\<And>x. x \<in> set xs \<Longrightarrow> \<exists>y. f x = Inr y"
  shows "\<exists>ys. store_all f xs = Inr ys"
  using assms
proof (induction xs)
  case (Cons x xs)
  then obtain y ys where "f x = Inr y" "store_all f xs = Inr ys" by fastforce
  then show ?case by simp
qed simp

lemma list_all2_map_eq: "list_all2 (\<lambda>x y. g y = h x) xs ys \<Longrightarrow> map g ys = map h xs"
  by (induction rule: list_all2_induct) auto

lemma update_videos_rows:
  assumes "update_videos db retain p f = Inr vs"
  shows "list_all2 (\<lambda>v r. if p v then (\<exists>w. f v = Inr w \<and> store_video db retain (Some v) w = Inr r)
    else r = v) (videos db) vs"
  using assms unfolding update_videos_def store_all_Inr
  by (rule list_all2_mono) (auto simp: bind_result_Inr_iff split: if_splits)

lemma store_video_shape: "store_video db retain old new = Inr r \<Longrightarrow> r = new\<lparr>v_priority := v_priority r\<rparr>"
  by (auto simp: store_video_def bind_result_Inr_iff split: if_splits dest: set_video_priority_id_Inr(1))

lemma update_videos_map:
  assumes "update_videos db retain p f = Inr vs"
    and "\<And>v w x. f v = Inr w \<Longrightarrow> g (w\<lparr>v_priority := x\<rparr>) = g v"
  shows "map g vs = map g (videos db)"
proof (rule list_all2_map_eq)
  show "list_all2 (\<lambda>v r. g r = g v) (videos db) vs"
    using update_videos_rows [OF assms(1)]
  proof (rule list_all2_mono)
    fix v r
    assume "if p v then (\<exists>w. f v = Inr w \<and> store_video db retain (Some v) w = Inr r) else r = v"
    then consider w where "f v = Inr w" "r = w\<lparr>v_priority := v_priority r\<rparr>" | "r = v"
      using store_video_shape by (metis (full_types))
    then show "g r = g v" using assms(2) by cases (metis, simp)
  qed
qed

lemma list_all2_preserves:
  assumes "list_all2 R xs ys" and "\<And>x y. x \<in> set xs \<Longrightarrow> R x y \<Longrightarrow> Q y"
  shows "\<forall>y \<in> set ys. Q y"
  using assms by (induction rule: list_all2_induct) auto

lemma update_videos_ok:
  assumes "update_videos db retain p f = Inr vs" and "queues_ok db" and "videos_ok db"
    and "\<And>v w. v \<in> set (videos db) \<Longrightarrow> p v \<Longrightarrow> f v = Inr w \<Longrightarrow> clip_fields_ok w"
    and "\<And>v w x. f v = Inr w \<Longrightarrow> v_id (w\<lparr>v_priority := x\<rparr>) = v_id v"
  shows "map v_id vs = map v_id (videos db)"
    and "\<forall>v \<in> set vs. 0 < v_id v \<and> v_id v < next_video_id db \<and> stored_video_ok db v"
proof -
  show ids: "map v_id vs = map v_id (videos db)"
    using assms(1,5) by (rule update_videos_map)
  have "\<forall>v \<in> set vs. stored_video_ok db v"
    using update_videos_rows [OF assms(1)]
  proof (rule list_all2_preserves)
    fix v r
    assume "v \<in> set (videos db)"
      and "if p v then (\<exists>w. f v = Inr w \<and> store_video db retain (Some v) w = Inr r) else r = v"
    then show "stored_video_ok db r"
      using store_video_ok(1) assms(2,4) assms(3)[unfolded videos_ok_def]
      by (cases "p v") auto
  qed
  moreover have "\<forall>i \<in> set (map v_id vs). 0 < i \<and> i < next_video_id db"
    using assms(3) unfolding ids by (auto simp: videos_ok_def)
  ultimately show "\<forall>v \<in> set vs. 0 < v_id v \<and> v_id v < next_video_id db \<and> stored_video_ok db v"
    by auto
qed

text \<open>Replacing one table leaves the keys of the others.\<close>

lemma keys_videos [simp]:
  "user_ids (db\<lparr>videos := vs\<rparr>) = user_ids db" "queue_keys (db\<lparr>videos := vs\<rparr>) = queue_keys db"
  "priority_keys (db\<lparr>videos := vs\<rparr>) = priority_keys db"
  "donation_owners (db\<lparr>videos := vs\<rparr>) = donation_owners db"
  by (simp_all add: user_ids_def queue_keys_def priority_keys_def donation_owners_def)

lemma db_ok_videos:
  assumes "db_ok db" and "map v_id vs = map v_id (videos db)"
    and "\<forall>v \<in> set vs. 0 < v_id v \<and> v_id v < next_video_id db \<and> stored_video_ok db v"
  shows "db_ok (db\<lparr>videos := vs\<rparr>)"
proof -
  have "users_ok (db\<lparr>videos := vs\<rparr>)" "queues_ok (db\<lparr>videos := vs\<rparr>)"
    "priorities_ok (db\<lparr>videos := vs\<rparr>)" "donations_ok (db\<lparr>videos := vs\<rparr>)"
    using assms(1) by (simp_all add: db_ok_def users_ok_def queues_ok_def priorities_ok_def donations_ok_def)
  moreover have "videos_ok (db\<lparr>videos := vs\<rparr>)"
    using assms by (simp add: db_ok_def videos_ok_def)
  moreover have "jobs_ok (db\<lparr>videos := vs\<rparr>)"
    using assms(1,2) unfolding db_ok_def jobs_ok_def by simp
  ultimately show ?thesis by (simp add: db_ok_def)
qed

end
