(* ===== verification/Youtube.thy ===== *)
theory Youtube
  imports Prelude
begin

text \<open>
  Recognising YouTube links (\<open>packages/src/youtube.ts\<close>).  The URL parser is the argument
  \<open>rurl\<close>, \<open>None\<close> when it throws; a parsed URL is given by the four parts the code reads.
\<close>

record readonly_url =
  url_protocol :: string
  url_hostname :: string
  url_pathname :: string
  url_search_params :: "(string \<times> string) list"

definition parse_url :: "(string \<Rightarrow> readonly_url option) \<Rightarrow> string \<Rightarrow> readonly_url option" where
  "parse_url rurl url = rurl (if prefix ''www.'' url then ''https://'' @ url else url)"

definition is_youtube_url :: "readonly_url \<Rightarrow> bool" where
  "is_youtube_url url =
     (let host = to_lower (url_hostname url) in
      if url_protocol url \<noteq> ''http:'' \<and> url_protocol url \<noteq> ''https:'' then False
      else host = ''youtu.be'' \<or> host = ''youtube.com'' \<or> suffix ''.youtube.com'' host \<or>
           host = ''youtube-nocookie.com'' \<or> suffix ''.youtube-nocookie.com'' host)"

text \<open>\<open>pathname.match(/^\/(?:embed|shorts)\/([^/]+)/)?.[1]\<close>\<close>

definition path_segment :: "string \<Rightarrow> string option" where
  "path_segment rest =
     (let segment = takeWhile (\<lambda>c. c \<noteq> CHR ''/'') rest in if segment = [] then None else Some segment)"

definition match_embed :: "string \<Rightarrow> string option" where
  "match_embed pathname =
     (case strip_prefix ''/embed/'' pathname of
        Some rest \<Rightarrow> path_segment rest
      | None \<Rightarrow> Option.bind (strip_prefix ''/shorts/'' pathname) path_segment)"

definition youtube_video_id :: "(string \<Rightarrow> readonly_url option) \<Rightarrow> string \<Rightarrow> string option" where
  "youtube_video_id rurl url =
     (case parse_url rurl url of
        None \<Rightarrow> None
      | Some parsed_url \<Rightarrow>
          if \<not> is_youtube_url parsed_url then None
          else (let host = to_lower (url_hostname parsed_url);
                    video =
                      (if host = ''youtu.be''
                       then (case js_split (CHR ''/'') (url_pathname parsed_url) of
                               _ # segment # _ \<Rightarrow> Some segment | _ \<Rightarrow> None)
                       else case map_of (url_search_params parsed_url) ''v'' of
                              Some v \<Rightarrow> Some v
                            | None \<Rightarrow> match_embed (url_pathname parsed_url))
                in if video = Some [] then None else video))"

lemma youtube_video_id_nonempty: "youtube_video_id rurl url = Some video \<Longrightarrow> video \<noteq> []"
  by (auto simp: youtube_video_id_def Let_def split: option.splits if_split_asm)

end
