(* ===== verification/VideoQueue.thy ===== *)
theory VideoQueue
  imports VideoQueueDb Youtube
begin

text \<open>
  The operations of \<open>PostgresVideoQueue\<close> that keep the queues: listing, creating and renaming
  queues, moving, adding, editing and rating videos, and the change of the queue's currency
  (\<open>apps/web/src/server/video-queue/postgres.ts\<close>).  An operation takes the database to an outcome,
  a failure or a result, and the database it leaves; a failed transaction leaves the database as
  it was, but sequences it advanced stay advanced.
\<close>

section \<open>Failures\<close>

datatype video_queue_error_type =
    Invalid_youtube_url
  | Youtube_timing_unavailable
  | Invalid_video_timing
  | Video_not_found
  | Video_queue_not_found
  | Video_queue_name_taken
  | Video_priority_not_found
  | Video_priority_label_taken
  | Invalid_video_priority_threshold

datatype failure =
    VideoQueueError video_queue_error_type
  | DatabaseError pg_error
  | ZodError

type_synonym 'a outcome = "(failure + 'a) \<times> db"

definition constraint_error_types :: "string \<Rightarrow> video_queue_error_type option" where
  "constraint_error_types name =
     (if name = ''video_check1'' then Some Invalid_video_timing
      else if name = ''video_priority_check'' then Some Invalid_video_priority_threshold
      else if name = ''video_priority_user_id_label_key'' then Some Video_priority_label_taken
      else if name = ''video_queue_user_id_label_key'' then Some Video_queue_name_taken
      else None)"

definition violated_constraint :: "pg_error \<Rightarrow> string option" where
  "violated_constraint e = (case e of ConstraintViolation name \<Rightarrow> Some name | _ \<Rightarrow> None)"

definition translate_constraint_violation :: "pg_error \<Rightarrow> failure" where
  "translate_constraint_violation e =
     (case Option.bind (violated_constraint e) constraint_error_types of
        Some type \<Rightarrow> VideoQueueError type | None \<Rightarrow> DatabaseError e)"

text \<open>\<open>schema.parse\<close> of a row and of an array of rows.\<close>

definition parse_row :: "('a \<Rightarrow> 'b option) \<Rightarrow> 'a \<Rightarrow> failure + 'b" where
  "parse_row parse row = (case parse row of None \<Rightarrow> Inl ZodError | Some x \<Rightarrow> Inr x)"

definition parse_array :: "('a \<Rightarrow> 'b option) \<Rightarrow> 'a list \<Rightarrow> failure + 'b list" where
  "parse_array parse rows = store_all (parse_row parse) rows"

definition owns_video :: "db \<Rightarrow> int \<Rightarrow> video_row \<Rightarrow> bool" where
  "owns_video db uid v \<longleftrightarrow>
     v_user v = Some uid \<or>
     (\<exists>d \<in> set (donations db). Some (d_id d) = v_donation v \<and> d_user d = uid)"

section \<open>Queues\<close>

definition queue_item :: "queue_row \<Rightarrow> video_queue" where
  "queue_item q = \<lparr>videoQueueId = q_id q, queueLabel = q_label q, queueIsDefault = q_default q\<rparr>"

definition list_queues :: "db \<Rightarrow> int \<Rightarrow> failure + video_queue list" where
  "list_queues db uid =
     parse_array parse_video_queue
       (map queue_item (sort_key q_id (filter (\<lambda>q. q_user q = uid) (queues db))))"

definition create_queue :: "int \<Rightarrow> string \<Rightarrow> db \<Rightarrow> video_queue outcome" where
  "create_queue uid label db =
     (let qid = next_queue_id db; advanced = db\<lparr>next_queue_id := qid + 1\<rparr> in
      if 2147483647 < qid then (Inl (DatabaseError SequenceLimit), db)
      else if \<not> label_check label
      then (Inl (DatabaseError (ConstraintViolation ''video_queue_label_check'')), advanced)
      else if \<exists>q \<in> set (queues db). q_user q = uid \<and> q_label q = label
      then (Inl (VideoQueueError Video_queue_name_taken), advanced)
      else if uid \<notin> set (user_ids db)
      then (Inl (DatabaseError (ConstraintViolation ''video_queue_user_id_fkey'')), advanced)
      else (let row = \<lparr>q_id = qid, q_user = uid, q_label = label, q_default = False\<rparr> in
            (parse_row parse_video_queue (queue_item row), advanced\<lparr>queues := queues db @ [row]\<rparr>)))"

text \<open>
  The transaction of \<open>updateQueue\<close>: the row to change, the other queues of that name, the cleared
  defaults and the update, whose constraints are the label's length and the two unique indexes.
\<close>

definition clear_default :: "int \<Rightarrow> queue_row list \<Rightarrow> queue_row list" where
  "clear_default uid rows = update_where (\<lambda>q. q_user q = uid \<and> q_default q) (\<lambda>q. q\<lparr>q_default := False\<rparr>) rows"

definition store_queues :: "string \<Rightarrow> queue_row list \<Rightarrow> pg_error + queue_row list" where
  "store_queues label rows =
     (if \<not> label_check label then Inl (ConstraintViolation ''video_queue_label_check'')
      else if \<not> distinct (map (\<lambda>q. (q_user q, q_label q)) rows)
      then Inl (ConstraintViolation ''video_queue_user_id_label_key'')
      else if \<not> distinct (map q_user (filter q_default rows))
      then Inl (ConstraintViolation ''video_queue_default_idx'')
      else Inr rows)"

definition update_queue :: "int \<Rightarrow> int \<Rightarrow> string \<Rightarrow> bool \<Rightarrow> db \<Rightarrow> video_queue outcome" where
  "update_queue uid qid label is_default db =
     atomically db
       (let target = (\<lambda>q. q_user q = uid \<and> q_id q = qid) in
        bind_result (ensure (in_int4 qid) (DatabaseError NumericOutOfRange)) (\<lambda>_.
        bind_result (expect (first_row (filter target (queues db))) (VideoQueueError Video_queue_not_found))
          (\<lambda>existing.
        bind_result (parse_row parse_video_queue (queue_item existing)) (\<lambda>queue.
        bind_result (ensure (\<not> (\<exists>q \<in> set (queues db). q_user q = uid \<and> q_label q = label \<and> q_id q \<noteq> qid))
          (VideoQueueError Video_queue_name_taken)) (\<lambda>_.
        let cleared = (if is_default then clear_default uid (queues db) else queues db);
            updated = update_where target
              (\<lambda>q. q\<lparr>q_label := label, q_default := is_default \<or> queueIsDefault queue\<rparr>) cleared
        in bind_result (map_error translate_constraint_violation (store_queues label updated)) (\<lambda>rows.
           bind_result (expect (first_row (filter target rows)) ZodError) (\<lambda>row.
           bind_result (parse_row parse_video_queue (queue_item row)) (\<lambda>item.
           Inr (item, db\<lparr>queues := rows\<rparr>)))))))))"

text \<open>A single \<open>UPDATE\<close> that matches no row leaves the table as it was.\<close>

definition move_video :: "int \<Rightarrow> int \<Rightarrow> int \<Rightarrow> db \<Rightarrow> unit outcome" where
  "move_video uid vid qid db =
     atomically db
       (let matches = (\<lambda>v. v_id v = vid \<and> owns_video db uid v \<and>
              (\<exists>q \<in> set (queues db). q_id q = qid \<and> q_user q = uid)) in
        bind_result (ensure (in_int8 vid \<and> in_int4 qid) (DatabaseError NumericOutOfRange)) (\<lambda>_.
        bind_result (map_error DatabaseError
          (update_videos db False matches (\<lambda>v. Inr (v\<lparr>v_queue := qid\<rparr>)))) (\<lambda>rows.
        bind_result (ensure (filter matches (videos db) \<noteq> []) (VideoQueueError Video_not_found)) (\<lambda>_.
        Inr ((), db\<lparr>videos := rows\<rparr>)))))"

section \<open>Videos\<close>

text \<open>The parameters of a clip's timing and price as PostgreSQL binds them.\<close>

definition bind_clip :: "nat \<Rightarrow> int \<Rightarrow> int option \<Rightarrow> pg_error + unit" where
  "bind_clip amount start_s end_s =
     bind_result (ensure (amount < 10 ^ 20 \<and> in_int4 start_s \<and> optional_holds in_int4 end_s)
       NumericOutOfRange) (\<lambda>_.
     ensure (0 \<le> start_s) (ConstraintViolation ''nonnegative_int_check''))"

definition manual_video ::
  "int \<Rightarrow> timestamp \<Rightarrow> string \<Rightarrow> string \<Rightarrow> nat \<Rightarrow> int \<Rightarrow> int option \<Rightarrow> int \<Rightarrow> int \<Rightarrow> video_row" where
  "manual_video uid now provider_video_id url amount start_s end_s vid qid =
     \<lparr>v_id = vid, v_donation = None, v_user = Some uid, v_added_at = Some now,
      v_provider_id = provider_video_id, v_url = url, v_amount = Some amount, v_start = start_s,
      v_end = end_s, v_duration = None, v_watched_at = None, v_bookmarked_at = None,
      v_priority = None, v_title = None, v_queue = qid\<rparr>"

text \<open>The trigger \<open>enqueue_video_metadata_job\<close>, after an insert.\<close>

definition enqueue_metadata_job :: "timestamp \<Rightarrow> video_row \<Rightarrow> metadata_job_row list \<Rightarrow> metadata_job_row list" where
  "enqueue_metadata_job now v rows =
     (if v_duration v = None \<and> v_id v \<notin> set (map j_video rows)
      then rows @ [\<lparr>j_video = v_id v, j_available_at = now, j_lease_expires_at = None,
             j_completed_at = None, j_last_attempt_at = None, j_last_error = None\<rparr>]
      else rows)"

text \<open>
  The rows the insert selects: at most one queue matches \<open>videoQueueId\<close> or is the default one, so it
  adds at most one video.
\<close>

definition manual_target ::
  "(string \<Rightarrow> readonly_url option) \<Rightarrow> int \<Rightarrow> string \<Rightarrow> nat \<Rightarrow> int \<Rightarrow> int option \<Rightarrow> int option \<Rightarrow> db \<Rightarrow>
    failure + (string \<times> int)" where
  "manual_target rurl uid url amount start_s end_s queue_id db =
     bind_result (expect (youtube_video_id rurl url) (VideoQueueError Invalid_youtube_url))
       (\<lambda>provider_video_id.
     bind_result (ensure (optional_holds in_int4 queue_id) (DatabaseError NumericOutOfRange)) (\<lambda>_.
     bind_result (map_error DatabaseError (bind_clip amount start_s end_s)) (\<lambda>_.
     bind_result (expect (first_row (filter (\<lambda>q. q_user q = uid \<and>
         (case queue_id of None \<Rightarrow> q_default q | Some i \<Rightarrow> q_id q = i)) (queues db)))
       (VideoQueueError Video_queue_not_found)) (\<lambda>q.
     Inr (provider_video_id, q_id q)))))"

definition add_manual_video ::
  "(string \<Rightarrow> readonly_url option) \<Rightarrow> timestamp \<Rightarrow> int \<Rightarrow> string \<Rightarrow> nat \<Rightarrow> int \<Rightarrow> int option \<Rightarrow>
    int option \<Rightarrow> db \<Rightarrow> int outcome" where
  "add_manual_video rurl now uid url amount start_s end_s queue_id db =
     (case manual_target rurl uid url amount start_s end_s queue_id db of
        Inl e \<Rightarrow> (Inl e, db)
      | Inr (provider_video_id, qid) \<Rightarrow>
          (let vid = next_video_id db; advanced = db\<lparr>next_video_id := vid + 1\<rparr> in
           atomically advanced
             (bind_result (map_error DatabaseError (store_video db False None
                (manual_video uid now provider_video_id url amount start_s end_s vid qid))) (\<lambda>row.
              bind_result (ensure (valid_video_id vid) ZodError) (\<lambda>_.
              Inr (vid, advanced\<lparr>videos := videos db @ [row],
                          jobs := enqueue_metadata_job now row (jobs db)\<rparr>))))))"

definition update_status ::
  "int \<Rightarrow> int \<Rightarrow> timestamp option option \<Rightarrow> timestamp option option \<Rightarrow> db \<Rightarrow> unit outcome" where
  "update_status uid vid watched bookmarked db =
     atomically db
       (let matches = (\<lambda>v. v_id v = vid \<and> owns_video db uid v);
            assign = (\<lambda>v. v\<lparr>v_watched_at := (case watched of Some w \<Rightarrow> w | None \<Rightarrow> v_watched_at v),
                v_bookmarked_at := (case bookmarked of Some b \<Rightarrow> b | None \<Rightarrow> v_bookmarked_at v)\<rparr>) in
        bind_result (ensure (in_int8 vid) (DatabaseError NumericOutOfRange)) (\<lambda>_.
        bind_result (ensure (filter matches (videos db) \<noteq> []) (VideoQueueError Video_not_found)) (\<lambda>_.
        Inr ((), db\<lparr>videos := update_where matches assign (videos db)\<rparr>))))"

definition retry_metadata :: "timestamp \<Rightarrow> int \<Rightarrow> int \<Rightarrow> db \<Rightarrow> bool outcome" where
  "retry_metadata now uid vid db =
     atomically db
       (let matches = (\<lambda>job.
              (\<exists>v \<in> set (videos db). j_video job = v_id v \<and> v_id v = vid \<and> owns_video db uid v \<and>
                 v_duration v = None) \<and>
              optional_holds (\<lambda>t. t \<le> now) (j_lease_expires_at job) \<and>
              optional_holds (\<lambda>t. t \<le> now - 60000) (j_last_attempt_at job)) in
        bind_result (ensure (in_int8 vid) (DatabaseError NumericOutOfRange)) (\<lambda>_.
        Inr (filter matches (jobs db) \<noteq> [],
             db\<lparr>jobs := update_where matches
               (\<lambda>job. job\<lparr>j_completed_at := None, j_available_at := now\<rparr>) (jobs db)\<rparr>)))"

definition edited_clip :: "nat \<Rightarrow> int \<Rightarrow> int option \<Rightarrow> video_row \<Rightarrow> video_row" where
  "edited_clip amount start_s end_s v =
     v\<lparr>v_amount := Some amount, v_start := start_s,
       v_end := (case end_s of Some e \<Rightarrow> Some e | None \<Rightarrow> v_duration v)\<rparr>"

definition update_video :: "int \<Rightarrow> int \<Rightarrow> nat \<Rightarrow> int \<Rightarrow> int option \<Rightarrow> db \<Rightarrow> unit outcome" where
  "update_video uid vid amount start_s end_s db =
     atomically db
       (let matches = (\<lambda>v. v_id v = vid \<and> owns_video db uid v) in
        bind_result (map_error translate_constraint_violation (bind_result
          (ensure (in_int8 vid) NumericOutOfRange) (\<lambda>_. bind_clip amount start_s end_s))) (\<lambda>_.
        bind_result (map_error translate_constraint_violation
          (update_videos db False matches (\<lambda>v. Inr (edited_clip amount start_s end_s v)))) (\<lambda>rows.
        bind_result (ensure (filter matches (videos db) \<noteq> []) (VideoQueueError Video_not_found)) (\<lambda>_.
        Inr ((), db\<lparr>videos := rows\<rparr>)))))"

section \<open>Priorities and the currency\<close>

definition priority_item :: "priority_row \<Rightarrow> video_priority" where
  "priority_item p =
     \<lparr>videoPriorityId = p_id p, priorityName = p_label p, minPricePerMinute = p_min p,
      priorityIsDefault = p_default p\<rparr>"

definition list_priorities :: "db \<Rightarrow> int \<Rightarrow> failure + video_priority list" where
  "list_priorities db uid =
     parse_array parse_video_priority
       (map priority_item (by_threshold (filter (\<lambda>p. p_user p = uid) (priorities db))))"

text \<open>The constraints of an updated priority: its threshold, its label, the unique index.\<close>

definition store_priorities :: "(priority_row \<Rightarrow> bool) \<Rightarrow> priority_row list \<Rightarrow> pg_error + priority_row list" where
  "store_priorities changed rows =
     (if \<exists>p \<in> set rows. changed p \<and> (p_min p = 0) \<noteq> p_default p
      then Inl (ConstraintViolation ''video_priority_check'')
      else if \<exists>p \<in> set rows. changed p \<and> \<not> label_check (p_label p)
      then Inl (ConstraintViolation ''video_priority_label_check'')
      else if \<not> distinct (map (\<lambda>p. (p_user p, p_label p)) rows)
      then Inl (ConstraintViolation ''video_priority_user_id_label_key'')
      else Inr rows)"

definition update_priority :: "int \<Rightarrow> int \<Rightarrow> string \<Rightarrow> nat \<Rightarrow> db \<Rightarrow> video_priority outcome" where
  "update_priority uid pid label min_price db =
     (if \<not> in_int4 pid \<or> 10 ^ 20 \<le> min_price then (Inl (DatabaseError NumericOutOfRange), db)
      else (let this = (\<lambda>p. p_user p = uid \<and> p_id p = pid);
                updated = update_where this
                  (\<lambda>p. p\<lparr>p_label := label, p_min := (if p_default p then 0 else min_price)\<rparr>) (priorities db)
            in case store_priorities this updated of
                 Inl e \<Rightarrow> (Inl (translate_constraint_violation e), db)
               | Inr rows \<Rightarrow>
                   (case first_row (filter this rows) of
                      None \<Rightarrow> (Inl (VideoQueueError Video_priority_not_found), db\<lparr>priorities := rows\<rparr>)
                    | Some p \<Rightarrow> (parse_row parse_video_priority (priority_item p), db\<lparr>priorities := rows\<rparr>))))"

definition convert_amount :: "nat \<times> nat \<Rightarrow> nat \<Rightarrow> pg_error + nat" where
  "convert_amount factor amount =
     (if snd factor = 0 then Inl DivisionByZero else Inr (convert_cents factor amount))"

definition in_money_range :: "nat \<Rightarrow> pg_error + nat" where
  "in_money_range amount = (if amount < 10 ^ 20 then Inr amount else Inl NumericOutOfRange)"

definition convert_priority :: "int \<Rightarrow> nat \<times> nat \<Rightarrow> priority_row \<Rightarrow> pg_error + priority_row" where
  "convert_priority uid factor p =
     (if p_user p \<noteq> uid then Inr p
      else if p_default p then Inr (p\<lparr>p_min := 0\<rparr>)
      else bind_result (convert_amount factor (p_min p)) (\<lambda>c.
             bind_result (in_money_range (max c 1)) (\<lambda>m. Inr (p\<lparr>p_min := m\<rparr>))))"

definition convert_video :: "nat \<times> nat \<Rightarrow> video_row \<Rightarrow> pg_error + video_row" where
  "convert_video factor v =
     (case v_amount v of
        None \<Rightarrow> Inr v
      | Some a \<Rightarrow> bind_result (convert_amount factor a) (\<lambda>c.
                    bind_result (in_money_range c) (\<lambda>m. Inr (v\<lparr>v_amount := Some m\<rparr>))))"

definition set_queue_currency :: "int \<Rightarrow> queue_currency \<Rightarrow> string \<Rightarrow> db \<Rightarrow> queue_currency outcome" where
  "set_queue_currency uid queue_currency rate db =
     atomically db
       (bind_result (expect (find_user db uid) ZodError) (\<lambda>user.
        if u_currency user = queue_currency then Inr (u_currency user, db)
        else (let factor = conversion_factor_for_currency_change (u_currency user) queue_currency rate in
          bind_result (map_error DatabaseError (store_all (convert_priority uid factor) (priorities db)))
            (\<lambda>ps.
          let repriced = db\<lparr>priorities := ps\<rparr> in
          bind_result (map_error DatabaseError (update_videos repriced True
            (\<lambda>v. v_amount v \<noteq> None \<and> owns_video db uid v) (convert_video factor))) (\<lambda>vs.
          Inr (queue_currency,
               repriced\<lparr>videos := vs,
                 users := update_where (\<lambda>u. u_id u = uid)
                   (\<lambda>u. u\<lparr>u_currency := queue_currency\<rparr>) (users db)\<rparr>))))))"

end
