(* ===== verification/VideoQueueInvariant.thy ===== *)
theory VideoQueueInvariant
  imports VideoQueue
begin

text \<open>
  Every operation of the video queue keeps the database well-formed: one lemma per operation, and
  what the rows of a well-formed database parse to.
\<close>

section \<open>Labels and rows\<close>

lemma int4_id_positive: "int4_id b x \<Longrightarrow> z_positive_int x"
  by (simp add: int4_id_def in_int4_def z_positive_int_def z_int_def max_safe_integer_def)

lemma parse_queue_item:
  "label_ok (q_label q) \<Longrightarrow> z_positive_int (q_id q) \<Longrightarrow>
   parse_video_queue (queue_item q) = Some (queue_item q)"
  by (simp add: parse_video_queue_def queue_item_def label_ok_def)

lemma parse_stored_queue:
  assumes "queues_ok db" and "q \<in> set (queues db)"
  shows "parse_video_queue (queue_item q) = Some (queue_item q)"
proof (rule parse_queue_item)
  show "label_ok (q_label q)" using assms by (simp add: queues_ok_def)
  have "int4_id (next_queue_id db) (q_id q)" using assms by (simp add: queues_ok_def)
  then show "z_positive_int (q_id q)" by (rule int4_id_positive)
qed

lemma parse_priority_item:
  "priority_row_ok uids b p \<Longrightarrow> parse_video_priority (priority_item p) = Some (priority_item p)"
  by (auto simp: parse_video_priority_def priority_item_def label_ok_def priority_row_ok_def
      valid_video_priority_id_def dest: int4_id_positive)

lemma store_all_map: "(\<And>x. x \<in> set xs \<Longrightarrow> f x = Inr (g x)) \<Longrightarrow> store_all f xs = Inr (map g xs)"
  by (induction xs) auto

lemma parse_array_id:
  "(\<And>x. x \<in> set xs \<Longrightarrow> parse x = Some x) \<Longrightarrow> parse_array parse xs = Inr xs"
  unfolding parse_array_def by (subst store_all_map [where g = id]) (auto simp: parse_row_def)

lemma list_queues_ok:
  assumes "queues_ok db"
  shows "list_queues db uid =
    Inr (map queue_item (sort_key q_id (filter (\<lambda>q. q_user q = uid) (queues db))))"
  unfolding list_queues_def
  by (rule parse_array_id) (use assms in \<open>auto intro: parse_stored_queue\<close>)

lemma list_priorities_ok:
  assumes "priorities_ok db"
  shows "list_priorities db uid =
    Inr (map priority_item (by_threshold (filter (\<lambda>p. p_user p = uid) (priorities db))))"
  unfolding list_priorities_def
  by (rule parse_array_id) (use assms in \<open>auto simp: priorities_ok_def intro: parse_priority_item\<close>)

section \<open>Ownership\<close>

lemma map_of_donation_owner:
  assumes "donations_ok db" and "d \<in> set (donations db)"
  shows "map_of (donation_owners db) (d_id d) = Some (d_user d)"
proof (rule map_of_is_SomeI)
  show "distinct (map fst (donation_owners db))"
    using assms(1) by (simp add: donation_owners_def donations_ok_def comp_def)
  show "(d_id d, d_user d) \<in> set (donation_owners db)"
    using assms(2) by (auto simp: donation_owners_def)
qed

lemma map_of_donation_owner_iff:
  assumes "donations_ok db"
  shows "map_of (donation_owners db) i = Some uid \<longleftrightarrow>
    (\<exists>d \<in> set (donations db). d_id d = i \<and> d_user d = uid)"
  using map_of_donation_owner [OF assms] map_of_SomeD [of "donation_owners db" i uid]
  by (auto simp: donation_owners_def)

lemma owns_video_iff:
  assumes "donations_ok db" and "video_check v"
  shows "owns_video db uid v \<longleftrightarrow> owner_of db v = Some uid"
  using assms(2) map_of_donation_owner_iff [OF assms(1)]
  by (auto simp: owns_video_def owner_of_def owner_in_def video_check_def split: option.splits)

lemma stored_owner:
  assumes "stored_video_ok db v"
  obtains u where "owner_of db v = Some u" and "u \<in> set (user_ids db)"
    and "queue_belongs db (Some u) (v_queue v)"
    and "optional_holds (priority_belongs db (Some u)) (v_priority v)"
  using assms by (auto simp: video_row_ok_def owner_of_def queue_belongs_def priority_belongs_def
      in_queue_keys in_priority_keys optional_holds_def split: option.splits)


section \<open>Replacing tables\<close>

lemma keys_queues [simp]:
  "user_ids (db\<lparr>queues := qs\<rparr>) = user_ids db" "priority_keys (db\<lparr>queues := qs\<rparr>) = priority_keys db"
  "donation_owners (db\<lparr>queues := qs\<rparr>) = donation_owners db"
  by (simp_all add: user_ids_def priority_keys_def donation_owners_def)

lemma keys_priorities [simp]:
  "user_ids (db\<lparr>priorities := ps\<rparr>) = user_ids db" "queue_keys (db\<lparr>priorities := ps\<rparr>) = queue_keys db"
  "donation_owners (db\<lparr>priorities := ps\<rparr>) = donation_owners db"
  by (simp_all add: user_ids_def queue_keys_def donation_owners_def)

lemma keys_jobs [simp]:
  "user_ids (db\<lparr>jobs := js\<rparr>) = user_ids db" "queue_keys (db\<lparr>jobs := js\<rparr>) = queue_keys db"
  "priority_keys (db\<lparr>jobs := js\<rparr>) = priority_keys db"
  "donation_owners (db\<lparr>jobs := js\<rparr>) = donation_owners db"
  by (simp_all add: user_ids_def queue_keys_def priority_keys_def donation_owners_def)

lemma keys_counters [simp]:
  "user_ids (db\<lparr>next_queue_id := n\<rparr>) = user_ids db" "queue_keys (db\<lparr>next_queue_id := n\<rparr>) = queue_keys db"
  "priority_keys (db\<lparr>next_queue_id := n\<rparr>) = priority_keys db"
  "donation_owners (db\<lparr>next_queue_id := n\<rparr>) = donation_owners db"
  "user_ids (db\<lparr>next_video_id := m\<rparr>) = user_ids db" "queue_keys (db\<lparr>next_video_id := m\<rparr>) = queue_keys db"
  "priority_keys (db\<lparr>next_video_id := m\<rparr>) = priority_keys db"
  "donation_owners (db\<lparr>next_video_id := m\<rparr>) = donation_owners db"
  by (simp_all add: user_ids_def queue_keys_def priority_keys_def donation_owners_def)

lemmas table_ok_defs = users_ok_def queues_ok_def priorities_ok_def donations_ok_def videos_ok_def jobs_ok_def

lemma video_row_ok_mono:
  assumes "video_row_ok uids qks pks dks v" and "set qks \<subseteq> set qks'" and "set pks \<subseteq> set pks'"
  shows "video_row_ok uids qks' pks' dks v"
  using assms by (auto simp: video_row_ok_def split: option.splits)

lemma db_ok_queues:
  assumes "db_ok db" and "set (queue_keys db) \<subseteq> set (queue_keys (db\<lparr>queues := qs\<rparr>))"
    and "queues_ok (db\<lparr>queues := qs\<rparr>)"
  shows "db_ok (db\<lparr>queues := qs\<rparr>)"
proof -
  have "videos_ok (db\<lparr>queues := qs\<rparr>)"
    using assms(1,2) by (auto simp: db_ok_def videos_ok_def intro: video_row_ok_mono)
  then show ?thesis using assms(1,3) by (simp add: db_ok_def table_ok_defs)
qed

lemma db_ok_next_queue_id:
  assumes "db_ok db" and "next_queue_id db \<le> n"
  shows "db_ok (db\<lparr>next_queue_id := n\<rparr>)"
  using assms by (auto simp: db_ok_def table_ok_defs int4_id_def)

lemma db_ok_next_video_id:
  assumes "db_ok db" and "next_video_id db \<le> n"
  shows "db_ok (db\<lparr>next_video_id := n\<rparr>)"
proof -
  have "videos_ok (db\<lparr>next_video_id := n\<rparr>)"
    using assms by (auto simp: db_ok_def videos_ok_def)
  then show ?thesis using assms(1) by (simp add: db_ok_def table_ok_defs)
qed

section \<open>Queues\<close>

lemma create_queue_ok:
  assumes "db_ok db" and "label_ok label"
  shows "db_ok (snd (create_queue uid label db))"
proof -
  let ?n = "next_queue_id db" and ?row = "\<lparr>q_id = next_queue_id db, q_user = uid, q_label = label, q_default = False\<rparr>"
  have q: "queues_ok db" using assms(1) by (simp add: db_ok_def)
  have adv: "db_ok (db\<lparr>next_queue_id := ?n + 1\<rparr>)" using assms(1) by (rule db_ok_next_queue_id) simp
  have "db_ok (db\<lparr>next_queue_id := ?n + 1, queues := queues db @ [?row]\<rparr>)"
    if "?n \<le> 2147483647" "\<not> (\<exists>q \<in> set (queues db). q_user q = uid \<and> q_label q = label)"
      "uid \<in> set (user_ids db)"
  proof (rule db_ok_queues [OF adv])
    have fresh: "?n \<notin> set (map q_id (queues db))" using q by (auto simp: queues_ok_def int4_id_def)
    then show "queues_ok (db\<lparr>next_queue_id := ?n + 1, queues := queues db @ [?row]\<rparr>)"
      using q that assms(2) by (auto simp: queues_ok_def int4_id_def in_int4_def image_iff)
  qed (auto simp: queue_keys_def)
  then show ?thesis
    using assms adv by (auto simp: create_queue_def Let_def)
qed

text \<open>What the transaction of \<open>updateQueue\<close> writes, as one function of a row.\<close>

definition changed_queue :: "int \<Rightarrow> int \<Rightarrow> string \<Rightarrow> bool \<Rightarrow> queue_row \<Rightarrow> queue_row" where
  "changed_queue uid qid label is_default q =
     (if q_user q = uid \<and> q_id q = qid then q\<lparr>q_label := label, q_default := is_default \<or> q_default q\<rparr>
      else if is_default \<and> q_user q = uid then q\<lparr>q_default := False\<rparr> else q)"

lemma changed_queue_key [simp]:
  "q_id (changed_queue uid qid label d q) = q_id q" "q_user (changed_queue uid qid label d q) = q_user q"
  by (simp_all add: changed_queue_def)

lemma parse_row_Inr [simp]: "parse_row parse x = Inr y \<longleftrightarrow> parse x = Some y"
  by (auto simp: parse_row_def split: option.splits)

lemma update_queue_success:
  assumes "queues_ok db" and "update_queue uid qid label is_default db = (Inr item, db')"
  obtains existing where "existing \<in> set (queues db)" and "q_user existing = uid" and "q_id existing = qid"
    and "db' = db\<lparr>queues := map (changed_queue uid qid label is_default) (queues db)\<rparr>"
    and "distinct (map (\<lambda>q. (q_user q, q_label q)) (queues db'))" and "label_check label"
    and "parse_video_queue (queue_item (changed_queue uid qid label is_default existing)) = Some item"
proof -
  let ?mine = "\<lambda>q. q_user q = uid \<and> q_id q = qid"
  obtain existing where ex: "first_row (filter ?mine (queues db)) = Some existing"
    using assms(2) by (auto simp: update_queue_def Let_def bind_result_Inr_iff)
  have e: "existing \<in> set (queues db)" "q_user existing = uid" "q_id existing = qid"
    using first_row_filterD [OF ex] by simp_all
  have parse: "parse_video_queue (queue_item existing) = Some (queue_item existing)"
    using assms(1) e(1) by (rule parse_stored_queue)
  have unique: "q = existing" if "q \<in> set (queues db)" "q_id q = qid" for q
    using assms(1) e that distinct_key_unique [of q_id "queues db"] by (auto simp: queues_ok_def)
  let ?cleared = "if is_default then clear_default uid (queues db) else queues db"
  let ?updated = "update_where ?mine (\<lambda>q. q\<lparr>q_label := label, q_default := is_default \<or> q_default existing\<rparr>) ?cleared"
  have upd: "?updated = map (changed_queue uid qid label is_default) (queues db)"
    using unique by (auto simp: update_where_def clear_default_def changed_queue_def)
  have first: "first_row (filter ?mine (map (changed_queue uid qid label is_default) (queues db)))
      = Some (changed_queue uid qid label is_default existing)"
    using ex by (simp add: filter_map comp_def first_row_def split: list.splits)
  have flag: "queueIsDefault (queue_item existing) = q_default existing" by (simp add: queue_item_def)
  obtain rows row where st: "store_queues label ?updated = Inr rows"
    and row: "first_row (filter ?mine rows) = Some row"
    and item: "parse_video_queue (queue_item row) = Some item" and db': "db' = db\<lparr>queues := rows\<rparr>"
    using assms(2) unfolding update_queue_def Let_def
    by (auto simp: bind_result_Inr_iff ex parse flag simp del: if_split)
  have stored: "rows = ?updated" "distinct (map (\<lambda>q. (q_user q, q_label q)) rows)" "label_check label"
    using st by (simp_all add: store_queues_def split: if_split_asm)
  then have rows: "rows = map (changed_queue uid qid label is_default) (queues db)"
    using upd by simp
  show thesis
  proof (rule that [OF e])
    show "db' = db\<lparr>queues := map (changed_queue uid qid label is_default) (queues db)\<rparr>"
      using db' rows by simp
    show "distinct (map (\<lambda>q. (q_user q, q_label q)) (queues db'))" "label_check label"
      using stored db' by simp_all
    show "parse_video_queue (queue_item (changed_queue uid qid label is_default existing)) = Some item"
      using row item first unfolding rows by simp
  qed
qed

lemma changed_queue_default_count:
  assumes "queues_ok db" and "existing \<in> set (queues db)" and "q_user existing = uid" and "q_id existing = qid"
    and "u \<in> set (user_ids db)"
  shows "length (filter (\<lambda>q. q_user q = u \<and> q_default q)
    (map (changed_queue uid qid label is_default) (queues db))) = 1"
proof -
  let ?c = "changed_queue uid qid label is_default"
  have unique: "q = existing" if "q \<in> set (queues db)" "q_id q = qid" for q
    using assms(1,2,4) that distinct_key_unique [of q_id "queues db"] by (auto simp: queues_ok_def)
  have one: "length (filter (\<lambda>q. q_user q = u \<and> q_default q) (queues db)) = 1"
    using assms(1,5) by (simp add: queues_ok_def)
  have "filter (\<lambda>q. q_user (?c q) = u \<and> q_default (?c q)) (queues db) =
      filter (\<lambda>q. if is_default \<and> u = uid then q_id q = qid else q_user q = u \<and> q_default q) (queues db)"
  proof (intro filter_cong refl)
    fix q assume "q \<in> set (queues db)"
    then have "q_id q = qid \<Longrightarrow> q_user q = uid" using unique assms(3) by blast
    then show "(q_user (?c q) = u \<and> q_default (?c q)) =
        (if is_default \<and> u = uid then q_id q = qid else q_user q = u \<and> q_default q)"
      by (auto simp: changed_queue_def)
  qed
  also have "length \<dots> = 1"
  proof (cases "is_default \<and> u = uid")
    case True
    have "filter (\<lambda>q. q_id q = q_id existing) (queues db) = [existing]"
      using assms(1,2) by (intro filter_unique_key) (auto simp: queues_ok_def)
    then show ?thesis using True assms(4) by simp
  next
    case False
    then show ?thesis using one by auto
  qed
  finally show ?thesis by (simp add: filter_map comp_def)
qed

lemma update_queue_ok:
  assumes "db_ok db" and "label_ok label"
  shows "db_ok (snd (update_queue uid qid label is_default db))"
proof (cases "update_queue uid qid label is_default db")
  case (Pair r db')
  show ?thesis
  proof (cases r)
    case (Inl e)
    then show ?thesis using Pair assms(1) by (simp add: update_queue_def)
  next
    case (Inr item)
    have q: "queues_ok db" using assms(1) by (simp add: db_ok_def)
    obtain existing where e: "existing \<in> set (queues db)" "q_user existing = uid" "q_id existing = qid"
      and db': "db' = db\<lparr>queues := map (changed_queue uid qid label is_default) (queues db)\<rparr>"
      and labels: "distinct (map (\<lambda>q. (q_user q, q_label q)) (queues db'))"
      using q Pair[unfolded Inr] by (rule update_queue_success)
    let ?qs = "map (changed_queue uid qid label is_default) (queues db)"
    have ids: "map q_id ?qs = map q_id (queues db)" by (simp add: comp_def)
    have "\<forall>q \<in> set ?qs. int4_id (next_queue_id db) (q_id q) \<and> q_user q \<in> set (user_ids db) \<and> label_ok (q_label q)"
      using q assms(2) by (auto simp: queues_ok_def changed_queue_def)
    moreover have "distinct (map q_id ?qs)" using q unfolding ids by (simp add: queues_ok_def)
    moreover have "\<forall>u \<in> set (user_ids db). length (filter (\<lambda>q. q_user q = u \<and> q_default q) ?qs) = 1"
      using changed_queue_default_count [OF q e] by blast
    ultimately have "queues_ok (db\<lparr>queues := ?qs\<rparr>)"
      using q labels unfolding db' by (simp add: queues_ok_def)
    moreover have "queue_keys (db\<lparr>queues := ?qs\<rparr>) = queue_keys db" by (simp add: queue_keys_def comp_def)
    ultimately show ?thesis using assms(1) Pair db' by (auto intro: db_ok_queues)
  qed
qed

section \<open>Videos\<close>

lemma stored_clip: "videos_ok db \<Longrightarrow> v \<in> set (videos db) \<Longrightarrow> clip_ok v"
  by (simp add: videos_ok_def video_row_ok_def)

lemma db_ok_update_videos:
  assumes "db_ok db" and "update_videos db retain p f = Inr vs"
    and "\<And>v w. v \<in> set (videos db) \<Longrightarrow> p v \<Longrightarrow> f v = Inr w \<Longrightarrow> clip_fields_ok w"
    and "\<And>v w x. f v = Inr w \<Longrightarrow> v_id (w\<lparr>v_priority := x\<rparr>) = v_id v"
  shows "db_ok (db\<lparr>videos := vs\<rparr>)"
proof -
  have ok: "queues_ok db" "videos_ok db" using assms(1) by (simp_all add: db_ok_def)
  show ?thesis
    using update_videos_ok [OF assms(2) ok assms(3,4)] by (rule db_ok_videos [OF assms(1)])
qed

lemma move_video_ok:
  assumes "db_ok db"
  shows "db_ok (snd (move_video uid vid qid db))"
  unfolding move_video_def
proof (rule snd_atomically [where P = db_ok, OF assms])
  fix x db'
  assume "(let matches = (\<lambda>v. v_id v = vid \<and> owns_video db uid v \<and>
              (\<exists>q \<in> set (queues db). q_id q = qid \<and> q_user q = uid)) in
        bind_result (ensure (in_int8 vid \<and> in_int4 qid) (DatabaseError NumericOutOfRange)) (\<lambda>_.
        bind_result (map_error DatabaseError
          (update_videos db False matches (\<lambda>v. Inr (v\<lparr>v_queue := qid\<rparr>)))) (\<lambda>rows.
        bind_result (ensure (filter matches (videos db) \<noteq> []) (VideoQueueError Video_not_found)) (\<lambda>_.
        Inr ((), db\<lparr>videos := rows\<rparr>))))) = Inr (x, db')"
  then obtain p vs where st: "update_videos db False p (\<lambda>v. Inr (v\<lparr>v_queue := qid\<rparr>)) = Inr vs"
    and db': "db' = db\<lparr>videos := vs\<rparr>"
    by (auto simp: bind_result_Inr_iff Let_def)
  have "clip_fields_ok w" if "v \<in> set (videos db)" "Inr (v\<lparr>v_queue := qid\<rparr>) = Inr w" for v w
    using clip_ok_fields [OF stored_clip] assms that by (auto simp: clip_fields_ok_def db_ok_def)
  then show "db_ok db'" unfolding db' by (intro db_ok_update_videos [OF assms st]) auto
qed

lemma clip_fields_edited:
  assumes "clip_ok v" and "bind_clip amount start_s end_s = Inr u"
  shows "clip_fields_ok (edited_clip amount start_s end_s v)"
  using assms by (auto simp: clip_fields_ok_def clip_ok_def bind_clip_def optional_holds_def edited_clip_def
      bind_result_Inr_iff split: option.splits)

lemma update_video_ok:
  assumes "db_ok db"
  shows "db_ok (snd (update_video uid vid amount start_s end_s db))"
proof (cases "update_video uid vid amount start_s end_s db")
  case (Pair r db')
  show ?thesis
  proof (cases r)
    case (Inr x)
    then obtain p vs u where st: "update_videos db False p (\<lambda>v. Inr (edited_clip amount start_s end_s v)) = Inr vs"
      and db': "db' = db\<lparr>videos := vs\<rparr>" and bind: "bind_clip amount start_s end_s = Inr u"
      using Pair by (auto simp: update_video_def bind_result_Inr_iff Let_def)
    have "db_ok (db\<lparr>videos := vs\<rparr>)"
      using assms clip_fields_edited [OF stored_clip bind]
      by (intro db_ok_update_videos [OF assms st]) (auto simp: db_ok_def edited_clip_def)
    then show ?thesis using Pair db' by simp
  qed (use Pair assms in \<open>simp add: update_video_def\<close>)
qed

lemma update_status_ok:
  assumes "db_ok db"
  shows "db_ok (snd (update_status uid vid watched bookmarked db))"
proof -
  have "db_ok (db\<lparr>videos := update_where p (\<lambda>v. v\<lparr>v_watched_at := w v, v_bookmarked_at := b v\<rparr>) (videos db)\<rparr>)"
    for p w b
  proof (rule db_ok_videos [OF assms])
    show "map v_id (update_where p (\<lambda>v. v\<lparr>v_watched_at := w v, v_bookmarked_at := b v\<rparr>) (videos db)) =
        map v_id (videos db)" by (rule map_update_where) simp
    have "video_row_ok us qs ps ds (v\<lparr>v_watched_at := w v, v_bookmarked_at := b v\<rparr>) = video_row_ok us qs ps ds v"
      for us qs ps ds v
      by (simp add: video_row_ok_def video_check_def clip_ok_def owner_in_def unpriced_def cong: option.case_cong)
    then show "\<forall>v \<in> set (update_where p (\<lambda>v. v\<lparr>v_watched_at := w v, v_bookmarked_at := b v\<rparr>) (videos db)).
        0 < v_id v \<and> v_id v < next_video_id db \<and> stored_video_ok db v"
      using assms[unfolded db_ok_def videos_ok_def] by (auto simp: update_where_def)
  qed
  then show ?thesis
    using assms unfolding update_status_def
    by (intro snd_atomically [where P = db_ok]) (auto simp: bind_result_Inr_iff Let_def)
qed

lemma db_ok_jobs:
  assumes "db_ok db" and "distinct (map j_video js)" and "\<forall>j \<in> set js. j_video j \<in> set (map v_id (videos db))"
  shows "db_ok (db\<lparr>jobs := js\<rparr>)"
  using assms by (simp add: db_ok_def table_ok_defs)

lemma retry_metadata_ok:
  assumes "db_ok db"
  shows "db_ok (snd (retry_metadata now uid vid db))"
proof -
  have "db_ok (db\<lparr>jobs := update_where p (\<lambda>job. job\<lparr>j_completed_at := None, j_available_at := now\<rparr>) (jobs db)\<rparr>)"
    for p
    using assms by (intro db_ok_jobs) (auto simp: map_update_where set_update_where db_ok_def jobs_ok_def)
  then show ?thesis
    using assms unfolding retry_metadata_def
    by (intro snd_atomically [where P = db_ok]) (auto simp: bind_result_Inr_iff Let_def)
qed


lemma manual_video_owner [simp]: "owner_of db (manual_video uid now pv url a s e i q) = Some uid"
  by (simp add: manual_video_def owner_of_def owner_in_def)

lemma add_manual_video_ok:
  assumes "db_ok db"
  shows "db_ok (snd (add_manual_video rurl now uid url amount start_s end_s queue_id db))"
proof (cases "add_manual_video rurl now uid url amount start_s end_s queue_id db")
  case (Pair r db')
  let ?vid = "next_video_id db" and ?adv = "db\<lparr>next_video_id := next_video_id db + 1\<rparr>"
  have adv: "db_ok ?adv" using assms by (rule db_ok_next_video_id) simp
  consider "db' = db" | "db' = ?adv"
    | pv qid row where "store_video db False None (manual_video uid now pv url amount start_s end_s ?vid qid) = Inr row"
        and "bind_clip amount start_s end_s = Inr ()"
        and "db' = ?adv\<lparr>videos := videos db @ [row], jobs := enqueue_metadata_job now row (jobs db)\<rparr>"
  proof (cases "manual_target rurl uid url amount start_s end_s queue_id db")
    case (Inl e)
    then show thesis using Pair that(1) by (simp add: add_manual_video_def)
  next
    case (Inr t)
    obtain pv qid where t: "t = (pv, qid)" by (cases t)
    then have bind: "bind_clip amount start_s end_s = Inr ()"
      using Inr by (auto simp: manual_target_def bind_result_Inr_iff)
    note eq = Pair[unfolded add_manual_video_def Inr t Let_def, simplified]
    show thesis
    proof (cases r)
      case (Inl e)
      then show thesis using eq that(2) by simp
    next
      case (Inr x)
      then show thesis using eq bind that(3) by (auto simp: bind_result_Inr_iff)
    qed
  qed
  then show ?thesis
  proof cases
    case (3 pv qid row)
    let ?new = "manual_video uid now pv url amount start_s end_s ?vid qid"
    have "clip_fields_ok ?new"
      using 3(2) by (simp add: clip_fields_ok_def manual_video_def bind_clip_def bind_result_Inr_iff
          optional_holds_def)
    moreover have "queues_ok db" using assms by (simp add: db_ok_def)
    ultimately have row: "stored_video_ok db row" and shape: "row = ?new\<lparr>v_priority := v_priority row\<rparr>"
      using store_video_ok [OF 3(1)] by blast+
    have id: "v_id row = ?vid" by (subst shape) (simp add: manual_video_def)
    have v: "videos_ok db" "jobs_ok db" using assms by (simp_all add: db_ok_def)
    then have "\<forall>w \<in> set (videos db). v_id w \<noteq> ?vid" by (auto simp: videos_ok_def)
    then have "videos_ok db'"
      using v(1) row id unfolding 3(3) by (auto simp: videos_ok_def image_iff)
    moreover have "jobs_ok db'"
      using v(2) id unfolding 3(3) by (auto simp: jobs_ok_def enqueue_metadata_job_def)
    moreover have "users_ok db'" "queues_ok db'" "priorities_ok db'" "donations_ok db'"
      using assms unfolding 3(3) by (simp_all add: db_ok_def table_ok_defs)
    ultimately show ?thesis using Pair by (simp add: db_ok_def)
  qed (use Pair adv assms in simp_all)
qed

section \<open>Priorities and the currency\<close>

lemma db_ok_priorities:
  assumes "db_ok db" and "priority_keys (db\<lparr>priorities := ps\<rparr>) = priority_keys db"
    and "distinct (map (\<lambda>p. (p_user p, p_label p)) ps)"
    and "\<forall>p \<in> set ps. priority_row_ok (user_ids db) (next_priority_id db) p"
    and "map (\<lambda>p. (p_user p, p_default p)) ps = map (\<lambda>p. (p_user p, p_default p)) (priorities db)"
  shows "db_ok (db\<lparr>priorities := ps\<rparr>)"
proof -
  have "map fst (priority_keys (db\<lparr>priorities := ps\<rparr>)) = map fst (priority_keys db)"
    by (simp only: assms(2))
  then have ids: "map p_id ps = map p_id (priorities db)"
    by (simp add: priority_keys_def comp_def)
  have count: "length (filter (\<lambda>p. p_user p = uid \<and> p_default p) xs) =
      length (filter (\<lambda>(u, d). u = uid \<and> d) (map (\<lambda>p. (p_user p, p_default p)) xs))"
    for uid and xs :: "priority_row list"
    by (simp add: filter_map comp_def)
  have "priorities_ok (db\<lparr>priorities := ps\<rparr>)"
    using assms(1,3,4) unfolding db_ok_def priorities_ok_def
    by (simp add: ids count assms(5))
  moreover have "videos_ok (db\<lparr>priorities := ps\<rparr>)"
    using assms(1,2) by (simp add: db_ok_def videos_ok_def)
  ultimately show ?thesis using assms(1) by (simp add: db_ok_def table_ok_defs)
qed

lemma update_priority_rows:
  assumes "update_priority uid pid label min_price db = (r, db')"
  obtains "db' = db"
  | "min_price < 10 ^ 20" and "db' = db\<lparr>priorities := update_where (\<lambda>p. p_user p = uid \<and> p_id p = pid)
        (\<lambda>p. p\<lparr>p_label := label, p_min := (if p_default p then 0 else min_price)\<rparr>) (priorities db)\<rparr>"
    and "store_priorities (\<lambda>p. p_user p = uid \<and> p_id p = pid) (priorities db') = Inr (priorities db')"
proof -
  let ?mine = "\<lambda>p. p_user p = uid \<and> p_id p = pid"
  let ?upd = "update_where ?mine (\<lambda>p. p\<lparr>p_label := label, p_min := (if p_default p then 0 else min_price)\<rparr>)
    (priorities db)"
  show thesis
  proof (cases "in_int4 pid \<and> min_price < 10 ^ 20")
    case False
    then show thesis using assms that(1) by (auto simp: update_priority_def)
  next
    case True
    show thesis
    proof (cases "store_priorities ?mine ?upd")
      case (Inl e)
      then show thesis using assms True that(1) by (simp add: update_priority_def Let_def)
    next
      case (Inr rows)
      then have "rows = ?upd" by (simp add: store_priorities_def split: if_split_asm)
      moreover have "db' = db\<lparr>priorities := rows\<rparr>"
        using assms True Inr by (simp add: update_priority_def Let_def split: option.split_asm)
      ultimately show thesis using True Inr that(2) by simp
    qed
  qed
qed

lemma update_priority_ok:
  assumes "db_ok db" and "label_ok label"
  shows "db_ok (snd (update_priority uid pid label min_price db))"
proof (cases "update_priority uid pid label min_price db")
  case (Pair r db')
  then show ?thesis
  proof (cases rule: update_priority_rows)
    case 2
    let ?mine = "\<lambda>p. p_user p = uid \<and> p_id p = pid"
    let ?f = "\<lambda>p. p\<lparr>p_label := label, p_min := (if p_default p then 0 else min_price)\<rparr>"
    let ?upd = "update_where ?mine ?f (priorities db)"
    have st: "distinct (map (\<lambda>p. (p_user p, p_label p)) ?upd)"
      "\<forall>p \<in> set ?upd. ?mine p \<longrightarrow> (p_min p = 0) = p_default p"
      using 2(3) unfolding 2(2) by (auto simp: store_priorities_def split: if_split_asm)
    have rows: "\<forall>p \<in> set (priorities db). priority_row_ok (user_ids db) (next_priority_id db) p"
      using assms(1) by (simp add: db_ok_def priorities_ok_def)
    have "\<forall>p \<in> set ?upd. priority_row_ok (user_ids db) (next_priority_id db) p"
    proof
      fix p assume p: "p \<in> set ?upd"
      then obtain r where r: "r \<in> set (priorities db)" "p = (if ?mine r then ?f r else r)"
        by (auto simp: update_where_def)
      have "priority_row_ok (user_ids db) (next_priority_id db) r" using rows r(1) by blast
      moreover have "?mine p \<longrightarrow> (p_min p = 0) = p_default p" using st(2) p by blast
      ultimately show "priority_row_ok (user_ids db) (next_priority_id db) p"
        using r(2) 2(1) assms(2) by (auto simp: priority_row_ok_def split: if_splits)
    qed
    moreover have "map (\<lambda>p. (p_user p, p_default p)) ?upd = map (\<lambda>p. (p_user p, p_default p)) (priorities db)"
      by (rule map_update_where) simp
    moreover have "priority_keys (db\<lparr>priorities := ?upd\<rparr>) = priority_keys db"
      unfolding priority_keys_def by (simp add: map_update_where)
    ultimately show ?thesis using Pair st(1) db_ok_priorities [OF assms(1)] unfolding 2(2) by simp
  qed (use Pair assms in simp)
qed


lemma convert_priority_Inr:
  assumes "convert_priority uid factor p = Inr r"
  shows "r = p\<lparr>p_min := p_min r\<rparr>"
    and "priority_row_ok uids b p \<Longrightarrow> priority_row_ok uids b r"
  using assms by (auto simp: convert_priority_def bind_result_Inr_iff in_money_range_def
      priority_row_ok_def split: if_split_asm)

lemma store_all_rows:
  assumes "store_all f xs = Inr ys" and "\<And>x y. f x = Inr y \<Longrightarrow> g y = h x"
  shows "map g ys = map h xs"
proof (rule list_all2_map_eq)
  show "list_all2 (\<lambda>x y. g y = h x) xs ys"
    using assms(1) unfolding store_all_Inr by (rule list_all2_mono) (rule assms(2))
qed

lemma converted_priorities:
  assumes "store_all (convert_priority uid factor) (priorities db) = Inr ps"
  shows "map (\<lambda>p. p\<lparr>p_min := 0\<rparr>) ps = map (\<lambda>p. p\<lparr>p_min := 0\<rparr>) (priorities db)"
proof (rule store_all_rows [OF assms])
  fix x y assume "convert_priority uid factor x = Inr y"
  then have "y = x\<lparr>p_min := p_min y\<rparr>" by (rule convert_priority_Inr)
  then show "y\<lparr>p_min := 0\<rparr> = x\<lparr>p_min := 0\<rparr>"
    by (metis priority_row.update_convs(4) priority_row.surjective)
qed

lemma map_factor:
  assumes "map h xs = map h ys" and "\<And>x. g (h x) = g x"
  shows "map g xs = map g ys"
proof -
  have "map (g \<circ> h) xs = map (g \<circ> h) ys" using assms(1) by (metis map_map)
  then show ?thesis using assms(2) by (simp add: comp_def)
qed

lemma db_ok_converted_priorities:
  assumes "db_ok db" and "store_all (convert_priority uid factor) (priorities db) = Inr ps"
  shows "db_ok (db\<lparr>priorities := ps\<rparr>)"
proof (rule db_ok_priorities [OF assms(1)])
  note same = map_factor [OF converted_priorities [OF assms(2)]]
  show "priority_keys (db\<lparr>priorities := ps\<rparr>) = priority_keys db"
    unfolding priority_keys_def by (simp, rule same) simp
  have "map (\<lambda>p. (p_user p, p_label p)) ps = map (\<lambda>p. (p_user p, p_label p)) (priorities db)"
    by (rule same) simp
  then show "distinct (map (\<lambda>p. (p_user p, p_label p)) ps)"
    using assms(1) by (simp add: db_ok_def priorities_ok_def)
  show "map (\<lambda>p. (p_user p, p_default p)) ps = map (\<lambda>p. (p_user p, p_default p)) (priorities db)"
    by (rule same) simp
  show "\<forall>p \<in> set ps. priority_row_ok (user_ids db) (next_priority_id db) p"
    using assms(2) [unfolded store_all_Inr]
  proof (rule list_all2_preserves)
    fix x y assume "x \<in> set (priorities db)" "convert_priority uid factor x = Inr y"
    then show "priority_row_ok (user_ids db) (next_priority_id db) y"
      using assms(1) convert_priority_Inr(2) by (auto simp: db_ok_def priorities_ok_def)
  qed
qed

lemma convert_video_Inr:
  assumes "convert_video factor v = Inr w"
  shows "w = v\<lparr>v_amount := v_amount w\<rparr>" and "clip_ok v \<Longrightarrow> clip_fields_ok w"
    and "v_amount w = None \<longleftrightarrow> v_amount v = None"
proof -
  show "w = v\<lparr>v_amount := v_amount w\<rparr>" "v_amount w = None \<longleftrightarrow> v_amount v = None"
    using assms by (auto simp: convert_video_def bind_result_Inr_iff split: option.split_asm)
  assume "clip_ok v"
  then have "clip_fields_ok v" by (rule clip_ok_fields)
  then show "clip_fields_ok w"
    using assms by (auto simp: convert_video_def bind_result_Inr_iff in_money_range_def
        clip_fields_ok_def optional_holds_def split: option.split_asm if_split_asm)
qed

lemma db_ok_users:
  assumes "db_ok db" and "map u_id us = user_ids db" and "map u_slug us = map u_slug (users db)"
    and "map u_auth_id us = map u_auth_id (users db)"
    and "\<forall>u \<in> set us. int4_id (next_user_id db) (u_id u) \<and> valid_slug (u_slug u)"
  shows "db_ok (db\<lparr>users := us\<rparr>)"
proof -
  have "user_ids (db\<lparr>users := us\<rparr>) = user_ids db" using assms(2) by (simp add: user_ids_def)
  moreover have "queue_keys (db\<lparr>users := us\<rparr>) = queue_keys db" "priority_keys (db\<lparr>users := us\<rparr>) = priority_keys db"
    "donation_owners (db\<lparr>users := us\<rparr>) = donation_owners db"
    by (simp_all add: queue_keys_def priority_keys_def donation_owners_def)
  ultimately show ?thesis using assms by (simp add: db_ok_def table_ok_defs)
qed

lemma set_queue_currency_success:
  assumes "set_queue_currency uid c rate db = (Inr x, db')"
  obtains user where "find_user db uid = Some user" and "u_currency user = c" and "x = c" and "db' = db"
  | user ps vs where "find_user db uid = Some user" and "u_currency user \<noteq> c" and "x = c"
    and "store_all (convert_priority uid (conversion_factor_for_currency_change (u_currency user) c rate))
      (priorities db) = Inr ps"
    and "update_videos (db\<lparr>priorities := ps\<rparr>) True (\<lambda>v. v_amount v \<noteq> None \<and> owns_video db uid v)
      (convert_video (conversion_factor_for_currency_change (u_currency user) c rate)) = Inr vs"
    and "db' = db\<lparr>priorities := ps, videos := vs, users := update_where (\<lambda>u. u_id u = uid)
      (\<lambda>u. u\<lparr>u_currency := c\<rparr>) (users db)\<rparr>"
proof -
  obtain user where user: "find_user db uid = Some user"
    using assms by (auto simp: set_queue_currency_def bind_result_Inr_iff)
  note eq = assms[unfolded set_queue_currency_def Let_def atomically_Inr user expect_Some bind_result_simps]
  show thesis
  proof (cases "u_currency user = c")
    case True
    from eq have "x = c" "db' = db" unfolding if_P [OF True] by (auto simp only: sum.inject prod.inject True)
    then show thesis by (rule that(1) [OF user True])
  next
    case False
    with eq show thesis
      unfolding if_not_P [OF False] bind_result_Inr_iff map_error_Inr_iff
      by (elim exE conjE) (rule that(2) [OF user False], auto simp only: sum.inject prod.inject)
  qed
qed

lemma set_queue_currency_ok:
  assumes "db_ok db"
  shows "db_ok (snd (set_queue_currency uid c rate db))"
proof (cases "set_queue_currency uid c rate db")
  case (Pair r db')
  show ?thesis
  proof (cases r)
    case (Inr x)
    from Pair[unfolded Inr] show ?thesis
    proof (cases rule: set_queue_currency_success)
      case (2 user ps vs)
      let ?db1 = "db\<lparr>priorities := ps\<rparr>"
      let ?f = "conversion_factor_for_currency_change (u_currency user) c rate"
      have ok1: "db_ok ?db1" using assms 2(4) by (rule db_ok_converted_priorities)
      have ok2: "db_ok (?db1\<lparr>videos := vs\<rparr>)"
      proof (rule db_ok_update_videos [OF ok1 2(5)])
        fix v w assume "v \<in> set (videos ?db1)" "convert_video ?f v = Inr w"
        then show "clip_fields_ok w"
          using ok1 stored_clip convert_video_Inr(2) unfolding db_ok_def by blast
      next
        fix v w x assume "convert_video ?f v = Inr w"
        then have "w = v\<lparr>v_amount := v_amount w\<rparr>" by (rule convert_video_Inr)
        then have "v_id w = v_id v" by (metis video_row.update_convs(7) video_row.select_convs(1) video_row.surjective)
        then show "v_id (w\<lparr>v_priority := x\<rparr>) = v_id v" by simp
      qed
      let ?us = "update_where (\<lambda>u. u_id u = uid) (\<lambda>u. u\<lparr>u_currency := c\<rparr>) (users db)"
      have "db_ok (?db1\<lparr>videos := vs\<rparr>\<lparr>users := ?us\<rparr>)"
        using assms
        by (intro db_ok_users [OF ok2]) (auto simp: map_update_where user_ids_def set_update_where db_ok_def users_ok_def)
      then show ?thesis using Pair 2(6) by simp
    qed (use Pair assms in simp)
  qed (use Pair assms in \<open>simp add: set_queue_currency_def\<close>)
qed

end
