(* ===== verification/Trpc.thy ===== *)
theory Trpc
  imports Schemas
begin

text \<open>
  The tRPC conventions of the web server (\<open>server/api/trpc/_config.ts\<close>): error codes and their HTTP
  status, the authenticated and admin procedures and the error formatter, which hides the message
  of every server failure.
\<close>

datatype trpc_code =
    BAD_REQUEST
  | UNAUTHORIZED
  | FORBIDDEN
  | NOT_FOUND
  | CONFLICT
  | PRECONDITION_FAILED
  | INTERNAL_SERVER_ERROR
  | BAD_GATEWAY

text \<open>
  A thrown \<open>TRPCError\<close> with its message, input that fails its schema, and any other error, which
  tRPC reports as an internal error with its own message.
\<close>

datatype api_error =
    TRPCError trpc_code string
  | InvalidInput string
  | UnexpectedError string

definition error_code :: "api_error \<Rightarrow> trpc_code" where
  "error_code e =
     (case e of TRPCError c _ \<Rightarrow> c | InvalidInput _ \<Rightarrow> BAD_REQUEST
      | UnexpectedError _ \<Rightarrow> INTERNAL_SERVER_ERROR)"

definition error_message :: "api_error \<Rightarrow> string" where
  "error_message e = (case e of TRPCError _ m \<Rightarrow> m | InvalidInput m \<Rightarrow> m | UnexpectedError m \<Rightarrow> m)"

definition http_status :: "trpc_code \<Rightarrow> nat" where
  "http_status c =
     (case c of BAD_REQUEST \<Rightarrow> 400 | UNAUTHORIZED \<Rightarrow> 401 | FORBIDDEN \<Rightarrow> 403 | NOT_FOUND \<Rightarrow> 404
      | CONFLICT \<Rightarrow> 409 | PRECONDITION_FAILED \<Rightarrow> 412 | INTERNAL_SERVER_ERROR \<Rightarrow> 500
      | BAD_GATEWAY \<Rightarrow> 502)"

text \<open>The status and message a client sees.\<close>

definition error_formatter :: "api_error \<Rightarrow> nat \<times> string" where
  "error_formatter e =
     (let status = http_status (error_code e)
      in if status < 500 then (status, error_message e) else (status, ''Internal server error.''))"

record api_context =
  ctx_user_id :: "int option"
  ctx_is_admin :: bool

definition authenticated :: "api_context \<Rightarrow> api_error + int" where
  "authenticated ctx =
     (case ctx_user_id ctx of
        None \<Rightarrow> Inl (TRPCError UNAUTHORIZED ''UNAUTHORIZED'')
      | Some uid \<Rightarrow> if uid = 0 then Inl (TRPCError UNAUTHORIZED ''UNAUTHORIZED'') else Inr uid)"

definition admin :: "api_context \<Rightarrow> api_error + int" where
  "admin ctx =
     bind_result (authenticated ctx) (\<lambda>uid.
       if \<not> ctx_is_admin ctx then Inl (TRPCError FORBIDDEN ''FORBIDDEN'') else Inr uid)"

text \<open>A procedure: the guard, the input schema, then the resolver on the state.\<close>

definition call_procedure ::
  "api_error + 'u \<Rightarrow> 'i option \<Rightarrow> ('u \<Rightarrow> 'i \<Rightarrow> 's \<Rightarrow> (api_error + 'a) \<times> 's) \<Rightarrow> 's \<Rightarrow> (api_error + 'a) \<times> 's" where
  "call_procedure guard input resolver s =
     (case guard of
        Inl e \<Rightarrow> (Inl e, s)
      | Inr u \<Rightarrow> (case input of
                    None \<Rightarrow> (Inl (InvalidInput ''Invalid input''), s)
                  | Some i \<Rightarrow> resolver u i s))"

lemma error_formatter_hides:
  "fst (error_formatter e) \<ge> 500 \<Longrightarrow> snd (error_formatter e) = ''Internal server error.''"
  by (auto simp: error_formatter_def Let_def split: if_split_asm)

lemma authenticated_Inr: "authenticated ctx = Inr uid \<longleftrightarrow> ctx_user_id ctx = Some uid \<and> uid \<noteq> 0"
  by (auto simp: authenticated_def split: option.splits)

end
