(* ===== verification/VideoRouter.thy ===== *)
theory VideoRouter
  imports VideoQueueInvariant Trpc
begin

text \<open>
  The video procedures of the API (\<open>server/api/trpc/video.ts\<close>): the input schemas, the calls they
  make and the translation of the queue's errors.  A request is the input as it was sent; parsing
  turns it into the call the resolver makes, with money in cents.
\<close>

definition page_size :: nat where "page_size = 25"

definition max_video_seconds :: int where "max_video_seconds = 2147483647"

datatype video_request =
    CreateVideoQueue string
  | UpdateVideoQueue int string bool
  | MoveVideo int int
  | UpdateQueueCurrency queue_currency amount_input
  | AddVideo string "int option" amount_input int "int option"
  | UpdateVideoPriority int string amount_input
  | UpdateVideoStatus int "timestamp option option" "timestamp option option"
  | RetryVideoMetadata int
  | UpdateVideo int amount_input int "int option"

datatype video_call =
    CreateQueueCall string
  | UpdateQueueCall int string bool
  | MoveVideoCall int int
  | SetCurrencyCall queue_currency string
  | AddVideoCall string "int option" nat int "int option"
  | UpdatePriorityCall int string nat
  | UpdateStatusCall int "timestamp option option" "timestamp option option"
  | RetryMetadataCall int
  | UpdateVideoCall int nat int "int option"

datatype video_response =
    QueueResponse video_queue
  | PriorityResponse video_priority
  | VideoResponse int
  | CurrencyResponse queue_currency
  | NoResponse

text \<open>\<open>videoDetailsShape\<close> with the refinement \<open>validVideoTiming\<close>.\<close>

definition valid_video_timing :: "int \<Rightarrow> int option \<Rightarrow> bool" where
  "valid_video_timing start_s end_s \<longleftrightarrow> (case end_s of None \<Rightarrow> True | Some e \<Rightarrow> e > start_s)"

definition parse_details :: "amount_input \<Rightarrow> int \<Rightarrow> int option \<Rightarrow> nat option" where
  "parse_details amount start_s end_s =
     (if z_nonnegative_int start_s \<and> start_s \<le> max_video_seconds \<and>
         optional_holds (\<lambda>e. z_positive_int e \<and> e \<le> max_video_seconds) end_s \<and>
         valid_video_timing start_s end_s
      then map_option (decimal_units 2) (parse_money_amount amount) else None)"

definition parse_video_request ::
  "(string \<Rightarrow> bool) \<Rightarrow> (string \<Rightarrow> readonly_url option) \<Rightarrow> video_request \<Rightarrow> video_call option" where
  "parse_video_request is_url rurl req =
     (case req of
        CreateVideoQueue label \<Rightarrow> map_option CreateQueueCall (parse_label label)
      | UpdateVideoQueue qid label is_default \<Rightarrow>
          if z_positive_int qid then map_option (\<lambda>l. UpdateQueueCall qid l is_default) (parse_label label)
          else None
      | MoveVideo vid qid \<Rightarrow>
          if valid_video_id vid \<and> z_positive_int qid then Some (MoveVideoCall vid qid) else None
      | UpdateQueueCurrency c rate \<Rightarrow>
          (case parse_money_amount rate of
             None \<Rightarrow> None
           | Some r \<Rightarrow> if r \<noteq> ''0.00'' then Some (SetCurrencyCall c r) else None)
      | AddVideo url queue_id amount start_s end_s \<Rightarrow>
          if is_url url \<and> youtube_video_id rurl url \<noteq> None \<and> optional_holds z_positive_int queue_id
          then map_option (\<lambda>a. AddVideoCall url queue_id a start_s end_s) (parse_details amount start_s end_s)
          else None
      | UpdateVideoPriority pid label min_price \<Rightarrow>
          if z_positive_int pid
          then Option.bind (parse_label label) (\<lambda>l.
                 map_option (\<lambda>m. UpdatePriorityCall pid l (decimal_units 2 m)) (parse_money_amount min_price))
          else None
      | UpdateVideoStatus vid watched bookmarked \<Rightarrow>
          if valid_video_id vid \<and> (watched \<noteq> None \<or> bookmarked \<noteq> None)
          then Some (UpdateStatusCall vid watched bookmarked) else None
      | RetryVideoMetadata vid \<Rightarrow> if valid_video_id vid then Some (RetryMetadataCall vid) else None
      | UpdateVideo vid amount start_s end_s \<Rightarrow>
          if valid_video_id vid
          then map_option (\<lambda>a. UpdateVideoCall vid a start_s end_s) (parse_details amount start_s end_s)
          else None)"

definition translate_video_queue_error :: "failure \<Rightarrow> api_error" where
  "translate_video_queue_error f =
     (case f of
        VideoQueueError type \<Rightarrow>
          (case type of
             Video_queue_not_found \<Rightarrow> TRPCError NOT_FOUND ''Video queue not found.''
           | Video_queue_name_taken \<Rightarrow> TRPCError CONFLICT ''Video queue name already exists.''
           | Invalid_youtube_url \<Rightarrow> TRPCError BAD_REQUEST ''Invalid YouTube URL.''
           | Youtube_timing_unavailable \<Rightarrow> TRPCError BAD_REQUEST ''Could not read this YouTube video.''
           | Video_not_found \<Rightarrow> TRPCError NOT_FOUND ''Video not found.''
           | Video_priority_not_found \<Rightarrow> TRPCError NOT_FOUND ''Video priority not found.''
           | Video_priority_label_taken \<Rightarrow> TRPCError CONFLICT ''Video priority label already exists.''
           | Invalid_video_priority_threshold \<Rightarrow>
               TRPCError BAD_REQUEST ''Video priority threshold must be greater than zero.''
           | Invalid_video_timing \<Rightarrow> TRPCError BAD_REQUEST ''Video end must be after video start.'')
      | DatabaseError _ \<Rightarrow> UnexpectedError ''database error''
      | ZodError \<Rightarrow> UnexpectedError ''schema mismatch'')"

definition respond :: "('a \<Rightarrow> video_response) \<Rightarrow> 'a outcome \<Rightarrow> video_response outcome" where
  "respond f r = (case fst r of Inl e \<Rightarrow> Inl e | Inr x \<Rightarrow> Inr (f x), snd r)"

definition video_call_outcome ::
  "(string \<Rightarrow> readonly_url option) \<Rightarrow> timestamp \<Rightarrow> int \<Rightarrow> video_call \<Rightarrow> db \<Rightarrow> video_response outcome" where
  "video_call_outcome rurl now uid call db =
     (case call of
        CreateQueueCall label \<Rightarrow> respond QueueResponse (create_queue uid label db)
      | UpdateQueueCall qid label is_default \<Rightarrow>
          respond QueueResponse (update_queue uid qid label is_default db)
      | MoveVideoCall vid qid \<Rightarrow> respond (\<lambda>_. NoResponse) (move_video uid vid qid db)
      | SetCurrencyCall c rate \<Rightarrow> respond CurrencyResponse (set_queue_currency uid c rate db)
      | AddVideoCall url queue_id amount start_s end_s \<Rightarrow>
          respond VideoResponse (add_manual_video rurl now uid url amount start_s end_s queue_id db)
      | UpdatePriorityCall pid label min_price \<Rightarrow>
          respond PriorityResponse (update_priority uid pid label min_price db)
      | UpdateStatusCall vid watched bookmarked \<Rightarrow>
          respond (\<lambda>_. NoResponse) (update_status uid vid watched bookmarked db)
      | RetryMetadataCall vid \<Rightarrow> respond (\<lambda>_. NoResponse) (retry_metadata now uid vid db)
      | UpdateVideoCall vid amount start_s end_s \<Rightarrow>
          respond (\<lambda>_. NoResponse) (update_video uid vid amount start_s end_s db))"

definition handle_video_request ::
  "(string \<Rightarrow> bool) \<Rightarrow> (string \<Rightarrow> readonly_url option) \<Rightarrow> timestamp \<Rightarrow> api_context \<Rightarrow> video_request \<Rightarrow> db \<Rightarrow>
    (api_error + video_response) \<times> db" where
  "handle_video_request is_url rurl now ctx req db =
     call_procedure (authenticated ctx) (parse_video_request is_url rurl req)
       (\<lambda>uid call s. let r = video_call_outcome rurl now uid call s
                     in (map_error translate_video_queue_error (fst r), snd r)) db"

section \<open>Well-formed calls keep the database well-formed\<close>

text \<open>The calls that parsing can produce.\<close>

definition call_ok :: "(string \<Rightarrow> readonly_url option) \<Rightarrow> video_call \<Rightarrow> bool" where
  "call_ok rurl call =
     (case call of
        CreateQueueCall label \<Rightarrow> label_ok label
      | UpdateQueueCall _ label _ \<Rightarrow> label_ok label
      | UpdatePriorityCall _ label min_price \<Rightarrow> label_ok label \<and> min_price < 10 ^ 20
      | AddVideoCall url _ amount start_s end_s \<Rightarrow>
          youtube_video_id rurl url \<noteq> None \<and> bind_clip amount start_s end_s = Inr () \<and>
          valid_video_timing start_s end_s
      | UpdateVideoCall _ amount start_s end_s \<Rightarrow>
          bind_clip amount start_s end_s = Inr () \<and> valid_video_timing start_s end_s
      | _ \<Rightarrow> True)"

lemma snd_respond [simp]: "snd (respond f r) = snd r"
  and fst_respond_Inl [simp]: "fst (respond f r) = Inl e \<longleftrightarrow> fst r = Inl e"
  by (auto simp: respond_def split: sum.splits)

lemma video_call_keeps_db_ok:
  assumes "db_ok db" and "call_ok rurl call"
  shows "db_ok (snd (video_call_outcome rurl now uid call db))"
  using assms create_queue_ok update_queue_ok move_video_ok set_queue_currency_ok add_manual_video_ok
    update_priority_ok update_status_ok retry_metadata_ok update_video_ok
  by (cases call) (simp_all add: video_call_outcome_def call_ok_def)


lemma parse_label_ok: "parse_label s = Some l \<Longrightarrow> label_ok l"
  by (auto simp: parse_label_def label_ok_def Let_def split: if_split_asm)

lemma parse_money_bound: "parse_money_amount inp = Some t \<Longrightarrow> decimal_units 2 t < 10 ^ 20"
proof -
  assume "parse_money_amount inp = Some t"
  then obtain s a b where parts: "decimal_parts 18 2 s = Some (a, b)"
    and t: "t = a @ ''.'' @ pad_end 2 (CHR ''0'') b"
    by (rule parse_money_amount_Some)
  note p = decimal_parts_Some [OF parts]
  let ?f = "pad_end 2 (CHR ''0'') b"
  have f: "digits_within 2 ?f" using p(2) by (rule digits_within_pad_end) simp
  have len: "length ?f = 2" using p(2) by (auto simp: digits_within_def)
  have "decimal_units 2 t = nat_of_dec a * 10 ^ 2 + nat_of_dec ?f"
    unfolding t using decimal_units_join(1) [of a ?f 2] digits_within_no_dot p(1) f by simp
  moreover have "nat_of_dec ?f < 10 ^ 2"
    using nat_of_dec_bound [of ?f] f len by (simp add: digits_within_def)
  moreover have "nat_of_dec a < 10 ^ 18"
  proof -
    have "nat_of_dec a < 10 ^ length a" using nat_of_dec_bound p(1) by (simp add: digits_within_def)
    also have "\<dots> \<le> 10 ^ 18" using p(1) by (intro power_increasing) (auto simp: digits_within_def)
    finally show ?thesis .
  qed
  ultimately show ?thesis by simp
qed

lemma parse_details_ok:
  assumes "parse_details amount start_s end_s = Some a"
  shows "bind_clip a start_s end_s = Inr ()" and "valid_video_timing start_s end_s"
  using assms parse_money_bound
  by (auto simp: parse_details_def bind_clip_def z_nonnegative_int_def z_positive_int_def optional_holds_def
      max_video_seconds_def in_int4_def split: if_split_asm option.split_asm)

lemma parsed_call_ok:
  assumes "parse_video_request is_url rurl req = Some call"
  shows "call_ok rurl call"
proof (cases req)
  case (AddVideo url queue_id amount start_s end_s)
  then show ?thesis using assms parse_details_ok
    by (auto simp: parse_video_request_def call_ok_def split: if_split_asm)
next
  case (UpdateVideo vid amount start_s end_s)
  then show ?thesis using assms parse_details_ok
    by (auto simp: parse_video_request_def call_ok_def split: if_split_asm)
next
  case (UpdateVideoPriority pid label min_price)
  then show ?thesis using assms parse_label_ok parse_money_bound
    by (auto simp: parse_video_request_def call_ok_def bind_eq_Some_conv split: if_split_asm)
next
  case (UpdateQueueCurrency c rate)
  then show ?thesis using assms
    by (auto simp: parse_video_request_def call_ok_def split: if_split_asm option.split_asm)
qed (use assms parse_label_ok in \<open>auto simp: parse_video_request_def call_ok_def split: if_split_asm\<close>)

lemma handle_video_request_keeps_db_ok:
  assumes "db_ok db"
  shows "db_ok (snd (handle_video_request is_url rurl now ctx req db))"
  using assms video_call_keeps_db_ok parsed_call_ok
  by (auto simp: handle_video_request_def call_procedure_def Let_def split: sum.splits option.splits)

text \<open>A server that answers requests, each from its own viewer and at its own time.\<close>

definition serve_video ::
  "(string \<Rightarrow> bool) \<Rightarrow> (string \<Rightarrow> readonly_url option) \<Rightarrow> db \<Rightarrow> timestamp \<times> api_context \<times> video_request \<Rightarrow> db" where
  "serve_video is_url rurl db event =
     (case event of (now, ctx, req) \<Rightarrow> snd (handle_video_request is_url rurl now ctx req db))"

interpretation video_server: invariant_machine "serve_video is_url rurl" "\<lambda>_. True" db_ok for is_url rurl
  by unfold_locales (auto simp: serve_video_def handle_video_request_keeps_db_ok)

end
