(* ===== verification/RequestBody.thy ===== *)
theory RequestBody
  imports VideoTiming "HOL-Library.Word"
begin

text \<open>
  Bounded request bodies (\<open>server/request-body.ts\<close>) and the two routes that use them directly: the
  tRPC boundary (\<open>server/api/trpc/request.ts\<close>) and the proxy of the chat service
  (\<open>routes/api/chat/$.tsx\<close>).  A body is the sequence of what its reader returns, with the state of
  the abort signal before and after each read; a sequence that ends without \<open>End\<close> is a body that
  is still waiting, and so is the result \<open>None\<close>.
\<close>

type_synonym byte = "8 word"

datatype body_error = Aborted | Invalid_body | Too_large

datatype stream_read = Chunk "byte list" | End | ReadFailure

record read_step =
  aborted_before :: bool
  read_result :: stream_read
  aborted_after :: bool

text \<open>Headers are looked up by lower-case name; setting one replaces it.\<close>

type_synonym headers = "(string \<times> string) list"

definition get_header :: "headers \<Rightarrow> string \<Rightarrow> string option" where
  "get_header hs name = map_of hs name"

definition delete_header :: "string \<Rightarrow> headers \<Rightarrow> headers" where
  "delete_header name hs = filter (\<lambda>h. fst h \<noteq> name) hs"

definition set_header :: "string \<Rightarrow> string \<Rightarrow> headers \<Rightarrow> headers" where
  "set_header name v hs = delete_header name hs @ [(name, v)]"

record http_request =
  req_method :: string
  req_path :: string
  req_headers :: headers
  req_body :: "read_step list option"

record http_response =
  res_status :: nat
  res_error :: string

section \<open>The content length\<close>

definition validate_content_length :: "string option \<Rightarrow> nat \<Rightarrow> bool \<Rightarrow> body_error + unit" where
  "validate_content_length header max_bytes require_positive =
     (case header of
        None \<Rightarrow> Inr ()
      | Some h \<Rightarrow>
          if \<not> (h \<noteq> [] \<and> list_all is_digit h) then Inl Invalid_body
          else (let n = nat_of_dec h in
                if \<not> n \<le> max_safe_integer \<or> (require_positive \<and> n \<le> 0) then Inl Invalid_body
                else if n > max_bytes then Inl Too_large
                else Inr ()))"

section \<open>Reading\<close>

text \<open>\<open>body.set(chunk, offset)\<close> on a buffer of \<open>totalBytes\<close> zeros.\<close>

definition set_bytes :: "byte list \<Rightarrow> nat \<Rightarrow> byte list \<Rightarrow> byte list" where
  "set_bytes buffer offset chunk = take offset buffer @ chunk @ drop (offset + length chunk) buffer"

definition join_chunks :: "byte list list \<Rightarrow> nat \<Rightarrow> byte list" where
  "join_chunks chunks total_bytes =
     fst (foldl (\<lambda>(body, offset) chunk. (set_bytes body offset chunk, offset + length chunk))
           (replicate total_bytes 0, 0) chunks)"

fun read_loop :: "nat \<Rightarrow> read_step list \<Rightarrow> byte list list \<Rightarrow> nat \<Rightarrow> (body_error + byte list) option" where
  "read_loop max_bytes [] chunks total_bytes = None"
| "read_loop max_bytes (s # steps) chunks total_bytes =
     (if aborted_before s then Some (Inl Aborted)
      else case read_result s of
        ReadFailure \<Rightarrow> Some (Inl (if aborted_after s then Aborted else Invalid_body))
      | End \<Rightarrow>
          if aborted_after s then Some (Inl Aborted) else Some (Inr (join_chunks chunks total_bytes))
      | Chunk c \<Rightarrow>
          if aborted_after s then Some (Inl Aborted)
          else if total_bytes + length c > max_bytes then Some (Inl Too_large)
          else read_loop max_bytes steps (chunks @ [c]) (total_bytes + length c))"

definition read_bounded_request_body :: "read_step list \<Rightarrow> nat \<Rightarrow> (body_error + byte list) option" where
  "read_bounded_request_body steps max_bytes = read_loop max_bytes steps [] 0"

section \<open>The tRPC boundary\<close>

definition max_trpc_request_bytes :: nat where "max_trpc_request_bytes = 1024 * 1024"

datatype bounded_request =
    Rejected http_response
  | Forwarded http_request
  | Buffered http_request "byte list"

definition request_error :: "string \<Rightarrow> nat \<Rightarrow> bounded_request" where
  "request_error message status = Rejected \<lparr>res_status = status, res_error = message\<rparr>"

definition bound_trpc_request :: "http_request \<Rightarrow> bounded_request option" where
  "bound_trpc_request req =
     (if req_method req \<noteq> ''POST'' then Some (Forwarded req)
      else case validate_content_length (get_header (req_headers req) ''content-length'')
                  max_trpc_request_bytes False of
        Inl Too_large \<Rightarrow> Some (request_error ''Request too large'' 413)
      | Inl _ \<Rightarrow> Some (request_error ''Invalid content length'' 400)
      | Inr _ \<Rightarrow>
          (case req_body req of
             None \<Rightarrow> Some (Forwarded req)
           | Some steps \<Rightarrow>
               (case read_bounded_request_body steps max_trpc_request_bytes of
                  None \<Rightarrow> None
                | Some (Inl Too_large) \<Rightarrow> Some (request_error ''Request too large'' 413)
                | Some (Inl _) \<Rightarrow> Some (request_error ''Invalid request body'' 400)
                | Some (Inr body) \<Rightarrow>
                    Some (Buffered (req\<lparr>req_headers := delete_header ''content-length'' (req_headers req)\<rparr>) body))))"

section \<open>The chat proxy\<close>

definition session_user_header :: string where "session_user_header = ''x-streambrew-session-user-id''"

definition max_webhook_bytes :: nat where "max_webhook_bytes = 64 * 1024"

definition is_oauth_callback :: "string \<Rightarrow> string \<Rightarrow> bool" where
  "is_oauth_callback method pathname \<longleftrightarrow>
     method = ''GET'' \<and>
     pathname \<in> (\<lambda>p. ''/api/chat/oauth/'' @ p @ ''/callback'') ` {''youtube'', ''twitch'', ''kick'', ''vk_video''}"

definition is_kick_webhook :: "string \<Rightarrow> string \<Rightarrow> bool" where
  "is_kick_webhook method pathname \<longleftrightarrow> method = ''POST'' \<and> pathname = ''/api/chat/webhooks/kick''"

definition read_webhook_body :: "http_request \<Rightarrow> (http_response + byte list) option" where
  "read_webhook_body req =
     (let refuse = (\<lambda>e. Inl \<lparr>res_status = (if e = Too_large then 413 else 400), res_error = ''Invalid request''\<rparr>) in
      case validate_content_length (get_header (req_headers req) ''content-length'') max_webhook_bytes False of
        Inl e \<Rightarrow> Some (refuse e)
      | Inr _ \<Rightarrow>
          (case req_body req of
             None \<Rightarrow> Some (Inr [])
           | Some steps \<Rightarrow>
               (case read_bounded_request_body steps max_webhook_bytes of
                  None \<Rightarrow> None
                | Some (Inl e) \<Rightarrow> Some (refuse e)
                | Some (Inr body) \<Rightarrow> Some (Inr body))))"

record upstream_request =
  up_method :: string
  up_path :: string
  up_headers :: headers
  up_body :: "byte list option"

text \<open>
  The headers sent on: the client's without its cookies, host and session header, with the session
  user of this browser, the service's secret and the public address.
\<close>

definition proxy_headers :: "string \<Rightarrow> string \<Rightarrow> string \<Rightarrow> int option \<Rightarrow> headers \<Rightarrow> headers" where
  "proxy_headers secret host proto session_user hs =
     (let stripped = delete_header session_user_header (delete_header ''host'' (delete_header ''cookie'' hs));
          withUser = (case session_user of
                        None \<Rightarrow> stripped
                      | Some u \<Rightarrow> set_header session_user_header (dec_nat (nat u)) stripped)
      in set_header ''x-forwarded-proto'' proto
           (set_header ''x-forwarded-prefix'' ''/api/chat''
             (set_header ''x-forwarded-host'' host
               (set_header ''authorization'' (''Bearer '' @ secret) withUser))))"

definition chat_proxy ::
  "string \<Rightarrow> string \<Rightarrow> string \<Rightarrow> int option \<Rightarrow> http_request \<Rightarrow> (http_response + upstream_request) option" where
  "chat_proxy secret host proto viewer req =
     (let oauth = is_oauth_callback (req_method req) (req_path req);
          send = (\<lambda>body. Some (Inr
            \<lparr>up_method = req_method req, up_path = drop (length ''/api/chat'') (req_path req),
             up_headers = proxy_headers secret host proto (if oauth then viewer else None) (req_headers req),
             up_body = body\<rparr>))
      in if \<not> oauth \<and> \<not> is_kick_webhook (req_method req) (req_path req)
         then Some (Inl \<lparr>res_status = 404, res_error = ''Not found''\<rparr>)
         else if oauth then send None
         else case read_webhook_body req of
                None \<Rightarrow> None
              | Some (Inl response) \<Rightarrow> Some (Inl response)
              | Some (Inr body) \<Rightarrow> send (Some body))"

section \<open>Facts\<close>

lemma set_bytes_fill:
  "set_bytes (filled @ replicate (length c + n) 0) (length filled) c = (filled @ c) @ replicate n 0"
  by (simp add: set_bytes_def replicate_add)

lemma foldl_set_bytes:
  "fst (foldl (\<lambda>(body, offset) chunk. (set_bytes body offset chunk, offset + length chunk))
     (filled @ replicate (length (concat cs) + n) 0, length filled) cs) = filled @ concat cs @ replicate n 0"
proof (induction cs arbitrary: filled)
  case (Cons c cs)
  have "set_bytes (filled @ replicate (length (concat (c # cs)) + n) 0) (length filled) c =
      (filled @ c) @ replicate (length (concat cs) + n) 0"
    using set_bytes_fill [of filled c "length (concat cs) + n"] by (simp add: add.assoc)
  then show ?case using Cons [of "filled @ c"] by simp
qed simp

lemma join_chunks_concat [simp]: "join_chunks cs (length (concat cs)) = concat cs"
  using foldl_set_bytes [of "[]" cs 0] by (simp add: join_chunks_def)

lemma get_delete_header [simp]:
  "get_header (delete_header n hs) name = (if name = n then None else get_header hs name)"
  by (induction hs) (auto simp: get_header_def delete_header_def)

lemma get_set_header [simp]:
  "get_header (set_header n v hs) name = (if name = n then Some v else get_header hs name)"
  using get_delete_header [of n hs name]
  by (auto simp: set_header_def get_header_def map_add_def split: option.splits)

definition chunk_steps :: "byte list list \<Rightarrow> read_step list" where
  "chunk_steps cs = map (\<lambda>c. \<lparr>aborted_before = False, read_result = Chunk c, aborted_after = False\<rparr>) cs"

definition end_step :: read_step where
  "end_step = \<lparr>aborted_before = False, read_result = End, aborted_after = False\<rparr>"

lemma chunk_steps_simps [simp]:
  "chunk_steps [] = []"
  "chunk_steps (c # cs) = \<lparr>aborted_before = False, read_result = Chunk c, aborted_after = False\<rparr> # chunk_steps cs"
  by (simp_all add: chunk_steps_def)

lemma read_loop_whole:
  "length (concat chunks) \<le> max_bytes \<Longrightarrow>
   read_loop max_bytes (chunk_steps cs @ end_step # rest) chunks (length (concat chunks)) =
     Some (if length (concat (chunks @ cs)) \<le> max_bytes then Inr (concat (chunks @ cs)) else Inl Too_large)"
proof (induction cs arbitrary: chunks)
  case Nil
  then show ?case by (simp add: end_step_def)
next
  case (Cons c cs)
  show ?case
  proof (cases "length (concat (chunks @ [c])) \<le> max_bytes")
    case True
    then show ?thesis using Cons.IH [of "chunks @ [c]"] by simp
  qed simp
qed

lemma read_loop_success:
  "read_loop max_bytes steps chunks (length (concat chunks)) = Some (Inr body) \<Longrightarrow>
   length (concat chunks) \<le> max_bytes \<Longrightarrow>
   length body \<le> max_bytes \<and>
   (\<exists>cs rest. steps = chunk_steps cs @ end_step # rest \<and> body = concat (chunks @ cs))"
proof (induction steps arbitrary: chunks)
  case (Cons s steps)
  have b: "\<not> aborted_before s" using Cons.prems(1) by auto
  show ?case
  proof (cases "read_result s")
    case (Chunk c)
    have a: "\<not> aborted_after s" and len: "length (concat (chunks @ [c])) \<le> max_bytes"
      and go: "read_loop max_bytes steps (chunks @ [c]) (length (concat (chunks @ [c]))) = Some (Inr body)"
      using Cons.prems(1) b Chunk by (auto split: if_split_asm)
    obtain cs rest where "steps = chunk_steps cs @ end_step # rest" "body = concat ((chunks @ [c]) @ cs)"
      and "length body \<le> max_bytes"
      using Cons.IH [OF go len] by auto
    moreover have "s = \<lparr>aborted_before = False, read_result = Chunk c, aborted_after = False\<rparr>"
      using a b Chunk by simp
    ultimately have "s # steps = chunk_steps (c # cs) @ end_step # rest \<and> body = concat (chunks @ (c # cs))"
      by simp
    then show ?thesis using \<open>length body \<le> max_bytes\<close> by blast
  next
    case End
    then have "body = concat chunks" and "s = end_step"
      using Cons.prems(1) b by (auto simp: end_step_def split: if_split_asm)
    then show ?thesis using Cons.prems(2) by (intro conjI exI [of _ "[]"] exI [of _ steps]) auto
  next
    case ReadFailure
    then show ?thesis using Cons.prems(1) b by simp
  qed
qed simp

text \<open>
  C27: A bounded body is read exactly: however it is cut into chunks, a body that ends within the
  limit is returned as its concatenation and one that does not is refused as too large; and
  whatever is returned was read to its end, without an abort, and fits the limit.
\<close>

theorem bounded_body_exact:
  "read_bounded_request_body (chunk_steps cs @ end_step # rest) max_bytes =
     Some (if length (concat cs) \<le> max_bytes then Inr (concat cs) else Inl Too_large) \<and>
   (read_bounded_request_body steps max_bytes = Some (Inr body) \<longrightarrow>
      length body \<le> max_bytes \<and> (\<exists>cs rest. steps = chunk_steps cs @ end_step # rest \<and> body = concat cs))"
  using read_loop_whole [of "[]" max_bytes cs rest] read_loop_success [of max_bytes steps "[]" body]
  by (simp add: read_bounded_request_body_def)

theorem bounded_body_exact_witness:
  "read_bounded_request_body (chunk_steps [[1, 2], [3]] @ [end_step]) 4 = Some (Inr [1, 2, 3]) \<and>
   length [1, 2, 3 :: byte] \<le> 4"
proof -
  have r: "read_bounded_request_body (chunk_steps [[1, 2], [3]] @ [end_step]) 4 = Some (Inr [1, 2, 3])"
    by (simp add: read_bounded_request_body_def end_step_def join_chunks_def set_bytes_def eval_nat_numeral)
  show ?thesis
    using r bounded_body_exact [of "[]" "[]" 4 "chunk_steps [[1, 2], [3]] @ [end_step]" "[1, 2, 3]"] by blast
qed

text \<open>
  What passes the tRPC boundary is either the request as it came (another method, or no
  body) or the same request with at most one mebibyte of buffered body, its other headers kept and
  its content length dropped; everything else is refused with 400 or 413.
\<close>

theorem trpc_boundary:
  assumes "bound_trpc_request req = Some r"
  shows "case r of
      Rejected response \<Rightarrow> req_method req = ''POST'' \<and> res_status response \<in> {400, 413}
    | Forwarded q \<Rightarrow> q = req \<and> (req_method req \<noteq> ''POST'' \<or> req_body req = None)
    | Buffered q body \<Rightarrow>
        length body \<le> 1048576 \<and> req_method q = ''POST'' \<and> req_path q = req_path req \<and>
        (\<forall>name. get_header (req_headers q) name =
           (if name = ''content-length'' then None else get_header (req_headers req) name)) \<and>
        (\<exists>steps. req_body req = Some steps \<and>
           read_bounded_request_body steps max_trpc_request_bytes = Some (Inr body))"
proof (cases "req_method req = ''POST''")
  case True
  let ?v = "validate_content_length (get_header (req_headers req) ''content-length'') max_trpc_request_bytes False"
  show ?thesis
  proof (cases ?v)
    case (Inl e)
    then show ?thesis using assms True by (cases e) (auto simp: bound_trpc_request_def request_error_def)
  next
    case v: (Inr u)
    show ?thesis
    proof (cases "req_body req")
      case None
      then show ?thesis using assms True v by (auto simp: bound_trpc_request_def)
    next
      case (Some steps)
      let ?b = "read_bounded_request_body steps max_trpc_request_bytes"
      have "?b \<noteq> None"
      proof
        assume "?b = None"
        then show False using assms True v Some by (simp add: bound_trpc_request_def)
      qed
      then consider e where "?b = Some (Inl e)" | body where "?b = Some (Inr body)"
        by (cases ?b) (auto, metis sumE)
      then show ?thesis
      proof cases
        case (1 e)
        then show ?thesis using assms True v Some
          by (cases e) (auto simp: bound_trpc_request_def request_error_def)
      next
        case (2 body)
        have "length body \<le> max_trpc_request_bytes"
          using read_loop_success [of max_trpc_request_bytes steps "[]" body] 2
          by (simp add: read_bounded_request_body_def)
        then show ?thesis using assms True v Some 2
          by (auto simp: bound_trpc_request_def max_trpc_request_bytes_def)
      qed
    qed
  qed
qed (use assms in \<open>auto simp: bound_trpc_request_def\<close>)

theorem trpc_boundary_witness:
  "bound_trpc_request \<lparr>req_method = ''POST'', req_path = ''/api'', req_headers = [(''content-length'', ''x'')], req_body = None\<rparr>
     = Some (Rejected \<lparr>res_status = 400, res_error = ''Invalid content length''\<rparr>) \<and>
   (400 :: nat) \<in> {400, 413}"
proof -
  let ?r = "\<lparr>req_method = ''POST'', req_path = ''/api'', req_headers = [(''content-length'', ''x'')], req_body = None\<rparr>"
  have r: "bound_trpc_request ?r = Some (Rejected \<lparr>res_status = 400, res_error = ''Invalid content length''\<rparr>)"
    by (simp add: bound_trpc_request_def get_header_def validate_content_length_def is_digit_def code_def
        request_error_def)
  show ?thesis using r trpc_boundary [OF r] by simp
qed

section \<open>What the chat service receives\<close>

text \<open>
  The chat service learns who is signed in only from this server: the session header it gets
  is the viewer's id on an OAuth callback and absent on a webhook, whatever the client sent;
  cookies are never passed on; the bearer token is the server's; and only the four OAuth
  callbacks and the Kick webhook, with at most 64 KiB, are proxied at all.
\<close>

theorem chat_proxy_headers:
  assumes "chat_proxy secret host proto viewer req = Some (Inr up)"
  shows "get_header (up_headers up) session_user_header =
      (if is_oauth_callback (req_method req) (req_path req) then map_option (\<lambda>u. dec_nat (nat u)) viewer else None) \<and>
    get_header (up_headers up) ''cookie'' = None \<and>
    get_header (up_headers up) ''authorization'' = Some (''Bearer '' @ secret) \<and>
    ''/api/chat'' @ up_path up = req_path req \<and>
    (is_oauth_callback (req_method req) (req_path req) \<or> is_kick_webhook (req_method req) (req_path req)) \<and>
    (case up_body up of None \<Rightarrow> is_oauth_callback (req_method req) (req_path req) | Some b \<Rightarrow> length b \<le> 65536)"
proof -
  let ?oauth = "is_oauth_callback (req_method req) (req_path req)"
  have allowed: "?oauth \<or> is_kick_webhook (req_method req) (req_path req)"
    using assms by (auto simp: chat_proxy_def Let_def split: if_split_asm)
  then have path: "''/api/chat'' @ drop (length ''/api/chat'') (req_path req) = req_path req"
    by (auto simp: is_oauth_callback_def is_kick_webhook_def)
  have within: "length b \<le> max_webhook_bytes" if "read_webhook_body req = Some (Inr b)" for b
    using that read_loop_success [of max_webhook_bytes _ "[]" b]
    by (auto simp: read_webhook_body_def Let_def read_bounded_request_body_def
        split: sum.split_asm option.split_asm)
  have up: "up = \<lparr>up_method = req_method req, up_path = drop (length ''/api/chat'') (req_path req),
      up_headers = proxy_headers secret host proto (if ?oauth then viewer else None) (req_headers req),
      up_body = up_body up\<rparr>"
    and body: "case up_body up of None \<Rightarrow> ?oauth | Some b \<Rightarrow> length b \<le> max_webhook_bytes"
    using assms within by (auto simp: chat_proxy_def Let_def split: if_split_asm option.split_asm sum.split_asm)
  have headers: "up_headers up = proxy_headers secret host proto (if ?oauth then viewer else None) (req_headers req)"
    by (subst up) simp
  have upath: "up_path up = drop (length ''/api/chat'') (req_path req)" by (subst up) simp
  show ?thesis
    using allowed path body unfolding headers upath
    by (auto simp: proxy_headers_def Let_def session_user_header_def max_webhook_bytes_def split: option.splits)
qed

theorem chat_proxy_headers_witness:
  "\<exists>up. chat_proxy ''s'' ''h'' ''https'' (Some 7)
      \<lparr>req_method = ''GET'', req_path = ''/api/chat/oauth/kick/callback'',
       req_headers = [(''cookie'', ''c''), (''x-streambrew-session-user-id'', ''1'')], req_body = None\<rparr> = Some (Inr up) \<and>
    get_header (up_headers up) session_user_header = Some (dec_nat 7) \<and> get_header (up_headers up) ''cookie'' = None"
proof -
  let ?r = "\<lparr>req_method = ''GET'', req_path = ''/api/chat/oauth/kick/callback'',
       req_headers = [(''cookie'', ''c''), (''x-streambrew-session-user-id'', ''1'')], req_body = None\<rparr>"
  have o: "is_oauth_callback (req_method ?r) (req_path ?r)" by (simp add: is_oauth_callback_def)
  obtain up where up: "chat_proxy ''s'' ''h'' ''https'' (Some 7) ?r = Some (Inr up)"
    using o by (simp add: chat_proxy_def Let_def)
  show ?thesis using up o chat_proxy_headers [OF up] by auto
qed

end
