(* ===== verification/RestreamSchemas.thy ===== *)
theory RestreamSchemas
  imports RequestBody Trpc
begin

text \<open>
  The data of restreaming: the schemas of \<open>packages/src/restream.ts\<close>, the normalisation of a
  destination's server URL (\<open>server/restream/target.ts\<close>) and the encryption of stored stream keys
  (\<open>server/restream/credential-cipher.ts\<close>).  The WHATWG URL parser, Node's \<open>isIP\<close> for version 6
  and the cryptographic primitives are arguments, with the behaviour the code relies on collected
  in \<open>crypto_ok\<close>.
\<close>

section \<open>Schemas\<close>

definition max_restream_destinations :: nat where "max_restream_destinations = 3"

text \<open>\<open>z.uuid()\<close>: RFC 9562 versions 1 to 8, the nil and the max UUID.\<close>

definition is_hex :: "char \<Rightarrow> bool" where
  "is_hex c \<longleftrightarrow> is_digit c \<or> c \<in> set ''abcdefABCDEF''"

definition valid_uuid :: "string \<Rightarrow> bool" where
  "valid_uuid s \<longleftrightarrow>
     (case js_split (CHR ''-'') s of
        [a, b, c, d, e] \<Rightarrow>
          map length [a, b, c, d, e] = [8, 4, 4, 4, 12] \<and> list_all (list_all is_hex) [a, b, c, d, e] \<and>
          (hd c \<in> set ''12345678'' \<and> hd d \<in> set ''89abAB'' \<or>
           s = ''00000000-0000-0000-0000-000000000000'' \<or>
           s = ''ffffffff-ffff-ffff-ffff-ffffffffffff'')
      | _ \<Rightarrow> False)"

datatype restream_platform = Twitch_platform | Youtube_platform | Kick_platform | Custom_platform

datatype destination_state = Idle | Forwarding | Destination_error

text \<open>\<open>\s\<close> and the classes of the regular expressions.\<close>

definition word_char :: "char \<Rightarrow> bool" where
  "word_char c \<longleftrightarrow>
     is_lower_alpha c \<or> is_upper_alpha c \<or> is_digit c \<or> c = CHR ''_'' \<or> c = CHR ''-''"

definition plain_char :: "char \<Rightarrow> bool" where
  "plain_char c \<longleftrightarrow> \<not> is_space c \<and> c \<noteq> CHR ''#''"

definition valid_ingest_key :: "string \<Rightarrow> bool" where
  "valid_ingest_key s \<longleftrightarrow> prefix ''sb_'' s \<and> length s = 46 \<and> list_all word_char (drop 3 s)"

text \<open>The rest of a URL after \<open>rtmp://\<close> or \<open>rtmps://\<close>.\<close>

definition rtmp_rest :: "string \<Rightarrow> string option" where
  "rtmp_rest s =
     (case strip_prefix ''rtmp://'' s of
        Some rest \<Rightarrow> Some rest
      | None \<Rightarrow> strip_prefix ''rtmps://'' s)"

definition valid_server_url :: "string \<Rightarrow> bool" where
  "valid_server_url s \<longleftrightarrow>
     10 \<le> length s \<and> length s \<le> 2048 \<and>
     (case rtmp_rest s of None \<Rightarrow> False | Some rest \<Rightarrow> rest \<noteq> [] \<and> list_all plain_char rest)"

definition valid_stream_key :: "string \<Rightarrow> bool" where
  "valid_stream_key s \<longleftrightarrow> 1 \<le> length s \<and> length s \<le> 512 \<and> list_all plain_char s"

record destination_view =
  dv_id :: string
  dv_platform :: restream_platform
  dv_label :: string
  dv_server_url :: string
  dv_key_hint :: string
  dv_enabled :: bool
  dv_position :: int

definition parse_destination :: "destination_view \<Rightarrow> destination_view option" where
  "parse_destination d =
     (if valid_uuid (dv_id d) \<and> valid_server_url (dv_server_url d) \<and>
         1 \<le> length (dv_key_hint d) \<and> length (dv_key_hint d) \<le> 8 \<and>
         z_nonnegative_int (dv_position d) \<and> dv_position d \<le> int max_restream_destinations - 1
      then map_option (\<lambda>label. d\<lparr>dv_label := label\<rparr>) (parse_label (dv_label d))
      else None)"

record session_state =
  ss_id :: string
  ss_state :: destination_state
  ss_bytes :: int

definition valid_session_state :: "session_state \<Rightarrow> bool" where
  "valid_session_state s \<longleftrightarrow> valid_uuid (ss_id s) \<and> z_nonnegative_int (ss_bytes s)"

datatype session_status = Connecting | Live | Session_ended

record session_view =
  sv_id :: string
  sv_status :: session_status
  sv_started_at :: timestamp
  sv_live_at :: "timestamp option"
  sv_last_heartbeat_at :: timestamp
  sv_destinations :: "session_state list"

definition valid_session_view :: "session_view \<Rightarrow> bool" where
  "valid_session_view s \<longleftrightarrow>
     valid_uuid (sv_id s) \<and> sv_status s \<noteq> Session_ended \<and> list_all valid_session_state (sv_destinations s)"

text \<open>\<open>RestreamConfigSchema\<close>; the plan is the constant the schema's literals name.\<close>

record restream_config =
  rc_ingest :: "(string \<times> string) option"
  rc_destinations :: "destination_view list"
  rc_session :: "session_view option"

definition valid_ingest_server :: "string \<Rightarrow> bool" where
  "valid_ingest_server s \<longleftrightarrow>
     (case strip_prefix ''rtmp://'' s of
        None \<Rightarrow> False
      | Some rest \<Rightarrow> rest \<noteq> [] \<and> list_all (\<lambda>c. \<not> is_space c) rest)"

definition parse_config :: "restream_config \<Rightarrow> restream_config option" where
  "parse_config c =
     (if optional_holds (\<lambda>(server, key). valid_ingest_server server \<and> valid_ingest_key key) (rc_ingest c) \<and>
         length (rc_destinations c) \<le> max_restream_destinations \<and>
         optional_holds valid_session_view (rc_session c)
      then map_option (\<lambda>ds. c\<lparr>rc_destinations := ds\<rparr>) (those (map parse_destination (rc_destinations c)))
      else None)"

datatype media_request =
    Authorize string string string
  | Heartbeat string string "session_state list"
  | Ended string string

definition valid_node_id :: "string \<Rightarrow> bool" where
  "valid_node_id s \<longleftrightarrow>
     (case s of [] \<Rightarrow> False
      | c # cs \<Rightarrow> (is_lower_alpha c \<or> is_digit c) \<and>
                 list_all (\<lambda>c. is_lower_alpha c \<or> is_digit c \<or> c = CHR ''-'') cs \<and> length cs \<le> 63)"

definition valid_publisher_id :: "string \<Rightarrow> bool" where
  "valid_publisher_id s \<longleftrightarrow> 1 \<le> length s \<and> length s \<le> 128"

definition valid_media_request :: "media_request \<Rightarrow> bool" where
  "valid_media_request r =
     (case r of
        Authorize node publisher path \<Rightarrow> valid_node_id node \<and> valid_publisher_id publisher \<and> valid_ingest_key path
      | Heartbeat node session destinations \<Rightarrow>
          valid_node_id node \<and> valid_uuid session \<and> list_all valid_session_state destinations \<and>
          length destinations \<le> max_restream_destinations
      | Ended node session \<Rightarrow> valid_node_id node \<and> valid_uuid session)"

text \<open>
  \<open>^rtmps?:\/\/[^\s]+#[^\s#]+$\<close>: the part after the last number sign holds no other, the part before
  it may.
\<close>

definition valid_target_url :: "string \<Rightarrow> bool" where
  "valid_target_url s \<longleftrightarrow>
     12 \<le> length s \<and> length s \<le> 3072 \<and>
     (case rtmp_rest s of
        None \<Rightarrow> False
      | Some rest \<Rightarrow>
          (case rev (js_split (CHR ''#'') rest) of
             key # before # others \<Rightarrow>
               key \<noteq> [] \<and> (before \<noteq> [] \<or> others \<noteq> []) \<and> list_all (\<lambda>c. \<not> is_space c) rest
           | _ \<Rightarrow> False))"

record authorized_publisher =
  ap_session :: string
  ap_targets :: "(string \<times> string) list"

definition valid_authorize_response :: "authorized_publisher \<Rightarrow> bool" where
  "valid_authorize_response r \<longleftrightarrow>
     valid_uuid (ap_session r) \<and>
     list_all (\<lambda>(d, target). valid_uuid d \<and> valid_target_url target) (ap_targets r) \<and>
     1 \<le> length (ap_targets r) \<and> length (ap_targets r) \<le> max_restream_destinations"

section \<open>Destination servers\<close>

record js_url =
  u_protocol :: string
  u_username :: string
  u_password :: string
  u_hostname :: string
  u_pathname :: string
  u_search :: string
  u_hash :: string

text \<open>
  The URL object: parsing, and the \<open>href\<close> after its host name and path have been assigned.
\<close>

record url_api =
  new_url :: "string \<Rightarrow> js_url option"
  href_with :: "js_url \<Rightarrow> string \<Rightarrow> string \<Rightarrow> string"

text \<open>Node's \<open>isIP(hostname) === 4\<close>: four decimal octets without leading zeros.\<close>

definition ipv4_octet :: "string \<Rightarrow> bool" where
  "ipv4_octet s \<longleftrightarrow> list_all is_digit s \<and> 1 \<le> length s \<and> length s \<le> 3 \<and> nat_of_dec s \<le> 255 \<and>
     (length s = 1 \<or> hd s \<noteq> CHR ''0'')"

definition is_ipv4 :: "string \<Rightarrow> bool" where
  "is_ipv4 s \<longleftrightarrow> length (js_split (CHR ''.'') s) = 4 \<and> list_all ipv4_octet (js_split (CHR ''.'') s)"

text \<open>The array of numbers, with its defaults: only host names that are IPv4 addresses get here.\<close>

definition is_private_ipv4 :: "string \<Rightarrow> bool" where
  "is_private_ipv4 hostname =
     (let octets = map (int \<circ> nat_of_dec) (js_split (CHR ''.'') hostname);
          first = (case octets of a # _ \<Rightarrow> a | [] \<Rightarrow> -1);
          second = (case octets of _ # b # _ \<Rightarrow> b | _ \<Rightarrow> -1)
      in first = 0 \<or> first = 10 \<or> first = 127 \<or> (first = 169 \<and> second = 254) \<or>
         (first = 172 \<and> second \<ge> 16 \<and> second \<le> 31) \<or> (first = 192 \<and> second = 168) \<or> first \<ge> 224)"

definition is_private_ipv6 :: "string \<Rightarrow> bool" where
  "is_private_ipv6 hostname =
     (let normalized = to_lower hostname
      in normalized = ''::'' \<or> normalized = ''::1'' \<or> prefix ''fc'' normalized \<or> prefix ''fd'' normalized \<or>
         (\<exists>c \<in> set ''89ab''. prefix (''fe'' @ [c]) normalized))"

text \<open>\<open>hostname.replace(/^\[(.*)\]$/, "$1")\<close>\<close>

definition unbracket :: "string \<Rightarrow> string" where
  "unbracket s =
     (if 2 \<le> length s \<and> hd s = CHR ''['' \<and> last s = CHR '']'' then butlast (tl s) else s)"

text \<open>\<open>s.replace(/\/+$/, "")\<close> and \<open>s.replace(/\/$/, "")\<close>\<close>

definition drop_slashes :: "string \<Rightarrow> string" where
  "drop_slashes s = rev (dropWhile (\<lambda>c. c = CHR ''/'') (rev s))"

definition drop_slash :: "string \<Rightarrow> string" where
  "drop_slash s = (if s \<noteq> [] \<and> last s = CHR ''/'' then butlast s else s)"

definition forbidden_host :: "(string \<Rightarrow> bool) \<Rightarrow> string \<Rightarrow> bool" where
  "forbidden_host is_ipv6 hostname \<longleftrightarrow>
     (is_ipv4 hostname \<and> is_private_ipv4 hostname) \<or> (is_ipv6 hostname \<and> is_private_ipv6 hostname)"

text \<open>\<open>normalizeRestreamServerUrl\<close>; \<open>None\<close> is \<open>InvalidRestreamTargetError\<close>.\<close>

definition normalize_restream_server_url :: "url_api \<Rightarrow> (string \<Rightarrow> bool) \<Rightarrow> string \<Rightarrow> string option" where
  "normalize_restream_server_url api is_ipv6 inp =
     (case new_url api (js_trim inp) of
        None \<Rightarrow> None
      | Some url \<Rightarrow>
          if (u_protocol url \<noteq> ''rtmp:'' \<and> u_protocol url \<noteq> ''rtmps:'') \<or> u_username url \<noteq> [] \<or>
             u_password url \<noteq> [] \<or> u_search url \<noteq> [] \<or> u_hash url \<noteq> [] \<or> u_hostname url = [] \<or>
             u_hostname url = ''localhost''
          then None
          else if forbidden_host is_ipv6 (unbracket (u_hostname url)) then None
          else (let path = drop_slashes (u_pathname url);
                    href = href_with api url (to_lower (u_hostname url)) (if path = [] then ''/'' else path);
                    result = drop_slash href
                in if valid_server_url result then Some result else None))"

section \<open>Stored credentials\<close>

record crypto =
  sha256 :: "byte list \<Rightarrow> byte list"
  gcm_seal :: "byte list \<Rightarrow> byte list \<Rightarrow> byte list \<Rightarrow> byte list \<times> byte list"
  gcm_open :: "byte list \<Rightarrow> byte list \<Rightarrow> byte list \<Rightarrow> byte list \<Rightarrow> byte list option"
  utf8_text :: "byte list \<Rightarrow> string"

text \<open>\<open>Buffer.from(s)\<close>: UTF-8 of code units below 256.\<close>

definition utf8_bytes :: "string \<Rightarrow> byte list" where
  "utf8_bytes s =
     concat (map (\<lambda>c. if code c < 128 then [of_nat (code c)]
                      else [of_nat (192 + code c div 64), of_nat (128 + code c mod 64)]) s)"

definition envelope_version :: byte where "envelope_version = 1"

definition nonce_bytes :: nat where "nonce_bytes = 12"

definition tag_bytes :: nat where "tag_bytes = 16"

definition cipher_key :: "crypto \<Rightarrow> string \<Rightarrow> byte list" where
  "cipher_key cr secret = sha256 cr (utf8_bytes secret)"

definition encrypt :: "crypto \<Rightarrow> byte list \<Rightarrow> byte list \<Rightarrow> string \<Rightarrow> byte list" where
  "encrypt cr key nonce v =
     (let (ciphertext, tag) = gcm_seal cr key nonce (utf8_bytes v)
      in [envelope_version] @ nonce @ tag @ ciphertext)"

text \<open>\<open>None\<close> is \<open>CredentialDecryptionError\<close>.\<close>

definition decrypt :: "crypto \<Rightarrow> byte list \<Rightarrow> byte list \<Rightarrow> string option" where
  "decrypt cr key envelope =
     (if length envelope < 1 + nonce_bytes + tag_bytes \<or> envelope ! 0 \<noteq> envelope_version then None
      else (let nonce = take nonce_bytes (drop 1 envelope);
                tag = take tag_bytes (drop (1 + nonce_bytes) envelope);
                ciphertext = drop (1 + nonce_bytes + tag_bytes) envelope
            in case gcm_open cr key nonce tag ciphertext of
                 None \<Rightarrow> None
               | Some bytes \<Rightarrow> (let plaintext = utf8_text cr bytes in if plaintext = [] then None else Some plaintext)))"

text \<open>What the code relies on: AES-256-GCM opens what it sealed, and UTF-8 is read back.\<close>

definition crypto_ok :: "crypto \<Rightarrow> bool" where
  "crypto_ok cr \<longleftrightarrow>
     (\<forall>key nonce bytes. length (fst (gcm_seal cr key nonce bytes)) = length bytes \<and>
        length (snd (gcm_seal cr key nonce bytes)) = tag_bytes \<and>
        gcm_open cr key nonce (snd (gcm_seal cr key nonce bytes)) (fst (gcm_seal cr key nonce bytes)) = Some bytes) \<and>
     (\<forall>s. utf8_text cr (utf8_bytes s) = s)"

section \<open>Ingest keys\<close>

text \<open>\<open>Buffer.toString("base64url")\<close>: six bits per character, no padding.\<close>

definition base64url_alphabet :: string where
  "base64url_alphabet = ''ABCDEFGHIJKLMNOPQRSTUVWXYZabcdefghijklmnopqrstuvwxyz0123456789-_''"

definition sextet :: "nat \<Rightarrow> char" where "sextet n = base64url_alphabet ! (n mod 64)"

fun base64url :: "byte list \<Rightarrow> string" where
  "base64url (a # b # c # rest) =
     (let n = unat a * 65536 + unat b * 256 + unat c
      in [sextet (n div 262144), sextet (n div 4096), sextet (n div 64), sextet n] @ base64url rest)"
| "base64url [a, b] =
     (let n = unat a * 1024 + unat b * 4 in [sextet (n div 4096), sextet (n div 64), sextet n])"
| "base64url [a] = (let n = unat a * 16 in [sextet (n div 64), sextet n])"
| "base64url [] = []"

definition create_ingest_key :: "byte list \<Rightarrow> string option" where
  "create_ingest_key random =
     (let key = ''sb_'' @ base64url random in if valid_ingest_key key then Some key else None)"

definition stream_key_hint :: "string \<Rightarrow> string" where
  "stream_key_hint key = drop (length key - 4) key"

section \<open>Facts\<close>

declare strip_prefix_append [simp]

lemma utf8_bytes_length: "length s \<le> length (utf8_bytes s) \<and> length (utf8_bytes s) \<le> 2 * length s"
  by (induction s) (auto simp: utf8_bytes_def)

lemma decrypt_encrypt:
  assumes "crypto_ok cr" and "length nonce = nonce_bytes" and "v \<noteq> []"
  shows "decrypt cr key (encrypt cr key nonce v) = Some v"
proof -
  obtain ciphertext tag where sealed: "gcm_seal cr key nonce (utf8_bytes v) = (ciphertext, tag)"
    by fastforce
  from assms(1) have "length tag = tag_bytes" "gcm_open cr key nonce tag ciphertext = Some (utf8_bytes v)"
    and "utf8_text cr (utf8_bytes v) = v"
    unfolding crypto_ok_def by (metis sealed fst_conv snd_conv)+
  then show ?thesis
    using assms(2,3) sealed by (simp add: encrypt_def decrypt_def Let_def nonce_bytes_def tag_bytes_def)
qed

lemma encrypt_length:
  assumes "crypto_ok cr" and "length nonce = nonce_bytes"
  shows "length (encrypt cr key nonce v) = 1 + nonce_bytes + tag_bytes + length (utf8_bytes v)"
proof -
  obtain ciphertext tag where sealed: "gcm_seal cr key nonce (utf8_bytes v) = (ciphertext, tag)"
    by fastforce
  from assms(1) have "length tag = tag_bytes" "length ciphertext = length (utf8_bytes v)"
    unfolding crypto_ok_def by (metis sealed fst_conv snd_conv)+
  then show ?thesis using assms(2) sealed by (simp add: encrypt_def)
qed

lemma word_char_sextet [simp]: "word_char (sextet n)"
proof -
  have "list_all word_char base64url_alphabet"
    by (simp add: base64url_alphabet_def word_char_def is_lower_alpha_def is_upper_alpha_def is_digit_def code_def)
  moreover have "n mod 64 < length base64url_alphabet" by (simp add: base64url_alphabet_def)
  ultimately show ?thesis by (simp add: sextet_def list_all_length)
qed

lemma base64url_word_chars: "list_all word_char (base64url bs)"
  by (induction bs rule: base64url.induct) (simp_all add: Let_def)

lemma length_base64url: "length (base64url bs) = (4 * length bs + 2) div 3"
  by (induction bs rule: base64url.induct) (simp_all add: Let_def)

lemma create_ingest_key_valid:
  assumes "length random = 32"
  shows "create_ingest_key random = Some (''sb_'' @ base64url random)"
  using assms base64url_word_chars [of random]
  by (simp add: create_ingest_key_def Let_def valid_ingest_key_def length_base64url)

end
