(* ===== verification/Accounts.thy ===== *)
theory Accounts
  imports VideoRouter RestreamSchemas
begin

text \<open>
  The users of the site: slugs proposed from an email (\<open>packages/src/slug.ts\<close>), administrators
  (\<open>server/admin.ts\<close>), the viewer of a request (\<open>server/api/_util.ts\<close>), accounts and their settings
  in the database (\<open>server/sensors/db/store.ts\<close>) and the procedures about them
  (\<open>server/api/trpc/index.ts\<close>).  The tables are those of the video queue; random UUIDs are arguments.
\<close>

section \<open>Slugs\<close>

definition is_slug_part :: "char \<Rightarrow> bool" where
  "is_slug_part c \<longleftrightarrow> is_lower_alpha c \<or> is_digit c"

text \<open>\<open>replace(/[^a-z0-9]+/g, "-")\<close>: the flag says whether the run of other characters has its dash.\<close>

fun dash_runs :: "bool \<Rightarrow> string \<Rightarrow> string" where
  "dash_runs in_run [] = []"
| "dash_runs in_run (c # cs) =
     (if is_slug_part c then c # dash_runs False cs
      else if in_run then dash_runs True cs
      else CHR ''-'' # dash_runs True cs)"

definition strip_dashes :: "string \<Rightarrow> string" where
  "strip_dashes s = rev (dropWhile (\<lambda>c. c = CHR ''-'') (rev (dropWhile (\<lambda>c. c = CHR ''-'') s)))"

definition slug_of_local_part :: "string \<Rightarrow> string" where
  "slug_of_local_part email =
     take 47 (strip_dashes (dash_runs False (to_lower (hd (js_split (CHR ''@'') email)))))"

text \<open>\<open>uuid\<close> is \<open>randomUUID()\<close>; \<open>None\<close> is a schema error.\<close>

definition parse_slug :: "string \<Rightarrow> string option" where
  "parse_slug s = (if valid_slug s then Some s else None)"

definition slug_from_email :: "string \<Rightarrow> string \<Rightarrow> string option" where
  "slug_from_email uuid email =
     (let s = slug_of_local_part email
      in if length s = 0 then parse_slug uuid
         else if length s < 3 then parse_slug (pad_end 3 (CHR ''0'') s)
         else parse_slug s)"

section \<open>Viewers\<close>

definition parse_admin_emails :: "string \<Rightarrow> string list" where
  "parse_admin_emails v =
     remdups (filter (\<lambda>e. e \<noteq> []) (map (\<lambda>e. to_lower (js_trim e)) (js_split (CHR '','') v)))"

definition is_admin_email :: "string \<Rightarrow> string \<Rightarrow> bool" where
  "is_admin_email admin_emails email \<longleftrightarrow> to_lower (js_trim email) \<in> set (parse_admin_emails admin_emails)"

record session =
  se_auth_id :: string
  se_email :: string
  se_image :: "string option"
  se_name :: string

record viewer =
  vw_is_admin :: bool
  vw_user_id :: int
  vw_email :: string
  vw_image :: "string option"
  vw_name :: string

section \<open>Accounts\<close>

definition is_user_slug_conflict :: "pg_error \<Rightarrow> bool" where
  "is_user_slug_conflict e \<longleftrightarrow> e = ConstraintViolation ''user_slug_key''"

definition find_account :: "string \<Rightarrow> db \<Rightarrow> int option" where
  "find_account auth_id db = map_option u_id (first_row (filter (\<lambda>u. u_auth_id u = auth_id) (users db)))"

text \<open>
  The three statements of the transaction that creates an account.  A sequence number is taken even
  when the row is not inserted, and stays taken when the transaction fails.
\<close>

definition insert_user :: "string \<Rightarrow> string \<Rightarrow> db \<Rightarrow> (pg_error + int) \<times> db" where
  "insert_user auth_id slug db =
     (let uid = next_user_id db; advanced = db\<lparr>next_user_id := uid + 1\<rparr> in
      if 2147483647 < uid then (Inl SequenceLimit, db)
      else if \<not> valid_slug slug then (Inl (ConstraintViolation ''user_slug_check''), advanced)
      else case find_account auth_id db of
        Some existing \<Rightarrow> (Inr existing, advanced)
      | None \<Rightarrow>
          if slug \<in> set (map u_slug (users db)) then (Inl (ConstraintViolation ''user_slug_key''), advanced)
          else (Inr uid, advanced\<lparr>users := users db @
                  [\<lparr>u_id = uid, u_auth_id = auth_id, u_slug = slug, u_currency = RUB, u_public_enabled = True,
                    u_show_amounts = True, u_show_watched = True\<rparr>]\<rparr>))"

definition insert_main_queue :: "int \<Rightarrow> db \<Rightarrow> (pg_error + unit) \<times> db" where
  "insert_main_queue uid db =
     (let qid = next_queue_id db; advanced = db\<lparr>next_queue_id := qid + 1\<rparr> in
      if 2147483647 < qid then (Inl SequenceLimit, db)
      else if \<exists>q \<in> set (queues db). q_user q = uid \<and> q_default q then (Inr (), advanced)
      else if \<exists>q \<in> set (queues db). q_user q = uid \<and> q_label q = ''Main''
      then (Inl (ConstraintViolation ''video_queue_user_id_label_key''), advanced)
      else (Inr (), advanced\<lparr>queues := queues db @
              [\<lparr>q_id = qid, q_user = uid, q_label = ''Main'', q_default = True\<rparr>]\<rparr>))"

text \<open>Prices in cents.\<close>

definition default_priorities :: "(string \<times> nat \<times> bool) list" where
  "default_priorities =
     [(''priority 0'', 0, True), (''priority 1'', 5000, False), (''priority 2'', 10000, False),
      (''priority 3'', 20000, False)]"

definition priority_conflicts :: "int \<Rightarrow> string \<Rightarrow> bool \<Rightarrow> priority_row list \<Rightarrow> bool" where
  "priority_conflicts uid label is_default rows \<longleftrightarrow>
     (\<exists>p \<in> set rows. p_user p = uid \<and> (p_label p = label \<or> (is_default \<and> p_default p)))"

fun insert_priorities :: "int \<Rightarrow> (string \<times> nat \<times> bool) list \<Rightarrow> db \<Rightarrow> (pg_error + unit) \<times> db" where
  "insert_priorities uid [] db = (Inr (), db)"
| "insert_priorities uid ((label, price, is_default) # rest) db =
     (let pid = next_priority_id db; advanced = db\<lparr>next_priority_id := pid + 1\<rparr> in
      if 2147483647 < pid then (Inl SequenceLimit, db)
      else if priority_conflicts uid label is_default (priorities db) then insert_priorities uid rest advanced
      else insert_priorities uid rest
             (advanced\<lparr>priorities := priorities db @
                [\<lparr>p_id = pid, p_user = uid, p_label = label, p_min = price, p_default = is_default\<rparr>]\<rparr>))"

text \<open>A rolled-back transaction: its rows are gone, the numbers it took are not.\<close>

definition rolled_back :: "db \<Rightarrow> db \<Rightarrow> db" where
  "rolled_back before failed =
     before\<lparr>next_user_id := next_user_id failed, next_queue_id := next_queue_id failed,
       next_priority_id := next_priority_id failed\<rparr>"

definition create_account :: "string \<Rightarrow> string \<Rightarrow> db \<Rightarrow> (pg_error + int) \<times> db" where
  "create_account auth_id slug db =
     (case insert_user auth_id slug db of
        (Inl e, db1) \<Rightarrow> (Inl e, rolled_back db db1)
      | (Inr uid, db1) \<Rightarrow>
          (case insert_main_queue uid db1 of
             (Inl e, db2) \<Rightarrow> (Inl e, rolled_back db db2)
           | (Inr _, db2) \<Rightarrow>
               (case insert_priorities uid default_priorities db2 of
                  (Inl e, db3) \<Rightarrow> (Inl e, rolled_back db db3)
                | (Inr _, db3) \<Rightarrow> (Inr uid, db3))))"

text \<open>
  The retries with fresh slugs, as many as there are UUIDs; \<open>None\<close> while the loop still goes on.
\<close>

fun create_account_retrying ::
  "string \<Rightarrow> string \<Rightarrow> string list \<Rightarrow> db \<Rightarrow> (failure + int) option \<times> db" where
  "create_account_retrying auth_id slug uuids db =
     (case create_account auth_id slug db of
        (Inr uid, db') \<Rightarrow> (Some (Inr uid), db')
      | (Inl e, db') \<Rightarrow>
          if \<not> is_user_slug_conflict e then (Some (Inl (DatabaseError e)), db')
          else (case uuids of
                  [] \<Rightarrow> (None, db')
                | uuid # rest \<Rightarrow>
                    (case parse_slug uuid of
                       None \<Rightarrow> (Some (Inl ZodError), db')
                     | Some slug' \<Rightarrow> create_account_retrying auth_id slug' rest db')))"

definition get_or_create_user_id ::
  "string \<Rightarrow> string \<Rightarrow> string list \<Rightarrow> db \<Rightarrow> (failure + int) option \<times> db" where
  "get_or_create_user_id auth_id preferred_slug uuids db =
     (case find_account auth_id db of
        Some uid \<Rightarrow> (Some (if valid_user_id uid then Inr uid else Inl ZodError), db)
      | None \<Rightarrow> create_account_retrying auth_id preferred_slug uuids db)"

text \<open>\<open>getViewer\<close>; the first UUID is for an email without a usable local part.\<close>

definition viewer_of :: "string \<Rightarrow> session \<Rightarrow> int \<Rightarrow> viewer" where
  "viewer_of admin_emails s uid =
     \<lparr>vw_is_admin = is_admin_email admin_emails (se_email s), vw_user_id = uid,
      vw_email = se_email s, vw_image = se_image s, vw_name = se_name s\<rparr>"

definition get_viewer ::
  "string \<Rightarrow> session option \<Rightarrow> string \<Rightarrow> string list \<Rightarrow> db \<Rightarrow> (failure + viewer option) option \<times> db" where
  "get_viewer admin_emails sess uuid uuids db =
     (case sess of
        None \<Rightarrow> (Some (Inr None), db)
      | Some s \<Rightarrow>
          if se_auth_id s = [] then (Some (Inl ZodError), db)
          else (case slug_from_email uuid (se_email s) of
             None \<Rightarrow> (Some (Inl ZodError), db)
           | Some slug \<Rightarrow>
               (case get_or_create_user_id (se_auth_id s) slug uuids db of
                  (r, db') \<Rightarrow>
                    (map_option (\<lambda>r'. bind_result r' (\<lambda>uid. Inr (Some (viewer_of admin_emails s uid)))) r,
                     db'))))"

text \<open>The viewer's identifier and role are all that the procedures are given.\<close>

definition request_context :: "viewer option \<Rightarrow> api_context" where
  "request_context vw =
     \<lparr>ctx_user_id = map_option vw_user_id vw,
      ctx_is_admin = (case vw of None \<Rightarrow> False | Some v \<Rightarrow> vw_is_admin v)\<rparr>"

section \<open>Settings\<close>

text \<open>
  The guarded \<open>UPDATE\<close> of a slug: it changes no row when another user has the slug.  Against a
  concurrent claim the unique constraint decides, so the statement is also given the rows it meets.
\<close>

definition set_slug :: "int \<Rightarrow> string \<Rightarrow> db \<Rightarrow> (pg_error + bool) \<times> db" where
  "set_slug uid slug db =
     (if (\<exists>u \<in> set (users db). u_slug u = slug \<and> u_id u \<noteq> uid) \<or> uid \<notin> set (user_ids db)
      then (Inr False, db)
      else if \<not> valid_slug slug then (Inl (ConstraintViolation ''user_slug_check''), db)
      else (Inr True, db\<lparr>users := update_where (\<lambda>u. u_id u = uid) (\<lambda>u. u\<lparr>u_slug := slug\<rparr>) (users db)\<rparr>))"

definition slug_conflict :: api_error where
  "slug_conflict = TRPCError CONFLICT ''This slug is already in use.''"

definition update_slug_result :: "pg_error + bool \<Rightarrow> string \<Rightarrow> api_error + string" where
  "update_slug_result r slug =
     (case r of
        Inl e \<Rightarrow> Inl (if violated_constraint e = Some ''user_slug_key'' then slug_conflict
                      else UnexpectedError ''database error'')
      | Inr updated \<Rightarrow> if updated then Inr slug else Inl slug_conflict)"

definition handle_update_slug :: "api_context \<Rightarrow> string \<Rightarrow> db \<Rightarrow> (api_error + string) \<times> db" where
  "handle_update_slug ctx slug db =
     call_procedure (authenticated ctx) (parse_slug slug)
       (\<lambda>uid s d. case set_slug uid s d of (r, d') \<Rightarrow> (update_slug_result r s, d')) db"

definition public_settings_of :: "user_row \<Rightarrow> public_queue_settings" where
  "public_settings_of u =
     \<lparr>settingsEnabled = u_public_enabled u, showAmounts = u_show_amounts u, showWatchedVideos = u_show_watched u\<rparr>"

definition set_public_queue_settings ::
  "int \<Rightarrow> public_queue_settings \<Rightarrow> db \<Rightarrow> (failure + public_queue_settings) \<times> db" where
  "set_public_queue_settings uid settings db =
     (let db' = db\<lparr>users := update_where (\<lambda>u. u_id u = uid)
                  (\<lambda>u. u\<lparr>u_public_enabled := settingsEnabled settings, u_show_amounts := showAmounts settings,
                         u_show_watched := showWatchedVideos settings\<rparr>) (users db)\<rparr>
      in (bind_result (expect (find_user db' uid) ZodError) (\<lambda>u. Inr (public_settings_of u)), db'))"

definition handle_update_public_queue_settings ::
  "api_context \<Rightarrow> public_queue_settings \<Rightarrow> db \<Rightarrow> (api_error + public_queue_settings) \<times> db" where
  "handle_update_public_queue_settings ctx settings db =
     call_procedure (authenticated ctx) (Some settings)
       (\<lambda>uid s d. case set_public_queue_settings uid s d of
          (r, d') \<Rightarrow> (map_error (\<lambda>_. UnexpectedError ''schema mismatch'') r, d')) db"

text \<open>\<open>getUserInfo\<close>; the connections of a user are what the left joins find.\<close>

record user_connections =
  uc_donation_alerts :: bool
  uc_donate_stream :: bool
  uc_streamlabs :: bool
  uc_tourniquet :: bool
  uc_stream_elements :: "donation_source_connection_status option"

definition user_info_of :: "(int \<Rightarrow> user_connections) \<Rightarrow> user_row \<Rightarrow> user_info" where
  "user_info_of connections u =
     (let c = connections (u_id u) in
      \<lparr>infoUserId = u_id u, infoSlug = u_slug u, infoQueueCurrency = u_currency u,
       hasDonationAlertsConnection = uc_donation_alerts c, hasDonateStreamConnection = uc_donate_stream c,
       hasStreamlabsConnection = uc_streamlabs c, hasTourniquetConnection = uc_tourniquet c,
       hasStreamElementsConnection = (uc_stream_elements c = Some Connected),
       streamElementsConnectionStatus = uc_stream_elements c, publicQueueSettings = public_settings_of u\<rparr>)"

definition get_user_info ::
  "(int \<Rightarrow> user_connections) \<Rightarrow> int \<Rightarrow> db \<Rightarrow> failure + user_info option" where
  "get_user_info connections uid db =
     (case find_user db uid of
        None \<Rightarrow> Inr None
      | Some u \<Rightarrow> (let info = user_info_of connections u
                  in if valid_user_info info then Inr (Some info) else Inl ZodError))"

text \<open>The \<open>userInfo\<close> query: nothing for a visitor without a session.\<close>

definition handle_user_info ::
  "(int \<Rightarrow> user_connections) \<Rightarrow> api_context \<Rightarrow> db \<Rightarrow> api_error + user_info option" where
  "handle_user_info connections ctx db =
     (case ctx_user_id ctx of
        None \<Rightarrow> Inr None
      | Some uid \<Rightarrow> map_error (\<lambda>_. UnexpectedError ''schema mismatch'') (get_user_info connections uid db))"

end
