(* ===== verification/AccountsInvariant.thy ===== *)
theory AccountsInvariant
  imports Accounts
begin

text \<open>
  Accounts keep the database well-formed: a new user comes with a default queue and four priorities,
  one of them free, and neither slugs nor settings disturb anything else.  With the video requests
  they form the machine whose runs keep \<open>db_ok\<close>.
\<close>

section \<open>Slugs\<close>

lemma dash_runs_chars: "list_all slug_char (dash_runs b s)"
  by (induction b s rule: dash_runs.induct) (auto simp: slug_char_def is_slug_part_def)

lemma list_all_dropWhile: "list_all P xs \<Longrightarrow> list_all P (dropWhile Q xs)"
  by (auto simp: list_all_iff dest: set_dropWhileD)

lemma list_all_take: "list_all P xs \<Longrightarrow> list_all P (take n xs)"
  by (auto simp: list_all_iff dest: in_set_takeD)

lemma slug_of_local_part_chars: "list_all slug_char (slug_of_local_part email)"
  unfolding slug_of_local_part_def strip_dashes_def
  by (intro list_all_take) (simp add: list_all_dropWhile dash_runs_chars)

lemma valid_uuid_slug: "valid_uuid uuid \<Longrightarrow> valid_slug uuid"
proof -
  assume "valid_uuid uuid"
  then obtain a b c d e where parts: "js_split (CHR ''-'') uuid = [a, b, c, d, e]"
    and hex: "list_all (list_all is_hex) [a, b, c, d, e]" and len: "map length [a, b, c, d, e] = [8, 4, 4, 4, 12]"
    by (auto simp: valid_uuid_def split: list.split_asm)
  have "uuid = js_join ''-'' [a, b, c, d, e]" using parts js_split_join by metis
  then have uuid: "uuid = a @ ''-'' @ b @ ''-'' @ c @ ''-'' @ d @ ''-'' @ e" by simp
  have "\<forall>x \<in> set ''abcdefABCDEF''. slug_char x"
    by (simp add: slug_char_def is_lower_alpha_def is_upper_alpha_def is_digit_def code_def)
  then have "is_hex x \<Longrightarrow> slug_char x" for x
    unfolding is_hex_def by (metis slug_char_def)
  then have "list_all is_hex w \<Longrightarrow> list_all slug_char w" for w by (auto simp: list_all_iff)
  then show ?thesis using hex len by (simp add: valid_slug_def uuid slug_char_def)
qed

lemma slug_from_email_valid:
  assumes "valid_uuid uuid"
  shows "\<exists>s. slug_from_email uuid email = Some s \<and> valid_slug s"
proof -
  define s where "s = slug_of_local_part email"
  have chars: "list_all slug_char s" unfolding s_def by (rule slug_of_local_part_chars)
  have short: "length s \<le> 47" by (simp add: s_def slug_of_local_part_def)
  have zero: "slug_char (CHR ''0'')" by (simp add: slug_char_def is_digit_def code_def)
  have "valid_slug (pad_end 3 (CHR ''0'') s)" if "0 < length s" "length s < 3"
    using that chars zero by (auto simp: valid_slug_def pad_end_def list_all_iff)
  moreover have "valid_slug s" if "3 \<le> length s" using that chars short by (simp add: valid_slug_def)
  ultimately show ?thesis
    using valid_uuid_slug [OF assms] unfolding slug_from_email_def s_def [symmetric] Let_def parse_slug_def by auto
qed

section \<open>A new account\<close>

definition new_user :: "int \<Rightarrow> string \<Rightarrow> string \<Rightarrow> user_row" where
  "new_user uid auth_id slug =
     \<lparr>u_id = uid, u_auth_id = auth_id, u_slug = slug, u_currency = RUB, u_public_enabled = True,
      u_show_amounts = True, u_show_watched = True\<rparr>"

definition new_priorities :: "int \<Rightarrow> int \<Rightarrow> priority_row list" where
  "new_priorities uid k =
     [\<lparr>p_id = k, p_user = uid, p_label = ''priority 0'', p_min = 0, p_default = True\<rparr>,
      \<lparr>p_id = k + 1, p_user = uid, p_label = ''priority 1'', p_min = 5000, p_default = False\<rparr>,
      \<lparr>p_id = k + 2, p_user = uid, p_label = ''priority 2'', p_min = 10000, p_default = False\<rparr>,
      \<lparr>p_id = k + 3, p_user = uid, p_label = ''priority 3'', p_min = 20000, p_default = False\<rparr>]"

definition with_account :: "string \<Rightarrow> string \<Rightarrow> db \<Rightarrow> db" where
  "with_account auth_id slug db =
     db\<lparr>next_user_id := next_user_id db + 1, next_queue_id := next_queue_id db + 1,
        next_priority_id := next_priority_id db + 4,
        users := users db @ [new_user (next_user_id db) auth_id slug],
        queues := queues db @ [\<lparr>q_id = next_queue_id db, q_user = next_user_id db, q_label = ''Main'', q_default = True\<rparr>],
        priorities := priorities db @ new_priorities (next_user_id db) (next_priority_id db)\<rparr>"

lemma with_account_ids [simp]: "user_ids (with_account auth_id slug db) = user_ids db @ [next_user_id db]"
  by (simp add: with_account_def user_ids_def new_user_def)

lemma fresh_user: "users_ok db \<Longrightarrow> next_user_id db \<notin> set (user_ids db)"
  by (auto simp: users_ok_def user_ids_def int4_id_def)

lemma with_account_users:
  assumes "users_ok db" and "next_user_id db \<le> 2147483647" and "find_account auth_id db = None"
    and "valid_slug slug" and "slug \<notin> set (map u_slug (users db))"
  shows "users_ok (with_account auth_id slug db)"
  using assms fresh_user [OF assms(1)]
  by (auto simp: users_ok_def with_account_ids) (auto simp: with_account_def new_user_def int4_id_def in_int4_def
      find_account_def filter_empty_conv)

lemma with_account_queues:
  assumes "db_ok db" and "next_queue_id db \<le> 2147483647"
  shows "queues_ok (with_account auth_id slug db)"
proof -
  have q: "queues_ok db" and fresh: "next_user_id db \<notin> set (user_ids db)"
    using assms(1) fresh_user by (auto simp: db_ok_def)
  have none: "\<forall>r \<in> set (queues db). q_user r \<noteq> next_user_id db" using q fresh by (auto simp: queues_ok_def)
  then have "filter (\<lambda>r. q_user r = next_user_id db \<and> q_default r) (queues db) = []" by (auto simp: filter_empty_conv)
  moreover have "label_ok ''Main''"
    by (simp add: label_ok_def parse_label_def js_trim_def is_space_def code_def)
  ultimately show ?thesis
    using q none fresh assms(2)
    by (auto simp: queues_ok_def) (auto simp: with_account_def int4_id_def in_int4_def image_iff)
qed

lemma new_priorities_ok:
  assumes "0 < k" and "k + 3 \<le> 2147483647" and "uid \<in> set uids" and "p \<in> set (new_priorities uid k)"
  shows "priority_row_ok uids (k + 4) p"
proof -
  have "label_ok ''priority 0''" "label_ok ''priority 1''" "label_ok ''priority 2''" "label_ok ''priority 3''"
    by (simp_all add: label_ok_def parse_label_def js_trim_def is_space_def code_def)
  then show ?thesis using assms
    by (auto simp: new_priorities_def priority_row_ok_def int4_id_def in_int4_def)
qed

lemma priority_row_ok_mono:
  "priority_row_ok uids b p \<Longrightarrow> set uids \<subseteq> set uids' \<Longrightarrow> b \<le> b' \<Longrightarrow> priority_row_ok uids' b' p"
  by (auto simp: priority_row_ok_def int4_id_def)

lemma with_account_priorities:
  assumes "db_ok db" and "next_priority_id db + 3 \<le> 2147483647"
  shows "priorities_ok (with_account auth_id slug db)"
proof -
  let ?uid = "next_user_id db" and ?k = "next_priority_id db"
  have p: "priorities_ok db" and fresh: "?uid \<notin> set (user_ids db)"
    using assms(1) fresh_user by (auto simp: db_ok_def)
  have rows: "\<forall>r \<in> set (priorities db). priority_row_ok (user_ids db) ?k r" and k: "0 < ?k"
    using p by (auto simp: priorities_ok_def)
  have none: "\<forall>r \<in> set (priorities db). p_user r \<noteq> ?uid \<and> p_id r < ?k"
    using rows fresh by (auto simp: priority_row_ok_def int4_id_def)
  then have no_default: "filter (\<lambda>r. p_user r = ?uid \<and> p_default r) (priorities db) = []"
    by (auto simp: filter_empty_conv)
  have priorities: "priorities (with_account auth_id slug db) = priorities db @ new_priorities ?uid ?k"
    and bound: "next_priority_id (with_account auth_id slug db) = ?k + 4"
    by (simp_all add: with_account_def)
  have "distinct (map p_id (priorities db @ new_priorities ?uid ?k))"
    using p none by (auto simp: priorities_ok_def new_priorities_def)
  moreover have "distinct (map (\<lambda>r. (p_user r, p_label r)) (priorities db @ new_priorities ?uid ?k))"
    using p none by (auto simp: priorities_ok_def new_priorities_def)
  moreover have "\<forall>r \<in> set (priorities db @ new_priorities ?uid ?k).
      priority_row_ok (user_ids db @ [?uid]) (?k + 4) r"
    using rows new_priorities_ok [OF k assms(2), of ?uid "user_ids db @ [?uid]"]
    by (auto intro: priority_row_ok_mono)
  moreover have "length (filter (\<lambda>r. p_user r = uid \<and> p_default r) (priorities db @ new_priorities ?uid ?k)) = 1"
    if "uid \<in> set (user_ids db @ [?uid])" for uid
  proof (cases "uid = ?uid")
    case True
    then show ?thesis using no_default by (simp add: new_priorities_def)
  next
    case False
    then show ?thesis using that p by (auto simp: priorities_ok_def new_priorities_def)
  qed
  ultimately show ?thesis
    using k by (simp add: priorities_ok_def priorities bound del: distinct_map)
qed

lemma video_row_ok_more_users:
  "video_row_ok uids qks pks dks v \<Longrightarrow> set uids \<subseteq> set uids' \<Longrightarrow> set qks \<subseteq> set qks' \<Longrightarrow> set pks \<subseteq> set pks' \<Longrightarrow>
     video_row_ok uids' qks' pks' dks v"
  by (auto simp: video_row_ok_def split: option.splits)

lemma with_account_ok:
  assumes "db_ok db" and "next_user_id db \<le> 2147483647" and "find_account auth_id db = None"
    and "valid_slug slug" and "slug \<notin> set (map u_slug (users db))"
    and "next_queue_id db \<le> 2147483647" and "next_priority_id db + 3 \<le> 2147483647"
  shows "db_ok (with_account auth_id slug db)"
proof -
  have parts: "users_ok db" "donations_ok db" "videos_ok db" "jobs_ok db" using assms(1) by (simp_all add: db_ok_def)
  have "donations_ok (with_account auth_id slug db)"
    using parts(2) by (auto simp: donations_ok_def donation_row_ok_def) (simp_all add: with_account_def)
  moreover have "videos_ok (with_account auth_id slug db)"
  proof -
    have tables: "videos (with_account auth_id slug db) = videos db"
      "next_video_id (with_account auth_id slug db) = next_video_id db"
      "donation_owners (with_account auth_id slug db) = donation_owners db"
      by (simp_all add: with_account_def donation_owners_def)
    have keys: "set (queue_keys db) \<subseteq> set (queue_keys (with_account auth_id slug db))"
      "set (priority_keys db) \<subseteq> set (priority_keys (with_account auth_id slug db))"
      by (auto simp: with_account_def queue_keys_def priority_keys_def)
    show ?thesis
      using parts(3) keys by (auto simp: videos_ok_def tables intro: video_row_ok_more_users)
  qed
  moreover have "jobs_ok (with_account auth_id slug db)"
    using parts(4) by (simp add: jobs_ok_def with_account_def)
  ultimately show ?thesis
    using with_account_users [OF parts(1) assms(2-5)] with_account_queues [OF assms(1, 6)]
      with_account_priorities [OF assms(1, 7)]
    by (simp add: db_ok_def)
qed

section \<open>Creating accounts\<close>

lemma db_ok_counters:
  assumes "db_ok db" and "next_user_id db \<le> a" and "next_queue_id db \<le> b" and "next_priority_id db \<le> c"
  shows "db_ok (db\<lparr>next_user_id := a, next_queue_id := b, next_priority_id := c\<rparr>)"
proof -
  have keys: "user_ids (db\<lparr>next_user_id := a, next_queue_id := b, next_priority_id := c\<rparr>) = user_ids db"
    "queue_keys (db\<lparr>next_user_id := a, next_queue_id := b, next_priority_id := c\<rparr>) = queue_keys db"
    "priority_keys (db\<lparr>next_user_id := a, next_queue_id := b, next_priority_id := c\<rparr>) = priority_keys db"
    "donation_owners (db\<lparr>next_user_id := a, next_queue_id := b, next_priority_id := c\<rparr>) = donation_owners db"
    by (simp_all add: user_ids_def queue_keys_def priority_keys_def donation_owners_def)
  have "priorities_ok (db\<lparr>next_user_id := a, next_queue_id := b, next_priority_id := c\<rparr>)"
    using assms(1, 4) by (auto simp: db_ok_def priorities_ok_def keys intro: priority_row_ok_mono)
  then show ?thesis
    using assms by (auto simp: db_ok_def users_ok_def queues_ok_def donations_ok_def videos_ok_def jobs_ok_def
        int4_id_def keys)
qed

lemma rolled_back_ok:
  "db_ok db \<Longrightarrow> next_user_id db \<le> next_user_id f \<Longrightarrow> next_queue_id db \<le> next_queue_id f \<Longrightarrow>
     next_priority_id db \<le> next_priority_id f \<Longrightarrow> db_ok (rolled_back db f)"
  unfolding rolled_back_def by (rule db_ok_counters)

lemma insert_priorities_counters:
  "next_user_id (snd (insert_priorities uid ps db)) = next_user_id db \<and>
   next_queue_id (snd (insert_priorities uid ps db)) = next_queue_id db \<and>
   next_priority_id db \<le> next_priority_id (snd (insert_priorities uid ps db))"
proof (induction uid ps db rule: insert_priorities.induct)
  case (2 uid label price is_default rest db)
  then show ?case by (fastforce simp: Let_def)
qed simp

lemma default_of_user:
  assumes "db_ok db" and "uid \<in> set (user_ids db)"
  shows "\<exists>q \<in> set (queues db). q_user q = uid \<and> q_default q"
    and "\<exists>p \<in> set (priorities db). p_user p = uid \<and> p_default p"
proof -
  have "length (filter (\<lambda>q. q_user q = uid \<and> q_default q) (queues db)) = 1"
    "length (filter (\<lambda>p. p_user p = uid \<and> p_default p) (priorities db)) = 1"
    using assms by (auto simp: db_ok_def queues_ok_def priorities_ok_def)
  then have "filter (\<lambda>q. q_user q = uid \<and> q_default q) (queues db) \<noteq> []"
    "filter (\<lambda>p. p_user p = uid \<and> p_default p) (priorities db) \<noteq> []" by auto
  then show "\<exists>q \<in> set (queues db). q_user q = uid \<and> q_default q"
    "\<exists>p \<in> set (priorities db). p_user p = uid \<and> p_default p"
    by (auto simp: filter_empty_conv)
qed

text \<open>A further priority of a user who has one by default.\<close>

definition with_priority :: "int \<Rightarrow> string \<Rightarrow> nat \<Rightarrow> db \<Rightarrow> db" where
  "with_priority uid label price db =
     db\<lparr>next_priority_id := next_priority_id db + 1,
        priorities := priorities db @
          [\<lparr>p_id = next_priority_id db, p_user = uid, p_label = label, p_min = price, p_default = False\<rparr>]\<rparr>"

lemma with_priority_ok:
  assumes "db_ok db" and "uid \<in> set (user_ids db)" and "next_priority_id db \<le> 2147483647"
    and "label_ok label" and "0 < price" and "price < 10 ^ 20"
    and "\<not> priority_conflicts uid label False (priorities db)"
  shows "db_ok (with_priority uid label price db)"
proof -
  let ?k = "next_priority_id db" and ?db = "with_priority uid label price db"
  let ?row = "\<lparr>p_id = next_priority_id db, p_user = uid, p_label = label, p_min = price, p_default = False\<rparr>"
  have p: "priorities_ok db" using assms(1) by (simp add: db_ok_def)
  have keys: "user_ids ?db = user_ids db" "queue_keys ?db = queue_keys db" "donation_owners ?db = donation_owners db"
    "set (priority_keys db) \<subseteq> set (priority_keys ?db)"
    by (auto simp: with_priority_def user_ids_def queue_keys_def donation_owners_def priority_keys_def)
  have rows: "\<forall>r \<in> set (priorities db). priority_row_ok (user_ids db) ?k r" and k: "0 < ?k"
    using p by (auto simp: priorities_ok_def)
  have ids: "?k \<notin> p_id ` set (priorities db)" using rows by (auto simp: priority_row_ok_def int4_id_def)
  have labels: "(uid, label) \<notin> (\<lambda>r. (p_user r, p_label r)) ` set (priorities db)"
    using assms(7) by (auto simp: priority_conflicts_def)
  have new: "priority_row_ok (user_ids db) (?k + 1) ?row"
    using assms k by (simp add: priority_row_ok_def int4_id_def in_int4_def)
  have "priorities_ok ?db"
    using p ids labels new rows k
    by (auto simp: priorities_ok_def keys(1)) (auto simp: with_priority_def intro: priority_row_ok_mono)
  moreover have "videos_ok ?db"
    using assms(1) keys(4) by (auto simp: db_ok_def videos_ok_def keys(1-3)) (auto simp: with_priority_def intro: video_row_ok_more_users)
  ultimately show ?thesis
    using assms(1) by (auto simp: db_ok_def users_ok_def queues_ok_def donations_ok_def jobs_ok_def keys)
      (auto simp: with_priority_def)
qed

lemma insert_priorities_existing_ok:
  assumes "db_ok db" and "uid \<in> set (user_ids db)"
    and "list_all (\<lambda>(label, price, d). label_ok label \<and> price < 10 ^ 20 \<and> (\<not> d \<longrightarrow> 0 < price)) ps"
  shows "db_ok (snd (insert_priorities uid ps db))"
  using assms
proof (induction uid ps db rule: insert_priorities.induct)
  case (2 uid label price is_default rest db)
  let ?advanced = "db\<lparr>next_priority_id := next_priority_id db + 1\<rparr>"
  have adv: "db_ok ?advanced"
    using db_ok_counters [OF 2(3), of "next_user_id db" "next_queue_id db" "next_priority_id db + 1"] by simp
  show ?case
  proof (cases "2147483647 < next_priority_id db")
    case True
    then show ?thesis using 2(3) by (simp add: Let_def)
  next
    case False
    show ?thesis
    proof (cases "priority_conflicts uid label is_default (priorities db)")
      case True
      then show ?thesis using 2(1) [OF refl refl False True adv] 2(4, 5) False by (simp add: Let_def user_ids_def)
    next
      case conflict: False
      then have "\<not> is_default"
        using default_of_user(2) [OF 2(3, 4)] by (auto simp: priority_conflicts_def)
      then have "db_ok (with_priority uid label price db)"
        using with_priority_ok [OF 2(3, 4)] 2(5) False conflict by auto
      then show ?thesis
        using 2(2) [OF refl refl False conflict] 2(4, 5) False conflict \<open>\<not> is_default\<close>
        by (simp add: Let_def with_priority_def user_ids_def)
    qed
  qed
qed simp

lemma default_priorities_ok:
  "list_all (\<lambda>(label, price, d). label_ok label \<and> price < 10 ^ 20 \<and> (\<not> d \<longrightarrow> 0 < price)) default_priorities"
  by (simp add: default_priorities_def label_ok_def parse_label_def js_trim_def is_space_def code_def)

lemma insert_priorities_new:
  assumes "\<forall>p \<in> set (priorities db). p_user p \<noteq> uid" and "next_priority_id db + 3 \<le> 2147483647"
  shows "insert_priorities uid default_priorities db =
    (Inr (), db\<lparr>next_priority_id := next_priority_id db + 4,
       priorities := priorities db @ new_priorities uid (next_priority_id db)\<rparr>)"
proof -
  have none: "\<not> priority_conflicts uid label d (priorities db @ rows)"
    if "\<forall>p \<in> set rows. p_label p \<noteq> label \<and> \<not> (d \<and> p_default p)" for label d rows
    using assms(1) that by (auto simp: priority_conflicts_def)
  have "\<not> priority_conflicts uid ''priority 0'' True (priorities db)" using none [of "[]"] by simp
  then show ?thesis
    using assms(2) by (simp add: default_priorities_def new_priorities_def none Let_def)
qed

lemma find_account_id: "find_account auth_id db = Some uid \<Longrightarrow> uid \<in> set (user_ids db)"
  by (auto simp: find_account_def user_ids_def dest: first_row_filterD)

lemma insert_user_cases:
  assumes "insert_user auth_id slug db = (r, db1)"
  obtains (refused) e where "r = Inl e" and "db1 = db \<or> db1 = db\<lparr>next_user_id := next_user_id db + 1\<rparr>"
  | (existing) uid where "r = Inr uid" and "find_account auth_id db = Some uid"
      and "db1 = db\<lparr>next_user_id := next_user_id db + 1\<rparr>"
  | (added) "r = Inr (next_user_id db)" and "find_account auth_id db = None" and "valid_slug slug"
      and "slug \<notin> set (map u_slug (users db))" and "next_user_id db \<le> 2147483647"
      and "db1 = db\<lparr>next_user_id := next_user_id db + 1,
             users := users db @ [new_user (next_user_id db) auth_id slug]\<rparr>"
proof (cases "2147483647 < next_user_id db")
  case True
  then show thesis using assms by (intro refused) (auto simp: insert_user_def Let_def)
next
  case room: False
  show thesis
  proof (cases "valid_slug slug")
    case False
    then show thesis using assms room by (intro refused) (auto simp: insert_user_def Let_def)
  next
    case valid: True
    show thesis
    proof (cases "find_account auth_id db")
      case (Some uid)
      then show thesis using assms room valid by (intro existing) (auto simp: insert_user_def Let_def)
    next
      case None
      show thesis
      proof (cases "slug \<in> set (map u_slug (users db))")
        case True
        then show thesis using assms room valid None by (intro refused) (auto simp: insert_user_def Let_def)
      next
        case False
        then show thesis
          using assms room valid None by (intro added) (auto simp: insert_user_def Let_def new_user_def)
      qed
    qed
  qed
qed

lemma insert_main_queue_existing:
  assumes "db_ok db" and "find_account auth_id db = Some uid"
  shows "insert_main_queue uid (db\<lparr>next_user_id := n\<rparr>) =
    (if 2147483647 < next_queue_id db then (Inl SequenceLimit, db\<lparr>next_user_id := n\<rparr>)
     else (Inr (), db\<lparr>next_user_id := n, next_queue_id := next_queue_id db + 1\<rparr>))"
proof -
  have "\<exists>q \<in> set (queues db). q_user q = uid \<and> q_default q"
    using default_of_user(1) [OF assms(1) find_account_id [OF assms(2)]] .
  then show ?thesis by (simp add: insert_main_queue_def Let_def)
qed

text \<open>The next user id has no rows yet, so its main queue and its priorities meet no conflict.\<close>

lemma fresh_user_rows:
  assumes "db_ok db"
  shows "\<forall>q \<in> set (queues db). q_user q \<noteq> next_user_id db"
    and "\<forall>p \<in> set (priorities db). p_user p \<noteq> next_user_id db"
proof -
  have "next_user_id db \<notin> set (user_ids db)" using assms fresh_user by (auto simp: db_ok_def)
  then show "\<forall>q \<in> set (queues db). q_user q \<noteq> next_user_id db"
    and "\<forall>p \<in> set (priorities db). p_user p \<noteq> next_user_id db"
    using assms by (auto simp: db_ok_def queues_ok_def priorities_ok_def priority_row_ok_def)
qed

text \<open>The database after the main queue of a new user has been stored.\<close>

definition main_queue_of :: "int \<Rightarrow> db \<Rightarrow> db" where
  "main_queue_of uid db = db\<lparr>next_queue_id := next_queue_id db + 1, queues := queues db @
     [\<lparr>q_id = next_queue_id db, q_user = uid, q_label = ''Main'', q_default = True\<rparr>]\<rparr>"

lemma insert_main_queue_new:
  assumes "\<forall>q \<in> set (queues db). q_user q \<noteq> uid"
  shows "insert_main_queue uid db =
    (if 2147483647 < next_queue_id db then (Inl SequenceLimit, db) else (Inr (), main_queue_of uid db))"
  using assms by (auto simp: insert_main_queue_def main_queue_of_def Let_def)

lemma insert_priorities_room:
  assumes "\<forall>p \<in> set (priorities db). p_user p \<noteq> uid"
    and "insert_priorities uid default_priorities db = (Inr u, db')"
  shows "next_priority_id db + 3 \<le> 2147483647"
proof (rule ccontr)
  assume "\<not> next_priority_id db + 3 \<le> 2147483647"
  then have "fst (insert_priorities uid default_priorities db) = Inl SequenceLimit"
    using assms(1) by (auto simp: default_priorities_def Let_def priority_conflicts_def)
  then show False using assms(2) by simp
qed

text \<open>The rows after the user's: the queue and the priorities, for an account that exists and for a new one.\<close>

lemma create_existing_account:
  assumes "db_ok db" and "find_account auth_id db = Some uid" and "create_account auth_id slug db = (r, db')"
    and "insert_user auth_id slug db = (Inr uid, db\<lparr>next_user_id := next_user_id db + 1\<rparr>)"
  obtains (failed) e d where "r = Inl e" and "db' = rolled_back db d" and "db_ok db'"
  | (created) "r = Inr uid" and "db' = snd (insert_priorities uid default_priorities
      (db\<lparr>next_user_id := next_user_id db + 1, next_queue_id := next_queue_id db + 1\<rparr>))"
proof (cases "2147483647 < next_queue_id db")
  case True
  then have "r = Inl SequenceLimit" and "db' = rolled_back db (db\<lparr>next_user_id := next_user_id db + 1\<rparr>)"
    using assms(3,4) insert_main_queue_existing [OF assms(1,2)] by (auto simp: create_account_def)
  moreover have "db_ok (rolled_back db (db\<lparr>next_user_id := next_user_id db + 1\<rparr>))"
    by (rule rolled_back_ok [OF assms(1)]) auto
  ultimately show thesis by (intro failed) simp_all
next
  case False
  define db2 where "db2 = db\<lparr>next_user_id := next_user_id db + 1, next_queue_id := next_queue_id db + 1\<rparr>"
  obtain r3 db3 where third: "insert_priorities uid default_priorities db2 = (r3, db3)" by fastforce
  have step: "(r, db') = (case r3 of Inl e \<Rightarrow> (Inl e, rolled_back db db3) | Inr _ \<Rightarrow> (Inr uid, db3))"
    using assms(3,4) False third insert_main_queue_existing [OF assms(1,2)]
    by (auto simp: create_account_def db2_def split: sum.splits)
  have "db_ok (rolled_back db db3)"
    using insert_priorities_counters [of uid default_priorities db2] third
    by (intro rolled_back_ok [OF assms(1)]) (auto simp: db2_def)
  then show thesis using step third by (cases r3) (auto simp: db2_def intro: failed created)
qed

lemma create_new_account:
  assumes "db_ok db" and "create_account auth_id slug db = (r, db')"
    and "valid_slug slug" and "slug \<notin> set (map u_slug (users db))" and "next_user_id db \<le> 2147483647"
    and "find_account auth_id db = None"
    and "insert_user auth_id slug db = (Inr (next_user_id db), db\<lparr>next_user_id := next_user_id db + 1,
           users := users db @ [new_user (next_user_id db) auth_id slug]\<rparr>)"
  obtains (failed) e d where "r = Inl e" and "db' = rolled_back db d" and "db_ok db'"
  | (created) "r = Inr (next_user_id db)" and "db' = with_account auth_id slug db" and "db_ok db'"
proof -
  let ?uid = "next_user_id db"
  let ?db1 = "db\<lparr>next_user_id := ?uid + 1, users := users db @ [new_user ?uid auth_id slug]\<rparr>"
  have queue: "insert_main_queue ?uid ?db1 =
      (if 2147483647 < next_queue_id db then (Inl SequenceLimit, ?db1) else (Inr (), main_queue_of ?uid ?db1))"
    using insert_main_queue_new [of ?db1 ?uid] fresh_user_rows(1) [OF assms(1)] by simp
  show thesis
  proof (cases "2147483647 < next_queue_id db")
    case True
    then have "r = Inl SequenceLimit" and "db' = rolled_back db ?db1"
      using assms(2,7) queue by (auto simp: create_account_def)
    moreover have "db_ok (rolled_back db ?db1)" by (rule rolled_back_ok [OF assms(1)]) auto
    ultimately show thesis by (intro failed) simp_all
  next
    case False
    let ?db2 = "main_queue_of ?uid ?db1"
    obtain r3 db3 where third: "insert_priorities ?uid default_priorities ?db2 = (r3, db3)" by fastforce
    have step: "(r, db') = (case r3 of Inl e \<Rightarrow> (Inl e, rolled_back db db3) | Inr _ \<Rightarrow> (Inr ?uid, db3))"
      using assms(2,7) queue False third by (auto simp: create_account_def split: sum.splits)
    have none: "\<forall>p \<in> set (priorities ?db2). p_user p \<noteq> ?uid"
      using fresh_user_rows(2) [OF assms(1)] by (simp add: main_queue_of_def)
    show thesis
    proof (cases r3)
      case (Inl e)
      have "db_ok (rolled_back db db3)"
        using insert_priorities_counters [of ?uid default_priorities ?db2] third
        by (intro rolled_back_ok [OF assms(1)]) (simp_all add: main_queue_of_def)
      then show thesis using step Inl by (intro failed) simp_all
    next
      case (Inr u)
      have room: "next_priority_id db + 3 \<le> 2147483647"
        using insert_priorities_room [OF none, of u db3] third Inr by (simp add: main_queue_of_def)
      then have "db3 = with_account auth_id slug db"
        using insert_priorities_new [OF none] third by (auto simp: main_queue_of_def with_account_def)
      moreover have "db_ok (with_account auth_id slug db)"
        using with_account_ok [OF assms(1,5,6,3,4)] False room by simp
      ultimately show thesis using step Inr by (intro created) simp_all
    qed
  qed
qed

text \<open>What creating an account can come to.\<close>

lemma create_account_cases:
  assumes "db_ok db" and "create_account auth_id slug db = (r, db')"
  obtains (failed) e where "r = Inl e" and "users db' = users db" and "queues db' = queues db"
      and "priorities db' = priorities db" and "videos db' = videos db" and "db_ok db'"
  | (existing) uid where "r = Inr uid" and "find_account auth_id db = Some uid"
      and "db' = snd (insert_priorities uid default_priorities
             (db\<lparr>next_user_id := next_user_id db + 1, next_queue_id := next_queue_id db + 1\<rparr>))"
  | (added) "r = Inr (next_user_id db)" and "find_account auth_id db = None"
      and "db' = with_account auth_id slug db" and "db_ok db'"
proof -
  have undone: thesis if "r = Inl e" and "db' = rolled_back db d" and "db_ok db'" for e d
    using that by (intro failed) (simp_all add: rolled_back_def)
  obtain r1 db1 where first: "insert_user auth_id slug db = (r1, db1)" by fastforce
  then show thesis
  proof (cases rule: insert_user_cases)
    case (refused e)
    then have "r = Inl e" and "db' = rolled_back db db1" using assms(2) first by (auto simp: create_account_def)
    moreover have "db_ok (rolled_back db db1)" by (rule rolled_back_ok [OF assms(1)]) (use refused in auto)
    ultimately show thesis by (intro undone) simp_all
  next
    case (existing uid)
    show thesis
      by (rule create_existing_account [OF assms(1) existing(2) assms(2)])
        (use first existing that(2) in \<open>auto intro: undone\<close>)
  next
    case added
    show thesis
      by (rule create_new_account [OF assms(1,2) added(3,4,5,2)])
        (use first added that(3) in \<open>auto intro: undone\<close>)
  qed
qed

lemma insert_priorities_users [simp]:
  "users (snd (insert_priorities uid ps db)) = users db" "queues (snd (insert_priorities uid ps db)) = queues db"
  by (induction uid ps db rule: insert_priorities.induct) (simp_all add: Let_def)

lemma create_account_ok:
  assumes "db_ok db" and "create_account auth_id slug db = (r, db')"
  shows "db_ok db'"
  using assms(1, 2)
proof (cases rule: create_account_cases)
  case (existing uid)
  have "db_ok (db\<lparr>next_user_id := next_user_id db + 1, next_queue_id := next_queue_id db + 1\<rparr>)"
    using db_ok_counters [OF assms(1), of "next_user_id db + 1" "next_queue_id db + 1" "next_priority_id db"] by simp
  then show ?thesis
    unfolding existing(3)
    by (rule insert_priorities_existing_ok [OF _ _ default_priorities_ok])
      (use find_account_id [OF existing(2)] in \<open>simp add: user_ids_def\<close>)
qed simp_all

lemma insert_priorities_keeps_users:
  "users (snd (insert_priorities uid ps db)) = users db"
  by (induction uid ps db rule: insert_priorities.induct) (simp_all add: Let_def)

lemma find_account_users: "users db' = users db \<Longrightarrow> find_account a db' = find_account a db"
  by (simp add: find_account_def)

lemma first_row_append:
  "first_row (xs @ ys) = (case first_row xs of None \<Rightarrow> first_row ys | Some r \<Rightarrow> Some r)"
  by (cases xs) (auto simp: first_row_def)

lemma find_account_with_account:
  "find_account a (with_account auth_id slug db) =
     (case find_account a db of
        Some uid \<Rightarrow> Some uid
      | None \<Rightarrow> if a = auth_id then Some (next_user_id db) else None)"
  by (simp add: find_account_def with_account_def new_user_def first_row_append split: option.split)
    (simp add: first_row_def)

lemma create_account_success:
  assumes "db_ok db" and "create_account auth_id slug db = (Inr uid, db')"
  shows "find_account auth_id db' = Some uid"
  using assms
proof (cases rule: create_account_cases)
  case (existing uid')
  then show ?thesis by (simp add: find_account_def insert_priorities_keeps_users)
next
  case added
  then show ?thesis by (simp add: find_account_with_account)
qed simp

lemma create_account_keeps:
  assumes "db_ok db" and "create_account auth_id slug db = (r, db')" and "find_account a db = Some uid"
  shows "find_account a db' = Some uid"
  using assms(1, 2)
proof (cases rule: create_account_cases)
  case (failed e)
  then show ?thesis using assms(3) by (simp add: find_account_def)
next
  case (existing uid')
  then show ?thesis using assms(3) by (simp add: find_account_def insert_priorities_keeps_users)
next
  case added
  then show ?thesis using assms(3) by (simp add: find_account_with_account)
qed

section \<open>Signing in\<close>

text \<open>What every operation promises of the accounts: a well-formed database and no account lost.\<close>

definition accounts_kept :: "db \<Rightarrow> db \<Rightarrow> bool" where
  "accounts_kept db db' \<longleftrightarrow> db_ok db' \<and> (\<forall>a uid. find_account a db = Some uid \<longrightarrow> find_account a db' = Some uid)"

lemma accounts_kept_refl: "db_ok db \<Longrightarrow> accounts_kept db db"
  by (simp add: accounts_kept_def)

lemma accounts_kept_trans: "accounts_kept db db1 \<Longrightarrow> accounts_kept db1 db2 \<Longrightarrow> accounts_kept db db2"
  by (auto simp: accounts_kept_def)

lemma accounts_kept_users:
  "db_ok db' \<Longrightarrow> map (\<lambda>u. (u_auth_id u, u_id u)) (users db') = map (\<lambda>u. (u_auth_id u, u_id u)) (users db) \<Longrightarrow>
     accounts_kept db db'"
proof -
  assume ok: "db_ok db'"
    and same: "map (\<lambda>u. (u_auth_id u, u_id u)) (users db') = map (\<lambda>u. (u_auth_id u, u_id u)) (users db)"
  have find: "find_account a d = map_option snd (first_row (filter (\<lambda>p. fst p = a) (map (\<lambda>u. (u_auth_id u, u_id u)) (users d))))"
    for a d
    by (simp add: find_account_def first_row_def filter_map comp_def split: list.split)
  show ?thesis using ok by (simp add: accounts_kept_def find same)
qed

lemma create_account_kept:
  "db_ok db \<Longrightarrow> create_account auth_id slug db = (r, db') \<Longrightarrow> accounts_kept db db'"
  using create_account_ok create_account_keeps by (auto simp: accounts_kept_def)

lemma create_account_retrying_kept:
  "db_ok db \<Longrightarrow> create_account_retrying auth_id slug uuids db = (res, db') \<Longrightarrow>
     accounts_kept db db' \<and> (\<forall>uid. res = Some (Inr uid) \<longrightarrow> find_account auth_id db' = Some uid)"
proof (induction auth_id slug uuids db arbitrary: res db' rule: create_account_retrying.induct)
  case (1 auth_id slug uuids db)
  obtain r db1 where made: "create_account auth_id slug db = (r, db1)" by fastforce
  note kept = create_account_kept [OF 1(2) made]
  show ?case
  proof (cases r)
    case (Inr uid)
    then have "res = Some (Inr uid)" "db' = db1" using 1(3) made by simp_all
    then show ?thesis using kept create_account_success [OF 1(2)] made Inr by simp
  next
    case (Inl e)
    show ?thesis
    proof (cases "is_user_slug_conflict e \<and> uuids \<noteq> [] \<and> parse_slug (hd uuids) \<noteq> None")
      case True
      then obtain uuid rest slug' where more_ids: "uuids = uuid # rest" and slug': "parse_slug uuid = Some slug'"
        by (cases uuids) auto
      then have again: "create_account_retrying auth_id slug' rest db1 = (res, db')"
        using 1(3) made Inl True by simp
      have "\<not> \<not> is_user_slug_conflict e" "db_ok db1" using True kept by (simp_all add: accounts_kept_def)
      then have "accounts_kept db1 db' \<and> (\<forall>uid. res = Some (Inr uid) \<longrightarrow> find_account auth_id db' = Some uid)"
        using 1(1) [OF made [symmetric] Inl _ more_ids slug' _ again] by blast
      then show ?thesis using kept accounts_kept_trans by blast
    next
      case False
      then have "db' = db1 \<and> (\<forall>uid. res \<noteq> Some (Inr uid))"
        using 1(3) made Inl by (auto split: if_split_asm list.split_asm option.split_asm)
      then show ?thesis using kept by simp
    qed
  qed
qed

lemma get_or_create_user_id_kept:
  assumes "db_ok db" and "get_or_create_user_id auth_id slug uuids db = (res, db')"
  shows "accounts_kept db db'" and "res = Some (Inr uid) \<Longrightarrow> find_account auth_id db' = Some uid"
proof -
  have "accounts_kept db db' \<and> (\<forall>uid. res = Some (Inr uid) \<longrightarrow> find_account auth_id db' = Some uid)"
  proof (cases "find_account auth_id db")
    case None
    then show ?thesis using create_account_retrying_kept [OF assms(1)] assms(2) by (simp add: get_or_create_user_id_def)
  next
    case (Some uid)
    then show ?thesis using assms accounts_kept_refl by (auto simp: get_or_create_user_id_def split: if_split_asm)
  qed
  then show "accounts_kept db db'" "res = Some (Inr uid) \<Longrightarrow> find_account auth_id db' = Some uid" by simp_all
qed

lemma known_account:
  assumes "db_ok db" and "find_account auth_id db = Some uid"
  shows "get_or_create_user_id auth_id slug uuids db = (Some (Inr uid), db)"
proof -
  obtain u where "u \<in> set (users db)" "u_id u = uid"
    using assms(2) by (auto simp: find_account_def dest: first_row_filterD)
  then have "0 < uid" "in_int4 uid" using assms(1) by (auto simp: db_ok_def users_ok_def int4_id_def)
  then have "valid_user_id uid" by (simp add: valid_user_id_def z_positive_int_def z_int_def in_int4_def max_safe_integer_def)
  then show ?thesis using assms(2) by (simp add: get_or_create_user_id_def)
qed

lemma get_viewer_kept:
  assumes "db_ok db"
  shows "accounts_kept db (snd (get_viewer admin_emails sess uuid uuids db))"
proof (cases sess)
  case None
  then show ?thesis using accounts_kept_refl [OF assms] by (simp add: get_viewer_def)
next
  case (Some s)
  show ?thesis
  proof (cases "se_auth_id s = [] \<or> slug_from_email uuid (se_email s) = None")
    case True
    then show ?thesis using Some accounts_kept_refl [OF assms] by (auto simp: get_viewer_def)
  next
    case False
    then obtain slug where slug: "se_auth_id s \<noteq> []" "slug_from_email uuid (se_email s) = Some slug" by auto
    obtain res db' where found: "get_or_create_user_id (se_auth_id s) slug uuids db = (res, db')" by fastforce
    then show ?thesis using get_or_create_user_id_kept(1) [OF assms found] Some slug by (simp add: get_viewer_def)
  qed
qed

section \<open>Settings\<close>

lemma distinct_changed_slug:
  assumes "distinct (map u_id rows)" and "distinct (map u_slug rows)"
    and "\<And>u. u \<in> set rows \<Longrightarrow> u_slug u = slug \<Longrightarrow> u_id u = uid"
  shows "distinct (map u_slug (update_where (\<lambda>u. u_id u = uid) (\<lambda>u. u\<lparr>u_slug := slug\<rparr>) rows))"
proof -
  let ?h = "\<lambda>u. if u_id u = uid then slug else u_slug u"
  have "inj_on ?h (set rows)"
  proof (rule inj_onI)
    fix u v assume in_rows: "u \<in> set rows" "v \<in> set rows" and same: "?h u = ?h v"
    show "u = v"
    proof (cases "u_id u = u_id v")
      case True
      then show ?thesis using assms(1) in_rows by (simp add: distinct_map inj_on_def)
    next
      case False
      then have "u_slug u = u_slug v" using same assms(3) in_rows by (metis (full_types))
      then show ?thesis using assms(2) in_rows by (simp add: distinct_map inj_on_def)
    qed
  qed
  moreover have "map u_slug (update_where (\<lambda>u. u_id u = uid) (\<lambda>u. u\<lparr>u_slug := slug\<rparr>) rows) = map ?h rows"
    by (simp add: update_where_def)
  ultimately show ?thesis using assms(1) by (simp add: distinct_map)
qed

lemma db_ok_same_ids:
  assumes "db_ok db" and "map u_id us = user_ids db" and "users_ok (db\<lparr>users := us\<rparr>)"
  shows "db_ok (db\<lparr>users := us\<rparr>)"
proof -
  have "user_ids (db\<lparr>users := us\<rparr>) = user_ids db" using assms(2) by (simp add: user_ids_def)
  moreover have "queue_keys (db\<lparr>users := us\<rparr>) = queue_keys db" "priority_keys (db\<lparr>users := us\<rparr>) = priority_keys db"
    "donation_owners (db\<lparr>users := us\<rparr>) = donation_owners db"
    by (simp_all add: queue_keys_def priority_keys_def donation_owners_def)
  ultimately show ?thesis
    using assms by (simp add: db_ok_def queues_ok_def priorities_ok_def donations_ok_def videos_ok_def jobs_ok_def)
qed

lemma set_slug_kept:
  assumes "db_ok db"
  shows "accounts_kept db (snd (set_slug uid slug db))"
proof (cases "(\<exists>u \<in> set (users db). u_slug u = slug \<and> u_id u \<noteq> uid) \<or> uid \<notin> set (user_ids db) \<or> \<not> valid_slug slug")
  case True
  then show ?thesis using accounts_kept_refl [OF assms] by (auto simp: set_slug_def)
next
  case False
  let ?us = "update_where (\<lambda>u. u_id u = uid) (\<lambda>u. u\<lparr>u_slug := slug\<rparr>) (users db)"
  have ok: "users_ok db" using assms by (simp add: db_ok_def)
  have ids: "map u_id ?us = user_ids db" "map u_auth_id ?us = map u_auth_id (users db)"
    by (simp_all add: map_update_where user_ids_def)
  have "distinct (map u_slug ?us)"
    using ok False by (intro distinct_changed_slug) (auto simp: users_ok_def user_ids_def)
  moreover have "\<forall>u \<in> set ?us. int4_id (next_user_id db) (u_id u) \<and> valid_slug (u_slug u)"
    using ok False by (auto simp: users_ok_def set_update_where)
  ultimately have "users_ok (db\<lparr>users := ?us\<rparr>)"
    using ok ids by (simp add: users_ok_def user_ids_def)
  then have "db_ok (db\<lparr>users := ?us\<rparr>)"
    using assms ids(1) db_ok_same_ids by blast
  moreover have "set_slug uid slug db = (Inr True, db\<lparr>users := ?us\<rparr>)"
    using False by (auto simp: set_slug_def)
  ultimately show ?thesis
    by (simp add: accounts_kept_users map_update_where)
qed

lemma set_public_queue_settings_kept:
  assumes "db_ok db"
  shows "accounts_kept db (snd (set_public_queue_settings uid settings db))"
proof -
  let ?f = "\<lambda>u. u\<lparr>u_public_enabled := settingsEnabled settings, u_show_amounts := showAmounts settings,
                  u_show_watched := showWatchedVideos settings\<rparr>"
  let ?us = "update_where (\<lambda>u. u_id u = uid) ?f (users db)"
  have "db_ok (db\<lparr>users := ?us\<rparr>)"
    using assms by (intro db_ok_users) (auto simp: map_update_where user_ids_def set_update_where db_ok_def users_ok_def)
  then show ?thesis
    by (simp add: set_public_queue_settings_def Let_def accounts_kept_users map_update_where)
qed

end
