(* ===== verification/VideoIsolation.thy ===== *)
theory VideoIsolation
  imports VideoRouter
begin

text \<open>
  Isolation of the users of the video queue: what a request of one user leaves of the rows of all
  others.  \<open>others_view\<close> is everything in the database that does not belong to a user, in its
  order.
\<close>

definition others_videos :: "int \<Rightarrow> db \<Rightarrow> video_row list" where
  "others_videos uid db = filter (\<lambda>v. owner_of db v \<noteq> Some uid) (videos db)"

definition others_view ::
  "int \<Rightarrow> db \<Rightarrow> user_row list \<times> queue_row list \<times> priority_row list \<times> video_row list \<times>
    donation_row list \<times> metadata_job_row list" where
  "others_view uid db =
     (filter (\<lambda>u. u_id u \<noteq> uid) (users db), filter (\<lambda>q. q_user q \<noteq> uid) (queues db),
      filter (\<lambda>p. p_user p \<noteq> uid) (priorities db), others_videos uid db, donations db,
      filter (\<lambda>j. j_video j \<in> set (map v_id (others_videos uid db))) (jobs db))"

lemma owner_of_update [simp]:
  "owner_of (db\<lparr>videos := vs\<rparr>) = owner_of db" "owner_of (db\<lparr>queues := qs\<rparr>) = owner_of db"
  "owner_of (db\<lparr>priorities := ps\<rparr>) = owner_of db" "owner_of (db\<lparr>users := us\<rparr>) = owner_of db"
  "owner_of (db\<lparr>jobs := js\<rparr>) = owner_of db" "owner_of (db\<lparr>next_video_id := n\<rparr>) = owner_of db"
  "owner_of (db\<lparr>next_queue_id := n\<rparr>) = owner_of db"
  by (simp_all add: owner_of_def fun_eq_iff donation_owners_def)

lemma list_all2_filter_same:
  "list_all2 (\<lambda>x y. y = x \<or> \<not> P x \<and> \<not> P y) xs ys \<Longrightarrow> filter P ys = filter P xs"
  by (induction rule: list_all2_induct) auto

lemma filter_map_own:
  assumes "\<And>r. r \<in> set rows \<Longrightarrow> f r = r \<or> \<not> P r \<and> \<not> P (f r)"
  shows "filter P (map f rows) = filter P rows"
  using assms
proof (induction rows)
  case (Cons r rows)
  then have "f r = r \<or> \<not> P r \<and> \<not> P (f r)" and "filter P (map f rows) = filter P rows" by auto
  then show ?case by auto
qed simp

text \<open>Statements on videos that only match and keep rows of the user.\<close>

lemma owner_of_fields:
  "v_user v = v_user w \<Longrightarrow> v_donation v = v_donation w \<Longrightarrow> owner_of db v = owner_of db w"
  by (simp add: owner_of_def owner_in_def cong: option.case_cong)

lemma update_videos_others:
  assumes "db_ok db" and "update_videos db' retain p f = Inr vs" and "videos db' = videos db"
    and "\<And>v. p v \<Longrightarrow> owns_video db uid v"
    and "\<And>v w. f v = Inr w \<Longrightarrow> v_user w = v_user v \<and> v_donation w = v_donation v"
  shows "filter (\<lambda>v. owner_of db v \<noteq> Some uid) vs = others_videos uid db"
  unfolding others_videos_def
proof (rule list_all2_filter_same)
  have owned: "owner_of db v = Some uid" if "v \<in> set (videos db)" "p v" for v
  proof -
    have "donations_ok db" "video_check v"
      using assms(1) that(1) by (auto simp: db_ok_def videos_ok_def video_row_ok_def)
    then show ?thesis using owns_video_iff assms(4) that(2) by blast
  qed
  have "list_all2 (\<lambda>v r. v \<in> set (videos db) \<and> (if p v then (\<exists>w. f v = Inr w \<and> store_video db' retain (Some v) w = Inr r)
      else r = v)) (videos db) vs"
    using update_videos_rows [OF assms(2)] unfolding assms(3)
    by (auto simp: list_all2_conv_all_nth)
  then show "list_all2 (\<lambda>x y. y = x \<or> \<not> owner_of db x \<noteq> Some uid \<and> \<not> owner_of db y \<noteq> Some uid) (videos db) vs"
  proof (rule list_all2_mono)
    fix v r
    assume v: "v \<in> set (videos db) \<and> (if p v then (\<exists>w. f v = Inr w \<and> store_video db' retain (Some v) w = Inr r)
      else r = v)"
    show "r = v \<or> \<not> owner_of db v \<noteq> Some uid \<and> \<not> owner_of db r \<noteq> Some uid"
    proof (cases "p v")
      case True
      then obtain w where w: "f v = Inr w" "store_video db' retain (Some v) w = Inr r" using v by auto
      have shape: "r = w\<lparr>v_priority := v_priority r\<rparr>" using w(2) by (rule store_video_shape)
      have "v_user r = v_user w" "v_donation r = v_donation w" by (subst shape, simp)+
      then have "owner_of db r = owner_of db v" using assms(5) [OF w(1)] by (intro owner_of_fields) auto
      then show ?thesis using owned v True by auto
    qed (use v in auto)
  qed
qed

lemma others_view_videos:
  assumes "filter (\<lambda>v. owner_of db v \<noteq> Some uid) vs = others_videos uid db"
  shows "others_view uid (db\<lparr>videos := vs\<rparr>) = others_view uid db"
  using assms by (simp add: others_view_def others_videos_def)

lemma others_create_queue: "others_view uid (snd (create_queue uid label db)) = others_view uid db"
  by (simp add: create_queue_def Let_def others_view_def others_videos_def)

lemma others_update_queue:
  assumes "db_ok db"
  shows "others_view uid (snd (update_queue uid qid label is_default db)) = others_view uid db"
proof (cases "update_queue uid qid label is_default db")
  case (Pair r db')
  show ?thesis
  proof (cases r)
    case (Inr item)
    have q: "queues_ok db" using assms(1) by (simp add: db_ok_def)
    obtain existing where db': "db' = db\<lparr>queues := map (changed_queue uid qid label is_default) (queues db)\<rparr>"
      using q Pair[unfolded Inr] by (rule update_queue_success)
    have "filter (\<lambda>q. q_user q \<noteq> uid) (map (changed_queue uid qid label is_default) (queues db)) =
        filter (\<lambda>q. q_user q \<noteq> uid) (queues db)"
      by (rule filter_map_own) (auto simp: changed_queue_def)
    then show ?thesis using Pair db' by (simp add: others_view_def others_videos_def)
  qed (use Pair in \<open>simp add: update_queue_def\<close>)
qed

lemma others_move_video:
  assumes "db_ok db"
  shows "others_view uid (snd (move_video uid vid qid db)) = others_view uid db"
  unfolding move_video_def
proof (rule snd_atomically [where P = "\<lambda>s. others_view uid s = others_view uid db"], rule refl)
  fix x s'
  assume "(let matches = (\<lambda>v. v_id v = vid \<and> owns_video db uid v \<and>
              (\<exists>q \<in> set (queues db). q_id q = qid \<and> q_user q = uid)) in
        bind_result (ensure (in_int8 vid \<and> in_int4 qid) (DatabaseError NumericOutOfRange)) (\<lambda>_.
        bind_result (map_error DatabaseError
          (update_videos db False matches (\<lambda>v. Inr (v\<lparr>v_queue := qid\<rparr>)))) (\<lambda>rows.
        bind_result (ensure (filter matches (videos db) \<noteq> []) (VideoQueueError Video_not_found)) (\<lambda>_.
        Inr ((), db\<lparr>videos := rows\<rparr>))))) = Inr (x, s')"
  then obtain rows where st: "update_videos db False (\<lambda>v. v_id v = vid \<and> owns_video db uid v \<and>
              (\<exists>q \<in> set (queues db). q_id q = qid \<and> q_user q = uid)) (\<lambda>v. Inr (v\<lparr>v_queue := qid\<rparr>)) = Inr rows"
    and s': "s' = db\<lparr>videos := rows\<rparr>"
    by (auto simp: bind_result_Inr_iff Let_def)
  show "others_view uid s' = others_view uid db"
    unfolding s' by (intro others_view_videos update_videos_others [OF assms st]) auto
qed

lemma others_update_video:
  assumes "db_ok db"
  shows "others_view uid (snd (update_video uid vid amount start_s end_s db)) = others_view uid db"
proof (cases "update_video uid vid amount start_s end_s db")
  case (Pair r db')
  show ?thesis
  proof (cases r)
    case (Inr x)
    then obtain vs where st: "update_videos db False (\<lambda>v. v_id v = vid \<and> owns_video db uid v)
        (\<lambda>v. Inr (edited_clip amount start_s end_s v)) = Inr vs"
      and db': "db' = db\<lparr>videos := vs\<rparr>"
      using Pair by (auto simp: update_video_def bind_result_Inr_iff Let_def)
    have "others_view uid (db\<lparr>videos := vs\<rparr>) = others_view uid db"
      by (intro others_view_videos update_videos_others [OF assms st]) (auto simp: edited_clip_def)
    then show ?thesis using Pair db' by simp
  qed (use Pair in \<open>simp add: update_video_def\<close>)
qed

lemma stored_owner_iff:
  assumes "db_ok db" and "v \<in> set (videos db)"
  shows "owns_video db u v \<longleftrightarrow> owner_of db v = Some u"
proof -
  have "donations_ok db" "video_check v"
    using assms by (auto simp: db_ok_def videos_ok_def video_row_ok_def)
  then show ?thesis by (rule owns_video_iff)
qed

lemma others_update_status:
  assumes "db_ok db"
  shows "others_view uid (snd (update_status uid vid watched bookmarked db)) = others_view uid db"
proof -
  have "others_view uid (db\<lparr>videos := update_where (\<lambda>v. v_id v = vid \<and> owns_video db uid v)
      (\<lambda>v. v\<lparr>v_watched_at := w v, v_bookmarked_at := b v\<rparr>) (videos db)\<rparr>) = others_view uid db" for w b
  proof (rule others_view_videos, unfold others_videos_def, rule filter_update_where)
    fix v assume "v \<in> set (videos db)" "v_id v = vid \<and> owns_video db uid v"
    then have "owner_of db v = Some uid" using stored_owner_iff [OF assms] by blast
    moreover have "owner_of db (v\<lparr>v_watched_at := w v, v_bookmarked_at := b v\<rparr>) = owner_of db v"
      by (rule owner_of_fields) simp_all
    ultimately show "\<not> owner_of db v \<noteq> Some uid \<and>
        \<not> owner_of db (v\<lparr>v_watched_at := w v, v_bookmarked_at := b v\<rparr>) \<noteq> Some uid" by simp
  qed
  then show ?thesis unfolding update_status_def
    by (intro snd_atomically [where P = "\<lambda>s. others_view uid s = others_view uid db"])
      (auto simp: bind_result_Inr_iff Let_def)
qed


lemma others_retry_metadata:
  assumes "db_ok db"
  shows "others_view uid (snd (retry_metadata now uid vid db)) = others_view uid db"
proof -
  let ?other = "\<lambda>j. j_video j \<in> set (map v_id (others_videos uid db))"
  have "filter ?other (update_where (\<lambda>job. (\<exists>v \<in> set (videos db). j_video job = v_id v \<and> v_id v = vid \<and>
      owns_video db uid v \<and> v_duration v = None) \<and> P job)
      (\<lambda>job. job\<lparr>j_completed_at := None, j_available_at := now\<rparr>) (jobs db)) = filter ?other (jobs db)" for P
  proof (rule filter_update_where)
    fix j assume "(\<exists>v \<in> set (videos db). j_video j = v_id v \<and> v_id v = vid \<and> owns_video db uid v \<and>
      v_duration v = None) \<and> P j"
    then obtain v where v: "v \<in> set (videos db)" "j_video j = v_id v" "owns_video db uid v" by blast
    have "\<not> ?other j"
    proof
      assume "?other j"
      then obtain w where w: "w \<in> set (videos db)" "v_id w = v_id v" "owner_of db w \<noteq> Some uid"
        using v(2) by (auto simp: others_videos_def)
      have "distinct (map v_id (videos db))" using assms by (simp add: db_ok_def videos_ok_def)
      then have "w = v" using w(1,2) v(1) distinct_key_unique by metis
      then show False using w(3) v stored_owner_iff [OF assms] by blast
    qed
    then show "\<not> ?other j \<and> \<not> ?other (j\<lparr>j_completed_at := None, j_available_at := now\<rparr>)" by simp
  qed
  then show ?thesis unfolding retry_metadata_def
    by (intro snd_atomically [where P = "\<lambda>s. others_view uid s = others_view uid db"])
      (auto simp: bind_result_Inr_iff Let_def others_view_def others_videos_def)
qed

lemma others_update_priority:
  "others_view uid (snd (update_priority uid pid label min_price db)) = others_view uid db"
proof (cases "update_priority uid pid label min_price db")
  case (Pair r db')
  then show ?thesis
  proof (cases rule: update_priority_rows)
    case 2
    have "filter (\<lambda>p. p_user p \<noteq> uid) (priorities db') = filter (\<lambda>p. p_user p \<noteq> uid) (priorities db)"
      unfolding 2(2) by (simp, rule filter_update_where) simp
    then show ?thesis using Pair 2(2) by (simp add: others_view_def others_videos_def)
  qed (use Pair in simp)
qed

lemma add_manual_video_result:
  assumes "add_manual_video rurl now uid url amount start_s end_s queue_id db = (r, db')"
  obtains "db' = db" and "\<And>x. r \<noteq> Inr x"
  | "db' = db\<lparr>next_video_id := next_video_id db + 1\<rparr>" and "\<And>x. r \<noteq> Inr x"
  | pv qid row where "manual_target rurl uid url amount start_s end_s queue_id db = Inr (pv, qid)"
      and "store_video db False None
        (manual_video uid now pv url amount start_s end_s (next_video_id db) qid) = Inr row"
      and "r = Inr (next_video_id db)"
      and "db' = db\<lparr>next_video_id := next_video_id db + 1, videos := videos db @ [row],
             jobs := enqueue_metadata_job now row (jobs db)\<rparr>"
proof (cases "manual_target rurl uid url amount start_s end_s queue_id db")
  case (Inl e)
  then show thesis using assms that(1) by (auto simp: add_manual_video_def)
next
  case (Inr t)
  obtain pv qid where t: "t = (pv, qid)" by (cases t)
  note eq = assms[unfolded add_manual_video_def Inr t Let_def, simplified]
  show thesis
  proof (cases r)
    case (Inl e)
    then show thesis using eq that(2) by simp
  next
    case r: (Inr x)
    then show thesis using eq that(3) Inr t by (auto simp: bind_result_Inr_iff)
  qed
qed

lemma others_add_manual_video:
  assumes "db_ok db"
  shows "others_view uid (snd (add_manual_video rurl now uid url amount start_s end_s queue_id db)) =
    others_view uid db"
proof (cases "add_manual_video rurl now uid url amount start_s end_s queue_id db")
  case (Pair r db')
  then show ?thesis
  proof (cases rule: add_manual_video_result)
    case (3 pv qid row)
    let ?new = "manual_video uid now pv url amount start_s end_s (next_video_id db) qid"
    have shape: "row = ?new\<lparr>v_priority := v_priority row\<rparr>" using 3(2) by (rule store_video_shape)
    have own: "owner_of db row = Some uid" and id: "v_id row = next_video_id db"
      by (subst shape, simp add: owner_of_def owner_in_def manual_video_def)+
    have "next_video_id db \<notin> set (map v_id (others_videos uid db))"
      using assms by (auto simp: others_videos_def db_ok_def videos_ok_def)
    then show ?thesis using Pair 3(4) own id
      by (auto simp: others_view_def others_videos_def enqueue_metadata_job_def)
  qed (use Pair in \<open>simp_all add: others_view_def others_videos_def\<close>)
qed

lemma others_set_queue_currency:
  assumes "db_ok db"
  shows "others_view uid (snd (set_queue_currency uid c rate db)) = others_view uid db"
proof (cases "set_queue_currency uid c rate db")
  case (Pair r db')
  show ?thesis
  proof (cases r)
    case (Inr x)
    from Pair[unfolded Inr] show ?thesis
    proof (cases rule: set_queue_currency_success)
      case (2 user ps vs)
      let ?f = "conversion_factor_for_currency_change (u_currency user) c rate"
      have vs: "filter (\<lambda>v. owner_of db v \<noteq> Some uid) vs = others_videos uid db"
      proof (rule update_videos_others [OF assms 2(5)])
        fix v w assume "convert_video ?f v = Inr w"
        then show "v_user w = v_user v \<and> v_donation w = v_donation v"
          by (auto simp: convert_video_def bind_result_Inr_iff split: option.split_asm)
      qed auto
      have "filter (\<lambda>p. p_user p \<noteq> uid) ps = filter (\<lambda>p. p_user p \<noteq> uid) (priorities db)"
      proof (rule list_all2_filter_same)
        show "list_all2 (\<lambda>x y. y = x \<or> \<not> p_user x \<noteq> uid \<and> \<not> p_user y \<noteq> uid) (priorities db) ps"
          using 2(4) unfolding store_all_Inr
          by (rule list_all2_mono)
            (auto simp: convert_priority_def bind_result_Inr_iff split: if_split_asm)
      qed
      moreover have "filter (\<lambda>u. u_id u \<noteq> uid) (update_where (\<lambda>u. u_id u = uid) (\<lambda>u. u\<lparr>u_currency := c\<rparr>) (users db))
          = filter (\<lambda>u. u_id u \<noteq> uid) (users db)"
        by (rule filter_update_where) simp
      ultimately show ?thesis using Pair 2(6) vs by (simp add: others_view_def others_videos_def)
    qed (use Pair in simp)
  qed (use Pair in \<open>simp add: set_queue_currency_def\<close>)
qed

lemma video_call_isolated:
  assumes "db_ok db"
  shows "others_view uid (snd (video_call_outcome rurl now uid call db)) = others_view uid db"
  using others_create_queue others_set_queue_currency [OF assms] others_update_queue [OF assms]
    others_move_video [OF assms] others_add_manual_video [OF assms] others_update_priority
    others_update_status [OF assms] others_retry_metadata [OF assms] others_update_video [OF assms]
  by (cases call) (simp_all add: video_call_outcome_def)

end
