(* ===== verification/Site.thy ===== *)
theory Site
  imports AccountsInvariant VideoIsolation
begin

text \<open>
  The site as its visitors meet it: a request is first given its viewer, for whom an account is created
  on the first visit (\<open>createContext\<close> in \<open>server/api/trpc/_config.ts\<close>), then runs its procedure.
\<close>

section \<open>Requests\<close>

datatype site_request =
    VideoQueueRequest video_request
  | UpdateSlugRequest string
  | UpdatePublicQueueSettingsRequest public_queue_settings

datatype site_response =
    VideoQueueAnswer video_response
  | SlugAnswer string
  | PublicQueueSettingsAnswer public_queue_settings

definition answered :: "('a \<Rightarrow> 'b) \<Rightarrow> (api_error + 'a) \<times> 's \<Rightarrow> (api_error + 'b) \<times> 's" where
  "answered f r = (map_sum id f (fst r), snd r)"

definition handle_procedure ::
  "(string \<Rightarrow> bool) \<Rightarrow> (string \<Rightarrow> readonly_url option) \<Rightarrow> timestamp \<Rightarrow> api_context \<Rightarrow> site_request \<Rightarrow> db \<Rightarrow>
    (api_error + site_response) \<times> db" where
  "handle_procedure is_url rurl now ctx req db =
     (case req of
        VideoQueueRequest r \<Rightarrow> answered VideoQueueAnswer (handle_video_request is_url rurl now ctx r db)
      | UpdateSlugRequest slug \<Rightarrow> answered SlugAnswer (handle_update_slug ctx slug db)
      | UpdatePublicQueueSettingsRequest settings \<Rightarrow>
          answered PublicQueueSettingsAnswer (handle_update_public_queue_settings ctx settings db))"

text \<open>
  What a request brings: its session, the random UUIDs drawn while it is served and its time.  No
  answer means that the loop for a free slug still runs after these UUIDs.
\<close>

record site_event =
  ev_session :: "session option"
  ev_uuid :: string
  ev_retry_uuids :: "string list"
  ev_now :: timestamp
  ev_request :: site_request

definition create_context :: "string \<Rightarrow> site_event \<Rightarrow> db \<Rightarrow> (api_error + api_context) option \<times> db" where
  "create_context admin_emails ev db =
     (case get_viewer admin_emails (ev_session ev) (ev_uuid ev) (ev_retry_uuids ev) db of
        (r, db') \<Rightarrow>
          (map_option (map_sum (\<lambda>_. UnexpectedError ''context'') request_context) r, db'))"

definition handle_site_request ::
  "string \<Rightarrow> (string \<Rightarrow> bool) \<Rightarrow> (string \<Rightarrow> readonly_url option) \<Rightarrow> site_event \<Rightarrow> db \<Rightarrow>
    (api_error + site_response) option \<times> db" where
  "handle_site_request admin_emails is_url rurl ev db =
     (case create_context admin_emails ev db of
        (None, db1) \<Rightarrow> (None, db1)
      | (Some (Inl e), db1) \<Rightarrow> (Some (Inl e), db1)
      | (Some (Inr ctx), db1) \<Rightarrow>
          (case handle_procedure is_url rurl (ev_now ev) ctx (ev_request ev) db1 of
             (r, db2) \<Rightarrow> (Some r, db2)))"

definition serve_site ::
  "string \<Rightarrow> (string \<Rightarrow> bool) \<Rightarrow> (string \<Rightarrow> readonly_url option) \<Rightarrow> db \<Rightarrow> site_event \<Rightarrow> db" where
  "serve_site admin_emails is_url rurl db ev = snd (handle_site_request admin_emails is_url rurl ev db)"

section \<open>No request loses an account\<close>

lemma atomically_field:
  "(\<And>x d. r = Inr (x, d) \<Longrightarrow> f d = f db) \<Longrightarrow> f (snd (atomically db r)) = f db"
  by (auto simp: atomically_def split: sum.splits)

lemma video_call_users:
  "map (\<lambda>u. (u_auth_id u, u_id u)) (users (snd (video_call_outcome rurl now uid call db))) =
     map (\<lambda>u. (u_auth_id u, u_id u)) (users db)"
proof -
  let ?keys = "\<lambda>d. map (\<lambda>u. (u_auth_id u, u_id u)) (users d)"
  have "?keys (snd (create_queue uid l db)) = ?keys db" for l
    unfolding create_queue_def by (auto simp: Let_def atomically_def split: sum.splits)
  moreover have "?keys (snd (update_queue uid q l b db)) = ?keys db" for q l b
    unfolding update_queue_def Let_def by (rule atomically_field) (auto simp: bind_result_Inr_iff)
  moreover have "?keys (snd (move_video uid v q db)) = ?keys db" for v q
    unfolding move_video_def Let_def by (rule atomically_field) (auto simp: bind_result_Inr_iff)
  moreover have "?keys (snd (update_status uid v w b db)) = ?keys db" for v w b
    unfolding update_status_def Let_def by (rule atomically_field) (auto simp: bind_result_Inr_iff)
  moreover have "?keys (snd (retry_metadata now uid v db)) = ?keys db" for v
    unfolding retry_metadata_def Let_def by (rule atomically_field) (auto simp: bind_result_Inr_iff)
  moreover have "?keys (snd (update_video uid v a s e db)) = ?keys db" for v a s e
    unfolding update_video_def Let_def by (rule atomically_field) (auto simp: bind_result_Inr_iff)
  moreover have "?keys (snd (update_priority uid p l m db)) = ?keys db" for p l m
    by (auto simp: update_priority_def Let_def split: sum.splits option.splits)
  moreover have "?keys (snd (add_manual_video rurl now uid u a s e q db)) = ?keys db" for u a s e q
    by (auto simp: add_manual_video_def Let_def atomically_def bind_result_Inr_iff split: sum.splits)
  moreover have "?keys (snd (set_queue_currency uid c r db)) = ?keys db" for c r
  proof (cases "set_queue_currency uid c r db")
    case (Pair res db')
    show ?thesis
    proof (cases res)
      case (Inr x)
      from Pair[unfolded Inr] show ?thesis
        by (cases rule: set_queue_currency_success) (simp_all add: Pair map_update_where)
    qed (use Pair in \<open>simp add: set_queue_currency_def atomically_def split: sum.splits prod.splits\<close>)
  qed
  ultimately show ?thesis by (cases call) (simp_all add: video_call_outcome_def)
qed

lemma video_request_kept:
  assumes "db_ok db"
  shows "accounts_kept db (snd (handle_video_request is_url rurl now ctx req db))"
proof (rule accounts_kept_users)
  show "db_ok (snd (handle_video_request is_url rurl now ctx req db))"
    by (rule handle_video_request_keeps_db_ok [OF assms])
  show "map (\<lambda>u. (u_auth_id u, u_id u)) (users (snd (handle_video_request is_url rurl now ctx req db))) =
      map (\<lambda>u. (u_auth_id u, u_id u)) (users db)"
    by (auto simp: handle_video_request_def call_procedure_def video_call_users Let_def split: sum.splits option.splits)
qed

lemma handle_procedure_kept:
  assumes "db_ok db"
  shows "accounts_kept db (snd (handle_procedure is_url rurl now ctx req db))"
proof (cases req)
  case (VideoQueueRequest r)
  then show ?thesis using video_request_kept [OF assms] by (simp add: handle_procedure_def answered_def)
next
  case (UpdateSlugRequest slug)
  have "accounts_kept db (snd (handle_update_slug ctx slug db))"
    using accounts_kept_refl [OF assms] set_slug_kept [OF assms]
    by (auto simp: handle_update_slug_def call_procedure_def split: sum.split option.split prod.split)
      (metis snd_conv)
  then show ?thesis by (simp add: UpdateSlugRequest handle_procedure_def answered_def)
next
  case (UpdatePublicQueueSettingsRequest settings)
  have "accounts_kept db (snd (handle_update_public_queue_settings ctx settings db))"
    using accounts_kept_refl [OF assms] set_public_queue_settings_kept [OF assms]
    by (auto simp: handle_update_public_queue_settings_def call_procedure_def split: sum.split prod.split)
      (metis snd_conv)
  then show ?thesis by (simp add: UpdatePublicQueueSettingsRequest handle_procedure_def answered_def)
qed

lemma create_context_kept: "db_ok db \<Longrightarrow> accounts_kept db (snd (create_context admin_emails ev db))"
  using get_viewer_kept by (simp add: create_context_def split: prod.split) (metis snd_conv)

lemma handle_site_request_kept:
  assumes "db_ok db"
  shows "accounts_kept db (snd (handle_site_request admin_emails is_url rurl ev db))"
proof -
  obtain res db1 where context_made: "create_context admin_emails ev db = (res, db1)" by fastforce
  then have kept: "accounts_kept db db1" using create_context_kept [OF assms, of admin_emails ev] by simp
  show ?thesis
  proof (cases "\<exists>ctx. res = Some (Inr ctx)")
    case True
    then obtain ctx where ctx: "res = Some (Inr ctx)" by blast
    have "accounts_kept db1 (snd (handle_procedure is_url rurl (ev_now ev) ctx (ev_request ev) db1))"
      using kept by (intro handle_procedure_kept) (simp add: accounts_kept_def)
    then show ?thesis
      using kept accounts_kept_trans context_made ctx by (auto simp: handle_site_request_def split: prod.split)
  next
    case False
    then show ?thesis using kept context_made by (auto simp: handle_site_request_def split: option.split sum.split)
  qed
qed

interpretation site: invariant_machine "serve_site admin_emails is_url rurl" "\<lambda>_. True" "accounts_kept db"
  for admin_emails is_url rurl db
  by unfold_locales
    (metis accounts_kept_def accounts_kept_trans handle_site_request_kept serve_site_def)

section \<open>A new account\<close>

lemma create_account_added:
  assumes "db_ok db" and "create_account auth_id slug db = (Inr uid, db')" and "find_account auth_id db = None"
  shows "uid = next_user_id db \<and> db' = with_account auth_id slug db"
  using assms(1, 2)
proof (cases rule: create_account_cases)
  case (existing uid')
  then show "uid = next_user_id db \<and> db' = with_account auth_id slug db" using assms(3) by simp
qed auto

lemma create_account_refused:
  assumes "db_ok db" and "create_account auth_id slug db = (Inl e, db')"
  shows "users db' = users db \<and> queues db' = queues db \<and> priorities db' = priorities db"
  using assms by (cases rule: create_account_cases) auto

lemma create_account_retrying_added:
  "db_ok db \<Longrightarrow> find_account auth_id db = None \<Longrightarrow>
   create_account_retrying auth_id slug uuids db = (Some (Inr uid), db') \<Longrightarrow>
   \<exists>db1 slug'. db_ok db1 \<and> users db1 = users db \<and> queues db1 = queues db \<and> priorities db1 = priorities db \<and>
     uid = next_user_id db1 \<and> db' = with_account auth_id slug' db1"
proof (induction auth_id slug uuids db rule: create_account_retrying.induct)
  case (1 auth_id slug uuids db)
  obtain r db1 where made: "create_account auth_id slug db = (r, db1)" by fastforce
  show ?case
  proof (cases r)
    case (Inr uid1)
    then have "uid = uid1" "db' = db1" using 1(4) made by simp_all
    then have "uid = next_user_id db \<and> db' = with_account auth_id slug db"
      using create_account_added [OF 1(2) _ 1(3)] made Inr by simp
    then show ?thesis using 1(2) by blast
  next
    case (Inl e)
    note refused = create_account_refused [OF 1(2) made[unfolded Inl]]
    have ok1: "db_ok db1" using create_account_ok [OF 1(2) made] .
    obtain uuid rest slug' where more_ids: "is_user_slug_conflict e" "uuids = uuid # rest" "parse_slug uuid = Some slug'"
      and again: "create_account_retrying auth_id slug' rest db1 = (Some (Inr uid), db')"
      using 1(4) made Inl by (auto split: if_split_asm list.split_asm option.split_asm)
    have "find_account auth_id db1 = None" using refused 1(3) find_account_users by metis
    then show ?thesis
      using 1(1) [OF made [symmetric] Inl _ more_ids(2, 3) ok1 _ again] more_ids(1) refused by auto
  qed
qed

lemma with_account_rows:
  assumes "db_ok db" and "uid = next_user_id db"
  shows "map (\<lambda>q. (q_label q, q_default q)) (filter (\<lambda>q. q_user q = uid) (queues (with_account auth_id slug db))) =
      [(''Main'', True)]"
    and "map (\<lambda>p. (p_label p, p_min p, p_default p))
        (filter (\<lambda>p. p_user p = uid) (priorities (with_account auth_id slug db))) = default_priorities"
    and "filter (\<lambda>u. u_id u \<noteq> uid) (users (with_account auth_id slug db)) = users db"
    and "filter (\<lambda>q. q_user q \<noteq> uid) (queues (with_account auth_id slug db)) = queues db"
    and "filter (\<lambda>p. p_user p \<noteq> uid) (priorities (with_account auth_id slug db)) = priorities db"
proof -
  have fresh: "uid \<notin> set (user_ids db)" using assms fresh_user by (simp add: db_ok_def)
  then have others: "\<forall>u \<in> set (users db). u_id u \<noteq> uid" "\<forall>q \<in> set (queues db). q_user q \<noteq> uid"
    "\<forall>p \<in> set (priorities db). p_user p \<noteq> uid"
    using assms(1) by (auto simp: user_ids_def db_ok_def queues_ok_def priorities_ok_def priority_row_ok_def)
  then have none: "filter (\<lambda>q. q_user q = uid) (queues db) = []" "filter (\<lambda>p. p_user p = uid) (priorities db) = []"
    "filter (\<lambda>u. u_id u \<noteq> uid) (users db) = users db" "filter (\<lambda>q. q_user q \<noteq> uid) (queues db) = queues db"
    "filter (\<lambda>p. p_user p \<noteq> uid) (priorities db) = priorities db"
    by (auto simp: filter_empty_conv filter_id_conv)
  show "map (\<lambda>q. (q_label q, q_default q)) (filter (\<lambda>q. q_user q = uid) (queues (with_account auth_id slug db))) =
      [(''Main'', True)]"
    "map (\<lambda>p. (p_label p, p_min p, p_default p))
        (filter (\<lambda>p. p_user p = uid) (priorities (with_account auth_id slug db))) = default_priorities"
    "filter (\<lambda>u. u_id u \<noteq> uid) (users (with_account auth_id slug db)) = users db"
    "filter (\<lambda>q. q_user q \<noteq> uid) (queues (with_account auth_id slug db)) = queues db"
    "filter (\<lambda>p. p_user p \<noteq> uid) (priorities (with_account auth_id slug db)) = priorities db"
    using none assms(2) by (simp_all add: with_account_def new_priorities_def new_user_def default_priorities_def)
qed

end
