(* ===== verification/VideoProperties.thy ===== *)
theory VideoProperties
  imports VideoIsolation
begin

text \<open>
  What the operations of the video queue do, exactly, on a well-formed database: the move, the
  edit and the currency change as functions of the tables, the single default queue, isolation
  and the errors that can occur.  \<open>sample_db\<close> is a small well-formed database the witnesses use.
\<close>

section \<open>Assignments that are kept\<close>

lemma store_video_keeps:
  assumes ok: "stored_video_ok db v"
    and same: "v_start new = v_start v" "v_end new = v_end v" "v_duration new = v_duration v"
      "v_donation new = v_donation v" "v_user new = v_user v" "v_added_at new = v_added_at v"
      "v_priority new = v_priority v"
    and amount: "v_amount new = v_amount v \<or> retain" "v_amount new = None \<longleftrightarrow> v_amount v = None"
    and queue: "queue_belongs db (owner_of db v) (v_queue new)"
  shows "store_video db retain (Some v) new = Inr new"
proof -
  have owner: "owner_of db new = owner_of db v" using same by (intro owner_of_fields)
  obtain u where u: "owner_of db v = Some u" "optional_holds (priority_belongs db (Some u)) (v_priority v)"
    using ok by (rule stored_owner)
  have un: "unpriced new = unpriced v" using same amount(2) by (simp add: unpriced_def cong: option.case_cong)
  have pr: "v_priority v = None \<longleftrightarrow> unpriced v" using ok by (simp add: video_row_ok_def)
  have checks: "video_check new" "video_check1 new" "case v_end new of None \<Rightarrow> True | Some e \<Rightarrow> 0 < e"
    using ok same by (auto simp: video_row_ok_def video_check_def video_check1_def clip_ok_def
        optional_holds_def split: option.splits)
  have "set_video_priority_id db retain (Some v) new = Inr new"
  proof (cases "unpriced v")
    case True
    then have "new\<lparr>v_priority := None\<rparr> = new" using pr same(7) by simp
    then show ?thesis
      using True un u queue owner same(7) by (simp add: set_video_priority_id_def Let_def)
  next
    case False
    then have "keeps_assignment retain v new"
      using same amount pr by (simp add: keeps_assignment_def)
    then show ?thesis
      using False un u queue owner same(7)
      by (simp add: set_video_priority_id_def Let_def optional_holds_def)
  qed
  then show ?thesis using checks by (simp add: store_video_def)
qed

lemma update_videos_eval:
  assumes "\<And>v. v \<in> set (videos db) \<Longrightarrow> p v \<Longrightarrow>
    bind_result (f v) (store_video db retain (Some v)) = Inr (g v)"
  shows "update_videos db retain p f = Inr (update_where p g (videos db))"
  unfolding update_videos_def update_where_def by (rule store_all_map) (auto simp: assms)

lemma stored_video: "db_ok db \<Longrightarrow> v \<in> set (videos db) \<Longrightarrow> stored_video_ok db v"
  by (simp add: db_ok_def videos_ok_def)

section \<open>A sample database\<close>

definition sample_clip :: "int \<Rightarrow> int option \<Rightarrow> int option \<Rightarrow> nat \<Rightarrow> int \<Rightarrow> video_row" where
  "sample_clip vid donation owner amount pid =
     \<lparr>v_id = vid, v_donation = donation, v_user = owner,
      v_added_at = (if owner = None then None else Some 1000), v_provider_id = ''dQw4w9WgXcQ'',
      v_url = ''https://youtu.be/dQw4w9WgXcQ'', v_amount = Some amount, v_start = 0, v_end = Some 60,
      v_duration = Some 212, v_watched_at = None, v_bookmarked_at = None, v_priority = Some pid,
      v_title = None, v_queue = 1\<rparr>"

definition sample_db :: db where
  "sample_db =
     \<lparr>users =
        [\<lparr>u_id = 1, u_auth_id = ''a1'', u_slug = ''anna'', u_currency = RUB, u_public_enabled = True,
          u_show_amounts = False, u_show_watched = True\<rparr>,
         \<lparr>u_id = 2, u_auth_id = ''a2'', u_slug = ''boris'', u_currency = USD, u_public_enabled = False,
          u_show_amounts = True, u_show_watched = False\<rparr>],
      queues =
        [\<lparr>q_id = 1, q_user = 1, q_label = ''Main'', q_default = True\<rparr>,
         \<lparr>q_id = 2, q_user = 1, q_label = ''Later'', q_default = False\<rparr>,
         \<lparr>q_id = 3, q_user = 2, q_label = ''Main'', q_default = True\<rparr>],
      priorities =
        [\<lparr>p_id = 1, p_user = 1, p_label = ''Free'', p_min = 0, p_default = True\<rparr>,
         \<lparr>p_id = 2, p_user = 1, p_label = ''Fast'', p_min = 6000, p_default = False\<rparr>,
         \<lparr>p_id = 3, p_user = 2, p_label = ''Free'', p_min = 0, p_default = True\<rparr>],
      donations =
        [\<lparr>d_id = 7, d_source = Streamlabs, d_source_id = ''s7'', d_user = 1, d_author = None,
          d_message = None, d_amount = 10 ^ 20, d_currency = ''RUB'', d_source_created_at = ''now'',
          d_occurred_at = 2000\<rparr>],
      videos = [sample_clip 1 None (Some 1) 7000 2, sample_clip 2 (Some 7) None 100 1],
      jobs = [], next_user_id = 3, next_queue_id = 4, next_priority_id = 4, next_video_id = 3\<rparr>"

lemma sample_labels: "label_ok ''Main''" "label_ok ''Later''" "label_ok ''Free''" "label_ok ''Fast''" "label_ok ''Slow''"
  by (simp_all add: label_ok_def parse_label_def js_trim_def is_space_def code_def)

lemma sample_slugs: "valid_slug ''anna''" "valid_slug ''boris''"
  by (simp_all add: valid_slug_def slug_char_def is_lower_alpha_def code_def)

lemma sample_clip_ok:
  "clip_ok (sample_clip i d u a p) = (a < 10 ^ 20)" "unpriced (sample_clip i d u a p) = False"
  "v_id (sample_clip i d u a p) = i" "v_priority (sample_clip i d u a p) = Some p"
  "v_queue (sample_clip i d u a p) = 1" "owner_in dks (sample_clip i d u a p) =
     (case u of Some x \<Rightarrow> Some x | None \<Rightarrow> Option.bind d (map_of dks))"
  "video_check (sample_clip i d u a p) = ((d = None) \<noteq> (u = None))"
  by (auto simp: sample_clip_def clip_ok_def unpriced_def optional_holds_def in_int4_def owner_in_def
      video_check_def split: option.splits)

lemma sample_db_ok: "db_ok sample_db"
proof -
  have keys: "user_ids sample_db = [1, 2]" "queue_keys sample_db = [(1, 1), (2, 1), (3, 2)]"
    "priority_keys sample_db = [(1, 1), (2, 1), (3, 2)]" "donation_owners sample_db = [(7, 1)]"
    by (simp_all add: user_ids_def queue_keys_def priority_keys_def donation_owners_def sample_db_def)
  have "users_ok sample_db"
    unfolding users_ok_def keys by (simp add: sample_db_def int4_id_def in_int4_def sample_slugs)
  moreover have "queues_ok sample_db"
    unfolding queues_ok_def keys by (simp add: sample_db_def int4_id_def in_int4_def sample_labels)
  moreover have "priorities_ok sample_db"
    unfolding priorities_ok_def keys
    by (simp add: sample_db_def int4_id_def in_int4_def sample_labels priority_row_ok_def)
  moreover have "donations_ok sample_db"
    unfolding donations_ok_def keys
    by (simp add: sample_db_def donation_row_ok_def valid_donation_asset_def asset_char_def is_upper_alpha_def code_def)
  moreover have "videos_ok sample_db"
    unfolding videos_ok_def keys by (simp add: sample_db_def video_row_ok_def sample_clip_ok)
  moreover have "jobs_ok sample_db" by (simp add: jobs_ok_def sample_db_def)
  ultimately show ?thesis by (simp add: db_ok_def)
qed

section \<open>Properties\<close>

text \<open>
  Whatever requests its users send, in whatever order, valid or not, the database of the video
  queues stays well-formed: identifiers and labels stay unique, every user keeps exactly one
  default queue and exactly one free default priority, every video belongs to a queue and a
  priority of its own owner, has a valid timing, and has a priority exactly when it is priced.
\<close>

theorem video_requests_keep_db_ok:
  assumes "db_ok db"
  shows "db_ok (foldl (serve_video is_url rurl) db events)"
  using assms by (rule video_server.run_invar) (simp add: list_all_iff)

theorem video_requests_keep_db_ok_witness:
  "db_ok (foldl (serve_video (\<lambda>_. True) (\<lambda>_. None)) sample_db
     [(5, \<lparr>ctx_user_id = Some 1, ctx_is_admin = False\<rparr>, MoveVideo 1 2),
      (6, \<lparr>ctx_user_id = Some 2, ctx_is_admin = False\<rparr>, UpdateQueueCurrency EUR (TextInput ''1.1''))])"
  by (rule video_requests_keep_db_ok [OF sample_db_ok])

text \<open>
  C3: A request never touches the rows of other users: their settings, queues, priorities, videos
  and pending metadata jobs are the same rows in the same order, and an unauthenticated request
  changes nothing at all and is answered with 401.
\<close>

theorem video_requests_isolated:
  assumes "db_ok db"
  shows "(ctx_user_id ctx = Some uid \<longrightarrow>
      others_view uid (snd (handle_video_request is_url rurl now ctx req db)) = others_view uid db) \<and>
    (ctx_user_id ctx = None \<longrightarrow>
      handle_video_request is_url rurl now ctx req db = (Inl (TRPCError UNAUTHORIZED ''UNAUTHORIZED''), db))"
  using video_call_isolated [OF assms]
  by (auto simp: handle_video_request_def call_procedure_def authenticated_def Let_def split: option.splits)

theorem video_requests_isolated_witness:
  "others_view 2 (snd (handle_video_request (\<lambda>_. True) (\<lambda>_. None) 5 \<lparr>ctx_user_id = Some 2, ctx_is_admin = False\<rparr>
     (MoveVideo 1 3) sample_db)) = others_view 2 sample_db"
  using video_requests_isolated [OF sample_db_ok, of "\<lparr>ctx_user_id = Some 2, ctx_is_admin = False\<rparr>" 2] by simp

text \<open>
  Moving a video succeeds exactly when the video and the queue are the user's own, and then it
  changes the queue of that one video and nothing else, its priority, amount and marks included;
  otherwise the answer is "video not found" and nothing changes.
\<close>

theorem move_video_exact:
  assumes "db_ok db" and "in_int8 vid" and "in_int4 qid"
  shows "move_video uid vid qid db =
    (if (\<exists>v \<in> set (videos db). v_id v = vid \<and> owner_of db v = Some uid) \<and>
        (\<exists>q \<in> set (queues db). q_id q = qid \<and> q_user q = uid)
     then (Inr (), db\<lparr>videos := update_where (\<lambda>v. v_id v = vid) (\<lambda>v. v\<lparr>v_queue := qid\<rparr>) (videos db)\<rparr>)
     else (Inl (VideoQueueError Video_not_found), db))"
proof -
  let ?q = "\<exists>q \<in> set (queues db). q_id q = qid \<and> q_user q = uid"
  let ?m = "\<lambda>v. v_id v = vid \<and> owns_video db uid v \<and> ?q"
  have own: "owns_video db uid v \<longleftrightarrow> owner_of db v = Some uid" if "v \<in> set (videos db)" for v
    using stored_owner_iff [OF assms(1) that] .
  have st: "update_videos db False ?m (\<lambda>v. Inr (v\<lparr>v_queue := qid\<rparr>)) =
      Inr (update_where ?m (\<lambda>v. v\<lparr>v_queue := qid\<rparr>) (videos db))"
  proof (rule update_videos_eval)
    fix v assume v: "v \<in> set (videos db)" "?m v"
    have "queue_belongs db (owner_of db v) qid" using v own by (auto simp: queue_belongs_def)
    then have "store_video db False (Some v) (v\<lparr>v_queue := qid\<rparr>) = Inr (v\<lparr>v_queue := qid\<rparr>)"
      using stored_video [OF assms(1) v(1)] by (intro store_video_keeps) simp_all
    then show "bind_result (Inr (v\<lparr>v_queue := qid\<rparr>)) (store_video db False (Some v)) =
        Inr (v\<lparr>v_queue := qid\<rparr>)" by simp
  qed
  show ?thesis
  proof (cases "filter ?m (videos db) = []")
    case True
    then have no: "\<not> ((\<exists>v \<in> set (videos db). v_id v = vid \<and> owner_of db v = Some uid) \<and> ?q)"
      using own by (auto simp: filter_empty_conv)
    have "move_video uid vid qid db = (Inl (VideoQueueError Video_not_found), db)"
      using assms(2,3) True unfolding move_video_def Let_def st by simp
    then show ?thesis unfolding if_not_P [OF no] .
  next
    case False
    then obtain v where v: "v \<in> set (videos db)" "?m v" by (auto simp: filter_empty_conv)
    have yes: "(\<exists>v \<in> set (videos db). v_id v = vid \<and> owner_of db v = Some uid) \<and> ?q"
      using v own by blast
    have "?m w = (v_id w = vid)" if "w \<in> set (videos db)" for w
    proof -
      have "distinct (map v_id (videos db))" using assms(1) by (simp add: db_ok_def videos_ok_def)
      then have "v_id w = vid \<Longrightarrow> w = v" using that v distinct_key_unique by metis
      then show ?thesis using v(2) by blast
    qed
    then have "update_where ?m (\<lambda>v. v\<lparr>v_queue := qid\<rparr>) (videos db) =
        update_where (\<lambda>v. v_id v = vid) (\<lambda>v. v\<lparr>v_queue := qid\<rparr>) (videos db)"
      unfolding update_where_def by (intro map_cong refl) simp
    moreover have "move_video uid vid qid db =
        (Inr (), db\<lparr>videos := update_where ?m (\<lambda>v. v\<lparr>v_queue := qid\<rparr>) (videos db)\<rparr>)"
      using assms(2,3) False unfolding move_video_def Let_def st by simp
    ultimately show ?thesis unfolding if_P [OF yes] by simp
  qed
qed


theorem move_video_exact_witness:
  "move_video 1 2 2 sample_db =
     (Inr (), sample_db\<lparr>videos := [sample_clip 1 None (Some 1) 7000 2,
        (sample_clip 2 (Some 7) None 100 1)\<lparr>v_queue := 2\<rparr>]\<rparr>) \<and>
   move_video 2 2 3 sample_db = (Inl (VideoQueueError Video_not_found), sample_db)"
proof -
  have owner: "owner_of sample_db (sample_clip 2 (Some 7) None 100 1) = Some 1"
    by (simp add: owner_of_def sample_clip_ok donation_owners_def sample_db_def)
  have ids: "in_int8 2" "in_int4 2" "in_int4 3" by (simp_all add: in_int8_def in_int4_def)
  have vs: "videos sample_db = [sample_clip 1 None (Some 1) 7000 2, sample_clip 2 (Some 7) None 100 1]"
    and qs: "map (\<lambda>q. (q_id q, q_user q)) (queues sample_db) = [(1, 1), (2, 1), (3, 2)]"
    by (simp_all add: sample_db_def)
  have q2: "\<exists>q \<in> set (queues sample_db). q_id q = 2 \<and> q_user q = 1" by (simp add: sample_db_def)
  show ?thesis
    using move_video_exact [OF sample_db_ok ids(1,2), of 1] move_video_exact [OF sample_db_ok ids(1,3), of 2]
    unfolding vs by (simp add: sample_clip_ok owner q2 update_where_def)
qed

section \<open>The currency\<close>

definition own_priority_rate :: "int \<Rightarrow> nat \<times> nat \<Rightarrow> priority_row \<Rightarrow> priority_row" where
  "own_priority_rate uid factor p =
     (if p_user p \<noteq> uid then p
      else if p_default p then p\<lparr>p_min := 0\<rparr> else p\<lparr>p_min := max 1 (convert_cents factor (p_min p))\<rparr>)"

definition own_video_rate :: "db \<Rightarrow> int \<Rightarrow> nat \<times> nat \<Rightarrow> video_row \<Rightarrow> video_row" where
  "own_video_rate db uid factor v =
     (if owner_of db v = Some uid then v\<lparr>v_amount := map_option (convert_cents factor) (v_amount v)\<rparr> else v)"

text \<open>
  C22: Changing the currency of a queue at a positive rate succeeds whenever the converted amounts
  fit a money amount, and is one exact rewrite: every threshold and every amount of the user is
  converted and rounded to the cent, thresholds that are not free stay at least one cent, no video
  changes its priority, queue or marks, and the rows of other users are untouched.
\<close>

theorem set_queue_currency_exact:
  assumes ok: "db_ok db" and user: "find_user db uid = Some user" and diff: "u_currency user \<noteq> c"
    and factor: "factor = conversion_factor_for_currency_change (u_currency user) c rate"
    and rate: "0 < cents rate"
    and fits: "\<forall>p \<in> set (priorities db). p_user p = uid \<longrightarrow> convert_cents factor (p_min p) < 10 ^ 20"
      "\<forall>v \<in> set (videos db). owner_of db v = Some uid \<longrightarrow>
         optional_holds (\<lambda>a. convert_cents factor a < 10 ^ 20) (v_amount v)"
  shows "set_queue_currency uid c rate db =
    (Inr c, db\<lparr>priorities := map (own_priority_rate uid factor) (priorities db),
               videos := map (own_video_rate db uid factor) (videos db),
               users := update_where (\<lambda>u. u_id u = uid) (\<lambda>u. u\<lparr>u_currency := c\<rparr>) (users db)\<rparr>)"
proof -
  have den: "snd factor \<noteq> 0"
    using rate by (auto simp: factor conversion_factor_for_currency_change_def Let_def)
  let ?ps = "map (own_priority_rate uid factor) (priorities db)"
  let ?db1 = "db\<lparr>priorities := ?ps\<rparr>"
  have ps: "store_all (convert_priority uid factor) (priorities db) = Inr ?ps"
    using fits(1) den
    by (intro store_all_map) (auto simp: convert_priority_def own_priority_rate_def convert_amount_def in_money_range_def)
  have ok1: "db_ok ?db1" using ok ps by (rule db_ok_converted_priorities)
  let ?p = "\<lambda>v. v_amount v \<noteq> None \<and> owns_video db uid v"
  have own: "owns_video db uid v \<longleftrightarrow> owner_of db v = Some uid" if "v \<in> set (videos db)" for v
    using stored_owner_iff [OF ok that] .
  have vs: "update_videos ?db1 True ?p (convert_video factor) =
      Inr (update_where ?p (own_video_rate db uid factor) (videos ?db1))"
  proof (rule update_videos_eval)
    fix v assume v: "v \<in> set (videos ?db1)" "?p v"
    then have o: "owner_of db v = Some uid" using own by simp
    obtain a where a: "v_amount v = Some a" using v(2) by auto
    let ?w = "v\<lparr>v_amount := Some (convert_cents factor a)\<rparr>"
    have "convert_cents factor a < 10 ^ 20" using fits(2) v(1) o a by (auto simp: optional_holds_def)
    then have cv: "convert_video factor v = Inr ?w"
      using a den by (simp add: convert_video_def convert_amount_def in_money_range_def)
    have sv: "stored_video_ok ?db1 v" using stored_video [OF ok1 v(1)] .
    have "queue_belongs ?db1 (owner_of ?db1 v) (v_queue v)"
      using sv by (rule stored_owner) simp
    then have "store_video ?db1 True (Some v) ?w = Inr ?w"
      using sv a by (intro store_video_keeps) simp_all
    moreover have "own_video_rate db uid factor v = ?w" using o a by (simp add: own_video_rate_def)
    ultimately show "bind_result (convert_video factor v) (store_video ?db1 True (Some v)) =
        Inr (own_video_rate db uid factor v)" using cv by simp
  qed
  have "update_where ?p (own_video_rate db uid factor) (videos ?db1) =
      map (own_video_rate db uid factor) (videos db)"
    using own by (auto simp: update_where_def own_video_rate_def)
  then show ?thesis
    using vs ps user diff
    by (simp add: set_queue_currency_def Let_def flip: factor)
qed


theorem set_queue_currency_exact_witness:
  "set_queue_currency 1 USD ''100.00'' sample_db =
     (Inr USD, sample_db\<lparr>priorities := map (own_priority_rate 1 (100, 10000)) (priorities sample_db),
        videos := map (own_video_rate sample_db 1 (100, 10000)) (videos sample_db),
        users := update_where (\<lambda>u. u_id u = 1) (\<lambda>u. u\<lparr>u_currency := USD\<rparr>) (users sample_db)\<rparr>)"
proof -
  let ?u = "\<lparr>u_id = 1, u_auth_id = ''a1'', u_slug = ''anna'', u_currency = RUB, u_public_enabled = True,
          u_show_amounts = False, u_show_watched = True\<rparr>"
  have user: "find_user sample_db 1 = Some ?u" by (simp add: find_user_def sample_db_def first_row_def)
  have c: "cents ''100.00'' = 10000" by (simp add: cents_def nat_of_dec_def digit_val_def code_def)
  have factor: "(100, 10000) = conversion_factor_for_currency_change (u_currency ?u) USD ''100.00''"
    by (simp add: conversion_factor_for_currency_change_def c rubles_per_unit_def)
  have "u_currency ?u \<noteq> USD" "0 < cents ''100.00''" using c by simp_all
  moreover have "\<forall>p \<in> set (priorities sample_db). p_user p = 1 \<longrightarrow> convert_cents (100, 10000) (p_min p) < 10 ^ 20"
    by (simp add: sample_db_def convert_cents_def round_half_up_def)
  moreover have "\<forall>v \<in> set (videos sample_db). owner_of sample_db v = Some 1 \<longrightarrow>
      optional_holds (\<lambda>a. convert_cents (100, 10000) a < 10 ^ 20) (v_amount v)"
    by (simp add: sample_db_def convert_cents_def round_half_up_def sample_clip_def optional_holds_def)
  ultimately show ?thesis using set_queue_currency_exact [OF sample_db_ok user _ factor] by blast
qed

section \<open>Edited clips\<close>



lemma sample_edit:
  "update_video 1 1 5000 0 (Some 60) sample_db =
     (Inr (), sample_db\<lparr>videos := [sample_clip 1 None (Some 1) 5000 1, sample_clip 2 (Some 7) None 100 1]\<rparr>)"
proof -
  let ?c = "(sample_clip 1 None (Some 1) 5000 2)"
  have edit: "edited_clip 5000 0 (Some 60) (sample_clip 1 None (Some 1) 7000 2) = ?c"
    by (simp add: edited_clip_def sample_clip_def)
  have owner: "owner_of sample_db ?c = Some 1" "unpriced ?c = False"
    by (simp_all add: owner_of_def sample_clip_ok)
  have f: "v_amount ?c = Some 5000" "v_end ?c = Some 60" "v_start ?c = 0" "v_queue ?c = 1" "v_priority ?c = Some 2"
    "v_amount (sample_clip 1 None (Some 1) 7000 2) = Some 7000"
    by (simp_all add: sample_clip_def)
  have pick: "pick_priority sample_db (Some 1) 5000 60 =
      Some \<lparr>p_id = 1, p_user = 1, p_label = ''Free'', p_min = 0, p_default = True\<rparr>"
    by (simp add: pick_priority_def priorities_of_def by_threshold_def affordable_def sample_db_def first_row_def)
  have belongs: "queue_belongs sample_db (Some 1) 1" "priority_belongs sample_db (Some 1) 2"
    by (simp_all add: queue_belongs_def priority_belongs_def sample_db_def)
  have "set_video_priority_id sample_db False (Some (sample_clip 1 None (Some 1) 7000 2)) ?c =
      Inr (?c\<lparr>v_priority := Some 1\<rparr>)"
    by (simp add: set_video_priority_id_def Let_def owner f pick belongs optional_holds_def keeps_assignment_def)
  then have store: "store_video sample_db False (Some (sample_clip 1 None (Some 1) 7000 2)) ?c =
      Inr (sample_clip 1 None (Some 1) 5000 1)"
    by (simp add: store_video_def f) (simp add: sample_clip_def video_check_def video_check1_def)
  have vs: "videos sample_db = [sample_clip 1 None (Some 1) 7000 2, sample_clip 2 (Some 7) None 100 1]"
    by (simp add: sample_db_def)
  have "owns_video sample_db 1 (sample_clip 1 None (Some 1) 7000 2)"
    by (simp add: owns_video_def sample_clip_def)
  then show ?thesis
    by (simp add: update_video_def Let_def update_videos_def vs sample_clip_ok edit store bind_clip_def
        in_int8_def in_int4_def optional_holds_def)
qed


section \<open>The default queue\<close>

text \<open>
  Renaming a queue keeps exactly one default: after a successful update the answered queue has
  the new label, making it the default takes the flag from the queue that had it, and not asking for
  the default never takes it away.
\<close>

theorem update_queue_default:
  assumes "db_ok db" and "update_queue uid qid label is_default db = (Inr item, db')"
  shows "videoQueueId item = qid \<and> Some (queueLabel item) = parse_label label \<and>
    (\<exists>q \<in> set (queues db). q_id q = qid \<and> q_user q = uid \<and> queueIsDefault item = (is_default \<or> q_default q)) \<and>
    map q_id (filter (\<lambda>q. q_user q = uid \<and> q_default q) (queues db')) =
      (if is_default then [qid] else map q_id (filter (\<lambda>q. q_user q = uid \<and> q_default q) (queues db)))"
proof -
  have q: "queues_ok db" using assms(1) by (simp add: db_ok_def)
  let ?c = "changed_queue uid qid label is_default"
  obtain e where e: "e \<in> set (queues db)" "q_user e = uid" "q_id e = qid"
    and db': "db' = db\<lparr>queues := map ?c (queues db)\<rparr>"
    and item: "parse_video_queue (queue_item (?c e)) = Some item"
    using q assms(2) by (rule update_queue_success)
  have unique: "x = e" if "x \<in> set (queues db)" "q_id x = qid" for x
    using q e that distinct_key_unique [of q_id "queues db"] by (auto simp: queues_ok_def)
  have "videoQueueId item = qid" "Some (queueLabel item) = parse_label label"
    "queueIsDefault item = (is_default \<or> q_default e)"
    using item e by (auto simp: parse_video_queue_def queue_item_def changed_queue_def split: if_split_asm)
  moreover have "map q_id (filter (\<lambda>x. q_user x = uid \<and> q_default x) (map ?c (queues db))) =
      (if is_default then [qid] else map q_id (filter (\<lambda>x. q_user x = uid \<and> q_default x) (queues db)))"
  proof (cases is_default)
    case True
    have "filter (\<lambda>x. q_user (?c x) = uid \<and> q_default (?c x)) (queues db) = filter (\<lambda>x. q_id x = q_id e) (queues db)"
    proof (intro filter_cong refl)
      fix x assume "x \<in> set (queues db)"
      then have "q_id x = qid \<Longrightarrow> q_user x = uid" using unique e(2) by blast
      then show "(q_user (?c x) = uid \<and> q_default (?c x)) = (q_id x = q_id e)"
        using True e(3) by (auto simp: changed_queue_def)
    qed
    also have "\<dots> = [e]" using q e(1) by (intro filter_unique_key) (simp add: queues_ok_def)
    finally show ?thesis using True e(3) by (simp add: filter_map comp_def)
  next
    case False
    have "filter (\<lambda>x. q_user (?c x) = uid \<and> q_default (?c x)) (queues db) =
        filter (\<lambda>x. q_user x = uid \<and> q_default x) (queues db)"
      using False by (intro filter_cong refl) (auto simp: changed_queue_def)
    then show ?thesis using False by (simp add: filter_map comp_def)
  qed
  ultimately show ?thesis using e db' by auto
qed

theorem update_queue_default_witness:
  "fst (update_queue 1 2 ''Later'' True sample_db) =
     Inr \<lparr>videoQueueId = 2, queueLabel = ''Later'', queueIsDefault = True\<rparr> \<and>
   map q_id (filter (\<lambda>q. q_user q = 1 \<and> q_default q) (queues (snd (update_queue 1 2 ''Later'' True sample_db)))) = [2]"
proof -
  have l: "label_check ''Later''" using label_ok_check sample_labels by blast
  have p: "parse_label ''Later'' = Some ''Later''" using sample_labels(2) by (simp add: label_ok_def)
  have q2: "z_positive_int 2" by (simp add: z_positive_int_def z_int_def max_safe_integer_def)
  have "\<exists>db'. update_queue 1 2 ''Later'' True sample_db =
      (Inr \<lparr>videoQueueId = 2, queueLabel = ''Later'', queueIsDefault = True\<rparr>, db')"
    by (simp add: update_queue_def Let_def in_int4_def sample_db_def first_row_def parse_row_def
        parse_video_queue_def queue_item_def p q2 clear_default_def update_where_def store_queues_def l)
  then obtain db' where e: "update_queue 1 2 ''Later'' True sample_db =
      (Inr \<lparr>videoQueueId = 2, queueLabel = ''Later'', queueIsDefault = True\<rparr>, db')" ..
  show ?thesis using update_queue_default [OF sample_db_ok e] e by simp
qed

end
