(* ===== verification/SiteProperties.thy ===== *)
theory SiteProperties
  imports Site VideoProperties
begin

text \<open>What the site promises its users: their accounts, their slugs and a well-formed database.\<close>

text \<open>
  C1: Whatever the visitors of the site send, signed in or not, for the first time or not, and
  whatever it asks, the database stays well-formed: identifiers, slugs and labels stay unique, every
  user has exactly one default queue and exactly one free default priority, every video belongs to a
  queue and a priority of its own owner, has a valid timing, and has a priority exactly when it is priced.
\<close>

theorem site_requests_keep_db_ok:
  assumes "db_ok db"
  shows "db_ok (foldl (serve_site admin_emails is_url rurl) db events)"
  using site.run_invar [OF accounts_kept_refl [OF assms]] by (simp add: accounts_kept_def list_all_iff)

theorem site_requests_keep_db_ok_witness:
  "db_ok (foldl (serve_site [] (\<lambda>_. True) (\<lambda>_. None)) sample_db
     [\<lparr>ev_session = Some \<lparr>se_auth_id = ''a3'', se_email = ''Anna@mail'', se_image = None, se_name = ''Anna''\<rparr>,
       ev_uuid = [], ev_retry_uuids = [''5ae11f33''], ev_now = 5, ev_request = UpdateSlugRequest ''boris''\<rparr>,
      \<lparr>ev_session = Some \<lparr>se_auth_id = ''a1'', se_email = ''a@mail'', se_image = None, se_name = ''A''\<rparr>,
       ev_uuid = [], ev_retry_uuids = [], ev_now = 6, ev_request = VideoQueueRequest (MoveVideo 1 2)\<rparr>])"
  by (rule site_requests_keep_db_ok [OF sample_db_ok])



text \<open>
  Changing the slug answers with the new slug exactly when it is well-formed and no other user has
  it, and then it changes the slug of the caller and nothing else; a slug of another user is
  refused with 409, a malformed one with 400, and a refusal changes nothing.
\<close>

theorem slug_change_exact:
  assumes "db_ok db" and "ctx_user_id ctx = Some uid" and "uid \<in> set (user_ids db)"
  shows "handle_update_slug ctx slug db =
    (if \<not> valid_slug slug then (Inl (InvalidInput ''Invalid input''), db)
     else if \<exists>u \<in> set (users db). u_slug u = slug \<and> u_id u \<noteq> uid
     then (Inl (TRPCError CONFLICT ''This slug is already in use.''), db)
     else (Inr slug, db\<lparr>users := map (\<lambda>u. if u_id u = uid then u\<lparr>u_slug := slug\<rparr> else u) (users db)\<rparr>))"
proof -
  have "authenticated ctx = Inr uid"
    using assms by (auto simp: authenticated_def db_ok_def users_ok_def user_ids_def int4_id_def)
  then show ?thesis
    using assms(3) by (auto simp: handle_update_slug_def call_procedure_def parse_slug_def set_slug_def
        update_slug_result_def slug_conflict_def update_where_def)
qed

theorem slug_change_exact_witness:
  "handle_update_slug \<lparr>ctx_user_id = Some 1, ctx_is_admin = False\<rparr> ''boris'' sample_db =
     (Inl (TRPCError CONFLICT ''This slug is already in use.''), sample_db)"
proof -
  have ids: "1 \<in> set (user_ids sample_db)" by (simp add: user_ids_def sample_db_def)
  show ?thesis
    by (subst slug_change_exact [OF sample_db_ok _ ids]) (simp_all add: sample_db_def sample_slugs)
qed

end
