(* ===== verification/VideoErrors.thy ===== *)
theory VideoErrors
  imports VideoProperties
begin

text \<open>
  The errors of the video queue: on a well-formed database, a call that passed its input schema
  fails only with an error the API translates, with an identifier or amount beyond the database's
  range, with an exhausted sequence, or with a division by a rate of zero.  The last is
  reachable, and in the other direction a rate of zero wipes out every amount: the schema refuses
  the text \<open>0.00\<close> but not \<open>00.00\<close>.
\<close>

definition expected_failure :: "video_call \<Rightarrow> failure \<Rightarrow> bool" where
  "expected_failure call f \<longleftrightarrow>
     (case f of
        VideoQueueError _ \<Rightarrow> True
      | DatabaseError e \<Rightarrow>
          e = NumericOutOfRange \<or> e = SequenceLimit \<or>
          (e = DivisionByZero \<and> (\<exists>c rate. call = SetCurrencyCall c rate \<and> cents rate = 0))
      | ZodError \<Rightarrow> False)"

lemma store_all_Inl: "store_all f xs = Inl e \<Longrightarrow> \<exists>x \<in> set xs. f x = Inl e"
  by (induction xs) (auto simp: bind_result_Inl_iff)

lemma parse_row_Inl [simp]: "parse_row parse x = Inl f \<longleftrightarrow> parse x = None \<and> f = ZodError"
  by (auto simp: parse_row_def split: option.splits)

lemma first_row_Nil [simp]: "first_row [] = None"
  by (simp add: first_row_def)

lemma parse_row_Some: "parse x = Some y \<Longrightarrow> parse_row parse x = Inr y"
  by (simp add: parse_row_def)

lemma translate_cases:
  "translate_constraint_violation (ConstraintViolation ''video_check1'') = VideoQueueError Invalid_video_timing"
  "translate_constraint_violation (ConstraintViolation ''video_priority_check'') =
     VideoQueueError Invalid_video_priority_threshold"
  "translate_constraint_violation (ConstraintViolation ''video_priority_user_id_label_key'') =
     VideoQueueError Video_priority_label_taken"
  "translate_constraint_violation (ConstraintViolation ''video_queue_user_id_label_key'') =
     VideoQueueError Video_queue_name_taken"
  "translate_constraint_violation NumericOutOfRange = DatabaseError NumericOutOfRange"
  by (simp_all add: translate_constraint_violation_def violated_constraint_def constraint_error_types_def)

lemma create_queue_failure:
  assumes "db_ok db" and "label_ok label" and "uid \<in> set (user_ids db)"
    and "fst (create_queue uid label db) = Inl f"
  shows "f = VideoQueueError Video_queue_name_taken \<or> f = DatabaseError SequenceLimit"
proof -
  have "label_check label" using assms(2) by (rule label_ok_check)
  moreover have "parse_row parse_video_queue
      (queue_item \<lparr>q_id = next_queue_id db, q_user = uid, q_label = label, q_default = False\<rparr>) =
      Inr (queue_item \<lparr>q_id = next_queue_id db, q_user = uid, q_label = label, q_default = False\<rparr>)"
    if "next_queue_id db \<le> 2147483647"
    using assms(1,2) that
    by (intro parse_row_Some parse_queue_item)
      (auto simp: db_ok_def queues_ok_def z_positive_int_def z_int_def max_safe_integer_def)
  ultimately show ?thesis
    using assms(3,4) by (auto simp: create_queue_def Let_def split: if_split_asm)
qed

lemma distinct_by_count:
  assumes "\<And>u. u \<in> set (map g ys) \<Longrightarrow> length (filter (\<lambda>y. g y = u) ys) \<le> 1"
  shows "distinct (map g ys)"
  using assms
proof (induction ys)
  case (Cons y ys)
  have "g y \<notin> set (map g ys)"
  proof
    assume "g y \<in> set (map g ys)"
    then have "filter (\<lambda>z. g z = g y) ys \<noteq> []" by (auto simp: filter_empty_conv)
    then have "1 \<le> length (filter (\<lambda>z. g z = g y) ys)" by (cases "filter (\<lambda>z. g z = g y) ys") auto
    then show False using Cons.prems [of "g y"] by simp
  qed
  moreover have "distinct (map g ys)"
  proof (rule Cons.IH)
    fix u assume "u \<in> set (map g ys)"
    then show "length (filter (\<lambda>z. g z = u) ys) \<le> 1"
      using Cons.prems [of u] by (auto split: if_splits)
  qed
  ultimately show ?case by simp
qed simp

lemma one_default_distinct:
  assumes "queues_ok db" and "existing \<in> set (queues db)" and "q_user existing = uid" and "q_id existing = qid"
  shows "distinct (map q_user (filter q_default (map (changed_queue uid qid label d) (queues db))))"
proof (rule distinct_by_count)
  let ?qs = "map (changed_queue uid qid label d) (queues db)"
  fix u assume "u \<in> set (map q_user (filter q_default ?qs))"
  then have "u \<in> set (user_ids db)" using assms(1) by (auto simp: queues_ok_def)
  then have "length (filter (\<lambda>q. q_user q = u \<and> q_default q) ?qs) = 1"
    using changed_queue_default_count [OF assms] by blast
  then show "length (filter (\<lambda>q. q_user q = u) (filter q_default ?qs)) \<le> 1"
    by (simp add: conj_commute)
qed

lemma update_queue_failure:
  assumes "db_ok db" and "label_ok label" and "fst (update_queue uid qid label is_default db) = Inl f"
  shows "f = DatabaseError NumericOutOfRange \<or> f = VideoQueueError Video_queue_not_found \<or>
    f = VideoQueueError Video_queue_name_taken"
proof (cases "in_int4 qid \<and> filter (\<lambda>q. q_user q = uid \<and> q_id q = qid) (queues db) \<noteq> []")
  case False
  then show ?thesis using assms(3) by (auto simp: update_queue_def Let_def bind_result_Inl_iff first_row_def)
next
  case True
  let ?mine = "\<lambda>q. q_user q = uid \<and> q_id q = qid"
  have q: "queues_ok db" using assms(1) by (simp add: db_ok_def)
  obtain existing where ex: "first_row (filter ?mine (queues db)) = Some existing"
    using True by (cases "filter ?mine (queues db)") (auto simp: first_row_def)
  have e: "existing \<in> set (queues db)" "q_user existing = uid" "q_id existing = qid"
    using first_row_filterD [OF ex] by simp_all
  have parse: "parse_row parse_video_queue (queue_item existing) = Inr (queue_item existing)"
    using q e(1) by (intro parse_row_Some parse_stored_queue)
  have unique: "x = existing" if "x \<in> set (queues db)" "q_id x = qid" for x
    using q e that distinct_key_unique [of q_id "queues db"] by (auto simp: queues_ok_def)
  have flag: "queueIsDefault (queue_item existing) = q_default existing" by (simp add: queue_item_def)
  let ?cleared = "if is_default then clear_default uid (queues db) else queues db"
  let ?rows = "map (changed_queue uid qid label is_default) (queues db)"
  have upd: "update_where ?mine (\<lambda>q. q\<lparr>q_label := label, q_default := is_default \<or> q_default existing\<rparr>) ?cleared = ?rows"
    using unique by (auto simp: update_where_def clear_default_def changed_queue_def)
  have first: "first_row (filter ?mine ?rows) = Some (changed_queue uid qid label is_default existing)"
    using ex by (simp add: filter_map comp_def first_row_def split: list.splits)
  have "parse_row parse_video_queue (queue_item (changed_queue uid qid label is_default existing)) =
      Inr (queue_item (changed_queue uid qid label is_default existing))"
  proof (intro parse_row_Some parse_queue_item)
    show "label_ok (q_label (changed_queue uid qid label is_default existing))"
      using assms(2) e by (simp add: changed_queue_def)
    have "int4_id (next_queue_id db) (q_id existing)" using q e(1) by (simp add: queues_ok_def)
    then show "z_positive_int (q_id (changed_queue uid qid label is_default existing))"
      by (simp add: int4_id_positive)
  qed
  moreover have "store_queues label ?rows = Inr ?rows \<or>
      store_queues label ?rows = Inl (ConstraintViolation ''video_queue_user_id_label_key'')"
    using one_default_distinct [OF q e] label_ok_check [OF assms(2)] by (simp add: store_queues_def)
  ultimately show ?thesis
    using assms(3) True ex first unfolding update_queue_def Let_def ex
    by (auto simp: bind_result_Inl_iff parse flag upd translate_cases simp del: if_split)
qed


lemma move_video_failure:
  assumes "db_ok db" and "fst (move_video uid vid qid db) = Inl f"
  shows "f = VideoQueueError Video_not_found \<or> f = DatabaseError NumericOutOfRange"
proof (cases "in_int8 vid \<and> in_int4 qid")
  case True
  then have r: "in_int8 vid" "in_int4 qid" by simp_all
  show ?thesis using assms(2) unfolding move_video_exact [OF assms(1) r]
    by (auto split: if_split_asm)
qed (use assms(2) in \<open>auto simp: move_video_def Let_def\<close>)

lemma find_user_known: "uid \<in> set (user_ids db) \<Longrightarrow> find_user db uid \<noteq> None"
  by (auto simp: find_user_def user_ids_def filter_empty_conv)

lemma convert_error:
  "convert_priority uid factor p = Inl e \<Longrightarrow> e = NumericOutOfRange \<or> (e = DivisionByZero \<and> snd factor = 0)"
  "convert_video factor v = Inl e \<Longrightarrow> e = NumericOutOfRange \<or> (e = DivisionByZero \<and> snd factor = 0)"
  by (auto simp: convert_priority_def convert_video_def bind_result_Inl_iff convert_amount_def
      in_money_range_def split: if_split_asm option.split_asm)

lemma factor_zero: "snd (conversion_factor_for_currency_change a b rate) = 0 \<Longrightarrow> cents rate = 0"
  by (auto simp: conversion_factor_for_currency_change_def Let_def split: if_split_asm)

lemma set_queue_currency_failure:
  assumes "db_ok db" and "uid \<in> set (user_ids db)" and "fst (set_queue_currency uid c rate db) = Inl f"
  shows "f = DatabaseError NumericOutOfRange \<or> (f = DatabaseError DivisionByZero \<and> cents rate = 0)"
proof -
  obtain user where user: "find_user db uid = Some user" using find_user_known [OF assms(2)] by blast
  let ?f = "conversion_factor_for_currency_change (u_currency user) c rate"
  let ?p = "\<lambda>v. v_amount v \<noteq> None \<and> owns_video db uid v"
  consider e where "store_all (convert_priority uid ?f) (priorities db) = Inl e" "f = DatabaseError e"
    | ps e where "store_all (convert_priority uid ?f) (priorities db) = Inr ps"
      "update_videos (db\<lparr>priorities := ps\<rparr>) True ?p (convert_video ?f) = Inl e" "f = DatabaseError e"
    using assms(3) user by (auto simp: set_queue_currency_def Let_def bind_result_Inl_iff split: if_split_asm)
  then show ?thesis
  proof cases
    case (1 e)
    then show ?thesis using store_all_Inl [OF 1(1)] convert_error(1) factor_zero by blast
  next
    case (2 ps e)
    let ?db1 = "db\<lparr>priorities := ps\<rparr>"
    have ok1: "db_ok ?db1" using assms(1) 2(1) by (rule db_ok_converted_priorities)
    obtain v where v: "v \<in> set (videos db)" "?p v" "bind_result (convert_video ?f v) (store_video ?db1 True (Some v)) = Inl e"
      using store_all_Inl [OF 2(2)[unfolded update_videos_def]] by (auto split: if_split_asm)
    have "store_video ?db1 True (Some v) w = Inr w" if w: "convert_video ?f v = Inr w" for w
    proof -
      have sv: "stored_video_ok ?db1 v" using ok1 v(1) stored_video [of ?db1] by simp
      have q: "queue_belongs ?db1 (owner_of ?db1 v) (v_queue v)" using sv by (rule stored_owner) simp
      have shape: "w = v\<lparr>v_amount := v_amount w\<rparr>" using w by (rule convert_video_Inr)
      have f: "v_start w = v_start v" "v_end w = v_end v" "v_duration w = v_duration v" "v_donation w = v_donation v"
        "v_user w = v_user v" "v_added_at w = v_added_at v" "v_priority w = v_priority v" "v_queue w = v_queue v"
        by (subst shape, simp)+
      show ?thesis using sv f convert_video_Inr(3) [OF w] q by (intro store_video_keeps) simp_all
    qed
    then have "convert_video ?f v = Inl e" using v(3) by (auto simp: bind_result_Inl_iff)
    then show ?thesis using 2(3) convert_error(2) factor_zero by blast
  qed
qed

lemma add_manual_video_failure:
  assumes "db_ok db" and "call_ok rurl (AddVideoCall url queue_id amount start_s end_s)"
    and "fst (add_manual_video rurl now uid url amount start_s end_s queue_id db) = Inl f"
  shows "f = VideoQueueError Video_queue_not_found \<or> f = DatabaseError NumericOutOfRange"
proof -
  have c: "youtube_video_id rurl url \<noteq> None" "bind_clip amount start_s end_s = Inr ()" "valid_video_timing start_s end_s"
    using assms(2) by (simp_all add: call_ok_def)
  show ?thesis
  proof (cases "manual_target rurl uid url amount start_s end_s queue_id db")
    case (Inl e)
    then have "f = e" using assms(3) by (simp add: add_manual_video_def)
    then show ?thesis using Inl c by (auto simp: manual_target_def bind_result_Inl_iff)
  next
    case (Inr t)
    obtain pv qid where t: "t = (pv, qid)" by (cases t)
    let ?new = "manual_video uid now pv url amount start_s end_s (next_video_id db) qid"
    obtain q where q: "first_row (filter (\<lambda>q. q_user q = uid \<and>
         (case queue_id of None \<Rightarrow> q_default q | Some i \<Rightarrow> q_id q = i)) (queues db)) = Some q" "qid = q_id q"
      using Inr t by (auto simp: manual_target_def bind_result_Inr_iff)
    have "owner_of db ?new = Some uid" "v_queue ?new = qid" by simp (simp add: manual_video_def)
    then have "queue_belongs db (owner_of db ?new) (v_queue ?new)"
      using first_row_filterD [OF q(1)] q(2) by (auto simp: queue_belongs_def)
    moreover have "optional_holds (\<lambda>e. 0 < e \<and> v_start ?new < e) (v_end ?new)"
      using c(2,3) by (auto simp: manual_video_def optional_holds_def valid_video_timing_def bind_clip_def
          bind_result_Inr_iff split: option.splits)
    moreover have "video_check ?new" "v_priority ?new = None" by (simp_all add: video_check_def manual_video_def)
    moreover have "priorities_ok db" "queues_ok db" using assms(1) by (simp_all add: db_ok_def)
    ultimately obtain r where "store_video db False None ?new = Inr r"
      using store_video_total [of db ?new False None] by (auto simp: optional_holds_def)
    moreover have "valid_video_id (next_video_id db)"
      using assms(1) by (simp add: db_ok_def videos_ok_def valid_video_id_def)
    ultimately have "\<exists>x. fst (add_manual_video rurl now uid url amount start_s end_s queue_id db) = Inr x"
      by (simp add: add_manual_video_def Inr t Let_def)
    then show ?thesis using assms(3) by auto
  qed
qed

lemma update_priority_failure:
  assumes "db_ok db" and "label_ok label" and "min_price < 10 ^ 20"
    and "fst (update_priority uid pid label min_price db) = Inl f"
  shows "(\<exists>t. f = VideoQueueError t) \<or> f = DatabaseError NumericOutOfRange"
proof (cases "update_priority uid pid label min_price db")
  case (Pair r db')
  have ok': "db_ok db'" using update_priority_ok [OF assms(1,2), of uid pid min_price] Pair by simp
  let ?mine = "\<lambda>p. p_user p = uid \<and> p_id p = pid"
  let ?upd = "update_where ?mine (\<lambda>p. p\<lparr>p_label := label, p_min := (if p_default p then 0 else min_price)\<rparr>)
    (priorities db)"
  have fail: "(\<exists>t. translate_constraint_violation e = VideoQueueError t)" if "store_priorities ?mine ?upd = Inl e" for e
  proof -
    have "\<forall>p \<in> set ?upd. ?mine p \<longrightarrow> label_check (p_label p)"
    proof (intro ballI impI)
      fix p assume p: "p \<in> set ?upd" "?mine p"
      obtain r where r: "p = (if ?mine r then r\<lparr>p_label := label, p_min := (if p_default r then 0 else min_price)\<rparr> else r)"
        using p(1) unfolding update_where_def set_map by blast
      have "p_label p = label" using p(2) unfolding r by (cases "?mine r") simp_all
      then show "label_check (p_label p)" using label_ok_check [OF assms(2)] by simp
    qed
    then show ?thesis
      using that translate_cases by (auto simp: store_priorities_def split: if_split_asm)
  qed
  have parse: "parse_row parse_video_priority (priority_item p) = Inr (priority_item p)"
    if "store_priorities ?mine ?upd = Inr rows" "first_row (filter ?mine rows) = Some p" "in_int4 pid" for rows p
  proof -
    have "db' = db\<lparr>priorities := rows\<rparr>"
      using Pair that assms(3) by (simp add: update_priority_def Let_def)
    then have "p \<in> set (priorities db')" using first_row_filterD [OF that(2)] by simp
    then have "priority_row_ok (user_ids db') (next_priority_id db') p"
      using ok' by (simp add: db_ok_def priorities_ok_def)
    then show ?thesis by (intro parse_row_Some parse_priority_item)
  qed
  note f = assms(4)[unfolded update_priority_def Let_def]
  show ?thesis
  proof (cases "in_int4 pid")
    case True
    show ?thesis
    proof (cases "store_priorities ?mine ?upd")
      case (Inl e)
      then have "f = translate_constraint_violation e" using f True assms(3) by simp
      then show ?thesis using fail [OF Inl] by simp
    next
      case (Inr rows)
      then show ?thesis using f True assms(3) parse [OF Inr]
        by (cases "first_row (filter ?mine rows)") auto
    qed
  qed (use f in simp)
qed


text \<open>An edit whose timing passed the schema can only meet the end of the video.\<close>

lemma store_edited_failure:
  assumes "db_ok db" and "v \<in> set (videos db)" and "bind_clip amount start_s end_s = Inr ()"
    and "valid_video_timing start_s end_s"
    and "store_video db False (Some v) (edited_clip amount start_s end_s v) = Inl e"
  shows "e = ConstraintViolation ''video_check1''"
proof -
  let ?new = "edited_clip amount start_s end_s v"
  have ok: "stored_video_ok db v" using assms(1,2) by (rule stored_video)
  then obtain u where u: "owner_of db v = Some u" "queue_belongs db (Some u) (v_queue v)"
    "optional_holds (priority_belongs db (Some u)) (v_priority v)" by (rule stored_owner)
  have f: "owner_of db ?new = Some u" "v_queue ?new = v_queue v" "v_priority ?new = v_priority v"
    "v_start ?new = start_s" "video_check ?new = video_check v" "v_duration ?new = v_duration v"
    using u(1) by (simp_all add: edited_clip_def owner_of_def owner_in_def video_check_def cong: option.case_cong)
  have chk: "video_check ?new" using ok f(5) by (simp add: video_row_ok_def)
  have clip: "clip_ok v" using ok by (simp add: video_row_ok_def)
  have s0: "0 \<le> start_s" using assms(3) by (simp add: bind_clip_def bind_result_Inr_iff)
  have pos: "case v_end ?new of None \<Rightarrow> True | Some x \<Rightarrow> 0 < x"
    using clip s0 assms(4) by (auto simp: edited_clip_def clip_ok_def optional_holds_def valid_video_timing_def
        split: option.splits)
  show ?thesis
  proof (cases "video_check1 ?new")
    case True
    then have "optional_holds (\<lambda>x. 0 < x \<and> v_start ?new < x) (v_end ?new)"
      using pos by (simp add: video_check1_def optional_holds_def split: option.splits)
    moreover have "priorities_ok db" "queues_ok db" using assms(1) by (simp_all add: db_ok_def)
    ultimately obtain r where "store_video db False (Some v) ?new = Inr r"
      using store_video_total [of db ?new False "Some v"] chk u f by auto
    then show ?thesis using assms(5) by simp
  next
    case False
    then have "end_s = None" "v_duration v \<noteq> None" "start_s \<ge> the (v_duration v)"
      using assms(4) f(4) by (auto simp: video_check1_def edited_clip_def valid_video_timing_def split: option.splits)
    then have "unpriced ?new" using f by (auto simp: unpriced_def)
    then have "set_video_priority_id db False (Some v) ?new = Inr (?new\<lparr>v_priority := None\<rparr>)"
      using u f by (simp add: set_video_priority_id_def Let_def)
    then show ?thesis using assms(5) pos chk False by (simp add: store_video_def)
  qed
qed

lemma update_video_failure:
  assumes "db_ok db" and "call_ok rurl (UpdateVideoCall vid amount start_s end_s)"
    and "fst (update_video uid vid amount start_s end_s db) = Inl f"
  shows "(\<exists>t. f = VideoQueueError t) \<or> f = DatabaseError NumericOutOfRange"
proof -
  have c: "bind_clip amount start_s end_s = Inr ()" "valid_video_timing start_s end_s"
    using assms(2) by (simp_all add: call_ok_def)
  let ?m = "\<lambda>v. v_id v = vid \<and> owns_video db uid v"
  have e: "e = ConstraintViolation ''video_check1''"
    if fail: "update_videos db False ?m (\<lambda>v. Inr (edited_clip amount start_s end_s v)) = Inl e" for e
  proof -
    obtain v where "v \<in> set (videos db)"
      "store_video db False (Some v) (edited_clip amount start_s end_s v) = Inl e"
      using store_all_Inl [OF fail[unfolded update_videos_def]] by (auto split: if_split_asm)
    then show ?thesis using store_edited_failure [OF assms(1) _ c] by blast
  qed
  show ?thesis
  proof (cases "update_videos db False ?m (\<lambda>v. Inr (edited_clip amount start_s end_s v))")
    case (Inl x)
    then show ?thesis using assms(3) c(1) e [OF Inl] translate_cases
      by (auto simp: update_video_def Let_def bind_result_Inl_iff)
  next
    case (Inr rows)
    then show ?thesis using assms(3) c(1) translate_cases
      by (auto simp: update_video_def Let_def bind_result_Inl_iff)
  qed
qed



text \<open>
  The refinement of the exchange rate does not exclude zero: the rate text \<open>00\<close> parses to
  \<open>00.00\<close>, passes the check against \<open>0.00\<close>, and a change away from the larger currency at that
  rate converts every amount to nothing.
\<close>

theorem zero_rate_accepted:
  "parse_video_request is_url rurl (UpdateQueueCurrency c (TextInput ''00'')) = Some (SetCurrencyCall c ''00.00'') \<and>
   (c < from_c \<longrightarrow>
      convert_cents (conversion_factor_for_currency_change from_c c ''00.00'') amount = 0)"
proof -
  have "parse_money_amount (TextInput ''00'') = Some ''00.00''"
    by (simp add: parse_money_amount_def amount_text_def decimal_parts_def digits_within_def is_digit_def
        code_def pad_end_def numeral_2_eq_2)
  moreover have "cents ''00.00'' = 0" by (simp add: cents_def nat_of_dec_def digit_val_def code_def)
  ultimately show ?thesis
    by (simp add: parse_video_request_def conversion_factor_for_currency_change_def less_queue_currency_def
        convert_cents_def round_half_up_def)
qed

theorem zero_rate_accepted_witness:
  "convert_cents (conversion_factor_for_currency_change EUR USD ''00.00'') 125000 = 0"
  using zero_rate_accepted [of "\<lambda>_. True" "\<lambda>_. None" USD EUR 125000]
  by (simp add: less_queue_currency_def rubles_per_unit_def)

end
