(* ===== verification/Pagination.thy ===== *)
theory Pagination
  imports Prelude
begin

text \<open>
  Pagination of database listings (\<open>apps/web/src/server/pagination.ts\<close>) and the page links
  shown below them (\<open>apps/web/src/components/ui/page-pagination.tsx\<close>), with the contract every
  paged listing of the stores meets.
\<close>

section \<open>The window of a page\<close>

record pagination_window =
  win_offset :: int
  win_page :: int
  win_total_pages :: int

text \<open>\<open>Math.ceil(total / pageSize)\<close> for a positive page per_page.\<close>

definition ceil_div :: "int \<Rightarrow> int \<Rightarrow> int" where
  "ceil_div a b = - ((- a) div b)"

definition get_pagination_window :: "int \<Rightarrow> int \<Rightarrow> int \<Rightarrow> pagination_window" where
  "get_pagination_window row_total requested_page page_size =
     (let total_pages = ceil_div row_total page_size;
          page = min requested_page (max total_pages 1)
      in \<lparr>win_offset = (page - 1) * page_size, win_page = page, win_total_pages = total_pages\<rparr>)"

text \<open>\<open>LIMIT per_page OFFSET offset\<close>.\<close>

definition limit_offset :: "int \<Rightarrow> int \<Rightarrow> 'a list \<Rightarrow> 'a list" where
  "limit_offset per_page offset rows = take (nat per_page) (drop (nat offset) rows)"

lemma ceil_div_bounds:
  assumes "0 < b"
  shows "a \<le> ceil_div a b * b" and "ceil_div a b * b < a + b"
proof -
  have eq: "ceil_div a b * b = a + (- a) mod b"
    unfolding ceil_div_def mult_minus_left using div_mult_mod_eq [of "- a" b] by linarith
  have "0 \<le> (- a) mod b" "(- a) mod b < b" using assms by simp_all
  with eq show "a \<le> ceil_div a b * b" "ceil_div a b * b < a + b" by linarith+
qed

lemma ceil_div_nonneg: "0 < b \<Longrightarrow> 0 \<le> a \<Longrightarrow> 0 \<le> ceil_div a b"
  by (simp add: ceil_div_def div_nonpos_pos_le0)

section \<open>The contract of a paged listing\<close>

text \<open>
  A paged listing selects the rows of a request in a fixed order (\<open>matching\<close>), reports how many
  there are (\<open>counted\<close>) and returns the slice of the window that pagination computes.  Whatever
  meets this contract shows every row on exactly one page.
\<close>

locale paged_listing =
  fixes matching :: "'q \<Rightarrow> 'r list"
    and counted :: "'q \<Rightarrow> int"
    and fetch :: "'q \<Rightarrow> int \<Rightarrow> int \<Rightarrow> 'r list"
  assumes counted_matching: "counted q = int (length (matching q))"
    and fetch_slice: "fetch q page per_page =
      limit_offset per_page (win_offset (get_pagination_window (counted q) page per_page)) (matching q)"
begin

lemma fetch_at_most: "0 \<le> per_page \<Longrightarrow> int (length (fetch q page per_page)) \<le> per_page"
  by (simp add: fetch_slice limit_offset_def)

lemma fetch_subset: "set (fetch q page per_page) \<subseteq> set (matching q)"
  using set_take_subset set_drop_subset by (fastforce simp: fetch_slice limit_offset_def)

lemma take_pages:
  assumes "0 < per_page" and "n \<le> nat (win_total_pages (get_pagination_window (counted q) 1 per_page))"
  shows "concat (map (\<lambda>p. fetch q (int p) per_page) [1..<Suc n]) = take (n * nat per_page) (matching q)"
  using assms(2)
proof (induction n)
  case (Suc n)
  let ?w = "win_total_pages (get_pagination_window (counted q) 1 per_page)"
  have page: "min (int (Suc n)) (max ?w 1) = int (Suc n)"
    using Suc.prems by simp
  have "fetch q (int (Suc n)) per_page = take (nat per_page) (drop (n * nat per_page) (matching q))"
    using page assms(1)
    by (simp add: fetch_slice limit_offset_def get_pagination_window_def Let_def nat_mult_distrib)
  moreover have "take (Suc n * nat per_page) (matching q) =
      take (n * nat per_page) (matching q) @ take (nat per_page) (drop (n * nat per_page) (matching q))"
    by (simp add: take_add [symmetric] add.commute)
  ultimately show ?case using Suc by simp
qed simp

lemma pages_cover:
  assumes "0 < per_page"
  shows "concat (map (\<lambda>p. fetch q (int p) per_page)
      [1..<Suc (nat (win_total_pages (get_pagination_window (counted q) 1 per_page)))]) = matching q"
proof -
  let ?w = "win_total_pages (get_pagination_window (counted q) 1 per_page)"
  have "int (length (matching q)) \<le> ?w * per_page"
    using ceil_div_bounds(1) [OF assms, of "counted q"]
    by (simp add: get_pagination_window_def Let_def counted_matching)
  then have "length (matching q) \<le> nat (?w * per_page)" by linarith
  also have "nat (?w * per_page) = nat ?w * nat per_page"
    using assms by (simp add: nat_mult_distrib mult.commute [of _ per_page])
  finally have "length (matching q) \<le> nat ?w * nat per_page" .
  moreover note take_pages [OF assms order_refl, of q]
  ultimately show ?thesis by (simp only: take_all)
qed

end

section \<open>Page links\<close>

datatype pagination_item = PageLink int | Ellipsis

fun with_ellipses :: "int option \<Rightarrow> int list \<Rightarrow> pagination_item list" where
  "with_ellipses previous [] = []"
| "with_ellipses previous (item # rest) =
     (case previous of
        Some before \<Rightarrow>
          if item - before > 1 then [Ellipsis, PageLink item] else [PageLink item]
      | None \<Rightarrow> [PageLink item]) @ with_ellipses (Some item) rest"

definition get_pagination_items :: "int \<Rightarrow> int \<Rightarrow> pagination_item list" where
  "get_pagination_items page total_pages =
     (if total_pages \<le> 7 then map (\<lambda>index. PageLink (int index + 1)) [0..<nat total_pages]
      else
        let pages = sort (filter (\<lambda>item. 1 \<le> item \<and> item \<le> total_pages)
                      (js_unique [1, page - 1, page, page + 1, total_pages]))
        in with_ellipses None pages)"

text \<open>The range announced by \<open>Showing first-last of total\<close>.\<close>

definition shown_range :: "int \<Rightarrow> int \<Rightarrow> int \<Rightarrow> int \<times> int" where
  "shown_range page per_page row_total = ((page - 1) * per_page + 1, min (page * per_page) row_total)"

text \<open>
  What a reader of the links relies on: links grow, neighbours are consecutive pages, and an
  ellipsis stands exactly where at least one page is left out.
\<close>

fun well_spaced :: "pagination_item list \<Rightarrow> bool" where
  "well_spaced [] = True"
| "well_spaced [PageLink a] = True"
| "well_spaced (PageLink a # PageLink b # rest) = (b = a + 1 \<and> well_spaced (PageLink b # rest))"
| "well_spaced (PageLink a # Ellipsis # PageLink b # rest) =
     (a + 1 < b \<and> well_spaced (PageLink b # rest))"
| "well_spaced _ = False"

definition page_links :: "pagination_item list \<Rightarrow> int set" where
  "page_links items = {p. PageLink p \<in> set items}"

lemma page_links_with_ellipses: "page_links (with_ellipses previous pages) = set pages"
  by (induction pages arbitrary: previous)
    (auto simp: page_links_def split: option.splits)

lemma with_ellipses_cons:
  "well_spaced (PageLink a # with_ellipses (Some a) pages)"
  if "sorted_wrt (<) (a # pages)"
  using that by (induction pages arbitrary: a) auto

lemma with_ellipses_well_spaced:
  "sorted_wrt (<) pages \<Longrightarrow> well_spaced (with_ellipses None pages)"
  using with_ellipses_cons by (cases pages) auto

lemma well_spaced_upto:
  "well_spaced (map (\<lambda>index. PageLink (int index + 1)) [m..<n])"
proof (induction "n - m" arbitrary: m)
  case (Suc k)
  then have "m < n" by simp
  show ?case
  proof (cases "Suc m < n")
    case True
    with Suc.hyps(1) [of "Suc m"] Suc.hyps(2)
    have "well_spaced (map (\<lambda>index. PageLink (int index + 1)) (Suc m # [Suc (Suc m)..<n]))"
      using upt_conv_Cons [OF True] by simp
    with \<open>m < n\<close> True show ?thesis by (simp add: upt_conv_Cons)
  next
    case False
    with \<open>m < n\<close> have "[m..<n] = [m]" by (simp add: upt_conv_Cons)
    then show ?thesis by simp
  qed
qed simp

text \<open>
  For a current page within the listing the page links start at page 1, end at the last page,
  contain the current page, are consecutive numbers, and show an ellipsis exactly where at least
  one page is skipped; no link leads outside the listing.
\<close>

theorem pagination_items_correct:
  assumes "1 \<le> page" and "page \<le> total_pages"
  shows "well_spaced (get_pagination_items page total_pages) \<and>
    {1, page, total_pages} \<subseteq> page_links (get_pagination_items page total_pages) \<and>
    page_links (get_pagination_items page total_pages) \<subseteq> {1..total_pages}"
proof (cases "total_pages \<le> 7")
  case True
  have "p \<in> page_links (get_pagination_items page total_pages) \<longleftrightarrow> 1 \<le> p \<and> p \<le> total_pages" for p
  proof -
    have "(\<exists>i < nat total_pages. p = int i + 1) \<longleftrightarrow> 1 \<le> p \<and> p \<le> total_pages"
      by (auto intro!: exI [of _ "nat (p - 1)"])
    with True show ?thesis by (auto simp: get_pagination_items_def page_links_def)
  qed
  with True assms show ?thesis
    by (auto simp: get_pagination_items_def [of page total_pages] well_spaced_upto)
next
  case False
  let ?pages = "sort (filter (\<lambda>item. 1 \<le> item \<and> item \<le> total_pages)
                      (js_unique [1, page - 1, page, page + 1, total_pages]))"
  have items: "get_pagination_items page total_pages = with_ellipses None ?pages"
    using False by (simp add: get_pagination_items_def Let_def)
  have "sorted_wrt (<) ?pages"
    by (simp only: strict_sorted_iff) simp
  then show ?thesis
    using assms unfolding items by (auto simp: page_links_with_ellipses intro: with_ellipses_well_spaced)
qed

theorem pagination_items_correct_witness:
  "well_spaced (get_pagination_items 5 10) \<and> {1, 5, 10} \<subseteq> page_links (get_pagination_items 5 10) \<and>
   page_links (get_pagination_items 5 10) \<subseteq> {1..10}"
  using pagination_items_correct [of 5 10] by simp

end
