(* ===== verification/VideoQueuePages.thy ===== *)
theory VideoQueuePages
  imports VideoProperties Pagination
begin

text \<open>
  The two listings of the video queue (\<open>listPage\<close> and \<open>listSharedPage\<close> of
  \<open>server/video-queue/postgres.ts\<close>): the owner's page with its counters, and the public page, which
  shows what the owner's settings allow.  The statements of one listing read one database; \<open>is_url\<close>
  is the URL check of the schemas.
\<close>

datatype video_status = All_videos | Notwatched | Watched | Bookmarked

datatype shared_status = Queue_status | Watched_status

datatype priority_filter = Any_priority | Unassigned | Only_priority int

record page_input =
  in_page :: int
  in_page_size :: int
  in_priority :: priority_filter
  in_status :: video_status
  in_video_id :: "int option"
  in_queue_id :: "int option"

section \<open>Rows and their order\<close>

definition has_status :: "video_status \<Rightarrow> video_row \<Rightarrow> bool" where
  "has_status st v \<longleftrightarrow>
     (case st of
        All_videos \<Rightarrow> True
      | Notwatched \<Rightarrow> v_watched_at v = None
      | Watched \<Rightarrow> v_watched_at v \<noteq> None
      | Bookmarked \<Rightarrow> v_bookmarked_at v \<noteq> None)"

definition has_priority :: "priority_filter \<Rightarrow> video_row \<Rightarrow> bool" where
  "has_priority p v \<longleftrightarrow>
     (case p of Any_priority \<Rightarrow> True | Unassigned \<Rightarrow> v_priority v = None
      | Only_priority i \<Rightarrow> v_priority v = Some i)"

text \<open>\<open>coalesce(donation.occurred_at, video.added_at)\<close>\<close>

definition created_at :: "db \<Rightarrow> video_row \<Rightarrow> timestamp option" where
  "created_at db v =
     (case find_donation db v of Some d \<Rightarrow> Some (d_occurred_at d) | None \<Rightarrow> v_added_at v)"

definition page_order :: "db \<Rightarrow> video_status \<Rightarrow> video_row \<Rightarrow> (int \<times> int) \<times> int" where
  "page_order db st v =
     (desc_nulls_first
        (case st of Watched \<Rightarrow> v_watched_at v | Bookmarked \<Rightarrow> v_bookmarked_at v | _ \<Rightarrow> created_at db v),
      - v_id v)"

definition donation_item_of :: "donation_row \<Rightarrow> donation_item" where
  "donation_item_of d =
     \<lparr>donationId = d_id d, donationSource = d_source d, sourceDonationId = d_source_id d,
      donationUserId = d_user d, donationAuthor = d_author d, donationMessage = d_message d,
      donationAmount = d_amount d, donationCurrency = d_currency d,
      sourceCreatedAt = d_source_created_at d, occurredAt = d_occurred_at d\<rparr>"

definition metadata_unavailable :: "db \<Rightarrow> video_row \<Rightarrow> bool" where
  "metadata_unavailable db v \<longleftrightarrow>
     (\<exists>j \<in> set (jobs db). j_video j = v_id v \<and> j_completed_at j \<noteq> None \<and> j_last_error j \<noteq> None)"

definition metadata_retry_at :: "db \<Rightarrow> video_row \<Rightarrow> timestamp option" where
  "metadata_retry_at db v =
     map_option j_available_at
       (first_row (filter (\<lambda>j. j_video j = v_id v \<and> j_completed_at j = None) (jobs db)))"

text \<open>A missing creation time is coerced to the epoch.\<close>

definition video_item_of :: "db \<Rightarrow> queue_currency \<Rightarrow> video_row \<Rightarrow> video_item" where
  "video_item_of db currency v =
     \<lparr>videoTitle = v_title v, durationSeconds = v_duration v,
      metadataUnavailable = metadata_unavailable db v, metadataRetryAt = metadata_retry_at db v,
      videoId = v_id v, itemQueueId = v_queue v, itemPriorityId = v_priority v,
      providerVideoId = v_provider_id v, videoUrl = v_url v, queueAmount = v_amount v,
      queueCurrency = currency, startSeconds = v_start v, endSeconds = v_end v,
      priorityLabel = map_option p_label (find_priority db v), watchedAt = v_watched_at v,
      bookmarkedAt = v_bookmarked_at v, createdAt = (case created_at db v of None \<Rightarrow> 0 | Some t \<Rightarrow> t),
      videoSource = (if find_donation db v = None then Manual_source else Donation_source),
      videoDonation = map_option donation_item_of (find_donation db v)\<rparr>"

definition parse_video :: "(string \<Rightarrow> bool) \<Rightarrow> video_item \<Rightarrow> video_item option" where
  "parse_video is_url v =
     (if valid_video is_url v then Some (v\<lparr>videoTitle := Option.bind (videoTitle v) parse_title\<rparr>) else None)"

section \<open>The owner's page\<close>

text \<open>The queue of the page: the one asked for, that of the video in focus, or the default one.\<close>

definition wanted_queue_id :: "db \<Rightarrow> int \<Rightarrow> page_input \<Rightarrow> int option" where
  "wanted_queue_id db uid inp =
     (case in_queue_id inp of
        Some i \<Rightarrow> Some i
      | None \<Rightarrow>
          (case first_row (filter (\<lambda>v. Some (v_id v) = in_video_id inp) (videos db)) of
             Some v \<Rightarrow> Some (v_queue v)
           | None \<Rightarrow> map_option q_id (first_row (filter (\<lambda>q. q_user q = uid \<and> q_default q) (queues db)))))"

definition page_queue :: "db \<Rightarrow> int \<Rightarrow> page_input \<Rightarrow> queue_row option" where
  "page_queue db uid inp =
     first_row (filter (\<lambda>q. q_user q = uid \<and> Some (q_id q) = wanted_queue_id db uid inp) (queues db))"

definition queue_videos :: "db \<Rightarrow> int \<Rightarrow> int \<Rightarrow> video_row list" where
  "queue_videos db uid qid = filter (\<lambda>v. owner_of db v = Some uid \<and> v_queue v = qid) (videos db)"

definition on_page :: "page_input \<Rightarrow> video_row \<Rightarrow> bool" where
  "on_page inp v \<longleftrightarrow>
     (in_video_id inp = None \<or> in_video_id inp = Some (v_id v)) \<and> has_priority (in_priority inp) v \<and>
     has_status (in_status inp) v"

definition count_videos :: "db \<Rightarrow> int \<Rightarrow> int \<Rightarrow> page_input \<Rightarrow> int" where
  "count_videos db uid qid inp = int (length (filter (on_page inp) (queue_videos db uid qid)))"

definition sorted_videos :: "db \<Rightarrow> int \<Rightarrow> int \<Rightarrow> page_input \<Rightarrow> video_row list" where
  "sorted_videos db uid qid inp =
     sort_key (page_order db (in_status inp)) (filter (on_page inp) (queue_videos db uid qid))"

record status_counts =
  count_all :: int
  count_notwatched :: int
  count_watched :: int
  count_bookmarked :: int

definition count_statuses :: "db \<Rightarrow> int \<Rightarrow> int \<Rightarrow> status_counts" where
  "count_statuses db uid qid =
     (let count = (\<lambda>st. int (length (filter (has_status st) (queue_videos db uid qid))))
      in \<lparr>count_all = count All_videos, count_notwatched = count Notwatched,
          count_watched = count Watched, count_bookmarked = count Bookmarked\<rparr>)"

text \<open>\<open>GROUP BY video_priority_id\<close>: one entry per priority that occurs, 0 for none.\<close>

definition priority_key :: "video_row \<Rightarrow> int" where
  "priority_key v = (case v_priority v of None \<Rightarrow> 0 | Some i \<Rightarrow> i)"

definition count_priorities :: "db \<Rightarrow> int \<Rightarrow> int \<Rightarrow> video_status \<Rightarrow> (int \<times> int) list" where
  "count_priorities db uid qid st =
     (let vs = filter (has_status st) (queue_videos db uid qid)
      in map (\<lambda>k. (k, int (length (filter (\<lambda>v. priority_key v = k) vs)))) (remdups (map priority_key vs)))"

text \<open>The seconds left per priority: the sum over its videos of this queue that are not watched.\<close>

definition unwatched_of :: "db \<Rightarrow> int \<Rightarrow> int \<Rightarrow> video_row list" where
  "unwatched_of db qid pid =
     filter (\<lambda>v. v_priority v = Some pid \<and> v_queue v = qid \<and> v_watched_at v = None) (videos db)"

definition clip_seconds :: "video_row \<Rightarrow> int" where
  "clip_seconds v = (case v_end v of None \<Rightarrow> 0 | Some e \<Rightarrow> e - v_start v)"

definition remaining_seconds :: "db \<Rightarrow> int \<Rightarrow> int \<Rightarrow> int" where
  "remaining_seconds db qid pid = sum_list (map clip_seconds (unwatched_of db qid pid))"

definition remaining_by_priority :: "db \<Rightarrow> int \<Rightarrow> int \<Rightarrow> (int \<times> int) list" where
  "remaining_by_priority db uid qid =
     map (\<lambda>p. (p_id p, remaining_seconds db qid (p_id p)))
       (filter (\<lambda>p. p_user p = uid) (priorities db))"

record video_page =
  page_queue_item :: video_queue
  page_items :: "video_item list"
  page_number :: int
  page_size_of :: int
  page_priority_counts :: "(int \<times> int) list"
  page_remaining :: "(int \<times> int) list"
  page_status_counts :: status_counts
  page_total :: int
  page_total_pages :: int

definition page_rows :: "db \<Rightarrow> int \<Rightarrow> int \<Rightarrow> page_input \<Rightarrow> video_row list" where
  "page_rows db uid qid inp =
     limit_offset (in_page_size inp)
       (win_offset (get_pagination_window (count_videos db uid qid inp) (in_page inp) (in_page_size inp)))
       (sorted_videos db uid qid inp)"

definition list_page :: "(string \<Rightarrow> bool) \<Rightarrow> db \<Rightarrow> int \<Rightarrow> page_input \<Rightarrow> failure + video_page" where
  "list_page is_url db uid inp =
     bind_result (ensure (optional_holds in_int8 (in_video_id inp) \<and> optional_holds in_int4 (in_queue_id inp) \<and>
         (\<forall>i. in_priority inp = Only_priority i \<longrightarrow> in_int4 i)) (DatabaseError NumericOutOfRange)) (\<lambda>_.
     bind_result (expect (page_queue db uid inp) (VideoQueueError Video_queue_not_found)) (\<lambda>row.
     bind_result (parse_row parse_video_queue (queue_item row)) (\<lambda>queue.
     let qid = videoQueueId queue; row_count = count_videos db uid qid inp;
         window = get_pagination_window row_count (in_page inp) (in_page_size inp)
     in bind_result (parse_array (parse_video is_url)
          (case find_user db uid of
             None \<Rightarrow> []
           | Some user \<Rightarrow> map (video_item_of db (u_currency user)) (page_rows db uid qid inp))) (\<lambda>items.
        bind_result (ensure (\<forall>(_, s) \<in> set (remaining_by_priority db uid qid). 0 \<le> s) ZodError) (\<lambda>_.
        Inr \<lparr>page_queue_item = queue, page_items = items, page_number = win_page window,
             page_size_of = in_page_size inp,
             page_priority_counts = count_priorities db uid qid (in_status inp),
             page_remaining = remaining_by_priority db uid qid,
             page_status_counts = count_statuses db uid qid, page_total = row_count,
             page_total_pages = win_total_pages window\<rparr>)))))"

section \<open>The public page\<close>

record shared_input =
  sh_slug :: string
  sh_page :: int
  sh_page_size :: int
  sh_status :: shared_status
  sh_queue_id :: "int option"

definition shared_matches :: "shared_status \<Rightarrow> video_row \<Rightarrow> bool" where
  "shared_matches st v \<longleftrightarrow>
     (case st of Watched_status \<Rightarrow> v_watched_at v \<noteq> None | Queue_status \<Rightarrow> v_watched_at v = None)"

definition effective_status :: "user_row \<Rightarrow> shared_status \<Rightarrow> shared_status" where
  "effective_status u st = (if st = Watched_status \<and> u_show_watched u then Watched_status else Queue_status)"

definition shared_owner :: "db \<Rightarrow> shared_input \<Rightarrow> (user_row \<times> queue_row) option" where
  "shared_owner db inp =
     first_row (concat (map (\<lambda>u. map (\<lambda>q. (u, q)) (filter (\<lambda>q. q_user q = u_id u \<and>
         (case sh_queue_id inp of None \<Rightarrow> q_default q | Some i \<Rightarrow> q_id q = i)) (queues db)))
       (filter (\<lambda>u. u_slug u = sh_slug inp) (users db))))"

definition shared_order :: "db \<Rightarrow> shared_status \<Rightarrow> video_row \<Rightarrow> (int \<times> int) \<times> (int \<times> int) \<times> int" where
  "shared_order db st v =
     (desc_nulls_last (if st = Queue_status then map_option (\<lambda>p. int (p_min p)) (find_priority db v) else None),
      desc_nulls_first (if st = Watched_status then v_watched_at v else created_at db v),
      - v_id v)"

definition display_amount_of :: "db \<Rightarrow> user_row \<Rightarrow> video_row \<Rightarrow> display_amount option" where
  "display_amount_of db u v =
     (if u_show_amounts u
      then Some (case v_amount v of
                   Some a \<Rightarrow> QueueCents a
                 | None \<Rightarrow> (case find_donation db v of Some d \<Rightarrow> DonationUnits (d_amount d)
                            | None \<Rightarrow> QueueCents 0))
      else None)"

definition currency_name :: "queue_currency \<Rightarrow> string" where
  "currency_name c = (case c of RUB \<Rightarrow> ''RUB'' | USD \<Rightarrow> ''USD'' | EUR \<Rightarrow> ''EUR'')"

definition display_currency_of :: "db \<Rightarrow> user_row \<Rightarrow> video_row \<Rightarrow> string option" where
  "display_currency_of db u v =
     (if \<not> u_show_amounts u then None
      else if v_amount v = None \<and> find_donation db v \<noteq> None
      then map_option d_currency (find_donation db v)
      else Some (currency_name (u_currency u)))"

definition shared_video_of :: "db \<Rightarrow> user_row \<Rightarrow> video_row \<Rightarrow> shared_video" where
  "shared_video_of db u v =
     \<lparr>sharedTitle = v_title v, sharedMetadataUnavailable = metadata_unavailable db v,
      sharedVideoId = v_id v, sharedPriorityId = v_priority v, sharedUrl = v_url v,
      sharedStartSeconds = v_start v, sharedEndSeconds = v_end v, sharedDurationSeconds = v_duration v,
      sharedPriorityLabel = map_option p_label (find_priority db v), sharedWatchedAt = v_watched_at v,
      sharedCreatedAt = (case created_at db v of None \<Rightarrow> 0 | Some t \<Rightarrow> t),
      displayAmount = display_amount_of db u v, displayCurrency = display_currency_of db u v\<rparr>"

definition parse_shared_video :: "(string \<Rightarrow> bool) \<Rightarrow> shared_video \<Rightarrow> shared_video option" where
  "parse_shared_video is_url v =
     (if valid_shared_video is_url v
      then Some (v\<lparr>sharedTitle := Option.bind (sharedTitle v) parse_title\<rparr>) else None)"

record shared_priority =
  sp_id :: int
  sp_label :: string
  sp_video_count :: int
  sp_remaining :: int

definition shared_priorities :: "db \<Rightarrow> int \<Rightarrow> int \<Rightarrow> shared_priority list" where
  "shared_priorities db uid qid =
     map (\<lambda>p. \<lparr>sp_id = p_id p, sp_label = p_label p,
               sp_video_count = int (length (unwatched_of db qid (p_id p))),
               sp_remaining = remaining_seconds db qid (p_id p)\<rparr>)
       (by_threshold (filter (\<lambda>p. p_user p = uid) (priorities db)))"

definition parse_shared_priority :: "shared_priority \<Rightarrow> shared_priority option" where
  "parse_shared_priority p =
     (if z_positive_int (sp_id p) \<and> 0 \<le> sp_remaining p
      then map_option (\<lambda>l. p\<lparr>sp_label := l\<rparr>) (parse_label (sp_label p)) else None)"

definition shared_videos :: "db \<Rightarrow> user_row \<Rightarrow> int \<Rightarrow> shared_status \<Rightarrow> video_row list" where
  "shared_videos db u qid st =
     sort_key (shared_order db st) (filter (shared_matches st) (queue_videos db (u_id u) qid))"

record shared_page =
  shp_items :: "shared_video list"
  shp_queue_id :: int
  shp_queues :: "video_queue list"
  shp_page :: int
  shp_page_size :: int
  shp_priorities :: "shared_priority list"
  shp_show_watched :: bool
  shp_status :: shared_status
  shp_total :: int
  shp_total_pages :: int

definition shared_total :: "db \<Rightarrow> user_row \<Rightarrow> int \<Rightarrow> shared_status \<Rightarrow> int" where
  "shared_total db u qid st =
     int (length (filter (shared_matches (effective_status u st)) (queue_videos db (u_id u) qid)))"

definition shared_rows :: "db \<Rightarrow> user_row \<Rightarrow> int \<Rightarrow> shared_input \<Rightarrow> video_row list" where
  "shared_rows db u qid inp =
     limit_offset (sh_page_size inp)
       (win_offset (get_pagination_window (shared_total db u qid (sh_status inp)) (sh_page inp) (sh_page_size inp)))
       (shared_videos db u qid (effective_status u (sh_status inp)))"

definition list_shared_page ::
  "(string \<Rightarrow> bool) \<Rightarrow> db \<Rightarrow> shared_input \<Rightarrow> failure + shared_page option" where
  "list_shared_page is_url db inp =
     bind_result (ensure (optional_holds in_int4 (sh_queue_id inp)) (DatabaseError NumericOutOfRange)) (\<lambda>_.
     case shared_owner db inp of
       None \<Rightarrow> Inr None
     | Some (u, q) \<Rightarrow>
         bind_result (ensure (valid_user_id (u_id u) \<and> z_positive_int (q_id q)) ZodError) (\<lambda>_.
         if \<not> u_public_enabled u then Inr None
         else (let status = effective_status u (sh_status inp);
                   row_count = shared_total db u (q_id q) (sh_status inp);
                   window = get_pagination_window row_count (sh_page inp) (sh_page_size inp)
               in bind_result (parse_array (parse_shared_video is_url)
                    (map (shared_video_of db u) (shared_rows db u (q_id q) inp))) (\<lambda>items.
                  bind_result (list_queues db (u_id u)) (\<lambda>all_queues.
                  bind_result (parse_array parse_shared_priority
                    (if status = Queue_status then shared_priorities db (u_id u) (q_id q) else [])) (\<lambda>ps.
                  Inr (Some \<lparr>shp_items = items, shp_queue_id = q_id q, shp_queues = all_queues,
                         shp_page = win_page window, shp_page_size = sh_page_size inp,
                         shp_priorities = ps, shp_show_watched = u_show_watched u, shp_status = status,
                         shp_total = row_count, shp_total_pages = win_total_pages window\<rparr>)))))))"

section \<open>The contract of the listings\<close>

interpretation video_pages: paged_listing
  "\<lambda>(uid, qid, inp). sorted_videos db uid qid inp"
  "\<lambda>(uid, qid, inp). count_videos db uid qid inp"
  "\<lambda>(uid, qid, inp) page per_page. page_rows db uid qid (inp\<lparr>in_page := page, in_page_size := per_page\<rparr>)"
  for db
  by unfold_locales
    (auto simp: count_videos_def sorted_videos_def page_rows_def on_page_def cong: filter_cong)

interpretation shared_pages: paged_listing
  "\<lambda>(u, qid, inp). shared_videos db u qid (effective_status u (sh_status inp))"
  "\<lambda>(u, qid, inp). shared_total db u qid (sh_status inp)"
  "\<lambda>(u, qid, inp) page per_page. shared_rows db u qid (inp\<lparr>sh_page := page, sh_page_size := per_page\<rparr>)"
  for db
  by unfold_locales (auto simp: shared_total_def shared_videos_def shared_rows_def)


section \<open>The rows fit the schemas\<close>

definition urls_ok :: "(string \<Rightarrow> bool) \<Rightarrow> db \<Rightarrow> bool" where
  "urls_ok is_url db \<longleftrightarrow> (\<forall>v \<in> set (videos db). is_url (v_url v) \<and> v_provider_id v \<noteq> [])"

lemma in_int4_z_int: "in_int4 x \<Longrightarrow> z_int x"
  by (simp add: in_int4_def z_int_def max_safe_integer_def)

lemma find_donation_ok:
  assumes "donations_ok db" and "users_ok db" and "find_donation db v = Some d"
  shows "valid_donation (donation_item_of d)"
proof -
  have d: "d \<in> set (donations db)" using assms(3) unfolding find_donation_def by (blast dest: first_row_filterD)
  then have ok: "donation_row_ok (user_ids db) d" using assms(1) by (simp add: donations_ok_def)
  then have "d_user d \<in> set (user_ids db)" by (simp add: donation_row_ok_def)
  then obtain u where "u \<in> set (users db)" "u_id u = d_user d" by (auto simp: user_ids_def)
  then have "int4_id (next_user_id db) (d_user d)" using assms(2) by (auto simp: users_ok_def)
  then have "valid_user_id (d_user d)" unfolding valid_user_id_def by (rule int4_id_positive)
  then show ?thesis using ok
    by (simp add: valid_donation_def donation_item_of_def donation_row_ok_def valid_donation_id_def)
qed

lemma stored_ids:
  assumes "db_ok db" and "stored_video_ok db v"
  shows "z_positive_int (v_queue v)" and "optional_holds z_positive_int (v_priority v)"
proof -
  obtain u where "queue_belongs db (Some u) (v_queue v)" "optional_holds (priority_belongs db (Some u)) (v_priority v)"
    using assms(2) by (rule stored_owner)
  moreover have "z_positive_int (q_id q)" if "q \<in> set (queues db)" for q
  proof -
    have "int4_id (next_queue_id db) (q_id q)" using assms(1) that by (simp add: db_ok_def queues_ok_def)
    then show ?thesis by (rule int4_id_positive)
  qed
  moreover have "z_positive_int (p_id p)" if "p \<in> set (priorities db)" for p
  proof -
    have "int4_id (next_priority_id db) (p_id p)"
      using assms(1) that by (simp add: db_ok_def priorities_ok_def priority_row_ok_def)
    then show ?thesis by (rule int4_id_positive)
  qed
  ultimately show "z_positive_int (v_queue v)" "optional_holds z_positive_int (v_priority v)"
    by (unfold queue_belongs_def, metis) (auto simp: priority_belongs_def optional_holds_def split: option.splits)
qed

lemma stored_timing:
  assumes "clip_ok v"
  shows "z_nonnegative_int (v_start v)" and "optional_holds z_positive_int (v_end v)"
    and "optional_holds (\<lambda>e. e > v_start v) (v_end v)" and "optional_holds z_positive_int (v_duration v)"
    and "optional_holds (\<lambda>t. parse_title t \<noteq> None) (v_title v)"
    and "optional_holds (\<lambda>a. a < 10 ^ 20) (v_amount v)"
  using assms in_int4_z_int
  by (auto simp: clip_ok_def z_nonnegative_int_def z_positive_int_def optional_holds_def split: option.splits)

lemma video_item_valid:
  assumes "db_ok db" and "v \<in> set (videos db)" and "is_url (v_url v)" and "v_provider_id v \<noteq> []"
  shows "valid_video is_url (video_item_of db c v)"
proof -
  have st: "stored_video_ok db v" and pos: "0 < v_id v"
    using assms(1,2) by (simp_all add: db_ok_def videos_ok_def)
  have t: "clip_ok v" using st by (simp add: video_row_ok_def)
  have don: "case find_donation db v of None \<Rightarrow> True | Some d \<Rightarrow> valid_donation (donation_item_of d)"
    using find_donation_ok [of db v] assms(1) by (auto simp: db_ok_def split: option.splits)
  have "valid_video_base is_url (video_item_of db c v)"
    using stored_timing [OF t] stored_ids [OF assms(1) st] pos assms(3,4)
    by (simp add: valid_video_base_def video_item_of_def valid_video_id_def valid_video_priority_id_def
        Suc_le_eq optional_holds_def split: option.splits)
  then show ?thesis
    using don stored_timing(3) [OF t]
    by (auto simp: valid_video_def video_item_of_def split: option.splits)
qed

lemma parse_array_map:
  assumes "\<And>x. x \<in> set xs \<Longrightarrow> parse (f x) = Some (g x)"
  shows "parse_array parse (map f xs) = Inr (map g xs)"
  using assms unfolding parse_array_def by (induction xs) (auto simp: parse_row_def)

definition shown_item :: "db \<Rightarrow> queue_currency \<Rightarrow> video_row \<Rightarrow> video_item" where
  "shown_item db c v = (video_item_of db c v)\<lparr>videoTitle := Option.bind (v_title v) parse_title\<rparr>"

lemma remaining_nonneg:
  assumes "db_ok db" shows "0 \<le> remaining_seconds db qid pid"
proof -
  have "0 \<le> clip_seconds v" if "v \<in> set (videos db)" for v
    using stored_timing(3) [of v] stored_clip [OF _ that] assms
    by (auto simp: clip_seconds_def optional_holds_def db_ok_def split: option.splits)
  then show ?thesis
    unfolding remaining_seconds_def unwatched_of_def by (intro sum_list_nonneg) auto
qed

lemma page_rows_set: "set (page_rows db uid qid inp) \<subseteq> set (filter (on_page inp) (queue_videos db uid qid))"
  using set_take_subset set_drop_subset
  by (fastforce simp: page_rows_def limit_offset_def sorted_videos_def)

lemma list_page_success:
  assumes "db_ok db" and "urls_ok is_url db" and "find_user db uid = Some u" and "page_queue db uid inp = Some q"
    and "optional_holds in_int8 (in_video_id inp)" and "optional_holds in_int4 (in_queue_id inp)"
    and "\<And>i. in_priority inp = Only_priority i \<Longrightarrow> in_int4 i"
  shows "list_page is_url db uid inp = Inr
    \<lparr>page_queue_item = queue_item q,
     page_items = map (shown_item db (u_currency u)) (page_rows db uid (q_id q) inp),
     page_number = win_page (get_pagination_window (count_videos db uid (q_id q) inp) (in_page inp) (in_page_size inp)),
     page_size_of = in_page_size inp, page_priority_counts = count_priorities db uid (q_id q) (in_status inp),
     page_remaining = remaining_by_priority db uid (q_id q), page_status_counts = count_statuses db uid (q_id q),
     page_total = count_videos db uid (q_id q) inp,
     page_total_pages = win_total_pages (get_pagination_window (count_videos db uid (q_id q) inp) (in_page inp) (in_page_size inp))\<rparr>"
proof -
  have q: "q \<in> set (queues db)" using assms(4) unfolding page_queue_def by (blast dest: first_row_filterD)
  have pq: "parse_video_queue (queue_item q) = Some (queue_item q)"
    using assms(1) q by (intro parse_stored_queue) (simp_all add: db_ok_def)
  have id: "videoQueueId (queue_item q) = q_id q" by (simp add: queue_item_def)
  have items: "parse_array (parse_video is_url) (map (video_item_of db (u_currency u)) (page_rows db uid (q_id q) inp)) =
      Inr (map (shown_item db (u_currency u)) (page_rows db uid (q_id q) inp))"
  proof (rule parse_array_map)
    fix v assume "v \<in> set (page_rows db uid (q_id q) inp)"
    then have v: "v \<in> set (videos db)" using page_rows_set by (fastforce simp: queue_videos_def)
    then show "parse_video is_url (video_item_of db (u_currency u) v) = Some (shown_item db (u_currency u) v)"
      using video_item_valid [OF assms(1) v] assms(2)
      by (simp add: parse_video_def shown_item_def urls_ok_def video_item_of_def)
  qed
  have "\<forall>(_, s) \<in> set (remaining_by_priority db uid (q_id q)). 0 \<le> s"
    using remaining_nonneg [OF assms(1)] by (auto simp: remaining_by_priority_def)
  then show ?thesis
    using assms(3-7) pq items
    by (simp add: list_page_def id parse_row_def Let_def)
qed

end
