(* ===== verification/Services.thy ===== *)
theory Services
  imports Trpc
begin

text \<open>
  Calls of the Go services over HTTP: \<open>packages/src/http.ts\<close> and what the three clients of
  \<open>apps/web/src/server\<close> (chat, donation alerts, donation integration) share: the request with its
  secret, the typed error of a failed call, and the translation of that error by the API.

  A call sends one request and receives one reply: the network is a function from the request to
  the reply, and the requests sent are kept in an outbox in the order they were sent.  \<open>JSON.parse\<close>
  and the resolution of URLs are library code and stay arguments.
\<close>

datatype json =
    J_null
  | J_bool bool
  | J_int int
  | J_str string
  | J_arr "json list"
  | J_obj "(string \<times> json) list"

text \<open>\<open>JSON.stringify\<close> drops the fields that are \<open>undefined\<close>.\<close>

definition js_fields :: "(string \<times> json option) list \<Rightarrow> (string \<times> json) list" where
  "js_fields fs = concat (map (\<lambda>(k, v). case v of None \<Rightarrow> [] | Some x \<Rightarrow> [(k, x)]) fs)"

definition js_object :: "(string \<times> json option) list \<Rightarrow> json" where
  "js_object fs = J_obj (js_fields fs)"

definition field :: "json \<Rightarrow> string \<Rightarrow> json option" where
  "field j k = (case j of J_obj fs \<Rightarrow> map_of fs k | _ \<Rightarrow> None)"

text \<open>\<open>z.null()\<close> and \<open>z.object({status: z.literal("ok")})\<close>.\<close>

definition read_null :: "json \<Rightarrow> unit option" where
  "read_null j = (case j of J_null \<Rightarrow> Some () | _ \<Rightarrow> None)"

definition read_health :: "json \<Rightarrow> unit option" where
  "read_health j = (if field j ''status'' = Some (J_str ''ok'') then Some () else None)"

definition read_text :: "string \<Rightarrow> (string \<Rightarrow> bool) \<Rightarrow> json \<Rightarrow> string option" where
  "read_text k ok j = (case field j k of Some (J_str s) \<Rightarrow> if ok s then Some s else None | _ \<Rightarrow> None)"

text \<open>A structural reader of an object followed by the checks of its fields.\<close>

definition read_valid :: "(json \<Rightarrow> 'a option) \<Rightarrow> ('a \<Rightarrow> bool) \<Rightarrow> json \<Rightarrow> 'a option" where
  "read_valid read ok j = Option.bind (read j) (\<lambda>x. if ok x then Some x else None)"

text \<open>The same for a schema that transforms.\<close>

definition read_parsed :: "(json \<Rightarrow> 'a option) \<Rightarrow> ('a \<Rightarrow> 'b option) \<Rightarrow> json \<Rightarrow> 'b option" where
  "read_parsed read parse j = Option.bind (read j) parse"

section \<open>Requests and replies\<close>

datatype http_method = GET | POST

record service_url =
  url_base :: string
  url_path :: string
  url_query :: "(string \<times> string) list"

record service_request =
  sr_method :: http_method
  sr_url :: service_url
  sr_headers :: "(string \<times> string) list"
  sr_body :: "json option"

text \<open>\<open>fetch\<close> fails, the body of the response cannot be read, or both are there.\<close>

datatype service_reply = Fetch_failed | Body_failed nat | Reply nat string

datatype request_error_type = Fetch_error | Http_error | Invalid_json | Validation_error

record request_failure =
  re_type :: request_error_type
  re_message :: string
  re_status :: "nat option"
  re_body :: "string option"

definition response_ok :: "nat \<Rightarrow> bool" where
  "response_ok status \<longleftrightarrow> 200 \<le> status \<and> status < 300"

definition request_text :: "service_reply \<Rightarrow> request_failure + string" where
  "request_text reply =
     (case reply of
        Fetch_failed \<Rightarrow>
          Inl \<lparr>re_type = Fetch_error, re_message = ''Request failed before receiving a response.'',
               re_status = None, re_body = None\<rparr>
      | Body_failed status \<Rightarrow>
          Inl \<lparr>re_type = Fetch_error, re_message = ''Could not read the response body.'',
               re_status = Some status, re_body = None\<rparr>
      | Reply status body \<Rightarrow>
          if \<not> response_ok status
          then Inl \<lparr>re_type = Http_error, re_message = ''Request returned HTTP '' @ dec_nat status @ ''.'',
                    re_status = Some status, re_body = Some body\<rparr>
          else Inr body)"

definition parse_json :: "(string \<Rightarrow> json option) \<Rightarrow> string \<Rightarrow> (json \<Rightarrow> 'a option) \<Rightarrow> request_failure + 'a" where
  "parse_json json_of body schema =
     (case json_of body of
        None \<Rightarrow> Inl \<lparr>re_type = Invalid_json, re_message = ''Response body is not valid JSON.'',
                     re_status = None, re_body = Some body\<rparr>
      | Some j \<Rightarrow>
          (case schema j of
             None \<Rightarrow> Inl \<lparr>re_type = Validation_error, re_message = ''Response body does not match its schema.'',
                          re_status = None, re_body = Some body\<rparr>
           | Some x \<Rightarrow> Inr x))"

definition request_json :: "(string \<Rightarrow> json option) \<Rightarrow> (json \<Rightarrow> 'a option) \<Rightarrow> service_reply \<Rightarrow> request_failure + 'a" where
  "request_json json_of schema reply = bind_result (request_text reply) (\<lambda>body. parse_json json_of body schema)"

section \<open>A client\<close>

record service_error =
  se_detail :: string
  se_status :: "nat option"

definition request_error_detail :: "request_error_type \<Rightarrow> string" where
  "request_error_detail t =
     (case t of Fetch_error \<Rightarrow> ''fetch error'' | Http_error \<Rightarrow> ''http error''
      | Invalid_json \<Rightarrow> ''invalid json'' | Validation_error \<Rightarrow> ''validation error'')"

definition to_service_error :: "request_failure \<Rightarrow> service_error" where
  "to_service_error e = \<lparr>se_detail = request_error_detail (re_type e), se_status = re_status e\<rparr>"

definition service_headers :: "string \<Rightarrow> (string \<times> string) list" where
  "service_headers secret = [(''Authorization'', ''Bearer '' @ secret), (''Content-Type'', ''application/json'')]"

definition service_url_of :: "string \<Rightarrow> string \<Rightarrow> service_url" where
  "service_url_of base path = \<lparr>url_base = base, url_path = path, url_query = []\<rparr>"

definition with_search_param :: "string \<Rightarrow> string \<Rightarrow> service_url \<Rightarrow> service_url" where
  "with_search_param k v u = u\<lparr>url_query := url_query u @ [(k, v)]\<rparr>"

text \<open>A request without a body is a \<open>GET\<close>, one with a body a \<open>POST\<close>.\<close>

definition service_call :: "string \<Rightarrow> service_url \<Rightarrow> json option \<Rightarrow> service_request" where
  "service_call secret url body =
     \<lparr>sr_method = (if body = None then GET else POST), sr_url = url,
      sr_headers = service_headers secret, sr_body = body\<rparr>"

definition service_answer ::
  "(string \<Rightarrow> json option) \<Rightarrow> (json \<Rightarrow> 'a option) \<Rightarrow> service_reply \<Rightarrow> service_error + 'a" where
  "service_answer json_of schema reply = map_error to_service_error (request_json json_of schema reply)"

text \<open>
  The whole call of a procedure: the request is sent, its reply read, the service's error translated
  for the browser, and the value checked against the procedure's output schema.
\<close>

definition call_remote ::
  "(service_error \<Rightarrow> api_error) \<Rightarrow> (service_request \<Rightarrow> service_reply) \<Rightarrow> (service_reply \<Rightarrow> service_error + 'a) \<Rightarrow>
    service_request \<Rightarrow> service_request list \<Rightarrow> (api_error + 'a) \<times> service_request list" where
  "call_remote translate net read rq outbox = (map_error translate (read (net rq)), outbox @ [rq])"

definition checked_output :: "('a \<Rightarrow> bool) \<Rightarrow> (api_error + 'a) \<Rightarrow> api_error + 'a" where
  "checked_output ok r =
     bind_result r (\<lambda>x. if ok x then Inr x else Inl (TRPCError INTERNAL_SERVER_ERROR ''Output validation failed''))"

section \<open>Facts\<close>

lemma js_fields_simps [simp]:
  "js_fields [] = []" "js_fields ((k, None) # fs) = js_fields fs"
  "js_fields ((k, Some v) # fs) = (k, v) # js_fields fs"
  by (simp_all add: js_fields_def)

lemma field_obj [simp]: "field (J_obj fs) k = map_of fs k"
  by (simp add: field_def)

lemma request_json_Inr_iff:
  "request_json json_of schema reply = Inr x \<longleftrightarrow>
     (\<exists>status body j. reply = Reply status body \<and> response_ok status \<and> json_of body = Some j \<and> schema j = Some x)"
  by (cases reply) (auto simp: request_json_def request_text_def parse_json_def split: option.splits)

lemma service_answer_Inr_iff:
  "service_answer json_of schema reply = Inr x \<longleftrightarrow>
     (\<exists>status body j. reply = Reply status body \<and> response_ok status \<and> json_of body = Some j \<and> schema j = Some x)"
  by (simp add: service_answer_def request_json_Inr_iff)

text \<open>The status a failed call carries: the reply's, if its body was not what failed to parse.\<close>

lemma service_answer_status:
  "service_answer json_of schema reply = Inl e \<Longrightarrow>
     se_status e = (case reply of Fetch_failed \<Rightarrow> None | Body_failed s \<Rightarrow> Some s
                    | Reply s _ \<Rightarrow> if response_ok s then None else Some s)"
  by (cases reply) (auto simp: service_answer_def request_json_def request_text_def parse_json_def
      to_service_error_def split: option.splits if_split_asm)

lemma read_valid_Some [simp]: "read_valid read ok j = Some x \<longleftrightarrow> read j = Some x \<and> ok x"
  by (auto simp: read_valid_def bind_eq_Some_conv)

lemma read_text_Some: "read_text k ok j = Some s \<Longrightarrow> ok s"
  by (auto simp: read_text_def split: option.split_asm json.split_asm if_split_asm)

lemma snd_call_remote [simp]: "snd (call_remote translate net read rq outbox) = outbox @ [rq]"
  and fst_call_remote [simp]: "fst (call_remote translate net read rq outbox) = map_error translate (read (net rq))"
  by (simp_all add: call_remote_def)

lemma checked_output_Inr_iff [simp]: "checked_output ok r = Inr x \<longleftrightarrow> r = Inr x \<and> ok x"
  by (cases r) (auto simp: checked_output_def)

lemma checked_output_id: "(\<And>x. r = Inr x \<Longrightarrow> ok x) \<Longrightarrow> checked_output ok r = r"
  by (cases r) (auto simp: checked_output_def)

section \<open>The contract of a translated service\<close>

text \<open>
  The chat and the alert router translate their service's errors alike: 400, 404 and 409 have a
  message of their own, any other failure is an internal error.
\<close>

locale translated_service =
  fixes translate :: "service_error \<Rightarrow> api_error"
    and invalid missing changed unavailable :: string
  assumes translate_status: "translate e =
    (if se_status e = Some 400 then TRPCError BAD_REQUEST invalid
     else if se_status e = Some 404 then TRPCError NOT_FOUND missing
     else if se_status e = Some 409 then TRPCError CONFLICT changed
     else TRPCError INTERNAL_SERVER_ERROR unavailable)"
begin

text \<open>What the browser is told of each reply that is a failure: never the service's own words.\<close>

lemma failure_shown:
  assumes "service_answer json_of schema reply = Inl e"
  shows "error_formatter (translate e) =
    (case reply of
       Reply s _ \<Rightarrow> (if s = 400 then (400, invalid) else if s = 404 then (404, missing)
                     else if s = 409 then (409, changed) else (500, ''Internal server error.''))
     | Body_failed s \<Rightarrow> (if s = 400 then (400, invalid) else if s = 404 then (404, missing)
                         else if s = 409 then (409, changed) else (500, ''Internal server error.''))
     | Fetch_failed \<Rightarrow> (500, ''Internal server error.''))"
  using service_answer_status [OF assms]
  by (cases reply) (auto simp: translate_status error_formatter_def error_code_def error_message_def
      http_status_def response_ok_def Let_def split: if_split_asm)

text \<open>A procedure over the service sends nothing unless its guard and its input are accepted.\<close>

lemma guarded_call:
  assumes "call_procedure guard input (\<lambda>u i. call_remote translate net (read u i) (rq u i)) outbox = (r, outbox')"
  shows "(\<exists>e. guard = Inl e \<and> r = Inl e \<and> outbox' = outbox) \<or>
    (\<exists>u. guard = Inr u \<and> input = None \<and> r = Inl (InvalidInput ''Invalid input'') \<and> outbox' = outbox) \<or>
    (\<exists>u i. guard = Inr u \<and> input = Some i \<and> outbox' = outbox @ [rq u i] \<and>
      r = map_error translate (read u i (net (rq u i))))"
  using assms by (auto simp: call_procedure_def call_remote_def split: sum.split_asm option.split_asm)

end

end
