(* ===== verification/AlertSchemas.thy ===== *)
theory AlertSchemas
  imports RestreamSchemas
begin

text \<open>
  The data of donation alerts (\<open>packages/src/alerts.ts\<close>): assets, settings, playbacks, players,
  diagnostics, the dashboard and the events an overlay receives.
\<close>

definition valid_asset_id :: "string \<Rightarrow> bool" where "valid_asset_id s \<longleftrightarrow> valid_uuid s"

datatype asset_kind = Image_asset | Sound_asset | Tts_asset

record alert_asset =
  aa_id :: string
  aa_kind :: asset_kind
  aa_content_type :: string
  aa_size_bytes :: int
  aa_duration_ms :: "int option"
  aa_created_at :: timestamp

definition valid_alert_asset :: "alert_asset \<Rightarrow> bool" where
  "valid_alert_asset a \<longleftrightarrow>
     valid_asset_id (aa_id a) \<and> 1 \<le> length (aa_content_type a) \<and> length (aa_content_type a) \<le> 100 \<and>
     z_nonnegative_int (aa_size_bytes a) \<and> optional_holds z_positive_int (aa_duration_ms a)"

definition int_within :: "int \<Rightarrow> int \<Rightarrow> int \<Rightarrow> bool" where
  "int_within lo hi x \<longleftrightarrow> z_int x \<and> lo \<le> x \<and> x \<le> hi"

text \<open>\<open>^#[0-9a-fA-F]{6}$\<close>\<close>

definition valid_color :: "string \<Rightarrow> bool" where
  "valid_color s \<longleftrightarrow> length s = 7 \<and> hd s = CHR ''#'' \<and> list_all is_hex (tl s)"

record alert_settings =
  al_enabled :: bool
  al_paused :: bool
  al_enabled_sources :: "donation_source list"
  al_display_duration_ms :: int
  al_sound_volume :: int
  al_tts_enabled :: bool
  al_tts_voice :: string
  al_tts_volume :: int
  al_accent_color :: string
  al_image_asset_id :: "string option"
  al_sound_asset_id :: "string option"

text \<open>There are five donation sources; the voice is trimmed.\<close>

definition alert_settings_ok :: "alert_settings \<Rightarrow> bool" where
  "alert_settings_ok s \<longleftrightarrow>
     length (al_enabled_sources s) \<le> 5 \<and> int_within 1000 30000 (al_display_duration_ms s) \<and>
     int_within 0 100 (al_sound_volume s) \<and> int_within 0 100 (al_tts_volume s) \<and>
     valid_color (al_accent_color s) \<and> optional_holds valid_asset_id (al_image_asset_id s) \<and>
     optional_holds valid_asset_id (al_sound_asset_id s)"

definition parse_alert_settings :: "alert_settings \<Rightarrow> alert_settings option" where
  "parse_alert_settings s =
     (if alert_settings_ok s
      then map_option (\<lambda>voice. s\<lparr>al_tts_voice := voice\<rparr>) (parse_label (al_tts_voice s))
      else None)"

definition valid_playback_id :: "string \<Rightarrow> bool" where "valid_playback_id s \<longleftrightarrow> valid_uuid s"

datatype playback_kind = Incoming | Replay | Test

definition valid_overlay_token :: "string \<Rightarrow> bool" where
  "valid_overlay_token s \<longleftrightarrow> 32 \<le> length s \<and> length s \<le> 100"

datatype renderer_code = Image_unavailable | Sound_unavailable | Tts_unavailable | Audio_blocked

datatype diagnostic_code =
    Renderer renderer_code
  | Alert_expired
  | Backlog_limit
  | Playback_timeout
  | Player_disconnected
  | Overlay_rotated
  | Playback_issue

datatype playback_state = Preparing | Pending_playback | Playing | Completed | Skipped | Expired | Interrupted

record alert_playback =
  pb_id :: string
  pb_donation_id :: "int option"
  pb_kind :: playback_kind
  pb_source :: "donation_source option"
  pb_author :: "string option"
  pb_message :: "string option"
  pb_amount :: string
  pb_currency :: string
  pb_image_asset_id :: "string option"
  pb_sound_asset_id :: "string option"
  pb_tts_asset_id :: "string option"
  pb_display_duration_ms :: int
  pb_sound_volume :: int
  pb_tts_volume :: int
  pb_accent_color :: string
  pb_state :: playback_state
  pb_created_at :: timestamp
  pb_started_at :: "timestamp option"
  pb_finished_at :: "timestamp option"
  pb_detail :: "string option"

text \<open>
  A donation id is a text of digits without a leading zero, or a positive number, both read as an
  integer; code points are code units below 256.
\<close>

definition at_most_code_points :: "nat \<Rightarrow> string \<Rightarrow> bool" where
  "at_most_code_points n s \<longleftrightarrow> length s \<le> n"

definition parse_alert_playback :: "alert_playback \<Rightarrow> alert_playback option" where
  "parse_alert_playback p =
     (if valid_playback_id (pb_id p) \<and> optional_holds valid_donation_id (pb_donation_id p) \<and>
         optional_holds (at_most_code_points 200) (pb_author p) \<and>
         optional_holds (at_most_code_points 2000) (pb_message p) \<and> valid_donation_asset (pb_currency p) \<and>
         optional_holds valid_asset_id (pb_image_asset_id p) \<and> optional_holds valid_asset_id (pb_sound_asset_id p) \<and>
         optional_holds valid_asset_id (pb_tts_asset_id p) \<and> int_within 1000 30000 (pb_display_duration_ms p) \<and>
         int_within 0 100 (pb_sound_volume p) \<and> int_within 0 100 (pb_tts_volume p) \<and>
         valid_color (pb_accent_color p) \<and> optional_holds (\<lambda>d. length d \<le> 1000) (pb_detail p)
      then map_option (\<lambda>amount. p\<lparr>pb_amount := amount\<rparr>) (parse_donation_amount (TextInput (pb_amount p)))
      else None)"

datatype player_state = Active_player | Standby_player

record alert_player =
  pl_id :: string
  pl_generation :: int
  pl_state :: player_state
  pl_active :: bool
  pl_visible :: bool
  pl_last_heartbeat_at :: timestamp
  pl_lease_expires_at :: timestamp
  pl_current_playback_id :: "string option"

definition valid_alert_player :: "alert_player \<Rightarrow> bool" where
  "valid_alert_player p \<longleftrightarrow>
     valid_uuid (pl_id p) \<and> z_positive_int (pl_generation p) \<and>
     optional_holds valid_playback_id (pl_current_playback_id p)"

datatype diagnostic_level = Info_level | Warning_level | Error_level

record alert_diagnostic =
  ad_code :: diagnostic_code
  ad_level :: diagnostic_level
  ad_detail :: string
  ad_occurred_at :: timestamp

definition valid_alert_diagnostic :: "alert_diagnostic \<Rightarrow> bool" where
  "valid_alert_diagnostic d \<longleftrightarrow> 1 \<le> length (ad_detail d) \<and> length (ad_detail d) \<le> 1000"

record alert_dashboard =
  db_settings :: alert_settings
  db_connected_sources :: "donation_source list"
  db_has_overlay_token :: bool
  db_image_asset :: "alert_asset option"
  db_sound_asset :: "alert_asset option"
  db_active_player :: "alert_player option"
  db_pending_count :: int
  db_current_playback :: "alert_playback option"
  db_recent_playbacks :: "alert_playback list"
  db_diagnostics :: "alert_diagnostic list"

text \<open>\<open>z.nullable()\<close> of a schema with a transformation.\<close>

definition parse_nullable :: "('a \<Rightarrow> 'a option) \<Rightarrow> 'a option \<Rightarrow> 'a option option" where
  "parse_nullable parse x = (case x of None \<Rightarrow> Some None | Some y \<Rightarrow> map_option Some (parse y))"

definition parse_alert_dashboard :: "alert_dashboard \<Rightarrow> alert_dashboard option" where
  "parse_alert_dashboard d =
     (if length (db_connected_sources d) \<le> 5 \<and> optional_holds valid_alert_asset (db_image_asset d) \<and>
         optional_holds valid_alert_asset (db_sound_asset d) \<and>
         optional_holds valid_alert_player (db_active_player d) \<and> z_nonnegative_int (db_pending_count d) \<and>
         list_all valid_alert_diagnostic (db_diagnostics d)
      then Option.bind (parse_alert_settings (db_settings d)) (\<lambda>settings.
           Option.bind (parse_nullable parse_alert_playback (db_current_playback d)) (\<lambda>current.
           Option.bind (those (map parse_alert_playback (db_recent_playbacks d))) (\<lambda>recent.
             Some (d\<lparr>db_settings := settings, db_current_playback := current, db_recent_playbacks := recent\<rparr>))))
      else None)"

record overlay_open =
  oo_player_id :: string
  oo_generation :: int
  oo_state :: player_state
  oo_lease_expires_at :: timestamp

definition valid_overlay_open :: "overlay_open \<Rightarrow> bool" where
  "valid_overlay_open o' \<longleftrightarrow> valid_uuid (oo_player_id o') \<and> z_positive_int (oo_generation o')"

datatype control_action = Skip | Pause | Resume

datatype overlay_event =
    Playback alert_playback
  | Control control_action
  | Revoked
  | Keepalive

definition parse_overlay_event :: "overlay_event \<Rightarrow> overlay_event option" where
  "parse_overlay_event e =
     (case e of Playback p \<Rightarrow> map_option Playback (parse_alert_playback p) | _ \<Rightarrow> Some e)"

section \<open>Parsing again changes nothing\<close>

lemma parse_label_again: "parse_label s = Some t \<Longrightarrow> parse_label t = Some t"
  by (auto simp: parse_label_def Let_def split: if_split_asm)

lemma parse_alert_settings_again:
  assumes "parse_alert_settings s = Some t" shows "parse_alert_settings t = Some t"
proof -
  obtain v where v: "parse_label (al_tts_voice s) = Some v" and t: "t = s\<lparr>al_tts_voice := v\<rparr>"
    and ok: "alert_settings_ok s"
    using assms by (auto simp: parse_alert_settings_def split: if_split_asm)
  have "alert_settings_ok t" using ok by (simp add: t alert_settings_ok_def)
  then show ?thesis using parse_label_again [OF v] by (simp add: parse_alert_settings_def t)
qed

lemma parse_nullable_again:
  "(\<And>y z. parse y = Some z \<Longrightarrow> parse z = Some z) \<Longrightarrow> parse_nullable parse x = Some t \<Longrightarrow> parse_nullable parse t = Some t"
  by (auto simp: parse_nullable_def split: option.splits)

end
