(* ===== verification/Ndjson.thy ===== *)
theory Ndjson
  imports Prelude
begin

text \<open>
  Reading a stream of lines: \<open>readNdjsonLines\<close> (\<open>lib/ndjson.ts\<close>) and the event stream of the chat
  service's client (\<open>server/chat/client.ts\<close>).  Input is the sequence of reads: the decoded text of a
  chunk with the flag of the last one, or a failed read, each with the state of the abort signal.
  Output is what the generator yielded and how it ended; \<open>Pending\<close> when the reads given end first.
\<close>

datatype text_read = Text string bool | Read_failure

record text_step =
  step_aborted :: bool
  step_read :: text_read
  step_aborted_after :: bool

datatype 'x stream_end = Ended | Failed 'x | Pending

definition newline :: char where "newline = CHR 0x0A"

definition complete_lines :: "string \<Rightarrow> string list \<times> string" where
  "complete_lines buffer = (let lines = js_split newline buffer in (butlast lines, last lines))"

text \<open>What was yielded before, then the rest, unless the lines already failed.\<close>

definition and_then :: "'e list \<times> 'x option \<Rightarrow> 'e list \<times> 'x stream_end \<Rightarrow> 'e list \<times> 'x stream_end" where
  "and_then a r = (case snd a of None \<Rightarrow> (fst a @ fst r, snd r) | Some e \<Rightarrow> (fst a, Failed e))"

section \<open>Lines of a bounded length\<close>

datatype ndjson_error = Read_error | Line_too_long

fun ndjson_lines :: "nat \<Rightarrow> string list \<Rightarrow> string list \<times> ndjson_error option" where
  "ndjson_lines max_len [] = ([], None)"
| "ndjson_lines max_len (line # lines) =
     (if length line > max_len then ([], Some Line_too_long)
      else case ndjson_lines max_len lines of
        (ys, e) \<Rightarrow> (if js_trim line \<noteq> [] then line # ys else ys, e))"

fun read_ndjson_lines ::
  "nat \<Rightarrow> text_step list \<Rightarrow> string \<Rightarrow> string list \<times> ndjson_error stream_end" where
  "read_ndjson_lines max_len [] buffer = ([], Pending)"
| "read_ndjson_lines max_len (s # steps) buffer =
     (if step_aborted s then ([], Ended)
      else case step_read s of
        Read_failure \<Rightarrow> ([], if step_aborted_after s then Ended else Failed Read_error)
      | Text chunk finished \<Rightarrow>
          (case complete_lines (buffer @ chunk) of (lines, remainder) \<Rightarrow>
             and_then (ndjson_lines max_len lines)
               (if length remainder > max_len then ([], Failed Line_too_long)
                else if \<not> finished then read_ndjson_lines max_len steps remainder
                else (if js_trim remainder \<noteq> [] then [remainder] else [], Ended))))"

section \<open>Events of the chat service\<close>

datatype 'x event_error = Stream_read_error | Invalid_event 'x

text \<open>\<open>parse\<close> is \<open>parseStreamEvent\<close>: the service error of a line that is not an event, or the event.\<close>

fun chat_events :: "(string \<Rightarrow> 'x + 'e) \<Rightarrow> string list \<Rightarrow> 'e list \<times> 'x event_error option" where
  "chat_events parse [] = ([], None)"
| "chat_events parse (line # lines) =
     (if length line = 0 then chat_events parse lines
      else case parse line of
        Inl x \<Rightarrow> ([], Some (Invalid_event x))
      | Inr e \<Rightarrow> (case chat_events parse lines of (ys, x) \<Rightarrow> (e # ys, x)))"

fun chat_stream ::
  "(string \<Rightarrow> 'x + 'e) \<Rightarrow> text_step list \<Rightarrow> string \<Rightarrow> 'e list \<times> 'x event_error stream_end" where
  "chat_stream parse [] buffer = ([], Pending)"
| "chat_stream parse (s # steps) buffer =
     (if step_aborted s then ([], Ended)
      else case step_read s of
        Read_failure \<Rightarrow> ([], if step_aborted_after s then Ended else Failed Stream_read_error)
      | Text chunk finished \<Rightarrow>
          (let lines = js_split newline (buffer @ chunk) in
           and_then (chat_events parse (butlast lines))
             (if finished
              then (if length (last lines) > 0 then and_then (chat_events parse [last lines]) ([], Ended)
                    else ([], Ended))
              else chat_stream parse steps (last lines))))"

section \<open>The contract of a line stream\<close>

text \<open>
  A line stream handles complete lines in order (\<open>handle\<close>) and may refuse a line before it is
  complete (\<open>refuse\<close>) if every completion of it would be refused.  Then how the text is cut into
  chunks does not matter.
\<close>

definition text_steps :: "string list \<Rightarrow> string \<Rightarrow> text_step list" where
  "text_steps chunks final =
     map (\<lambda>c. \<lparr>step_aborted = False, step_read = Text c False, step_aborted_after = False\<rparr>) chunks @
     [\<lparr>step_aborted = False, step_read = Text final True, step_aborted_after = False\<rparr>]"

locale line_stream =
  fixes run :: "text_step list \<Rightarrow> string \<Rightarrow> 'e list \<times> 'x stream_end"
    and handle :: "string list \<Rightarrow> 'e list \<times> 'x option"
    and refuse :: "string \<Rightarrow> 'x option"
  assumes run_more: "\<not> step_aborted s \<Longrightarrow> step_read s = Text t False \<Longrightarrow>
      run (s # steps) buffer = and_then (handle (butlast (js_split newline (buffer @ t))))
        (case refuse (last (js_split newline (buffer @ t))) of
           Some e \<Rightarrow> ([], Failed e) | None \<Rightarrow> run steps (last (js_split newline (buffer @ t))))"
    and run_final: "\<not> step_aborted s \<Longrightarrow> step_read s = Text t True \<Longrightarrow>
      run (s # steps) buffer = and_then (handle (js_split newline (buffer @ t))) ([], Ended)"
    and handle_append: "handle (xs @ ys) = (case snd (handle xs) of
        None \<Rightarrow> (fst (handle xs) @ fst (handle ys), snd (handle ys)) | Some e \<Rightarrow> (fst (handle xs), Some e))"
    and refuse_handle: "refuse w = Some e \<Longrightarrow> handle ((w @ v) # ls) = ([], Some e)"
begin

lemma and_then_handle_append:
  "and_then (handle (xs @ ys)) r = and_then (handle xs) (and_then (handle ys) r)"
  by (auto simp: and_then_def handle_append split: option.splits)

lemma split_resume:
  assumes "js_split newline s = L"
  shows "js_split newline (s @ t) = butlast L @ js_split newline (last L @ t)"
proof -
  have "newline \<notin> set (last L)" using assms js_split_parts js_split_nonempty last_in_set by metis
  then have "js_split newline (last L @ t) = (last L @ hd (js_split newline t)) # tl (js_split newline t)"
    using js_split_append_gen [of newline "last L" t] by (simp add: js_split_no_sep)
  then show ?thesis using js_split_append_gen [of newline s t] assms by simp
qed

lemma chunking_irrelevant:
  "run (text_steps chunks final) buffer =
     and_then (handle (js_split newline (buffer @ concat chunks @ final))) ([], Ended)"
proof (induction chunks arbitrary: buffer)
  case Nil
  then show ?case by (simp add: text_steps_def run_final)
next
  case (Cons c cs)
  define L where "L = js_split newline (buffer @ c)"
  have split: "js_split newline (buffer @ concat (c # cs) @ final) =
      butlast L @ js_split newline (last L @ concat cs @ final)"
    using split_resume [of "buffer @ c" L "concat cs @ final"] by (simp add: L_def)
  have step: "run (text_steps (c # cs) final) buffer = and_then (handle (butlast L))
      (case refuse (last L) of Some e \<Rightarrow> ([], Failed e) | None \<Rightarrow> run (text_steps cs final) (last L))"
    unfolding text_steps_def L_def by (simp add: run_more)
  show ?case
  proof (cases "refuse (last L)")
    case None
    then show ?thesis using step Cons.IH [of "last L"] split by (simp add: and_then_handle_append)
  next
    case (Some e)
    have "newline \<notin> set (last L)"
      using js_split_parts js_split_nonempty last_in_set unfolding L_def by metis
    then have "js_split newline (last L @ concat cs @ final) =
        (last L @ hd (js_split newline (concat cs @ final))) # tl (js_split newline (concat cs @ final))"
      using js_split_append_gen [of newline "last L" "concat cs @ final"] by (simp add: js_split_no_sep)
    then have "handle (js_split newline (last L @ concat cs @ final)) = ([], Some e)"
      using refuse_handle [OF Some] by simp
    then show ?thesis using step Some split
      by (simp add: and_then_handle_append) (simp add: and_then_def split: option.splits)
  qed
qed

lemma same_text:
  assumes "concat chunks @ final = concat chunks' @ final'"
  shows "run (text_steps chunks final) [] = run (text_steps chunks' final') []"
  using assms by (simp add: chunking_irrelevant)

end

lemma ndjson_lines_append:
  "ndjson_lines n (xs @ ys) = (case snd (ndjson_lines n xs) of
     None \<Rightarrow> (fst (ndjson_lines n xs) @ fst (ndjson_lines n ys), snd (ndjson_lines n ys))
   | Some e \<Rightarrow> (fst (ndjson_lines n xs), Some e))"
  by (induction xs) (auto split: option.splits prod.splits)

lemma chat_events_append:
  "chat_events parse (xs @ ys) = (case snd (chat_events parse xs) of
     None \<Rightarrow> (fst (chat_events parse xs) @ fst (chat_events parse ys), snd (chat_events parse ys))
   | Some e \<Rightarrow> (fst (chat_events parse xs), Some e))"
  by (induction xs) (auto split: option.splits prod.splits sum.splits)

interpretation ndjson: line_stream
  "read_ndjson_lines n" "ndjson_lines n" "\<lambda>w. if length w > n then Some Line_too_long else None" for n
proof (unfold_locales, goal_cases)
  case (1 s t steps buffer)
  then show ?case by (simp add: complete_lines_def Let_def)
next
  case (2 s t steps buffer)
  let ?L = "js_split newline (buffer @ t)"
  have "ndjson_lines n ?L = ndjson_lines n (butlast ?L @ [last ?L])" by simp
  then show ?case using 2
    by (simp only: ndjson_lines_append)
      (auto simp: complete_lines_def Let_def and_then_def split: option.splits)
next
  case (3 xs ys)
  then show ?case by (rule ndjson_lines_append)
next
  case (4 w e v ls)
  then show ?case by (auto split: if_split_asm)
qed

interpretation chat: line_stream "chat_stream parse" "chat_events parse" "\<lambda>w. None" for parse
proof (unfold_locales, goal_cases)
  case (1 s t steps buffer)
  then show ?case by (simp add: Let_def)
next
  case (2 s t steps buffer)
  let ?L = "js_split newline (buffer @ t)"
  have "chat_events parse ?L = chat_events parse (butlast ?L @ [last ?L])" by simp
  then show ?case using 2
    by (simp only: chat_events_append)
      (auto simp: Let_def and_then_def split: option.splits)
next
  case (3 xs ys)
  then show ?case by (rule chat_events_append)
next
  case (4 w e v ls)
  then show ?case by simp
qed

text \<open>
  The lines of an NDJSON stream do not depend on how the text arrives in chunks: exactly the
  non-blank lines of the whole text are yielded, in order, up to the first line longer than the
  limit, which ends the stream with an error; the last line needs no line break.
\<close>

theorem ndjson_chunking:
  "read_ndjson_lines n (text_steps chunks final) [] =
     and_then (ndjson_lines n (js_split newline (concat chunks @ final))) ([], Ended) \<and>
   fst (ndjson_lines n lines) =
     filter (\<lambda>l. js_trim l \<noteq> []) (takeWhile (\<lambda>l. length l \<le> n) lines) \<and>
   (snd (ndjson_lines n lines) = None) = list_all (\<lambda>l. length l \<le> n) lines"
proof -
  have "fst (ndjson_lines n lines) = filter (\<lambda>l. js_trim l \<noteq> []) (takeWhile (\<lambda>l. length l \<le> n) lines)"
    "(snd (ndjson_lines n lines) = None) = list_all (\<lambda>l. length l \<le> n) lines"
    by (induction lines) (auto split: prod.splits)
  then show ?thesis using ndjson.chunking_irrelevant [of n chunks final "[]"] by simp
qed



end
