(* ===== verification/AlertService.thy ===== *)
theory AlertService
  imports Services AlertSchemas Ndjson
begin

text \<open>
  The donation alert API and the donation integrations: the clients
  (\<open>server/donation-alert/client.ts\<close>, \<open>server/donation-integration/client.ts\<close>) and the routers
  (\<open>server/api/trpc/alerts.ts\<close>, \<open>server/api/trpc/integration.ts\<close>).  A call that is aborted by its
  request or by the timeout is a failed fetch.
\<close>

record alert_env =
  ae_service_url :: string
  ae_secret :: string
  ae_app_domain :: string
  ae_json :: "string \<Rightarrow> json option"
  ae_is_url :: "string \<Rightarrow> bool"
  ae_href_hash :: "string \<Rightarrow> string \<Rightarrow> string \<Rightarrow> string"
  ae_read_dashboard :: "json \<Rightarrow> alert_dashboard option"
  ae_read_open :: "json \<Rightarrow> overlay_open option"
  ae_read_asset :: "json \<Rightarrow> alert_asset option"
  ae_read_event :: "json \<Rightarrow> overlay_event option"

section \<open>The client\<close>

definition max_stream_line_length :: nat where "max_stream_line_length = 64 * 1024"

definition donation_source_name :: "donation_source \<Rightarrow> string" where
  "donation_source_name s =
     (case s of Donationalerts \<Rightarrow> ''donationalerts'' | Donate_stream \<Rightarrow> ''donate_stream''
      | Streamlabs \<Rightarrow> ''streamlabs'' | Tourniquet \<Rightarrow> ''tourniquet'' | Streamelements \<Rightarrow> ''streamelements'')"

definition renderer_code_name :: "renderer_code \<Rightarrow> string" where
  "renderer_code_name c =
     (case c of Image_unavailable \<Rightarrow> ''image_unavailable'' | Sound_unavailable \<Rightarrow> ''sound_unavailable''
      | Tts_unavailable \<Rightarrow> ''tts_unavailable'' | Audio_blocked \<Rightarrow> ''audio_blocked'')"

datatype playback_outcome = Completed_outcome | Interrupted_outcome

definition outcome_name :: "playback_outcome \<Rightarrow> string" where
  "outcome_name c = (case c of Completed_outcome \<Rightarrow> ''completed'' | Interrupted_outcome \<Rightarrow> ''interrupted'')"

datatype upload_kind = Image_upload | Sound_upload

definition upload_kind_name :: "upload_kind \<Rightarrow> string" where
  "upload_kind_name k = (case k of Image_upload \<Rightarrow> ''image'' | Sound_upload \<Rightarrow> ''sound'')"

record player_identity =
  pi_token :: string
  pi_player_id :: string
  pi_generation :: int

datatype alert_operation =
    Dashboard int
  | Update_settings int alert_settings
  | Rotate_token int
  | Test_alert int
  | Set_paused int bool
  | Skip_alert int
  | Replay_alert int string
  | Open_overlay string
  | Heartbeat player_identity bool bool
  | Started player_identity string
  | Finished player_identity string playback_outcome
  | Diagnostic player_identity string renderer_code
  | Upload_asset int upload_kind string string
  | Delete_asset int string

datatype alert_value =
    No_value
  | Dashboard_value alert_dashboard
  | Token_value string
  | Open_value overlay_open
  | Asset_value alert_asset
  | Overlay_link string

definition nullable_json :: "string option \<Rightarrow> json" where
  "nullable_json x = (case x of None \<Rightarrow> J_null | Some s \<Rightarrow> J_str s)"

text \<open>The settings without \<open>paused\<close>, in the order of the schema.\<close>

definition editable_settings :: "alert_settings \<Rightarrow> (string \<times> json) list" where
  "editable_settings s =
     [(''enabled'', J_bool (al_enabled s)),
      (''enabledSources'', J_arr (map (\<lambda>x. J_str (donation_source_name x)) (al_enabled_sources s))),
      (''displayDurationMs'', J_int (al_display_duration_ms s)), (''soundVolume'', J_int (al_sound_volume s)),
      (''ttsEnabled'', J_bool (al_tts_enabled s)), (''ttsVoice'', J_str (al_tts_voice s)),
      (''ttsVolume'', J_int (al_tts_volume s)), (''accentColor'', J_str (al_accent_color s)),
      (''imageAssetId'', nullable_json (al_image_asset_id s)), (''soundAssetId'', nullable_json (al_sound_asset_id s))]"

definition player_fields :: "player_identity \<Rightarrow> (string \<times> json) list" where
  "player_fields p =
     [(''token'', J_str (pi_token p)), (''playerId'', J_str (pi_player_id p)), (''generation'', J_int (pi_generation p))]"

definition alert_post :: "alert_env \<Rightarrow> string \<Rightarrow> (string \<times> json) list \<Rightarrow> service_request" where
  "alert_post env path fs =
     \<lparr>sr_method = POST, sr_url = service_url_of (ae_service_url env) path,
      sr_headers = service_headers (ae_secret env), sr_body = Some (J_obj fs)\<rparr>"

text \<open>No request when the settings fail their schema before it is sent.\<close>

definition alert_request :: "alert_env \<Rightarrow> alert_operation \<Rightarrow> service_request option" where
  "alert_request env oper =
     (case oper of
        Dashboard uid \<Rightarrow> Some (alert_post env ''/internal/alerts/dashboard'' [(''userId'', J_int uid)])
      | Update_settings uid settings \<Rightarrow>
          map_option (\<lambda>s. alert_post env ''/internal/alerts/settings'' ((''userId'', J_int uid) # editable_settings s))
            (parse_alert_settings settings)
      | Rotate_token uid \<Rightarrow> Some (alert_post env ''/internal/alerts/token/rotate'' [(''userId'', J_int uid)])
      | Test_alert uid \<Rightarrow> Some (alert_post env ''/internal/alerts/test'' [(''userId'', J_int uid)])
      | Set_paused uid paused \<Rightarrow>
          Some (alert_post env ''/internal/alerts/paused'' [(''userId'', J_int uid), (''paused'', J_bool paused)])
      | Skip_alert uid \<Rightarrow> Some (alert_post env ''/internal/alerts/skip'' [(''userId'', J_int uid)])
      | Replay_alert uid playback_id \<Rightarrow>
          Some (alert_post env ''/internal/alerts/replay'' [(''userId'', J_int uid), (''playbackId'', J_str playback_id)])
      | Open_overlay token \<Rightarrow> Some (alert_post env ''/internal/alerts/overlay/open'' [(''token'', J_str token)])
      | Heartbeat p active visible \<Rightarrow>
          Some (alert_post env ''/internal/alerts/overlay/heartbeat''
            (player_fields p @ [(''active'', J_bool active), (''visible'', J_bool visible)]))
      | Started p playback_id \<Rightarrow>
          Some (alert_post env ''/internal/alerts/overlay/started''
            (player_fields p @ [(''playbackId'', J_str playback_id)]))
      | Finished p playback_id oc \<Rightarrow>
          Some (alert_post env ''/internal/alerts/overlay/finished''
            (player_fields p @ [(''playbackId'', J_str playback_id), (''outcome'', J_str (outcome_name oc))]))
      | Diagnostic p playback_id c \<Rightarrow>
          Some (alert_post env ''/internal/alerts/overlay/diagnostic''
            (player_fields p @ [(''playbackId'', J_str playback_id), (''code'', J_str (renderer_code_name c))]))
      | Upload_asset uid kind content_type content \<Rightarrow>
          Some (alert_post env ''/internal/alerts/asset''
            [(''userId'', J_int uid), (''kind'', J_str (upload_kind_name kind)),
             (''contentType'', J_str content_type), (''contentBase64'', J_str content)])
      | Delete_asset uid asset_id \<Rightarrow>
          Some (alert_post env ''/internal/alerts/asset/delete'' [(''userId'', J_int uid), (''assetId'', J_str asset_id)]))"

definition alert_schema :: "alert_env \<Rightarrow> alert_operation \<Rightarrow> json \<Rightarrow> alert_value option" where
  "alert_schema env oper j =
     (case oper of
        Dashboard _ \<Rightarrow> map_option Dashboard_value (read_parsed (ae_read_dashboard env) parse_alert_dashboard j)
      | Rotate_token _ \<Rightarrow> map_option Token_value (read_text ''token'' valid_overlay_token j)
      | Open_overlay _ \<Rightarrow> map_option Open_value (read_valid (ae_read_open env) valid_overlay_open j)
      | Upload_asset _ _ _ _ \<Rightarrow> map_option Asset_value (read_valid (ae_read_asset env) valid_alert_asset j)
      | _ \<Rightarrow> map_option (\<lambda>_. No_value) (read_null j))"

definition alert_answer :: "alert_env \<Rightarrow> alert_operation \<Rightarrow> service_reply \<Rightarrow> service_error + alert_value" where
  "alert_answer env oper reply = service_answer (ae_json env) (alert_schema env oper) reply"

text \<open>Reading an asset: who asks, the range asked for, and a response that is passed on.\<close>

datatype media_principal = User_principal int | Token_principal string

definition principal_field :: "media_principal \<Rightarrow> string \<times> json" where
  "principal_field p =
     (case p of User_principal uid \<Rightarrow> (''userId'', J_int uid) | Token_principal token \<Rightarrow> (''token'', J_str token))"

definition asset_request :: "alert_env \<Rightarrow> string \<Rightarrow> media_principal \<Rightarrow> string option \<Rightarrow> service_request" where
  "asset_request env asset_id who wanted =
     (let rq = alert_post env ''/internal/alerts/asset/read'' [(''assetId'', J_str asset_id), principal_field who]
      in rq\<lparr>sr_headers := sr_headers rq @ (case wanted of None \<Rightarrow> [] | Some r \<Rightarrow> [(''Range'', r)])\<rparr>)"

datatype 'b media_reply = Media_fetch_failed | Media_reply nat "(string \<times> string) list" 'b

definition asset_answer :: "'b media_reply \<Rightarrow> service_error + nat \<times> (string \<times> string) list \<times> 'b" where
  "asset_answer reply =
     (case reply of
        Media_fetch_failed \<Rightarrow> Inl \<lparr>se_detail = ''fetch error'', se_status = None\<rparr>
      | Media_reply status headers body \<Rightarrow>
          if \<not> response_ok status then Inl \<lparr>se_detail = ''http error'', se_status = Some status\<rparr>
          else Inr (status, headers, body))"

text \<open>The overlay's events.\<close>

definition overlay_stream_request :: "alert_env \<Rightarrow> player_identity \<Rightarrow> service_request" where
  "overlay_stream_request env p = alert_post env ''/internal/alerts/overlay/stream'' (player_fields p)"

definition parse_overlay_line :: "alert_env \<Rightarrow> string \<Rightarrow> service_error + overlay_event" where
  "parse_overlay_line env line =
     (if length line > max_stream_line_length
      then Inl \<lparr>se_detail = ''stream event too large'', se_status = None\<rparr>
      else map_error to_service_error
             (parse_json (ae_json env) line (read_parsed (ae_read_event env) parse_overlay_event)))"

fun parse_overlay_lines :: "alert_env \<Rightarrow> string list \<Rightarrow> overlay_event list \<times> service_error option" where
  "parse_overlay_lines env [] = ([], None)"
| "parse_overlay_lines env (line # lines) =
     (case parse_overlay_line env line of
        Inl e \<Rightarrow> ([], Some e)
      | Inr event \<Rightarrow> (case parse_overlay_lines env lines of (events, e) \<Rightarrow> (event # events, e)))"

definition ndjson_service_error :: "ndjson_error \<Rightarrow> service_error" where
  "ndjson_service_error e =
     (case e of Read_error \<Rightarrow> \<lparr>se_detail = ''stream read error'', se_status = None\<rparr>
      | Line_too_long \<Rightarrow> \<lparr>se_detail = ''stream event too large'', se_status = None\<rparr>)"

datatype alert_stream_opening = Stream_opening_failed bool | Stream_opened nat "text_step list option"

definition stream_overlay ::
  "alert_env \<Rightarrow> alert_stream_opening \<Rightarrow> overlay_event list \<times> service_error stream_end" where
  "stream_overlay env opening =
     (case opening of
        Stream_opening_failed aborted \<Rightarrow>
          ([], if aborted then Ended else Failed \<lparr>se_detail = ''fetch error'', se_status = None\<rparr>)
      | Stream_opened status body \<Rightarrow>
          if \<not> response_ok status then ([], Failed \<lparr>se_detail = ''http error'', se_status = Some status\<rparr>)
          else (case body of
                  None \<Rightarrow> ([], Failed \<lparr>se_detail = ''missing response body'', se_status = None\<rparr>)
                | Some steps \<Rightarrow>
                    (case read_ndjson_lines max_stream_line_length steps [] of
                       (lines, fin) \<Rightarrow>
                         and_then (parse_overlay_lines env lines)
                           ([], case fin of Ended \<Rightarrow> Ended | Failed e \<Rightarrow> Failed (ndjson_service_error e)
                                | Pending \<Rightarrow> Pending))))"

section \<open>Procedures\<close>

definition alert_service_timeout_ms :: int where "alert_service_timeout_ms = 30000"

definition to_alert_trpc_error :: "service_error \<Rightarrow> api_error" where
  "to_alert_trpc_error e =
     (if se_status e = Some 400 then TRPCError BAD_REQUEST ''Invalid alert request.''
      else if se_status e = Some 404 then TRPCError NOT_FOUND ''Alert resource not found.''
      else if se_status e = Some 409 then TRPCError CONFLICT ''Alert state changed.''
      else TRPCError INTERNAL_SERVER_ERROR ''Alert service unavailable.'')"

datatype user_alert_request =
    Dashboard_query
  | Update_settings_mutation alert_settings
  | Rotate_token_mutation
  | Test_mutation
  | Set_paused_mutation bool
  | Skip_mutation
  | Replay_mutation string
  | Delete_asset_mutation string

datatype overlay_request =
    Open_overlay_mutation string
  | Heartbeat_mutation player_identity bool bool
  | Started_mutation player_identity string
  | Finished_mutation player_identity string playback_outcome
  | Diagnostic_mutation player_identity string renderer_code

datatype alert_api_request = By_user user_alert_request | By_overlay overlay_request

definition valid_player_identity :: "player_identity \<Rightarrow> bool" where
  "valid_player_identity p \<longleftrightarrow>
     valid_overlay_token (pi_token p) \<and> valid_uuid (pi_player_id p) \<and> z_positive_int (pi_generation p)"

definition parse_user_alert :: "user_alert_request \<Rightarrow> user_alert_request option" where
  "parse_user_alert req =
     (case req of
        Update_settings_mutation s \<Rightarrow> map_option Update_settings_mutation (parse_alert_settings s)
      | Replay_mutation playback_id \<Rightarrow> if valid_playback_id playback_id then Some req else None
      | Delete_asset_mutation asset_id \<Rightarrow> if valid_asset_id asset_id then Some req else None
      | _ \<Rightarrow> Some req)"

definition valid_overlay_request :: "overlay_request \<Rightarrow> bool" where
  "valid_overlay_request req \<longleftrightarrow>
     (case req of
        Open_overlay_mutation token \<Rightarrow> valid_overlay_token token
      | Heartbeat_mutation p _ _ \<Rightarrow> valid_player_identity p
      | Started_mutation p playback_id \<Rightarrow> valid_player_identity p \<and> valid_playback_id playback_id
      | Finished_mutation p playback_id _ \<Rightarrow> valid_player_identity p \<and> valid_playback_id playback_id
      | Diagnostic_mutation p playback_id _ \<Rightarrow> valid_player_identity p \<and> valid_playback_id playback_id)"

definition parse_alert_request :: "alert_api_request \<Rightarrow> alert_api_request option" where
  "parse_alert_request req =
     (case req of
        By_user r \<Rightarrow> map_option By_user (parse_user_alert r)
      | By_overlay r \<Rightarrow> if valid_overlay_request r then Some req else None)"

definition user_alert_operation :: "int \<Rightarrow> user_alert_request \<Rightarrow> alert_operation" where
  "user_alert_operation uid req =
     (case req of
        Dashboard_query \<Rightarrow> Dashboard uid
      | Update_settings_mutation s \<Rightarrow> Update_settings uid s
      | Rotate_token_mutation \<Rightarrow> Rotate_token uid
      | Test_mutation \<Rightarrow> Test_alert uid
      | Set_paused_mutation paused \<Rightarrow> Set_paused uid paused
      | Skip_mutation \<Rightarrow> Skip_alert uid
      | Replay_mutation playback_id \<Rightarrow> Replay_alert uid playback_id
      | Delete_asset_mutation asset_id \<Rightarrow> Delete_asset uid asset_id)"

definition overlay_operation :: "overlay_request \<Rightarrow> alert_operation" where
  "overlay_operation req =
     (case req of
        Open_overlay_mutation token \<Rightarrow> Open_overlay token
      | Heartbeat_mutation p active visible \<Rightarrow> Heartbeat p active visible
      | Started_mutation p playback_id \<Rightarrow> Started p playback_id
      | Finished_mutation p playback_id oc \<Rightarrow> Finished p playback_id oc
      | Diagnostic_mutation p playback_id c \<Rightarrow> Diagnostic p playback_id c)"

text \<open>Overlays authenticate with their token only, so their procedures have no guard.\<close>

definition alert_guard :: "api_context \<Rightarrow> alert_api_request \<Rightarrow> api_error + int option" where
  "alert_guard ctx req =
     (case req of By_user _ \<Rightarrow> bind_result (authenticated ctx) (\<lambda>uid. Inr (Some uid)) | By_overlay _ \<Rightarrow> Inr None)"

definition alert_operation_of :: "int option \<Rightarrow> alert_api_request \<Rightarrow> alert_operation" where
  "alert_operation_of uid req =
     (case req of By_user r \<Rightarrow> user_alert_operation (the uid) r | By_overlay r \<Rightarrow> overlay_operation r)"

text \<open>The new token becomes the hash of the overlay's address.\<close>

definition alert_result :: "alert_env \<Rightarrow> alert_value \<Rightarrow> alert_value" where
  "alert_result env v =
     (case v of Token_value token \<Rightarrow> Overlay_link (ae_href_hash env ''/alerts/overlay'' (ae_app_domain env) token)
      | _ \<Rightarrow> v)"

definition alert_output :: "alert_env \<Rightarrow> alert_value \<Rightarrow> api_error + alert_value" where
  "alert_output env v =
     expect (case v of
               Dashboard_value d \<Rightarrow> map_option Dashboard_value (parse_alert_dashboard d)
             | Open_value op' \<Rightarrow> if valid_overlay_open op' then Some v else None
             | Overlay_link url \<Rightarrow> if ae_is_url env url then Some v else None
             | _ \<Rightarrow> Some v)
       (TRPCError INTERNAL_SERVER_ERROR ''Output validation failed'')"

definition call_alert_service ::
  "alert_env \<Rightarrow> (service_request \<Rightarrow> service_reply) \<Rightarrow> alert_operation \<Rightarrow> service_request list \<Rightarrow>
    (api_error + alert_value) \<times> service_request list" where
  "call_alert_service env net oper outbox =
     (case alert_request env oper of
        None \<Rightarrow> (Inl (UnexpectedError ''schema mismatch''), outbox)
      | Some rq \<Rightarrow> call_remote to_alert_trpc_error net (alert_answer env oper) rq outbox)"

definition handle_alert_request ::
  "alert_env \<Rightarrow> (service_request \<Rightarrow> service_reply) \<Rightarrow> api_context \<Rightarrow> alert_api_request \<Rightarrow> service_request list \<Rightarrow>
    (api_error + alert_value) \<times> service_request list" where
  "handle_alert_request env net ctx req outbox =
     call_procedure (alert_guard ctx req) (parse_alert_request req)
       (\<lambda>uid call s.
          case call_alert_service env net (alert_operation_of uid call) s of
            (r, s') \<Rightarrow> (bind_result r (\<lambda>v. alert_output env (alert_result env v)), s')) outbox"

section \<open>Integrations\<close>

datatype integration_operation =
    Integration_health
  | Authorization_url_of donation_source string string
  | Connect donation_source int string string
  | Connect_donate_stream int string
  | Connect_tourniquet int string
  | Disconnect_source donation_source int

datatype integration_value = Nothing_returned | Integration_url string

definition connect_fields :: "string \<Rightarrow> string \<Rightarrow> string \<Rightarrow> int \<Rightarrow> (string \<times> json) list" where
  "connect_fields auth_code redirect_uri source uid =
     [(''authCode'', J_str auth_code), (''redirectUri'', J_str redirect_uri), (''source'', J_str source),
      (''userId'', J_int uid)]"

definition integration_request :: "alert_env \<Rightarrow> integration_operation \<Rightarrow> service_request" where
  "integration_request env oper =
     (let call = (\<lambda>path body. service_call (ae_secret env) (service_url_of (ae_service_url env) path) body) in
      case oper of
        Integration_health \<Rightarrow> call ''/health'' None
      | Authorization_url_of source redirect_uri state \<Rightarrow>
          call ''/internal/authorization-url''
            (Some (J_obj [(''redirectUri'', J_str redirect_uri), (''source'', J_str (donation_source_name source)),
              (''state'', J_str state)]))
      | Connect source uid auth_code redirect_uri \<Rightarrow>
          call ''/internal/connect''
            (Some (J_obj (connect_fields auth_code redirect_uri (donation_source_name source) uid)))
      | Connect_donate_stream uid widget_url \<Rightarrow>
          call ''/internal/connect''
            (Some (J_obj (connect_fields [] [] ''donate_stream'' uid @ [(''widgetUrl'', J_str widget_url)])))
      | Connect_tourniquet uid widget_url \<Rightarrow>
          call ''/internal/connect''
            (Some (J_obj (connect_fields [] [] ''tourniquet'' uid @ [(''widgetUrl'', J_str widget_url)])))
      | Disconnect_source source uid \<Rightarrow>
          call ''/internal/disconnect''
            (Some (J_obj [(''source'', J_str (donation_source_name source)), (''userId'', J_int uid)])))"

definition read_connected :: "json \<Rightarrow> unit option" where
  "read_connected j = (if field j ''connected'' = Some (J_bool True) then Some () else None)"

definition integration_schema :: "alert_env \<Rightarrow> integration_operation \<Rightarrow> json \<Rightarrow> integration_value option" where
  "integration_schema env oper j =
     (case oper of
        Integration_health \<Rightarrow> map_option (\<lambda>_. Nothing_returned) (read_health j)
      | Authorization_url_of _ _ _ \<Rightarrow> map_option Integration_url (read_text ''authorizationUrl'' (ae_is_url env) j)
      | Disconnect_source _ _ \<Rightarrow> map_option (\<lambda>_. Nothing_returned) (read_null j)
      | _ \<Rightarrow> map_option (\<lambda>_. Nothing_returned) (read_connected j))"

definition integration_answer ::
  "alert_env \<Rightarrow> integration_operation \<Rightarrow> service_reply \<Rightarrow> service_error + integration_value" where
  "integration_answer env oper reply = service_answer (ae_json env) (integration_schema env oper) reply"

datatype integration_api_request =
    Connect_donate_stream_mutation string
  | Connect_tourniquet_mutation string
  | Disconnect_source_mutation donation_source

definition connect_failed :: "string \<Rightarrow> service_error \<Rightarrow> api_error" where
  "connect_failed message cause =
     TRPCError (if se_status cause = Some 400 then BAD_REQUEST else BAD_GATEWAY) message"

definition integration_failed :: "integration_api_request \<Rightarrow> service_error \<Rightarrow> api_error" where
  "integration_failed req cause =
     (case req of
        Connect_donate_stream_mutation _ \<Rightarrow> connect_failed ''Could not connect donate.stream.'' cause
      | Connect_tourniquet_mutation _ \<Rightarrow> connect_failed ''Could not connect Tourniquet.'' cause
      | Disconnect_source_mutation _ \<Rightarrow> TRPCError INTERNAL_SERVER_ERROR ''Donation integration unavailable.'')"

definition integration_operation_of :: "int \<Rightarrow> integration_api_request \<Rightarrow> integration_operation" where
  "integration_operation_of uid req =
     (case req of
        Connect_donate_stream_mutation url \<Rightarrow> Connect_donate_stream uid url
      | Connect_tourniquet_mutation url \<Rightarrow> Connect_tourniquet uid url
      | Disconnect_source_mutation source \<Rightarrow> Disconnect_source source uid)"

definition parse_integration_request ::
  "alert_env \<Rightarrow> integration_api_request \<Rightarrow> integration_api_request option" where
  "parse_integration_request env req =
     (let widget_ok = (\<lambda>url. ae_is_url env url \<and> length url \<le> 4096) in
      case req of
        Connect_donate_stream_mutation url \<Rightarrow> if widget_ok url then Some req else None
      | Connect_tourniquet_mutation url \<Rightarrow> if widget_ok url then Some req else None
      | Disconnect_source_mutation _ \<Rightarrow> Some req)"

definition handle_integration_request ::
  "alert_env \<Rightarrow> (service_request \<Rightarrow> service_reply) \<Rightarrow> api_context \<Rightarrow> integration_api_request \<Rightarrow>
    service_request list \<Rightarrow> (api_error + integration_value) \<times> service_request list" where
  "handle_integration_request env net ctx req outbox =
     call_procedure (authenticated ctx) (parse_integration_request env req)
       (\<lambda>uid call s.
          let oper = integration_operation_of uid call in
          call_remote (integration_failed call) net (integration_answer env oper) (integration_request env oper) s)
       outbox"

end
