(* ===== verification/OAuth.thy ===== *)
theory OAuth
  imports AlertService RestreamSchemas
begin

text \<open>
  Connecting donation sources by OAuth: the one-time state in a signed cookie
  (\<open>server/donation-oauth-state.ts\<close> and the two instances of it), the addresses and calls of the three
  sources (\<open>server/donationalerts.ts\<close>, \<open>server/streamlabs.ts\<close>, \<open>server/streamelements.ts\<close>) and the
  handlers of the authorize and callback routes (\<open>server/api/integration.ts\<close>).

  Arguments are the HMAC of the site's secret, the resolution of a path against the site's domain,
  the random bytes of an attempt, the parsed query and cookies of a request, and the viewer.
\<close>

record oauth_env =
  oe_service :: alert_env
  oe_hmac :: "string \<Rightarrow> string"
  oe_href :: "string \<Rightarrow> string"
  oe_https :: bool

section \<open>The state of an attempt\<close>

definition state_lifetime_seconds :: int where "state_lifetime_seconds = 10 * 60"

definition oauth_signature :: "oauth_env \<Rightarrow> string \<Rightarrow> int \<Rightarrow> string" where
  "oauth_signature env state uid = oe_hmac env (state @ '':'' @ dec_nat (nat uid))"

text \<open>The arguments of \<open>serializeCookie\<close>; \<open>expires\<close> is in seconds of the epoch.\<close>

record set_cookie =
  ck_name :: string
  ck_value :: string
  ck_http_only :: bool
  ck_path :: string
  ck_same_site :: string
  ck_secure :: bool
  ck_expires :: "int option"
  ck_max_age :: int

definition oauth_cookie :: "oauth_env \<Rightarrow> string \<Rightarrow> string \<Rightarrow> int option \<Rightarrow> int \<Rightarrow> set_cookie" where
  "oauth_cookie env name v expires max_age =
     \<lparr>ck_name = name, ck_value = v, ck_http_only = True, ck_path = ''/'', ck_same_site = ''lax'',
      ck_secure = oe_https env, ck_expires = expires, ck_max_age = max_age\<rparr>"

definition signed_state :: "oauth_env \<Rightarrow> string \<Rightarrow> int \<Rightarrow> string" where
  "signed_state env state uid = state @ ''.'' @ oauth_signature env state uid"

definition create_oauth_attempt :: "oauth_env \<Rightarrow> string \<Rightarrow> byte list \<Rightarrow> int \<Rightarrow> string \<times> set_cookie" where
  "create_oauth_attempt env name random uid =
     (let state = base64url random
      in (state, oauth_cookie env name (signed_state env state uid) None state_lifetime_seconds))"

definition clear_oauth_attempt :: "oauth_env \<Rightarrow> string \<Rightarrow> set_cookie" where
  "clear_oauth_attempt env name = oauth_cookie env name [] (Some 0) 0"

text \<open>\<open>timingSafeEqual\<close> of buffers of one length, which it requires.\<close>

definition timing_safe_equal :: "byte list \<Rightarrow> byte list \<Rightarrow> bool" where
  "timing_safe_equal a b \<longleftrightarrow> list_all (\<lambda>(x, y). x = y) (zip a b)"

definition verify_oauth_attempt ::
  "oauth_env \<Rightarrow> string \<Rightarrow> (string \<times> string) list \<Rightarrow> string \<Rightarrow> int \<Rightarrow> bool" where
  "verify_oauth_attempt env name cookies state uid =
     (case map_of cookies name of
        None \<Rightarrow> False
      | Some cookie \<Rightarrow>
          (let actual = utf8_bytes cookie; expected = utf8_bytes (signed_state env state uid)
           in length actual = length expected \<and> timing_safe_equal actual expected))"

section \<open>Sources\<close>

datatype oauth_source = OAuth_donationalerts | OAuth_streamlabs | OAuth_streamelements

definition oauth_donation_source :: "oauth_source \<Rightarrow> donation_source" where
  "oauth_donation_source src =
     (case src of OAuth_donationalerts \<Rightarrow> Donationalerts | OAuth_streamlabs \<Rightarrow> Streamlabs
      | OAuth_streamelements \<Rightarrow> Streamelements)"

definition oauth_cookie_name :: "oauth_source \<Rightarrow> string" where
  "oauth_cookie_name src =
     (case src of OAuth_streamlabs \<Rightarrow> ''streambrew-streamlabs-oauth''
      | OAuth_streamelements \<Rightarrow> ''streambrew-streamelements-oauth'' | OAuth_donationalerts \<Rightarrow> [])"

definition integration_path :: "oauth_source \<Rightarrow> string \<Rightarrow> string" where
  "integration_path src step =
     ''/api/integration/'' @ donation_source_name (oauth_donation_source src) @ ''/'' @ step"

definition oauth_callback_url :: "oauth_env \<Rightarrow> oauth_source \<Rightarrow> string" where
  "oauth_callback_url env src = oe_href env (integration_path src ''callback'')"

definition oauth_start_url :: "oauth_env \<Rightarrow> oauth_source \<Rightarrow> string" where
  "oauth_start_url env src = oe_href env (integration_path src ''authorize'')"

text \<open>The \<open>authUrls\<close> query.\<close>

definition handle_auth_urls :: "oauth_env \<Rightarrow> api_context \<Rightarrow> api_error + string \<times> string \<times> string" where
  "handle_auth_urls env ctx =
     bind_result (authenticated ctx) (\<lambda>_.
       let urls = (oauth_start_url env OAuth_donationalerts, oauth_start_url env OAuth_streamlabs,
             oauth_start_url env OAuth_streamelements)
       in case urls of (a, b, c) \<Rightarrow>
            if list_all (ae_is_url (oe_service env)) [a, b, c] then Inr urls
            else Inl (TRPCError INTERNAL_SERVER_ERROR ''Output validation failed''))"

text \<open>A call of the donation service: one request, whose failure is the thrown error.\<close>

definition call_integration ::
  "oauth_env \<Rightarrow> (service_request \<Rightarrow> service_reply) \<Rightarrow> integration_operation \<Rightarrow> service_request list \<Rightarrow>
    (service_error + integration_value) \<times> service_request list" where
  "call_integration env net oper outbox =
     (let rq = integration_request (oe_service env) oper
      in (integration_answer (oe_service env) oper (net rq), outbox @ [rq]))"

definition authorization_operation :: "oauth_env \<Rightarrow> oauth_source \<Rightarrow> string \<Rightarrow> integration_operation" where
  "authorization_operation env src state =
     Authorization_url_of (oauth_donation_source src) (oauth_callback_url env src) state"

definition connect_operation :: "oauth_env \<Rightarrow> oauth_source \<Rightarrow> int \<Rightarrow> string \<Rightarrow> integration_operation" where
  "connect_operation env src uid auth =
     Connect (oauth_donation_source src) uid auth (oauth_callback_url env src)"

section \<open>Handlers\<close>

definition valid_auth_code :: "string \<Rightarrow> bool" where
  "valid_auth_code auth \<longleftrightarrow> 1 \<le> length auth \<and> length auth \<le> 4096"

definition valid_oauth_state :: "string \<Rightarrow> bool" where
  "valid_oauth_state state \<longleftrightarrow> length state = 43 \<and> list_all word_char state"

datatype oauth_target = To_provider string | To_integrations service_url

record oauth_response =
  or_status :: nat
  or_body :: "string option"
  or_target :: "oauth_target option"
  or_no_store :: bool
  or_cookie :: "set_cookie option"

definition integration_result_url :: "oauth_env \<Rightarrow> oauth_source \<Rightarrow> bool \<Rightarrow> oauth_target" where
  "integration_result_url env src success =
     To_integrations
       (with_search_param ''success'' (if success then ''true'' else ''false'')
         (with_search_param ''source'' (donation_source_name (oauth_donation_source src))
           (service_url_of (ae_app_domain (oe_service env)) ''/integrations'')))"

definition redirect_to :: "oauth_target \<Rightarrow> set_cookie option \<Rightarrow> oauth_response" where
  "redirect_to target cookie =
     \<lparr>or_status = 302, or_body = None, or_target = Some target, or_no_store = True, or_cookie = cookie\<rparr>"

definition refuse :: "nat \<Rightarrow> string option \<Rightarrow> set_cookie option \<Rightarrow> oauth_response" where
  "refuse status body cookie =
     \<lparr>or_status = status, or_body = body, or_target = None, or_no_store = False, or_cookie = cookie\<rparr>"

record oauth_request =
  oq_viewer :: "int option"
  oq_state :: "string option"
  oq_code :: "string option"
  oq_cookies :: "(string \<times> string) list"

definition handle_donation_alerts_authorize ::
  "oauth_env \<Rightarrow> (service_request \<Rightarrow> service_reply) \<Rightarrow> oauth_request \<Rightarrow> service_request list \<Rightarrow>
    oauth_response \<times> service_request list" where
  "handle_donation_alerts_authorize env net req outbox =
     (case oq_viewer req of
        None \<Rightarrow> (refuse 401 (Some ''Unauthorized'') None, outbox)
      | Some uid \<Rightarrow>
          (case call_integration env net (authorization_operation env OAuth_donationalerts []) outbox of
             (Inr (Integration_url url), sent) \<Rightarrow> (redirect_to (To_provider url) None, sent)
           | (_, sent) \<Rightarrow>
               (refuse 503 (Some ''DonationAlerts authorization is unavailable'') None, sent)))"

definition handle_donation_alerts_callback ::
  "oauth_env \<Rightarrow> (service_request \<Rightarrow> service_reply) \<Rightarrow> oauth_request \<Rightarrow> service_request list \<Rightarrow>
    oauth_response \<times> service_request list" where
  "handle_donation_alerts_callback env net req outbox =
     (case oq_code req of
        None \<Rightarrow> (refuse 400 (Some ''no auth code'') None, outbox)
      | Some auth \<Rightarrow>
          if \<not> valid_auth_code auth then (refuse 400 (Some ''no auth code'') None, outbox)
          else (case oq_viewer req of
             None \<Rightarrow> (refuse 401 (Some ''Unauthorized'') None, outbox)
           | Some uid \<Rightarrow>
               (case call_integration env net (connect_operation env OAuth_donationalerts uid auth) outbox of
                  (r, sent) \<Rightarrow>
                    (redirect_to (integration_result_url env OAuth_donationalerts (\<not> isl r)) None, sent))))"

text \<open>The two sources with a state share their handlers up to what an error looks like.\<close>

definition handle_streamlabs_authorize ::
  "oauth_env \<Rightarrow> (service_request \<Rightarrow> service_reply) \<Rightarrow> byte list \<Rightarrow> oauth_request \<Rightarrow> service_request list \<Rightarrow>
    oauth_response \<times> service_request list" where
  "handle_streamlabs_authorize env net random req outbox =
     (case oq_viewer req of
        None \<Rightarrow> (refuse 401 (Some ''Unauthorized'') None, outbox)
      | Some uid \<Rightarrow>
          (case create_oauth_attempt env (oauth_cookie_name OAuth_streamlabs) random uid of
             (state, cookie) \<Rightarrow>
               (case call_integration env net (authorization_operation env OAuth_streamlabs state) outbox of
                  (Inr (Integration_url url), sent) \<Rightarrow> (redirect_to (To_provider url) (Some cookie), sent)
                | (_, sent) \<Rightarrow>
                    (refuse 503 (Some ''Streamlabs authorization is unavailable'') None, sent))))"

definition handle_streamelements_authorize ::
  "oauth_env \<Rightarrow> (service_request \<Rightarrow> service_reply) \<Rightarrow> byte list \<Rightarrow> oauth_request \<Rightarrow> service_request list \<Rightarrow>
    oauth_response \<times> service_request list" where
  "handle_streamelements_authorize env net random req outbox =
     (case oq_viewer req of
        None \<Rightarrow> (refuse 401 None None, outbox)
      | Some uid \<Rightarrow>
          (case create_oauth_attempt env (oauth_cookie_name OAuth_streamelements) random uid of
             (state, cookie) \<Rightarrow>
               (case call_integration env net (authorization_operation env OAuth_streamelements state) outbox of
                  (Inr (Integration_url url), sent) \<Rightarrow> (redirect_to (To_provider url) (Some cookie), sent)
                | (_, sent) \<Rightarrow>
                    (redirect_to (integration_result_url env OAuth_streamelements False)
                       (Some (clear_oauth_attempt env (oauth_cookie_name OAuth_streamelements))), sent))))"

definition state_verified :: "oauth_env \<Rightarrow> oauth_source \<Rightarrow> oauth_request \<Rightarrow> int \<Rightarrow> bool" where
  "state_verified env src req uid \<longleftrightarrow>
     (case oq_state req of
        None \<Rightarrow> False
      | Some state \<Rightarrow>
          valid_oauth_state state \<and> verify_oauth_attempt env (oauth_cookie_name src) (oq_cookies req) state uid)"

definition finish_callback ::
  "oauth_env \<Rightarrow> (service_request \<Rightarrow> service_reply) \<Rightarrow> oauth_source \<Rightarrow> set_cookie \<Rightarrow> int \<Rightarrow> string option \<Rightarrow>
    service_request list \<Rightarrow> oauth_response \<times> service_request list" where
  "finish_callback env net src clear_cookie uid auth_code outbox =
     (case auth_code of
        None \<Rightarrow> (redirect_to (integration_result_url env src False) (Some clear_cookie), outbox)
      | Some auth \<Rightarrow>
          if \<not> valid_auth_code auth
          then (redirect_to (integration_result_url env src False) (Some clear_cookie), outbox)
          else (case call_integration env net (connect_operation env src uid auth) outbox of
                  (r, sent) \<Rightarrow>
                    (redirect_to (integration_result_url env src (\<not> isl r)) (Some clear_cookie), sent)))"

definition handle_streamlabs_callback ::
  "oauth_env \<Rightarrow> (service_request \<Rightarrow> service_reply) \<Rightarrow> oauth_request \<Rightarrow> service_request list \<Rightarrow>
    oauth_response \<times> service_request list" where
  "handle_streamlabs_callback env net req outbox =
     (let clear_cookie = clear_oauth_attempt env (oauth_cookie_name OAuth_streamlabs) in
      case oq_viewer req of
        None \<Rightarrow> (refuse 401 (Some ''Unauthorized'') (Some clear_cookie), outbox)
      | Some uid \<Rightarrow>
          if \<not> state_verified env OAuth_streamlabs req uid
          then (refuse 400 (Some ''invalid OAuth state'') (Some clear_cookie), outbox)
          else finish_callback env net OAuth_streamlabs clear_cookie uid (oq_code req) outbox)"

definition handle_streamelements_callback ::
  "oauth_env \<Rightarrow> (service_request \<Rightarrow> service_reply) \<Rightarrow> oauth_request \<Rightarrow> service_request list \<Rightarrow>
    oauth_response \<times> service_request list" where
  "handle_streamelements_callback env net req outbox =
     (let clear_cookie = clear_oauth_attempt env (oauth_cookie_name OAuth_streamelements) in
      case oq_viewer req of
        None \<Rightarrow> (refuse 401 None (Some clear_cookie), outbox)
      | Some uid \<Rightarrow>
          if \<not> state_verified env OAuth_streamelements req uid
          then (redirect_to (integration_result_url env OAuth_streamelements False) (Some clear_cookie), outbox)
          else finish_callback env net OAuth_streamelements clear_cookie uid (oq_code req) outbox)"

section \<open>A browser and its cookies\<close>

text \<open>
  A browser keeps the cookies it is sent, drops those that have expired, and returns all of them with
  its next request.  The events are the visits of the routes in the order they are answered.
\<close>

datatype oauth_event =
    Authorize_visit oauth_source "int option" "byte list"
  | Callback_visit oauth_source "int option" "string option" "string option"

record oauth_browser =
  ob_cookies :: "(string \<times> string) list"
  ob_outbox :: "service_request list"

definition store_cookie :: "set_cookie option \<Rightarrow> (string \<times> string) list \<Rightarrow> (string \<times> string) list" where
  "store_cookie c jar =
     (case c of
        None \<Rightarrow> jar
      | Some k \<Rightarrow> (let others = filter (\<lambda>(name, _). name \<noteq> ck_name k) jar
                   in if ck_max_age k \<le> 0 then others else (ck_name k, ck_value k) # others))"

definition answer_oauth ::
  "oauth_env \<Rightarrow> (service_request \<Rightarrow> service_reply) \<Rightarrow> oauth_browser \<Rightarrow> oauth_event \<Rightarrow>
    oauth_response \<times> service_request list" where
  "answer_oauth env net b ev =
     (case ev of
        Authorize_visit src who random \<Rightarrow>
          (let req = \<lparr>oq_viewer = who, oq_state = None, oq_code = None, oq_cookies = ob_cookies b\<rparr> in
           case src of
             OAuth_donationalerts \<Rightarrow> handle_donation_alerts_authorize env net req (ob_outbox b)
           | OAuth_streamlabs \<Rightarrow> handle_streamlabs_authorize env net random req (ob_outbox b)
           | OAuth_streamelements \<Rightarrow> handle_streamelements_authorize env net random req (ob_outbox b))
      | Callback_visit src who state auth \<Rightarrow>
          (let req = \<lparr>oq_viewer = who, oq_state = state, oq_code = auth, oq_cookies = ob_cookies b\<rparr> in
           case src of
             OAuth_donationalerts \<Rightarrow> handle_donation_alerts_callback env net req (ob_outbox b)
           | OAuth_streamlabs \<Rightarrow> handle_streamlabs_callback env net req (ob_outbox b)
           | OAuth_streamelements \<Rightarrow> handle_streamelements_callback env net req (ob_outbox b)))"

definition oauth_step ::
  "oauth_env \<Rightarrow> (service_request \<Rightarrow> service_reply) \<Rightarrow> oauth_browser \<Rightarrow> oauth_event \<Rightarrow> oauth_browser" where
  "oauth_step env net b ev =
     (case answer_oauth env net b ev of
        (resp, sent) \<Rightarrow> \<lparr>ob_cookies = store_cookie (or_cookie resp) (ob_cookies b), ob_outbox = sent\<rparr>)"

definition new_browser :: oauth_browser where
  "new_browser = \<lparr>ob_cookies = [], ob_outbox = []\<rparr>"

end
