(* ===== verification/Restream.thy ===== *)
theory Restream
  imports RestreamSchemas
begin

text \<open>
  The restream store (\<open>server/restream/store.ts\<close>) over the tables of \<open>db/schema.sql\<close>: ingest keys,
  destinations with their positions, sessions and the destinations of a session.  Every operation is
  one transaction, run here one after another; a constraint that a statement violates aborts it.  Identifiers the database
  generates, random bytes and the time are arguments, and comparing with a \<open>uuid\<close> column lower-cases
  the client's text.
\<close>

record ingest_row =
  ri_user :: int
  ri_hash :: string
  ri_ciphertext :: "byte list"

record destination_row =
  rd_id :: string
  rd_user :: int
  rd_platform :: restream_platform
  rd_label :: string
  rd_server_url :: string
  rd_ciphertext :: "byte list"
  rd_hint :: string
  rd_enabled :: bool
  rd_position :: int

record session_row =
  rs_id :: string
  rs_user :: int
  rs_node :: string
  rs_publisher :: string
  rs_status :: session_status
  rs_started_at :: timestamp
  rs_live_at :: "timestamp option"
  rs_last_heartbeat_at :: timestamp
  rs_ended_at :: "timestamp option"

record session_destination_row =
  sd_session :: string
  sd_destination :: string
  sd_user :: int
  sd_state :: destination_state
  sd_bytes :: int

record restream_db =
  r_users :: "int list"
  r_ingests :: "ingest_row list"
  r_destinations :: "destination_row list"
  r_sessions :: "session_row list"
  r_session_destinations :: "session_destination_row list"

datatype restream_failure =
    Destination_limit
  | Destination_not_found
  | Invalid_target
  | Decryption_failed
  | Invalid_row
  | Constraint_violation string

text \<open>What the server process keeps: the cipher's key and the public ingest address.\<close>

record restream_env =
  re_crypto :: crypto
  re_key :: "byte list"
  re_sha256_hex :: "string \<Rightarrow> string"
  re_ingest_url :: string
  re_urls :: url_api
  re_is_ipv6 :: "string \<Rightarrow> bool"

definition uuid_of :: "string \<Rightarrow> string" where "uuid_of s = to_lower s"

definition active :: "session_row \<Rightarrow> bool" where "active s \<longleftrightarrow> rs_status s \<noteq> Session_ended"

section \<open>Constraints\<close>

fun violated :: "(bool \<times> string) list \<Rightarrow> string option" where
  "violated [] = None"
| "violated ((ok, name) # rest) = (if ok then violated rest else Some name)"

definition check_all :: "(bool \<times> string) list \<Rightarrow> 'a \<Rightarrow> restream_failure + 'a" where
  "check_all constraints x =
     (case violated constraints of None \<Rightarrow> Inr x | Some name \<Rightarrow> Inl (Constraint_violation name))"

definition ciphertext_check :: "byte list \<Rightarrow> bool" where
  "ciphertext_check bs \<longleftrightarrow> 30 \<le> length bs \<and> length bs \<le> 2048"

definition server_url_check :: "string \<Rightarrow> bool" where
  "server_url_check s \<longleftrightarrow>
     10 \<le> length s \<and> length s \<le> 2048 \<and> rtmp_rest s \<noteq> None \<and> CHR ''#'' \<notin> set s"

definition destination_constraints :: "restream_db \<Rightarrow> destination_row list \<Rightarrow> (bool \<times> string) list" where
  "destination_constraints db rows =
     [(list_all (\<lambda>d. label_check (rd_label d)) rows, ''restream_destination_label_check''),
      (list_all (\<lambda>d. 0 \<le> rd_position d) rows, ''nonnegative_int_check''),
      (list_all (\<lambda>d. rd_position d < 3) rows, ''restream_destination_position_check''),
      (list_all (\<lambda>d. server_url_check (rd_server_url d)) rows, ''restream_destination_server_url_check''),
      (list_all (\<lambda>d. ciphertext_check (rd_ciphertext d)) rows,
       ''restream_destination_stream_key_ciphertext_check''),
      (list_all (\<lambda>d. 1 \<le> length (rd_hint d) \<and> length (rd_hint d) \<le> 8) rows,
       ''restream_destination_stream_key_hint_check''),
      (distinct (map rd_id rows), ''restream_destination_pkey''),
      (distinct (map (\<lambda>d. (rd_user d, rd_position d)) rows), ''restream_destination_user_id_position_key''),
      (list_all (\<lambda>d. rd_user d \<in> set (r_users db)) rows, ''restream_destination_user_id_fkey'')]"

definition ingest_constraints :: "restream_db \<Rightarrow> ingest_row list \<Rightarrow> (bool \<times> string) list" where
  "ingest_constraints db rows =
     [(list_all (\<lambda>i. ciphertext_check (ri_ciphertext i)) rows, ''restream_ingest_stream_key_ciphertext_check''),
      (distinct (map ri_user rows), ''restream_ingest_pkey''),
      (distinct (map ri_hash rows), ''restream_ingest_stream_key_hash_key''),
      (list_all (\<lambda>i. ri_user i \<in> set (r_users db)) rows, ''restream_ingest_user_id_fkey'')]"

definition session_check :: "session_row \<Rightarrow> bool" where
  "session_check s \<longleftrightarrow>
     (rs_status s = Connecting \<and> rs_live_at s = None \<and> rs_ended_at s = None) \<or>
     (rs_status s = Live \<and> rs_live_at s \<noteq> None \<and> rs_ended_at s = None) \<or>
     (rs_status s = Session_ended \<and> rs_ended_at s \<noteq> None)"

definition session_constraints :: "restream_db \<Rightarrow> session_row list \<Rightarrow> (bool \<times> string) list" where
  "session_constraints db rows =
     [(list_all session_check rows, ''restream_session_check''),
      (list_all (\<lambda>s. 1 \<le> length (rs_node s) \<and> length (rs_node s) \<le> 64) rows, ''restream_session_node_id_check''),
      (list_all (\<lambda>s. 1 \<le> length (rs_publisher s) \<and> length (rs_publisher s) \<le> 128) rows,
       ''restream_session_publisher_id_check''),
      (distinct (map rs_id rows), ''restream_session_pkey''),
      (distinct (map (\<lambda>s. (rs_node s, rs_publisher s)) (filter active rows)), ''restream_session_active_publisher_idx''),
      (distinct (map rs_user (filter active rows)), ''restream_session_active_user_idx''),
      (list_all (\<lambda>s. rs_user s \<in> set (r_users db)) rows, ''restream_session_user_id_fkey'')]"

definition session_destination_constraints ::
  "restream_db \<Rightarrow> session_destination_row list \<Rightarrow> (bool \<times> string) list" where
  "session_destination_constraints db rows =
     [(list_all (\<lambda>r. 0 \<le> sd_bytes r) rows, ''restream_session_destination_outbound_bytes_check''),
      (distinct (map (\<lambda>r. (sd_session r, sd_destination r)) rows), ''restream_session_destination_pkey''),
      (list_all (\<lambda>r. (sd_destination r, sd_user r) \<in> (\<lambda>d. (rd_id d, rd_user d)) ` set (r_destinations db)) rows,
       ''restream_session_destination_restream_destination_id_user__fkey''),
      (list_all (\<lambda>r. (sd_session r, sd_user r) \<in> (\<lambda>s. (rs_id s, rs_user s)) ` set (r_sessions db)) rows,
       ''restream_session_destination_restream_session_id_user_id_fkey'')]"

definition store_destinations :: "restream_db \<Rightarrow> destination_row list \<Rightarrow> restream_failure + restream_db" where
  "store_destinations db rows = check_all (destination_constraints db rows) (db\<lparr>r_destinations := rows\<rparr>)"

definition store_ingests :: "restream_db \<Rightarrow> ingest_row list \<Rightarrow> restream_failure + restream_db" where
  "store_ingests db rows = check_all (ingest_constraints db rows) (db\<lparr>r_ingests := rows\<rparr>)"

definition store_sessions :: "restream_db \<Rightarrow> session_row list \<Rightarrow> restream_failure + restream_db" where
  "store_sessions db rows = check_all (session_constraints db rows) (db\<lparr>r_sessions := rows\<rparr>)"

definition store_session_destinations ::
  "restream_db \<Rightarrow> session_destination_row list \<Rightarrow> restream_failure + restream_db" where
  "store_session_destinations db rows =
     check_all (session_destination_constraints db rows) (db\<lparr>r_session_destinations := rows\<rparr>)"

section \<open>Configuration\<close>

definition destination_view_of :: "destination_row \<Rightarrow> destination_view" where
  "destination_view_of d =
     \<lparr>dv_id = rd_id d, dv_platform = rd_platform d, dv_label = rd_label d, dv_server_url = rd_server_url d,
      dv_key_hint = rd_hint d, dv_enabled = rd_enabled d, dv_position = rd_position d\<rparr>"

definition destinations_of :: "restream_db \<Rightarrow> int \<Rightarrow> destination_row list" where
  "destinations_of db uid = sort_key rd_position (filter (\<lambda>d. rd_user d = uid) (r_destinations db))"

definition session_destinations :: "restream_db \<Rightarrow> string \<Rightarrow> session_state list" where
  "session_destinations db session_id =
     map (\<lambda>r. \<lparr>ss_id = sd_destination r, ss_state = sd_state r, ss_bytes = sd_bytes r\<rparr>)
       (sort_key (\<lambda>r. map code (sd_destination r))
         (filter (\<lambda>r. sd_session r = session_id) (r_session_destinations db)))"

definition recent_session :: "timestamp \<Rightarrow> restream_db \<Rightarrow> int \<Rightarrow> session_row option" where
  "recent_session now db uid =
     first_row (sort_key (\<lambda>s. - rs_started_at s)
       (filter (\<lambda>s. rs_user s = uid \<and> active s \<and> rs_last_heartbeat_at s \<ge> now - 30000) (r_sessions db)))"

definition session_view_of :: "restream_db \<Rightarrow> session_row \<Rightarrow> session_view" where
  "session_view_of db s =
     \<lparr>sv_id = rs_id s, sv_status = rs_status s, sv_started_at = rs_started_at s, sv_live_at = rs_live_at s,
      sv_last_heartbeat_at = rs_last_heartbeat_at s, sv_destinations = session_destinations db (rs_id s)\<rparr>"

definition ingest_view :: "restream_env \<Rightarrow> ingest_row option \<Rightarrow> restream_failure + (string \<times> string) option" where
  "ingest_view env row =
     (case row of
        None \<Rightarrow> Inr None
      | Some i \<Rightarrow>
          bind_result (expect (decrypt (re_crypto env) (re_key env) (ri_ciphertext i)) Decryption_failed)
            (\<lambda>key. Inr (Some (re_ingest_url env, key))))"

definition config :: "restream_env \<Rightarrow> timestamp \<Rightarrow> int \<Rightarrow> restream_db \<Rightarrow> restream_failure + restream_config" where
  "config env now uid db =
     bind_result (ingest_view env (first_row (filter (\<lambda>i. ri_user i = uid) (r_ingests db)))) (\<lambda>ingest.
       expect (parse_config
         \<lparr>rc_ingest = ingest,
          rc_destinations = map destination_view_of (destinations_of db uid),
          rc_session = map_option (session_view_of db) (recent_session now db uid)\<rparr>) Invalid_row)"

section \<open>Ingest keys and destinations\<close>

definition rotate_ingest_key ::
  "restream_env \<Rightarrow> byte list \<Rightarrow> byte list \<Rightarrow> int \<Rightarrow> restream_db \<Rightarrow> (restream_failure + string) \<times> restream_db" where
  "rotate_ingest_key env random nonce uid db =
     atomically db
       (bind_result (expect (create_ingest_key random) Invalid_row) (\<lambda>key.
        let row = \<lparr>ri_user = uid, ri_hash = re_sha256_hex env key,
                   ri_ciphertext = encrypt (re_crypto env) (re_key env) nonce key\<rparr>;
            rows = (if uid \<in> ri_user ` set (r_ingests db)
                    then update_where (\<lambda>i. ri_user i = uid) (\<lambda>_. row) (r_ingests db)
                    else r_ingests db @ [row])
        in bind_result (store_ingests db rows) (\<lambda>db'. Inr (key, db'))))"

record destination_input =
  di_platform :: restream_platform
  di_label :: string
  di_server_url :: string
  di_stream_key :: "string option"

definition create_destination ::
  "restream_env \<Rightarrow> byte list \<Rightarrow> string \<Rightarrow> int \<Rightarrow> restream_platform \<Rightarrow> string \<Rightarrow> string \<Rightarrow> string \<Rightarrow> restream_db \<Rightarrow>
    (restream_failure + string) \<times> restream_db" where
  "create_destination env nonce new_id uid platform label server_url stream_key db =
     atomically db
       (let count = length (filter (\<lambda>d. rd_user d = uid) (r_destinations db)) in
        bind_result (ensure (count < max_restream_destinations) Destination_limit) (\<lambda>_.
        bind_result (store_destinations db (r_destinations db @
          [\<lparr>rd_id = new_id, rd_user = uid, rd_platform = platform, rd_label = label, rd_server_url = server_url,
            rd_ciphertext = encrypt (re_crypto env) (re_key env) nonce stream_key,
            rd_hint = stream_key_hint stream_key, rd_enabled = True, rd_position = int count\<rparr>])) (\<lambda>db'.
        bind_result (ensure (valid_uuid new_id) Invalid_row) (\<lambda>_. Inr (new_id, db')))))"

definition own_destination :: "int \<Rightarrow> string \<Rightarrow> destination_row \<Rightarrow> bool" where
  "own_destination uid destination_id d \<longleftrightarrow> rd_id d = uuid_of destination_id \<and> rd_user d = uid"

text \<open>An \<open>UPDATE\<close> of one destination of the user that must find it.\<close>

definition update_own_destination ::
  "int \<Rightarrow> string \<Rightarrow> (destination_row \<Rightarrow> destination_row) \<Rightarrow> restream_db \<Rightarrow> (restream_failure + unit) \<times> restream_db" where
  "update_own_destination uid destination_id f db =
     atomically db
       (bind_result (store_destinations db
          (update_where (own_destination uid destination_id) f (r_destinations db))) (\<lambda>db'.
        bind_result (ensure (list_ex (own_destination uid destination_id) (r_destinations db))
          Destination_not_found) (\<lambda>_. Inr ((), db'))))"

definition edited_destination ::
  "restream_env \<Rightarrow> byte list \<Rightarrow> destination_input \<Rightarrow> destination_row \<Rightarrow> destination_row" where
  "edited_destination env nonce inp d =
     (let d' = d\<lparr>rd_platform := di_platform inp, rd_label := di_label inp, rd_server_url := di_server_url inp\<rparr>
      in case di_stream_key inp of
           None \<Rightarrow> d'
         | Some key \<Rightarrow> d'\<lparr>rd_ciphertext := encrypt (re_crypto env) (re_key env) nonce key,
                          rd_hint := stream_key_hint key\<rparr>)"

definition update_destination ::
  "restream_env \<Rightarrow> byte list \<Rightarrow> int \<Rightarrow> string \<Rightarrow> destination_input \<Rightarrow> restream_db \<Rightarrow>
    (restream_failure + unit) \<times> restream_db" where
  "update_destination env nonce uid destination_id inp db =
     update_own_destination uid destination_id (edited_destination env nonce inp) db"

definition set_destination_enabled ::
  "int \<Rightarrow> string \<Rightarrow> bool \<Rightarrow> restream_db \<Rightarrow> (restream_failure + unit) \<times> restream_db" where
  "set_destination_enabled uid destination_id enabled db =
     update_own_destination uid destination_id (\<lambda>d. d\<lparr>rd_enabled := enabled\<rparr>) db"

text \<open>The loop that moves the remaining destinations to the positions 0, 1, ... one at a time.\<close>

fun compact_positions :: "restream_db \<Rightarrow> nat \<Rightarrow> destination_row list \<Rightarrow> restream_failure + restream_db" where
  "compact_positions db position [] = Inr db"
| "compact_positions db position (destination # rest) =
     (if rd_position destination = int position then compact_positions db (position + 1) rest
      else bind_result
        (store_destinations db
          (update_where (\<lambda>d. rd_id d = rd_id destination) (\<lambda>d. d\<lparr>rd_position := int position\<rparr>) (r_destinations db)))
        (\<lambda>db'. compact_positions db' (position + 1) rest))"

text \<open>\<open>DELETE\<close> with its cascade to the sessions.\<close>

definition remove_destination :: "int \<Rightarrow> string \<Rightarrow> restream_db \<Rightarrow> restream_db" where
  "remove_destination uid destination_id db =
     db\<lparr>r_destinations := delete_where (own_destination uid destination_id) (r_destinations db),
        r_session_destinations :=
          delete_where (\<lambda>r. sd_destination r = uuid_of destination_id \<and> sd_user r = uid) (r_session_destinations db)\<rparr>"

definition delete_destination :: "int \<Rightarrow> string \<Rightarrow> restream_db \<Rightarrow> (restream_failure + unit) \<times> restream_db" where
  "delete_destination uid destination_id db =
     atomically db
       (bind_result (ensure (list_ex (own_destination uid destination_id) (r_destinations db))
          Destination_not_found) (\<lambda>_.
        let db' = remove_destination uid destination_id db in
        bind_result (ensure (list_all (\<lambda>d. valid_uuid (rd_id d)) (destinations_of db' uid)) Invalid_row) (\<lambda>_.
        bind_result (compact_positions db' 0 (destinations_of db' uid)) (\<lambda>db''. Inr ((), db'')))))"

section \<open>Publishers\<close>

definition end_row :: "timestamp \<Rightarrow> session_row \<Rightarrow> session_row" where
  "end_row now s = s\<lparr>rs_status := Session_ended, rs_ended_at := Some now, rs_last_heartbeat_at := now\<rparr>"

definition new_session :: "timestamp \<Rightarrow> string \<Rightarrow> int \<Rightarrow> string \<Rightarrow> string \<Rightarrow> session_row" where
  "new_session now new_id uid node publisher =
     \<lparr>rs_id = new_id, rs_user = uid, rs_node = node, rs_publisher = publisher, rs_status = Connecting,
      rs_started_at = now, rs_live_at = None, rs_last_heartbeat_at = now, rs_ended_at = None\<rparr>"

fun insert_session_destinations ::
  "string \<Rightarrow> int \<Rightarrow> destination_row list \<Rightarrow> restream_db \<Rightarrow> restream_failure + restream_db" where
  "insert_session_destinations session_id uid [] db = Inr db"
| "insert_session_destinations session_id uid (d # rest) db =
     bind_result (store_session_destinations db (r_session_destinations db @
       [\<lparr>sd_session = session_id, sd_destination = rd_id d, sd_user = uid, sd_state = Idle, sd_bytes = 0\<rparr>]))
       (insert_session_destinations session_id uid rest)"

fun decrypt_targets :: "restream_env \<Rightarrow> destination_row list \<Rightarrow> restream_failure + (string \<times> string) list" where
  "decrypt_targets env [] = Inr []"
| "decrypt_targets env (d # rest) =
     bind_result (expect (decrypt (re_crypto env) (re_key env) (rd_ciphertext d)) Decryption_failed) (\<lambda>key.
     bind_result (decrypt_targets env rest) (\<lambda>targets.
       Inr ((rd_id d, rd_server_url d @ ''#'' @ key) # targets)))"

definition enabled_destinations :: "restream_db \<Rightarrow> int \<Rightarrow> destination_row list" where
  "enabled_destinations db uid = filter rd_enabled (destinations_of db uid)"

definition start_session ::
  "restream_env \<Rightarrow> timestamp \<Rightarrow> string \<Rightarrow> string \<Rightarrow> string \<Rightarrow> int \<Rightarrow> restream_db \<Rightarrow>
    restream_failure + (authorized_publisher \<times> restream_db)" where
  "start_session env now new_id node publisher uid db =
     bind_result (store_sessions db
       (update_where (\<lambda>s. rs_user s = uid \<and> active s) (end_row now) (r_sessions db))) (\<lambda>db1.
     bind_result (store_sessions db1 (r_sessions db1 @ [new_session now new_id uid node publisher])) (\<lambda>db2.
     bind_result (ensure (valid_uuid new_id) Invalid_row) (\<lambda>_.
     bind_result (insert_session_destinations new_id uid (enabled_destinations db uid) db2) (\<lambda>db3.
     bind_result (decrypt_targets env (enabled_destinations db uid)) (\<lambda>targets.
       Inr (\<lparr>ap_session = new_id, ap_targets = targets\<rparr>, db3))))))"

definition authorize_publisher ::
  "restream_env \<Rightarrow> timestamp \<Rightarrow> string \<Rightarrow> string \<Rightarrow> string \<Rightarrow> string \<Rightarrow> restream_db \<Rightarrow>
    (restream_failure + authorized_publisher option) \<times> restream_db" where
  "authorize_publisher env now new_id node publisher key db =
     atomically db
       (case first_row (filter (\<lambda>i. ri_hash i = re_sha256_hex env key) (r_ingests db)) of
          None \<Rightarrow> Inr (None, db)
        | Some ingest \<Rightarrow>
            bind_result (ensure (0 < ri_user ingest) Invalid_row) (\<lambda>_.
            bind_result (ensure (list_all (\<lambda>d. valid_uuid (rd_id d)) (enabled_destinations db (ri_user ingest)))
              Invalid_row) (\<lambda>_.
            if enabled_destinations db (ri_user ingest) = [] then Inr (None, db)
            else bind_result (start_session env now new_id node publisher (ri_user ingest) db)
                   (\<lambda>(authorized, db'). Inr (Some authorized, db')))))"

definition running_on :: "string \<Rightarrow> string \<Rightarrow> session_row \<Rightarrow> bool" where
  "running_on node session_id s \<longleftrightarrow> rs_id s = uuid_of session_id \<and> rs_node s = node \<and> active s"

definition beat_row :: "timestamp \<Rightarrow> session_row \<Rightarrow> session_row" where
  "beat_row now s =
     s\<lparr>rs_status := Live,
       rs_live_at := (case rs_live_at s of None \<Rightarrow> Some now | Some t \<Rightarrow> Some t),
       rs_last_heartbeat_at := now\<rparr>"

fun beat_destinations :: "string \<Rightarrow> session_state list \<Rightarrow> restream_db \<Rightarrow> restream_failure + restream_db" where
  "beat_destinations session_id [] db = Inr db"
| "beat_destinations session_id (d # rest) db =
     bind_result (store_session_destinations db
       (update_where (\<lambda>r. sd_session r = uuid_of session_id \<and> sd_destination r = uuid_of (ss_id d))
         (\<lambda>r. r\<lparr>sd_state := ss_state d, sd_bytes := max (sd_bytes r) (ss_bytes d)\<rparr>) (r_session_destinations db)))
       (beat_destinations session_id rest)"

definition heartbeat ::
  "timestamp \<Rightarrow> string \<Rightarrow> string \<Rightarrow> session_state list \<Rightarrow> restream_db \<Rightarrow> (restream_failure + bool) \<times> restream_db" where
  "heartbeat now node session_id destinations db =
     atomically db
       (if \<not> list_ex (running_on node session_id) (r_sessions db) then Inr (False, db)
        else bind_result (store_sessions db
               (update_where (running_on node session_id) (beat_row now) (r_sessions db))) (\<lambda>db1.
             bind_result (beat_destinations session_id destinations db1) (\<lambda>db2. Inr (True, db2))))"

definition end_session ::
  "timestamp \<Rightarrow> string \<Rightarrow> string \<Rightarrow> restream_db \<Rightarrow> (restream_failure + bool) \<times> restream_db" where
  "end_session now node session_id db =
     atomically db
       (bind_result (store_sessions db
          (update_where (running_on node session_id) (end_row now) (r_sessions db))) (\<lambda>db'.
        Inr (list_ex (running_on node session_id) (r_sessions db), db')))"

end
