(* ===== verification/RestreamInvariant.thy ===== *)
theory RestreamInvariant
  imports Restream
begin

text \<open>
  The restream tables stay well-formed under every operation of the store: constraints and foreign
  keys hold, the positions of each user's destinations are \<open>0, 1, ...\<close> without gaps, and every stored
  credential decrypts to a valid key.
\<close>

section \<open>The invariant\<close>

definition destination_ok :: "restream_env \<Rightarrow> destination_row \<Rightarrow> bool" where
  "destination_ok env d \<longleftrightarrow>
     valid_uuid (rd_id d) \<and> uuid_of (rd_id d) = rd_id d \<and> label_ok (rd_label d) \<and>
     valid_server_url (rd_server_url d) \<and>
     (case decrypt (re_crypto env) (re_key env) (rd_ciphertext d) of None \<Rightarrow> False | Some key \<Rightarrow> valid_stream_key key)"

definition ingest_ok :: "restream_env \<Rightarrow> ingest_row \<Rightarrow> bool" where
  "ingest_ok env i \<longleftrightarrow>
     (case decrypt (re_crypto env) (re_key env) (ri_ciphertext i) of
        None \<Rightarrow> False
      | Some key \<Rightarrow> valid_ingest_key key \<and> ri_hash i = re_sha256_hex env key)"

definition session_row_ok :: "session_row \<Rightarrow> bool" where
  "session_row_ok s \<longleftrightarrow> valid_uuid (rs_id s) \<and> uuid_of (rs_id s) = rs_id s"

definition session_destination_ok :: "session_destination_row \<Rightarrow> bool" where
  "session_destination_ok r \<longleftrightarrow> z_int (sd_bytes r)"

text \<open>Positions are the first natural numbers.\<close>

definition positions_from_zero :: "restream_db \<Rightarrow> int \<Rightarrow> bool" where
  "positions_from_zero db uid \<longleftrightarrow>
     map rd_position (destinations_of db uid) = map int [0 ..< length (destinations_of db uid)]"

definition restream_base :: "restream_env \<Rightarrow> restream_db \<Rightarrow> bool" where
  "restream_base env db \<longleftrightarrow>
     violated (destination_constraints db (r_destinations db)) = None \<and>
     violated (ingest_constraints db (r_ingests db)) = None \<and>
     violated (session_constraints db (r_sessions db)) = None \<and>
     violated (session_destination_constraints db (r_session_destinations db)) = None \<and>
     list_all (destination_ok env) (r_destinations db) \<and>
     list_all (ingest_ok env) (r_ingests db) \<and>
     list_all session_row_ok (r_sessions db) \<and>
     list_all session_destination_ok (r_session_destinations db) \<and>
     list_all z_positive_int (r_users db)"

definition restream_ok :: "restream_env \<Rightarrow> restream_db \<Rightarrow> bool" where
  "restream_ok env db \<longleftrightarrow>
     restream_base env db \<and> list_all (positions_from_zero db) (r_users db)"

text \<open>The server is configured with a cipher that works.\<close>

definition env_ok :: "restream_env \<Rightarrow> bool" where
  "env_ok env \<longleftrightarrow> crypto_ok (re_crypto env) \<and> valid_ingest_server (re_ingest_url env)"

section \<open>Checked writes\<close>

lemma violated_None [simp]: "violated cs = None \<longleftrightarrow> list_all fst cs"
  by (induction cs rule: violated.induct) simp_all

lemma check_all_Inr: "check_all cs x = Inr y \<longleftrightarrow> list_all fst cs \<and> y = x"
  using violated_None [of cs] by (cases "violated cs") (auto simp: check_all_def simp del: violated_None)

lemmas store_defs = store_destinations_def store_ingests_def store_sessions_def store_session_destinations_def

lemma stored_destinations:
  "store_destinations db rows = Inr db' \<longleftrightarrow>
     list_all fst (destination_constraints db rows) \<and> db' = db\<lparr>r_destinations := rows\<rparr>"
  and stored_ingests:
  "store_ingests db is = Inr db' \<longleftrightarrow>
     list_all fst (ingest_constraints db is) \<and> db' = db\<lparr>r_ingests := is\<rparr>"
  and stored_sessions:
  "store_sessions db ss = Inr db' \<longleftrightarrow>
     list_all fst (session_constraints db ss) \<and> db' = db\<lparr>r_sessions := ss\<rparr>"
  and stored_session_destinations:
  "store_session_destinations db ds = Inr db' \<longleftrightarrow>
     list_all fst (session_destination_constraints db ds) \<and> db' = db\<lparr>r_session_destinations := ds\<rparr>"
  by (simp_all add: store_defs check_all_Inr)

text \<open>The constraints read the users, and for the session destinations the keys they refer to.\<close>

lemma constraints_cong [simp]:
  "destination_constraints (db\<lparr>r_destinations := ds\<rparr>) = destination_constraints db"
  "destination_constraints (db\<lparr>r_ingests := is\<rparr>) = destination_constraints db"
  "destination_constraints (db\<lparr>r_sessions := ss\<rparr>) = destination_constraints db"
  "destination_constraints (db\<lparr>r_session_destinations := sds\<rparr>) = destination_constraints db"
  "ingest_constraints (db\<lparr>r_destinations := ds\<rparr>) = ingest_constraints db"
  "ingest_constraints (db\<lparr>r_ingests := is\<rparr>) = ingest_constraints db"
  "ingest_constraints (db\<lparr>r_sessions := ss\<rparr>) = ingest_constraints db"
  "ingest_constraints (db\<lparr>r_session_destinations := sds\<rparr>) = ingest_constraints db"
  "session_constraints (db\<lparr>r_destinations := ds\<rparr>) = session_constraints db"
  "session_constraints (db\<lparr>r_ingests := is\<rparr>) = session_constraints db"
  "session_constraints (db\<lparr>r_sessions := ss\<rparr>) = session_constraints db"
  "session_constraints (db\<lparr>r_session_destinations := sds\<rparr>) = session_constraints db"
  "session_destination_constraints (db\<lparr>r_ingests := is\<rparr>) = session_destination_constraints db"
  "session_destination_constraints (db\<lparr>r_session_destinations := sds\<rparr>) = session_destination_constraints db"
  by (rule ext; simp add: destination_constraints_def ingest_constraints_def session_constraints_def
      session_destination_constraints_def)+

definition destination_keys :: "destination_row list \<Rightarrow> (string \<times> int) set" where
  "destination_keys rows = (\<lambda>d. (rd_id d, rd_user d)) ` set rows"

definition session_keys :: "session_row list \<Rightarrow> (string \<times> int) set" where
  "session_keys rows = (\<lambda>s. (rs_id s, rs_user s)) ` set rows"

lemma session_destinations_keep_destinations:
  assumes "list_all fst (session_destination_constraints db rows)"
    and "destination_keys (r_destinations db) \<subseteq> destination_keys ds"
  shows "list_all fst (session_destination_constraints (db\<lparr>r_destinations := ds\<rparr>) rows)"
  using assms unfolding session_destination_constraints_def destination_keys_def
  by (simp add: list_all_iff) blast

lemma session_destinations_keep_sessions:
  assumes "list_all fst (session_destination_constraints db rows)"
    and "session_keys (r_sessions db) \<subseteq> session_keys ss"
  shows "list_all fst (session_destination_constraints (db\<lparr>r_sessions := ss\<rparr>) rows)"
  using assms unfolding session_destination_constraints_def session_keys_def
  by (simp add: list_all_iff) blast

lemma write_destinations_base:
  assumes "restream_base env db" and "store_destinations db rows = Inr db'"
    and "list_all (destination_ok env) rows"
    and "destination_keys (r_destinations db) \<subseteq> destination_keys rows"
  shows "restream_base env db'"
  using assms session_destinations_keep_destinations
  by (simp add: restream_base_def stored_destinations)

lemma write_sessions_base:
  assumes "restream_base env db" and "store_sessions db rows = Inr db'"
    and "list_all session_row_ok rows"
    and "session_keys (r_sessions db) \<subseteq> session_keys rows"
  shows "restream_base env db'"
  using assms session_destinations_keep_sessions
  by (simp add: restream_base_def stored_sessions)

lemma write_ingests_base:
  assumes "restream_base env db" and "store_ingests db rows = Inr db'" and "list_all (ingest_ok env) rows"
  shows "restream_base env db'"
  using assms by (simp add: restream_base_def stored_ingests)

lemma write_session_destinations_base:
  assumes "restream_base env db" and "store_session_destinations db rows = Inr db'"
    and "list_all session_destination_ok rows"
  shows "restream_base env db'"
  using assms by (simp add: restream_base_def stored_session_destinations)

lemma positions_cong:
  assumes "r_destinations db' = r_destinations db" and "r_users db' = r_users db"
  shows "list_all (positions_from_zero db') (r_users db') = list_all (positions_from_zero db) (r_users db)"
  using assms by (simp add: positions_from_zero_def destinations_of_def cong: list.pred_cong)

section \<open>Positions\<close>

lemma map_sort_key: "map k (sort_key k xs) = sort (map k xs)"
  by (rule properties_for_sort [symmetric]) simp_all

lemma positions_iff:
  "positions_from_zero db uid \<longleftrightarrow>
     mset (map rd_position (filter (\<lambda>d. rd_user d = uid) (r_destinations db))) =
     mset (map int [0 ..< length (filter (\<lambda>d. rd_user d = uid) (r_destinations db))])"
proof -
  let ?rows = "filter (\<lambda>d. rd_user d = uid) (r_destinations db)"
  have "sort (map rd_position ?rows) = map int [0 ..< length ?rows] \<longleftrightarrow>
      mset (map rd_position ?rows) = mset (map int [0 ..< length ?rows])"
  proof
    assume "sort (map rd_position ?rows) = map int [0 ..< length ?rows]"
    then show "mset (map rd_position ?rows) = mset (map int [0 ..< length ?rows])"
      by (metis mset_sort)
  next
    assume eq: "mset (map rd_position ?rows) = mset (map int [0 ..< length ?rows])"
    have "sorted (map int [0 ..< length ?rows])"
      by (simp add: sorted_iff_nth_mono)
    with eq show "sort (map rd_position ?rows) = map int [0 ..< length ?rows]"
      by (metis properties_for_sort)
  qed
  then show ?thesis by (simp add: positions_from_zero_def destinations_of_def map_sort_key)
qed

lemma positions_same_keys:
  assumes "map (\<lambda>d. (rd_user d, rd_position d)) rows = map (\<lambda>d. (rd_user d, rd_position d)) (r_destinations db)"
    and "positions_from_zero db uid"
  shows "positions_from_zero (db\<lparr>r_destinations := rows\<rparr>) uid"
proof -
  have split: "map rd_position (filter (\<lambda>d. rd_user d = uid) xs) =
      map snd (filter (\<lambda>k. fst k = uid) (map (\<lambda>d. (rd_user d, rd_position d)) xs))" for xs
    by (induction xs) auto
  have "map rd_position (filter (\<lambda>d. rd_user d = uid) rows) =
      map rd_position (filter (\<lambda>d. rd_user d = uid) (r_destinations db))"
    using assms(1) by (simp only: split)
  moreover from this have "length (filter (\<lambda>d. rd_user d = uid) rows) =
      length (filter (\<lambda>d. rd_user d = uid) (r_destinations db))"
    by (metis length_map)
  ultimately show ?thesis using assms(2) by (simp add: positions_iff)
qed

lemma positions_append:
  assumes "positions_from_zero db uid"
    and "rd_user d = owner" and "rd_position d = int (length (filter (\<lambda>d. rd_user d = owner) (r_destinations db)))"
  shows "positions_from_zero (db\<lparr>r_destinations := r_destinations db @ [d]\<rparr>) uid"
  using assms by (auto simp: positions_iff atLeast0_lessThan_Suc)

section \<open>Compaction after a deletion\<close>

text \<open>The row of the j-th remaining destination gets position j.\<close>

fun renumbered :: "nat \<Rightarrow> destination_row list \<Rightarrow> destination_row \<Rightarrow> destination_row" where
  "renumbered i [] d = d"
| "renumbered i (r # rest) d =
     (if rd_id d = rd_id r then d\<lparr>rd_position := int i\<rparr> else renumbered (i + 1) rest d)"

lemma renumbered_keys [simp]:
  "rd_id (renumbered i rest d) = rd_id d" "rd_user (renumbered i rest d) = rd_user d"
  "rd_ciphertext (renumbered i rest d) = rd_ciphertext d" "rd_label (renumbered i rest d) = rd_label d"
  "rd_server_url (renumbered i rest d) = rd_server_url d" "rd_enabled (renumbered i rest d) = rd_enabled d"
  "rd_platform (renumbered i rest d) = rd_platform d" "rd_hint (renumbered i rest d) = rd_hint d"
  by (induction i rest d rule: renumbered.induct) auto

lemma renumbered_other: "rd_id d \<notin> rd_id ` set rest \<Longrightarrow> renumbered i rest d = d"
  by (induction i rest d rule: renumbered.induct) auto

lemma distinct_update_one:
  assumes "distinct (map g rows)" and "\<And>r. r \<in> set rows \<Longrightarrow> p r \<longleftrightarrow> r = r0"
    and "\<And>r. r \<in> set rows \<Longrightarrow> r \<noteq> r0 \<Longrightarrow> g r \<noteq> g (f r0)"
  shows "distinct (map g (update_where p f rows))"
  using assms
proof (induction rows)
  case (Cons a rows)
  have tail: "distinct (map g (update_where p f rows))"
    using Cons.prems by (intro Cons.IH) auto
  have "g (if p a then f a else a) \<notin> g ` set (update_where p f rows)"
  proof
    assume "g (if p a then f a else a) \<in> g ` set (update_where p f rows)"
    then obtain r where r: "r \<in> set rows" and eq: "g (if p a then f a else a) = g (if p r then f r else r)"
      by (auto simp: update_where_def)
    have ne: "g a \<noteq> g r" using Cons.prems(1) r by (auto simp: image_iff)
    show False
      using Cons.prems(2) [of a] Cons.prems(2) [of r] Cons.prems(3) [of a] Cons.prems(3) [of r] r eq ne
      by (auto split: if_splits)
  qed
  with tail show ?case by (simp add: update_where_Cons)
qed simp

lemma move_one_constraints:
  assumes "list_all fst (destination_constraints db (r_destinations db))"
    and "r \<in> set (r_destinations db)" and "int i < rd_position r"
    and "\<And>d. d \<in> set (r_destinations db) \<Longrightarrow> rd_user d = rd_user r \<Longrightarrow> rd_position d \<noteq> int i"
  shows "list_all fst (destination_constraints db
    (update_where (\<lambda>d. rd_id d = rd_id r) (\<lambda>d. d\<lparr>rd_position := int i\<rparr>) (r_destinations db)))"
proof -
  let ?rows = "r_destinations db"
  let ?p = "\<lambda>d. rd_id d = rd_id r" and ?f = "\<lambda>d. d\<lparr>rd_position := int i\<rparr>"
  have ids: "distinct (map rd_id ?rows)" and places: "distinct (map (\<lambda>d. (rd_user d, rd_position d)) ?rows)"
    and low: "rd_position r < 3"
    using assms(1,2) by (auto simp: destination_constraints_def list_all_iff)
  have one: "?p d \<longleftrightarrow> d = r" if "d \<in> set ?rows" for d
    using distinct_key_unique [OF ids] assms(2) that by blast
  have "distinct (map (\<lambda>d. (rd_user d, rd_position d)) (update_where ?p ?f ?rows))"
    by (rule distinct_update_one [OF places one]) (use assms(4) in auto)
  moreover have "map rd_id (update_where ?p ?f ?rows) = map rd_id ?rows"
    by (rule map_update_where) simp
  ultimately show ?thesis
    using assms(1,3) low ids by (auto simp: destination_constraints_def list_all_iff set_update_where)
qed

lemma renumbered_in_place:
  assumes "distinct (map rd_id rows)" and "r \<in> set rows" and "rd_position r = int i" and "rd_id r \<notin> rd_id ` set rest"
  shows "map (renumbered i (r # rest)) rows = map (renumbered (i + 1) rest) rows"
proof (rule map_cong [OF refl])
  fix d assume "d \<in> set rows"
  then have "rd_id d = rd_id r \<longleftrightarrow> d = r" using distinct_key_unique [OF assms(1)] assms(2) by blast
  then show "renumbered i (r # rest) d = renumbered (i + 1) rest d"
    using assms(3,4) renumbered_other [of d rest "i + 1"] by auto
qed

lemma renumbered_moved:
  assumes "rd_id r \<notin> rd_id ` set rest"
  shows "map (renumbered (i + 1) rest) (update_where (\<lambda>d. rd_id d = rd_id r) (\<lambda>d. d\<lparr>rd_position := int i\<rparr>) rows) =
    map (renumbered i (r # rest)) rows"
proof -
  have "renumbered (i + 1) rest (if rd_id d = rd_id r then d\<lparr>rd_position := int i\<rparr> else d) =
      renumbered i (r # rest) d" for d
    using assms renumbered_other [of "d\<lparr>rd_position := int i\<rparr>" rest "i + 1"] by auto
  then show ?thesis by (simp add: update_where_def)
qed

text \<open>The rows still to be renumbered: each comes after the one before it, and no two share their id.\<close>

lemma renumbered_rest:
  assumes "distinct (map rd_id rows)" and "set (r # rest) \<subseteq> set rows" and "sorted_wrt (<) (map rd_position (r # rest))"
  shows "rd_id r \<notin> rd_id ` set rest"
proof
  assume "rd_id r \<in> rd_id ` set rest"
  then obtain d where "d \<in> set rest" "rd_id d = rd_id r" by auto
  moreover from this have "d = r" using distinct_key_unique [OF assms(1)] assms(2) by fastforce
  ultimately show False using assms(3) by auto
qed

lemma moved_below:
  assumes "distinct (map rd_id rows)" and "r \<in> set rows"
    and "\<forall>d \<in> set rows. rd_user d = uid \<longrightarrow> d \<in> set (r # rest) \<or> rd_position d < int i"
  shows "\<forall>d \<in> set (update_where (\<lambda>d. rd_id d = rd_id r) (\<lambda>d. d\<lparr>rd_position := int i\<rparr>) rows).
    rd_user d = uid \<longrightarrow> d \<in> set rest \<or> rd_position d < int (i + 1)"
proof (intro ballI impI)
  fix d assume "d \<in> set (update_where (\<lambda>d. rd_id d = rd_id r) (\<lambda>d. d\<lparr>rd_position := int i\<rparr>) rows)"
    and user: "rd_user d = uid"
  then obtain d0 where d0: "d0 \<in> set rows" and d: "d = (if rd_id d0 = rd_id r then d0\<lparr>rd_position := int i\<rparr> else d0)"
    by (auto simp: set_update_where)
  have "rd_id d0 = rd_id r \<longleftrightarrow> d0 = r" using distinct_key_unique [OF assms(1)] assms(2) d0 by blast
  then show "d \<in> set rest \<or> rd_position d < int (i + 1)"
    using d user d0 assms(3) by (cases "d0 = r") fastforce+
qed

lemma compact_positions_exact:
  assumes "list_all fst (destination_constraints db (r_destinations db))"
    and "set rest \<subseteq> set (r_destinations db)" and "\<forall>r \<in> set rest. rd_user r = uid \<and> int i \<le> rd_position r"
    and "sorted_wrt (<) (map rd_position rest)"
    and "\<forall>d \<in> set (r_destinations db). rd_user d = uid \<longrightarrow> d \<in> set rest \<or> rd_position d < int i"
  shows "compact_positions db i rest =
    Inr (db\<lparr>r_destinations := map (renumbered i rest) (r_destinations db)\<rparr>)"
  using assms
proof (induction rest arbitrary: db i)
  case Nil
  then show ?case by simp
next
  case (Cons r rest)
  let ?rows = "r_destinations db"
  have ids: "distinct (map rd_id ?rows)" using Cons.prems(1) by (simp add: destination_constraints_def)
  have r: "r \<in> set ?rows" "rd_user r = uid" "int i \<le> rd_position r" using Cons.prems by auto
  have later: "\<forall>d \<in> set rest. rd_user d = uid \<and> int (i + 1) \<le> rd_position d"
    using Cons.prems(3,4) by fastforce
  have fresh: "rd_id r \<notin> rd_id ` set rest" by (rule renumbered_rest [OF ids Cons.prems(2,4)])
  show ?case
  proof (cases "rd_position r = int i")
    case True
    then have "\<forall>d \<in> set ?rows. rd_user d = uid \<longrightarrow> d \<in> set rest \<or> rd_position d < int (i + 1)"
      using Cons.prems(5) by force
    then have "compact_positions db (i + 1) rest =
        Inr (db\<lparr>r_destinations := map (renumbered (i + 1) rest) ?rows\<rparr>)"
      using Cons.prems(1,2,4) later by (intro Cons.IH) simp_all
    then show ?thesis using True renumbered_in_place [OF ids r(1) True fresh] by simp
  next
    case False
    with r(3) have less: "int i < rd_position r" by simp
    let ?moved = "update_where (\<lambda>d. rd_id d = rd_id r) (\<lambda>d. d\<lparr>rd_position := int i\<rparr>) ?rows"
    have "rd_position d \<noteq> int i" if "d \<in> set ?rows" "rd_user d = rd_user r" for d
      using bspec [OF Cons.prems(5) that(1)] that(2) r(2) less bspec [OF later, of d] by auto
    then have checked: "list_all fst (destination_constraints db ?moved)"
      by (rule move_one_constraints [OF Cons.prems(1) r(1) less])
    have "d \<in> set ?moved" if "d \<in> set rest" for d
    proof -
      have "d \<in> set ?rows" and "rd_id d \<noteq> rd_id r" using that Cons.prems(2) fresh by (auto simp: image_iff)
      then show ?thesis by (auto simp: set_update_where)
    qed
    then have "compact_positions (db\<lparr>r_destinations := ?moved\<rparr>) (i + 1) rest =
        Inr (db\<lparr>r_destinations := map (renumbered (i + 1) rest) ?moved\<rparr>)"
      using Cons.IH [of "db\<lparr>r_destinations := ?moved\<rparr>" "i + 1"] checked later Cons.prems(4)
        moved_below [OF ids r(1) Cons.prems(5)] by auto
    then show ?thesis using False checked renumbered_moved [OF fresh] by (simp add: stored_destinations [THEN iffD2])
  qed
qed

end
