(* ===== verification/RestreamOperations.thy ===== *)
theory RestreamOperations
  imports RestreamInvariant
begin

text \<open>
  Each operation of the restream store keeps the tables well-formed, and what the operations do on
  well-formed tables: deletions always succeed and close the gap they leave, a heartbeat never lowers
  a byte count, an authorised publisher gets exactly the enabled destinations.
\<close>

section \<open>Destinations\<close>

lemma base_constraints:
  assumes "restream_base env db"
  shows "list_all fst (destination_constraints db (r_destinations db))"
    and "list_all fst (session_constraints db (r_sessions db))"
    and "list_all fst (session_destination_constraints db (r_session_destinations db))"
    and "list_all fst (ingest_constraints db (r_ingests db))"
  using assms by (simp_all add: restream_base_def)

lemma base_ids:
  assumes "restream_base env db"
  shows "distinct (map rd_id (r_destinations db))"
    and "distinct (map (\<lambda>d. (rd_user d, rd_position d)) (r_destinations db))"
    and "d \<in> set (r_destinations db) \<Longrightarrow> 0 \<le> rd_position d \<and> rd_position d < 3 \<and> rd_user d \<in> set (r_users db)"
  using base_constraints(1) [OF assms] by (auto simp: destination_constraints_def list_all_iff)

lemma set_destinations_of [simp]:
  "set (destinations_of db uid) = {d \<in> set (r_destinations db). rd_user d = uid}"
  by (auto simp: destinations_of_def)

lemma destination_keys_update [simp]:
  "(\<And>d. rd_id (f d) = rd_id d \<and> rd_user (f d) = rd_user d) \<Longrightarrow>
   destination_keys (update_where p f rows) = destination_keys rows"
  unfolding destination_keys_def set_map [symmetric] by (subst map_update_where) simp_all

lemma session_keys_update [simp]:
  "(\<And>s. rs_id (f s) = rs_id s \<and> rs_user (f s) = rs_user s) \<Longrightarrow>
   session_keys (update_where p f rows) = session_keys rows"
  unfolding session_keys_def set_map [symmetric] by (subst map_update_where) simp_all

lemma create_destination_ok:
  assumes ok: "restream_ok env db" and env: "env_ok env" and nonce: "length nonce = nonce_bytes"
    and inp: "label_ok label" "valid_server_url url" "valid_stream_key key" and id: "uuid_of new_id = new_id"
  shows "restream_ok env (snd (create_destination env nonce new_id uid platform label url key db))"
  unfolding create_destination_def Let_def
proof (rule snd_atomically [where P = "restream_ok env"])
  show "restream_ok env db" by (rule ok)
next
  fix x db'
  let ?count = "length (filter (\<lambda>d. rd_user d = uid) (r_destinations db))"
  let ?d = "\<lparr>rd_id = new_id, rd_user = uid, rd_platform = platform, rd_label = label, rd_server_url = url,
    rd_ciphertext = encrypt (re_crypto env) (re_key env) nonce key,
    rd_hint = stream_key_hint key, rd_enabled = True, rd_position = int ?count\<rparr>"
  assume "bind_result (ensure (?count < max_restream_destinations) Destination_limit) (\<lambda>_.
      bind_result (store_destinations db (r_destinations db @ [?d])) (\<lambda>db'.
      bind_result (ensure (valid_uuid new_id) Invalid_row) (\<lambda>_. Inr (new_id, db')))) = Inr (x, db')"
  then have stored: "store_destinations db (r_destinations db @ [?d]) = Inr db'" and uuid: "valid_uuid new_id"
    by (auto simp: bind_result_Inr_iff)
  have db': "db' = db\<lparr>r_destinations := r_destinations db @ [?d]\<rparr>"
    using stored by (simp add: stored_destinations)
  have "key \<noteq> []" using inp(3) by (auto simp: valid_stream_key_def)
  then have "decrypt (re_crypto env) (re_key env) (rd_ciphertext ?d) = Some key"
    using env nonce by (simp add: decrypt_encrypt env_ok_def)
  then have "destination_ok env ?d" using inp uuid id by (simp add: destination_ok_def)
  moreover have "restream_base env db" using ok by (simp add: restream_ok_def)
  ultimately have "restream_base env db'"
    using stored by (intro write_destinations_base [OF _ stored])
      (auto simp: restream_base_def destination_keys_def)
  moreover have "list_all (positions_from_zero db') (r_users db')"
    using ok positions_append [of db _ ?d uid] by (auto simp: db' restream_ok_def list_all_iff)
  ultimately show "restream_ok env db'" by (simp add: restream_ok_def)
qed

lemma update_own_destination_ok:
  assumes ok: "restream_ok env db"
    and keeps: "\<And>d. rd_id (f d) = rd_id d \<and> rd_user (f d) = rd_user d \<and> rd_position (f d) = rd_position d"
    and good: "\<And>d. destination_ok env d \<Longrightarrow> destination_ok env (f d)"
  shows "restream_ok env (snd (update_own_destination uid destination_id f db))"
  unfolding update_own_destination_def
proof (rule snd_atomically [where P = "restream_ok env"])
  show "restream_ok env db" by (rule ok)
next
  fix x db'
  let ?rows = "update_where (own_destination uid destination_id) f (r_destinations db)"
  assume "bind_result (store_destinations db ?rows) (\<lambda>db'.
      bind_result (ensure (list_ex (own_destination uid destination_id) (r_destinations db)) Destination_not_found)
        (\<lambda>_. Inr ((), db'))) = Inr (x, db')"
  then have stored: "store_destinations db ?rows = Inr db'" by (auto simp: bind_result_Inr_iff)
  then have db': "db' = db\<lparr>r_destinations := ?rows\<rparr>" by (simp add: stored_destinations)
  have base: "restream_base env db" using ok by (simp add: restream_ok_def)
  have "restream_base env db'"
  proof (rule write_destinations_base [OF base stored])
    show "list_all (destination_ok env) ?rows"
      using base good by (auto simp: restream_base_def list_all_iff update_where_def)
    show "destination_keys (r_destinations db) \<subseteq> destination_keys ?rows"
      using keeps by simp
  qed
  moreover have "map (\<lambda>d. (rd_user d, rd_position d)) ?rows =
      map (\<lambda>d. (rd_user d, rd_position d)) (r_destinations db)"
    by (rule map_update_where) (simp add: keeps)
  then have "positions_from_zero db' u" if "positions_from_zero db u" for u
    unfolding db' using that by (rule positions_same_keys)
  then have "list_all (positions_from_zero db') (r_users db')"
    using ok by (auto simp: db' restream_ok_def list_all_iff)
  ultimately show "restream_ok env db'" by (simp add: restream_ok_def)
qed

lemma set_destination_enabled_ok:
  "restream_ok env db \<Longrightarrow> restream_ok env (snd (set_destination_enabled uid destination_id enabled db))"
  unfolding set_destination_enabled_def
  by (rule update_own_destination_ok) (simp_all add: destination_ok_def)

lemma edited_destination_ok:
  assumes "env_ok env" and "length nonce = nonce_bytes" and "label_ok (di_label inp)"
    and "valid_server_url (di_server_url inp)" and "optional_holds valid_stream_key (di_stream_key inp)"
    and "destination_ok env d"
  shows "destination_ok env (edited_destination env nonce inp d)"
proof (cases "di_stream_key inp")
  case None
  then show ?thesis using assms by (simp add: edited_destination_def destination_ok_def)
next
  case (Some key)
  then have "valid_stream_key key" using assms(5) by (simp add: optional_holds_def)
  moreover from this have "key \<noteq> []" by (auto simp: valid_stream_key_def)
  then have "decrypt (re_crypto env) (re_key env) (encrypt (re_crypto env) (re_key env) nonce key) = Some key"
    using assms(1,2) by (simp add: decrypt_encrypt env_ok_def)
  ultimately show ?thesis using Some assms by (simp add: edited_destination_def destination_ok_def)
qed

lemma edited_destination_keys [simp]:
  "rd_id (edited_destination env nonce inp d) = rd_id d"
  "rd_user (edited_destination env nonce inp d) = rd_user d"
  "rd_position (edited_destination env nonce inp d) = rd_position d"
  "rd_enabled (edited_destination env nonce inp d) = rd_enabled d"
  by (simp_all add: edited_destination_def Let_def split: option.split)

lemma update_destination_ok:
  assumes "restream_ok env db" and "env_ok env" and "length nonce = nonce_bytes" and "label_ok (di_label inp)"
    and "valid_server_url (di_server_url inp)" and "optional_holds valid_stream_key (di_stream_key inp)"
  shows "restream_ok env (snd (update_destination env nonce uid destination_id inp db))"
  unfolding update_destination_def
  by (rule update_own_destination_ok) (use assms edited_destination_ok in auto)

section \<open>Deletion\<close>

lemma remove_destination_base:
  assumes "restream_base env db"
  shows "restream_base env (remove_destination uid destination_id db)"
proof -
  let ?gone = "own_destination uid destination_id"
  let ?kept = "delete_where ?gone (r_destinations db)"
  let ?refs = "delete_where (\<lambda>r. sd_destination r = uuid_of destination_id \<and> sd_user r = uid)
    (r_session_destinations db)"
  note c = base_constraints [OF assms]
  have "list_all fst (destination_constraints db ?kept)"
    using c(1) by (auto simp: destination_constraints_def list_all_iff delete_where_def
        distinct_map_filter)
  moreover have "list_all fst (session_destination_constraints (db\<lparr>r_destinations := ?kept\<rparr>) ?refs)"
  proof -
    have "(sd_destination r, sd_user r) \<in> (\<lambda>d. (rd_id d, rd_user d)) ` set ?kept"
      if r: "r \<in> set ?refs" for r
    proof -
      have "r \<in> set (r_session_destinations db)"
        and stays: "\<not> (sd_destination r = uuid_of destination_id \<and> sd_user r = uid)"
        using r by simp_all
      then obtain d where "d \<in> set (r_destinations db)" "rd_id d = sd_destination r" "rd_user d = sd_user r"
        using c(3) by (auto simp: session_destination_constraints_def list_all_iff)
      with stays show ?thesis by (force simp: own_destination_def)
    qed
    then show ?thesis
      using c(3) by (auto simp: session_destination_constraints_def list_all_iff delete_where_def
          distinct_map_filter)
  qed
  ultimately show ?thesis
    using assms by (simp add: restream_base_def remove_destination_def list_all_iff)
qed

lemma sorted_distinct_strict: "sorted xs \<Longrightarrow> distinct xs \<Longrightarrow> sorted_wrt (<) (xs :: int list)"
  by (simp add: strict_sorted_iff)

lemma distinct_map_sort [simp]: "distinct (map g (sort_key f xs)) = distinct (map g xs)"
  by (rule mset_eq_imp_distinct_iff) simp

lemma destinations_of_sorted:
  assumes "restream_base env db"
  shows "sorted_wrt (<) (map rd_position (destinations_of db uid))"
proof (rule sorted_distinct_strict)
  show "sorted (map rd_position (destinations_of db uid))" by (simp add: destinations_of_def)
  have "distinct (map (\<lambda>d. (rd_user d, rd_position d)) (filter (\<lambda>d. rd_user d = uid) (r_destinations db)))"
    using base_ids(2) [OF assms] by (rule distinct_map_filter)
  then have "distinct (map rd_position (filter (\<lambda>d. rd_user d = uid) (r_destinations db)))"
    by (auto simp: distinct_map inj_on_def)
  then show "distinct (map rd_position (destinations_of db uid))" by (simp add: destinations_of_def)
qed

lemma compact_all:
  assumes "restream_base env db"
  shows "compact_positions db 0 (destinations_of db uid) =
    Inr (db\<lparr>r_destinations := map (renumbered 0 (destinations_of db uid)) (r_destinations db)\<rparr>)"
  by (rule compact_positions_exact [where uid = uid])
    (use base_constraints(1) [OF assms] destinations_of_sorted [OF assms] base_ids(3) [OF assms] in auto)

lemma renumbered_positions:
  "distinct (map rd_id rest) \<Longrightarrow>
   map (rd_position \<circ> renumbered i rest) rest = map int [i ..< i + length rest]"
proof (induction rest arbitrary: i)
  case (Cons r rest)
  have "map (rd_position \<circ> renumbered i (r # rest)) rest = map (rd_position \<circ> renumbered (i + 1) rest) rest"
  proof (rule map_cong [OF refl])
    fix d assume "d \<in> set rest"
    with Cons.prems have "rd_id d \<noteq> rd_id r" by (auto simp: image_iff)
    then show "(rd_position \<circ> renumbered i (r # rest)) d = (rd_position \<circ> renumbered (i + 1) rest) d" by simp
  qed
  also have "\<dots> = map int [i + 1 ..< i + 1 + length rest]"
    using Cons.prems by (intro Cons.IH) simp
  finally have rest: "map (rd_position \<circ> renumbered i (r # rest)) rest = map int [i + 1 ..< i + length (r # rest)]"
    by simp
  have "map (rd_position \<circ> renumbered i (r # rest)) (r # rest) =
      int i # map (rd_position \<circ> renumbered i (r # rest)) rest"
    by simp
  also have "\<dots> = map int (i # [i + 1 ..< i + length (r # rest)])" by (simp only: rest list.map)
  also have "i # [i + 1 ..< i + length (r # rest)] = [i ..< i + length (r # rest)]"
    by (subst (2) upt_conv_Cons) simp_all
  finally show ?case .
qed simp

lemma distinct_destinations_of:
  assumes "restream_base env db" shows "distinct (map rd_id (destinations_of db uid))"
proof -
  have "distinct (map rd_id (filter (\<lambda>d. rd_user d = uid) (r_destinations db)))"
    using base_ids(1) [OF assms] by (rule distinct_map_filter)
  then show ?thesis by (simp add: destinations_of_def)
qed

text \<open>
  Deleting an own destination always succeeds: no constraint can fail while the rest moves up.
\<close>

lemma delete_destination_succeeds:
  assumes ok: "restream_ok env db"
    and own: "list_ex (own_destination uid destination_id) (r_destinations db)"
  defines "db' \<equiv> remove_destination uid destination_id db"
  shows "delete_destination uid destination_id db =
    (Inr (), db'\<lparr>r_destinations := map (renumbered 0 (destinations_of db' uid)) (r_destinations db')\<rparr>)"
proof -
  have base: "restream_base env db'"
    unfolding db'_def using ok remove_destination_base by (simp add: restream_ok_def)
  then have "list_all (destination_ok env) (r_destinations db')" by (simp add: restream_base_def)
  then have "list_all (\<lambda>d. valid_uuid (rd_id d)) (destinations_of db' uid)"
    by (auto simp: list_all_iff destination_ok_def)
  then show ?thesis
    using compact_all [OF base] own by (simp add: delete_destination_def db'_def Let_def)
qed

lemma compact_positions_base:
  assumes "restream_base env db" and "compact_positions db i rest = Inr db'"
  shows "restream_base env db'"
  using assms
proof (induction db i rest rule: compact_positions.induct)
  case (2 db i r rest)
  let ?rows = "update_where (\<lambda>d. rd_id d = rd_id r) (\<lambda>d. d\<lparr>rd_position := int i\<rparr>) (r_destinations db)"
  show ?case
  proof (cases "rd_position r = int i")
    case True
    with 2 show ?thesis by simp
  next
    case False
    with 2(4) obtain db1 where stored: "store_destinations db ?rows = Inr db1"
      and rest: "compact_positions db1 (i + 1) rest = Inr db'"
      by (auto simp: bind_result_Inr_iff)
    have "list_all (destination_ok env) ?rows"
      using 2(3) by (auto simp: restream_base_def list_all_iff set_update_where destination_ok_def)
    then have "restream_base env db1"
      by (intro write_destinations_base [OF 2(3) stored]) simp_all
    with 2(2) False rest show ?thesis by blast
  qed
qed simp

lemma delete_destination_ok:
  assumes ok: "restream_ok env db"
  shows "restream_ok env (snd (delete_destination uid destination_id db))"
proof (cases "list_ex (own_destination uid destination_id) (r_destinations db)")
  case False
  then show ?thesis using ok by (simp add: delete_destination_def ensure_def)
next
  case True
  define db' where "db' = remove_destination uid destination_id db"
  let ?rest = "destinations_of db' uid"
  define db'' where "db'' = db'\<lparr>r_destinations := map (renumbered 0 ?rest) (r_destinations db')\<rparr>"
  have result: "snd (delete_destination uid destination_id db) = db''"
    using delete_destination_succeeds [OF ok True] by (simp add: db'_def db''_def)
  have base: "restream_base env db'"
    unfolding db'_def using ok remove_destination_base by (simp add: restream_ok_def)
  have base'': "restream_base env db''"
    using compact_positions_base [OF base compact_all [OF base]] by (simp add: db''_def)
  have rows: "filter (\<lambda>d. rd_user d = u) (r_destinations db'') =
      map (renumbered 0 ?rest) (filter (\<lambda>d. rd_user d = u) (r_destinations db'))" for u
    by (simp add: db''_def filter_map comp_def)
  have "positions_from_zero db'' u" if u: "u \<in> set (r_users db)" for u
  proof (cases "u = uid")
    case True
    have "mset (map rd_position (filter (\<lambda>d. rd_user d = uid) (r_destinations db''))) =
        mset (map (rd_position \<circ> renumbered 0 ?rest) ?rest)"
      unfolding rows by (simp add: destinations_of_def image_mset.compositionality comp_def)
    also have "\<dots> = mset (map int [0 ..< length ?rest])"
      using renumbered_positions [OF distinct_destinations_of [OF base], of 0] by simp
    also have "length ?rest = length (filter (\<lambda>d. rd_user d = uid) (r_destinations db''))"
      by (simp add: rows destinations_of_def)
    finally show ?thesis using True by (simp add: positions_iff)
  next
    case False
    have "renumbered 0 ?rest d = d" if d: "d \<in> set (r_destinations db')" "rd_user d = u" for d
    proof (rule renumbered_other)
      show "rd_id d \<notin> rd_id ` set ?rest"
        using distinct_key_unique [OF base_ids(1) [OF base]] d False by force
    qed
    then have "filter (\<lambda>d. rd_user d = u) (r_destinations db'') = filter (\<lambda>d. rd_user d = u) (r_destinations db')"
      unfolding rows by (intro map_idI) simp
    also have "\<dots> = filter (\<lambda>d. rd_user d = u) (r_destinations db)"
      using False by (auto simp: db'_def remove_destination_def delete_where_def own_destination_def
          intro: filter_cong)
    finally have same: "filter (\<lambda>d. rd_user d = u) (r_destinations db'') =
        filter (\<lambda>d. rd_user d = u) (r_destinations db)" .
    have "positions_from_zero db u" using ok u by (simp add: restream_ok_def list_all_iff)
    then show ?thesis by (simp only: positions_iff same)
  qed
  moreover have "r_users db'' = r_users db" by (simp add: db''_def db'_def remove_destination_def)
  ultimately show ?thesis using base'' by (simp add: result restream_ok_def list_all_iff)
qed

section \<open>Ingest keys and sessions\<close>

lemma ok_keep_destinations:
  assumes "restream_ok env db" and "restream_base env db'"
    and "r_destinations db' = r_destinations db" and "r_users db' = r_users db"
  shows "restream_ok env db'"
  using assms positions_cong [OF assms(3,4)] by (simp add: restream_ok_def)

lemma rotate_ingest_key_ok:
  assumes ok: "restream_ok env db" and env: "env_ok env" and nonce: "length nonce = nonce_bytes"
  shows "restream_ok env (snd (rotate_ingest_key env random nonce uid db))"
  unfolding rotate_ingest_key_def Let_def
proof (rule snd_atomically [where P = "restream_ok env"])
  show "restream_ok env db" by (rule ok)
next
  fix x db'
  let ?row = "\<lambda>key. \<lparr>ri_user = uid, ri_hash = re_sha256_hex env key,
    ri_ciphertext = encrypt (re_crypto env) (re_key env) nonce key\<rparr>"
  let ?rows = "\<lambda>key. if uid \<in> ri_user ` set (r_ingests db)
    then update_where (\<lambda>i. ri_user i = uid) (\<lambda>_. ?row key) (r_ingests db) else r_ingests db @ [?row key]"
  assume "bind_result (expect (create_ingest_key random) Invalid_row) (\<lambda>key.
      bind_result (store_ingests db (?rows key)) (\<lambda>db'. Inr (key, db'))) = Inr (x, db')"
  then obtain key where key: "create_ingest_key random = Some key"
    and stored: "store_ingests db (?rows key) = Inr db'"
    by (auto simp: bind_result_Inr_iff)
  from key have valid: "valid_ingest_key key"
    by (auto simp: create_ingest_key_def Let_def split: if_split_asm)
  then have "key \<noteq> []" by (auto simp: valid_ingest_key_def)
  then have new: "ingest_ok env (?row key)"
    using env nonce valid by (simp add: ingest_ok_def decrypt_encrypt env_ok_def)
  have base: "restream_base env db" using ok by (simp add: restream_ok_def)
  then have "list_all (ingest_ok env) (r_ingests db)" by (simp add: restream_base_def)
  with new have "list_all (ingest_ok env) (?rows key)"
    by (auto simp: list_all_iff set_update_where)
  then have "restream_base env db'" by (rule write_ingests_base [OF base stored])
  then show "restream_ok env db'"
    by (rule ok_keep_destinations [OF ok]) (use stored in \<open>auto simp: stored_ingests\<close>)
qed

lemma insert_session_destinations_base:
  assumes "restream_base env db" and "insert_session_destinations session_id uid ds db = Inr db'"
  shows "restream_base env db' \<and> r_destinations db' = r_destinations db \<and> r_users db' = r_users db \<and>
    r_sessions db' = r_sessions db \<and> r_ingests db' = r_ingests db \<and>
    r_session_destinations db' = r_session_destinations db @
      map (\<lambda>d. \<lparr>sd_session = session_id, sd_destination = rd_id d, sd_user = uid, sd_state = Idle, sd_bytes = 0\<rparr>) ds"
  using assms
proof (induction ds arbitrary: db)
  case (Cons d ds)
  let ?rows = "r_session_destinations db @
    [\<lparr>sd_session = session_id, sd_destination = rd_id d, sd_user = uid, sd_state = Idle, sd_bytes = 0\<rparr>]"
  from Cons.prems(2) obtain db1 where stored: "store_session_destinations db ?rows = Inr db1"
    and rest: "insert_session_destinations session_id uid ds db1 = Inr db'"
    by (auto simp: bind_result_Inr_iff)
  have "restream_base env db1"
    by (rule write_session_destinations_base [OF Cons.prems(1) stored])
      (use Cons.prems(1) in \<open>simp add: restream_base_def session_destination_ok_def z_int_def\<close>)
  with Cons.IH rest stored show ?case by (auto simp: stored_session_destinations)
qed simp

lemma ended_session_row: "session_row_ok s \<Longrightarrow> session_row_ok (end_row now s)"
  by (simp add: session_row_ok_def end_row_def)

lemma end_row_keys [simp]: "rs_id (end_row now s) = rs_id s" "rs_user (end_row now s) = rs_user s"
    "rs_node (end_row now s) = rs_node s" "active (end_row now s) = False"
  and beat_row_keys [simp]: "rs_id (beat_row now s) = rs_id s" "rs_user (beat_row now s) = rs_user s"
    "rs_node (beat_row now s) = rs_node s" "active (beat_row now s)"
  by (simp_all add: end_row_def beat_row_def active_def)

lemma update_sessions_base:
  assumes base: "restream_base env db" and stored: "store_sessions db (update_where p f (r_sessions db)) = Inr db'"
    and "\<And>s. rs_id (f s) = rs_id s \<and> rs_user (f s) = rs_user s"
  shows "restream_base env db'" and "db' = db\<lparr>r_sessions := update_where p f (r_sessions db)\<rparr>"
proof -
  show "restream_base env db'"
  proof (rule write_sessions_base [OF base stored])
    have "list_all session_row_ok (r_sessions db)" using base by (simp add: restream_base_def)
    then show "list_all session_row_ok (update_where p f (r_sessions db))"
      using assms(3) by (auto simp: list_all_iff set_update_where session_row_ok_def)
  qed (use assms(3) in simp)
  show "db' = db\<lparr>r_sessions := update_where p f (r_sessions db)\<rparr>"
    using stored by (simp add: stored_sessions)
qed

text \<open>The tables after a session has started.\<close>

lemma start_session_success:
  assumes base: "restream_base env db"
    and start: "start_session env now new_id node publisher uid db = Inr (authorized, db')"
    and id: "uuid_of new_id = new_id"
  shows "restream_base env db'" and "valid_uuid new_id" and "r_destinations db' = r_destinations db"
    and "r_users db' = r_users db" and "r_ingests db' = r_ingests db"
    and "r_sessions db' = update_where (\<lambda>s. rs_user s = uid \<and> active s) (end_row now) (r_sessions db) @
      [new_session now new_id uid node publisher]"
    and "r_session_destinations db' = r_session_destinations db @
      map (\<lambda>d. \<lparr>sd_session = new_id, sd_destination = rd_id d, sd_user = uid, sd_state = Idle, sd_bytes = 0\<rparr>)
        (enabled_destinations db uid)"
    and "ap_session authorized = new_id"
    and "decrypt_targets env (enabled_destinations db uid) = Inr (ap_targets authorized)"
proof -
  let ?ended = "update_where (\<lambda>s. rs_user s = uid \<and> active s) (end_row now) (r_sessions db)"
  from start obtain db1 db2 targets where
    one: "store_sessions db ?ended = Inr db1"
    and two: "store_sessions db1 (r_sessions db1 @ [new_session now new_id uid node publisher]) = Inr db2"
    and uuid: "valid_uuid new_id"
    and three: "insert_session_destinations new_id uid (enabled_destinations db uid) db2 = Inr db'"
    and targets: "decrypt_targets env (enabled_destinations db uid) = Inr targets"
    and result: "authorized = \<lparr>ap_session = new_id, ap_targets = targets\<rparr>"
    by (auto simp: start_session_def bind_result_Inr_iff)
  have base1: "restream_base env db1" and db1: "db1 = db\<lparr>r_sessions := ?ended\<rparr>"
    by (rule update_sessions_base [OF base one]; simp)+
  have "session_row_ok (new_session now new_id uid node publisher)"
    using uuid id by (simp add: session_row_ok_def new_session_def)
  then have base2: "restream_base env db2"
    using base1 by (intro write_sessions_base [OF base1 two]) (auto simp: restream_base_def session_keys_def)
  have db2: "db2 = db1\<lparr>r_sessions := r_sessions db1 @ [new_session now new_id uid node publisher]\<rparr>"
    using two by (simp add: stored_sessions)
  note final = insert_session_destinations_base [OF base2 three]
  show "restream_base env db'" "valid_uuid new_id" using final uuid by simp_all
  show "r_destinations db' = r_destinations db" "r_users db' = r_users db" "r_ingests db' = r_ingests db"
    "r_sessions db' = ?ended @ [new_session now new_id uid node publisher]"
    using final by (simp_all add: db2 db1)
  show "r_session_destinations db' = r_session_destinations db @
      map (\<lambda>d. \<lparr>sd_session = new_id, sd_destination = rd_id d, sd_user = uid, sd_state = Idle, sd_bytes = 0\<rparr>)
        (enabled_destinations db uid)"
    using final by (simp add: db2 db1)
  show "ap_session authorized = new_id" "decrypt_targets env (enabled_destinations db uid) = Inr (ap_targets authorized)"
    using result targets by simp_all
qed

lemma authorize_publisher_cases:
  assumes "authorize_publisher env now new_id node publisher key db = (r, db')"
  obtains (refused) "db' = db" "r = Inr None \<or> (\<exists>e. r = Inl e)"
  | (started) ingest authorized where
      "first_row (filter (\<lambda>i. ri_hash i = re_sha256_hex env key) (r_ingests db)) = Some ingest"
      "enabled_destinations db (ri_user ingest) \<noteq> []"
      "start_session env now new_id node publisher (ri_user ingest) db = Inr (authorized, db')"
      "r = Inr (Some authorized)"
proof (cases r)
  case (Inl e)
  with assms have "db' = db" by (simp add: authorize_publisher_def)
  with Inl refused show ?thesis by blast
next
  case (Inr x)
  with assms show ?thesis
    using refused started
    by (auto simp: authorize_publisher_def bind_result_Inr_iff split: option.split_asm if_split_asm)
qed

lemma authorize_publisher_ok:
  assumes ok: "restream_ok env db" and id: "uuid_of new_id = new_id"
  shows "restream_ok env (snd (authorize_publisher env now new_id node publisher key db))"
proof -
  obtain r db' where run: "authorize_publisher env now new_id node publisher key db = (r, db')" by fastforce
  have base: "restream_base env db" using ok by (simp add: restream_ok_def)
  from run show ?thesis
  proof (cases rule: authorize_publisher_cases)
    case refused
    with run ok show ?thesis by simp
  next
    case (started ingest authorized)
    note s = start_session_success [OF base started(3) id]
    show ?thesis using ok_keep_destinations [OF ok s(1,3,4)] run by simp
  qed
qed

lemma beat_destinations_base:
  assumes "restream_base env db" and "beat_destinations session_id ds db = Inr db'"
    and "list_all valid_session_state ds"
  shows "restream_base env db' \<and> r_destinations db' = r_destinations db \<and> r_users db' = r_users db"
  using assms
proof (induction ds arbitrary: db)
  case (Cons d ds)
  let ?rows = "update_where (\<lambda>r. sd_session r = uuid_of session_id \<and> sd_destination r = uuid_of (ss_id d))
    (\<lambda>r. r\<lparr>sd_state := ss_state d, sd_bytes := max (sd_bytes r) (ss_bytes d)\<rparr>) (r_session_destinations db)"
  from Cons.prems(2) obtain db1 where stored: "store_session_destinations db ?rows = Inr db1"
    and rest: "beat_destinations session_id ds db1 = Inr db'"
    by (auto simp: bind_result_Inr_iff)
  have old: "list_all session_destination_ok (r_session_destinations db)"
    using Cons.prems(1) by (simp add: restream_base_def)
  have "z_int (ss_bytes d)"
    using Cons.prems(3) by (simp add: valid_session_state_def z_nonnegative_int_def)
  with old have "list_all session_destination_ok ?rows"
    by (auto simp: list_all_iff set_update_where session_destination_ok_def max_def)
  then have "restream_base env db1"
    by (rule write_session_destinations_base [OF Cons.prems(1) stored])
  with Cons.IH rest stored Cons.prems(3) show ?case by (auto simp: stored_session_destinations)
qed simp

lemma heartbeat_ok:
  assumes ok: "restream_ok env db" and valid: "list_all valid_session_state ds"
  shows "restream_ok env (snd (heartbeat now node session_id ds db))"
  unfolding heartbeat_def
proof (rule snd_atomically [where P = "restream_ok env"])
  show "restream_ok env db" by (rule ok)
next
  fix x db'
  let ?rows = "update_where (running_on node session_id) (beat_row now) (r_sessions db)"
  have base: "restream_base env db" using ok by (simp add: restream_ok_def)
  assume "(if \<not> list_ex (running_on node session_id) (r_sessions db) then Inr (False, db)
      else bind_result (store_sessions db ?rows) (\<lambda>db1.
        bind_result (beat_destinations session_id ds db1) (\<lambda>db2. Inr (True, db2)))) = Inr (x, db')"
  then consider "db' = db" | db1 where "store_sessions db ?rows = Inr db1" "beat_destinations session_id ds db1 = Inr db'"
    by (auto simp: bind_result_Inr_iff split: if_split_asm)
  then show "restream_ok env db'"
  proof cases
    case 1
    with ok show ?thesis by simp
  next
    case (2 db1)
    have one: "restream_base env db1" "db1 = db\<lparr>r_sessions := ?rows\<rparr>"
      by (rule update_sessions_base [OF base 2(1)]; simp)+
    note two = beat_destinations_base [OF one(1) 2(2) valid]
    show ?thesis by (rule ok_keep_destinations [OF ok]) (use two one(2) in simp_all)
  qed
qed

lemma end_session_ok:
  assumes ok: "restream_ok env db"
  shows "restream_ok env (snd (end_session now node session_id db))"
  unfolding end_session_def
proof (rule snd_atomically [where P = "restream_ok env"])
  show "restream_ok env db" by (rule ok)
next
  fix x db'
  let ?rows = "update_where (running_on node session_id) (end_row now) (r_sessions db)"
  have base: "restream_base env db" using ok by (simp add: restream_ok_def)
  assume "bind_result (store_sessions db ?rows)
      (\<lambda>db'. Inr (list_ex (running_on node session_id) (r_sessions db), db')) = Inr (x, db')"
  then have stored: "store_sessions db ?rows = Inr db'" by (auto simp: bind_result_Inr_iff)
  have "restream_base env db'" "db' = db\<lparr>r_sessions := ?rows\<rparr>"
    by (rule update_sessions_base [OF base stored]; simp)+
  then show "restream_ok env db'" by (intro ok_keep_destinations [OF ok]) simp_all
qed

end
