(* ===== verification/RestreamRouter.thy ===== *)
theory RestreamRouter
  imports RestreamOperations
begin

text \<open>
  The two entrances of restreaming: the tRPC procedures of signed-in users
  (\<open>server/api/trpc/restream.ts\<close>) and the endpoint of the media servers (\<open>server/restream/http.ts\<close>).
  Fresh identifiers, random bytes and the time come with each request; JSON decoding of a media
  request into its fields is an argument.
\<close>

record entropy =
  en_now :: timestamp
  en_nonce :: "byte list"
  en_random :: "byte list"
  en_new_id :: string

section \<open>Procedures\<close>

datatype restream_request =
    ConfigRequest
  | RotateIngestKey
  | CreateDestination restream_platform string string string
  | UpdateDestination string restream_platform string string "string option"
  | SetDestinationEnabled string bool
  | DeleteDestination string

datatype restream_response =
    ConfigResponse restream_config
  | DestinationResponse string
  | NullResponse

definition to_trpc_error :: "restream_failure \<Rightarrow> api_error" where
  "to_trpc_error e =
     (case e of
        Destination_limit \<Rightarrow> TRPCError PRECONDITION_FAILED ''Restream destination limit reached.''
      | Destination_not_found \<Rightarrow> TRPCError NOT_FOUND ''Restream destination not found.''
      | Invalid_target \<Rightarrow> TRPCError BAD_REQUEST ''Invalid restream destination server URL.''
      | Decryption_failed \<Rightarrow> UnexpectedError ''Restream credential decryption failed.''
      | Invalid_row \<Rightarrow> UnexpectedError ''Invalid row''
      | Constraint_violation c \<Rightarrow> UnexpectedError c)"

definition parse_server_url_input :: "string \<Rightarrow> string option" where
  "parse_server_url_input s =
     (let t = js_trim s in if 10 \<le> length t \<and> length t \<le> 2048 then Some t else None)"

definition parse_restream_request :: "restream_request \<Rightarrow> restream_request option" where
  "parse_restream_request r =
     (case r of
        CreateDestination platform label url key \<Rightarrow>
          Option.bind (parse_label label) (\<lambda>label'.
          Option.bind (parse_server_url_input url) (\<lambda>url'.
            if valid_stream_key key then Some (CreateDestination platform label' url' key) else None))
      | UpdateDestination destination_id platform label url key \<Rightarrow>
          if \<not> valid_uuid destination_id then None
          else Option.bind (parse_label label) (\<lambda>label'.
               Option.bind (parse_server_url_input url) (\<lambda>url'.
                 if optional_holds valid_stream_key key
                 then Some (UpdateDestination destination_id platform label' url' key) else None))
      | SetDestinationEnabled destination_id _ \<Rightarrow> if valid_uuid destination_id then Some r else None
      | DeleteDestination destination_id \<Rightarrow> if valid_uuid destination_id then Some r else None
      | _ \<Rightarrow> Some r)"

definition normalized :: "restream_env \<Rightarrow> string \<Rightarrow> restream_failure + string" where
  "normalized env url = expect (normalize_restream_server_url (re_urls env) (re_is_ipv6 env) url) Invalid_target"

definition answer :: "('a \<Rightarrow> restream_response) \<Rightarrow> (restream_failure + 'a) \<times> restream_db \<Rightarrow>
    (restream_failure + restream_response) \<times> restream_db" where
  "answer f r = (case fst r of Inl e \<Rightarrow> Inl e | Inr x \<Rightarrow> Inr (f x), snd r)"

definition restream_outcome ::
  "restream_env \<Rightarrow> entropy \<Rightarrow> int \<Rightarrow> restream_request \<Rightarrow> restream_db \<Rightarrow>
    (restream_failure + restream_response) \<times> restream_db" where
  "restream_outcome env en uid req db =
     (case req of
        ConfigRequest \<Rightarrow> (bind_result (config env (en_now en) uid db) (\<lambda>c. Inr (ConfigResponse c)), db)
      | RotateIngestKey \<Rightarrow>
          answer (\<lambda>_. NullResponse) (rotate_ingest_key env (en_random en) (en_nonce en) uid db)
      | CreateDestination platform label url key \<Rightarrow>
          (case normalized env url of
             Inl e \<Rightarrow> (Inl e, db)
           | Inr target \<Rightarrow>
               answer DestinationResponse
                 (create_destination env (en_nonce en) (en_new_id en) uid platform label target key db))
      | UpdateDestination destination_id platform label url key \<Rightarrow>
          (case normalized env url of
             Inl e \<Rightarrow> (Inl e, db)
           | Inr target \<Rightarrow>
               answer (\<lambda>_. NullResponse)
                 (update_destination env (en_nonce en) uid destination_id
                   \<lparr>di_platform = platform, di_label = label, di_server_url = target, di_stream_key = key\<rparr> db))
      | SetDestinationEnabled destination_id enabled \<Rightarrow>
          answer (\<lambda>_. NullResponse) (set_destination_enabled uid destination_id enabled db)
      | DeleteDestination destination_id \<Rightarrow>
          answer (\<lambda>_. NullResponse) (delete_destination uid destination_id db))"

definition handle_restream_request ::
  "restream_env \<Rightarrow> entropy \<Rightarrow> api_context \<Rightarrow> restream_request \<Rightarrow> restream_db \<Rightarrow>
    (api_error + restream_response) \<times> restream_db" where
  "handle_restream_request env en ctx req db =
     call_procedure (authenticated ctx) (parse_restream_request req)
       (\<lambda>uid call s. let r = restream_outcome env en uid call s in (map_error to_trpc_error (fst r), snd r)) db"

section \<open>Media servers\<close>

definition max_media_request_bytes :: nat where "max_media_request_bytes = 16 * 1024"

text \<open>
  Responses of the endpoint; \<open>Thrown\<close> is an error that leaves the handler, answered by the framework.
\<close>

datatype media_response =
    MediaError nat string
  | Authorized authorized_publisher
  | NoContent
  | Thrown restream_failure

text \<open>Equal length and \<open>timingSafeEqual\<close> on the bytes of both texts.\<close>

definition has_valid_authorization :: "string \<Rightarrow> http_request \<Rightarrow> bool" where
  "has_valid_authorization secret req \<longleftrightarrow>
     (let provided = utf8_bytes (case get_header (req_headers req) ''authorization'' of None \<Rightarrow> [] | Some v \<Rightarrow> v);
          expected = utf8_bytes (''Bearer '' @ secret)
      in length provided = length expected \<and> provided = expected)"

definition parse_media_request ::
  "(byte list \<Rightarrow> media_request option) \<Rightarrow> http_request \<Rightarrow> (body_error + media_request) option" where
  "parse_media_request decode req =
     (case validate_content_length (get_header (req_headers req) ''content-length'') max_media_request_bytes True of
        Inl e \<Rightarrow> Some (Inl e)
      | Inr _ \<Rightarrow>
          (case req_body req of
             None \<Rightarrow> Some (Inl Invalid_body)
           | Some steps \<Rightarrow>
               (case read_bounded_request_body steps max_media_request_bytes of
                  None \<Rightarrow> None
                | Some (Inl e) \<Rightarrow> Some (Inl e)
                | Some (Inr body) \<Rightarrow>
                    (case decode body of
                       None \<Rightarrow> Some (Inl Invalid_body)
                     | Some r \<Rightarrow> Some (if valid_media_request r then Inr r else Inl Invalid_body)))))"

definition media_outcome ::
  "restream_env \<Rightarrow> entropy \<Rightarrow> media_request \<Rightarrow> restream_db \<Rightarrow> media_response \<times> restream_db" where
  "media_outcome env en r db =
     (let found = (\<lambda>(result, db'). (case result of
                      Inl e \<Rightarrow> Thrown e
                    | Inr ok \<Rightarrow> if ok then NoContent else MediaError 404 ''Restream session not found'', db'))
      in case r of
        Authorize node publisher path \<Rightarrow>
          (case authorize_publisher env (en_now en) (en_new_id en) node publisher path db of
             (Inl e, db') \<Rightarrow> (Thrown e, db')
           | (Inr None, db') \<Rightarrow> (MediaError 403 ''Publisher is not authorized'', db')
           | (Inr (Some a), db') \<Rightarrow> (if valid_authorize_response a then Authorized a else Thrown Invalid_row, db'))
      | Heartbeat node session destinations \<Rightarrow> found (heartbeat (en_now en) node session destinations db)
      | Ended node session \<Rightarrow> found (end_session (en_now en) node session db))"

text \<open>\<open>handleRestreamMedia\<close>; \<open>None\<close> while the body has not arrived.\<close>

definition handle_restream_media ::
  "restream_env \<Rightarrow> string \<Rightarrow> (byte list \<Rightarrow> media_request option) \<Rightarrow> entropy \<Rightarrow> http_request \<Rightarrow> restream_db \<Rightarrow>
    (media_response \<times> restream_db) option" where
  "handle_restream_media env secret decode en req db =
     (if \<not> has_valid_authorization secret req then Some (MediaError 401 ''Unauthorized'', db)
      else case parse_media_request decode req of
        None \<Rightarrow> None
      | Some (Inl e) \<Rightarrow> Some (MediaError (if e = Too_large then 413 else 400) ''Invalid request'', db)
      | Some (Inr r) \<Rightarrow> Some (media_outcome env en r db))"

section \<open>The service\<close>

datatype restream_event =
    Api entropy api_context restream_request
  | Media entropy http_request

definition entropy_of :: "restream_event \<Rightarrow> entropy" where
  "entropy_of e = (case e of Api en _ _ \<Rightarrow> en | Media en _ \<Rightarrow> en)"

definition serve_restream ::
  "restream_env \<Rightarrow> string \<Rightarrow> (byte list \<Rightarrow> media_request option) \<Rightarrow> restream_db \<Rightarrow> restream_event \<Rightarrow> restream_db" where
  "serve_restream env secret decode db event =
     (case event of
        Api en ctx req \<Rightarrow> snd (handle_restream_request env en ctx req db)
      | Media en req \<Rightarrow> (case handle_restream_media env secret decode en req db of None \<Rightarrow> db | Some r \<Rightarrow> snd r))"

text \<open>What \<open>randomBytes\<close> and \<open>gen_random_uuid\<close> return.\<close>

definition entropy_ok :: "entropy \<Rightarrow> bool" where
  "entropy_ok en \<longleftrightarrow>
     length (en_nonce en) = nonce_bytes \<and> length (en_random en) = 32 \<and> valid_uuid (en_new_id en) \<and>
     uuid_of (en_new_id en) = en_new_id en"

lemma snd_answer [simp]: "snd (answer f r) = snd r"
  and fst_answer_Inl [simp]: "fst (answer f r) = Inl e \<longleftrightarrow> fst r = Inl e"
  and fst_answer_Inr [simp]: "fst (answer f r) = Inr y \<longleftrightarrow> (\<exists>x. fst r = Inr x \<and> y = f x)"
  by (auto simp: answer_def split: sum.splits)

lemma normalize_valid:
  "normalize_restream_server_url api ip6 url = Some target \<Longrightarrow> valid_server_url target"
  by (auto simp: normalize_restream_server_url_def Let_def split: option.split_asm if_split_asm)

lemma normalized_valid: "normalized env url = Inr target \<Longrightarrow> valid_server_url target"
  by (auto simp: normalized_def intro: normalize_valid)

text \<open>The calls that parsing can produce.\<close>

definition request_ok :: "restream_request \<Rightarrow> bool" where
  "request_ok r =
     (case r of
        CreateDestination _ label _ key \<Rightarrow> label_ok label \<and> valid_stream_key key
      | UpdateDestination _ _ label _ key \<Rightarrow> label_ok label \<and> optional_holds valid_stream_key key
      | _ \<Rightarrow> True)"

lemma parse_label_trimmed: "parse_label s = Some l \<Longrightarrow> label_ok l"
  by (auto simp: parse_label_def label_ok_def Let_def split: if_split_asm)

lemma parsed_request_ok: "parse_restream_request req = Some call \<Longrightarrow> request_ok call"
  using parse_label_trimmed
  by (cases req) (auto simp: parse_restream_request_def request_ok_def bind_eq_Some_conv split: if_split_asm)

lemma restream_outcome_ok:
  assumes "restream_ok env db" and "env_ok env" and "entropy_ok en" and "request_ok call"
  shows "restream_ok env (snd (restream_outcome env en uid call db))"
proof (cases call)
  case (CreateDestination platform label url key)
  then show ?thesis
    using assms create_destination_ok [OF assms(1,2)] normalized_valid
    by (simp add: restream_outcome_def request_ok_def entropy_ok_def split: sum.split)
next
  case (UpdateDestination destination_id platform label url key)
  then show ?thesis
    using assms update_destination_ok [OF assms(1,2)] normalized_valid
    by (simp add: restream_outcome_def request_ok_def entropy_ok_def split: sum.split)
qed (use assms rotate_ingest_key_ok set_destination_enabled_ok delete_destination_ok
      in \<open>simp_all add: restream_outcome_def entropy_ok_def\<close>)

lemma handle_restream_request_ok:
  assumes "restream_ok env db" and "env_ok env" and "entropy_ok en"
  shows "restream_ok env (snd (handle_restream_request env en ctx req db))"
  using assms restream_outcome_ok parsed_request_ok
  by (auto simp: handle_restream_request_def call_procedure_def Let_def split: sum.splits option.splits)

lemma media_outcome_ok:
  assumes ok: "restream_ok env db" and en: "entropy_ok en" and valid: "valid_media_request r"
  shows "restream_ok env (snd (media_outcome env en r db))"
proof (cases r)
  case (Authorize node publisher path)
  have "restream_ok env (snd (authorize_publisher env (en_now en) (en_new_id en) node publisher path db))"
    using ok en by (intro authorize_publisher_ok) (simp_all add: entropy_ok_def)
  then show ?thesis
    using Authorize by (auto simp: media_outcome_def split: prod.splits sum.splits option.splits)
next
  case (Heartbeat node session ds)
  then have "list_all valid_session_state ds" using valid by (simp add: valid_media_request_def)
  from heartbeat_ok [OF ok this] Heartbeat show ?thesis by (simp add: media_outcome_def case_prod_beta)
next
  case (Ended node session)
  from end_session_ok [OF ok] Ended show ?thesis by (simp add: media_outcome_def case_prod_beta)
qed

lemma parse_media_request_valid:
  "parse_media_request decode req = Some (Inr r) \<Longrightarrow> valid_media_request r"
  by (auto simp: parse_media_request_def split: sum.split_asm option.split_asm if_split_asm)

lemma serve_restream_ok:
  assumes "restream_ok env db" and "env_ok env" and "entropy_ok (entropy_of event)"
  shows "restream_ok env (serve_restream env secret decode db event)"
proof (cases event)
  case (Api en ctx req)
  with assms handle_restream_request_ok show ?thesis by (simp add: serve_restream_def entropy_of_def)
next
  case (Media en req)
  with assms(3) have en: "entropy_ok en" by (simp add: entropy_of_def)
  show ?thesis
  proof (cases "has_valid_authorization secret req")
    case False
    with Media assms(1) show ?thesis by (simp add: serve_restream_def handle_restream_media_def)
  next
    case True
    have "restream_ok env (snd (media_outcome env en r db))" if "parse_media_request decode req = Some (Inr r)" for r
      using media_outcome_ok [OF assms(1) en] parse_media_request_valid that by blast
    with True Media assms(1) show ?thesis
      by (auto simp: serve_restream_def handle_restream_media_def split: option.split sum.split
          dest!: spec)
  qed
qed

interpretation restream_server: invariant_machine
  "serve_restream env secret decode" "\<lambda>e. entropy_ok (entropy_of e)" "\<lambda>db. env_ok env \<and> restream_ok env db"
  for env secret decode
  by unfold_locales (auto intro: serve_restream_ok)

end
