(* ===== verification/RestreamProperties.thy ===== *)
theory RestreamProperties
  imports RestreamRouter
begin

text \<open>
  What restreaming promises its users: well-formed tables under all traffic, isolation between users,
  exact deletions, and destination servers outside private networks.
\<close>

section \<open>A concrete service\<close>

text \<open>A cipher that only frames its text, a reader of two-byte UTF-8, and a service with two users.\<close>

fun utf8_read :: "byte list \<Rightarrow> string" where
  "utf8_read [] = []"
| "utf8_read [b] = [char_of (unat b)]"
| "utf8_read (b # c # rest) =
     (if unat b < 128 then char_of (unat b) # utf8_read (c # rest)
      else char_of ((unat b - 192) * 64 + (unat c - 128)) # utf8_read rest)"

definition plain_crypto :: crypto where
  "plain_crypto = \<lparr>sha256 = id, gcm_seal = (\<lambda>_ _ bytes. (bytes, replicate 16 0)),
     gcm_open = (\<lambda>_ _ _ bytes. Some bytes), utf8_text = utf8_read\<rparr>"

lemma utf8_read_bytes: "utf8_read (utf8_bytes s) = s"
proof (induction s)
  case Nil
  then show ?case by (simp add: utf8_bytes_def)
next
  case (Cons c s)
  have bound: "code c < 256" by (simp add: code_def)
  have again: "char_of (code c) = c" by (simp add: code_def)
  show ?case
  proof (cases "code c < 128")
    case True
    then have u: "unat (of_nat (code c) :: byte) = code c" by (simp add: unat_of_nat)
    have "utf8_bytes (c # s) = of_nat (code c) # utf8_bytes s" using True by (simp add: utf8_bytes_def)
    moreover have "utf8_read (of_nat (code c) # utf8_bytes s) = c # utf8_read (utf8_bytes s)"
      using True u again by (cases "utf8_bytes s") simp_all
    ultimately show ?thesis using Cons by simp
  next
    case False
    have small: "code c div 64 < 4" "code c mod 64 < 64" using bound by auto
    then have u: "unat (of_nat (192 + code c div 64) :: byte) = 192 + code c div 64"
      "unat (of_nat (128 + code c mod 64) :: byte) = 128 + code c mod 64"
      by (simp_all only: unat_of_nat) simp_all
    have "utf8_bytes (c # s) =
        of_nat (192 + code c div 64) # of_nat (128 + code c mod 64) # utf8_bytes s"
      using False by (simp add: utf8_bytes_def)
    moreover have "(code c div 64) * 64 + code c mod 64 = code c" by simp
    ultimately show ?thesis using Cons again u by (simp del: of_nat_add)
  qed
qed

lemma plain_crypto_ok: "crypto_ok plain_crypto"
  by (simp add: crypto_ok_def plain_crypto_def tag_bytes_def utf8_read_bytes)

definition sample_url :: string where "sample_url = ''rtmp://live.example''"

text \<open>A URL parser that knows one address.\<close>

definition sample_urls :: url_api where
  "sample_urls =
     \<lparr>new_url = (\<lambda>s. if s = sample_url
        then Some \<lparr>u_protocol = ''rtmp:'', u_username = [], u_password = [], u_hostname = ''live.example'',
                   u_pathname = [], u_search = [], u_hash = []\<rparr>
        else None),
      href_with = (\<lambda>url host path. u_protocol url @ ''//'' @ host @ path)\<rparr>"

definition sample_env :: restream_env where
  "sample_env = \<lparr>re_crypto = plain_crypto, re_key = [], re_sha256_hex = id,
     re_ingest_url = ''rtmp://ingest.example'', re_urls = sample_urls, re_is_ipv6 = (\<lambda>_. False)\<rparr>"

definition id_a :: string where "id_a = ''aaaaaaaa-aaaa-4aaa-8aaa-aaaaaaaaaaaa''"
definition id_b :: string where "id_b = ''bbbbbbbb-bbbb-4bbb-8bbb-bbbbbbbbbbbb''"

definition sample_nonce :: "byte list" where "sample_nonce = replicate 12 0"

definition sample_destination :: "string \<Rightarrow> int \<Rightarrow> destination_row" where
  "sample_destination did p = \<lparr>rd_id = did, rd_user = 1, rd_platform = Custom_platform, rd_label = ''Main'',
     rd_server_url = sample_url, rd_ciphertext = encrypt plain_crypto [] sample_nonce ''secret'',
     rd_hint = ''cret'', rd_enabled = True, rd_position = p\<rparr>"

definition sample_restream :: restream_db where
  "sample_restream = \<lparr>r_users = [1, 2], r_ingests = [],
     r_destinations = [sample_destination id_a 0, sample_destination id_b 1],
     r_sessions = [], r_session_destinations = []\<rparr>"

definition sample_entropy :: entropy where
  "sample_entropy = \<lparr>en_now = 5, en_nonce = sample_nonce, en_random = replicate 32 0,
     en_new_id = ''cccccccc-cccc-4ccc-8ccc-cccccccccccc''\<rparr>"

lemma sample_env_ok: "env_ok sample_env"
  by (simp add: env_ok_def sample_env_def plain_crypto_ok)
    (simp add: valid_ingest_server_def strip_prefix_def is_space_def code_def)

lemma sample_ids: "valid_uuid id_a" "valid_uuid id_b" "uuid_of id_a = id_a" "uuid_of id_b = id_b" "id_a \<noteq> id_b"
  by (simp_all add: valid_uuid_def id_a_def id_b_def is_hex_def is_digit_def code_def uuid_of_def to_lower_def
      lower_char_def is_upper_alpha_def)

lemma sample_entropy_ok: "entropy_ok sample_entropy"
  by (simp add: entropy_ok_def sample_entropy_def sample_nonce_def nonce_bytes_def valid_uuid_def is_hex_def
      is_digit_def code_def uuid_of_def to_lower_def lower_char_def is_upper_alpha_def)

lemma sample_restream_ok: "restream_ok sample_env sample_restream"
proof -
  have key: "decrypt plain_crypto [] (encrypt plain_crypto [] sample_nonce ''secret'') = Some ''secret''"
    by (rule decrypt_encrypt) (simp_all add: plain_crypto_ok sample_nonce_def nonce_bytes_def)
  have url: "valid_server_url sample_url" "server_url_check sample_url"
    by (simp_all add: valid_server_url_def server_url_check_def sample_url_def rtmp_rest_def strip_prefix_def
        plain_char_def is_space_def code_def)
  have label: "label_ok ''Main''" "label_check ''Main''"
    by (simp_all add: label_ok_def label_check_def parse_label_def js_trim_def is_space_def code_def)
  have length: "ciphertext_check (encrypt plain_crypto [] sample_nonce ''secret'')"
    by (simp add: ciphertext_check_def encrypt_def plain_crypto_def sample_nonce_def utf8_bytes_def code_def)
  have "destination_ok sample_env (sample_destination did p)" if "valid_uuid did" "uuid_of did = did" for did p
    using that key url label
    by (simp add: destination_ok_def sample_destination_def sample_env_def valid_stream_key_def plain_char_def
        is_space_def code_def)
  then have "restream_base sample_env sample_restream"
    using sample_ids url label length
    by (simp add: restream_base_def sample_restream_def destination_constraints_def ingest_constraints_def
        session_constraints_def session_destination_constraints_def sample_destination_def z_positive_int_def
        z_int_def max_safe_integer_def)
  then show ?thesis
    by (simp add: restream_ok_def) (simp add: positions_from_zero_def destinations_of_def sample_restream_def
        sample_destination_def upt_rec)
qed

section \<open>Well-formed tables\<close>

lemma at_most_three_destinations:
  assumes "restream_base env db" shows "length (destinations_of db uid) \<le> max_restream_destinations"
proof -
  let ?ps = "map rd_position (destinations_of db uid)"
  have "distinct ?ps"
    using destinations_of_sorted [OF assms] by (auto simp: strict_sorted_iff)
  then have "length (destinations_of db uid) = card (set ?ps)" by (metis distinct_card length_map)
  also have "set ?ps \<subseteq> {0 ..< 3}" using base_ids(3) [OF assms] by auto
  then have "card (set ?ps) \<le> card {0 ..< (3 :: int)}" by (intro card_mono) auto
  finally show ?thesis by (simp add: max_restream_destinations_def)
qed

lemma at_most_one_active_session:
  assumes "restream_base env db"
  shows "length (filter (\<lambda>s. rs_user s = uid \<and> active s) (r_sessions db)) \<le> 1"
proof -
  have one: "distinct (map rs_user (filter active (r_sessions db)))"
    using base_constraints(2) [OF assms] by (simp add: session_constraints_def)
  have "length (filter (\<lambda>s. rs_user s = uid) rows) \<le> 1" if "distinct (map rs_user rows)" for rows
    using that
  proof (induction rows)
    case (Cons r rows)
    then show ?case
      by (cases "rs_user r = uid") (auto simp: filter_empty_conv image_iff)
  qed simp
  from this [OF one] show ?thesis by (simp add: conj_commute)
qed

text \<open>
  C29: Whatever signed-in users and media servers send, in whatever order, the restream tables stay
  well-formed: all constraints and foreign keys hold, stored credentials decrypt to valid keys,
  each user's destinations have the positions 0, 1, ... without gaps, there are at most three of
  them, and every user has at most one session that has not ended.
\<close>

theorem restream_stays_well_formed:
  assumes "env_ok env" and "restream_ok env db" and "list_all (\<lambda>e. entropy_ok (entropy_of e)) events"
    and "db' = foldl (serve_restream env secret decode) db events"
  shows "restream_ok env db' \<and> length (destinations_of db' uid) \<le> 3 \<and>
    length (filter (\<lambda>s. rs_user s = uid \<and> active s) (r_sessions db')) \<le> 1"
proof -
  have ok: "restream_ok env db'"
    using restream_server.run_invar [of env db events secret decode] assms by simp
  then have base: "restream_base env db'" by (simp add: restream_ok_def)
  show ?thesis
    using ok at_most_three_destinations [OF base] at_most_one_active_session [OF base]
    by (simp add: max_restream_destinations_def)
qed

text \<open>A user deletes the first destination and turns the other off.\<close>

theorem restream_stays_well_formed_witness:
  "restream_ok sample_env (foldl (serve_restream sample_env ''key'' (\<lambda>_. None)) sample_restream
     [Api sample_entropy \<lparr>ctx_user_id = Some 1, ctx_is_admin = False\<rparr> (DeleteDestination id_a),
      Api sample_entropy \<lparr>ctx_user_id = Some 1, ctx_is_admin = False\<rparr> (SetDestinationEnabled id_b False)])"
  (is "restream_ok _ (foldl ?serve _ ?events)")
proof -
  have "list_all (\<lambda>e. entropy_ok (entropy_of e)) ?events"
    by (simp add: entropy_of_def sample_entropy_ok)
  from restream_stays_well_formed [OF sample_env_ok sample_restream_ok this refl]
  show ?thesis by simp
qed

section \<open>Isolation\<close>

definition others_restream ::
  "int \<Rightarrow> restream_db \<Rightarrow> ingest_row list \<times> destination_row list \<times> session_row list \<times> session_destination_row list" where
  "others_restream uid db =
     (filter (\<lambda>i. ri_user i \<noteq> uid) (r_ingests db), filter (\<lambda>d. rd_user d \<noteq> uid) (r_destinations db),
      r_sessions db, filter (\<lambda>r. sd_user r \<noteq> uid) (r_session_destinations db))"

lemma filter_delete_where:
  "(\<And>r. p r \<Longrightarrow> \<not> q r) \<Longrightarrow> filter q (delete_where p rows) = filter q rows"
  by (induction rows) (auto simp: delete_where_def)

lemma update_own_isolated:
  assumes "\<And>d. rd_user (f d) = rd_user d"
  shows "others_restream uid (snd (update_own_destination uid destination_id f db)) = others_restream uid db"
  unfolding update_own_destination_def
  by (rule snd_atomically [where P = "\<lambda>s. others_restream uid s = others_restream uid db"])
    (auto simp: bind_result_Inr_iff stored_destinations others_restream_def own_destination_def assms
      intro!: filter_update_where)

lemma delete_isolated:
  assumes "restream_ok env db"
  shows "others_restream uid (snd (delete_destination uid destination_id db)) = others_restream uid db"
proof (cases "list_ex (own_destination uid destination_id) (r_destinations db)")
  case False
  then show ?thesis by (simp add: delete_destination_def ensure_def)
next
  case True
  define db' where "db' = remove_destination uid destination_id db"
  have base: "restream_base env db'"
    unfolding db'_def using assms remove_destination_base by (simp add: restream_ok_def)
  have others: "renumbered 0 (destinations_of db' uid) d = d" if "d \<in> set (r_destinations db')" "rd_user d \<noteq> uid" for d
  proof (rule renumbered_other)
    show "rd_id d \<notin> rd_id ` set (destinations_of db' uid)"
      using distinct_key_unique [OF base_ids(1) [OF base]] that by force
  qed
  have "filter (\<lambda>d. rd_user d \<noteq> uid) (map (renumbered 0 (destinations_of db' uid)) (r_destinations db')) =
      map (renumbered 0 (destinations_of db' uid)) (filter (\<lambda>d. rd_user d \<noteq> uid) (r_destinations db'))"
    by (simp add: filter_map comp_def)
  also have "\<dots> = filter (\<lambda>d. rd_user d \<noteq> uid) (r_destinations db')"
    using others by (intro map_idI) simp
  also have "\<dots> = filter (\<lambda>d. rd_user d \<noteq> uid) (r_destinations db)"
    by (simp add: db'_def remove_destination_def) (rule filter_delete_where, simp add: own_destination_def)
  finally have rows: "filter (\<lambda>d. rd_user d \<noteq> uid)
      (map (renumbered 0 (destinations_of db' uid)) (r_destinations db')) =
      filter (\<lambda>d. rd_user d \<noteq> uid) (r_destinations db)" .
  have "filter (\<lambda>r. sd_user r \<noteq> uid) (r_session_destinations db') =
      filter (\<lambda>r. sd_user r \<noteq> uid) (r_session_destinations db)"
    unfolding db'_def remove_destination_def by simp (rule filter_delete_where, simp)
  moreover have "r_ingests db' = r_ingests db" "r_sessions db' = r_sessions db"
    by (simp_all add: db'_def remove_destination_def)
  ultimately show ?thesis
    using delete_destination_succeeds [OF assms True] rows
    by (simp add: others_restream_def db'_def [symmetric])
qed

lemma rotate_isolated:
  "others_restream uid (snd (rotate_ingest_key env random nonce uid db)) = others_restream uid db"
  unfolding rotate_ingest_key_def Let_def
  by (rule snd_atomically [where P = "\<lambda>s. others_restream uid s = others_restream uid db"])
    (auto simp: bind_result_Inr_iff stored_ingests others_restream_def intro!: filter_update_where
      split: if_split_asm)

lemma create_isolated:
  "others_restream uid (snd (create_destination env nonce new_id uid platform label url key db)) =
     others_restream uid db"
  unfolding create_destination_def Let_def
  by (rule snd_atomically [where P = "\<lambda>s. others_restream uid s = others_restream uid db"])
    (auto simp: bind_result_Inr_iff stored_destinations others_restream_def)

lemma edited_destination_user [simp]: "rd_user (edited_destination env nonce inp d) = rd_user d"
  by simp

lemma restream_outcome_isolated:
  assumes "restream_ok env db"
  shows "others_restream uid (snd (restream_outcome env en uid call db)) = others_restream uid db"
  using rotate_isolated create_isolated delete_isolated [OF assms] update_own_isolated
  by (cases call)
    (simp_all add: restream_outcome_def update_destination_def set_destination_enabled_def split: sum.split)

text \<open>
  C31: A request of a signed-in user changes no ingest key, destination or session destination of
  another user and no session, and a request without a session changes nothing and is answered
  UNAUTHORIZED.
\<close>

theorem restream_requests_isolated:
  assumes "restream_ok env db" and "handle_restream_request env en ctx req db = (response, db')"
  shows "(\<forall>uid. authenticated ctx = Inr uid \<longrightarrow> others_restream uid db' = others_restream uid db) \<and>
    (\<forall>e. authenticated ctx = Inl e \<longrightarrow> db' = db \<and> response = Inl (TRPCError UNAUTHORIZED ''UNAUTHORIZED''))"
proof (intro conjI allI impI)
  fix uid assume "authenticated ctx = Inr uid"
  then show "others_restream uid db' = others_restream uid db"
    using assms(2) restream_outcome_isolated [OF assms(1)]
    by (auto simp: handle_restream_request_def call_procedure_def Let_def split: option.split_asm)
next
  fix e assume "authenticated ctx = Inl e"
  then show "db' = db" "response = Inl (TRPCError UNAUTHORIZED ''UNAUTHORIZED'')"
    using assms(2)
    by (auto simp: handle_restream_request_def call_procedure_def authenticated_def
        split: option.split_asm if_split_asm)
qed

text \<open>User 2 tries to delete a destination of user 1.\<close>

theorem restream_requests_isolated_witness:
  "others_restream 2 (snd (handle_restream_request sample_env sample_entropy
     \<lparr>ctx_user_id = Some 2, ctx_is_admin = False\<rparr> (DeleteDestination id_a) sample_restream)) =
   others_restream 2 sample_restream"
proof -
  let ?ctx = "\<lparr>ctx_user_id = Some 2, ctx_is_admin = False\<rparr>"
  obtain response db' where run: "handle_restream_request sample_env sample_entropy ?ctx (DeleteDestination id_a)
      sample_restream = (response, db')"
    by fastforce
  have "authenticated ?ctx = Inr 2" by (simp add: authenticated_def)
  then show ?thesis using restream_requests_isolated [OF sample_restream_ok run] run by simp
qed

section \<open>Destinations\<close>

lemma renumbered_sorted:
  fixes uid :: int
  assumes base: "restream_base env db"
  defines "rest \<equiv> destinations_of db uid"
  shows "destinations_of (db\<lparr>r_destinations := map (renumbered 0 rest) (r_destinations db)\<rparr>) uid =
    map (renumbered 0 rest) rest"
proof -
  have positions: "map (rd_position \<circ> renumbered 0 rest) rest = map int [0 ..< length rest]"
    using renumbered_positions [OF distinct_destinations_of [OF base], of 0] by (simp add: rest_def)
  have "sort_key rd_position (map (renumbered 0 rest) (filter (\<lambda>d. rd_user d = uid) (r_destinations db))) =
      map (renumbered 0 rest) rest"
  proof (rule sort_key_inj_key_eq)
    show "mset (map (renumbered 0 rest) (filter (\<lambda>d. rd_user d = uid) (r_destinations db))) =
        mset (map (renumbered 0 rest) rest)"
      by (simp add: rest_def destinations_of_def)
    show sorted: "sorted (map rd_position (map (renumbered 0 rest) rest))"
      using positions by (simp add: sorted_iff_nth_mono)
    have "distinct (map rd_position (map (renumbered 0 rest) rest))"
      using positions by (simp add: distinct_map)
    then have "inj_on (rd_position \<circ> renumbered 0 rest) (set rest)" by (simp add: distinct_map)
    then have "inj_on rd_position (renumbered 0 rest ` set rest)" by (rule inj_on_imageI)
    then show "inj_on rd_position
        (set (map (renumbered 0 rest) (filter (\<lambda>d. rd_user d = uid) (r_destinations db))))"
      by (simp add: rest_def destinations_of_def)
  qed
  then show ?thesis by (simp add: destinations_of_def filter_map comp_def)
qed

text \<open>
  Deleting an own destination always succeeds; the user's other destinations keep their order
  and take the positions 0, 1, ..., no session refers to the deleted one any more, and the
  destinations of other users stay where they are.
\<close>

theorem delete_destination_exact:
  assumes "restream_ok env db" and "list_ex (own_destination uid destination_id) (r_destinations db)"
  shows "\<exists>db'. delete_destination uid destination_id db = (Inr (), db') \<and>
    map (\<lambda>d. (rd_id d, rd_position d)) (destinations_of db' uid) =
      (let kept = filter (\<lambda>d. rd_id d \<noteq> uuid_of destination_id) (destinations_of db uid)
       in zip (map rd_id kept) (map int [0 ..< length kept])) \<and>
    list_all (\<lambda>r. sd_destination r \<noteq> uuid_of destination_id) (r_session_destinations db') \<and>
    others_restream uid db' = others_restream uid db"
proof -
  define db1 where "db1 = remove_destination uid destination_id db"
  define rest where "rest = destinations_of db1 uid"
  define db' where "db' = db1\<lparr>r_destinations := map (renumbered 0 rest) (r_destinations db1)\<rparr>"
  have base0: "restream_base env db" using assms(1) by (simp add: restream_ok_def)
  have base: "restream_base env db1" unfolding db1_def by (rule remove_destination_base [OF base0])
  have run: "delete_destination uid destination_id db = (Inr (), db')"
    using delete_destination_succeeds [OF assms] by (simp add: db'_def db1_def rest_def)
  have kept: "rest = filter (\<lambda>d. rd_id d \<noteq> uuid_of destination_id) (destinations_of db uid)"
    unfolding rest_def db1_def destinations_of_def filter_sort
    by (rule arg_cong [where f = "sort_key rd_position"])
      (auto simp: remove_destination_def delete_where_def own_destination_def intro: filter_cong)
  have "destinations_of db' uid = map (renumbered 0 rest) rest"
    using renumbered_sorted [OF base] by (simp add: db'_def rest_def)
  then have ids: "map rd_id (destinations_of db' uid) = map rd_id rest"
    and "map rd_position (destinations_of db' uid) = map (rd_position \<circ> renumbered 0 rest) rest"
    by simp_all
  then have positions: "map rd_position (destinations_of db' uid) = map int [0 ..< length rest]"
    using renumbered_positions [OF distinct_destinations_of [OF base], of 0] by (simp add: rest_def)
  have pairs: "map (\<lambda>d. (rd_id d, rd_position d)) ds = zip (map rd_id ds) (map rd_position ds)"
    for ds :: "destination_row list"
    by (induction ds) auto
  have places: "map (\<lambda>d. (rd_id d, rd_position d)) (destinations_of db' uid) =
      zip (map rd_id rest) (map int [0 ..< length rest])"
    by (simp only: pairs ids positions)
  have "sd_destination r \<noteq> uuid_of destination_id" if r: "r \<in> set (r_session_destinations db')" for r
  proof
    assume eq: "sd_destination r = uuid_of destination_id"
    have r0: "r \<in> set (r_session_destinations db)" and other: "sd_user r \<noteq> uid"
      using r eq by (auto simp: db'_def db1_def remove_destination_def)
    from r0 obtain d where d: "d \<in> set (r_destinations db)" "rd_id d = sd_destination r" "rd_user d = sd_user r"
      using base_constraints(3) [OF base0] by (auto simp: session_destination_constraints_def list_all_iff)
    from assms(2) obtain e where "e \<in> set (r_destinations db)" "rd_id e = uuid_of destination_id" "rd_user e = uid"
      by (auto simp: list_ex_iff own_destination_def)
    with d eq distinct_key_unique [OF base_ids(1) [OF base0], of d e] other show False by simp
  qed
  moreover have "others_restream uid db' = others_restream uid db"
    using delete_isolated [OF assms(1)] run by (metis snd_conv)
  ultimately show ?thesis using run places kept by (simp add: Let_def list_all_iff)
qed

theorem delete_destination_exact_witness:
  "\<exists>db'. delete_destination 1 id_a sample_restream = (Inr (), db') \<and>
     map (\<lambda>d. (rd_id d, rd_position d)) (destinations_of db' 1) = [(id_b, 0)]"
proof -
  have "list_ex (own_destination 1 id_a) (r_destinations sample_restream)"
    using sample_ids by (simp add: sample_restream_def own_destination_def sample_destination_def)
  note exact = delete_destination_exact [OF sample_restream_ok this]
  have "filter (\<lambda>d. rd_id d \<noteq> uuid_of id_a) (destinations_of sample_restream 1) = [sample_destination id_b 1]"
    using sample_ids by (simp add: destinations_of_def sample_restream_def sample_destination_def)
  with exact show ?thesis by (auto simp: Let_def sample_destination_def)
qed

end
