(* ===== verification/OAuthProperties.thy ===== *)
theory OAuthProperties
  imports OAuth RestreamProperties
begin

text \<open>
  What the OAuth flow promises: a callback of Streamlabs or StreamElements connects an account only for
  the user whose browser started the attempt, with that attempt's state, and only once.
\<close>

section \<open>The signed state\<close>

lemma utf8_bytes_inj: "utf8_bytes a = utf8_bytes b \<longleftrightarrow> a = b"
  by (metis utf8_read_bytes)

lemma timing_safe_equal_iff: "length a = length b \<Longrightarrow> timing_safe_equal a b \<longleftrightarrow> a = b"
  unfolding timing_safe_equal_def by (induction a b rule: list_induct2) auto

lemma verify_oauth_attempt_iff:
  "verify_oauth_attempt env name cookies state uid \<longleftrightarrow> map_of cookies name = Some (signed_state env state uid)"
  using timing_safe_equal_iff utf8_bytes_inj
  by (auto simp: verify_oauth_attempt_def Let_def split: option.split)

lemma word_chars_no_dot: "list_all word_char s \<Longrightarrow> CHR ''.'' \<notin> set s"
  by (auto simp: list_all_iff word_char_def is_lower_alpha_def is_upper_alpha_def is_digit_def code_def)

lemma first_separator:
  "x \<notin> set as \<Longrightarrow> x \<notin> set bs \<Longrightarrow> as @ x # cs = bs @ x # ds \<Longrightarrow> as = bs \<and> cs = ds"
proof (induction as arbitrary: bs)
  case Nil
  then show ?case by (cases bs) auto
next
  case (Cons a as)
  then show ?case by (cases bs) auto
qed

lemma signed_state_inj:
  assumes "signed_state env s u = signed_state env s' u'" and "list_all word_char s" and "list_all word_char s'"
  shows "s = s' \<and> oauth_signature env s u = oauth_signature env s' u'"
  using first_separator [OF word_chars_no_dot [OF assms(2)] word_chars_no_dot [OF assms(3)]] assms(1)
  by (simp add: signed_state_def)

section \<open>Handlers\<close>

text \<open>The sources whose attempts carry a state.\<close>

definition stateful :: "oauth_source \<Rightarrow> bool" where "stateful src \<longleftrightarrow> src \<noteq> OAuth_donationalerts"

lemma cookie_names_distinct [simp]:
  "stateful src \<Longrightarrow> stateful src' \<Longrightarrow> oauth_cookie_name src = oauth_cookie_name src' \<longleftrightarrow> src = src'"
  by (cases src; cases src') (auto simp: stateful_def oauth_cookie_name_def)

definition accepted_callback ::
  "oauth_env \<Rightarrow> oauth_source \<Rightarrow> (string \<times> string) list \<Rightarrow> int option \<Rightarrow> string option \<Rightarrow> string option \<Rightarrow>
    (int \<times> string) option" where
  "accepted_callback env src cookies who state auth =
     (case (who, state, auth) of
        (Some uid, Some s, Some a) \<Rightarrow>
          if valid_oauth_state s \<and> map_of cookies (oauth_cookie_name src) = Some (signed_state env s uid) \<and>
             valid_auth_code a
          then Some (uid, a) else None
      | _ \<Rightarrow> None)"

lemma callback_cookie:
  "stateful src \<Longrightarrow> or_cookie (fst (answer_oauth env net b (Callback_visit src who state auth))) =
     Some (clear_oauth_attempt env (oauth_cookie_name src))"
  by (cases src) (auto simp: stateful_def answer_oauth_def handle_streamlabs_callback_def
      handle_streamelements_callback_def finish_callback_def refuse_def redirect_to_def Let_def
      split: option.split prod.split)

lemma callback_outbox:
  "stateful src \<Longrightarrow> snd (answer_oauth env net b (Callback_visit src who state auth)) =
     ob_outbox b @ (case accepted_callback env src (ob_cookies b) who state auth of
        None \<Rightarrow> []
      | Some (uid, a) \<Rightarrow> [integration_request (oe_service env) (connect_operation env src uid a)])"
  by (cases src) (auto simp: stateful_def answer_oauth_def handle_streamlabs_callback_def
      handle_streamelements_callback_def finish_callback_def state_verified_def verify_oauth_attempt_iff
      accepted_callback_def call_integration_def Let_def split: option.split)

lemma authorize_cookie:
  assumes "or_cookie (fst (answer_oauth env net b (Authorize_visit src who random))) = Some k"
  shows "stateful src \<and> (k = clear_oauth_attempt env (oauth_cookie_name src) \<or>
    (\<exists>u. who = Some u \<and> k = snd (create_oauth_attempt env (oauth_cookie_name src) random u)))"
  using assms
  by (cases src) (auto simp: stateful_def answer_oauth_def handle_donation_alerts_authorize_def
      handle_streamlabs_authorize_def handle_streamelements_authorize_def refuse_def redirect_to_def Let_def
      create_oauth_attempt_def split: option.split_asm prod.split_asm sum.split_asm integration_value.split_asm)

lemma donation_alerts_callback_cookie:
  "or_cookie (fst (answer_oauth env net b (Callback_visit OAuth_donationalerts who state auth))) = None"
  by (auto simp: answer_oauth_def handle_donation_alerts_callback_def refuse_def redirect_to_def Let_def
      split: option.split prod.split)

section \<open>Cookies come from attempts\<close>

lemma map_of_store_cookie:
  "map_of (store_cookie (Some k) jar) name =
     (if name = ck_name k then if ck_max_age k \<le> 0 then None else Some (ck_value k) else map_of jar name)"
proof -
  have "map_of (filter (\<lambda>(n, _). n \<noteq> ck_name k) jar) x = (if x = ck_name k then None else map_of jar x)" for x
    by (induction jar) auto
  then show ?thesis by (simp add: store_cookie_def Let_def)
qed

definition is_callback :: "oauth_source \<Rightarrow> oauth_event \<Rightarrow> bool" where
  "is_callback src ev \<longleftrightarrow> (case ev of Callback_visit s _ _ _ \<Rightarrow> s = src | _ \<Rightarrow> False)"

text \<open>The attempt a cookie belongs to, with no callback since.\<close>

definition open_attempt :: "oauth_env \<Rightarrow> oauth_source \<Rightarrow> oauth_event list \<Rightarrow> string \<Rightarrow> bool" where
  "open_attempt env src events cookie \<longleftrightarrow>
     (\<exists>before u random rest. events = before @ Authorize_visit src (Some u) random # rest \<and>
        cookie = signed_state env (base64url random) u \<and> \<not> list_ex (is_callback src) rest)"

lemma open_attempt_more: "open_attempt env src events c \<Longrightarrow> \<not> is_callback src ev \<Longrightarrow> open_attempt env src (events @ [ev]) c"
proof -
  assume "open_attempt env src events c" and no_callback: "\<not> is_callback src ev"
  then obtain before u random rest where "events = before @ Authorize_visit src (Some u) random # rest"
      "c = signed_state env (base64url random) u" "\<not> list_ex (is_callback src) rest"
    unfolding open_attempt_def by blast
  then have "events @ [ev] = before @ Authorize_visit src (Some u) random # (rest @ [ev]) \<and>
      c = signed_state env (base64url random) u \<and> \<not> list_ex (is_callback src) (rest @ [ev])"
    using no_callback by simp
  then show "open_attempt env src (events @ [ev]) c" unfolding open_attempt_def by blast
qed

lemma cookie_of_open_attempt:
  assumes "stateful src" and "map_of (ob_cookies (foldl (oauth_step env net) new_browser events)) (oauth_cookie_name src) = Some c"
  shows "open_attempt env src events c"
  using assms(2)
proof (induction events arbitrary: c rule: rev_induct)
  case Nil
  then show ?case by (simp add: new_browser_def)
next
  case (snoc ev events)
  let ?b = "foldl (oauth_step env net) new_browser events"
  let ?k = "or_cookie (fst (answer_oauth env net ?b ev))"
  have jar: "ob_cookies (foldl (oauth_step env net) new_browser (events @ [ev])) = store_cookie ?k (ob_cookies ?b)"
    by (simp add: oauth_step_def split: prod.split)
  show ?case
  proof (cases "?k = None \<or> oauth_cookie_name src \<noteq> ck_name (the ?k)")
    case True
    then have "map_of (ob_cookies ?b) (oauth_cookie_name src) = Some c"
      using snoc(2) jar map_of_store_cookie by (cases ?k) (auto simp: store_cookie_def)
    moreover have "\<not> is_callback src ev"
      using True callback_cookie [OF assms(1)]
      by (auto simp: is_callback_def clear_oauth_attempt_def oauth_cookie_def split: oauth_event.split)
    ultimately show ?thesis using snoc(1) open_attempt_more by blast
  next
    case False
    then obtain k where k: "?k = Some k" "oauth_cookie_name src = ck_name k" by auto
    then have value_of: "\<not> ck_max_age k \<le> 0" "c = ck_value k"
      using snoc(2) jar by (auto simp: map_of_store_cookie split: if_split_asm)
    show ?thesis
    proof (cases ev)
      case (Authorize_visit src' who random)
      from authorize_cookie [OF k(1)[unfolded Authorize_visit]] value_of(1)
      obtain u where u: "stateful src'" "who = Some u"
          "k = snd (create_oauth_attempt env (oauth_cookie_name src') random u)"
        by (auto simp: clear_oauth_attempt_def oauth_cookie_def)
      then have "src' = src" using k(2) assms(1) by (auto simp: create_oauth_attempt_def oauth_cookie_def Let_def)
      then show ?thesis
        using u value_of(2) Authorize_visit unfolding open_attempt_def
        by (intro exI [of _ events] exI [of _ u] exI [of _ random] exI [of _ "[]"])
          (simp add: create_oauth_attempt_def oauth_cookie_def Let_def)
    next
      case (Callback_visit src' who state auth)
      then have "k = clear_oauth_attempt env (oauth_cookie_name src')"
        using k(1) callback_cookie donation_alerts_callback_cookie by (cases "stateful src'") (auto simp: stateful_def)
      then show ?thesis using value_of(1) by (simp add: clear_oauth_attempt_def oauth_cookie_def)
    qed
  qed
qed

section \<open>Properties\<close>

definition positive_viewer :: "oauth_event \<Rightarrow> bool" where
  "positive_viewer ev \<longleftrightarrow>
     (case ev of Authorize_visit _ who _ \<Rightarrow> optional_holds (\<lambda>u. 0 < u) who
      | Callback_visit _ who _ _ \<Rightarrow> optional_holds (\<lambda>u. 0 < u) who)"

text \<open>A site whose signature is the signed text, and a state of zero bytes.\<close>

definition sample_oauth_env :: oauth_env where
  "sample_oauth_env =
     \<lparr>oe_service =
        \<lparr>ae_service_url = ''http://donations'', ae_secret = ''secret'', ae_app_domain = ''https://site'',
         ae_json = (\<lambda>_. Some (J_obj [(''authorizationUrl'', J_str ''https://provider'')])), ae_is_url = (\<lambda>_. True),
         ae_href_hash = (\<lambda>_ _ t. t), ae_read_dashboard = (\<lambda>_. None), ae_read_open = (\<lambda>_. None),
         ae_read_asset = (\<lambda>_. None), ae_read_event = (\<lambda>_. None)\<rparr>,
      oe_hmac = (\<lambda>m. m), oe_href = (\<lambda>p. ''https://site'' @ p), oe_https = True\<rparr>"

definition sample_state :: string where "sample_state = base64url (replicate 32 0)"

lemma sample_state_ok: "valid_oauth_state sample_state"
  by (simp add: valid_oauth_state_def sample_state_def base64url_word_chars length_base64url)

text \<open>
  C4: A callback of Streamlabs or StreamElements always expires the attempt's cookie, and it sends the
  donation service exactly one request, to connect the signed-in user with the given code, when the
  state is well-formed, signed for this user in the browser's cookie, and a code is given; in every
  other case it sends nothing.
\<close>

theorem oauth_callback_exact:
  assumes "src \<noteq> OAuth_donationalerts" and "answer_oauth env net b (Callback_visit src who state auth) = (resp, sent)"
  shows "or_cookie resp = Some (clear_oauth_attempt env (oauth_cookie_name src)) \<and>
    sent = ob_outbox b @
      (case (who, state, auth) of
         (Some uid, Some s, Some a) \<Rightarrow>
           if valid_oauth_state s \<and> map_of (ob_cookies b) (oauth_cookie_name src) = Some (signed_state env s uid) \<and>
              valid_auth_code a
           then [integration_request (oe_service env)
                   (Connect (oauth_donation_source src) uid a (oauth_callback_url env src))]
           else []
       | _ \<Rightarrow> [])"
  using callback_cookie [of src env net b who state auth] callback_outbox [of src env net b who state auth] assms
  by (auto simp: stateful_def accepted_callback_def connect_operation_def split: option.split)

theorem oauth_callback_exact_witness:
  "snd (answer_oauth sample_oauth_env (\<lambda>_. Fetch_failed)
     \<lparr>ob_cookies = [(''streambrew-streamlabs-oauth'', signed_state sample_oauth_env sample_state 1)], ob_outbox = []\<rparr>
     (Callback_visit OAuth_streamlabs (Some 1) (Some sample_state) (Some ''c1''))) =
   [integration_request (oe_service sample_oauth_env)
      (Connect Streamlabs 1 ''c1'' (oauth_callback_url sample_oauth_env OAuth_streamlabs))]"
proof -
  let ?b = "\<lparr>ob_cookies = [(''streambrew-streamlabs-oauth'', signed_state sample_oauth_env sample_state 1)], ob_outbox = []\<rparr>"
  let ?ev = "Callback_visit OAuth_streamlabs (Some 1) (Some sample_state) (Some ''c1'')"
  obtain resp sent where answer: "answer_oauth sample_oauth_env (\<lambda>_. Fetch_failed) ?b ?ev = (resp, sent)" by fastforce
  have "sent = [integration_request (oe_service sample_oauth_env)
      (Connect Streamlabs 1 ''c1'' (oauth_callback_url sample_oauth_env OAuth_streamlabs))]"
    using oauth_callback_exact [OF _ answer] sample_state_ok
    by (simp add: oauth_cookie_name_def valid_auth_code_def oauth_donation_source_def)
  then show ?thesis by (simp add: answer)
qed

text \<open>
  C5: Whatever a browser visits, in whatever order and with whatever states and codes, a callback of
  Streamlabs or StreamElements connects an account only for the user who started an attempt in this
  browser, with that attempt's state, and no callback has used the attempt before.  The signature
  has to tell the positive identifiers of users apart.
\<close>

theorem connection_follows_own_attempt:
  assumes "\<And>s u v. 0 < u \<Longrightarrow> 0 < v \<Longrightarrow> oauth_signature env s u = oauth_signature env s v \<Longrightarrow> u = v"
    and "list_all positive_viewer events" and "src \<noteq> OAuth_donationalerts" and "0 < uid"
    and "snd (answer_oauth env net (foldl (oauth_step env net) new_browser events)
           (Callback_visit src (Some uid) (Some state) auth)) \<noteq> ob_outbox (foldl (oauth_step env net) new_browser events)"
  shows "\<exists>before random rest. events = before @ Authorize_visit src (Some uid) random # rest \<and>
    base64url random = state \<and> \<not> list_ex (is_callback src) rest"
proof -
  let ?b = "foldl (oauth_step env net) new_browser events"
  have src: "stateful src" using assms(3) by (simp add: stateful_def)
  have "accepted_callback env src (ob_cookies ?b) (Some uid) (Some state) auth \<noteq> None"
    using assms(5) callback_outbox [OF src] by (auto split: option.split_asm)
  then have state: "valid_oauth_state state"
    and cookie: "map_of (ob_cookies ?b) (oauth_cookie_name src) = Some (signed_state env state uid)"
    by (auto simp: accepted_callback_def split: option.split_asm if_split_asm)
  from cookie_of_open_attempt [OF src cookie] obtain before u random rest where
      events: "events = before @ Authorize_visit src (Some u) random # rest"
      and signed: "signed_state env state uid = signed_state env (base64url random) u"
      and unused: "\<not> list_ex (is_callback src) rest"
    unfolding open_attempt_def by blast
  have "0 < u" using assms(2) events by (simp add: positive_viewer_def optional_holds_def)
  moreover have "state = base64url random \<and> oauth_signature env state uid = oauth_signature env (base64url random) u"
    using signed_state_inj [OF signed _ base64url_word_chars] state unfolding valid_oauth_state_def by blast
  ultimately have "u = uid" "base64url random = state" using assms(1, 4) by auto
  then show ?thesis using events unused by blast
qed

theorem connection_follows_own_attempt_witness:
  "\<exists>before random rest. [Authorize_visit OAuth_streamlabs (Some 1) (replicate 32 0)] =
       before @ Authorize_visit OAuth_streamlabs (Some 1) random # rest \<and>
     base64url random = sample_state \<and> \<not> list_ex (is_callback OAuth_streamlabs) rest"
proof (rule connection_follows_own_attempt)
  let ?net = "\<lambda>_. Reply 200 ''url''"
  let ?events = "[Authorize_visit OAuth_streamlabs (Some 1) (replicate 32 0)]"
  let ?b = "foldl (oauth_step sample_oauth_env ?net) new_browser ?events"
  show "u = v" if "0 < u" "0 < v" "oauth_signature sample_oauth_env s u = oauth_signature sample_oauth_env s v" for s u v
    using that by (simp add: oauth_signature_def sample_oauth_env_def dec_nat_inj)
  show "list_all positive_viewer ?events" by (simp add: positive_viewer_def optional_holds_def)
  show "snd (answer_oauth sample_oauth_env ?net ?b
      (Callback_visit OAuth_streamlabs (Some 1) (Some sample_state) (Some ''c1''))) \<noteq> ob_outbox ?b"
  proof -
    have "integration_answer (oe_service sample_oauth_env)
        (authorization_operation sample_oauth_env OAuth_streamlabs sample_state) (Reply 200 ''url'') =
        Inr (Integration_url ''https://provider'')"
      by (simp add: integration_answer_def service_answer_def request_json_def request_text_def response_ok_def
          parse_json_def sample_oauth_env_def authorization_operation_def integration_schema_def read_text_def)
    then have "map_of (ob_cookies ?b) (oauth_cookie_name OAuth_streamlabs) =
        Some (signed_state sample_oauth_env sample_state 1)"
      by (simp add: oauth_step_def answer_oauth_def handle_streamlabs_authorize_def create_oauth_attempt_def
          sample_state_def [symmetric] call_integration_def redirect_to_def store_cookie_def new_browser_def
          oauth_cookie_def state_lifetime_seconds_def Let_def)
    then show ?thesis
      by (subst callback_outbox) (simp_all add: stateful_def accepted_callback_def sample_state_ok valid_auth_code_def)
  qed
qed simp_all

end
