(* ===== verification/Donations.thy ===== *)
theory Donations
  imports VideoQueuePages
begin

text \<open>
  A user's donations: the searchable listing and the overview of \<open>server/sensors/db/store.ts\<close>
  (\<open>listDonationsPage\<close>, \<open>getDonationOverview\<close>) and their procedures in \<open>server/api/trpc/index.ts\<close>.

  Arguments stand for what the database's locale and numeric division decide, and for one column that
  the other components do not read: lower-casing, the rank of a text in the collation, the rounded
  average of amounts, and when the videos of a donation were parsed.
\<close>

record donation_env =
  de_is_url :: "string \<Rightarrow> bool"
  de_lower :: "string \<Rightarrow> string"
  de_rank :: "string \<Rightarrow> int"
  de_average :: "nat list \<Rightarrow> nat \<Rightarrow> nat"
  de_parsed_at :: "int \<Rightarrow> timestamp option"

section \<open>Patterns\<close>

text \<open>
  \<open>LIKE\<close>: a percent sign stands for any text, an underscore for one character, and a backslash takes
  the next character literally; \<open>None\<close> is the error of a pattern that ends in a backslash.
\<close>

fun like :: "string \<Rightarrow> string \<Rightarrow> bool option" where
  "like [] s = Some (s = [])"
| "like (p # ps) s =
     (if p = CHR 0x5C
      then (case ps of
              [] \<Rightarrow> None
            | q # qs \<Rightarrow> (case s of [] \<Rightarrow> Some False | c # cs \<Rightarrow> if c = q then like qs cs else Some False))
      else if p = CHR ''%''
      then (case like ps s of
              None \<Rightarrow> None
            | Some found \<Rightarrow>
                if found then Some True else (case s of [] \<Rightarrow> Some False | c # cs \<Rightarrow> like (p # ps) cs))
      else (case s of
              [] \<Rightarrow> Some False
            | c # cs \<Rightarrow> if p = CHR ''_'' \<or> c = p then like ps cs else Some False))"

definition ilike :: "donation_env \<Rightarrow> string \<Rightarrow> string \<Rightarrow> bool" where
  "ilike env s pattern \<longleftrightarrow> like (de_lower env pattern) (de_lower env s) = Some True"

section \<open>The listing\<close>

record donation_input =
  di_page :: int
  di_page_size :: int
  di_query :: string
  di_occurred_after :: "timestamp option"
  di_donation_id :: "int option"
  di_source :: "donation_source option"

definition search_pattern :: "string \<Rightarrow> string" where
  "search_pattern query = ''%'' @ query @ ''%''"

definition text_or_empty :: "string option \<Rightarrow> string" where
  "text_or_empty t = (case t of None \<Rightarrow> [] | Some s \<Rightarrow> s)"

definition donation_matches :: "donation_env \<Rightarrow> int \<Rightarrow> donation_input \<Rightarrow> donation_row \<Rightarrow> bool" where
  "donation_matches env uid inp d \<longleftrightarrow>
     d_user d = uid \<and> optional_holds (\<lambda>i. d_id d = i) (di_donation_id inp) \<and>
     optional_holds (\<lambda>t. t \<le> d_occurred_at d) (di_occurred_after inp) \<and>
     optional_holds (\<lambda>s. d_source d = s) (di_source inp) \<and>
     (di_query inp = [] \<or> ilike env (text_or_empty (d_author d)) (search_pattern (di_query inp)) \<or>
      ilike env (text_or_empty (d_message d)) (search_pattern (di_query inp)))"

definition count_donations :: "donation_env \<Rightarrow> db \<Rightarrow> int \<Rightarrow> donation_input \<Rightarrow> int" where
  "count_donations env db uid inp = int (length (filter (donation_matches env uid inp) (donations db)))"

text \<open>\<open>ORDER BY occurred_at DESC, donation_id DESC\<close>\<close>

definition newest_first :: "donation_row \<Rightarrow> int \<times> int" where
  "newest_first d = (- d_occurred_at d, - d_id d)"

definition sorted_donations :: "donation_env \<Rightarrow> db \<Rightarrow> int \<Rightarrow> donation_input \<Rightarrow> donation_row list" where
  "sorted_donations env db uid inp = sort_key newest_first (filter (donation_matches env uid inp) (donations db))"

definition donation_rows :: "donation_env \<Rightarrow> db \<Rightarrow> int \<Rightarrow> donation_input \<Rightarrow> donation_row list" where
  "donation_rows env db uid inp =
     limit_offset (di_page_size inp)
       (win_offset (get_pagination_window (count_donations env db uid inp) (di_page inp) (di_page_size inp)))
       (sorted_donations env db uid inp)"

record donation_video =
  dv_donation_id :: int
  dv_video_id :: int
  dv_url :: string
  dv_title :: "string option"
  dv_start_seconds :: int
  dv_end_seconds :: "int option"
  dv_queue_amount :: "nat option"
  dv_queue_currency :: queue_currency
  dv_priority_label :: "string option"
  dv_watched_at :: "timestamp option"
  dv_bookmarked_at :: "timestamp option"

definition donation_video_of :: "db \<Rightarrow> user_row \<Rightarrow> int \<Rightarrow> video_row \<Rightarrow> donation_video" where
  "donation_video_of db u did v =
     \<lparr>dv_donation_id = did, dv_video_id = v_id v, dv_url = v_url v, dv_title = v_title v,
      dv_start_seconds = v_start v, dv_end_seconds = v_end v, dv_queue_amount = v_amount v,
      dv_queue_currency = u_currency u, dv_priority_label = map_option p_label (find_priority db v),
      dv_watched_at = v_watched_at v, dv_bookmarked_at = v_bookmarked_at v\<rparr>"

definition parse_donation_video :: "(string \<Rightarrow> bool) \<Rightarrow> donation_video \<Rightarrow> donation_video option" where
  "parse_donation_video is_url v =
     (if valid_donation_id (dv_donation_id v) \<and> valid_video_id (dv_video_id v) \<and> is_url (dv_url v) \<and>
         optional_holds (\<lambda>t. parse_title t \<noteq> None) (dv_title v) \<and> z_nonnegative_int (dv_start_seconds v) \<and>
         optional_holds z_positive_int (dv_end_seconds v) \<and> optional_holds (\<lambda>a. a < 10 ^ 20) (dv_queue_amount v)
      then Some (v\<lparr>dv_title := Option.bind (dv_title v) parse_title\<rparr>) else None)"

text \<open>The joined rows of the donations shown, in the order of the videos.\<close>

definition joined_videos :: "db \<Rightarrow> int \<Rightarrow> int list \<Rightarrow> video_row \<Rightarrow> donation_video list" where
  "joined_videos db uid ids v =
     (case v_donation v of
        None \<Rightarrow> []
      | Some did \<Rightarrow>
          if did \<in> set ids
          then concat (map (\<lambda>d. map (\<lambda>u. donation_video_of db u did v)
                   (filter (\<lambda>u. u_id u = d_user d) (users db)))
                 (filter (\<lambda>d. d_id d = did \<and> d_user d = uid) (donations db)))
          else [])"

definition donation_video_rows :: "db \<Rightarrow> int \<Rightarrow> int list \<Rightarrow> donation_video list" where
  "donation_video_rows db uid ids = concat (map (joined_videos db uid ids) (sort_key v_id (videos db)))"

record donation_entry =
  dn_item :: donation_item
  dn_videos_parsed_at :: "timestamp option"
  dn_videos :: "donation_video list"

record donation_page =
  dpg_items :: "donation_entry list"
  dpg_page :: int
  dpg_page_size :: int
  dpg_total :: int
  dpg_total_pages :: int

definition parse_donation_item :: "donation_item \<Rightarrow> donation_item option" where
  "parse_donation_item d = (if valid_donation d then Some d else None)"

definition list_donations_page ::
  "donation_env \<Rightarrow> db \<Rightarrow> int \<Rightarrow> donation_input \<Rightarrow> failure + donation_page" where
  "list_donations_page env db uid inp =
     bind_result (ensure (optional_holds in_int8 (di_donation_id inp)) (DatabaseError NumericOutOfRange)) (\<lambda>_.
     let row_count = count_donations env db uid inp;
         window = get_pagination_window row_count (di_page inp) (di_page_size inp)
     in bind_result (parse_array parse_donation_item (map donation_item_of (donation_rows env db uid inp))) (\<lambda>items.
        bind_result (if items = [] then Inr []
                     else parse_array (parse_donation_video (de_is_url env))
                            (donation_video_rows db uid (map donationId items))) (\<lambda>vs.
        Inr \<lparr>dpg_items =
               map (\<lambda>d. \<lparr>dn_item = d, dn_videos_parsed_at = de_parsed_at env (donationId d),
                         dn_videos = filter (\<lambda>v. dv_donation_id v = donationId d) vs\<rparr>) items,
             dpg_page = win_page window, dpg_page_size = di_page_size inp, dpg_total = row_count,
             dpg_total_pages = win_total_pages window\<rparr>)))"

section \<open>The overview\<close>

text \<open>The digits after the point that an amount needs.\<close>

fun min_scale :: "nat \<Rightarrow> nat \<Rightarrow> nat" where
  "min_scale 0 amount = 0"
| "min_scale (Suc k) amount = (if amount mod 10 = 0 then min_scale k (amount div 10) else Suc k)"

record currency_overview =
  co_currency :: string
  co_donation_count :: int
  co_total_amount :: nat
  co_average_amount :: nat

definition currency_overview_of :: "donation_env \<Rightarrow> donation_row list \<Rightarrow> string \<Rightarrow> currency_overview" where
  "currency_overview_of env rows c =
     (let amounts = map d_amount (filter (\<lambda>d. d_currency d = c) rows);
          scale = max (Max (set (map (min_scale 18) amounts))) 2
      in \<lparr>co_currency = c, co_donation_count = int (length amounts), co_total_amount = sum_list amounts,
          co_average_amount = de_average env amounts scale\<rparr>)"

text \<open>\<open>ORDER BY donation_count DESC, currency\<close>\<close>

definition currency_overviews :: "donation_env \<Rightarrow> donation_row list \<Rightarrow> currency_overview list" where
  "currency_overviews env rows =
     sort_key (\<lambda>o'. (- co_donation_count o', de_rank env (co_currency o')))
       (map (currency_overview_of env rows) (remdups (map d_currency rows)))"

definition parse_currency_overview :: "currency_overview \<Rightarrow> currency_overview option" where
  "parse_currency_overview c =
     (if valid_donation_asset (co_currency c) \<and> 0 < co_donation_count c \<and> co_total_amount c < 10 ^ 38 \<and>
         co_average_amount c < 10 ^ 38
      then Some c else None)"

record donation_overview =
  do_currencies :: "currency_overview list"
  do_donation_count :: int
  do_recent_donations :: "donation_item list"

definition recent_donations :: "db \<Rightarrow> int \<Rightarrow> donation_row list" where
  "recent_donations db uid = take 3 (sort_key newest_first (filter (\<lambda>d. d_user d = uid) (donations db)))"

definition get_donation_overview :: "donation_env \<Rightarrow> db \<Rightarrow> int \<Rightarrow> failure + donation_overview" where
  "get_donation_overview env db uid =
     bind_result (parse_array parse_currency_overview
       (currency_overviews env (filter (\<lambda>d. d_user d = uid) (donations db)))) (\<lambda>currencies.
     bind_result (parse_array parse_donation_item (map donation_item_of (recent_donations db uid))) (\<lambda>recent.
     Inr \<lparr>do_currencies = currencies, do_donation_count = sum_list (map co_donation_count currencies),
          do_recent_donations = recent\<rparr>))"

section \<open>Procedures\<close>

datatype donation_period = All_time | Last_week | Last_month

record donation_page_request =
  dr_page :: int
  dr_period :: donation_period
  dr_donation_id :: "int option"
  dr_query :: string
  dr_source :: "donation_source option"

definition donation_page_size :: int where "donation_page_size = 25"

definition period_days :: "donation_period \<Rightarrow> int option" where
  "period_days p = (case p of Last_week \<Rightarrow> Some 7 | Last_month \<Rightarrow> Some 30 | All_time \<Rightarrow> None)"

definition parse_donation_page_request :: "donation_page_request \<Rightarrow> donation_page_request option" where
  "parse_donation_page_request req =
     (if z_positive_int (dr_page req) \<and> optional_holds valid_donation_id (dr_donation_id req) \<and>
         length (js_trim (dr_query req)) \<le> 200
      then Some (req\<lparr>dr_query := js_trim (dr_query req)\<rparr>) else None)"

definition donation_input_of :: "timestamp \<Rightarrow> donation_page_request \<Rightarrow> donation_input" where
  "donation_input_of now req =
     \<lparr>di_page = dr_page req, di_page_size = donation_page_size, di_query = dr_query req,
      di_occurred_after = map_option (\<lambda>days. now - days * 24 * 60 * 60 * 1000) (period_days (dr_period req)),
      di_donation_id = dr_donation_id req, di_source = dr_source req\<rparr>"

definition handle_donation_page ::
  "donation_env \<Rightarrow> timestamp \<Rightarrow> api_context \<Rightarrow> donation_page_request \<Rightarrow> db \<Rightarrow> api_error + donation_page" where
  "handle_donation_page env now ctx req db =
     fst (call_procedure (authenticated ctx) (parse_donation_page_request req)
       (\<lambda>uid r s. (map_error (\<lambda>_. UnexpectedError ''database'')
          (list_donations_page env s uid (donation_input_of now r)), s)) db)"

definition handle_donation_overview :: "donation_env \<Rightarrow> api_context \<Rightarrow> db \<Rightarrow> api_error + donation_overview" where
  "handle_donation_overview env ctx db =
     bind_result (authenticated ctx) (\<lambda>uid.
       map_error (\<lambda>_. UnexpectedError ''database'') (get_donation_overview env db uid))"

section \<open>The contract of the listing\<close>

interpretation donation_pages: paged_listing
  "\<lambda>(uid, inp). sorted_donations env db uid inp"
  "\<lambda>(uid, inp). count_donations env db uid inp"
  "\<lambda>(uid, inp) page per_page. donation_rows env db uid (inp\<lparr>di_page := page, di_page_size := per_page\<rparr>)"
  for env db
  by unfold_locales
    (auto simp: count_donations_def sorted_donations_def donation_rows_def donation_matches_def cong: filter_cong)

end
