(* ===== verification/DonationProperties.thy ===== *)
theory DonationProperties
  imports Donations "HOL-Library.Sublist"
begin

text \<open>
  What a user can rely on when looking at donations: the search finds texts as they are typed, the pages
  hold every matching donation once with its videos, and the overview adds up.
\<close>

section \<open>Search patterns\<close>

definition unmarked_char :: "char \<Rightarrow> bool" where
  "unmarked_char c \<longleftrightarrow> c \<noteq> CHR ''%'' \<and> c \<noteq> CHR ''_'' \<and> c \<noteq> CHR 0x5C"

lemma like_any [simp]: "like ''%'' s = Some True"
  by (induction s) simp_all

lemma like_plain_prefix: "list_all unmarked_char q \<Longrightarrow> like (q @ ''%'') s = Some (prefix q s)"
proof (induction q arbitrary: s)
  case (Cons c q)
  then show ?case by (cases s) (auto simp: unmarked_char_def)
qed (simp del: like.simps)

lemma like_plain_search: "list_all unmarked_char q \<Longrightarrow> like (search_pattern q) s = Some (sublist q s)"
proof (induction s)
  case Nil
  then show ?case by (simp add: search_pattern_def like_plain_prefix)
next
  case (Cons c s)
  then have "like (CHR ''%'' # q @ ''%'') s = Some (sublist q s)" by (simp add: search_pattern_def)
  then show ?case
    using like_plain_prefix [OF Cons(2), of "c # s"] by (simp add: search_pattern_def sublist_Cons_right)
qed

text \<open>Only a pattern that ends in a backslash of its own is an error, and a search pattern does not.\<close>

fun dangling :: "string \<Rightarrow> bool" where
  "dangling [] = False"
| "dangling (p # ps) =
     (if p = CHR 0x5C then (case ps of [] \<Rightarrow> True | q # qs \<Rightarrow> dangling qs) else dangling ps)"

lemma like_no_error: "\<not> dangling p \<Longrightarrow> like p s \<noteq> None"
proof (induction p s rule: like.induct)
  case (2 p ps s)
  consider "p = CHR 0x5C" | "p = CHR ''%''" | "p \<noteq> CHR 0x5C" "p \<noteq> CHR ''%''" by blast
  then show ?case
  proof cases
    case 1
    then show ?thesis using 2 by (cases ps; cases s) auto
  next
    case any: 2
    then have "like ps s \<noteq> None" using 2(2, 5) by simp
    then show ?thesis using any 2(3) 2(5) by (cases s) auto
  next
    case 3
    then show ?thesis using 2(4, 5) by (cases s) auto
  qed
qed simp

lemma not_dangling_last: "\<not> dangling (q @ ''%'')"
proof (induction q rule: dangling.induct)
  case (2 p ps)
  then show ?case by (cases ps) auto
qed simp

lemma search_no_error: "like (search_pattern q) s \<noteq> None"
  using like_no_error [of "search_pattern q"] not_dangling_last [of q] by (simp add: search_pattern_def)

section \<open>The rows of a page\<close>

lemma donation_owner_row:
  assumes "db_ok db" and "d \<in> set (donations db)"
  obtains u where "filter (\<lambda>u. u_id u = d_user d) (users db) = [u]"
proof -
  have "d_user d \<in> set (user_ids db)" using assms by (simp add: db_ok_def donations_ok_def donation_row_ok_def)
  then obtain u where "u \<in> set (users db)" "u_id u = d_user d" by (auto simp: user_ids_def)
  then show thesis
    using that filter_unique_key [of u_id "users db" u] assms(1) by (auto simp: db_ok_def users_ok_def user_ids_def)
qed

lemma donation_item_valid:
  assumes "db_ok db" and "d \<in> set (donations db)"
  shows "valid_donation (donation_item_of d)"
proof -
  have ok: "donation_row_ok (user_ids db) d" using assms by (simp add: db_ok_def donations_ok_def)
  then obtain u where "u \<in> set (users db)" "u_id u = d_user d" by (auto simp: donation_row_ok_def user_ids_def)
  then have "int4_id (next_user_id db) (d_user d)" using assms(1) by (auto simp: db_ok_def users_ok_def)
  then have "valid_user_id (d_user d)" unfolding valid_user_id_def by (rule int4_id_positive)
  then show ?thesis using ok
    by (simp add: valid_donation_def donation_item_of_def donation_row_ok_def valid_donation_id_def)
qed

lemma joined_videos_one:
  assumes "db_ok db" and "\<forall>i \<in> set ids. \<exists>d \<in> set (donations db). d_id d = i \<and> d_user d = uid"
  shows "\<exists>u. joined_videos db uid ids v =
    (case v_donation v of None \<Rightarrow> [] | Some did \<Rightarrow> if did \<in> set ids then [donation_video_of db u did v] else [])"
proof (cases "v_donation v")
  case (Some did)
  show ?thesis
  proof (cases "did \<in> set ids")
    case True
    then obtain d where d: "d \<in> set (donations db)" "d_id d = did" "d_user d = uid" using assms(2) by blast
    have "filter (\<lambda>x. d_id x = d_id d) (donations db) = [d]"
      using d(1) assms(1) by (intro filter_unique_key) (simp_all add: db_ok_def donations_ok_def)
    moreover have "filter (\<lambda>x. d_id x = did \<and> d_user x = uid) (donations db) =
        filter (\<lambda>x. d_user x = uid) (filter (\<lambda>x. d_id x = did) (donations db))" by simp
    ultimately have "filter (\<lambda>x. d_id x = did \<and> d_user x = uid) (donations db) = [d]"
      using d by simp
    moreover obtain u where "filter (\<lambda>u. u_id u = d_user d) (users db) = [u]"
      using donation_owner_row [OF assms(1) d(1)] .
    ultimately have "joined_videos db uid ids v = [donation_video_of db u did v]"
      using Some True by (simp add: joined_videos_def)
    then show ?thesis using Some True by auto
  qed (simp add: joined_videos_def Some)
qed (simp add: joined_videos_def)

definition shown_video :: "db \<Rightarrow> user_row \<Rightarrow> int \<Rightarrow> video_row \<Rightarrow> donation_video" where
  "shown_video db u did v = (donation_video_of db u did v)\<lparr>dv_title := Option.bind (v_title v) parse_title\<rparr>"

lemma donation_video_valid:
  assumes "db_ok db" and "v \<in> set (videos db)" and "is_url (v_url v)" and "0 < did"
  shows "parse_donation_video is_url (donation_video_of db u did v) = Some (shown_video db u did v)"
proof -
  have "clip_ok v" and "0 < v_id v" using assms(1, 2) by (simp_all add: db_ok_def videos_ok_def video_row_ok_def)
  then show ?thesis using stored_timing [of v] assms(3, 4)
    by (simp add: parse_donation_video_def donation_video_of_def shown_video_def valid_donation_id_def valid_video_id_def)
qed

lemma donation_videos_parsed:
  assumes "db_ok db" and "urls_ok is_url db"
    and "\<forall>i \<in> set ids. \<exists>d \<in> set (donations db). d_id d = i \<and> d_user d = uid"
  shows "\<exists>vs. parse_array (parse_donation_video is_url) (donation_video_rows db uid ids) = Inr vs \<and>
    (\<forall>i \<in> set ids. map dv_video_id (filter (\<lambda>v. dv_donation_id v = i) vs) =
       map v_id (filter (\<lambda>v. v_donation v = Some i) (sort_key v_id (videos db))))"
proof -
  obtain owner where joined: "\<And>v. joined_videos db uid ids v =
      (case v_donation v of None \<Rightarrow> [] | Some did \<Rightarrow>
         if did \<in> set ids then [donation_video_of db (owner v) did v] else [])"
    using joined_videos_one [OF assms(1, 3)] by metis
  have positive: "\<forall>i \<in> set ids. 0 < i"
    using assms(1, 3) by (fastforce simp: db_ok_def donations_ok_def donation_row_ok_def)
  define shown where "shown rows = concat (map (\<lambda>v. case v_donation v of None \<Rightarrow> [] | Some did \<Rightarrow>
         if did \<in> set ids then [shown_video db (owner v) did v] else []) rows)" for rows
  have "parse_array (parse_donation_video is_url) (concat (map (joined_videos db uid ids) rows)) = Inr (shown rows)"
    if "set rows \<subseteq> set (videos db)" for rows
    using that
  proof (induction rows)
    case (Cons v rows)
    then have "parse_donation_video is_url (donation_video_of db (owner v) did v) = Some (shown_video db (owner v) did v)"
      if "did \<in> set ids" for did
      using donation_video_valid [OF assms(1)] assms(2) positive that by (simp add: urls_ok_def)
    then show ?case using Cons
      by (auto simp: joined shown_def parse_array_def parse_row_def split: option.split)
  qed (simp add: shown_def parse_array_def)
  moreover have "map dv_video_id (filter (\<lambda>v. dv_donation_id v = i) (shown rows)) =
      map v_id (filter (\<lambda>v. v_donation v = Some i) rows)" if "i \<in> set ids" for i rows
    using that by (induction rows) (auto simp: shown_def shown_video_def donation_video_of_def split: option.split)
  ultimately show ?thesis by (auto simp: donation_video_rows_def)
qed

lemma donation_rows_set:
  "set (donation_rows env db uid inp) \<subseteq> set (filter (donation_matches env uid inp) (donations db))"
  using set_take_subset set_drop_subset
  by (fastforce simp: donation_rows_def limit_offset_def sorted_donations_def)

text \<open>A page is served from its rows.\<close>

lemma donation_page_served:
  assumes "db_ok db" and "urls_ok (de_is_url env) db" and "optional_holds in_int8 (di_donation_id inp)"
  shows "\<exists>pg. list_donations_page env db uid inp = Inr pg \<and>
    map dn_item (dpg_items pg) = map donation_item_of (donation_rows env db uid inp) \<and>
    dpg_total pg = count_donations env db uid inp \<and>
    list_all (\<lambda>e. map dv_video_id (dn_videos e) =
      map v_id (filter (\<lambda>v. v_donation v = Some (donationId (dn_item e))) (sort_key v_id (videos db)))) (dpg_items pg)"
proof -
  let ?rows = "donation_rows env db uid inp"
  have stored: "\<forall>d \<in> set ?rows. d \<in> set (donations db) \<and> d_user d = uid"
    using donation_rows_set by (fastforce simp: donation_matches_def)
  have items: "parse_array parse_donation_item (map donation_item_of ?rows) = Inr (map donation_item_of ?rows)"
    by (rule parse_array_map) (use stored donation_item_valid [OF assms(1)] in \<open>simp add: parse_donation_item_def\<close>)
  let ?ids = "map donationId (map donation_item_of ?rows)"
  have "\<forall>i \<in> set ?ids. \<exists>d \<in> set (donations db). d_id d = i \<and> d_user d = uid"
    using stored by (auto simp: donation_item_of_def)
  from donation_videos_parsed [OF assms(1, 2) this] obtain vs where
      vs: "parse_array (parse_donation_video (de_is_url env)) (donation_video_rows db uid ?ids) = Inr vs"
      "\<forall>i \<in> set ?ids. map dv_video_id (filter (\<lambda>v. dv_donation_id v = i) vs) =
         map v_id (filter (\<lambda>v. v_donation v = Some i) (sort_key v_id (videos db)))" by blast
  show ?thesis
  proof (cases "?rows = []")
    case True
    then show ?thesis using assms(3) items by (simp add: list_donations_page_def Let_def)
  next
    case False
    then show ?thesis using assms(3) items vs
      by (simp add: list_donations_page_def Let_def list_all_iff comp_def)
  qed
qed

section \<open>The overview\<close>

definition amounts_in :: "db \<Rightarrow> int \<Rightarrow> string \<Rightarrow> nat list" where
  "amounts_in db uid c = map d_amount (filter (\<lambda>d. d_user d = uid \<and> d_currency d = c) (donations db))"

lemma overview_amounts:
  fixes db uid
  defines "rows \<equiv> filter (\<lambda>d. d_user d = uid) (donations db)"
  shows "co_currency (currency_overview_of env rows c) = c"
    and "co_donation_count (currency_overview_of env rows c) = int (length (amounts_in db uid c))"
    and "co_total_amount (currency_overview_of env rows c) = sum_list (amounts_in db uid c)"
    and "\<exists>k. co_average_amount (currency_overview_of env rows c) = de_average env (amounts_in db uid c) k"
  by (auto simp: currency_overview_of_def rows_def amounts_in_def Let_def conj_commute)

lemma sum_group_counts:
  "sum_list (map (\<lambda>k. int (length (filter (\<lambda>v. f v = k) vs))) (remdups (map f vs))) = int (length vs)"
proof -
  have "sum_list (map (\<lambda>k. int (length (filter (\<lambda>v. f v = k) vs))) (remdups (map f vs))) =
      (\<Sum>k \<in> f ` set vs. int (count_list (map f vs) k))"
    by (subst sum_list_distinct_conv_sum_set) (simp_all add: count_list_eq_length_filter filter_map comp_def eq_commute)
  also have "\<dots> = int (\<Sum>k \<in> set (map f vs). count_list (map f vs) k)" by simp
  also have "(\<Sum>k \<in> set (map f vs). count_list (map f vs) k) = length (map f vs)" by (rule sum_count_set) simp_all
  finally show ?thesis by simp
qed

lemma overview_valid:
  assumes "db_ok db" and "d \<in> set (donations db)" and "d_user d = uid"
    and "\<And>xs k. xs \<noteq> [] \<Longrightarrow> de_average env xs k \<le> Max (set xs)"
  shows "parse_currency_overview (currency_overview_of env (filter (\<lambda>d. d_user d = uid) (donations db)) (d_currency d)) =
    (if sum_list (amounts_in db uid (d_currency d)) < 10 ^ 38
     then Some (currency_overview_of env (filter (\<lambda>d. d_user d = uid) (donations db)) (d_currency d)) else None)"
proof -
  let ?o = "currency_overview_of env (filter (\<lambda>d. d_user d = uid) (donations db)) (d_currency d)"
  let ?amounts = "amounts_in db uid (d_currency d)"
  have member: "d_amount d \<in> set ?amounts" using assms(2, 3) by (auto simp: amounts_in_def)
  then have nonempty: "?amounts \<noteq> []" by auto
  have rows: "\<forall>d \<in> set (donations db). d_amount d < 10 ^ 38 \<and> valid_donation_asset (d_currency d)"
    using assms(1) by (simp add: db_ok_def donations_ok_def donation_row_ok_def)
  have "Max (set ?amounts) < 10 ^ 38"
  proof -
    have "Max (set ?amounts) \<in> set ?amounts" using nonempty by (intro Max_in) simp_all
    then obtain x where "x \<in> set (donations db)" "d_amount x = Max (set ?amounts)" by (auto simp: amounts_in_def)
    then show ?thesis using rows by metis
  qed
  then have average: "co_average_amount ?o < 10 ^ 38"
    using overview_amounts(4) [of env uid db "d_currency d"] assms(4) [OF nonempty] by (metis le_less_trans)
  have "0 < length ?amounts" using nonempty by simp
  then show ?thesis
    using average rows assms(2) overview_amounts(1-3) [of env uid db "d_currency d"]
    by (simp add: parse_currency_overview_def)
qed

text \<open>A page that is answered shows exactly its rows.\<close>

lemma donation_page_shown:
  assumes "db_ok db" and "urls_ok (de_is_url env) db" and "optional_holds in_int8 (di_donation_id inp)"
  obtains pg where "list_donations_page env db uid inp = Inr pg"
    and "map (\<lambda>e. donationId (dn_item e)) (dpg_items pg) = map d_id (donation_rows env db uid inp)"
    and "length (dpg_items pg) = length (donation_rows env db uid inp)"
    and "list_all (\<lambda>e. map dv_video_id (dn_videos e) =
      map v_id (filter (\<lambda>v. v_donation v = Some (donationId (dn_item e))) (sort_key v_id (videos db)))) (dpg_items pg)"
proof -
  obtain pg where pg: "list_donations_page env db uid inp = Inr pg"
    and rows: "map dn_item (dpg_items pg) = map donation_item_of (donation_rows env db uid inp)"
    and videos: "list_all (\<lambda>e. map dv_video_id (dn_videos e) =
      map v_id (filter (\<lambda>v. v_donation v = Some (donationId (dn_item e))) (sort_key v_id (videos db)))) (dpg_items pg)"
    using donation_page_served [OF assms] by blast
  have "map (\<lambda>e. donationId (dn_item e)) (dpg_items pg) = map donationId (map dn_item (dpg_items pg))" by simp
  also have "\<dots> = map d_id (donation_rows env db uid inp)" unfolding rows by (simp add: donation_item_of_def)
  finally show thesis using that pg videos arg_cong [OF rows, of length] by simp
qed

lemma sorted_donations_rows:
  assumes "db_ok db"
  shows "distinct (map d_id (sorted_donations env db uid inp))"
    and "set (sorted_donations env db uid inp) = {d \<in> set (donations db). donation_matches env uid inp d}"
proof -
  have "distinct (map d_id (donations db))" using assms by (simp add: db_ok_def donations_ok_def)
  then have "distinct (map d_id (filter (donation_matches env uid inp) (donations db)))"
    by (rule distinct_map_filter)
  then show "distinct (map d_id (sorted_donations env db uid inp))"
    unfolding sorted_donations_def by (simp add: distinct_map)
qed (auto simp: sorted_donations_def)

text \<open>The rows of an overview: the newest donations pass their schema, and the entries split the donations.\<close>

lemma recent_donations_valid:
  assumes "db_ok db"
  shows "parse_array parse_donation_item (map donation_item_of (recent_donations db uid)) =
    Inr (map donation_item_of (recent_donations db uid))"
proof (rule parse_array_map)
  fix d assume "d \<in> set (recent_donations db uid)"
  then have "d \<in> set (donations db)" by (auto simp: recent_donations_def dest: in_set_takeD)
  then show "parse_donation_item (donation_item_of d) = Some (donation_item_of d)"
    using donation_item_valid [OF assms] by (simp add: parse_donation_item_def)
qed

lemma set_currency_overviews:
  "set (currency_overviews env rows) = currency_overview_of env rows ` d_currency ` set rows"
  by (simp add: currency_overviews_def)

lemma currency_overviews_split:
  fixes db :: db and uid :: int
  defines "rows \<equiv> filter (\<lambda>d. d_user d = uid) (donations db)"
  shows "distinct (map co_currency (currency_overviews env rows))"
    and "set (map co_currency (currency_overviews env rows)) = d_currency ` set rows"
    and "list_all (\<lambda>c. co_donation_count c = int (length (amounts_in db uid (co_currency c))) \<and>
      co_total_amount c = sum_list (amounts_in db uid (co_currency c))) (currency_overviews env rows)"
    and "sum_list (map co_donation_count (currency_overviews env rows)) = int (length rows)"
proof -
  have currencies: "mset (map co_currency (currency_overviews env rows)) = mset (remdups (map d_currency rows))"
    by (simp add: currency_overviews_def rows_def overview_amounts(1) image_mset.compositionality comp_def)
  then show "distinct (map co_currency (currency_overviews env rows))"
    by (metis distinct_remdups mset_eq_imp_distinct_iff)
  show "set (map co_currency (currency_overviews env rows)) = d_currency ` set rows"
    using mset_eq_setD [OF currencies] by auto
  show "list_all (\<lambda>c. co_donation_count c = int (length (amounts_in db uid (co_currency c))) \<and>
      co_total_amount c = sum_list (amounts_in db uid (co_currency c))) (currency_overviews env rows)"
    by (auto simp: list_all_iff set_currency_overviews rows_def overview_amounts(1-3))
  have "sum_list (map co_donation_count (currency_overviews env rows)) =
      sum_list (map co_donation_count (map (currency_overview_of env rows) (remdups (map d_currency rows))))"
    unfolding currency_overviews_def by (simp add: image_mset.compositionality flip: sum_mset_sum_list)
  also have "\<dots> = sum_list (map (\<lambda>k. int (length (filter (\<lambda>d. d_currency d = k) rows))) (remdups (map d_currency rows)))"
    by (simp add: currency_overview_of_def Let_def comp_def)
  also have "\<dots> = int (length rows)" by (rule sum_group_counts)
  finally show "sum_list (map co_donation_count (currency_overviews env rows)) = int (length rows)" .
qed

lemma too_large_total_refused:
  assumes "amounts_in db uid c \<noteq> []" and "parse_currency_overview
      (currency_overview_of env (filter (\<lambda>d. d_user d = uid) (donations db)) c) = None"
  shows "\<exists>e. parse_array parse_currency_overview
    (currency_overviews env (filter (\<lambda>d. d_user d = uid) (donations db))) = Inl e"
proof -
  let ?rows = "filter (\<lambda>d. d_user d = uid) (donations db)"
  have "c \<in> d_currency ` set ?rows" using assms(1) by (auto simp: amounts_in_def filter_empty_conv)
  then have member: "currency_overview_of env ?rows c \<in> set (currency_overviews env ?rows)"
    by (simp add: set_currency_overviews)
  have "parse_array parse_currency_overview xs \<noteq> Inr ys" if "currency_overview_of env ?rows c \<in> set xs" for xs ys
    using that assms(2)
    by (induction xs arbitrary: ys) (auto simp: parse_array_def parse_row_def bind_result_Inr_iff)
  then show ?thesis using member by (metis old.sum.exhaust)
qed

section \<open>Properties\<close>

text \<open>
  C8: Searching never fails on its pattern, and a query without a percent sign, an underscore or a
  backslash finds exactly the texts that contain it, letters compared in lower case.
\<close>

theorem donation_search_exact:
  assumes "\<And>a b. de_lower env (a @ b) = de_lower env a @ de_lower env b" and "de_lower env ''%'' = ''%''"
  shows "like (search_pattern query) t \<noteq> None \<and>
    (if list_all unmarked_char (de_lower env query)
     then ilike env t (search_pattern query) = sublist (de_lower env query) (de_lower env t) else True)"
proof -
  have "de_lower env (search_pattern query) = search_pattern (de_lower env query)"
    using assms by (simp only: search_pattern_def)
  then show ?thesis using search_no_error like_plain_search by (simp add: ilike_def)
qed

theorem donation_search_exact_witness:
  "ilike \<lparr>de_is_url = (\<lambda>_. True), de_lower = (\<lambda>s. s), de_rank = (\<lambda>_. 0), de_average = (\<lambda>_ _. 0), de_parsed_at = (\<lambda>_. None)\<rparr>
     ''great song'' (search_pattern ''at s'')"
proof -
  let ?env = "\<lparr>de_is_url = (\<lambda>_. True), de_lower = (\<lambda>s. s), de_rank = (\<lambda>_. 0), de_average = (\<lambda>_ _. 0),
    de_parsed_at = (\<lambda>_. None)\<rparr>"
  have "sublist ''at s'' ''great song''"
    unfolding sublist_def by (intro exI [of _ "''gre''"] exI [of _ "''ong''"]) simp
  then show ?thesis
    using donation_search_exact [of ?env "''at s''" "''great song''"] by (simp add: unmarked_char_def)
qed


definition sample_donation_env :: donation_env where
  "sample_donation_env = \<lparr>de_is_url = (\<lambda>_. True), de_lower = (\<lambda>s. s), de_rank = (\<lambda>_. 0),
     de_average = (\<lambda>xs _. sum_list xs div length xs), de_parsed_at = (\<lambda>_. None)\<rparr>"

definition sample_donation_input :: donation_input where
  "sample_donation_input = \<lparr>di_page = 1, di_page_size = 25, di_query = [], di_occurred_after = None,
     di_donation_id = None, di_source = None\<rparr>"




end
