(* ===== verification/RestreamSessions.thy ===== *)
theory RestreamSessions
  imports RestreamProperties
begin

text \<open>
  Requests that must succeed: creating a destination below the limit and authorising a publisher;
  what a heartbeat may change; and which destination servers are accepted.
\<close>

section \<open>Creating a destination\<close>

lemma server_url_checked: "valid_server_url url \<Longrightarrow> server_url_check url"
proof -
  assume valid: "valid_server_url url"
  then obtain rest where rest: "rtmp_rest url = Some rest" "list_all plain_char rest"
    by (auto simp: valid_server_url_def split: option.split_asm)
  then have "url = ''rtmp://'' @ rest \<or> url = ''rtmps://'' @ rest"
    by (auto simp: rtmp_rest_def strip_prefix_iff split: option.split_asm)
  moreover have "CHR ''#'' \<notin> set rest" using rest(2) by (auto simp: list_all_iff plain_char_def)
  ultimately have "CHR ''#'' \<notin> set url" by auto
  then show ?thesis using valid rest(1) by (simp add: server_url_check_def valid_server_url_def)
qed

lemma credential_checked:
  assumes "env_ok env" and "length nonce = nonce_bytes" and "valid_stream_key key"
  shows "ciphertext_check (encrypt (re_crypto env) (re_key env) nonce key)"
    and "1 \<le> length (stream_key_hint key)" and "length (stream_key_hint key) \<le> 8"
  using assms utf8_bytes_length [of key] encrypt_length [of "re_crypto env" nonce "re_key env" key]
  by (auto simp: ciphertext_check_def env_ok_def nonce_bytes_def tag_bytes_def valid_stream_key_def
      stream_key_hint_def)

lemma length_destinations_of: "length (destinations_of db uid) = length (filter (\<lambda>d. rd_user d = uid) (r_destinations db))"
  by (simp add: destinations_of_def)

lemma owned_positions_bound:
  assumes ok: "restream_ok env db" and d: "d \<in> set (r_destinations db)"
  shows "rd_position d < int (length (destinations_of db (rd_user d)))"
proof -
  have "rd_user d \<in> set (r_users db)" using base_ids(3) d ok by (auto simp: restream_ok_def)
  then have "positions_from_zero db (rd_user d)" using ok by (simp add: restream_ok_def list_all_iff)
  moreover have "rd_position d \<in> set (map rd_position (destinations_of db (rd_user d)))" using d by auto
  ultimately show ?thesis by (auto simp: positions_from_zero_def)
qed

lemma create_destination_exact:
  assumes ok: "restream_ok env db" and env: "env_ok env" and nonce: "length nonce = nonce_bytes"
    and inp: "label_ok label" "valid_server_url url" "valid_stream_key key"
    and id: "valid_uuid new_id" "new_id \<notin> rd_id ` set (r_destinations db)" and user: "uid \<in> set (r_users db)"
  shows "fst (create_destination env nonce new_id uid platform label url key db) =
    (if length (destinations_of db uid) < max_restream_destinations then Inr new_id else Inl Destination_limit)"
proof (cases "length (destinations_of db uid) < max_restream_destinations")
  case False
  then show ?thesis by (simp add: create_destination_def length_destinations_of Let_def)
next
  case True
  let ?count = "length (filter (\<lambda>d. rd_user d = uid) (r_destinations db))"
  let ?d = "\<lparr>rd_id = new_id, rd_user = uid, rd_platform = platform, rd_label = label, rd_server_url = url,
    rd_ciphertext = encrypt (re_crypto env) (re_key env) nonce key,
    rd_hint = stream_key_hint key, rd_enabled = True, rd_position = int ?count\<rparr>"
  have base: "restream_base env db" using ok by (simp add: restream_ok_def)
  have "(uid, int ?count) \<notin> (\<lambda>d. (rd_user d, rd_position d)) ` set (r_destinations db)"
    using owned_positions_bound [OF ok] by (fastforce simp: length_destinations_of)
  then have "list_all fst (destination_constraints db (r_destinations db @ [?d]))"
    using base_constraints(1) [OF base] id(2) user True label_ok_check [OF inp(1)] server_url_checked [OF inp(2)]
      credential_checked [OF env nonce inp(3)]
    by (auto simp: destination_constraints_def length_destinations_of max_restream_destinations_def)
  then have "store_destinations db (r_destinations db @ [?d]) = Inr (db\<lparr>r_destinations := r_destinations db @ [?d]\<rparr>)"
    by (simp add: stored_destinations)
  then show ?thesis
    using True id(1) by (simp add: create_destination_def length_destinations_of Let_def)
qed

text \<open>
  A well-formed request to create a destination is answered in exactly three ways: BAD_REQUEST
  for a server URL that is not accepted, PRECONDITION_FAILED when the user has three destinations,
  and otherwise the new destination; no database constraint can turn it into a server error.
\<close>

theorem create_request_answers:
  assumes "env_ok env" and "restream_ok env db" and "entropy_ok en" and "authenticated ctx = Inr uid"
    and "uid \<in> set (r_users db)" and "en_new_id en \<notin> rd_id ` set (r_destinations db)"
    and "parse_restream_request req = Some (CreateDestination platform label url key)"
  shows "fst (handle_restream_request env en ctx req db) =
    (if normalize_restream_server_url (re_urls env) (re_is_ipv6 env) url = None
     then Inl (TRPCError BAD_REQUEST ''Invalid restream destination server URL.'')
     else if length (destinations_of db uid) < 3 then Inr (DestinationResponse (en_new_id en))
     else Inl (TRPCError PRECONDITION_FAILED ''Restream destination limit reached.''))"
proof (cases "normalize_restream_server_url (re_urls env) (re_is_ipv6 env) url")
  case None
  then show ?thesis
    using assms(4,7) by (simp add: handle_restream_request_def call_procedure_def restream_outcome_def
        normalized_def to_trpc_error_def Let_def)
next
  case (Some target)
  have inp: "label_ok label" "valid_stream_key key"
    using parsed_request_ok [OF assms(7)] by (simp_all add: request_ok_def)
  have "fst (create_destination env (en_nonce en) (en_new_id en) uid platform label target key db) =
      (if length (destinations_of db uid) < max_restream_destinations then Inr (en_new_id en)
       else Inl Destination_limit)"
    using assms(3) by (intro create_destination_exact [OF assms(2,1) _ inp(1) normalize_valid [OF Some] inp(2)])
      (simp_all add: entropy_ok_def assms(5,6))
  then show ?thesis
    using Some assms(4,7)
    by (simp add: handle_restream_request_def call_procedure_def restream_outcome_def normalized_def
        answer_def to_trpc_error_def Let_def max_restream_destinations_def)
qed

lemma sample_create_parses:
  "parse_restream_request (CreateDestination Custom_platform ''Main'' sample_url ''secret'') =
   Some (CreateDestination Custom_platform ''Main'' sample_url ''secret'')"
  by (simp add: parse_restream_request_def parse_label_def parse_server_url_input_def sample_url_def
      js_trim_def is_space_def code_def valid_stream_key_def plain_char_def)

lemma sample_target: "normalize_restream_server_url sample_urls (\<lambda>_. False) sample_url = Some sample_url"
  by (simp add: normalize_restream_server_url_def sample_urls_def sample_url_def js_trim_def is_space_def
      code_def forbidden_host_def is_ipv4_def unbracket_def drop_slashes_def drop_slash_def to_lower_def
      lower_char_def is_upper_alpha_def valid_server_url_def rtmp_rest_def strip_prefix_def plain_char_def
      Let_def)

theorem create_request_answers_witness:
  "fst (handle_restream_request sample_env sample_entropy \<lparr>ctx_user_id = Some 2, ctx_is_admin = False\<rparr>
     (CreateDestination Custom_platform ''Main'' sample_url ''secret'') sample_restream) =
   Inr (DestinationResponse (en_new_id sample_entropy))"
proof -
  let ?ctx = "\<lparr>ctx_user_id = Some 2, ctx_is_admin = False\<rparr>"
  have "authenticated ?ctx = Inr 2" by (simp add: authenticated_def)
  moreover have "2 \<in> set (r_users sample_restream)" by (simp add: sample_restream_def)
  moreover have "en_new_id sample_entropy \<notin> rd_id ` set (r_destinations sample_restream)"
    by (simp add: sample_restream_def sample_entropy_def sample_destination_def id_a_def id_b_def)
  ultimately have "fst (handle_restream_request sample_env sample_entropy ?ctx
      (CreateDestination Custom_platform ''Main'' sample_url ''secret'') sample_restream) =
    (if normalize_restream_server_url (re_urls sample_env) (re_is_ipv6 sample_env) sample_url = None
     then Inl (TRPCError BAD_REQUEST ''Invalid restream destination server URL.'')
     else if length (destinations_of sample_restream 2) < 3 then Inr (DestinationResponse (en_new_id sample_entropy))
     else Inl (TRPCError PRECONDITION_FAILED ''Restream destination limit reached.''))"
    by (rule create_request_answers [OF sample_env_ok sample_restream_ok sample_entropy_ok _ _ _ sample_create_parses])
  then show ?thesis
    using sample_target by (simp add: sample_env_def destinations_of_def sample_restream_def sample_destination_def)
qed

section \<open>Authorising a publisher\<close>

definition target_of :: "restream_env \<Rightarrow> destination_row \<Rightarrow> string" where
  "target_of env d =
     rd_server_url d @ ''#'' @ the (decrypt (re_crypto env) (re_key env) (rd_ciphertext d))"

lemma decrypt_targets_all:
  "list_all (destination_ok env) ds \<Longrightarrow>
   decrypt_targets env ds = Inr (map (\<lambda>d. (rd_id d, target_of env d)) ds)"
  by (induction ds) (auto simp: destination_ok_def target_of_def split: option.split_asm)

lemma target_valid:
  assumes "destination_ok env d" shows "valid_target_url (target_of env d)"
proof -
  obtain key where key: "decrypt (re_crypto env) (re_key env) (rd_ciphertext d) = Some key" "valid_stream_key key"
    and url: "valid_server_url (rd_server_url d)"
    using assms by (auto simp: destination_ok_def split: option.split_asm)
  then obtain rest where rest: "rtmp_rest (rd_server_url d) = Some rest" "rest \<noteq> []" "list_all plain_char rest"
    and len: "10 \<le> length (rd_server_url d)" "length (rd_server_url d) \<le> 2048"
    by (auto simp: valid_server_url_def split: option.split_asm)
  have "rd_server_url d = ''rtmp://'' @ rest \<or> rd_server_url d = ''rtmps://'' @ rest"
    using rest(1) by (auto simp: rtmp_rest_def strip_prefix_iff split: option.split_asm)
  then have parts: "rtmp_rest (rd_server_url d @ ''#'' @ key) = Some (rest @ ''#'' @ key)"
    by (auto simp: rtmp_rest_def strip_prefix_def)
  have key_plain: "list_all plain_char key" and key_len: "1 \<le> length key" "length key \<le> 512"
    using key(2) unfolding valid_stream_key_def by blast+
  have no_hash: "CHR ''#'' \<notin> set w" and no_space: "list_all (\<lambda>c. \<not> is_space c) w" if "list_all plain_char w" for w
    using that unfolding list_all_iff plain_char_def by blast+
  have "key \<noteq> []" using key_len(1) by (cases key) simp_all
  note plain = no_hash [OF rest(3)] no_hash [OF key_plain] no_space [OF rest(3)] no_space [OF key_plain] this key_len(2)
  have pieces: "js_split (CHR ''#'') (rest @ ''#'' @ key) = [rest, key]"
    using plain(1,2) js_split_append [of "CHR ''#''" rest key] js_split_no_sep [of "CHR ''#''" key] by simp
  have "\<not> is_space (CHR ''#'')" by (simp add: is_space_def code_def)
  then have solid: "list_all (\<lambda>c. \<not> is_space c) (rest @ ''#'' @ key)" using plain(3,4) by simp
  have target: "target_of env d = rd_server_url d @ ''#'' @ key" using key(1) by (simp add: target_of_def)
  have "1 \<le> length key" using plain(5) by (cases key) simp_all
  then have "12 \<le> length (target_of env d)" "length (target_of env d) \<le> 3072"
    unfolding target using len plain(6) by simp_all
  moreover have "rtmp_rest (target_of env d) = Some (rest @ ''#'' @ key)" using parts target by simp
  ultimately show ?thesis
    using pieces solid rest(2) plain(5) unfolding valid_target_url_def by simp
qed

lemma insert_session_destinations_succeeds:
  assumes "list_all fst (session_destination_constraints db (r_session_destinations db))"
    and "distinct (map rd_id ds)"
    and "\<forall>d \<in> set ds. d \<in> set (r_destinations db) \<and> rd_user d = uid"
    and "(session_id, uid) \<in> session_keys (r_sessions db)"
    and "\<forall>d \<in> set ds. (session_id, rd_id d) \<notin> (\<lambda>r. (sd_session r, sd_destination r)) ` set (r_session_destinations db)"
  shows "\<exists>db'. insert_session_destinations session_id uid ds db = Inr db'"
  using assms
proof (induction ds arbitrary: db)
  case (Cons d ds)
  let ?row = "\<lparr>sd_session = session_id, sd_destination = rd_id d, sd_user = uid, sd_state = Idle, sd_bytes = 0\<rparr>"
  let ?db = "db\<lparr>r_session_destinations := r_session_destinations db @ [?row]\<rparr>"
  have owner: "(rd_id d, uid) \<in> (\<lambda>d. (rd_id d, rd_user d)) ` set (r_destinations db)"
    using Cons.prems(3) by force
  have session: "(session_id, uid) \<in> (\<lambda>s. (rs_id s, rs_user s)) ` set (r_sessions db)"
    using Cons.prems(4) by (simp add: session_keys_def)
  have checked: "list_all fst (session_destination_constraints db (r_session_destinations db @ [?row]))"
    using Cons.prems(1) Cons.prems(5) owner session
    unfolding session_destination_constraints_def list_all_iff by auto
  have "\<exists>db'. insert_session_destinations session_id uid ds ?db = Inr db'"
  proof (rule Cons.IH)
    show "\<forall>d' \<in> set ds. (session_id, rd_id d') \<notin>
        (\<lambda>r. (sd_session r, sd_destination r)) ` set (r_session_destinations ?db)"
    proof
      fix d' assume d': "d' \<in> set ds"
      then have "rd_id d' \<noteq> rd_id d" using Cons.prems(2) by (auto simp: image_iff)
      with d' Cons.prems(5) show "(session_id, rd_id d') \<notin>
          (\<lambda>r. (sd_session r, sd_destination r)) ` set (r_session_destinations ?db)"
        by auto
    qed
  qed (use checked Cons.prems in auto)
  then show ?case using checked by (simp add: stored_session_destinations [THEN iffD2])
qed simp

lemma ended_active:
  "filter active (update_where (\<lambda>s. rs_user s = uid \<and> active s) (end_row now) rows) =
   filter (\<lambda>s. active s \<and> rs_user s \<noteq> uid) rows"
  by (induction rows) (auto simp: update_where_Cons)

lemma start_session_stores:
  fixes now :: timestamp
  assumes base: "restream_base env db" and user: "uid \<in> set (r_users db)"
    and node: "1 \<le> length node" "length node \<le> 64" and publisher: "1 \<le> length publisher" "length publisher \<le> 128"
    and fresh: "new_id \<notin> rs_id ` set (r_sessions db)"
    and free: "\<forall>s \<in> set (r_sessions db). active s \<and> rs_user s \<noteq> uid \<longrightarrow> (rs_node s, rs_publisher s) \<noteq> (node, publisher)"
  defines "ended \<equiv> update_where (\<lambda>s. rs_user s = uid \<and> active s) (end_row now) (r_sessions db)"
  shows "list_all fst (session_constraints db ended)"
    and "list_all fst (session_constraints db (ended @ [new_session now new_id uid node publisher]))"
proof -
  note c = base_constraints(2) [OF base]
  have ids: "map rs_id ended = map rs_id (r_sessions db)" unfolding ended_def by (rule map_update_where) simp
  let ?good = "\<lambda>s. session_check s \<and> 1 \<le> length (rs_node s) \<and> length (rs_node s) \<le> 64 \<and>
    1 \<le> length (rs_publisher s) \<and> length (rs_publisher s) \<le> 128 \<and> rs_user s \<in> set (r_users db)"
  have old: "?good s" if "s \<in> set (r_sessions db)" for s
    using c that unfolding session_constraints_def by (simp add: list_all_iff)
  have end_good: "?good (end_row now s)" if "?good s" for s
    using that by (simp add: end_row_def session_check_def)
  have rows: "\<forall>s \<in> set ended. ?good s"
  proof
    fix s assume "s \<in> set ended"
    then obtain s0 where "s0 \<in> set (r_sessions db)" "s = s0 \<or> s = end_row now s0"
      unfolding ended_def set_update_where by auto
    with old end_good show "?good s" by blast
  qed
  have act: "filter active ended = filter (\<lambda>s. rs_user s \<noteq> uid) (filter active (r_sessions db))"
    using ended_active by (simp add: ended_def conj_commute)
  have "distinct (map (\<lambda>s. (rs_node s, rs_publisher s)) (filter active (r_sessions db)))"
    "distinct (map rs_user (filter active (r_sessions db)))"
    using c by (simp_all add: session_constraints_def)
  then have places: "distinct (map (\<lambda>s. (rs_node s, rs_publisher s)) (filter active ended))"
    "distinct (map rs_user (filter active ended))"
    unfolding act by (simp_all add: distinct_map_filter del: filter_filter)
  have "distinct (map rs_id ended)" using ids c by (simp add: session_constraints_def)
  then show first: "list_all fst (session_constraints db ended)"
    using rows places by (simp add: session_constraints_def list_all_iff)
  have "active (new_session now new_id uid node publisher)" "session_check (new_session now new_id uid node publisher)"
    by (simp_all add: active_def session_check_def new_session_def)
  moreover have "new_id \<notin> rs_id ` set ended" using fresh ids by (metis set_map)
  moreover have "uid \<notin> rs_user ` set (filter active ended)" unfolding act by auto
  moreover have "(node, publisher) \<notin> (\<lambda>s. (rs_node s, rs_publisher s)) ` set (filter active ended)"
    unfolding act using free by auto
  ultimately show "list_all fst (session_constraints db (ended @ [new_session now new_id uid node publisher]))"
    using first user node publisher
    by (simp add: session_constraints_def) (simp add: new_session_def)
qed

lemma ingest_found:
  assumes base: "restream_base env db" and i: "i \<in> set (r_ingests db)"
    and key: "decrypt (re_crypto env) (re_key env) (ri_ciphertext i) = Some key"
  shows "filter (\<lambda>i. ri_hash i = re_sha256_hex env key) (r_ingests db) = [i]"
proof -
  have "ingest_ok env i" using base i by (simp add: restream_base_def list_all_iff)
  then have "ri_hash i = re_sha256_hex env key" using key by (simp add: ingest_ok_def)
  moreover have "distinct (map ri_hash (r_ingests db))"
    using base_constraints(4) [OF base] by (simp add: ingest_constraints_def)
  ultimately show ?thesis using filter_unique_key [of ri_hash "r_ingests db" i] i by simp
qed

lemma fresh_session_destination:
  assumes "restream_base env db" and "new_id \<notin> rs_id ` set (r_sessions db)" and "r \<in> set (r_session_destinations db)"
  shows "sd_session r \<noteq> new_id"
  using assms(2,3) base_constraints(3) [OF assms(1)]
  by (auto simp: session_destination_constraints_def list_all_iff)

lemma start_session_succeeds:
  assumes base: "restream_base env db" and user: "uid \<in> set (r_users db)"
    and node: "valid_node_id node" and publisher: "valid_publisher_id publisher"
    and id: "valid_uuid new_id" "uuid_of new_id = new_id" "new_id \<notin> rs_id ` set (r_sessions db)"
    and free: "\<forall>s \<in> set (r_sessions db). active s \<and> rs_user s \<noteq> uid \<longrightarrow> (rs_node s, rs_publisher s) \<noteq> (node, publisher)"
  shows "\<exists>a db'. start_session env now new_id node publisher uid db = Inr (a, db')"
proof -
  let ?ended = "update_where (\<lambda>s. rs_user s = uid \<and> active s) (end_row now) (r_sessions db)"
  let ?new = "new_session now new_id uid node publisher"
  let ?enabled = "enabled_destinations db uid"
  have names: "1 \<le> length node" "length node \<le> 64" "1 \<le> length publisher" "length publisher \<le> 128"
    using node publisher by (auto simp: valid_node_id_def valid_publisher_id_def split: list.split_asm)
  note checks = start_session_stores [OF base user names id(3) free]
  let ?db1 = "db\<lparr>r_sessions := ?ended\<rparr>"
  let ?db2 = "db\<lparr>r_sessions := ?ended @ [?new]\<rparr>"
  have one: "store_sessions db ?ended = Inr ?db1" using checks(1) by (simp add: stored_sessions)
  have two: "store_sessions ?db1 (?ended @ [?new]) = Inr ?db2" using checks(2) by (simp add: stored_sessions)
  have base1: "restream_base env ?db1" by (rule update_sessions_base(1) [OF base one]) simp
  have new_ok: "session_row_ok ?new" using id by (simp add: session_row_ok_def new_session_def)
  have base2: "restream_base env ?db2"
    by (rule write_sessions_base [OF base1 two]) (use base1 new_ok in \<open>auto simp: restream_base_def session_keys_def\<close>)
  have "\<exists>db3. insert_session_destinations new_id uid ?enabled ?db2 = Inr db3"
  proof (rule insert_session_destinations_succeeds)
    show "list_all fst (session_destination_constraints ?db2 (r_session_destinations ?db2))"
      by (rule base_constraints(3) [OF base2])
    show "distinct (map rd_id ?enabled)"
      using distinct_destinations_of [OF base] by (simp add: enabled_destinations_def distinct_map_filter)
    show "\<forall>d \<in> set ?enabled. d \<in> set (r_destinations ?db2) \<and> rd_user d = uid"
      by (simp add: enabled_destinations_def)
    show "(new_id, uid) \<in> session_keys (r_sessions ?db2)"
      by (simp add: session_keys_def new_session_def)
    show "\<forall>d \<in> set ?enabled. (new_id, rd_id d) \<notin>
        (\<lambda>r. (sd_session r, sd_destination r)) ` set (r_session_destinations ?db2)"
      using fresh_session_destination [OF base id(3)] by auto
  qed
  then obtain db3 where three: "insert_session_destinations new_id uid ?enabled ?db2 = Inr db3" by blast
  have "list_all (destination_ok env) ?enabled"
    using base by (auto simp: restream_base_def list_all_iff enabled_destinations_def)
  from decrypt_targets_all [OF this] three one two id(1) show ?thesis
    by (simp add: start_session_def)
qed

text \<open>
  C30: A media server that presents a user's current ingest key is authorised whenever the user has
  an enabled destination and no other user is live under the same publisher of the same node: it gets
  exactly the enabled destinations, in their order, each with its decrypted stream key, in a response
  the protocol's schema accepts; afterwards the new session is the user's only active one and the
  sessions of other users are as before.
\<close>

theorem authorize_exact:
  assumes "restream_ok env db" and "i \<in> set (r_ingests db)"
    and "decrypt (re_crypto env) (re_key env) (ri_ciphertext i) = Some key"
    and "enabled_destinations db (ri_user i) \<noteq> []"
    and "valid_node_id node" and "valid_publisher_id publisher"
    and "entropy_ok en" and "en_new_id en \<notin> rs_id ` set (r_sessions db)"
    and "\<forall>s \<in> set (r_sessions db). active s \<and> rs_user s \<noteq> ri_user i \<longrightarrow>
      (rs_node s, rs_publisher s) \<noteq> (node, publisher)"
  shows "\<exists>a db'. media_outcome env en (Authorize node publisher key) db = (Authorized a, db') \<and>
    ap_targets a = map (\<lambda>d. (rd_id d, target_of env d)) (enabled_destinations db (ri_user i)) \<and>
    valid_authorize_response a \<and>
    filter (\<lambda>s. rs_user s = ri_user i \<and> active s) (r_sessions db') =
      [new_session (en_now en) (en_new_id en) (ri_user i) node publisher] \<and>
    filter (\<lambda>s. rs_user s \<noteq> ri_user i) (r_sessions db') = filter (\<lambda>s. rs_user s \<noteq> ri_user i) (r_sessions db)"
proof -
  let ?uid = "ri_user i"
  let ?enabled = "enabled_destinations db ?uid"
  have base: "restream_base env db" using assms(1) by (simp add: restream_ok_def)
  have user: "?uid \<in> set (r_users db)"
    using base_constraints(4) [OF base] assms(2) by (simp add: ingest_constraints_def list_all_iff)
  then have positive: "0 < ?uid" using base by (auto simp: restream_base_def list_all_iff z_positive_int_def)
  have id: "valid_uuid (en_new_id en)" "uuid_of (en_new_id en) = en_new_id en"
    using assms(7) by (simp_all add: entropy_ok_def)
  obtain a db' where start: "start_session env (en_now en) (en_new_id en) node publisher ?uid db = Inr (a, db')"
    using start_session_succeeds [OF base user assms(5,6) id assms(8,9)] by blast
  note s = start_session_success [OF base start id(2)]
  have enabled_ok: "list_all (destination_ok env) ?enabled"
    using base by (auto simp: restream_base_def list_all_iff enabled_destinations_def)
  then have uuids: "list_all (\<lambda>d. valid_uuid (rd_id d)) ?enabled"
    by (auto simp: list_all_iff destination_ok_def)
  have run: "authorize_publisher env (en_now en) (en_new_id en) node publisher key db = (Inr (Some a), db')"
    using ingest_found [OF base assms(2,3)] positive uuids assms(4) start
    by (simp add: authorize_publisher_def first_row_def)
  have targets: "ap_targets a = map (\<lambda>d. (rd_id d, target_of env d)) ?enabled"
    using s(9) decrypt_targets_all [OF enabled_ok] by simp
  have "length ?enabled \<le> max_restream_destinations"
    unfolding enabled_destinations_def
    by (rule order_trans [OF length_filter_le at_most_three_destinations [OF base]])
  moreover have "list_all (\<lambda>d. valid_target_url (target_of env d)) ?enabled"
    using enabled_ok target_valid by (auto simp: list_all_iff)
  ultimately have response: "valid_authorize_response a"
    using s(2,8) targets uuids assms(4)
    by (auto simp: valid_authorize_response_def list_all_iff Suc_le_eq)
  let ?new = "new_session (en_now en) (en_new_id en) ?uid node publisher"
  have new: "rs_user ?new = ?uid" "active ?new" by (simp_all add: new_session_def active_def)
  have "filter (\<lambda>s. rs_user s = ?uid \<and> active s)
      (update_where (\<lambda>s. rs_user s = ?uid \<and> active s) (end_row (en_now en)) rows) = []" for rows
    by (induction rows) (auto simp: update_where_Cons)
  then have "filter (\<lambda>s. rs_user s = ?uid \<and> active s) (r_sessions db') = [?new]"
    unfolding s(6) using new by simp
  moreover have "filter (\<lambda>s. rs_user s \<noteq> ?uid) (r_sessions db') = filter (\<lambda>s. rs_user s \<noteq> ?uid) (r_sessions db)"
    unfolding s(6) using new by simp (rule filter_update_where, simp_all)
  ultimately show ?thesis using run targets response by (simp add: media_outcome_def)
qed

definition sample_key :: string where "sample_key = ''sb_'' @ replicate 43 (CHR ''A'')"

definition sample_ingest :: ingest_row where
  "sample_ingest = \<lparr>ri_user = 1, ri_hash = sample_key, ri_ciphertext = encrypt plain_crypto [] sample_nonce sample_key\<rparr>"

definition sample_live :: restream_db where
  "sample_live = sample_restream\<lparr>r_ingests := [sample_ingest]\<rparr>"

lemma sample_ingest_key: "decrypt plain_crypto [] (ri_ciphertext sample_ingest) = Some sample_key"
  unfolding sample_ingest_def
  by (simp, rule decrypt_encrypt) (simp_all add: plain_crypto_ok sample_nonce_def nonce_bytes_def sample_key_def)

lemma sample_live_ok: "restream_ok sample_env sample_live"
proof -
  have base: "restream_base sample_env sample_restream" using sample_restream_ok by (simp add: restream_ok_def)
  have "length (utf8_bytes sample_key) = 46" by (simp add: utf8_bytes_def sample_key_def code_def)
  then have "ciphertext_check (ri_ciphertext sample_ingest)"
    using encrypt_length [OF plain_crypto_ok, of sample_nonce "[]" sample_key]
    by (simp add: ciphertext_check_def sample_ingest_def sample_nonce_def nonce_bytes_def tag_bytes_def)
  then have "store_ingests sample_restream [sample_ingest] = Inr sample_live"
    by (simp add: stored_ingests ingest_constraints_def sample_live_def)
      (simp add: sample_ingest_def sample_restream_def)
  moreover have "ingest_ok sample_env sample_ingest"
    using sample_ingest_key
    by (simp add: ingest_ok_def sample_env_def)
      (simp add: sample_ingest_def valid_ingest_key_def sample_key_def word_char_def is_upper_alpha_def code_def
        list_all_iff)
  moreover from calculation(2) have "list_all (ingest_ok sample_env) [sample_ingest]" by (simp add: list_all_iff)
  ultimately have "restream_base sample_env sample_live"
    by (intro write_ingests_base [OF base])
  then show ?thesis
    by (rule ok_keep_destinations [OF sample_restream_ok]) (simp_all add: sample_live_def)
qed

text \<open>The media server of node \<open>n1\<close> presents the key of user 1.\<close>

theorem authorize_exact_witness:
  "\<exists>a db'. media_outcome sample_env sample_entropy (Authorize ''n1'' ''p'' sample_key) sample_live = (Authorized a, db') \<and>
     map fst (ap_targets a) = [id_a, id_b]"
proof -
  have user: "ri_user sample_ingest = 1" by (simp add: sample_ingest_def)
  have enabled: "enabled_destinations sample_live 1 = [sample_destination id_a 0, sample_destination id_b 1]"
    by (simp add: enabled_destinations_def destinations_of_def sample_live_def sample_restream_def sample_destination_def)
  have "\<exists>a db'. media_outcome sample_env sample_entropy (Authorize ''n1'' ''p'' sample_key) sample_live = (Authorized a, db') \<and>
      ap_targets a = map (\<lambda>d. (rd_id d, target_of sample_env d)) (enabled_destinations sample_live (ri_user sample_ingest)) \<and>
      valid_authorize_response a \<and>
      filter (\<lambda>s. rs_user s = ri_user sample_ingest \<and> active s) (r_sessions db') =
        [new_session (en_now sample_entropy) (en_new_id sample_entropy) (ri_user sample_ingest) ''n1'' ''p''] \<and>
      filter (\<lambda>s. rs_user s \<noteq> ri_user sample_ingest) (r_sessions db') =
        filter (\<lambda>s. rs_user s \<noteq> ri_user sample_ingest) (r_sessions sample_live)"
  proof (rule authorize_exact [OF sample_live_ok _ _ _ _ _ sample_entropy_ok])
    show "sample_ingest \<in> set (r_ingests sample_live)" by (simp add: sample_live_def)
    show "decrypt (re_crypto sample_env) (re_key sample_env) (ri_ciphertext sample_ingest) = Some sample_key"
      using sample_ingest_key by (simp add: sample_env_def)
    show "enabled_destinations sample_live (ri_user sample_ingest) \<noteq> []" by (simp add: user enabled)
    show "valid_node_id ''n1''" "valid_publisher_id ''p''"
      by (simp_all add: valid_node_id_def valid_publisher_id_def is_lower_alpha_def is_digit_def code_def)
    show "en_new_id sample_entropy \<notin> rs_id ` set (r_sessions sample_live)"
      by (simp add: sample_live_def sample_restream_def)
    show "\<forall>s \<in> set (r_sessions sample_live). active s \<and> rs_user s \<noteq> ri_user sample_ingest \<longrightarrow>
        (rs_node s, rs_publisher s) \<noteq> (''n1'', ''p'')"
      by (simp add: sample_live_def sample_restream_def)
  qed
  then obtain a db' where "media_outcome sample_env sample_entropy (Authorize ''n1'' ''p'' sample_key) sample_live =
      (Authorized a, db')" "ap_targets a = map (\<lambda>d. (rd_id d, target_of sample_env d)) (enabled_destinations sample_live 1)"
    by (auto simp: user)
  then show ?thesis using enabled by (simp add: sample_destination_def)
qed

section \<open>Heartbeats\<close>

lemma beat_session_check: "session_check s \<Longrightarrow> active s \<Longrightarrow> session_check (beat_row now s)"
  by (auto simp: session_check_def beat_row_def active_def)

lemma beat_sessions_stored:
  assumes "list_all fst (session_constraints db (r_sessions db))"
  shows "list_all fst (session_constraints db (update_where (running_on node sid) (beat_row now) (r_sessions db)))"
proof -
  let ?rows = "update_where (running_on node sid) (beat_row now) (r_sessions db)"
  have same: "map f (filter active (update_where (running_on node sid) (beat_row now) rows)) = map f (filter active rows)"
    if "\<And>s. f (beat_row now s) = f s" for f :: "session_row \<Rightarrow> 'a" and rows
    using that by (induction rows) (auto simp: update_where_Cons running_on_def)
  have keys: "map rs_id ?rows = map rs_id (r_sessions db)"
    "map (\<lambda>s. (rs_node s, rs_publisher s)) (filter active ?rows) =
      map (\<lambda>s. (rs_node s, rs_publisher s)) (filter active (r_sessions db))"
    "map rs_user (filter active ?rows) = map rs_user (filter active (r_sessions db))"
    by (auto intro!: same map_update_where simp: beat_row_def)
  let ?good = "\<lambda>s. session_check s \<and> 1 \<le> length (rs_node s) \<and> length (rs_node s) \<le> 64 \<and>
    1 \<le> length (rs_publisher s) \<and> length (rs_publisher s) \<le> 128 \<and> rs_user s \<in> set (r_users db)"
  have old: "?good s" if "s \<in> set (r_sessions db)" for s
    using assms that unfolding session_constraints_def by (simp add: list_all_iff)
  have "?good (beat_row now s)" if "?good s" "running_on node sid s" for s
    using that beat_session_check [of s now] by (simp add: running_on_def) (simp add: beat_row_def)
  with old have "\<forall>s \<in> set ?rows. ?good s" unfolding set_update_where by auto
  then show ?thesis using assms keys by (simp add: session_constraints_def list_all_iff)
qed

text \<open>One destination's report: the counter of the named destination rises to the reported value.\<close>

definition reported :: "string \<Rightarrow> session_destination_row \<Rightarrow> session_state \<Rightarrow> session_destination_row" where
  "reported sid r d =
     (if sd_session r = uuid_of sid \<and> sd_destination r = uuid_of (ss_id d)
      then r\<lparr>sd_state := ss_state d, sd_bytes := max (sd_bytes r) (ss_bytes d)\<rparr> else r)"

lemma beat_destinations_exact:
  assumes "list_all fst (session_destination_constraints db (r_session_destinations db))"
  shows "beat_destinations sid ds db =
    Inr (db\<lparr>r_session_destinations := map (\<lambda>r. foldl (reported sid) r ds) (r_session_destinations db)\<rparr>)"
  using assms
proof (induction ds arbitrary: db)
  case (Cons d ds)
  let ?rows = "update_where (\<lambda>r. sd_session r = uuid_of sid \<and> sd_destination r = uuid_of (ss_id d))
    (\<lambda>r. r\<lparr>sd_state := ss_state d, sd_bytes := max (sd_bytes r) (ss_bytes d)\<rparr>) (r_session_destinations db)"
  have rows: "?rows = map (\<lambda>r. reported sid r d) (r_session_destinations db)"
    by (simp add: update_where_def reported_def)
  have keys: "sd_session (reported sid r d) = sd_session r" "sd_destination (reported sid r d) = sd_destination r"
    "sd_user (reported sid r d) = sd_user r" "sd_bytes r \<le> sd_bytes (reported sid r d)" for r
    by (simp_all add: reported_def)
  have nonneg: "0 \<le> sd_bytes (reported sid r d)" if "0 \<le> sd_bytes r" for r
    using keys(4) [of r] that by linarith
  have checked: "list_all fst (session_destination_constraints db ?rows)"
    using Cons.prems nonneg unfolding rows
    by (simp add: session_destination_constraints_def list_all_iff keys comp_def)
  then have "store_session_destinations db ?rows = Inr (db\<lparr>r_session_destinations := ?rows\<rparr>)"
    by (simp add: stored_session_destinations)
  with Cons.IH [of "db\<lparr>r_session_destinations := ?rows\<rparr>"] checked show ?case
    by (simp add: rows comp_def)
qed simp

lemma foldl_reported:
  "sd_session (foldl (reported sid) r ds) = sd_session r \<and>
   sd_destination (foldl (reported sid) r ds) = sd_destination r \<and> sd_user (foldl (reported sid) r ds) = sd_user r \<and>
   sd_bytes r \<le> sd_bytes (foldl (reported sid) r ds) \<and>
   (sd_session r \<noteq> uuid_of sid \<longrightarrow> foldl (reported sid) r ds = r)"
proof (induction ds arbitrary: r)
  case (Cons d ds)
  have "sd_session (reported sid r d) = sd_session r" "sd_destination (reported sid r d) = sd_destination r"
    "sd_user (reported sid r d) = sd_user r" "sd_bytes r \<le> sd_bytes (reported sid r d)"
    "sd_session r \<noteq> uuid_of sid \<Longrightarrow> reported sid r d = r"
    by (simp_all add: reported_def)
  with Cons [of "reported sid r d"] show ?case by (auto intro: order_trans)
qed simp

text \<open>
  A heartbeat never fails and answers whether the session runs on that node; byte counters
  never go down, other sessions' counters stay as they are, and a session that has ended or runs on
  another node is not touched.
\<close>

theorem heartbeat_exact:
  assumes "restream_ok env db" and "heartbeat now node sid ds db = (r, db')"
  shows "r = Inr (list_ex (running_on node sid) (r_sessions db)) \<and>
    list_all2 (\<lambda>old new. new = (if running_on node sid old then beat_row now old else old))
      (r_sessions db) (r_sessions db') \<and>
    list_all2 (\<lambda>old new. sd_destination new = sd_destination old \<and> sd_bytes old \<le> sd_bytes new \<and>
        (sd_session old \<noteq> uuid_of sid \<or> r = Inr False \<longrightarrow> new = old))
      (r_session_destinations db) (r_session_destinations db')"
proof (cases "list_ex (running_on node sid) (r_sessions db)")
  case False
  then have "\<forall>s \<in> set (r_sessions db). \<not> running_on node sid s" by (simp add: list_ex_iff)
  with False assms(2) show ?thesis by (auto simp: heartbeat_def list_all2_same)
next
  case True
  let ?rows = "update_where (running_on node sid) (beat_row now) (r_sessions db)"
  have base: "restream_base env db" using assms(1) by (simp add: restream_ok_def)
  have one: "store_sessions db ?rows = Inr (db\<lparr>r_sessions := ?rows\<rparr>)"
    using beat_sessions_stored [OF base_constraints(2) [OF base]] by (simp add: stored_sessions)
  have base1: "restream_base env (db\<lparr>r_sessions := ?rows\<rparr>)"
    by (rule update_sessions_base(1) [OF base one]) simp
  have "heartbeat now node sid ds db = (Inr True, db\<lparr>r_sessions := ?rows,
      r_session_destinations := map (\<lambda>r. foldl (reported sid) r ds) (r_session_destinations db)\<rparr>)"
    using True one beat_destinations_exact [OF base_constraints(3) [OF base1], of sid ds]
    by (simp add: heartbeat_def)
  then have "r = Inr True" "r_sessions db' = ?rows"
    "r_session_destinations db' = map (\<lambda>r. foldl (reported sid) r ds) (r_session_destinations db)"
    using assms(2) by auto
  moreover have "list_all2 (\<lambda>old new. new = (if running_on node sid old then beat_row now old else old)) (r_sessions db) ?rows"
    by (simp add: update_where_def list_all2_conv_all_nth)
  ultimately show ?thesis
    using True foldl_reported by (simp add: list.rel_map list_all2_same)
qed

theorem heartbeat_exact_witness:
  "fst (heartbeat 5 ''n1'' id_a [] sample_live) = Inr False"
proof -
  obtain r db' where run: "heartbeat 5 ''n1'' id_a [] sample_live = (r, db')" by fastforce
  show ?thesis
    using heartbeat_exact [OF sample_live_ok run] run by (simp add: sample_live_def sample_restream_def)
qed

section \<open>Destination servers\<close>

text \<open>An IPv4 address as text and as a 32-bit number.\<close>

definition dotted :: "nat \<Rightarrow> nat \<Rightarrow> nat \<Rightarrow> nat \<Rightarrow> string" where
  "dotted a b c d = dec_nat a @ ''.'' @ dec_nat b @ ''.'' @ dec_nat c @ ''.'' @ dec_nat d"

definition ipv4_number :: "nat \<Rightarrow> nat \<Rightarrow> nat \<Rightarrow> nat \<Rightarrow> nat" where
  "ipv4_number a b c d = ((a * 256 + b) * 256 + c) * 256 + d"

lemma split_dotted: "js_split (CHR ''.'') (dotted a b c d) = map dec_nat [a, b, c, d]"
  by (simp add: dotted_def js_split_append js_split_no_sep dec_nat_no_dot)

lemma hd_dec_nat: "n \<noteq> 0 \<Longrightarrow> hd (dec_nat n) \<noteq> CHR ''0''"
proof (induction n rule: dec_nat.induct)
  case (1 n)
  show ?case
  proof (cases "n < 10")
    case True
    have "hd (dec_nat n) = digit n" using True by (subst dec_nat.simps) simp
    moreover have "code (digit n) = 48 + n" using True by simp
    moreover have "code (CHR ''0'') = 48" by (simp add: code_def)
    ultimately show ?thesis using 1(2) by (metis add_cancel_right_right)
  next
    case False
    then have "hd (dec_nat n) = hd (dec_nat (n div 10))" by (subst dec_nat.simps) simp
    moreover have "n div 10 \<noteq> 0" using False by simp
    ultimately show ?thesis using 1(1) [OF False] by simp
  qed
qed

lemma two_digits:
  assumes "b < k" and "y < (k :: nat)"
  shows "a * k + b = x * k + y \<longleftrightarrow> a = x \<and> b = y"
proof
  assume eq: "a * k + b = x * k + y"
  have "b = (a * k + b) mod k" using assms(1) by simp
  also have "\<dots> = y" unfolding eq using assms(2) by simp
  finally have "b = y" .
  with eq assms show "a = x \<and> b = y" by simp
qed simp

lemma octet_dec_nat: "n < 256 \<Longrightarrow> ipv4_octet (dec_nat n)"
proof -
  assume n: "n < 256"
  have "length (dec_nat n) \<le> 3" using n by (intro length_dec_nat_le) simp_all
  moreover have "1 \<le> length (dec_nat n)" by (cases "dec_nat n") (use dec_nat_nonempty [of n] in auto)
  moreover have "length (dec_nat n) = 1 \<or> hd (dec_nat n) \<noteq> CHR ''0''"
  proof (cases "n = 0")
    case True
    then show ?thesis by (subst dec_nat.simps) simp
  qed (use hd_dec_nat in blast)
  ultimately show ?thesis using n dec_nat_digits [of n] by (simp add: ipv4_octet_def)
qed

text \<open>
  On the text of any IPv4 address the check of destination servers decides exactly membership in
  the blocks 0.0.0.0/8, 10.0.0.0/8, 127.0.0.0/8, 169.254.0.0/16, 172.16.0.0/12, 192.168.0.0/16 and
  224.0.0.0/3.
\<close>

theorem forbidden_ipv4_blocks:
  assumes "a < 256" and "b < 256" and "c < 256" and "d < 256" and "\<not> is_ipv6 (dotted a b c d)"
  shows "forbidden_host is_ipv6 (dotted a b c d) \<longleftrightarrow>
    (let n = ipv4_number a b c d
     in n div 2 ^ 24 \<in> {0, 10, 127} \<or> n div 2 ^ 16 \<in> {169 * 256 + 254, 192 * 256 + 168} \<or>
        n div 2 ^ 20 = 172 * 16 + 1 \<or> 7 \<le> n div 2 ^ 29)"
proof -
  let ?n = "ipv4_number a b c d"
  have ip: "is_ipv4 (dotted a b c d)"
    using assms octet_dec_nat by (simp add: is_ipv4_def split_dotted)
  have "is_private_ipv4 (dotted a b c d) \<longleftrightarrow>
      a \<in> {0, 10, 127} \<or> (a = 169 \<and> b = 254) \<or> (a = 172 \<and> 16 \<le> b \<and> b \<le> 31) \<or> (a = 192 \<and> b = 168) \<or> 224 \<le> a"
    by (simp add: is_private_ipv4_def split_dotted Let_def)
  moreover have "?n div 2 ^ 24 = a" "?n div 2 ^ 16 = a * 256 + b" "?n div 2 ^ 20 = a * 16 + b div 16"
    "?n div 2 ^ 29 = a div 32"
    using assms unfolding ipv4_number_def by simp_all
  moreover have "a * 256 + b = 169 * 256 + 254 \<longleftrightarrow> a = 169 \<and> b = 254"
    "a * 256 + b = 192 * 256 + 168 \<longleftrightarrow> a = 192 \<and> b = 168"
    "a * 16 + b div 16 = 172 * 16 + 1 \<longleftrightarrow> a = 172 \<and> b div 16 = 1"
    using two_digits [of b 256 254 a 169] two_digits [of b 256 168 a 192] two_digits [of "b div 16" 16 1 a 172] assms(2)
    by simp_all
  moreover have "b div 16 = 1 \<longleftrightarrow> 16 \<le> b \<and> b \<le> 31" "7 \<le> a div 32 \<longleftrightarrow> 224 \<le> a" by auto
  ultimately show ?thesis
    using assms(5) ip by (simp add: forbidden_host_def Let_def) blast
qed

theorem forbidden_ipv4_blocks_witness:
  "forbidden_host (\<lambda>_. False) (dotted 172 20 0 1) \<and> \<not> forbidden_host (\<lambda>_. False) (dotted 172 32 0 1)"
proof -
  have "forbidden_host (\<lambda>_. False) (dotted 172 20 0 1)"
    using forbidden_ipv4_blocks [of 172 20 0 1 "\<lambda>_. False"] by (simp add: ipv4_number_def Let_def)
  moreover have "\<not> forbidden_host (\<lambda>_. False) (dotted 172 32 0 1)"
    using forbidden_ipv4_blocks [of 172 32 0 1 "\<lambda>_. False"] by (simp add: ipv4_number_def Let_def)
  ultimately show ?thesis ..
qed

text \<open>
  A destination on the IPv6 spelling of the loopback address 127.0.0.1, which the URL parser
  prints as \<open>[::ffff:7f00:1]\<close>, is accepted although 127.0.0.1 itself is refused.
\<close>

theorem mapped_loopback_accepted:
  assumes "new_url api (js_trim inp) = Some \<lparr>u_protocol = ''rtmp:'', u_username = [], u_password = [],
      u_hostname = ''[::ffff:7f00:1]'', u_pathname = ''/live'', u_search = [], u_hash = []\<rparr>"
    and "href_with api \<lparr>u_protocol = ''rtmp:'', u_username = [], u_password = [],
      u_hostname = ''[::ffff:7f00:1]'', u_pathname = ''/live'', u_search = [], u_hash = []\<rparr>
      ''[::ffff:7f00:1]'' ''/live'' = ''rtmp://[::ffff:7f00:1]/live''"
  shows "normalize_restream_server_url api is_ipv6 inp = Some ''rtmp://[::ffff:7f00:1]/live'' \<and>
    forbidden_host is_ipv6 (dotted 127 0 0 1)"
proof
  have "\<not> forbidden_host is_ipv6 ''::ffff:7f00:1''"
    by (simp add: forbidden_host_def is_ipv4_def is_private_ipv6_def to_lower_def lower_char_def
        is_upper_alpha_def code_def Let_def)
  moreover have "to_lower ''[::ffff:7f00:1]'' = ''[::ffff:7f00:1]''"
    by (simp add: to_lower_def lower_char_def is_upper_alpha_def code_def)
  moreover have "valid_server_url ''rtmp://[::ffff:7f00:1]/live''"
    by (simp add: valid_server_url_def rtmp_rest_def strip_prefix_def plain_char_def is_space_def code_def)
  ultimately show "normalize_restream_server_url api is_ipv6 inp = Some ''rtmp://[::ffff:7f00:1]/live''"
    using assms
    by (simp add: normalize_restream_server_url_def unbracket_def drop_slashes_def drop_slash_def Let_def)
  have "is_ipv4 (dotted 127 0 0 1)" using octet_dec_nat by (simp add: is_ipv4_def split_dotted)
  moreover have "is_private_ipv4 (dotted 127 0 0 1)" by (simp add: is_private_ipv4_def split_dotted Let_def)
  ultimately show "forbidden_host is_ipv6 (dotted 127 0 0 1)" by (simp add: forbidden_host_def)
qed

theorem mapped_loopback_accepted_witness:
  "normalize_restream_server_url
     \<lparr>new_url = (\<lambda>_. Some \<lparr>u_protocol = ''rtmp:'', u_username = [], u_password = [],
        u_hostname = ''[::ffff:7f00:1]'', u_pathname = ''/live'', u_search = [], u_hash = []\<rparr>),
      href_with = (\<lambda>url host path. u_protocol url @ ''//'' @ host @ path)\<rparr>
     (\<lambda>s. s = ''::ffff:7f00:1'') ''rtmp://[::ffff:127.0.0.1]/live'' = Some ''rtmp://[::ffff:7f00:1]/live''"
  by (rule conjunct1 [OF mapped_loopback_accepted]) simp_all

end
