(* ===== verification/ChatSchemas.thy ===== *)
theory ChatSchemas
  imports RestreamSchemas
begin

text \<open>
  The chat data of \<open>packages/src/chat.ts\<close>: providers, sources, messages, stream events, moderation
  commands and the administrator's pages.  A schema is the predicate its object must satisfy; the
  URL check of \<open>z.url()\<close> is an argument.
\<close>

datatype chat_provider = Youtube | Twitch | Kick | Boosty | Vk_video

datatype chat_capability = Read | Send_message | Delete_message | Timeout_user | Ban_user | Unban_user

datatype connection_status = Chat_connected | Refresh_required | Chat_connection_failed

definition text_within :: "nat \<Rightarrow> nat \<Rightarrow> string \<Rightarrow> bool" where
  "text_within lo hi s \<longleftrightarrow> lo \<le> length s \<and> length s \<le> hi"

record chat_connection =
  cc_id :: string
  cc_provider :: chat_provider
  cc_provider_user_id :: string
  cc_display_name :: string
  cc_status :: connection_status
  cc_capabilities :: "chat_capability list"
  cc_connected_at :: timestamp

definition valid_chat_connection :: "chat_connection \<Rightarrow> bool" where
  "valid_chat_connection c \<longleftrightarrow>
     valid_uuid (cc_id c) \<and> text_within 1 200 (cc_provider_user_id c) \<and> text_within 1 200 (cc_display_name c)"

record chat_source =
  cs_id :: string
  cs_connection_id :: string
  cs_provider :: chat_provider
  cs_provider_source_id :: string
  cs_display_name :: string
  cs_url :: string
  cs_position :: int
  cs_enabled :: bool

definition valid_chat_source :: "(string \<Rightarrow> bool) \<Rightarrow> chat_source \<Rightarrow> bool" where
  "valid_chat_source is_url s \<longleftrightarrow>
     valid_uuid (cs_id s) \<and> valid_uuid (cs_connection_id s) \<and> text_within 1 200 (cs_provider_source_id s) \<and>
     text_within 1 200 (cs_display_name s) \<and> is_url (cs_url s) \<and> z_nonnegative_int (cs_position s)"

record chat_author =
  ca_id :: string
  ca_display_name :: string

record chat_message =
  cm_id :: string
  cm_source_id :: string
  cm_connection_id :: string
  cm_provider :: chat_provider
  cm_author :: chat_author
  cm_text :: string
  cm_occurred_at :: timestamp

definition valid_chat_author :: "chat_author \<Rightarrow> bool" where
  "valid_chat_author a \<longleftrightarrow> text_within 1 200 (ca_id a) \<and> text_within 1 200 (ca_display_name a)"

definition valid_chat_message :: "chat_message \<Rightarrow> bool" where
  "valid_chat_message m \<longleftrightarrow>
     text_within 1 300 (cm_id m) \<and> valid_uuid (cm_source_id m) \<and> valid_uuid (cm_connection_id m) \<and>
     valid_chat_author (cm_author m)"

definition chat_source_key :: "chat_source \<Rightarrow> string" where
  "chat_source_key s = cs_id s"

definition chat_message_key :: "chat_message \<Rightarrow> string" where
  "chat_message_key m = cm_source_id m @ '':'' @ cm_id m"

datatype source_state = Source_connecting | Source_live | Source_offline | Source_error

datatype connection_error_code =
  Configuration_unavailable | Overlay_not_found | Stream_unavailable | Transport_unavailable | Unauthorized

datatype stream_event =
    Message chat_message
  | Message_deleted string string
  | Source_state_changed string source_state "string option"
  | Connection_failed connection_error_code string

definition valid_stream_event :: "stream_event \<Rightarrow> bool" where
  "valid_stream_event e \<longleftrightarrow>
     (case e of
        Message m \<Rightarrow> valid_chat_message m
      | Message_deleted source_id message_id \<Rightarrow> valid_uuid source_id \<and> text_within 1 300 message_id
      | Source_state_changed source_id _ _ \<Rightarrow> valid_uuid source_id
      | Connection_failed _ _ \<Rightarrow> True)"

datatype moderation_command =
    DeleteMessage string string
  | TimeoutUser string string int "string option"
  | BanUser string string "string option"
  | UnbanUser string string

text \<open>Reasons are trimmed: \<open>z.string().trim().max(500).optional()\<close>.\<close>

definition parse_reason :: "string option \<Rightarrow> string option option" where
  "parse_reason r =
     (case r of
        None \<Rightarrow> Some None
      | Some s \<Rightarrow> if length (js_trim s) \<le> 500 then Some (Some (js_trim s)) else None)"

definition parse_moderation_command :: "moderation_command \<Rightarrow> moderation_command option" where
  "parse_moderation_command c =
     (case c of
        DeleteMessage source_id message_id \<Rightarrow>
          if valid_uuid source_id \<and> text_within 1 300 message_id then Some c else None
      | TimeoutUser source_id user_id seconds reason \<Rightarrow>
          if valid_uuid source_id \<and> text_within 1 200 user_id \<and> z_positive_int seconds \<and> seconds \<le> 1209600
          then map_option (TimeoutUser source_id user_id seconds) (parse_reason reason) else None
      | BanUser source_id user_id reason \<Rightarrow>
          if valid_uuid source_id \<and> text_within 1 200 user_id
          then map_option (BanUser source_id user_id) (parse_reason reason) else None
      | UnbanUser source_id user_id \<Rightarrow>
          if valid_uuid source_id \<and> text_within 1 200 user_id then Some c else None)"

datatype command_status = Succeeded | Failed_command | Unsupported

record command_result =
  cr_source_id :: string
  cr_status :: command_status
  cr_detail :: "string option"

definition valid_command_result :: "command_result \<Rightarrow> bool" where
  "valid_command_result r \<longleftrightarrow> valid_uuid (cr_source_id r)"

record chat_config =
  cfg_connections :: "chat_connection list"
  cfg_sources :: "chat_source list"
  cfg_has_overlay_token :: bool

definition valid_chat_config :: "(string \<Rightarrow> bool) \<Rightarrow> chat_config \<Rightarrow> bool" where
  "valid_chat_config is_url c \<longleftrightarrow>
     list_all valid_chat_connection (cfg_connections c) \<and> list_all (valid_chat_source is_url) (cfg_sources c)"

datatype provider_access = Full | Read_only | Unavailable

record provider_availability =
  pa_provider :: chat_provider
  pa_access :: provider_access
  pa_detail :: "string option"

text \<open>\<open>^[1-9]\d*$\<close>\<close>

definition valid_sequence :: "string \<Rightarrow> bool" where
  "valid_sequence s \<longleftrightarrow> s \<noteq> [] \<and> list_all is_digit s \<and> hd s \<noteq> CHR ''0''"

record dead_letter =
  dl_sequence :: string
  dl_failed_at :: timestamp
  dl_subject :: string
  dl_error :: string
  dl_payload :: string
  dl_truncated :: bool

definition valid_dead_letter :: "dead_letter \<Rightarrow> bool" where
  "valid_dead_letter d \<longleftrightarrow> valid_sequence (dl_sequence d) \<and> 1 \<le> length (dl_subject d) \<and> 1 \<le> length (dl_error d)"

record dead_letter_page =
  dp_items :: "dead_letter list"
  dp_total :: int
  dp_next_before_sequence :: "string option"

definition valid_dead_letter_page :: "dead_letter_page \<Rightarrow> bool" where
  "valid_dead_letter_page p \<longleftrightarrow>
     list_all valid_dead_letter (dp_items p) \<and> z_nonnegative_int (dp_total p) \<and>
     optional_holds valid_sequence (dp_next_before_sequence p)"

record activity_period =
  ap_now :: int
  ap_day :: int
  ap_week :: int
  ap_month :: int

definition valid_activity_period :: "activity_period \<Rightarrow> bool" where
  "valid_activity_period a \<longleftrightarrow>
     z_nonnegative_int (ap_now a) \<and> z_nonnegative_int (ap_day a) \<and> z_nonnegative_int (ap_week a) \<and>
     z_nonnegative_int (ap_month a)"

record activity_snapshot =
  as_tracking_since :: timestamp
  as_multichat :: activity_period
  as_overlay :: activity_period
  as_total :: activity_period

definition valid_activity_snapshot :: "activity_snapshot \<Rightarrow> bool" where
  "valid_activity_snapshot s \<longleftrightarrow>
     valid_activity_period (as_multichat s) \<and> valid_activity_period (as_overlay s) \<and>
     valid_activity_period (as_total s)"

definition max_chat_message_length :: nat where "max_chat_message_length = 500"

section \<open>Keys\<close>

lemma uuid_no_colon: "valid_uuid s \<Longrightarrow> CHR '':'' \<notin> set s"
proof
  assume valid: "valid_uuid s" and "CHR '':'' \<in> set s"
  then have "CHR '':'' \<in> set (js_join ''-'' (js_split (CHR ''-'') s))" by simp
  moreover obtain a b c d e where parts: "js_split (CHR ''-'') s = [a, b, c, d, e]"
    and hex: "list_all (list_all is_hex) [a, b, c, d, e]"
    using valid by (auto simp: valid_uuid_def split: list.split_asm)
  ultimately have "\<exists>w \<in> {a, b, c, d, e}. CHR '':'' \<in> set w" by auto
  then have "is_hex (CHR '':'')" using hex by (auto simp: list_all_iff)
  then show False by (simp add: is_hex_def is_digit_def code_def)
qed

text \<open>Two messages have one key only if they are the same message of the same source.\<close>

lemma chat_message_key_inject:
  assumes "valid_uuid (cm_source_id m)" and "valid_uuid (cm_source_id n)"
  shows "chat_message_key m = chat_message_key n \<longleftrightarrow> cm_source_id m = cm_source_id n \<and> cm_id m = cm_id n"
proof
  assume "chat_message_key m = chat_message_key n"
  then have "js_split (CHR '':'') (cm_source_id m @ CHR '':'' # cm_id m) =
      js_split (CHR '':'') (cm_source_id n @ CHR '':'' # cm_id n)"
    by (simp add: chat_message_key_def)
  then have "cm_source_id m = cm_source_id n"
    using uuid_no_colon [OF assms(1)] uuid_no_colon [OF assms(2)] by (simp add: js_split_append)
  with \<open>chat_message_key m = chat_message_key n\<close> show "cm_source_id m = cm_source_id n \<and> cm_id m = cm_id n"
    by (simp add: chat_message_key_def)
qed (simp add: chat_message_key_def)

end
