(* ===== verification/ChatStream.thy ===== *)
theory ChatStream
  imports ChatSchemas
begin

text \<open>
  The live chat of a page (\<open>hooks/use-chat-service-stream.ts\<close>): the reducer that keeps the messages and
  the subscription that resubscribes with bounded exponential backoff.  The hook's closures are a
  record: the subscriptions opened so far with their start and their \<open>ended\<close> flag, and the pending
  timers of the page, of which cleanup clears only the one it remembers.
\<close>

section \<open>The reducer\<close>

record stream_view =
  sw_messages :: "chat_message list"
  sw_statuses :: "string \<rightharpoonup> source_state"
  sw_error :: "connection_error_code option"

datatype stream_action =
    Reset
  | Connected_action
  | Transport_failed connection_error_code
  | Message_removed string string
  | Event stream_event

definition initial_view :: stream_view where
  "initial_view = \<lparr>sw_messages = [], sw_statuses = Map.empty, sw_error = None\<rparr>"

definition without_message :: "string \<Rightarrow> string \<Rightarrow> stream_view \<Rightarrow> stream_view" where
  "without_message source_id message_id view =
     view\<lparr>sw_messages := filter (\<lambda>m. \<not> (cm_source_id m = source_id \<and> cm_id m = message_id)) (sw_messages view)\<rparr>"

text \<open>\<open>findIndex\<close>, \<open>-1\<close> as \<open>None\<close>.\<close>

fun find_index :: "('a \<Rightarrow> bool) \<Rightarrow> 'a list \<Rightarrow> nat option" where
  "find_index p [] = None"
| "find_index p (x # xs) = (if p x then Some 0 else map_option Suc (find_index p xs))"

definition take_last :: "nat \<Rightarrow> 'a list \<Rightarrow> 'a list" where
  "take_last n xs = drop (length xs - n) xs"

definition insert_message :: "chat_message \<Rightarrow> chat_message list \<Rightarrow> chat_message list" where
  "insert_message m stored =
     (let messages = filter (\<lambda>x. chat_message_key x \<noteq> chat_message_key m) stored;
          sorted = (case find_index (\<lambda>x. cm_occurred_at x > cm_occurred_at m) messages of
                      None \<Rightarrow> messages @ [m]
                    | Some i \<Rightarrow> take i messages @ [m] @ drop i messages)
      in take_last 500 sorted)"

definition reducer :: "stream_view \<Rightarrow> stream_action \<Rightarrow> stream_view" where
  "reducer view action =
     (case action of
        Reset \<Rightarrow> initial_view
      | Connected_action \<Rightarrow> if sw_error view = None then view else view\<lparr>sw_error := None\<rparr>
      | Transport_failed c \<Rightarrow> view\<lparr>sw_error := Some c\<rparr>
      | Message_removed source_id message_id \<Rightarrow> without_message source_id message_id view
      | Event (Connection_failed c _) \<Rightarrow> view\<lparr>sw_error := Some c\<rparr>
      | Event (Source_state_changed source_id st _) \<Rightarrow> view\<lparr>sw_statuses := (sw_statuses view)(source_id \<mapsto> st)\<rparr>
      | Event (Message_deleted source_id message_id) \<Rightarrow> without_message source_id message_id view
      | Event (Message m) \<Rightarrow>
          view\<lparr>sw_messages := insert_message m (sw_messages view),
               sw_statuses := (sw_statuses view)(cm_source_id m \<mapsto> Source_live)\<rparr>)"

section \<open>The subscription\<close>

definition reconnect_initial_delay_ms :: nat where "reconnect_initial_delay_ms = 1000"
definition reconnect_max_delay_ms :: nat where "reconnect_max_delay_ms = 30000"
definition reconnect_stable_after_ms :: int where "reconnect_stable_after_ms = 30000"

datatype stream_mode = Editor | Overlay

text \<open>The tRPC code of a failed subscription, \<open>None\<close> when there is none or it completed.\<close>

definition failure_code :: "string option \<Rightarrow> stream_mode \<Rightarrow> connection_error_code" where
  "failure_code c mode =
     (if c = Some ''UNAUTHORIZED'' then Unauthorized
      else if c = Some ''NOT_FOUND'' \<and> mode = Overlay then Overlay_not_found
      else Transport_unavailable)"

record subscription =
  sub_started_at :: timestamp
  sub_ended :: bool

record stream_hook =
  sh_view :: stream_view
  sh_disposed :: bool
  sh_attempt :: nat
  sh_subs :: "subscription list"
  sh_retry_timer :: "nat option"
  sh_pending :: "(nat \<times> nat) list"
  sh_next_timer :: nat
  sh_source_errors :: "string list"

definition dispatch :: "stream_action \<Rightarrow> stream_hook \<Rightarrow> stream_hook" where
  "dispatch action h = h\<lparr>sh_view := reducer (sh_view h) action\<rparr>"

definition subscribe :: "timestamp \<Rightarrow> stream_hook \<Rightarrow> stream_hook" where
  "subscribe now h = h\<lparr>sh_subs := sh_subs h @ [\<lparr>sub_started_at = now, sub_ended = False\<rparr>]\<rparr>"

text \<open>Mounting: the view is reset and the first subscription opened.\<close>

definition mounted :: "timestamp \<Rightarrow> stream_hook" where
  "mounted now =
     subscribe now (dispatch Reset
       \<lparr>sh_view = initial_view, sh_disposed = False, sh_attempt = 0, sh_subs = [], sh_retry_timer = None,
        sh_pending = [], sh_next_timer = 0, sh_source_errors = []\<rparr>)"

definition retry_delay :: "nat \<Rightarrow> nat" where
  "retry_delay attempt = min (reconnect_initial_delay_ms * 2 ^ attempt) reconnect_max_delay_ms"

definition set_timeout :: "nat \<Rightarrow> stream_hook \<Rightarrow> stream_hook" where
  "set_timeout delay h =
     h\<lparr>sh_pending := sh_pending h @ [(sh_next_timer h, delay)], sh_retry_timer := Some (sh_next_timer h),
       sh_next_timer := sh_next_timer h + 1\<rparr>"

definition end_subscription :: "stream_mode \<Rightarrow> timestamp \<Rightarrow> nat \<Rightarrow> string option \<Rightarrow> stream_hook \<Rightarrow> stream_hook" where
  "end_subscription mode now i err h =
     (if sh_disposed h \<or> sub_ended (sh_subs h ! i) then h
      else let failure = failure_code err mode;
               h1 = dispatch (Transport_failed failure)
                      (h\<lparr>sh_subs := (sh_subs h)[i := (sh_subs h ! i)\<lparr>sub_ended := True\<rparr>]\<rparr>)
           in if failure = Overlay_not_found then h1
              else let attempt = (if now - sub_started_at (sh_subs h ! i) \<ge> reconnect_stable_after_ms then 0
                                  else sh_attempt h)
                   in set_timeout (retry_delay attempt) (h1\<lparr>sh_attempt := attempt + 1\<rparr>))"

definition receive :: "stream_event \<Rightarrow> stream_hook \<Rightarrow> stream_hook" where
  "receive e h =
     (let h1 = dispatch (Event e) h
      in case e of
           Source_state_changed source_id Source_error _ \<Rightarrow>
             h1\<lparr>sh_source_errors := sh_source_errors h1 @ [source_id]\<rparr>
         | _ \<Rightarrow> h1)"

definition dispose :: "stream_hook \<Rightarrow> stream_hook" where
  "dispose h =
     h\<lparr>sh_disposed := True,
       sh_pending := filter (\<lambda>t. Some (fst t) \<noteq> sh_retry_timer h) (sh_pending h)\<rparr>"

text \<open>What can happen to the hook: its callbacks, its timers and the end of the page.\<close>

inductive hook_step :: "stream_mode \<Rightarrow> stream_hook \<Rightarrow> stream_hook \<Rightarrow> bool" for mode where
  on_started: "i < length (sh_subs h) \<Longrightarrow> hook_step mode h (dispatch Connected_action h)"
| on_data: "i < length (sh_subs h) \<Longrightarrow> valid_stream_event e \<Longrightarrow> hook_step mode h (receive e h)"
| on_connecting: "i < length (sh_subs h) \<Longrightarrow>
    hook_step mode h (dispatch (Transport_failed Transport_unavailable) h)"
| on_end: "i < length (sh_subs h) \<Longrightarrow> hook_step mode h (end_subscription mode now i err h)"
| timer_fires: "(t, delay) \<in> set (sh_pending h) \<Longrightarrow>
    hook_step mode h (subscribe now (h\<lparr>sh_pending := filter (\<lambda>p. fst p \<noteq> t) (sh_pending h)\<rparr>))"
| removed: "hook_step mode h (dispatch (Message_removed source_id message_id) h)"
| unmounted: "\<not> sh_disposed h \<Longrightarrow> hook_step mode h (dispose h)"

inductive_cases hook_step_elim: "hook_step mode h h'"

inductive hook_reaches :: "stream_mode \<Rightarrow> timestamp \<Rightarrow> stream_hook \<Rightarrow> bool" for mode now where
  start: "hook_reaches mode now (mounted now)"
| step: "hook_reaches mode now h \<Longrightarrow> hook_step mode h h' \<Longrightarrow> hook_reaches mode now h'"

section \<open>The messages stay sorted, distinct and few\<close>

definition feed_ok :: "chat_message list \<Rightarrow> bool" where
  "feed_ok messages \<longleftrightarrow>
     sorted (map cm_occurred_at messages) \<and> distinct (map chat_message_key messages) \<and> length messages \<le> 500"

lemma find_index_None: "find_index p xs = None \<longleftrightarrow> (\<forall>x \<in> set xs. \<not> p x)"
  by (induction xs) auto

lemma find_index_Some:
  "find_index p xs = Some i \<Longrightarrow> i < length xs \<and> p (xs ! i) \<and> (\<forall>x \<in> set (take i xs). \<not> p x)"
proof (induction xs arbitrary: i)
  case (Cons x xs)
  then show ?case by (cases "p x") auto
qed simp

text \<open>Inserting before the first later message is a stable insertion at the end.\<close>

lemma insert_sorted:
  assumes "sorted (map cm_occurred_at messages)"
  shows "(case find_index (\<lambda>x. cm_occurred_at x > cm_occurred_at m) messages of
       None \<Rightarrow> messages @ [m] | Some i \<Rightarrow> take i messages @ [m] @ drop i messages) =
    sort_key cm_occurred_at (messages @ [m])"
  using assms
proof (induction messages)
  case Nil
  then show ?case by simp
next
  case (Cons x xs)
  have later: "cm_occurred_at x \<le> cm_occurred_at y" if "y \<in> set xs" for y using Cons.prems that by auto
  show ?case
  proof (cases "cm_occurred_at x > cm_occurred_at m")
    case True
    have "sort_key cm_occurred_at ((x # xs) @ [m]) = m # x # xs"
    proof (rule properties_for_sort_key)
      show "mset (m # x # xs) = mset ((x # xs) @ [m])" by simp
      show "sorted (map cm_occurred_at (m # x # xs))" using Cons.prems True later by fastforce
      fix k assume "k \<in> set (m # x # xs)"
      have "cm_occurred_at y \<noteq> cm_occurred_at m" if "y \<in> set (x # xs)" for y
        using that True later by fastforce
      then have none: "filter (\<lambda>y. cm_occurred_at m = cm_occurred_at y) (x # xs) = []"
        unfolding filter_empty_conv by metis
      show "filter (\<lambda>y. cm_occurred_at k = cm_occurred_at y) (m # x # xs) =
          filter (\<lambda>y. cm_occurred_at k = cm_occurred_at y) ((x # xs) @ [m])"
      proof (cases "cm_occurred_at k = cm_occurred_at m")
        case True
        with none show ?thesis by (simp only: filter_append filter.simps) simp
      qed simp
    qed
    with True show ?thesis by simp
  next
    case False
    define ys where "ys = sort_key cm_occurred_at (xs @ [m])"
    have ys: "set ys = insert m (set xs)" by (simp add: ys_def)
    have "insort_key cm_occurred_at x ys = x # ys"
      by (rule insort_is_Cons) (use False later ys in auto)
    then have "sort_key cm_occurred_at ((x # xs) @ [m]) = x # ys" by (simp add: ys_def)
    with False Cons show ?thesis by (auto simp: ys_def split: option.splits)
  qed
qed

lemma insert_message_eq:
  assumes "feed_ok messages"
  shows "insert_message m messages =
    take_last 500 (sort_key cm_occurred_at (filter (\<lambda>x. chat_message_key x \<noteq> chat_message_key m) messages @ [m]))"
proof -
  have "sorted (map cm_occurred_at (filter (\<lambda>x. chat_message_key x \<noteq> chat_message_key m) messages))"
    using assms by (simp add: feed_ok_def sorted_filter)
  then show ?thesis by (simp only: insert_message_def Let_def insert_sorted)
qed

lemma take_last_props:
  "sorted (map f xs) \<Longrightarrow> sorted (map f (take_last n xs))" "distinct (map g xs) \<Longrightarrow> distinct (map g (take_last n xs))"
  "length (take_last n xs) \<le> n"
  by (simp_all add: take_last_def drop_map [symmetric] sorted_wrt_drop)

lemma insert_message_ok:
  assumes "feed_ok messages" shows "feed_ok (insert_message m messages)"
proof -
  let ?rest = "filter (\<lambda>x. chat_message_key x \<noteq> chat_message_key m) messages"
  let ?all = "sort_key cm_occurred_at (?rest @ [m])"
  have "distinct (map chat_message_key ?rest)" using assms by (simp add: feed_ok_def distinct_map_filter)
  then have "distinct (map chat_message_key (?rest @ [m]))" by auto
  moreover have "mset (map chat_message_key ?all) = mset (map chat_message_key (?rest @ [m]))" by simp
  ultimately have "distinct (map chat_message_key ?all)" using mset_eq_imp_distinct_iff by metis
  moreover have "sorted (map cm_occurred_at ?all)" by simp
  ultimately show ?thesis
    unfolding insert_message_eq [OF assms] by (simp only: feed_ok_def take_last_props simp_thms)
qed

lemma without_message_ok: "feed_ok (sw_messages view) \<Longrightarrow> feed_ok (sw_messages (without_message s m view))"
  by (auto simp: feed_ok_def without_message_def sorted_filter distinct_map_filter
      intro: order_trans [OF length_filter_le])

lemma reducer_feed_ok: "feed_ok (sw_messages view) \<Longrightarrow> feed_ok (sw_messages (reducer view action))"
  using insert_message_ok without_message_ok
  by (auto simp: reducer_def initial_view_def feed_ok_def [of "[]"] split: stream_action.split stream_event.split)

section \<open>One subscription at a time\<close>

definition retry_bounds :: "nat \<Rightarrow> bool" where
  "retry_bounds delay \<longleftrightarrow> reconnect_initial_delay_ms \<le> delay \<and> delay \<le> reconnect_max_delay_ms"

text \<open>
  The closures agree: earlier subscriptions have ended; while the last one lives no timer is pending;
  once it has ended the only pending timer is the remembered one.
\<close>

definition timers_ok :: "stream_mode \<Rightarrow> stream_hook \<Rightarrow> bool" where
  "timers_ok mode h \<longleftrightarrow>
     (sh_pending h = [] \<and> (sub_ended (last (sh_subs h)) \<longrightarrow> mode = Overlay \<or> sh_disposed h)) \<or>
     (\<exists>t delay. sh_pending h = [(t, delay)] \<and> sh_retry_timer h = Some t \<and> retry_bounds delay \<and>
        sub_ended (last (sh_subs h)) \<and> \<not> sh_disposed h)"

definition hook_ok :: "stream_mode \<Rightarrow> stream_hook \<Rightarrow> bool" where
  "hook_ok mode h \<longleftrightarrow>
     feed_ok (sw_messages (sh_view h)) \<and> sh_subs h \<noteq> [] \<and> list_all sub_ended (butlast (sh_subs h)) \<and>
     timers_ok mode h"

lemma dispatch_hook_ok: "hook_ok mode h \<Longrightarrow> hook_ok mode (dispatch a h)"
  by (simp add: hook_ok_def timers_ok_def dispatch_def reducer_feed_ok)

lemma receive_hook_ok: "hook_ok mode h \<Longrightarrow> hook_ok mode (receive e h)"
proof -
  assume ok: "hook_ok mode h"
  have "hook_ok mode (h\<lparr>sh_source_errors := xs\<rparr>) = hook_ok mode h" for xs and h :: stream_hook
    by (simp add: hook_ok_def timers_ok_def)
  then show ?thesis
    using dispatch_hook_ok [OF ok]
    by (cases e) (auto simp: receive_def Let_def split: source_state.split)
qed

lemma retry_delay_bounds: "retry_bounds (retry_delay k)"
  by (simp add: retry_bounds_def retry_delay_def reconnect_initial_delay_ms_def reconnect_max_delay_ms_def)

lemma live_is_last:
  assumes "list_all sub_ended (butlast subs)" and "i < length subs" and "\<not> sub_ended (subs ! i)"
  shows "i = length subs - 1"
proof (rule ccontr)
  assume "i \<noteq> length subs - 1"
  then have "i < length (butlast subs)" using assms(2) by simp
  then have "sub_ended (butlast subs ! i)" using assms(1) by (simp add: list_all_length)
  with \<open>i < length (butlast subs)\<close> assms(3) show False by (simp add: nth_butlast)
qed

lemma end_subscription_ok:
  assumes ok: "hook_ok mode h" and i: "i < length (sh_subs h)"
  shows "hook_ok mode (end_subscription mode now i err h)"
proof (cases "sh_disposed h \<or> sub_ended (sh_subs h ! i)")
  case True
  with ok show ?thesis by (simp add: end_subscription_def)
next
  case False
  have last: "i = length (sh_subs h) - 1"
    by (rule live_is_last) (use ok i False in \<open>simp_all add: hook_ok_def\<close>)
  let ?subs = "(sh_subs h)[i := (sh_subs h ! i)\<lparr>sub_ended := True\<rparr>]"
  have "sh_subs h \<noteq> []" using i by auto
  then have subs: "?subs \<noteq> []" "butlast ?subs = butlast (sh_subs h)" "last ?subs = (sh_subs h ! i)\<lparr>sub_ended := True\<rparr>"
    using last by (simp_all add: butlast_list_update last_list_update)
  have "\<not> sub_ended (last (sh_subs h))" using False last \<open>sh_subs h \<noteq> []\<close> by (simp add: last_conv_nth)
  then have none: "sh_pending h = []" using ok by (auto simp: hook_ok_def timers_ok_def)
  show ?thesis
    using ok False subs none retry_delay_bounds
    by (auto simp: end_subscription_def hook_ok_def timers_ok_def Let_def dispatch_def set_timeout_def
        reducer_feed_ok failure_code_def split: if_splits)
qed

lemma timer_fires_ok:
  assumes ok: "hook_ok mode h" and t: "(t, delay) \<in> set (sh_pending h)"
  shows "hook_ok mode (subscribe now (h\<lparr>sh_pending := filter (\<lambda>p. fst p \<noteq> t) (sh_pending h)\<rparr>))"
proof -
  from ok t have pending: "sh_pending h = [(t, delay)]" "sub_ended (last (sh_subs h))"
    by (auto simp: hook_ok_def timers_ok_def)
  moreover have "list_all sub_ended (sh_subs h)"
  proof -
    have "sh_subs h \<noteq> []" and early: "list_all sub_ended (butlast (sh_subs h))" using ok by (simp_all add: hook_ok_def)
    then obtain subs sub where "sh_subs h = subs @ [sub]" by (metis append_butlast_last_id)
    then show ?thesis using early pending(2) by simp
  qed
  ultimately show ?thesis using ok by (simp add: hook_ok_def timers_ok_def subscribe_def)
qed

lemma dispose_ok: "hook_ok mode h \<Longrightarrow> hook_ok mode (dispose h)"
  by (auto simp: hook_ok_def timers_ok_def dispose_def)

lemma hook_step_ok: "hook_step mode h h' \<Longrightarrow> hook_ok mode h \<Longrightarrow> hook_ok mode h'"
  by (induction rule: hook_step.induct)
    (auto intro: dispatch_hook_ok receive_hook_ok end_subscription_ok timer_fires_ok dispose_ok)

lemma mounted_ok: "hook_ok mode (mounted now)"
  by (simp add: mounted_def hook_ok_def timers_ok_def subscribe_def dispatch_def reducer_def initial_view_def
      feed_ok_def)

lemma hook_reaches_ok: "hook_reaches mode now h \<Longrightarrow> hook_ok mode h"
  by (induction rule: hook_reaches.induct) (auto intro: mounted_ok hook_step_ok)

section \<open>Properties\<close>

text \<open>
  C32: For every message the reducer's splice is a stable sort: the feed is the newest 500 messages of
  the previous feed, without the message's older version, and the message itself, ordered by time with
  ties in order of arrival; and after any sequence of actions the feed is sorted, has no two messages
  with one key and at most 500 messages.
\<close>

theorem chat_feed_exact:
  "(let view = foldl reducer initial_view actions in
    feed_ok (sw_messages view) \<and>
    sw_messages (reducer view (Event (Message m))) =
      take_last 500 (sort_key cm_occurred_at
        (filter (\<lambda>x. chat_message_key x \<noteq> chat_message_key m) (sw_messages view) @ [m])))"
proof -
  have "feed_ok (sw_messages (foldl reducer view actions))" if "feed_ok (sw_messages view)" for view
    using that by (induction actions arbitrary: view) (simp_all add: reducer_feed_ok)
  moreover have "feed_ok (sw_messages initial_view)" by (simp add: feed_ok_def initial_view_def)
  ultimately have "feed_ok (sw_messages (foldl reducer initial_view actions))" by blast
  then show ?thesis by (simp add: Let_def reducer_def insert_message_eq)
qed



end
