(* ===== verification/ChatService.thy ===== *)
theory ChatService
  imports Services ChatSchemas Ndjson
begin

text \<open>
  The chat API of the web server: the client of the chat service (\<open>server/chat/client.ts\<close>), the
  overlay tokens (\<open>server/chat/store.ts\<close>, \<open>server/chat/token.ts\<close>), the procedures and the two
  subscriptions (\<open>server/api/trpc/chat.ts\<close>).  Zod's structural reading of a reply's objects, the
  digest and URL resolution are arguments, fields of \<open>chat_env\<close>.
\<close>

record chat_env =
  ce_service_url :: string
  ce_secret :: string
  ce_app_domain :: string
  ce_json :: "string \<Rightarrow> json option"
  ce_is_url :: "string \<Rightarrow> bool"
  ce_href :: "string \<Rightarrow> string \<Rightarrow> string"
  ce_sha256_hex :: "string \<Rightarrow> string"
  ce_read_activity :: "json \<Rightarrow> activity_snapshot option"
  ce_read_config :: "json \<Rightarrow> chat_config option"
  ce_read_availability :: "json \<Rightarrow> provider_availability list option"
  ce_read_broadcast :: "json \<Rightarrow> command_result list option"
  ce_read_command :: "json \<Rightarrow> command_result option"
  ce_read_dead_letters :: "json \<Rightarrow> dead_letter_page option"
  ce_read_event :: "json \<Rightarrow> stream_event option"

section \<open>The client\<close>

datatype oauth_provider = Oauth_youtube | Oauth_twitch | Oauth_kick | Oauth_vk_video

definition oauth_provider_name :: "oauth_provider \<Rightarrow> string" where
  "oauth_provider_name p =
     (case p of Oauth_youtube \<Rightarrow> ''youtube'' | Oauth_twitch \<Rightarrow> ''twitch'' | Oauth_kick \<Rightarrow> ''kick''
      | Oauth_vk_video \<Rightarrow> ''vk_video'')"

record boosty_session =
  bs_access_token :: string
  bs_refresh_token :: "string option"
  bs_device_id :: "string option"
  bs_expires_at :: "int option"
  bs_dedicated_session :: "bool option"

datatype chat_operation =
    Health
  | Admin_activity
  | Config_of int
  | Provider_availability
  | Start_oauth int oauth_provider
  | Connect_boosty int boosty_session
  | Disconnect int string
  | Refresh_source int string
  | Set_source_enabled int string bool
  | Broadcast int string
  | Moderate int moderation_command
  | Dead_letters "string option" nat

datatype chat_value =
    Done
  | Activity activity_snapshot
  | Config_value chat_config
  | Availability "provider_availability list"
  | Authorization_url string
  | Broadcast_results "command_result list"
  | Command_outcome command_result
  | Dead_letter_page dead_letter_page
  | Overlay_url string string

definition user_field :: "int \<Rightarrow> string \<times> json option" where
  "user_field uid = (''userId'', Some (J_int uid))"

definition moderation_json :: "moderation_command \<Rightarrow> json" where
  "moderation_json c =
     (case c of
        DeleteMessage source_id message_id \<Rightarrow>
          js_object [(''type'', Some (J_str ''delete_message'')), (''sourceId'', Some (J_str source_id)),
            (''messageId'', Some (J_str message_id))]
      | TimeoutUser source_id user_id seconds reason \<Rightarrow>
          js_object [(''type'', Some (J_str ''timeout_user'')), (''sourceId'', Some (J_str source_id)),
            (''providerUserId'', Some (J_str user_id)), (''durationSeconds'', Some (J_int seconds)),
            (''reason'', map_option J_str reason)]
      | BanUser source_id user_id reason \<Rightarrow>
          js_object [(''type'', Some (J_str ''ban_user'')), (''sourceId'', Some (J_str source_id)),
            (''providerUserId'', Some (J_str user_id)), (''reason'', map_option J_str reason)]
      | UnbanUser source_id user_id \<Rightarrow>
          js_object [(''type'', Some (J_str ''unban_user'')), (''sourceId'', Some (J_str source_id)),
            (''providerUserId'', Some (J_str user_id))])"

definition chat_url :: "chat_env \<Rightarrow> string \<Rightarrow> service_url" where
  "chat_url env path = service_url_of (ce_service_url env) path"

definition chat_request :: "chat_env \<Rightarrow> service_url \<Rightarrow> (string \<times> json option) list option \<Rightarrow> service_request" where
  "chat_request env url body = service_call (ce_secret env) url (map_option js_object body)"

definition operation_request :: "chat_env \<Rightarrow> chat_operation \<Rightarrow> service_request" where
  "operation_request env oper =
     (case oper of
        Health \<Rightarrow> chat_request env (chat_url env ''/health'') None
      | Admin_activity \<Rightarrow> chat_request env (chat_url env ''/internal/admin/activity'') None
      | Config_of uid \<Rightarrow> chat_request env (chat_url env ''/internal/config'') (Some [user_field uid])
      | Provider_availability \<Rightarrow> chat_request env (chat_url env ''/internal/provider-availability'') None
      | Start_oauth uid provider \<Rightarrow>
          chat_request env (chat_url env ''/internal/oauth/start'')
            (Some [(''provider'', Some (J_str (oauth_provider_name provider))), user_field uid])
      | Connect_boosty uid session \<Rightarrow>
          chat_request env (chat_url env ''/internal/boosty/connect'')
            (Some [user_field uid, (''accessToken'', Some (J_str (bs_access_token session))),
              (''refreshToken'', map_option J_str (bs_refresh_token session)),
              (''deviceId'', map_option J_str (bs_device_id session)),
              (''expiresAt'', map_option J_int (bs_expires_at session)),
              (''dedicatedSession'', map_option J_bool (bs_dedicated_session session))])
      | Disconnect uid connection_id \<Rightarrow>
          chat_request env (chat_url env ''/internal/connections/disconnect'')
            (Some [(''connectionId'', Some (J_str connection_id)), user_field uid])
      | Refresh_source uid source_id \<Rightarrow>
          chat_request env (chat_url env ''/internal/sources/refresh'')
            (Some [(''sourceId'', Some (J_str source_id)), user_field uid])
      | Set_source_enabled uid source_id enabled \<Rightarrow>
          chat_request env (chat_url env ''/internal/sources/enabled'')
            (Some [(''enabled'', Some (J_bool enabled)), (''sourceId'', Some (J_str source_id)), user_field uid])
      | Broadcast uid text \<Rightarrow>
          chat_request env (chat_url env ''/internal/broadcast'')
            (Some [(''text'', Some (J_str text)), user_field uid])
      | Moderate uid command \<Rightarrow>
          chat_request env (chat_url env ''/internal/moderate'')
            (Some [(''command'', Some (moderation_json command)), user_field uid])
      | Dead_letters before limit \<Rightarrow>
          (let url = with_search_param ''limit'' (dec_nat limit) (chat_url env ''/internal/dead-letters'')
           in chat_request env
                (case before of None \<Rightarrow> url | Some sequence \<Rightarrow> with_search_param ''beforeSequence'' sequence url)
                None))"

definition operation_schema :: "chat_env \<Rightarrow> chat_operation \<Rightarrow> json \<Rightarrow> chat_value option" where
  "operation_schema env oper j =
     (case oper of
        Health \<Rightarrow> map_option (\<lambda>_. Done) (read_health j)
      | Admin_activity \<Rightarrow> map_option Activity (read_valid (ce_read_activity env) valid_activity_snapshot j)
      | Config_of _ \<Rightarrow>
          map_option Config_value (read_valid (ce_read_config env) (valid_chat_config (ce_is_url env)) j)
      | Provider_availability \<Rightarrow> map_option Availability (ce_read_availability env j)
      | Start_oauth _ _ \<Rightarrow> map_option Authorization_url (read_text ''authorizationUrl'' (ce_is_url env) j)
      | Broadcast _ _ \<Rightarrow>
          map_option Broadcast_results (read_valid (ce_read_broadcast env) (list_all valid_command_result) j)
      | Moderate _ _ \<Rightarrow> map_option Command_outcome (read_valid (ce_read_command env) valid_command_result j)
      | Dead_letters _ _ \<Rightarrow>
          map_option Dead_letter_page (read_valid (ce_read_dead_letters env) valid_dead_letter_page j)
      | _ \<Rightarrow> map_option (\<lambda>_. Done) (read_null j))"

definition operation_answer :: "chat_env \<Rightarrow> chat_operation \<Rightarrow> service_reply \<Rightarrow> service_error + chat_value" where
  "operation_answer env oper reply = service_answer (ce_json env) (operation_schema env oper) reply"

definition parse_stream_event :: "chat_env \<Rightarrow> string \<Rightarrow> service_error + stream_event" where
  "parse_stream_event env line =
     map_error to_service_error (parse_json (ce_json env) line (read_valid (ce_read_event env) valid_stream_event))"

datatype chat_consumer = Multichat | Overlay_consumer

definition consumer_name :: "chat_consumer \<Rightarrow> string" where
  "consumer_name c = (case c of Multichat \<Rightarrow> ''multichat'' | Overlay_consumer \<Rightarrow> ''overlay'')"

definition stream_request :: "chat_env \<Rightarrow> string \<Rightarrow> chat_consumer \<Rightarrow> service_request" where
  "stream_request env user_id consumer =
     \<lparr>sr_method = GET,
      sr_url = with_search_param ''consumer'' (consumer_name consumer)
        (with_search_param ''userId'' user_id (chat_url env ''/internal/stream'')),
      sr_headers = service_headers (ce_secret env), sr_body = None\<rparr>"

text \<open>
  How the request of a stream went: it failed, with the state of the signal then, or it was answered
  with a status and a body of reads.
\<close>

datatype stream_opening = Opening_failed bool | Opened nat "text_step list option"

definition stream_failure :: "service_error event_error \<Rightarrow> service_error" where
  "stream_failure e =
     (case e of Stream_read_error \<Rightarrow> \<lparr>se_detail = ''stream read error'', se_status = None\<rparr> | Invalid_event x \<Rightarrow> x)"

definition map_end :: "('x \<Rightarrow> 'y) \<Rightarrow> 'e list \<times> 'x stream_end \<Rightarrow> 'e list \<times> 'y stream_end" where
  "map_end f r = (fst r, case snd r of Ended \<Rightarrow> Ended | Failed x \<Rightarrow> Failed (f x) | Pending \<Rightarrow> Pending)"

definition service_stream ::
  "chat_env \<Rightarrow> stream_opening \<Rightarrow> stream_event list \<times> service_error stream_end" where
  "service_stream env opening =
     (case opening of
        Opening_failed aborted \<Rightarrow>
          ([], if aborted then Ended else Failed \<lparr>se_detail = ''fetch error'', se_status = None\<rparr>)
      | Opened status body \<Rightarrow>
          if \<not> response_ok status then ([], Failed \<lparr>se_detail = ''http error'', se_status = Some status\<rparr>)
          else (case body of
                  None \<Rightarrow> ([], Failed \<lparr>se_detail = ''missing response body'', se_status = None\<rparr>)
                | Some steps \<Rightarrow> map_end stream_failure (chat_stream (parse_stream_event env) steps [])))"

section \<open>Overlay tokens\<close>

definition create_overlay_token :: "byte list \<Rightarrow> string" where
  "create_overlay_token random = base64url random"

definition hash_overlay_token :: "chat_env \<Rightarrow> string \<Rightarrow> string" where
  "hash_overlay_token env token = ce_sha256_hex env token"

record chat_overlay =
  co_user :: int
  co_token_hash :: "string option"
  co_updated_at :: timestamp

text \<open>The upsert, refused when another user's overlay has the same hash (\<open>chat_overlay_token_hash_key\<close>).\<close>

definition rotate_overlay_token ::
  "chat_env \<Rightarrow> byte list \<Rightarrow> timestamp \<Rightarrow> int \<Rightarrow> chat_overlay list \<Rightarrow>
    (string + string \<times> string) \<times> chat_overlay list" where
  "rotate_overlay_token env random now uid rows =
     (let token = create_overlay_token random;
          hash = hash_overlay_token env token;
          url = ce_href env (''/chat/overlay/'' @ token) (ce_app_domain env)
      in if \<exists>r \<in> set rows. co_user r \<noteq> uid \<and> co_token_hash r = Some hash
         then (Inl ''chat_overlay_token_hash_key'', rows)
         else (Inr (token, url),
           if \<exists>r \<in> set rows. co_user r = uid
           then update_where (\<lambda>r. co_user r = uid) (\<lambda>r. r\<lparr>co_token_hash := Some hash, co_updated_at := now\<rparr>) rows
           else rows @ [\<lparr>co_user = uid, co_token_hash = Some hash, co_updated_at = now\<rparr>]))"

text \<open>User ids are serial numbers of the database, so the schema of the row accepts them.\<close>

definition get_user_id_by_overlay_token :: "chat_env \<Rightarrow> string \<Rightarrow> chat_overlay list \<Rightarrow> int option" where
  "get_user_id_by_overlay_token env token rows =
     map_option co_user (first_row (filter (\<lambda>r. co_token_hash r = Some (hash_overlay_token env token)) rows))"

section \<open>Procedures\<close>

definition to_chat_trpc_error :: "service_error \<Rightarrow> api_error" where
  "to_chat_trpc_error e =
     (if se_status e = Some 400 then TRPCError BAD_REQUEST ''Invalid chat request.''
      else if se_status e = Some 404 then TRPCError NOT_FOUND ''Chat resource not found.''
      else if se_status e = Some 409 then TRPCError CONFLICT ''Chat state changed.''
      else TRPCError INTERNAL_SERVER_ERROR ''Chat service unavailable.'')"

datatype chat_api_request =
    Dead_letters_query "string option"
  | Config_query
  | Availability_query
  | Start_oauth_mutation oauth_provider
  | Connect_boosty_mutation boosty_session
  | Disconnect_mutation string
  | Refresh_source_mutation string
  | Set_source_enabled_mutation string bool
  | Broadcast_mutation string
  | Moderate_mutation moderation_command
  | Rotate_overlay_token_mutation

text \<open>\<open>z.string().trim().min(1).max(n).regex(/^[!-~]+$/)\<close>.\<close>

definition is_graphic :: "char \<Rightarrow> bool" where
  "is_graphic c \<longleftrightarrow> 33 \<le> code c \<and> code c \<le> 126"

definition parse_credential :: "nat \<Rightarrow> string \<Rightarrow> string option" where
  "parse_credential max_len s =
     (let t = js_trim s in if text_within 1 max_len t \<and> list_all is_graphic t then Some t else None)"

definition parse_optional :: "('a \<Rightarrow> 'b option) \<Rightarrow> 'a option \<Rightarrow> 'b option option" where
  "parse_optional parse x = (case x of None \<Rightarrow> Some None | Some y \<Rightarrow> map_option Some (parse y))"

definition max_date_ms :: int where "max_date_ms = 8640000000000000"

definition parse_boosty :: "boosty_session \<Rightarrow> boosty_session option" where
  "parse_boosty b =
     (if optional_holds (\<lambda>t. z_positive_int t \<and> t \<le> max_date_ms) (bs_expires_at b)
      then Option.bind (parse_credential 8192 (bs_access_token b)) (\<lambda>access.
           Option.bind (parse_optional (parse_credential 8192) (bs_refresh_token b)) (\<lambda>refresh.
           Option.bind (parse_optional (parse_credential 200) (bs_device_id b)) (\<lambda>device.
             Some (b\<lparr>bs_access_token := access, bs_refresh_token := refresh, bs_device_id := device\<rparr>))))
      else None)"

definition parse_chat_request :: "chat_api_request \<Rightarrow> chat_api_request option" where
  "parse_chat_request req =
     (case req of
        Dead_letters_query before \<Rightarrow> if optional_holds valid_sequence before then Some req else None
      | Connect_boosty_mutation b \<Rightarrow> map_option Connect_boosty_mutation (parse_boosty b)
      | Disconnect_mutation connection_id \<Rightarrow> if valid_uuid connection_id then Some req else None
      | Refresh_source_mutation source_id \<Rightarrow> if valid_uuid source_id then Some req else None
      | Set_source_enabled_mutation source_id _ \<Rightarrow> if valid_uuid source_id then Some req else None
      | Broadcast_mutation text \<Rightarrow> if length text \<le> max_chat_message_length then Some req else None
      | Moderate_mutation command \<Rightarrow> map_option Moderate_mutation (parse_moderation_command command)
      | _ \<Rightarrow> Some req)"

text \<open>The call of the service a procedure makes; rotating the overlay token makes none.\<close>

definition request_operation :: "int \<Rightarrow> chat_api_request \<Rightarrow> chat_operation option" where
  "request_operation uid req =
     (case req of
        Dead_letters_query before \<Rightarrow> Some (Dead_letters before 25)
      | Config_query \<Rightarrow> Some (Config_of uid)
      | Availability_query \<Rightarrow> Some Provider_availability
      | Start_oauth_mutation provider \<Rightarrow> Some (Start_oauth uid provider)
      | Connect_boosty_mutation b \<Rightarrow> Some (Connect_boosty uid b)
      | Disconnect_mutation connection_id \<Rightarrow> Some (Disconnect uid connection_id)
      | Refresh_source_mutation source_id \<Rightarrow> Some (Refresh_source uid source_id)
      | Set_source_enabled_mutation source_id enabled \<Rightarrow> Some (Set_source_enabled uid source_id enabled)
      | Broadcast_mutation text \<Rightarrow> Some (Broadcast uid text)
      | Moderate_mutation command \<Rightarrow> Some (Moderate uid command)
      | Rotate_overlay_token_mutation \<Rightarrow> None)"

definition chat_guard :: "api_context \<Rightarrow> chat_api_request \<Rightarrow> api_error + int" where
  "chat_guard ctx req = (case req of Dead_letters_query _ \<Rightarrow> admin ctx | _ \<Rightarrow> authenticated ctx)"

definition output_ok :: "chat_env \<Rightarrow> chat_value \<Rightarrow> bool" where
  "output_ok env v =
     (case v of
        Config_value c \<Rightarrow> valid_chat_config (ce_is_url env) c
      | Authorization_url url \<Rightarrow> ce_is_url env url
      | Broadcast_results rs \<Rightarrow> list_all valid_command_result rs
      | Command_outcome r \<Rightarrow> valid_command_result r
      | Dead_letter_page p \<Rightarrow> valid_dead_letter_page p
      | Overlay_url token url \<Rightarrow> text_within 32 100 token \<and> ce_is_url env url
      | Done \<Rightarrow> True | Activity _ \<Rightarrow> True | Availability _ \<Rightarrow> True)"

record chat_state =
  ch_overlays :: "chat_overlay list"
  ch_outbox :: "service_request list"

record chat_moment =
  mo_now :: timestamp
  mo_random :: "byte list"

definition chat_resolver ::
  "chat_env \<Rightarrow> (service_request \<Rightarrow> service_reply) \<Rightarrow> chat_moment \<Rightarrow> int \<Rightarrow> chat_api_request \<Rightarrow> chat_state \<Rightarrow>
    (api_error + chat_value) \<times> chat_state" where
  "chat_resolver env net moment uid req s =
     (case request_operation uid req of
        Some oper \<Rightarrow>
          (case call_remote to_chat_trpc_error net (operation_answer env oper) (operation_request env oper) (ch_outbox s) of
             (r, outbox) \<Rightarrow> (checked_output (output_ok env) r, s\<lparr>ch_outbox := outbox\<rparr>))
      | None \<Rightarrow>
          (case rotate_overlay_token env (mo_random moment) (mo_now moment) uid (ch_overlays s) of
             (r, rows) \<Rightarrow>
               (checked_output (output_ok env)
                  (map_error UnexpectedError (bind_result r (\<lambda>(token, url). Inr (Overlay_url token url)))),
                s\<lparr>ch_overlays := rows\<rparr>)))"

definition handle_chat_request ::
  "chat_env \<Rightarrow> (service_request \<Rightarrow> service_reply) \<Rightarrow> chat_moment \<Rightarrow> api_context \<Rightarrow> chat_api_request \<Rightarrow> chat_state \<Rightarrow>
    (api_error + chat_value) \<times> chat_state" where
  "handle_chat_request env net moment ctx req s =
     call_procedure (chat_guard ctx req) (parse_chat_request req) (chat_resolver env net moment) s"

end
