(* ===== verification/ChatSubscriptions.thy ===== *)
theory ChatSubscriptions
  imports ChatService
begin

text \<open>
  The two chat subscriptions of \<open>server/api/trpc/chat.ts\<close>, and what the chat API promises: calls in the
  viewer's own name, failures without the service's words, and overlays that end when their token is
  rotated.
\<close>

section \<open>Streams\<close>

definition stream_for_user ::
  "chat_env \<Rightarrow> bool \<Rightarrow> stream_opening \<Rightarrow> stream_event list \<times> api_error stream_end" where
  "stream_for_user env has_signal opening =
     (if \<not> has_signal
      then ([], Failed (TRPCError INTERNAL_SERVER_ERROR ''Chat subscription cancellation is unavailable.''))
      else map_end to_chat_trpc_error (service_stream env opening))"

definition overlay_token_check_interval_ms :: int where "overlay_token_check_interval_ms = 5000"

definition overlay_not_found :: api_error where
  "overlay_not_found = TRPCError NOT_FOUND ''Chat overlay not found.''"

text \<open>
  While an overlay is open, an interval looks its token up again.  The signals are the answer of a
  look-up, a look-up that failed, and the client going away; each read comes with the signals that
  arrived before it was started and while it was awaited.
\<close>

datatype overlay_signal = Token_check "int option" | Token_check_failed | Client_abort

record overlay_abort =
  oa_revoked :: bool
  oa_client :: bool

record overlay_step =
  os_before :: "overlay_signal list"
  os_read :: text_read
  os_during :: "overlay_signal list"

definition signal_step :: "int \<Rightarrow> overlay_abort \<Rightarrow> overlay_signal \<Rightarrow> overlay_abort" where
  "signal_step uid st sig =
     (case sig of
        Token_check current \<Rightarrow> if current \<noteq> Some uid then st\<lparr>oa_revoked := True\<rparr> else st
      | Token_check_failed \<Rightarrow> st
      | Client_abort \<Rightarrow> st\<lparr>oa_client := True\<rparr>)"

definition signals :: "int \<Rightarrow> overlay_signal list \<Rightarrow> overlay_abort \<Rightarrow> overlay_abort" where
  "signals uid sigs st = foldl (signal_step uid) st sigs"

text \<open>\<open>AbortSignal.any\<close>.\<close>

definition overlay_aborted :: "overlay_abort \<Rightarrow> bool" where
  "overlay_aborted st \<longleftrightarrow> oa_revoked st \<or> oa_client st"

text \<open>After the stream has ended without an error.\<close>

definition overlay_end :: "overlay_abort \<Rightarrow> api_error stream_end" where
  "overlay_end st = (if oa_revoked st \<and> \<not> oa_client st then Failed overlay_not_found else Ended)"

definition overlay_failure :: "service_error event_error \<Rightarrow> api_error" where
  "overlay_failure e = to_chat_trpc_error (stream_failure e)"

definition overlay_events ::
  "chat_env \<Rightarrow> string list \<Rightarrow> stream_event list \<times> api_error option" where
  "overlay_events env lines = map_prod id (map_option overlay_failure) (chat_events (parse_stream_event env) lines)"

text \<open>The stream of an overlay, read by read, with the abort signals kept beside the buffer.\<close>

fun overlay_reads ::
  "chat_env \<Rightarrow> int \<Rightarrow> overlay_step list \<Rightarrow> overlay_abort \<Rightarrow> string \<Rightarrow> stream_event list \<times> api_error stream_end" where
  "overlay_reads env uid [] st buffer = ([], Pending)"
| "overlay_reads env uid (s # steps) st buffer =
     (let st1 = signals uid (os_before s) st; st2 = signals uid (os_during s) st1 in
      if overlay_aborted st1 then ([], overlay_end st1)
      else case os_read s of
        Read_failure \<Rightarrow>
          ([], if overlay_aborted st2 then overlay_end st2 else Failed (overlay_failure Stream_read_error))
      | Text chunk finished \<Rightarrow>
          (let lines = js_split newline (buffer @ chunk) in
           and_then (overlay_events env (butlast lines))
             (if finished
              then (if length (last lines) > 0 then and_then (overlay_events env [last lines]) ([], overlay_end st2)
                    else ([], overlay_end st2))
              else overlay_reads env uid steps st2 (last lines))))"

text \<open>\<open>streamForOverlayToken\<close>: the first look-up, then the request of the stream, then its reads.\<close>

datatype overlay_opening =
    Overlay_opening_failed "overlay_signal list"
  | Overlay_opened "overlay_signal list" nat "overlay_step list option"

definition no_abort :: overlay_abort where "no_abort = \<lparr>oa_revoked = False, oa_client = False\<rparr>"

definition stream_for_overlay_token ::
  "chat_env \<Rightarrow> chat_overlay list \<Rightarrow> string \<Rightarrow> overlay_opening \<Rightarrow> stream_event list \<times> api_error stream_end" where
  "stream_for_overlay_token env rows token opening =
     (case get_user_id_by_overlay_token env token rows of
        None \<Rightarrow> ([], Failed overlay_not_found)
      | Some uid \<Rightarrow>
          (case opening of
             Overlay_opening_failed sigs \<Rightarrow>
               (let st = signals uid sigs no_abort in
                ([], if overlay_aborted st then overlay_end st
                     else Failed (to_chat_trpc_error \<lparr>se_detail = ''fetch error'', se_status = None\<rparr>)))
           | Overlay_opened sigs status body \<Rightarrow>
               if \<not> response_ok status
               then ([], Failed (to_chat_trpc_error \<lparr>se_detail = ''http error'', se_status = Some status\<rparr>))
               else (case body of
                       None \<Rightarrow> ([], Failed (to_chat_trpc_error \<lparr>se_detail = ''missing response body'', se_status = None\<rparr>))
                     | Some steps \<Rightarrow> overlay_reads env uid steps (signals uid sigs no_abort) [])))"

section \<open>The overlay's stream is the service's stream\<close>

fun plain_steps :: "int \<Rightarrow> overlay_step list \<Rightarrow> overlay_abort \<Rightarrow> text_step list" where
  "plain_steps uid [] st = []"
| "plain_steps uid (s # steps) st =
     (let st1 = signals uid (os_before s) st; st2 = signals uid (os_during s) st1 in
      \<lparr>step_aborted = overlay_aborted st1, step_read = os_read s, step_aborted_after = overlay_aborted st2\<rparr>
        # plain_steps uid steps st2)"

lemma fst_and_then_overlay:
  "fst r = fst r' \<Longrightarrow> fst (and_then (overlay_events env ls) r) = fst (and_then (chat_events (parse_stream_event env) ls) r')"
  by (cases "chat_events (parse_stream_event env) ls") (auto simp: and_then_def overlay_events_def split: option.splits)

lemma overlay_reads_events:
  "fst (overlay_reads env uid steps st buffer) =
     fst (chat_stream (parse_stream_event env) (plain_steps uid steps st) buffer)"
proof (induction steps arbitrary: st buffer)
  case (Cons s steps)
  show ?case
  proof (cases "os_read s")
    case (Text chunk finished)
    then show ?thesis
      by (auto simp: Let_def Cons.IH simp del: chat_events.simps intro!: fst_and_then_overlay)
  qed (simp add: Let_def)
qed simp

section \<open>Calls\<close>

interpretation chat_errors: translated_service to_chat_trpc_error
  "''Invalid chat request.''" "''Chat resource not found.''" "''Chat state changed.''" "''Chat service unavailable.''"
  by unfold_locales (simp add: to_chat_trpc_error_def)

lemma operation_schema_ok: "operation_schema env oper j = Some v \<Longrightarrow> output_ok env v"
  by (cases oper) (auto simp: operation_schema_def output_ok_def dest: read_text_Some)

lemma operation_answer_ok: "operation_answer env oper reply = Inr v \<Longrightarrow> output_ok env v"
  by (auto simp: operation_answer_def service_answer_Inr_iff dest: operation_schema_ok)

lemma checked_answer:
  "checked_output (output_ok env) (map_error f (operation_answer env oper reply)) =
     map_error f (operation_answer env oper reply)"
  by (rule checked_output_id) (auto dest: operation_answer_ok)

lemma chat_resolver_operation:
  "request_operation uid req = Some oper \<Longrightarrow>
     chat_resolver env net moment uid req s =
       (map_error to_chat_trpc_error (operation_answer env oper (net (operation_request env oper))),
        s\<lparr>ch_outbox := ch_outbox s @ [operation_request env oper]\<rparr>)"
  by (simp add: chat_resolver_def call_remote_def checked_answer)

lemma chat_resolver_rotation:
  "request_operation uid req = None \<Longrightarrow> ch_outbox (snd (chat_resolver env net moment uid req s)) = ch_outbox s"
  by (simp add: chat_resolver_def split: prod.split)

lemma chat_guard_Inr: "chat_guard ctx req = Inr uid \<Longrightarrow> ctx_user_id ctx = Some uid \<and> uid \<noteq> 0"
  by (auto simp: chat_guard_def admin_def bind_result_Inr_iff authenticated_Inr
      split: chat_api_request.split_asm if_split_asm)

lemma chat_guard_admin: "chat_guard ctx (Dead_letters_query b) = Inr uid \<Longrightarrow> ctx_is_admin ctx"
  by (auto simp: chat_guard_def admin_def bind_result_Inr_iff split: if_split_asm)

text \<open>Calls that name no user: the providers' availability and the administrator's dead letters.\<close>

definition speaks_for :: "int \<Rightarrow> chat_api_request \<Rightarrow> service_request \<Rightarrow> bool" where
  "speaks_for uid req rq \<longleftrightarrow>
     (case req of
        Availability_query \<Rightarrow> sr_body rq = None
      | Dead_letters_query _ \<Rightarrow> sr_body rq = None
      | _ \<Rightarrow> Option.bind (sr_body rq) (\<lambda>j. field j ''userId'') = Some (J_int uid))"

lemma operation_request_parts [simp]:
  "sr_headers (operation_request env oper) = service_headers (ce_secret env)"
  by (cases oper) (simp_all add: operation_request_def chat_request_def service_call_def Let_def)

lemma operation_request_base [simp]:
  "url_base (sr_url (operation_request env oper)) = ce_service_url env"
  by (cases oper) (simp_all add: operation_request_def chat_request_def service_call_def chat_url_def
      service_url_of_def with_search_param_def Let_def split: option.split)

lemma optional_fields [simp]:
  "map_of (js_fields ((k, v) # fs)) x = (if k = x \<and> v \<noteq> None then v else map_of (js_fields fs) x)"
  by (cases v) auto

lemma operation_speaks_for:
  "request_operation uid req = Some oper \<Longrightarrow> speaks_for uid req (operation_request env oper)"
  by (cases req) (auto simp: request_operation_def speaks_for_def operation_request_def chat_request_def
      service_call_def js_object_def user_field_def Let_def)

text \<open>
  C34: A chat procedure sends at most one request to the chat service, and only when the caller is
  signed in (an administrator for the dead letters) and the input was accepted; the request goes to
  the configured service with its secret and names the signed-in user, whatever the input says.
  Otherwise nothing is sent.
\<close>

theorem chat_calls_speak_for_viewer:
  assumes "handle_chat_request env net moment ctx req s = (r, s')"
  shows "ch_outbox s' = ch_outbox s \<or>
    (\<exists>uid rq call. ch_outbox s' = ch_outbox s @ [rq] \<and> ctx_user_id ctx = Some uid \<and>
      (case req of Dead_letters_query _ \<Rightarrow> ctx_is_admin ctx | _ \<Rightarrow> True) \<and>
      parse_chat_request req = Some call \<and> speaks_for uid call rq \<and>
      url_base (sr_url rq) = ce_service_url env \<and> sr_headers rq = service_headers (ce_secret env) \<and>
      r = map_error to_chat_trpc_error (bind_result (Inr (net rq)) (operation_answer env
        (the (request_operation uid call)))))"
proof (cases "chat_guard ctx req")
  case (Inr uid)
  show ?thesis
  proof (cases "parse_chat_request req")
    case (Some call)
    have run: "chat_resolver env net moment uid call s = (r, s')"
      using assms Inr Some by (simp add: handle_chat_request_def call_procedure_def)
    have admin: "case req of Dead_letters_query _ \<Rightarrow> ctx_is_admin ctx | _ \<Rightarrow> True"
      using Inr by (cases req) (simp_all add: chat_guard_admin)
    show ?thesis
    proof (cases "request_operation uid call")
      case None
      then show ?thesis using chat_resolver_rotation [OF None, of env net moment s] run by simp
    next
      case (Some oper)
      from run chat_resolver_operation [OF this, of env net moment s]
      have "r = map_error to_chat_trpc_error (operation_answer env oper (net (operation_request env oper)))"
        and "ch_outbox s' = ch_outbox s @ [operation_request env oper]" by auto
      then show ?thesis
        using Some \<open>parse_chat_request req = Some call\<close> admin chat_guard_Inr [OF Inr] operation_speaks_for [OF Some]
        by (intro disjI2 exI [of _ uid] exI [of _ "operation_request env oper"] exI [of _ call]) simp
    qed
  qed (use assms Inr in \<open>simp add: handle_chat_request_def call_procedure_def\<close>)
qed (use assms in \<open>simp add: handle_chat_request_def call_procedure_def\<close>)

section \<open>Answers\<close>

definition answers_with :: "chat_api_request \<Rightarrow> chat_value \<Rightarrow> bool" where
  "answers_with req v \<longleftrightarrow>
     (case (req, v) of
        (Dead_letters_query _, Dead_letter_page _) \<Rightarrow> True
      | (Config_query, Config_value _) \<Rightarrow> True
      | (Availability_query, Availability _) \<Rightarrow> True
      | (Start_oauth_mutation _, Authorization_url _) \<Rightarrow> True
      | (Broadcast_mutation _, Broadcast_results _) \<Rightarrow> True
      | (Moderate_mutation _, Command_outcome _) \<Rightarrow> True
      | (Rotate_overlay_token_mutation, Overlay_url _ _) \<Rightarrow> True
      | (Connect_boosty_mutation _, Done) \<Rightarrow> True
      | (Disconnect_mutation _, Done) \<Rightarrow> True
      | (Refresh_source_mutation _, Done) \<Rightarrow> True
      | (Set_source_enabled_mutation _ _, Done) \<Rightarrow> True
      | _ \<Rightarrow> False)"

definition output_rejected :: api_error where
  "output_rejected = TRPCError INTERNAL_SERVER_ERROR ''Output validation failed''"

lemma operation_typed:
  assumes "request_operation uid req = Some oper" and "operation_answer env oper reply = Inr v"
  shows "answers_with req v"
proof -
  obtain j where "operation_schema env oper j = Some v"
    using assms(2) by (auto simp: operation_answer_def service_answer_Inr_iff)
  then show ?thesis
    using assms(1) by (cases req) (auto simp: request_operation_def operation_schema_def answers_with_def)
qed

lemma parsed_answers: "parse_chat_request req = Some call \<Longrightarrow> answers_with call v = answers_with req v"
  by (cases req; cases v) (auto simp: parse_chat_request_def answers_with_def split: if_split_asm)

lemma rotation_typed:
  assumes "length (mo_random moment) = 32" and "\<And>path base. ce_is_url env (ce_href env path base)"
    and "request_operation uid req = None"
  shows "case fst (chat_resolver env net moment uid req s) of
      Inl e \<Rightarrow> e \<noteq> output_rejected | Inr v \<Rightarrow> answers_with req v \<and> output_ok env v"
proof -
  have req: "req = Rotate_overlay_token_mutation"
    using assms(3) by (cases req) (simp_all add: request_operation_def)
  have "text_within 32 100 (create_overlay_token (mo_random moment))"
    using assms(1) by (simp add: text_within_def create_overlay_token_def length_base64url)
  then show ?thesis
    using assms(2) by (simp add: req chat_resolver_def request_operation_def rotate_overlay_token_def Let_def
        checked_output_def output_ok_def answers_with_def output_rejected_def)
qed

lemma operation_not_rejected: "to_chat_trpc_error e \<noteq> output_rejected"
  by (simp add: to_chat_trpc_error_def output_rejected_def)

lemma guard_not_rejected: "chat_guard ctx req = Inl e \<Longrightarrow> e \<noteq> output_rejected"
  by (cases req) (auto simp: chat_guard_def admin_def authenticated_def bind_result_Inl_iff output_rejected_def
      split: option.split_asm if_split_asm)

text \<open>
  A chat procedure that succeeds answers a value of its own kind that satisfies its output schema,
  and no procedure ever fails because its result does not: what the service's reply was checked against
  covers the output, and a fresh overlay token has an allowed length.  Random tokens come from 32 bytes
  and resolved addresses are URLs.
\<close>

theorem chat_answers_typed:
  assumes "handle_chat_request env net moment ctx req s = (r, s')"
    and "length (mo_random moment) = 32" and "\<And>path base. ce_is_url env (ce_href env path base)"
  shows "case r of Inl e \<Rightarrow> e \<noteq> output_rejected | Inr v \<Rightarrow> answers_with req v \<and> output_ok env v"
proof (cases "chat_guard ctx req")
  case (Inl e)
  then show ?thesis
    using assms(1) guard_not_rejected [OF Inl] by (auto simp: handle_chat_request_def call_procedure_def)
next
  case (Inr uid)
  show ?thesis
  proof (cases "parse_chat_request req")
    case None
    then show ?thesis
      using assms(1) Inr by (auto simp: handle_chat_request_def call_procedure_def output_rejected_def)
  next
    case (Some call)
    have r: "r = fst (chat_resolver env net moment uid call s)"
      using assms(1) Inr Some by (simp add: handle_chat_request_def call_procedure_def)
    have "case r of Inl e \<Rightarrow> e \<noteq> output_rejected | Inr v \<Rightarrow> answers_with call v \<and> output_ok env v"
    proof (cases "request_operation uid call")
      case None
      show ?thesis unfolding r by (rule rotation_typed [OF assms(2, 3) None])
    next
      case (Some oper)
      let ?answer = "operation_answer env oper (net (operation_request env oper))"
      have "r = map_error to_chat_trpc_error ?answer" using r chat_resolver_operation [OF Some] by simp
      then show ?thesis
        using operation_typed [OF Some] operation_answer_ok operation_not_rejected
        by (cases ?answer) auto
    qed
    then show ?thesis using parsed_answers [OF Some] by (cases r) simp_all
  qed
qed

section \<open>Rotation\<close>

lemma overlay_reads_append:
  assumes "overlay_reads env uid pre st buffer = (evs, Pending)"
  shows "\<exists>buffer'. \<forall>rest. overlay_reads env uid (pre @ rest) st buffer =
    (let r = overlay_reads env uid rest
       (foldl (\<lambda>a s. signals uid (os_during s) (signals uid (os_before s) a)) st pre) buffer'
     in (evs @ fst r, snd r))"
  using assms
proof (induction pre arbitrary: st buffer evs)
  case Nil
  then show ?case by (auto simp: Let_def)
next
  case (Cons s pre)
  define st2 where "st2 = signals uid (os_during s) (signals uid (os_before s) st)"
  have open1: "\<not> overlay_aborted (signals uid (os_before s) st)"
    using Cons.prems by (auto simp: Let_def overlay_end_def split: if_split_asm)
  obtain chunk where read: "os_read s = Text chunk False"
    using Cons.prems open1
    by (cases "os_read s") (auto simp: Let_def overlay_end_def and_then_def split: if_split_asm option.split_asm)
  define lines where "lines = js_split newline (buffer @ chunk)"
  obtain ys where ev: "overlay_events env (butlast lines) = (ys, None)"
    using Cons.prems open1 read
    by (cases "overlay_events env (butlast lines)")
      (auto simp: Let_def and_then_def lines_def split: option.split_asm)
  have rest: "overlay_reads env uid (s # ss) st buffer =
      (ys @ fst (overlay_reads env uid ss st2 (last lines)), snd (overlay_reads env uid ss st2 (last lines)))" for ss
    using open1 read ev by (simp add: Let_def and_then_def lines_def st2_def)
  obtain evs' where "overlay_reads env uid pre st2 (last lines) = (evs', Pending)" and "evs = ys @ evs'"
    using Cons.prems rest [of pre] by (cases "overlay_reads env uid pre st2 (last lines)") auto
  moreover obtain buffer' where "\<forall>rest. overlay_reads env uid (pre @ rest) st2 (last lines) =
      (let r = overlay_reads env uid rest
         (foldl (\<lambda>a s. signals uid (os_during s) (signals uid (os_before s) a)) st2 pre) buffer'
       in (evs' @ fst r, snd r))"
    using Cons.IH [OF calculation(1)] by blast
  ultimately have "\<forall>more_steps. overlay_reads env uid ((s # pre) @ more_steps) st buffer =
      (let r = overlay_reads env uid more_steps
         (foldl (\<lambda>a s. signals uid (os_during s) (signals uid (os_before s) a)) st (s # pre)) buffer'
       in (evs @ fst r, snd r))"
    by (simp add: rest st2_def Let_def del: overlay_reads.simps)
  then show ?case by blast
qed

lemma signals_client:
  "\<not> oa_client st \<Longrightarrow> Client_abort \<notin> set sigs \<Longrightarrow> \<not> oa_client (signals uid sigs st)"
  unfolding signals_def
  by (induction sigs arbitrary: st) (auto simp: signal_step_def split: overlay_signal.split)

lemma signals_client_all:
  "\<not> oa_client st \<Longrightarrow> \<forall>s \<in> set pre. Client_abort \<notin> set (os_before s) \<union> set (os_during s) \<Longrightarrow>
     \<not> oa_client (foldl (\<lambda>a s. signals uid (os_during s) (signals uid (os_before s) a)) st pre)"
  by (induction pre arbitrary: st) (simp_all add: signals_client)

lemma signal_step_revoked: "oa_revoked st \<Longrightarrow> oa_revoked (signal_step uid st sig)"
  by (auto simp: signal_step_def split: overlay_signal.split)

lemma signals_revoked_keep: "oa_revoked st \<Longrightarrow> oa_revoked (signals uid sigs st)"
  unfolding signals_def by (induction sigs arbitrary: st) (auto simp: signal_step_revoked)

lemma signals_revoked:
  "Token_check current \<in> set sigs \<Longrightarrow> current \<noteq> Some uid \<Longrightarrow> oa_revoked (signals uid sigs st)"
proof (induction sigs arbitrary: st)
  case (Cons sig sigs)
  then show ?case
    using signals_revoked_keep [of "signal_step uid st sig" uid sigs]
    by (auto simp: signals_def signal_step_def)
qed simp

definition unique_overlays :: "chat_overlay list \<Rightarrow> bool" where
  "unique_overlays rows \<longleftrightarrow> distinct (map co_user rows)"

lemma rotated_user:
  assumes "rotate_overlay_token env random now uid rows = (Inr (token', url), rows')"
  shows "get_user_id_by_overlay_token env token' rows' = Some uid"
    and "hash_overlay_token env token \<noteq> hash_overlay_token env token' \<Longrightarrow>
      get_user_id_by_overlay_token env token rows' \<noteq> Some uid"
    and "unique_overlays rows \<Longrightarrow> unique_overlays rows'"
proof -
  define hash where "hash = hash_overlay_token env (create_overlay_token random)"
  have token': "token' = create_overlay_token random"
    and fresh: "\<forall>r \<in> set rows. co_token_hash r = Some hash \<longrightarrow> co_user r = uid"
    and rows': "rows' = (if \<exists>r \<in> set rows. co_user r = uid
       then update_where (\<lambda>r. co_user r = uid) (\<lambda>r. r\<lparr>co_token_hash := Some hash, co_updated_at := now\<rparr>) rows
       else rows @ [\<lparr>co_user = uid, co_token_hash = Some hash, co_updated_at = now\<rparr>])"
    using assms by (auto simp: rotate_overlay_token_def Let_def hash_def split: if_split_asm)
  have mine: "r \<in> set rows' \<Longrightarrow> co_user r = uid \<longleftrightarrow> co_token_hash r = Some hash" for r
    using fresh by (auto simp: rows' update_where_def split: if_split_asm)
  have users: "map co_user rows' = (if uid \<in> co_user ` set rows then map co_user rows else map co_user rows @ [uid])"
    by (auto simp: rows' update_where_def)
  then have "uid \<in> set (map co_user rows')" by simp
  then obtain w where "w \<in> set rows'" and "co_user w = uid" by auto
  then have "first_row (filter (\<lambda>r. co_token_hash r = Some hash) rows') \<noteq> None"
    using mine [of w] by (auto simp: filter_empty_conv)
  then obtain r where r: "first_row (filter (\<lambda>r. co_token_hash r = Some hash) rows') = Some r" by blast
  moreover have "co_user r = uid" using first_row_filterD [OF r] mine [of r] by simp
  ultimately show "get_user_id_by_overlay_token env token' rows' = Some uid"
    by (simp add: get_user_id_by_overlay_token_def token' hash_def)
  show "get_user_id_by_overlay_token env token rows' \<noteq> Some uid"
    if other: "hash_overlay_token env token \<noteq> hash_overlay_token env token'"
  proof
    assume "get_user_id_by_overlay_token env token rows' = Some uid"
    then obtain r where r: "first_row (filter (\<lambda>r. co_token_hash r = Some (hash_overlay_token env token)) rows') = Some r"
      and "co_user r = uid" by (auto simp: get_user_id_by_overlay_token_def)
    with first_row_filterD [OF r] mine [of r] other show False by (simp add: token' hash_def)
  qed
  show "unique_overlays rows'" if "unique_overlays rows"
    using that by (simp add: unique_overlays_def users)
qed


section \<open>Concrete input\<close>

definition sample_chat_env :: chat_env where
  "sample_chat_env =
     \<lparr>ce_service_url = ''http://chat'', ce_secret = ''secret'', ce_app_domain = ''https://app'',
      ce_json = (\<lambda>s. Some (J_str s)), ce_is_url = (\<lambda>_. True), ce_href = (\<lambda>path base. base @ path),
      ce_sha256_hex = id, ce_read_activity = (\<lambda>_. None), ce_read_config = (\<lambda>_. None),
      ce_read_availability = (\<lambda>_. None), ce_read_broadcast = (\<lambda>_. None), ce_read_command = (\<lambda>_. None),
      ce_read_dead_letters = (\<lambda>_. None),
      ce_read_event = (\<lambda>j. case j of J_str s \<Rightarrow> Some (Connection_failed Unauthorized s) | _ \<Rightarrow> None)\<rparr>"

definition sample_overlays :: "chat_overlay list" where
  "sample_overlays =
     [\<lparr>co_user = 7, co_token_hash = Some ''old'', co_updated_at = 0\<rparr>,
      \<lparr>co_user = 8, co_token_hash = Some ''other'', co_updated_at = 0\<rparr>]"

definition sample_rotated :: "chat_overlay list" where
  "sample_rotated = snd (rotate_overlay_token sample_chat_env [0, 0, 0] 5 7 sample_overlays)"

definition sample_read :: overlay_step where
  "sample_read = \<lparr>os_before = [Token_check (Some 7)], os_read = Text ''live'' False, os_during = []\<rparr>"

definition sample_check :: overlay_step where
  "sample_check = \<lparr>os_before = [Token_check (get_user_id_by_overlay_token sample_chat_env ''old'' sample_rotated)],
     os_read = Read_failure, os_during = []\<rparr>"

theorem chat_calls_speak_for_viewer_witness:
  "let req = Broadcast_mutation ''hi'';
       r = handle_chat_request sample_chat_env (\<lambda>_. Fetch_failed) \<lparr>mo_now = 0, mo_random = []\<rparr>
             \<lparr>ctx_user_id = Some 7, ctx_is_admin = False\<rparr> req \<lparr>ch_overlays = [], ch_outbox = []\<rparr>
   in \<exists>rq. ch_outbox (snd r) = [rq] \<and> speaks_for 7 req rq"
proof -
  let ?req = "Broadcast_mutation ''hi''"
  let ?r = "handle_chat_request sample_chat_env (\<lambda>_. Fetch_failed) \<lparr>mo_now = 0, mo_random = []\<rparr>
             \<lparr>ctx_user_id = Some 7, ctx_is_admin = False\<rparr> ?req \<lparr>ch_overlays = [], ch_outbox = []\<rparr>"
  have parsed: "parse_chat_request ?req = Some ?req"
    by (simp add: parse_chat_request_def max_chat_message_length_def)
  have "ch_outbox (snd ?r) \<noteq> []"
    using parsed by (simp add: handle_chat_request_def call_procedure_def chat_guard_def authenticated_def
        chat_resolver_def request_operation_def call_remote_def)
  then show ?thesis
    using chat_calls_speak_for_viewer [of sample_chat_env "\<lambda>_. Fetch_failed" "\<lparr>mo_now = 0, mo_random = []\<rparr>"
        "\<lparr>ctx_user_id = Some 7, ctx_is_admin = False\<rparr>" ?req "\<lparr>ch_overlays = [], ch_outbox = []\<rparr>" "fst ?r" "snd ?r"]
      parsed by (auto simp: Let_def)
qed

theorem chat_answers_typed_witness:
  "case fst (handle_chat_request sample_chat_env (\<lambda>_. Fetch_failed) \<lparr>mo_now = 0, mo_random = replicate 32 0\<rparr>
      \<lparr>ctx_user_id = Some 7, ctx_is_admin = False\<rparr> Rotate_overlay_token_mutation
      \<lparr>ch_overlays = sample_overlays, ch_outbox = []\<rparr>) of
    Inl e \<Rightarrow> e \<noteq> output_rejected
  | Inr v \<Rightarrow> answers_with Rotate_overlay_token_mutation v \<and> output_ok sample_chat_env v"
  by (rule chat_answers_typed [OF prod.collapse [symmetric]]) (simp_all add: sample_chat_env_def)


end
