(* ===== verification/AlertHttp.thy ===== *)
theory AlertHttp
  imports AlertService RequestBody
begin

text \<open>
  The plain HTTP routes of donation alerts (\<open>server/donation-alert/http.ts\<close>): uploads, one at a time
  and checked before they are sent on, the media proxy and the overlay's event stream.  The session,
  \<open>Number()\<close> of a header, text decoding and the parser of multipart forms are arguments; a body is
  the sequence of its reads as in \<open>RequestBody\<close>.
\<close>

definition max_alert_media_bytes :: nat where "max_alert_media_bytes = 256"

definition max_alert_stream_bytes :: nat where "max_alert_stream_bytes = 512"

definition max_upload_request_bytes :: nat where "max_upload_request_bytes = 11 * (1024 * 1024)"

definition upload_timeout_ms :: int where "upload_timeout_ms = 45000"

definition max_concurrent_uploads :: nat where "max_concurrent_uploads = 1"

definition upload_max_bytes :: "upload_kind \<Rightarrow> nat" where
  "upload_max_bytes k = (case k of Image_upload \<Rightarrow> 4 * (1024 * 1024) | Sound_upload \<Rightarrow> 10 * (1024 * 1024))"

definition upload_content_types :: "upload_kind \<Rightarrow> string list" where
  "upload_content_types k =
     (case k of
        Image_upload \<Rightarrow> [''image/gif'', ''image/jpeg'', ''image/png'', ''image/webp'']
      | Sound_upload \<Rightarrow>
          [''audio/mpeg'', ''audio/ogg'', ''audio/opus'', ''audio/wav'', ''audio/wave'', ''audio/x-wav''])"

record upload_file =
  uf_type :: string
  uf_bytes :: "byte list"

datatype form_value = Form_text string | Form_file upload_file

record alert_http_env =
  hx_alerts :: alert_env
  hx_origin :: string
  hx_number :: "string \<Rightarrow> int option"
  hx_decode :: "byte list \<Rightarrow> string"
  hx_form :: "headers \<Rightarrow> byte list \<Rightarrow> (string \<times> form_value) list option"

datatype stream_closing = Closed | Errored | Left_open

datatype alert_response =
    Json_error nat string "(string \<times> string) list"
  | Text_error nat string "(string \<times> string) list"
  | Asset_json alert_asset "(string \<times> string) list"
  | Media_body nat headers "byte list"
  | Event_body player_identity headers
  | Handler_error

section \<open>Request bodies\<close>

text \<open>The status of an \<open>AlertRequestBodyError\<close>.\<close>

definition translate_body_error :: "body_error \<Rightarrow> nat" where
  "translate_body_error e = (case e of Too_large \<Rightarrow> 413 | Aborted \<Rightarrow> 408 | Invalid_body \<Rightarrow> 400)"

definition read_bounded_multipart_form ::
  "alert_http_env \<Rightarrow> http_request \<Rightarrow> nat \<Rightarrow> (nat + (string \<times> form_value) list) option" where
  "read_bounded_multipart_form env req max_bytes =
     (case req_body req of
        None \<Rightarrow> Some (Inl 400)
      | Some steps \<Rightarrow>
          (case read_bounded_request_body steps max_bytes of
             None \<Rightarrow> None
           | Some (Inl e) \<Rightarrow> Some (Inl (translate_body_error e))
           | Some (Inr body) \<Rightarrow>
               Some (expect (hx_form env (req_headers req) body) 400)))"

definition read_bounded_json ::
  "alert_http_env \<Rightarrow> http_request \<Rightarrow> nat \<Rightarrow> (json \<Rightarrow> 'a option) \<Rightarrow> (nat + 'a) option" where
  "read_bounded_json env req max_bytes schema =
     (case validate_content_length (get_header (req_headers req) ''content-length'') max_bytes True of
        Inl e \<Rightarrow> Some (Inl (translate_body_error e))
      | Inr _ \<Rightarrow>
          (case req_body req of
             None \<Rightarrow> Some (Inl 400)
           | Some steps \<Rightarrow>
               (case read_bounded_request_body steps max_bytes of
                  None \<Rightarrow> None
                | Some (Inl e) \<Rightarrow> Some (Inl (translate_body_error e))
                | Some (Inr body) \<Rightarrow>
                    Some (map_error (\<lambda>_. 400) (parse_json (ae_json (hx_alerts env)) (hx_decode env body) schema)))))"

definition error_response :: "service_error \<Rightarrow> string \<Rightarrow> alert_response" where
  "error_response e fallback =
     Json_error (case se_status e of Some s \<Rightarrow> if 400 \<le> s \<and> s < 500 then s else 503 | None \<Rightarrow> 503) fallback []"

section \<open>Uploads\<close>

record upload_state =
  active_uploads :: nat
  active_upload_users :: "int list"

definition no_uploads :: upload_state where
  "no_uploads = \<lparr>active_uploads = 0, active_upload_users = []\<rparr>"

definition acquire_upload :: "int \<Rightarrow> upload_state \<Rightarrow> upload_state option" where
  "acquire_upload uid s =
     (if active_uploads s \<ge> max_concurrent_uploads \<or> uid \<in> set (active_upload_users s) then None
      else Some \<lparr>active_uploads = active_uploads s + 1, active_upload_users = uid # active_upload_users s\<rparr>)"

definition release_upload :: "int \<Rightarrow> upload_state \<Rightarrow> upload_state" where
  "release_upload uid s =
     \<lparr>active_uploads = active_uploads s - 1,
      active_upload_users = filter (\<lambda>u. u \<noteq> uid) (active_upload_users s)\<rparr>"

definition reject_invalid_upload_boundary :: "alert_http_env \<Rightarrow> http_request \<Rightarrow> alert_response option" where
  "reject_invalid_upload_boundary env req =
     (if get_header (req_headers req) ''origin'' \<noteq> Some (hx_origin env) \<or>
         get_header (req_headers req) ''x-streambrew-upload'' \<noteq> Some ''1''
      then Some (Json_error 403 ''Forbidden'' [])
      else (let content_length = (case get_header (req_headers req) ''content-length'' of
                                    None \<Rightarrow> Some 0 | Some h \<Rightarrow> hx_number env h)
            in case content_length of
                 None \<Rightarrow> Some (Json_error 411 ''Content length required'' [])
               | Some n \<Rightarrow>
                   if n \<le> 0 then Some (Json_error 411 ''Content length required'' [])
                   else if n > int max_upload_request_bytes then Some (Json_error 413 ''Upload too large'' [])
                   else None))"

text \<open>The first phase of \<open>handleAlertUpload\<close>: answered at once, or a running upload of a user.\<close>

datatype upload_start = Answered alert_response | Running int

definition start_upload ::
  "alert_http_env \<Rightarrow> http_request \<Rightarrow> int option \<Rightarrow> upload_state \<Rightarrow> upload_start \<times> upload_state" where
  "start_upload env req user s =
     (case reject_invalid_upload_boundary env req of
        Some r \<Rightarrow> (Answered r, s)
      | None \<Rightarrow>
          (case user of
             None \<Rightarrow> (Answered (Json_error 401 ''Unauthorized'' []), s)
           | Some uid \<Rightarrow>
               (case acquire_upload uid s of
                  None \<Rightarrow>
                    (Answered (Json_error 429 ''Another upload is already being processed'' [(''Retry-After'', ''2'')]), s)
                | Some s' \<Rightarrow> (Running uid, s'))))"

definition validate_upload_form ::
  "(string \<times> form_value) list \<Rightarrow> alert_response + (upload_kind \<times> upload_file)" where
  "validate_upload_form form =
     (let invalid = Inl (Json_error 400 ''Invalid upload'' []);
          check = (\<lambda>kind.
            case map_of form ''file'' of
              Some (Form_file file) \<Rightarrow>
                if uf_bytes file = [] \<or> length (uf_bytes file) > upload_max_bytes kind \<or>
                   uf_type file \<notin> set (upload_content_types kind)
                then Inl (Json_error 400 ''Unsupported file'' [])
                else Inr (kind, file)
            | _ \<Rightarrow> invalid)
      in case map_of form ''kind'' of
           Some (Form_text k) \<Rightarrow>
             if k = ''image'' then check Image_upload else if k = ''sound'' then check Sound_upload else invalid
         | _ \<Rightarrow> invalid)"

text \<open>\<open>Buffer.toString("base64")\<close>.\<close>

definition base64_char :: "nat \<Rightarrow> char" where
  "base64_char n =
     (let c = sextet n in if c = CHR ''-'' then CHR ''+'' else if c = CHR ''_'' then CHR ''/'' else c)"

fun base64 :: "byte list \<Rightarrow> string" where
  "base64 (a # b # c # rest) =
     (let n = unat a * 65536 + unat b * 256 + unat c
      in [base64_char (n div 262144), base64_char (n div 4096), base64_char (n div 64), base64_char n] @ base64 rest)"
| "base64 [a, b] =
     (let n = unat a * 1024 + unat b * 4
      in [base64_char (n div 4096), base64_char (n div 64), base64_char n, CHR ''=''])"
| "base64 [a] = (let n = unat a * 16 in [base64_char (n div 64), base64_char n, CHR ''='', CHR ''=''])"
| "base64 [] = []"

text \<open>
  What a running upload meets after its body was read: whether the operation was aborted (by the
  client or the timeout) before the service is called and when its call has failed.
\<close>

record upload_course =
  uc_aborted_before_call :: bool
  uc_aborted_after_call :: bool

definition upload_asset ::
  "alert_http_env \<Rightarrow> (service_request \<Rightarrow> service_reply) \<Rightarrow> upload_course \<Rightarrow> int \<Rightarrow> upload_kind \<times> upload_file \<Rightarrow>
    alert_response \<times> service_request list" where
  "upload_asset env net course uid up =
     (let timed_out = Json_error 504 ''Upload timed out'' [];
          oper = Upload_asset uid (fst up) (uf_type (snd up)) (base64 (uf_bytes (snd up)))
      in if uc_aborted_before_call course then (timed_out, [])
         else case alert_request (hx_alerts env) oper of
           None \<Rightarrow> (Json_error 500 ''Upload failed'' [], [])
         | Some rq \<Rightarrow>
             (case alert_answer (hx_alerts env) oper (net rq) of
                Inr (Asset_value asset) \<Rightarrow> Asset_json asset [(''Cache-Control'', ''no-store'')]
              | Inr _ \<Rightarrow> Json_error 500 ''Upload failed'' []
              | Inl e \<Rightarrow> if uc_aborted_after_call course then timed_out else error_response e ''Upload failed'', [rq]))"

definition process_upload ::
  "alert_http_env \<Rightarrow> (service_request \<Rightarrow> service_reply) \<Rightarrow> upload_course \<Rightarrow> http_request \<Rightarrow> int \<Rightarrow>
    (alert_response \<times> service_request list) option" where
  "process_upload env net course req uid =
     (case read_bounded_multipart_form env req max_upload_request_bytes of
        None \<Rightarrow> None
      | Some (Inl status) \<Rightarrow> Some (Json_error status ''Invalid upload'' [], [])
      | Some (Inr form) \<Rightarrow>
          (case validate_upload_form form of
             Inl r \<Rightarrow> Some (r, [])
           | Inr up \<Rightarrow> Some (upload_asset env net course uid up)))"

text \<open>
  The uploads of a server: requests arrive, and a running one ends, with whatever outcome, and its
  \<open>finally\<close> block releases the slot.
\<close>

datatype upload_event = Upload_arrives http_request "int option" | Upload_ends int

record upload_server =
  us_state :: upload_state
  us_running :: "int list"

definition upload_step :: "alert_http_env \<Rightarrow> upload_server \<Rightarrow> upload_event \<Rightarrow> upload_server" where
  "upload_step env s event =
     (case event of
        Upload_arrives req user \<Rightarrow>
          (case start_upload env req user (us_state s) of
             (Answered _, _) \<Rightarrow> s
           | (Running uid, st) \<Rightarrow> \<lparr>us_state = st, us_running = uid # us_running s\<rparr>)
      | Upload_ends uid \<Rightarrow>
          if uid \<in> set (us_running s)
          then \<lparr>us_state = release_upload uid (us_state s), us_running = remove1 uid (us_running s)\<rparr>
          else s)"

section \<open>Media\<close>

definition read_media_token :: "json \<Rightarrow> media_principal option" where
  "read_media_token j = map_option Token_principal (read_text ''token'' valid_overlay_token j)"

definition get_media_principal ::
  "alert_http_env \<Rightarrow> http_request \<Rightarrow> int option \<Rightarrow> (alert_response + media_principal) option" where
  "get_media_principal env req user =
     (if req_method req = ''GET''
      then Some (case user of None \<Rightarrow> Inl (Text_error 401 ''Unauthorized'' []) | Some uid \<Rightarrow> Inr (User_principal uid))
      else if req_method req \<noteq> ''POST''
      then Some (Inl (Text_error 405 ''Method not allowed'' [(''Allow'', ''GET, POST'')]))
      else map_option (map_error (\<lambda>status. Json_error status ''Invalid media request'' []))
             (read_bounded_json env req max_alert_media_bytes read_media_token))"

definition header_or :: "headers \<Rightarrow> string \<Rightarrow> string \<Rightarrow> string" where
  "header_or hs name fallback = (case get_header hs name of None \<Rightarrow> fallback | Some v \<Rightarrow> v)"

definition alert_media_response :: "nat \<Rightarrow> headers \<Rightarrow> byte list \<Rightarrow> alert_response" where
  "alert_media_response status upstream body =
     (let base =
        [(''accept-ranges'', header_or upstream ''accept-ranges'' ''bytes''),
         (''cache-control'', ''private, max-age=3600''),
         (''content-type'', header_or upstream ''content-type'' ''application/octet-stream''),
         (''cross-origin-resource-policy'', ''same-origin''),
         (''referrer-policy'', ''no-referrer''),
         (''x-content-type-options'', ''nosniff'')]
      in Media_body status
           (foldl (\<lambda>hs name. case get_header upstream name of None \<Rightarrow> hs | Some v \<Rightarrow> set_header name v hs)
             base [''content-length'', ''content-range'']) body)"

definition proxy_alert_media ::
  "alert_http_env \<Rightarrow> (service_request \<Rightarrow> byte list media_reply) \<Rightarrow> http_request \<Rightarrow> string \<Rightarrow> media_principal \<Rightarrow>
    alert_response \<times> service_request list" where
  "proxy_alert_media env net req asset_id who =
     (let rq = asset_request (hx_alerts env) asset_id who (get_header (req_headers req) ''range'')
      in (case asset_answer (net rq) of
            Inr (status, upstream, body) \<Rightarrow> alert_media_response status upstream body
          | Inl e \<Rightarrow>
              if se_status e = Some 404 then Text_error 404 ''Not found'' []
              else if se_status e = Some 416 then Text_error 416 ''Range not satisfiable'' []
              else Text_error 503 ''Media unavailable'' [],
          [rq]))"

text \<open>The last part of the path names the asset.\<close>

definition handle_alert_media ::
  "alert_http_env \<Rightarrow> (service_request \<Rightarrow> byte list media_reply) \<Rightarrow> http_request \<Rightarrow> int option \<Rightarrow>
    (alert_response \<times> service_request list) option" where
  "handle_alert_media env net req user =
     (let asset_id = last (js_split (CHR ''/'') (req_path req))
      in if \<not> valid_asset_id asset_id then Some (Text_error 404 ''Not found'' [], [])
         else case get_media_principal env req user of
           None \<Rightarrow> None
         | Some (Inl r) \<Rightarrow> Some (r, [])
         | Some (Inr who) \<Rightarrow> Some (proxy_alert_media env net req asset_id who))"

section \<open>Events\<close>

definition read_player_identity :: "json \<Rightarrow> player_identity option" where
  "read_player_identity j =
     (case (field j ''token'', field j ''playerId'', field j ''generation'') of
        (Some (J_str token), Some (J_str player_id), Some (J_int generation)) \<Rightarrow>
          (let p = \<lparr>pi_token = token, pi_player_id = player_id, pi_generation = generation\<rparr>
           in if valid_player_identity p then Some p else None)
      | _ \<Rightarrow> None)"

definition event_stream_headers :: headers where
  "event_stream_headers =
     [(''cache-control'', ''no-cache, no-store''), (''connection'', ''keep-alive''),
      (''content-type'', ''application/x-ndjson; charset=utf-8''), (''referrer-policy'', ''no-referrer''),
      (''x-accel-buffering'', ''no''), (''x-content-type-options'', ''nosniff'')]"

definition handle_alert_stream :: "alert_http_env \<Rightarrow> http_request \<Rightarrow> alert_response option" where
  "handle_alert_stream env req =
     map_option (\<lambda>r. case r of
         Inl status \<Rightarrow> Json_error status ''Invalid stream request'' []
       | Inr identity \<Rightarrow> Event_body identity event_stream_headers)
       (read_bounded_json env req max_alert_stream_bytes read_player_identity)"

text \<open>
  The body of the response: a line for each event of the service's stream, \<open>print\<close> being
  \<open>JSON.stringify\<close> with big integers as texts; then it is closed, fails with the service's error, or,
  when the browser has left, stays as it is.
\<close>

definition event_stream_body ::
  "alert_env \<Rightarrow> (overlay_event \<Rightarrow> string) \<Rightarrow> bool \<Rightarrow> alert_stream_opening \<Rightarrow> (string \<times> stream_closing) option" where
  "event_stream_body env print aborted opening =
     (case stream_overlay env opening of
        (events, fin) \<Rightarrow>
          (let sent = concat (map (\<lambda>e. print e @ [newline]) events)
           in case fin of
                Pending \<Rightarrow> None
              | stream_end.Ended \<Rightarrow> Some (sent, if aborted then Left_open else Closed)
              | Failed _ \<Rightarrow> Some (sent, if aborted then Left_open else Errored)))"

end
