(* ===== verification/AlertCalls.thy ===== *)
theory AlertCalls
  imports AlertService
begin

text \<open>
  What the alert API promises: every accepted request is one call of the donation service in the name
  of the signed-in user or of the overlay's token, and its failures are shown without the service's words.
\<close>

interpretation alert_errors: translated_service to_alert_trpc_error
  "''Invalid alert request.''" "''Alert resource not found.''" "''Alert state changed.''" "''Alert service unavailable.''"
  by unfold_locales (simp add: to_alert_trpc_error_def)

definition overlay_token_of :: "overlay_request \<Rightarrow> string" where
  "overlay_token_of req =
     (case req of Open_overlay_mutation token \<Rightarrow> token | Heartbeat_mutation p _ _ \<Rightarrow> pi_token p
      | Started_mutation p _ \<Rightarrow> pi_token p | Finished_mutation p _ _ \<Rightarrow> pi_token p
      | Diagnostic_mutation p _ _ \<Rightarrow> pi_token p)"

definition body_field :: "service_request \<Rightarrow> string \<Rightarrow> json option" where
  "body_field rq k = Option.bind (sr_body rq) (\<lambda>j. field j k)"

definition names_caller :: "api_context \<Rightarrow> alert_api_request \<Rightarrow> service_request \<Rightarrow> bool" where
  "names_caller ctx req rq \<longleftrightarrow>
     (case req of
        By_user _ \<Rightarrow> ctx_user_id ctx \<noteq> None \<and> body_field rq ''userId'' = map_option J_int (ctx_user_id ctx) \<and>
          body_field rq ''token'' = None
      | By_overlay r \<Rightarrow> body_field rq ''token'' = Some (J_str (overlay_token_of r)) \<and> body_field rq ''userId'' = None)"

definition posted_to_service :: "alert_env \<Rightarrow> service_request \<Rightarrow> bool" where
  "posted_to_service env rq \<longleftrightarrow>
     sr_method rq = POST \<and> url_base (sr_url rq) = ae_service_url env \<and> sr_headers rq = service_headers (ae_secret env)"

text \<open>What the browser sees of a response of the service that is not a success.\<close>

definition shown_failure :: "nat \<Rightarrow> nat \<times> string" where
  "shown_failure s =
     (if s = 400 then (400, ''Invalid alert request.'') else if s = 404 then (404, ''Alert resource not found.'')
      else if s = 409 then (409, ''Alert state changed.'') else (500, ''Internal server error.''))"

lemma alert_post_posted [simp]: "posted_to_service env (alert_post env path fs)"
  by (simp add: alert_post_def posted_to_service_def service_url_of_def)

lemma body_field_post [simp]: "body_field (alert_post env path fs) k = map_of fs k"
  by (simp add: body_field_def alert_post_def)

lemma settings_fields [simp]: "map_of (editable_settings s) ''token'' = None"
  by (simp add: editable_settings_def)

lemma player_fields_of [simp]:
  "map_of (player_fields p) ''token'' = Some (J_str (pi_token p))"
  "map_of (player_fields p) ''userId'' = None"
  by (simp_all add: player_fields_def)

lemma user_request:
  assumes "parse_user_alert req = Some call"
  shows "\<exists>rq. alert_request env (user_alert_operation uid call) = Some rq \<and> posted_to_service env rq \<and>
    body_field rq ''userId'' = Some (J_int uid) \<and> body_field rq ''token'' = None"
proof (cases req)
  case (Update_settings_mutation s)
  then obtain t where "call = Update_settings_mutation t" and "parse_alert_settings s = Some t"
    using assms by (auto simp: parse_user_alert_def)
  with parse_alert_settings_again show ?thesis by (simp add: user_alert_operation_def alert_request_def)
qed (use assms in \<open>auto simp: parse_user_alert_def user_alert_operation_def alert_request_def split: if_split_asm\<close>)

lemma overlay_request_sent:
  "\<exists>rq. alert_request env (overlay_operation req) = Some rq \<and> posted_to_service env rq \<and>
    body_field rq ''token'' = Some (J_str (overlay_token_of req)) \<and> body_field rq ''userId'' = None"
  by (cases req) (simp_all add: overlay_operation_def alert_request_def overlay_token_of_def map_add_def)

lemma accepted_request:
  assumes "alert_guard ctx req = Inr uid" and "parse_alert_request req = Some call"
  shows "\<exists>rq. alert_request env (alert_operation_of uid call) = Some rq \<and> posted_to_service env rq \<and>
    names_caller ctx req rq"
proof (cases req)
  case (By_user r)
  then obtain u where "ctx_user_id ctx = Some u" and "uid = Some u"
    using assms(1) by (auto simp: alert_guard_def bind_result_Inr_iff authenticated_Inr)
  moreover obtain r' where "parse_user_alert r = Some r'" and "call = By_user r'"
    using assms(2) By_user by (auto simp: parse_alert_request_def)
  ultimately show ?thesis
    using user_request [of r r' env u] By_user by (auto simp: alert_operation_of_def names_caller_def)
next
  case (By_overlay r)
  then have "call = By_overlay r"
    using assms(2) by (auto simp: parse_alert_request_def split: if_split_asm)
  then show ?thesis
    using overlay_request_sent [of env r] By_overlay by (auto simp: alert_operation_of_def names_caller_def)
qed

lemma refused_request:
  assumes "alert_guard ctx req = Inl e" shows "fst (error_formatter e) = 401"
  using assms by (auto simp: alert_guard_def bind_result_Inl_iff authenticated_def error_formatter_def
      error_code_def http_status_def split: alert_api_request.split_asm option.split_asm if_split_asm)

lemma failed_reply:
  assumes "\<not> response_ok s"
  shows "\<exists>e. alert_answer env oper (Reply s body) = Inl e \<and> error_formatter (to_alert_trpc_error e) = shown_failure s"
proof -
  obtain e where e: "alert_answer env oper (Reply s body) = Inl e"
    using assms by (cases "alert_answer env oper (Reply s body)") (auto simp: alert_answer_def service_answer_Inr_iff)
  from alert_errors.failure_shown [OF this [unfolded alert_answer_def]]
  have "error_formatter (to_alert_trpc_error e) = shown_failure s" by (simp add: shown_failure_def)
  with e show ?thesis by blast
qed

text \<open>
  C36: An alert procedure either answers 400 or 401 and sends nothing, or it posts exactly one request
  to the donation service, with the secret, naming the signed-in user or, for an overlay, the token of
  the input, never both; when the service refuses it, the caller sees 400, 404 or 409 with the
  router's own words, and otherwise an internal error that hides everything.
\<close>

theorem alert_requests_exact:
  assumes "handle_alert_request env net ctx req outbox = (r, outbox')"
  shows "(outbox' = outbox \<and> (\<exists>e. r = Inl e \<and> fst (error_formatter e) \<in> {400, 401})) \<or>
    (\<exists>rq. outbox' = outbox @ [rq] \<and> posted_to_service env rq \<and> names_caller ctx req rq \<and>
      (case net rq of
         Reply s _ \<Rightarrow> response_ok s \<or> (\<exists>e. r = Inl e \<and> error_formatter e = shown_failure s)
       | _ \<Rightarrow> \<exists>e. r = Inl e))"
proof (cases "alert_guard ctx req")
  case (Inl e)
  then show ?thesis
    using assms refused_request [OF Inl] by (auto simp: handle_alert_request_def call_procedure_def)
next
  case (Inr uid)
  show ?thesis
  proof (cases "parse_alert_request req")
    case None
    then show ?thesis
      using assms Inr by (auto simp: handle_alert_request_def call_procedure_def error_formatter_def
          error_code_def http_status_def)
  next
    case (Some call)
    obtain rq where rq: "alert_request env (alert_operation_of uid call) = Some rq" "posted_to_service env rq"
        "names_caller ctx req rq"
      using accepted_request [OF Inr Some] by blast
    let ?answer = "alert_answer env (alert_operation_of uid call) (net rq)"
    have out: "outbox' = outbox @ [rq]" and r: "r = bind_result (map_error to_alert_trpc_error ?answer)
        (\<lambda>v. alert_output env (alert_result env v))"
      using assms Inr Some rq(1)
      by (auto simp: handle_alert_request_def call_procedure_def call_alert_service_def call_remote_def)
    have "case net rq of
        Reply s _ \<Rightarrow> response_ok s \<or> (\<exists>e. r = Inl e \<and> error_formatter e = shown_failure s)
      | _ \<Rightarrow> \<exists>e. r = Inl e"
    proof (cases "net rq")
      case (Reply s body)
      show ?thesis
      proof (cases "response_ok s")
        case False
        from failed_reply [OF this, of env "alert_operation_of uid call" body] Reply r show ?thesis by auto
      qed (simp add: Reply)
    qed (use r in \<open>auto simp: alert_answer_def service_answer_def request_json_def request_text_def\<close>)
    with rq out show ?thesis by blast
  qed
qed

definition sample_alert_env :: alert_env where
  "sample_alert_env =
     \<lparr>ae_service_url = ''http://donations'', ae_secret = ''secret'', ae_app_domain = ''https://app'',
      ae_json = (\<lambda>_. None), ae_is_url = (\<lambda>_. True), ae_href_hash = (\<lambda>path base hash. base @ path @ hash),
      ae_read_dashboard = (\<lambda>_. None), ae_read_open = (\<lambda>_. None), ae_read_asset = (\<lambda>_. None),
      ae_read_event = (\<lambda>_. None)\<rparr>"

theorem alert_requests_exact_witness:
  "\<exists>rq e. handle_alert_request sample_alert_env (\<lambda>_. Reply 404 ''gone'')
      \<lparr>ctx_user_id = Some 7, ctx_is_admin = False\<rparr> (By_user Skip_mutation) [] = (Inl e, [rq]) \<and>
    body_field rq ''userId'' = Some (J_int 7) \<and> error_formatter e = (404, ''Alert resource not found.'')"
proof -
  let ?ctx = "\<lparr>ctx_user_id = Some 7, ctx_is_admin = False\<rparr>" and ?net = "\<lambda>_. Reply 404 ''gone''"
  let ?r = "handle_alert_request sample_alert_env ?net ?ctx (By_user Skip_mutation) []"
  have "alert_guard ?ctx (By_user Skip_mutation) = Inr (Some 7)"
    by (simp add: alert_guard_def authenticated_def)
  then have "snd ?r \<noteq> []"
    by (simp add: handle_alert_request_def call_procedure_def parse_alert_request_def parse_user_alert_def
        alert_operation_of_def user_alert_operation_def call_alert_service_def alert_request_def call_remote_def)
  then show ?thesis
    using alert_requests_exact [of sample_alert_env ?net ?ctx "By_user Skip_mutation" "[]" "fst ?r" "snd ?r"]
    by (cases ?r) (auto simp: names_caller_def response_ok_def shown_failure_def)
qed

end
