(* ===== verification/AlertPlayer.thy ===== *)
theory AlertPlayer
  imports AlertService
begin

text \<open>
  The presentation of one alert in the browser (\<open>components/alert-player-runtime.ts\<close>): its stages, the
  loading of its media, its audio channels and the run of a playback from preloading to its
  acknowledged end.  A run advances by events, each the outcome of what it awaits or its interruption,
  and each taking some time; the calls it makes are kept in order.
\<close>

section \<open>Stages\<close>

datatype alert_stage = Stage_idle | Stage_preloading | Stage_starting | Stage_entering | Stage_shown
  | Stage_exiting | Stage_finishing

datatype stage_action = Begin | Preloaded | Started_action | Entered | Leave | Exited | Finished_action | Reset

fun reduce_alert_player_stage :: "alert_stage \<Rightarrow> stage_action \<Rightarrow> alert_stage" where
  "reduce_alert_player_stage stage Begin = Stage_preloading"
| "reduce_alert_player_stage stage Preloaded = (if stage = Stage_preloading then Stage_starting else stage)"
| "reduce_alert_player_stage stage Started_action = (if stage = Stage_starting then Stage_entering else stage)"
| "reduce_alert_player_stage stage Entered = (if stage = Stage_entering then Stage_shown else stage)"
| "reduce_alert_player_stage stage Leave =
     (if stage = Stage_entering \<or> stage = Stage_shown then Stage_exiting else stage)"
| "reduce_alert_player_stage stage Exited = (if stage = Stage_exiting then Stage_finishing else stage)"
| "reduce_alert_player_stage stage Finished_action = (if stage = Stage_finishing then Stage_idle else stage)"
| "reduce_alert_player_stage stage Reset = Stage_idle"

datatype visible_stage = Visible_entering | Visible_shown | Visible_exiting | Visible_hidden

definition visible_stage_of :: "alert_stage \<Rightarrow> visible_stage" where
  "visible_stage_of stage =
     (if stage = Stage_entering then Visible_entering
      else if stage = Stage_exiting then Visible_exiting
      else if stage = Stage_shown then Visible_shown
      else Visible_hidden)"

section \<open>Media\<close>

record media_fetch =
  mf_method :: http_method
  mf_path :: string
  mf_body :: "json option"

definition media_fetch_of :: "string \<Rightarrow> string option \<Rightarrow> media_fetch" where
  "media_fetch_of asset_id token =
     \<lparr>mf_method = (if token = None then GET else POST), mf_path = ''/api/alerts/media/'' @ asset_id,
      mf_body = map_option (\<lambda>t. J_obj [(''token'', J_str t)]) token\<rparr>"

text \<open>
  What becomes of the fetch: it fails or is aborted (by the run or after eight seconds), or it is
  answered with a status and the object URL of its body, unless reading that body fails.
\<close>

datatype media_fetch_outcome = Media_failed | Media_answered nat "string option"

definition preload_timeout_ms :: int where "preload_timeout_ms = 8000"

definition preload_alert_asset :: "media_fetch_outcome \<Rightarrow> string option" where
  "preload_alert_asset outcome =
     (case outcome of Media_failed \<Rightarrow> None | Media_answered status url \<Rightarrow> if response_ok status then url else None)"

definition load_optional_asset :: "string option \<Rightarrow> media_fetch_outcome \<Rightarrow> string option" where
  "load_optional_asset asset_id outcome =
     (case asset_id of None \<Rightarrow> None | Some i \<Rightarrow> if i = [] then None else preload_alert_asset outcome)"

record loaded_assets =
  as_image_url :: "string option"
  as_sound_url :: "string option"
  as_tts_url :: "string option"

definition load_assets :: "alert_playback \<Rightarrow> media_fetch_outcome \<Rightarrow> media_fetch_outcome \<Rightarrow> media_fetch_outcome \<Rightarrow> loaded_assets" where
  "load_assets p img sound tts =
     \<lparr>as_image_url = load_optional_asset (pb_image_asset_id p) img,
      as_sound_url = load_optional_asset (pb_sound_asset_id p) sound,
      as_tts_url = load_optional_asset (pb_tts_asset_id p) tts\<rparr>"

definition object_urls :: "loaded_assets \<Rightarrow> string list" where
  "object_urls a = List.map_filter id [as_image_url a, as_sound_url a, as_tts_url a]"

definition has_asset :: "string option \<Rightarrow> bool" where
  "has_asset asset_id \<longleftrightarrow> asset_id \<noteq> None \<and> asset_id \<noteq> Some []"

definition report_missing_assets :: "alert_playback \<Rightarrow> loaded_assets \<Rightarrow> renderer_code list" where
  "report_missing_assets p a =
     (if has_asset (pb_image_asset_id p) \<and> as_image_url a = None then [Image_unavailable] else []) @
     (if has_asset (pb_sound_asset_id p) \<and> as_sound_url a = None then [Sound_unavailable] else []) @
     (if has_asset (pb_tts_asset_id p) \<and> as_tts_url a = None then [Tts_unavailable] else [])"

section \<open>Audio\<close>

datatype audio_result = Audio_completed | Audio_unavailable | Audio_is_blocked | Audio_aborted

datatype audio_kind = Sound_channel | Tts_channel

definition resolve_audio_diagnostic_code :: "audio_kind \<Rightarrow> audio_result \<Rightarrow> renderer_code option" where
  "resolve_audio_diagnostic_code kind r =
     (if r = Audio_is_blocked then Some Audio_blocked
      else if r = Audio_unavailable
      then Some (if kind = Sound_channel then Sound_unavailable else Tts_unavailable)
      else None)"

text \<open>\<open>audio.volume\<close> in hundredths.\<close>

definition audio_volume_percent :: "int \<Rightarrow> int" where
  "audio_volume_percent volume = max 0 (min 100 volume)"

text \<open>What happens to an audio element; \<open>Play_refused\<close> says whether the error is \<open>NotAllowedError\<close>.\<close>

datatype audio_event = Ended_event | Error_event | Timeout_event | Abort_event | Play_refused bool

definition audio_failure :: "bool \<Rightarrow> audio_result" where
  "audio_failure not_allowed = (if not_allowed then Audio_is_blocked else Audio_unavailable)"

definition audio_timeout_ms :: int where "audio_timeout_ms = 35000"

text \<open>The first event decides; \<open>None\<close> while there is none.\<close>

definition play_audio :: "bool \<Rightarrow> bool \<Rightarrow> audio_event list \<Rightarrow> audio_result option" where
  "play_audio constructed aborted events =
     (if \<not> constructed then Some Audio_unavailable
      else if aborted then Some Audio_aborted
      else case events of
        [] \<Rightarrow> None
      | e # _ \<Rightarrow> Some (case e of Ended_event \<Rightarrow> Audio_completed | Error_event \<Rightarrow> Audio_unavailable
                       | Timeout_event \<Rightarrow> Audio_unavailable | Abort_event \<Rightarrow> Audio_aborted
                       | Play_refused not_allowed \<Rightarrow> audio_failure not_allowed))"

section \<open>A run\<close>

datatype phase = Loading | Resolving_image | Awaiting_started | Entering_delay | Playing_sound | Playing_tts
  | Showing_delay | Leaving_delay | Awaiting_diagnostics | Awaiting_finished | Settling | Over

datatype player_call = Call_started | Call_finished playback_outcome | Call_diagnostic renderer_code | Revoke_url string

record run =
  ru_phase :: phase
  ru_stage :: alert_stage
  ru_assets :: loaded_assets
  ru_image :: "string option"
  ru_started :: bool
  ru_completed :: bool
  ru_aborted :: bool
  ru_now :: int
  ru_since :: int
  ru_shown_at :: int
  ru_calls :: "player_call list"

datatype player_event =
    Abort
  | Assets_loaded media_fetch_outcome media_fetch_outcome media_fetch_outcome
  | Image_settled bool
  | Ack_ok
  | Ack_rejected
  | Delay_elapsed
  | Delay_rejected
  | Audio_settled audio_result
  | Diagnostics_settled

definition enter_ms :: int where "enter_ms = 360"

definition leave_ms :: int where "leave_ms = 300"

definition dispatch_stage :: "stage_action \<Rightarrow> run \<Rightarrow> run" where
  "dispatch_stage a r = r\<lparr>ru_stage := reduce_alert_player_stage (ru_stage r) a\<rparr>"

definition call :: "player_call \<Rightarrow> run \<Rightarrow> run" where
  "call c r = r\<lparr>ru_calls := ru_calls r @ [c]\<rparr>"

definition enter_phase :: "phase \<Rightarrow> run \<Rightarrow> run" where
  "enter_phase ph r = r\<lparr>ru_phase := ph, ru_since := ru_now r\<rparr>"

definition report :: "renderer_code \<Rightarrow> run \<Rightarrow> run" where
  "report c r = (if ru_aborted r then r else call (Call_diagnostic c) r)"

definition revoke_urls :: "run \<Rightarrow> run" where
  "revoke_urls r = foldl (\<lambda>r' url. call (Revoke_url url) r') r (object_urls (ru_assets r))"

text \<open>The \<open>finally\<close> of \<open>startPlayback\<close>.\<close>

definition finalize :: "run \<Rightarrow> run" where
  "finalize r =
     (if ru_aborted r \<and> ru_started r \<and> \<not> ru_completed r
      then enter_phase Settling (call (Call_finished Interrupted_outcome) r)
      else enter_phase Over (revoke_urls r))"

text \<open>After \<open>resolveImageUrl\<close>.\<close>

definition image_resolved :: "string option \<Rightarrow> run \<Rightarrow> run" where
  "image_resolved img r =
     (if ru_aborted r then finalize r
      else enter_phase Awaiting_started (call Call_started (dispatch_stage Preloaded (r\<lparr>ru_image := img\<rparr>))))"

text \<open>The rest of \<open>presentPlayback\<close> after each audio channel.\<close>

definition after_audio :: "run \<Rightarrow> run" where
  "after_audio r = enter_phase (if ru_aborted r then Awaiting_diagnostics else Showing_delay) r"

definition after_sound :: "run \<Rightarrow> run" where
  "after_sound r =
     (if as_tts_url (ru_assets r) \<noteq> None \<and> \<not> ru_aborted r then enter_phase Playing_tts r else after_audio r)"

definition after_entering :: "run \<Rightarrow> run" where
  "after_entering r = (if as_sound_url (ru_assets r) \<noteq> None then enter_phase Playing_sound r else after_sound r)"

definition report_audio :: "audio_kind \<Rightarrow> audio_result \<Rightarrow> run \<Rightarrow> run" where
  "report_audio kind result r =
     (case resolve_audio_diagnostic_code kind result of None \<Rightarrow> r | Some c \<Rightarrow> report c r)"

definition showing_ms :: "alert_playback \<Rightarrow> run \<Rightarrow> int" where
  "showing_ms p r = max 0 (pb_display_duration_ms p - (ru_since r - ru_shown_at r))"

text \<open>
  One event after \<open>dt\<close> milliseconds; \<open>None\<close> when the run does not await it.  A timer does not fire
  early, and a delay is rejected only by the interruption.
\<close>

definition advance_run :: "alert_playback \<Rightarrow> run \<Rightarrow> int \<times> player_event \<Rightarrow> run option" where
  "advance_run p before e =
     (let r = before\<lparr>ru_now := ru_now before + fst e\<rparr>;
          waited = (\<lambda>ms. ru_now r - ru_since r \<ge> ms \<and> \<not> ru_aborted r)
      in if fst e < 0 then None
      else case (ru_phase r, snd e) of
        (Over, _) \<Rightarrow> None
      | (_, Abort) \<Rightarrow> Some (r\<lparr>ru_aborted := True\<rparr>)
      | (Loading, Assets_loaded img sound tts) \<Rightarrow>
          (let a = load_assets p img sound tts;
               r1 = foldl (\<lambda>r' c. report c r') (r\<lparr>ru_assets := a\<rparr>) (report_missing_assets p a)
           in Some (if as_image_url a = None then image_resolved None r1 else enter_phase Resolving_image r1))
      | (Resolving_image, Image_settled decoded) \<Rightarrow>
          Some (if decoded \<or> ru_aborted r then image_resolved (as_image_url (ru_assets r)) r
                else image_resolved None (report Image_unavailable r))
      | (Awaiting_started, Ack_ok) \<Rightarrow>
          (let r1 = r\<lparr>ru_started := True\<rparr>
           in Some (if ru_aborted r then finalize r1
                    else enter_phase Entering_delay (dispatch_stage Started_action (r1\<lparr>ru_shown_at := ru_now r\<rparr>))))
      | (Awaiting_started, Ack_rejected) \<Rightarrow> Some (finalize r)
      | (Entering_delay, Delay_elapsed) \<Rightarrow>
          if waited enter_ms then Some (after_entering (dispatch_stage Entered r)) else None
      | (Playing_sound, Audio_settled result) \<Rightarrow> Some (after_sound (report_audio Sound_channel result r))
      | (Playing_tts, Audio_settled result) \<Rightarrow> Some (after_audio (report_audio Tts_channel result r))
      | (Showing_delay, Delay_elapsed) \<Rightarrow>
          if waited (showing_ms p r) then Some (enter_phase Leaving_delay (dispatch_stage Leave r)) else None
      | (Leaving_delay, Delay_elapsed) \<Rightarrow>
          if waited leave_ms then Some (enter_phase Awaiting_diagnostics (dispatch_stage Exited r)) else None
      | (ph, Delay_rejected) \<Rightarrow>
          if ru_aborted r \<and> ph \<in> {Entering_delay, Showing_delay, Leaving_delay} then Some (finalize r) else None
      | (Awaiting_diagnostics, Diagnostics_settled) \<Rightarrow>
          Some (if ru_aborted r then finalize r
                else enter_phase Awaiting_finished (call (Call_finished Completed_outcome) (r\<lparr>ru_completed := True\<rparr>)))
      | (Awaiting_finished, Ack_ok) \<Rightarrow> Some (finalize (dispatch_stage Finished_action r))
      | (Awaiting_finished, Ack_rejected) \<Rightarrow> Some (finalize r)
      | (Settling, Ack_ok) \<Rightarrow> Some (enter_phase Over (revoke_urls r))
      | (Settling, Ack_rejected) \<Rightarrow> Some (enter_phase Over r)
      | _ \<Rightarrow> None)"

text \<open>\<open>startPlayback\<close>: without a playback, or when inactive, the stage is reset and nothing runs.\<close>

definition new_run :: "alert_stage \<Rightarrow> run" where
  "new_run stage =
     \<lparr>ru_phase = Loading, ru_stage = reduce_alert_player_stage stage Begin,
      ru_assets = \<lparr>as_image_url = None, as_sound_url = None, as_tts_url = None\<rparr>, ru_image = None,
      ru_started = False, ru_completed = False, ru_aborted = False, ru_now = 0, ru_since = 0, ru_shown_at = 0,
      ru_calls = []\<rparr>"

definition start_playback :: "bool \<Rightarrow> alert_playback option \<Rightarrow> alert_stage \<Rightarrow> alert_stage \<times> run option" where
  "start_playback active playback stage =
     (if playback = None \<or> \<not> active then (reduce_alert_player_stage stage Reset, None)
      else (Stage_preloading, Some (new_run stage)))"

fun run_events :: "alert_playback \<Rightarrow> run \<Rightarrow> (int \<times> player_event) list \<Rightarrow> run option" where
  "run_events p r [] = Some r"
| "run_events p r (e # es) = Option.bind (advance_run p r e) (\<lambda>r'. run_events p r' es)"

end
