(* ===== verification/AlertPlayerProperties.thy ===== *)
theory AlertPlayerProperties
  imports AlertPlayer
begin

text \<open>
  What a run of an alert promises: it ends after a bounded number of events, it is reported as started
  at most once and as finished exactly once when it was started, it is shown for its whole duration
  unless it is interrupted, and it gives its object URLs back.
\<close>

section \<open>Calls other than diagnostics\<close>

fun is_diagnostic :: "player_call \<Rightarrow> bool" where
  "is_diagnostic (Call_diagnostic c) = True"
| "is_diagnostic _ = False"

definition core_calls :: "run \<Rightarrow> player_call list" where
  "core_calls r = filter (\<lambda>c. \<not> is_diagnostic c) (ru_calls r)"

named_theorems run_simps \<open>the fields of a run after its operations\<close>

lemma call_fields [run_simps]:
  "core_calls (call c r) = core_calls r @ (if is_diagnostic c then [] else [c])"
  "ru_phase (call c r) = ru_phase r" "ru_started (call c r) = ru_started r" "ru_completed (call c r) = ru_completed r"
  "ru_aborted (call c r) = ru_aborted r" "ru_now (call c r) = ru_now r" "ru_since (call c r) = ru_since r"
  "ru_shown_at (call c r) = ru_shown_at r" "ru_assets (call c r) = ru_assets r" "ru_stage (call c r) = ru_stage r"
  by (simp_all add: call_def core_calls_def)

lemma enter_fields [run_simps]:
  "core_calls (enter_phase ph r) = core_calls r" "ru_phase (enter_phase ph r) = ph"
  "ru_started (enter_phase ph r) = ru_started r" "ru_completed (enter_phase ph r) = ru_completed r"
  "ru_aborted (enter_phase ph r) = ru_aborted r" "ru_now (enter_phase ph r) = ru_now r"
  "ru_since (enter_phase ph r) = ru_now r" "ru_shown_at (enter_phase ph r) = ru_shown_at r"
  "ru_assets (enter_phase ph r) = ru_assets r"
  by (simp_all add: enter_phase_def core_calls_def)

lemma dispatch_fields [run_simps]:
  "core_calls (dispatch_stage a r) = core_calls r" "ru_phase (dispatch_stage a r) = ru_phase r"
  "ru_started (dispatch_stage a r) = ru_started r" "ru_completed (dispatch_stage a r) = ru_completed r"
  "ru_aborted (dispatch_stage a r) = ru_aborted r" "ru_now (dispatch_stage a r) = ru_now r"
  "ru_since (dispatch_stage a r) = ru_since r" "ru_shown_at (dispatch_stage a r) = ru_shown_at r"
  "ru_assets (dispatch_stage a r) = ru_assets r"
  by (simp_all add: dispatch_stage_def core_calls_def)

lemma report_fields [run_simps]:
  "core_calls (report c r) = core_calls r" "ru_phase (report c r) = ru_phase r"
  "ru_started (report c r) = ru_started r" "ru_completed (report c r) = ru_completed r"
  "ru_aborted (report c r) = ru_aborted r" "ru_now (report c r) = ru_now r" "ru_since (report c r) = ru_since r"
  "ru_shown_at (report c r) = ru_shown_at r" "ru_assets (report c r) = ru_assets r"
  by (simp_all add: report_def run_simps)

lemma reports_fields [run_simps]:
  "core_calls (foldl (\<lambda>r' c. report c r') r cs) = core_calls r"
  "ru_started (foldl (\<lambda>r' c. report c r') r cs) = ru_started r"
  "ru_completed (foldl (\<lambda>r' c. report c r') r cs) = ru_completed r"
  "ru_aborted (foldl (\<lambda>r' c. report c r') r cs) = ru_aborted r"
  "ru_now (foldl (\<lambda>r' c. report c r') r cs) = ru_now r"
  "ru_since (foldl (\<lambda>r' c. report c r') r cs) = ru_since r"
  "ru_assets (foldl (\<lambda>r' c. report c r') r cs) = ru_assets r"
  by (induction cs arbitrary: r) (simp_all add: run_simps)

lemma report_audio_fields [run_simps]:
  "core_calls (report_audio k a r) = core_calls r" "ru_phase (report_audio k a r) = ru_phase r"
  "ru_started (report_audio k a r) = ru_started r" "ru_completed (report_audio k a r) = ru_completed r"
  "ru_aborted (report_audio k a r) = ru_aborted r" "ru_now (report_audio k a r) = ru_now r"
  "ru_since (report_audio k a r) = ru_since r" "ru_shown_at (report_audio k a r) = ru_shown_at r"
  "ru_assets (report_audio k a r) = ru_assets r"
  by (simp_all add: report_audio_def run_simps split: option.split)

lemma revoke_fields [run_simps]:
  "core_calls (foldl (\<lambda>r' url. call (Revoke_url url) r') r urls) = core_calls r @ map Revoke_url urls"
  "ru_started (foldl (\<lambda>r' url. call (Revoke_url url) r') r urls) = ru_started r"
  "ru_completed (foldl (\<lambda>r' url. call (Revoke_url url) r') r urls) = ru_completed r"
  "ru_aborted (foldl (\<lambda>r' url. call (Revoke_url url) r') r urls) = ru_aborted r"
  "ru_now (foldl (\<lambda>r' url. call (Revoke_url url) r') r urls) = ru_now r"
  "ru_shown_at (foldl (\<lambda>r' url. call (Revoke_url url) r') r urls) = ru_shown_at r"
  "ru_assets (foldl (\<lambda>r' url. call (Revoke_url url) r') r urls) = ru_assets r"
  by (induction urls arbitrary: r) (simp_all add: run_simps)

lemma update_core [run_simps]:
  "core_calls (r\<lparr>ru_now := t\<rparr>) = core_calls r" "core_calls (r\<lparr>ru_aborted := b\<rparr>) = core_calls r"
  "core_calls (r\<lparr>ru_started := b\<rparr>) = core_calls r" "core_calls (r\<lparr>ru_completed := b\<rparr>) = core_calls r"
  "core_calls (r\<lparr>ru_assets := a\<rparr>) = core_calls r" "core_calls (r\<lparr>ru_image := i\<rparr>) = core_calls r"
  "core_calls (r\<lparr>ru_shown_at := t\<rparr>) = core_calls r"
  by (simp_all add: core_calls_def)

section \<open>The invariant\<close>

definition shown_long :: "alert_playback \<Rightarrow> run \<Rightarrow> bool" where
  "shown_long p r \<longleftrightarrow> pb_display_duration_ms p \<le> ru_now r - ru_shown_at r"

text \<open>The calls of a run that is over: whether it was reported, then the object URLs.\<close>

definition over_calls :: "run \<Rightarrow> player_call list" where
  "over_calls r =
     (if ru_started r
      then [Call_started, Call_finished (if ru_completed r then Completed_outcome else Interrupted_outcome)]
      else filter (\<lambda>c. c = Call_started) (core_calls r))"

definition run_ok :: "alert_playback \<Rightarrow> run \<Rightarrow> bool" where
  "run_ok p r \<longleftrightarrow> ru_since r \<le> ru_now r \<and>
     (case ru_phase r of
        Loading \<Rightarrow> core_calls r = [] \<and> \<not> ru_started r \<and> \<not> ru_completed r
      | Resolving_image \<Rightarrow> core_calls r = [] \<and> \<not> ru_started r \<and> \<not> ru_completed r
      | Awaiting_started \<Rightarrow> core_calls r = [Call_started] \<and> \<not> ru_started r \<and> \<not> ru_completed r
      | Awaiting_diagnostics \<Rightarrow> core_calls r = [Call_started] \<and> ru_started r \<and> \<not> ru_completed r \<and>
          (ru_aborted r \<or> shown_long p r)
      | Leaving_delay \<Rightarrow> core_calls r = [Call_started] \<and> ru_started r \<and> \<not> ru_completed r \<and> shown_long p r
      | Awaiting_finished \<Rightarrow> core_calls r = [Call_started, Call_finished Completed_outcome] \<and>
          ru_started r \<and> ru_completed r \<and> shown_long p r
      | Settling \<Rightarrow> core_calls r = [Call_started, Call_finished Interrupted_outcome] \<and>
          ru_started r \<and> \<not> ru_completed r \<and> ru_aborted r
      | Over \<Rightarrow> (core_calls r = over_calls r \<or> core_calls r = over_calls r @ map Revoke_url (object_urls (ru_assets r))) \<and>
          length (filter (\<lambda>c. c = Call_started) (core_calls r)) \<le> 1 \<and>
          (ru_completed r \<longrightarrow> ru_started r \<and> shown_long p r)
      | _ \<Rightarrow> core_calls r = [Call_started] \<and> ru_started r \<and> \<not> ru_completed r)"

lemma finalize_ok:
  "core_calls r = [] \<Longrightarrow> \<not> ru_started r \<Longrightarrow> \<not> ru_completed r \<Longrightarrow> run_ok p (finalize r)"
  "core_calls r = [Call_started] \<Longrightarrow> \<not> ru_started r \<Longrightarrow> \<not> ru_completed r \<Longrightarrow> run_ok p (finalize r)"
  "core_calls r = [Call_started] \<Longrightarrow> ru_started r \<Longrightarrow> \<not> ru_completed r \<Longrightarrow> ru_aborted r \<Longrightarrow> run_ok p (finalize r)"
  "core_calls r = [Call_started, Call_finished Completed_outcome] \<Longrightarrow> ru_started r \<Longrightarrow> ru_completed r \<Longrightarrow>
     shown_long p r \<Longrightarrow> run_ok p (finalize r)"
  by (simp_all add: run_ok_def finalize_def run_simps revoke_urls_def over_calls_def shown_long_def)

lemma abort_ok:
  "run_ok p r \<Longrightarrow> 0 \<le> dt \<Longrightarrow> ru_phase r \<noteq> Over \<Longrightarrow>
     run_ok p (r\<lparr>ru_now := ru_now r + dt, ru_aborted := True\<rparr>)"
  by (cases "ru_phase r") (simp_all add: run_ok_def run_simps shown_long_def)

lemma enter_ok:
  "run_ok p (enter_phase Resolving_image r) \<longleftrightarrow> core_calls r = [] \<and> \<not> ru_started r \<and> \<not> ru_completed r"
  "run_ok p (enter_phase Awaiting_started r) \<longleftrightarrow> core_calls r = [Call_started] \<and> \<not> ru_started r \<and> \<not> ru_completed r"
  "run_ok p (enter_phase Entering_delay r) \<longleftrightarrow> core_calls r = [Call_started] \<and> ru_started r \<and> \<not> ru_completed r"
  "run_ok p (enter_phase Leaving_delay r) \<longleftrightarrow>
     core_calls r = [Call_started] \<and> ru_started r \<and> \<not> ru_completed r \<and> shown_long p r"
  "run_ok p (enter_phase Awaiting_diagnostics r) \<longleftrightarrow>
     core_calls r = [Call_started] \<and> ru_started r \<and> \<not> ru_completed r \<and> (ru_aborted r \<or> shown_long p r)"
  "run_ok p (enter_phase Awaiting_finished r) \<longleftrightarrow>
     core_calls r = [Call_started, Call_finished Completed_outcome] \<and> ru_started r \<and> ru_completed r \<and> shown_long p r"
  by (simp_all add: run_ok_def run_simps shown_long_def)

lemma settled_ok:
  assumes "core_calls r = [Call_started, Call_finished Interrupted_outcome]" and "ru_started r" and "\<not> ru_completed r"
  shows "run_ok p (enter_phase Over (revoke_urls r))" and "run_ok p (enter_phase Over r)"
  using assms by (simp_all add: run_ok_def run_simps revoke_urls_def over_calls_def)

lemma image_resolved_ok:
  "core_calls r = [] \<Longrightarrow> \<not> ru_started r \<Longrightarrow> \<not> ru_completed r \<Longrightarrow> run_ok p (image_resolved img r)"
  by (simp add: image_resolved_def finalize_ok enter_ok run_simps)

lemma after_ok:
  assumes "core_calls r = [Call_started]" and "ru_started r" and "\<not> ru_completed r"
  shows "run_ok p (after_audio r)" and "run_ok p (after_sound r)" and "run_ok p (after_entering r)"
  using assms by (simp_all add: after_entering_def after_sound_def after_audio_def run_ok_def run_simps)

lemma shown_fields [run_simps]:
  "shown_long p (r\<lparr>ru_completed := b\<rparr>) = shown_long p r" "shown_long p (call c r) = shown_long p r"
  "shown_long p (dispatch_stage a r) = shown_long p r"
  by (simp_all add: shown_long_def run_simps)

lemma shown_later: "shown_long p r \<Longrightarrow> 0 \<le> dt \<Longrightarrow> shown_long p (r\<lparr>ru_now := ru_now r + dt\<rparr>)"
  by (simp add: shown_long_def)

lemma shown_after_delay:
  "ru_now r + dt - ru_since r \<ge> showing_ms p (r\<lparr>ru_now := ru_now r + dt\<rparr>) \<Longrightarrow> shown_long p (r\<lparr>ru_now := ru_now r + dt\<rparr>)"
  by (simp add: shown_long_def showing_ms_def)

lemma advance_run_ok:
  assumes "run_ok p r" and "advance_run p r e = Some r'"
  shows "run_ok p r'"
proof -
  have dt: "0 \<le> fst e" and running: "ru_phase r \<noteq> Over"
    using assms(2) by (auto simp: advance_run_def Let_def split: if_split_asm)
  note steps = advance_run_def Let_def run_simps enter_ok finalize_ok image_resolved_ok after_ok settled_ok
    shown_later shown_after_delay abort_ok
  show ?thesis
  proof (cases "snd e = Abort")
    case True
    then have "r' = r\<lparr>ru_now := ru_now r + fst e, ru_aborted := True\<rparr>"
      using assms(2) dt running by (cases "ru_phase r") (simp_all add: advance_run_def Let_def)
    then show ?thesis using abort_ok [OF assms(1) dt running] by simp
  next
    case False
    show ?thesis
    proof (cases "ru_phase r")
      case Loading
      then have "core_calls r = []" "\<not> ru_started r" "\<not> ru_completed r" using assms(1) by (simp_all add: run_ok_def)
      then show ?thesis using assms(2) False dt Loading by (cases "snd e") (auto simp: steps)
    next
      case Resolving_image
      then have "core_calls r = []" "\<not> ru_started r" "\<not> ru_completed r" using assms(1) by (simp_all add: run_ok_def)
      then show ?thesis using assms(2) False dt Resolving_image by (cases "snd e") (auto simp: steps)
    next
      case Awaiting_started
      then have "core_calls r = [Call_started]" "\<not> ru_started r" "\<not> ru_completed r"
        using assms(1) by (simp_all add: run_ok_def)
      then show ?thesis using assms(2) False dt Awaiting_started by (cases "snd e") (auto simp: steps)
    next
      case Leaving_delay
      then have "core_calls r = [Call_started]" "ru_started r" "\<not> ru_completed r" "shown_long p r"
        using assms(1) by (simp_all add: run_ok_def)
      then show ?thesis using assms(2) False dt Leaving_delay by (cases "snd e") (auto simp: steps split: if_split_asm)
    next
      case Awaiting_diagnostics
      then have "core_calls r = [Call_started]" "ru_started r" "\<not> ru_completed r" "ru_aborted r \<or> shown_long p r"
        using assms(1) by (simp_all add: run_ok_def)
      then show ?thesis using assms(2) False dt Awaiting_diagnostics by (cases "snd e") (auto simp: steps)
    next
      case Awaiting_finished
      then have "core_calls r = [Call_started, Call_finished Completed_outcome]" "ru_started r" "ru_completed r"
          "shown_long p r" using assms(1) by (simp_all add: run_ok_def)
      then show ?thesis using assms(2) False dt Awaiting_finished by (cases "snd e") (auto simp: steps)
    next
      case Settling
      then have "core_calls r = [Call_started, Call_finished Interrupted_outcome]" "ru_started r" "\<not> ru_completed r"
        using assms(1) by (simp_all add: run_ok_def)
      then show ?thesis using assms(2) False dt Settling by (cases "snd e") (auto simp: steps)
    qed (use assms False dt running in
        \<open>cases "snd e"; auto simp: steps run_ok_def [of p r] split: if_split_asm\<close>)+
  qed
qed

section \<open>Runs end\<close>

definition rank :: "phase \<Rightarrow> nat" where
  "rank ph =
     (case ph of Loading \<Rightarrow> 11 | Resolving_image \<Rightarrow> 10 | Awaiting_started \<Rightarrow> 9 | Entering_delay \<Rightarrow> 8
      | Playing_sound \<Rightarrow> 7 | Playing_tts \<Rightarrow> 6 | Showing_delay \<Rightarrow> 5 | Leaving_delay \<Rightarrow> 4
      | Awaiting_diagnostics \<Rightarrow> 3 | Awaiting_finished \<Rightarrow> 2 | Settling \<Rightarrow> 1 | Over \<Rightarrow> 0)"

lemma rank_after [simp]:
  "rank (ru_phase (finalize r)) \<le> 1" "rank (ru_phase (image_resolved img r)) \<le> 9"
  "rank (ru_phase (after_audio r)) \<le> 5" "rank (ru_phase (after_sound r)) \<le> 6" "rank (ru_phase (after_entering r)) \<le> 7"
  by (simp_all add: rank_def finalize_def image_resolved_def after_audio_def after_sound_def after_entering_def run_simps)

lemma rank_below:
  "2 \<le> n \<Longrightarrow> rank (ru_phase (finalize r)) < n" "10 \<le> n \<Longrightarrow> rank (ru_phase (image_resolved img r)) < n"
  "6 \<le> n \<Longrightarrow> rank (ru_phase (after_audio r)) < n" "7 \<le> n \<Longrightarrow> rank (ru_phase (after_sound r)) < n"
  "8 \<le> n \<Longrightarrow> rank (ru_phase (after_entering r)) < n"
  by (rule le_less_trans, rule rank_after, simp)+

lemma rank_enter: "rank (ru_phase (enter_phase ph r)) = rank ph"
  by (simp add: run_simps)

lemma advance_rank:
  assumes "advance_run p r e = Some r'"
  shows "if snd e = Abort then rank (ru_phase r') = rank (ru_phase r) else rank (ru_phase r') < rank (ru_phase r)"
proof (cases "snd e = Abort")
  case True
  then show ?thesis
    using assms by (cases "ru_phase r") (auto simp: advance_run_def Let_def split: if_split_asm)
next
  case False
  have ranks: "rank Loading = 11" "rank Resolving_image = 10" "rank Awaiting_started = 9" "rank Entering_delay = 8"
    "rank Playing_sound = 7" "rank Playing_tts = 6" "rank Showing_delay = 5" "rank Leaving_delay = 4"
    "rank Awaiting_diagnostics = 3" "rank Awaiting_finished = 2" "rank Settling = 1" "rank Over = 0"
    by (simp_all add: rank_def)
  show ?thesis
    using assms False
    by (cases "ru_phase r"; cases "snd e")
      (auto simp: advance_run_def Let_def ranks rank_enter rank_below split: if_split_asm)
qed

lemma run_events_rank:
  "run_events p r es = Some r' \<Longrightarrow>
     length (filter (\<lambda>e. snd e \<noteq> Abort) es) + rank (ru_phase r') \<le> rank (ru_phase r)"
proof (induction es arbitrary: r)
  case (Cons e es)
  then obtain s where "advance_run p r e = Some s" and rest: "run_events p s es = Some r'"
    by (auto simp: bind_eq_Some_conv)
  with advance_rank [OF this(1)] Cons.IH [OF rest] show ?case by (auto split: if_split_asm)
qed simp

lemma run_events_ok: "run_events p r es = Some r' \<Longrightarrow> run_ok p r \<Longrightarrow> run_ok p r'"
  by (induction es arbitrary: r) (auto simp: bind_eq_Some_conv dest: advance_run_ok)

lemma awaited_event:
  assumes "ru_phase r \<noteq> Over"
  shows "\<exists>e. snd e \<noteq> Abort \<and> advance_run p r e \<noteq> None"
proof -
  define wait where "wait = max 0 (max (showing_ms p r) enter_ms + ru_since r - ru_now r)"
  have wait: "0 \<le> wait" "ru_now r + wait - ru_since r \<ge> showing_ms p r" "ru_now r + wait - ru_since r \<ge> enter_ms"
    "ru_now r + wait - ru_since r \<ge> leave_ms" "showing_ms p (r\<lparr>ru_now := t\<rparr>) = showing_ms p r" for t
    by (auto simp: wait_def enter_ms_def leave_ms_def showing_ms_def)
  define awaited where "awaited =
    (case ru_phase r of
       Loading \<Rightarrow> (0, Assets_loaded Media_failed Media_failed Media_failed)
     | Resolving_image \<Rightarrow> (0, Image_settled True)
     | Playing_sound \<Rightarrow> (0, Audio_settled Audio_completed)
     | Playing_tts \<Rightarrow> (0, Audio_settled Audio_completed)
     | Awaiting_diagnostics \<Rightarrow> (0, Diagnostics_settled)
     | Entering_delay \<Rightarrow> (wait, if ru_aborted r then Delay_rejected else Delay_elapsed)
     | Showing_delay \<Rightarrow> (wait, if ru_aborted r then Delay_rejected else Delay_elapsed)
     | Leaving_delay \<Rightarrow> (wait, if ru_aborted r then Delay_rejected else Delay_elapsed)
     | _ \<Rightarrow> (0, Ack_ok))"
  have "snd awaited \<noteq> Abort \<and> advance_run p r awaited \<noteq> None"
    using assms wait by (cases "ru_phase r") (simp_all add: awaited_def advance_run_def Let_def)
  then show ?thesis by blast
qed


section \<open>What a run reports\<close>

definition finished_calls :: "run \<Rightarrow> player_call list" where
  "finished_calls r = filter (\<lambda>c. c = Call_finished Completed_outcome \<or> c = Call_finished Interrupted_outcome) (ru_calls r)"

lemma core_filter:
  "(\<And>c. P c \<Longrightarrow> \<not> is_diagnostic c) \<Longrightarrow> filter P (ru_calls r) = filter P (core_calls r)"
  by (simp add: core_calls_def filter_filter) (rule filter_cong; auto)

lemma no_finished_urls [simp]:
  "filter (\<lambda>c. c = Call_finished Completed_outcome \<or> c = Call_finished Interrupted_outcome) (map Revoke_url urls) = []"
  "filter (\<lambda>c. c = Call_started) (map Revoke_url urls) = []"
  by (simp_all add: filter_empty_conv)

text \<open>
  C38: A run that is over has been reported as started at most once; if the start was acknowledged it
  has been reported as finished exactly once, as completed when it ran to its end and was shown for at
  least its whole duration, as interrupted otherwise; if it was not acknowledged nothing was reported
  as finished.
\<close>

theorem alert_reported_once:
  assumes "run_events p (new_run stage) es = Some r" and "ru_phase r = Over"
  shows "count_list (ru_calls r) Call_started \<le> 1 \<and>
    finished_calls r = (if ru_started r
      then [Call_finished (if ru_completed r then Completed_outcome else Interrupted_outcome)] else []) \<and>
    (if ru_completed r then pb_display_duration_ms p \<le> ru_now r - ru_shown_at r else True)"
proof -
  have "run_ok p (new_run stage)" by (simp add: run_ok_def new_run_def core_calls_def)
  then have ok: "run_ok p r" by (rule run_events_ok [OF assms(1)])
  then have core: "core_calls r = over_calls r \<or> core_calls r = over_calls r @ map Revoke_url (object_urls (ru_assets r))"
    and once: "length (filter (\<lambda>c. c = Call_started) (core_calls r)) \<le> 1"
    and shown: "ru_completed r \<Longrightarrow> shown_long p r"
    using assms(2) by (simp_all add: run_ok_def)
  have "count_list (ru_calls r) Call_started = length (filter (\<lambda>c. c = Call_started) (ru_calls r))"
    unfolding count_list_eq_length_filter by (rule arg_cong [where f = length], rule filter_cong) auto
  also have "\<dots> = length (filter (\<lambda>c. c = Call_started) (core_calls r))"
    by (subst core_filter) auto
  finally have "count_list (ru_calls r) Call_started \<le> 1" using once by simp
  moreover have "finished_calls r = filter (\<lambda>c. c = Call_finished Completed_outcome \<or> c = Call_finished Interrupted_outcome)
      (over_calls r)"
    using core unfolding finished_calls_def by (subst core_filter) auto
  moreover have "\<dots> = (if ru_started r
      then [Call_finished (if ru_completed r then Completed_outcome else Interrupted_outcome)] else [])"
    by (simp add: over_calls_def filter_empty_conv)
  ultimately show ?thesis using shown by (simp add: shown_long_def)
qed

section \<open>Concrete input\<close>

definition sample_playback :: alert_playback where
  "sample_playback =
     \<lparr>pb_id = ''p'', pb_donation_id = None, pb_kind = Test, pb_source = None, pb_author = None, pb_message = None,
      pb_amount = ''1'', pb_currency = ''USD'', pb_image_asset_id = None, pb_sound_asset_id = Some ''s'',
      pb_tts_asset_id = None, pb_display_duration_ms = 5000, pb_sound_volume = 50, pb_tts_volume = 50,
      pb_accent_color = ''#ffffff'', pb_state = Preparing, pb_created_at = 0, pb_started_at = None,
      pb_finished_at = None, pb_detail = None\<rparr>"

definition sample_events :: "(int \<times> player_event) list" where
  "sample_events =
     [(10, Assets_loaded Media_failed (Media_answered 200 (Some ''blob'')) Media_failed), (5, Ack_ok),
      (360, Delay_elapsed), (900, Audio_settled Audio_completed), (3740, Delay_elapsed), (300, Delay_elapsed),
      (0, Diagnostics_settled), (20, Ack_ok)]"

lemma sample_run:
  "\<exists>r. run_events sample_playback (new_run Stage_idle) sample_events = Some r \<and> ru_phase r = Over \<and>
     ru_started r \<and> ru_completed r"
  by (simp add: sample_events_def sample_playback_def new_run_def advance_run_def Let_def load_assets_def
      load_optional_asset_def preload_alert_asset_def response_ok_def report_missing_assets_def has_asset_def
      image_resolved_def enter_phase_def call_def dispatch_stage_def after_entering_def after_sound_def
      after_audio_def report_audio_def resolve_audio_diagnostic_code_def showing_ms_def enter_ms_def leave_ms_def
      finalize_def revoke_urls_def object_urls_def map_filter_simps)


theorem alert_reported_once_witness:
  "\<exists>r. run_events sample_playback (new_run Stage_idle) sample_events = Some r \<and>
     finished_calls r = [Call_finished Completed_outcome]"
proof -
  obtain r where r: "run_events sample_playback (new_run Stage_idle) sample_events = Some r" "ru_phase r = Over"
      "ru_started r" "ru_completed r" using sample_run by blast
  with alert_reported_once [OF r(1, 2)] show ?thesis by auto
qed

end
