(* ===== verification/AlertOverlay.thy ===== *)
theory AlertOverlay
  imports AlertPlayer
begin

text \<open>
  The donation alert overlay of a browser source (\<open>hooks/use-alert-overlay.ts\<close>): acknowledgements with
  retries, the heartbeat, the state of the OBS source, and the hook's state, with the identity the
  server gave this player, the current playback, the playbacks the server interrupted and the
  diagnostics already sent.  The effects are transitions, each with the identity it was started for.
\<close>

definition acknowledgement_attempt_timeout_ms :: int where "acknowledgement_attempt_timeout_ms = 5000"

definition heartbeat_interval_ms :: int where "heartbeat_interval_ms = 5000"

definition heartbeat_failure_retry_ms :: int where "heartbeat_failure_retry_ms = 1000"

definition start_acknowledgement_timeout_ms :: int where "start_acknowledgement_timeout_ms = 15000"

definition diagnostic_acknowledgement_timeout_ms :: int where "diagnostic_acknowledgement_timeout_ms = 15000"

definition finish_acknowledgement_timeout_ms :: int where "finish_acknowledgement_timeout_ms = 110000"

section \<open>Acknowledgements\<close>

text \<open>
  One attempt as the loop meets it: whether the loop is still wanted before it, how long the attempt
  took, whether it was acknowledged, whether the loop is still wanted after a failure, and how late the
  timer of the following delay fires, or that the delay is aborted.
\<close>

record ack_attempt =
  at_wanted_before :: bool
  at_duration :: int
  at_acknowledged :: bool
  at_wanted_after :: bool
  at_delay_aborted :: bool
  at_lateness :: int

datatype ack_outcome = Acknowledged | Ack_cancelled | Ack_timed_out | Ack_pending

text \<open>The attempt's own time limit.\<close>

definition attempt_timeout :: "int option \<Rightarrow> int \<Rightarrow> int" where
  "attempt_timeout deadline now =
     (case deadline of None \<Rightarrow> acknowledgement_attempt_timeout_ms
      | Some d \<Rightarrow> min acknowledgement_attempt_timeout_ms (d - now))"

fun retry_loop :: "int option \<Rightarrow> int \<Rightarrow> int \<Rightarrow> ack_attempt list \<Rightarrow> ack_outcome" where
  "retry_loop deadline now retry_delay [] = Ack_pending"
| "retry_loop deadline now retry_delay (a # as) =
     (if \<not> at_wanted_before a then Ack_cancelled
      else if (case deadline of None \<Rightarrow> False | Some d \<Rightarrow> d - now \<le> 0) then Ack_timed_out
      else (let later = now + at_duration a in
            if at_acknowledged a then Acknowledged
            else if \<not> at_wanted_after a then Ack_cancelled
            else (let delay_remaining = (case deadline of None \<Rightarrow> retry_delay | Some d \<Rightarrow> d - later) in
                  if delay_remaining \<le> 0 then Ack_timed_out
                  else if at_delay_aborted a then Ack_cancelled
                  else retry_loop deadline (later + min retry_delay delay_remaining + at_lateness a)
                         (min (retry_delay * 2) 5000) as)))"

definition retry_alert_acknowledgement :: "int option \<Rightarrow> int \<Rightarrow> ack_attempt list \<Rightarrow> ack_outcome" where
  "retry_alert_acknowledgement timeout_ms now attempts =
     retry_loop (map_option (\<lambda>t. now + t) timeout_ms) now 250 attempts"

definition is_permanent_alert_heartbeat_error :: "string option \<Rightarrow> bool" where
  "is_permanent_alert_heartbeat_error trpc_code \<longleftrightarrow>
     (case trpc_code of None \<Rightarrow> False | Some c \<Rightarrow> c \<in> {''BAD_REQUEST'', ''NOT_FOUND'', ''CONFLICT''})"

text \<open>
  A round of the heartbeat: wanted before it, its result (the tRPC code of its failure, if it has one),
  wanted after a failure, and whether the delay to the next round is aborted.
\<close>

datatype heartbeat_result = Beat_ok | Beat_failed "string option"

record heartbeat_round =
  hb_wanted_before :: bool
  hb_result :: heartbeat_result
  hb_wanted_after :: bool
  hb_delay_aborted :: bool

datatype heartbeat_outcome = Beat_stopped | Beat_rejected string | Beat_running

definition next_beat_delay :: "heartbeat_result \<Rightarrow> int \<Rightarrow> int" where
  "next_beat_delay r interval_ms =
     (case r of Beat_ok \<Rightarrow> interval_ms | Beat_failed _ \<Rightarrow> min heartbeat_failure_retry_ms interval_ms)"

text \<open>The outcome, with the delays between the rounds.\<close>

fun maintain_alert_heartbeat :: "int \<Rightarrow> heartbeat_round list \<Rightarrow> heartbeat_outcome \<times> int list" where
  "maintain_alert_heartbeat interval_ms [] = (Beat_running, [])"
| "maintain_alert_heartbeat interval_ms (b # bs) =
     (if \<not> hb_wanted_before b then (Beat_stopped, [])
      else case hb_result b of
        Beat_failed c \<Rightarrow>
          if \<not> hb_wanted_after b then (Beat_stopped, [])
          else if is_permanent_alert_heartbeat_error c then (Beat_rejected (the c), [])
          else if hb_delay_aborted b then (Beat_stopped, [])
          else (case maintain_alert_heartbeat interval_ms bs of
                  (oc, ds) \<Rightarrow> (oc, next_beat_delay (hb_result b) interval_ms # ds))
      | Beat_ok \<Rightarrow>
          if hb_delay_aborted b then (Beat_stopped, [])
          else (case maintain_alert_heartbeat interval_ms bs of
                  (oc, ds) \<Rightarrow> (oc, next_beat_delay (hb_result b) interval_ms # ds)))"

section \<open>The event stream\<close>

datatype overlay_stream_error = Ov_fetch_error | Ov_http_error nat | Ov_missing_body | Ov_read_error
  | Ov_invalid_event | Ov_event_too_large

definition parse_overlay_stream_event ::
  "(string \<Rightarrow> json option) \<Rightarrow> (json \<Rightarrow> overlay_event option) \<Rightarrow> string \<Rightarrow> overlay_stream_error + overlay_event" where
  "parse_overlay_stream_event json_of read line =
     (if length line > max_stream_line_length then Inl Ov_event_too_large
      else map_error (\<lambda>_. Ov_invalid_event) (parse_json json_of line (read_parsed read parse_overlay_event)))"

fun overlay_line_events ::
  "(string \<Rightarrow> overlay_stream_error + overlay_event) \<Rightarrow> string list \<Rightarrow> overlay_event list \<times> overlay_stream_error option" where
  "overlay_line_events parse [] = ([], None)"
| "overlay_line_events parse (line # lines) =
     (case parse line of
        Inl e \<Rightarrow> ([], Some e)
      | Inr event \<Rightarrow> (case overlay_line_events parse lines of (events, e) \<Rightarrow> (event # events, e)))"

definition stream_alert_overlay ::
  "(string \<Rightarrow> json option) \<Rightarrow> (json \<Rightarrow> overlay_event option) \<Rightarrow> alert_stream_opening \<Rightarrow>
    overlay_event list \<times> overlay_stream_error stream_end" where
  "stream_alert_overlay json_of read opening =
     (case opening of
        Stream_opening_failed aborted \<Rightarrow> ([], if aborted then Ended else Failed Ov_fetch_error)
      | Stream_opened status body \<Rightarrow>
          if \<not> response_ok status then ([], Failed (Ov_http_error status))
          else (case body of
                  None \<Rightarrow> ([], Failed Ov_missing_body)
                | Some steps \<Rightarrow>
                    (case read_ndjson_lines max_stream_line_length steps [] of
                       (lines, fin) \<Rightarrow>
                         and_then (overlay_line_events (parse_overlay_stream_event json_of read) lines)
                           ([], case fin of Ended \<Rightarrow> Ended | Pending \<Rightarrow> Pending
                                | Failed e \<Rightarrow> Failed (case e of Read_error \<Rightarrow> Ov_read_error
                                                     | Line_too_long \<Rightarrow> Ov_event_too_large)))))"

section \<open>The OBS source\<close>

record source_signals =
  sg_active :: "bool option"
  sg_document_visible :: bool
  sg_obs_present :: bool
  sg_obs_visible :: "bool option"
  sg_settled :: bool

record obs_source_state =
  st_active :: "bool option"
  st_visible :: "bool option"
  st_ready :: bool

definition initial_alert_source_signals :: "bool \<Rightarrow> bool \<Rightarrow> source_signals" where
  "initial_alert_source_signals obs_present document_visible =
     \<lparr>sg_active = (if obs_present then None else Some True), sg_document_visible = document_visible,
      sg_obs_present = obs_present, sg_obs_visible = (if obs_present then None else Some True),
      sg_settled = (\<not> obs_present)\<rparr>"

definition resolve_alert_source_state :: "source_signals \<Rightarrow> obs_source_state" where
  "resolve_alert_source_state s =
     (if \<not> sg_obs_present s then \<lparr>st_active = Some True, st_visible = Some True, st_ready = True\<rparr>
      else (let visible =
              (case sg_obs_visible s of
                 None \<Rightarrow> if sg_settled s then Some (sg_document_visible s) else None
               | Some v \<Rightarrow> Some (sg_document_visible s \<and> v));
                active =
              (case sg_active s of
                 None \<Rightarrow> if sg_settled s then visible else None
               | Some a \<Rightarrow> Some a)
            in \<lparr>st_active = active, st_visible = visible, st_ready = (active \<noteq> None \<and> visible \<noteq> None)\<rparr>))"

datatype source_event = Settle | Active_changed bool | Visible_changed bool | Document_changed bool

definition source_step :: "source_signals \<Rightarrow> source_event \<Rightarrow> source_signals" where
  "source_step s e =
     (case e of
        Settle \<Rightarrow> s\<lparr>sg_settled := True\<rparr>
      | Active_changed a \<Rightarrow> s\<lparr>sg_active := Some a\<rparr>
      | Visible_changed v \<Rightarrow> s\<lparr>sg_obs_visible := Some v\<rparr>
      | Document_changed v \<Rightarrow> s\<lparr>sg_document_visible := v\<rparr>)"

definition can_claim :: "source_signals \<Rightarrow> bool" where
  "can_claim s \<longleftrightarrow>
     (let r = resolve_alert_source_state s
      in st_ready r \<and> st_active r = Some True \<and> st_visible r = Some True)"

section \<open>The hook's state\<close>

record overlay_state =
  ov_identity :: "overlay_open option"
  ov_playback :: "alert_playback option"
  ov_server_interrupted :: "string list"
  ov_sent_diagnostics :: "string list"
  ov_interruption_key :: nat
  ov_open_cycle :: nat

definition initial_overlay :: overlay_state where
  "initial_overlay =
     \<lparr>ov_identity = None, ov_playback = None, ov_server_interrupted = [], ov_sent_diagnostics = [],
      ov_interruption_key = 0, ov_open_cycle = 0\<rparr>"

definition playing :: "string \<Rightarrow> overlay_state \<Rightarrow> bool" where
  "playing playback_id s \<longleftrightarrow> map_option pb_id (ov_playback s) = Some playback_id"

definition same_identity :: "overlay_open option \<Rightarrow> overlay_open \<Rightarrow> bool" where
  "same_identity left right \<longleftrightarrow>
     (case left of
        None \<Rightarrow> False
      | Some l \<Rightarrow> oo_state l = Active_player \<and> oo_player_id l = oo_player_id right \<and>
                  oo_generation l = oo_generation right)"

definition set_current_playback :: "alert_playback option \<Rightarrow> overlay_state \<Rightarrow> overlay_state" where
  "set_current_playback p s =
     s\<lparr>ov_sent_diagnostics := (if map_option pb_id (ov_playback s) \<noteq> map_option pb_id p then []
                               else ov_sent_diagnostics s),
       ov_playback := p\<rparr>"

definition suppress_server_interrupted :: "overlay_state \<Rightarrow> overlay_state" where
  "suppress_server_interrupted s =
     set_current_playback None
       (case ov_playback s of
          None \<Rightarrow> s
        | Some p \<Rightarrow> if pb_id p \<in> set (ov_server_interrupted s) then s
                    else s\<lparr>ov_server_interrupted := ov_server_interrupted s @ [pb_id p]\<rparr>)"

definition invalidate_identity :: "overlay_open \<Rightarrow> overlay_state \<Rightarrow> overlay_state" where
  "invalidate_identity failed s =
     (if \<not> same_identity (ov_identity s) failed then s
      else (set_current_playback None s)\<lparr>ov_identity := None, ov_open_cycle := ov_open_cycle s + 1\<rparr>)"

definition release_inactive_claim :: "overlay_state \<Rightarrow> overlay_state" where
  "release_inactive_claim s =
     (case ov_identity s of
        None \<Rightarrow> s
      | Some i \<Rightarrow> (if oo_state i = Active_player then set_current_playback None s else s)\<lparr>ov_identity := None\<rparr>)"

text \<open>When the player's identity is standby it is asked for again before its lease ends.\<close>

definition standby_delay :: "overlay_open \<Rightarrow> timestamp \<Rightarrow> int" where
  "standby_delay i now = max 2000 (min 5000 (oo_lease_expires_at i - now + 250))"

definition apply_stream_event :: "overlay_event \<Rightarrow> overlay_state \<Rightarrow> overlay_state" where
  "apply_stream_event e s =
     (case e of
        Playback p \<Rightarrow> set_current_playback (Some p) s
      | Control Skip \<Rightarrow>
          suppress_server_interrupted (s\<lparr>ov_interruption_key := ov_interruption_key s + 1\<rparr>)
      | Revoked \<Rightarrow> suppress_server_interrupted s
      | _ \<Rightarrow> s)"

definition resolve_alert_finish_acknowledgement ::
  "string list \<Rightarrow> string \<Rightarrow> playback_outcome \<Rightarrow> bool \<times> string list" where
  "resolve_alert_finish_acknowledgement server_interrupted playback_id oc =
     (let suppressed = (oc = Interrupted_outcome \<and> playback_id \<in> set server_interrupted)
      in (\<not> suppressed,
          if suppressed then filter (\<lambda>c. c \<noteq> playback_id) server_interrupted else server_interrupted))"

text \<open>
  What the hook sends: the finish and the diagnostics of a playback, each for an active identity; the
  retries of one acknowledgement count as one.
\<close>

datatype overlay_message =
    Finish_message overlay_open string playback_outcome
  | Diagnostic_message overlay_open string renderer_code

definition on_finished ::
  "overlay_open option \<Rightarrow> string \<Rightarrow> playback_outcome \<Rightarrow> overlay_state \<Rightarrow> overlay_message list \<times> overlay_state" where
  "on_finished identity playback_id oc s =
     (case resolve_alert_finish_acknowledgement (ov_server_interrupted s) playback_id oc of
        (acknowledge, remaining) \<Rightarrow>
          (let s' = s\<lparr>ov_server_interrupted := remaining\<rparr>
           in case identity of
                Some i \<Rightarrow>
                  if acknowledge \<and> oo_state i = Active_player \<and> same_identity (ov_identity s') i \<and> playing playback_id s'
                  then ([Finish_message i playback_id oc], s') else ([], s')
              | None \<Rightarrow> ([], s')))"

definition finish_acknowledged :: "string \<Rightarrow> overlay_state \<Rightarrow> overlay_state" where
  "finish_acknowledged playback_id s = (if playing playback_id s then set_current_playback None s else s)"

definition diagnostic_key :: "string \<Rightarrow> renderer_code \<Rightarrow> string" where
  "diagnostic_key playback_id c = playback_id @ '':'' @ renderer_code_name c"

definition on_diagnostic ::
  "overlay_open option \<Rightarrow> string \<Rightarrow> renderer_code \<Rightarrow> overlay_state \<Rightarrow> overlay_message list \<times> overlay_state" where
  "on_diagnostic identity playback_id c s =
     (case identity of
        None \<Rightarrow> ([], s)
      | Some i \<Rightarrow>
          if oo_state i \<noteq> Active_player \<or> \<not> playing playback_id s \<or>
             diagnostic_key playback_id c \<in> set (ov_sent_diagnostics s)
          then ([], s)
          else (if same_identity (ov_identity s) i then [Diagnostic_message i playback_id c] else [],
                s\<lparr>ov_sent_diagnostics := ov_sent_diagnostics s @ [diagnostic_key playback_id c]\<rparr>))"

section \<open>The hook\<close>

text \<open>
  The inputs of the hook.  An effect that belongs to an identity that is gone has been cleaned up, so
  stream events come with the identity they were read for.
\<close>

datatype overlay_input =
    Claim_lost
  | Open_answered overlay_open
  | Open_failed
  | Stream_event overlay_open overlay_event
  | Stream_over overlay_open
  | Heartbeat_lost overlay_open
  | Start_timed_out overlay_open
  | Finish_call "overlay_open option" string playback_outcome
  | Finish_done string
  | Diagnostic_call "overlay_open option" string renderer_code

definition overlay_hook_step :: "overlay_state \<Rightarrow> overlay_input \<Rightarrow> overlay_message list \<times> overlay_state" where
  "overlay_hook_step s i =
     (case i of
        Claim_lost \<Rightarrow> ([], release_inactive_claim s)
      | Open_answered identity \<Rightarrow> ([], s\<lparr>ov_identity := Some identity\<rparr>)
      | Open_failed \<Rightarrow> ([], s\<lparr>ov_identity := None\<rparr>)
      | Stream_event identity e \<Rightarrow>
          ([], if ov_identity s = Some identity \<and> oo_state identity = Active_player then apply_stream_event e s else s)
      | Stream_over identity \<Rightarrow> ([], invalidate_identity identity s)
      | Heartbeat_lost identity \<Rightarrow> ([], invalidate_identity identity s)
      | Start_timed_out identity \<Rightarrow> ([], invalidate_identity identity s)
      | Finish_call identity playback_id oc \<Rightarrow> on_finished identity playback_id oc s
      | Finish_done playback_id \<Rightarrow> ([], finish_acknowledged playback_id s)
      | Diagnostic_call identity playback_id c \<Rightarrow> on_diagnostic identity playback_id c s)"

fun overlay_run :: "overlay_state \<Rightarrow> overlay_input list \<Rightarrow> overlay_message list \<times> overlay_state" where
  "overlay_run s [] = ([], s)"
| "overlay_run s (i # is) =
     (case overlay_hook_step s i of (sent, s') \<Rightarrow>
        (case overlay_run s' is of (more_sent, s'') \<Rightarrow> (sent @ more_sent, s'')))"

end
