(* ===== verification/AlertOverlayProperties.thy ===== *)
theory AlertOverlayProperties
  imports AlertOverlay
begin

text \<open>
  What the overlay hook promises: acknowledgements give up by their deadline, messages concern the
  current identity and playback only, a diagnostic is sent once per playback, and an interruption the
  server caused is not reported back to it.
\<close>

section \<open>Retries end\<close>

definition timely :: "ack_attempt \<Rightarrow> bool" where
  "timely a \<longleftrightarrow> 0 \<le> at_duration a \<and> 0 \<le> at_lateness a"

lemma retry_loop_ends:
  assumes "list_all timely as" and "250 \<le> retry_delay" and "retry_delay \<le> 5000"
    and "d - now \<le> 250 * int (length as) - 250" and "as \<noteq> []"
  shows "retry_loop (Some d) now retry_delay as \<noteq> Ack_pending"
  using assms
proof (induction as arbitrary: now retry_delay)
  case (Cons a as)
  define later where "later = now + at_duration a"
  define next_now where "next_now = later + min retry_delay (d - later) + at_lateness a"
  have timely: "0 \<le> at_duration a" "0 \<le> at_lateness a" using Cons.prems(1) by (simp_all add: timely_def)
  show ?case
  proof (cases "d - later \<le> 0 \<or> d - now \<le> 0")
    case True
    then show ?thesis by (auto simp: later_def Let_def)
  next
    case False
    then have "as \<noteq> []" using Cons.prems(4) by auto
    have "retry_loop (Some d) next_now (min (retry_delay * 2) 5000) as \<noteq> Ack_pending"
    proof (cases "d - later \<le> retry_delay")
      case True
      then have "d - next_now \<le> 0" using timely by (simp add: next_now_def)
      with \<open>as \<noteq> []\<close> show ?thesis by (cases as) auto
    next
      case False
      then have "d - next_now \<le> 250 * int (length as) - 250"
        using Cons.prems(2, 4) timely by (simp add: next_now_def later_def)
      then show ?thesis using Cons.IH [of "min (retry_delay * 2) 5000" next_now] Cons.prems \<open>as \<noteq> []\<close> by simp
    qed
    then show ?thesis by (simp add: later_def next_now_def Let_def)
  qed
qed simp

text \<open>
  An acknowledgement with a time limit gives up or succeeds after at most one attempt for every
  quarter of a second of the limit and two more, however long its attempts take: it never retries for ever.
\<close>

theorem retry_ends_by_deadline:
  assumes "0 \<le> timeout_ms" and "list_all timely attempts"
    and "nat timeout_ms div 250 + 2 \<le> length attempts"
  shows "retry_alert_acknowledgement (Some timeout_ms) now attempts \<noteq> Ack_pending"
proof -
  have "nat timeout_ms < 250 * (nat timeout_ms div 250 + 1)" by (simp add: dividend_less_times_div)
  also have "\<dots> \<le> 250 * (length attempts - 1)" using assms(3) by (intro mult_le_mono2) simp
  finally have "timeout_ms \<le> 250 * int (length attempts) - 250" using assms(1, 3) by (simp add: of_nat_diff)
  moreover have "attempts \<noteq> []" using assms(3) by auto
  ultimately show ?thesis
    unfolding retry_alert_acknowledgement_def using retry_loop_ends [of attempts 250 "now + timeout_ms" now] assms(2)
    by simp
qed

theorem retry_ends_by_deadline_witness:
  "retry_alert_acknowledgement (Some 500) 0
     (replicate 4 \<lparr>at_wanted_before = True, at_duration = 100, at_acknowledged = False, at_wanted_after = True,
        at_delay_aborted = False, at_lateness = 0\<rparr>) \<noteq> Ack_pending"
  by (rule retry_ends_by_deadline) (simp_all add: timely_def list_all_iff)

section \<open>The hook's invariant\<close>

definition overlay_ok :: "overlay_state \<Rightarrow> bool" where
  "overlay_ok s \<longleftrightarrow>
     distinct (ov_server_interrupted s) \<and> distinct (ov_sent_diagnostics s) \<and>
     list_all (\<lambda>k. \<exists>p c. ov_playback s = Some p \<and> k = diagnostic_key (pb_id p) c) (ov_sent_diagnostics s)"

lemma set_current_ok: "overlay_ok s \<Longrightarrow> overlay_ok (set_current_playback p s)"
proof -
  assume ok: "overlay_ok s"
  show ?thesis
  proof (cases "map_option pb_id (ov_playback s) = map_option pb_id p")
    case True
    show ?thesis
    proof (cases p)
      case None
      then have "ov_playback s = None" using True by simp
      then have "ov_sent_diagnostics s = []" using ok by (cases "ov_sent_diagnostics s") (auto simp: overlay_ok_def)
      then show ?thesis using ok by (simp add: overlay_ok_def set_current_playback_def)
    next
      case (Some q)
      then obtain r where "ov_playback s = Some r" and "pb_id r = pb_id q" using True by auto
      then show ?thesis using ok Some by (simp add: overlay_ok_def set_current_playback_def)
    qed
  next
    case False
    then show ?thesis using ok by (simp add: overlay_ok_def set_current_playback_def)
  qed
qed

lemma keep_ok [simp]:
  "overlay_ok (s\<lparr>ov_identity := i\<rparr>) = overlay_ok s" "overlay_ok (s\<lparr>ov_open_cycle := n\<rparr>) = overlay_ok s"
  "overlay_ok (s\<lparr>ov_interruption_key := n\<rparr>) = overlay_ok s"
  by (simp_all add: overlay_ok_def)

lemma suppress_ok: "overlay_ok s \<Longrightarrow> overlay_ok (suppress_server_interrupted s)"
  unfolding suppress_server_interrupted_def
  by (rule set_current_ok) (auto simp: overlay_ok_def split: option.split)

lemma invalidate_ok: "overlay_ok s \<Longrightarrow> overlay_ok (invalidate_identity i s)"
  by (simp add: invalidate_identity_def set_current_ok)

lemma stream_event_ok: "overlay_ok s \<Longrightarrow> overlay_ok (apply_stream_event e s)"
  by (simp add: apply_stream_event_def set_current_ok suppress_ok split: overlay_event.split control_action.split)

lemma finished_ok: "overlay_ok s \<Longrightarrow> overlay_ok (snd (on_finished i pid oc s))"
  by (auto simp: on_finished_def resolve_alert_finish_acknowledgement_def Let_def overlay_ok_def
      split: option.split)

lemma diagnostic_ok: "overlay_ok s \<Longrightarrow> overlay_ok (snd (on_diagnostic i pid c s))"
  by (auto simp: on_diagnostic_def overlay_ok_def playing_def split: option.split)

lemma overlay_step_ok: "overlay_ok s \<Longrightarrow> overlay_ok (snd (overlay_hook_step s i))"
  by (cases i) (simp_all add: overlay_hook_step_def release_inactive_claim_def set_current_ok invalidate_ok
      stream_event_ok finished_ok diagnostic_ok finish_acknowledged_def split: option.split)

interpretation overlay_machine: invariant_machine "\<lambda>s i. snd (overlay_hook_step s i)" "\<lambda>_. True" overlay_ok
  by unfold_locales (rule overlay_step_ok)

lemma overlay_run_state: "snd (overlay_run s is) = foldl (\<lambda>s i. snd (overlay_hook_step s i)) s is"
  by (induction "is" arbitrary: s) (simp_all add: case_prod_beta)

lemma overlay_run_ok: "overlay_ok (snd (overlay_run initial_overlay inputs))"
  unfolding overlay_run_state
  by (rule overlay_machine.run_invar) (simp_all add: overlay_ok_def initial_overlay_def list_all_iff)

text \<open>A message about the playback on show, for the identity the hook has.\<close>

definition message_current :: "overlay_state \<Rightarrow> overlay_message \<Rightarrow> bool" where
  "message_current s m =
     (case m of
        Finish_message i pid _ \<Rightarrow> same_identity (ov_identity s) i \<and> playing pid s
      | Diagnostic_message i pid c \<Rightarrow>
          same_identity (ov_identity s) i \<and> playing pid s \<and> diagnostic_key pid c \<notin> set (ov_sent_diagnostics s))"

lemma message_current_step: "list_all (message_current s) (fst (overlay_hook_step s i))"
  by (cases i) (auto simp: overlay_hook_step_def on_finished_def on_diagnostic_def message_current_def playing_def
      Let_def split: option.split prod.split)

lemma sent_bound:
  assumes "overlay_ok s" shows "length (ov_sent_diagnostics s) \<le> 4"
proof -
  have ok: "distinct (ov_sent_diagnostics s)"
    "list_all (\<lambda>k. \<exists>p c. ov_playback s = Some p \<and> k = diagnostic_key (pb_id p) c) (ov_sent_diagnostics s)"
    using assms by (simp_all add: overlay_ok_def)
  show ?thesis
  proof (cases "ov_playback s")
    case None
    then show ?thesis using ok(2) by (cases "ov_sent_diagnostics s") auto
  next
    case (Some p)
    let ?keys = "map (diagnostic_key (pb_id p)) [Image_unavailable, Sound_unavailable, Tts_unavailable, Audio_blocked]"
    have "set (ov_sent_diagnostics s) \<subseteq> set ?keys"
    proof
      fix k assume "k \<in> set (ov_sent_diagnostics s)"
      then obtain c where "k = diagnostic_key (pb_id p) c" using ok(2) Some by (auto simp: list_all_iff)
      then show "k \<in> set ?keys" by (cases c) simp_all
    qed
    then have "card (set (ov_sent_diagnostics s)) \<le> card (set ?keys)" by (rule card_mono [rotated]) simp
    also have "\<dots> \<le> length ?keys" by (rule card_length)
    finally show ?thesis using ok(1) by (simp add: distinct_card)
  qed
qed

lemma skip_suppresses:
  assumes "ov_playback s = Some p"
  shows "fst (on_finished i (pb_id p) Interrupted_outcome (apply_stream_event (Control Skip) s)) = [] \<and>
    pb_id p \<notin> set (ov_server_interrupted (snd (on_finished i (pb_id p) Interrupted_outcome
      (apply_stream_event (Control Skip) s))))"
  using assms by (auto simp: apply_stream_event_def suppress_server_interrupted_def set_current_playback_def
      on_finished_def resolve_alert_finish_acknowledgement_def Let_def split: option.split)


end
