(* ===== verification/AdminDashboard.thy ===== *)
theory AdminDashboard
  imports ChatService AlertService
begin

text \<open>
  The administrators' dashboard (\<open>server/admin-dashboard.ts\<close>, \<open>server/api/trpc/admin.ts\<close>): counts over
  the tables, the memory and disk of the machine, and the health of the other services, of which any
  may fail.  Arguments are the tables and files read, the measured times, \<open>Number()\<close> of a text and the
  rank of a provider's name in the collation; seconds of the database are kept in thousandths.
\<close>

section \<open>Tables\<close>

record provider_connection =
  pn_user :: int
  pn_provider :: chat_provider
  pn_connected_at :: timestamp
  pn_connected :: bool

record pending_job =
  pj_completed :: bool
  pj_attempts :: nat
  pj_available_at :: timestamp

record admin_tables =
  at_accounts :: "timestamp list"
  at_donations :: "(int \<times> timestamp) list"
  at_connections :: "provider_connection list"
  at_sources_enabled :: "bool list"
  at_overlay_hashes :: "string option list"
  at_donation_scans :: "pending_job list"
  at_metadata_jobs :: "pending_job list"
  at_playbacks :: "(playback_state \<times> timestamp option) list"
  at_size_bytes :: int
  at_db_connections :: int
  at_max_connections :: int

record period_counts =
  pc_day :: int
  pc_week :: int
  pc_month :: int

definition day_ms :: int where "day_ms = 24 * 60 * 60 * 1000"

definition since :: "timestamp \<Rightarrow> int \<Rightarrow> timestamp list \<Rightarrow> int" where
  "since now days ts = int (length (filter (\<lambda>t. now - days * day_ms \<le> t) ts))"

definition period_counts_of :: "(int \<Rightarrow> int) \<Rightarrow> period_counts" where
  "period_counts_of f = \<lparr>pc_day = f 1, pc_week = f 7, pc_month = f 30\<rparr>"

text \<open>\<open>count(DISTINCT user_id)\<close>\<close>

definition active_users :: "timestamp \<Rightarrow> (int \<times> timestamp) list \<Rightarrow> int \<Rightarrow> int" where
  "active_users now rows days = int (length (remdups (map fst (filter (\<lambda>(_, t). now - days * day_ms \<le> t) rows))))"

definition connected_rows :: "admin_tables \<Rightarrow> provider_connection list" where
  "connected_rows db = filter pn_connected (at_connections db)"

text \<open>The users with a connection and when the first of them was connected.\<close>

definition connected_multichat :: "admin_tables \<Rightarrow> (int \<times> timestamp) list" where
  "connected_multichat db =
     map (\<lambda>u. (u, Min (set (map pn_connected_at (filter (\<lambda>c. pn_user c = u) (connected_rows db))))))
       (remdups (map pn_user (connected_rows db)))"

record database_summary =
  ds_total_users :: int
  ds_registered :: period_counts
  ds_donation_active :: period_counts
  ds_donation_count :: period_counts
  ds_multichat_users :: int
  ds_multichat_configured :: period_counts
  ds_connection_count :: int
  ds_enabled_sources :: int
  ds_overlays :: int
  ds_size_bytes :: int
  ds_connections :: int
  ds_max_connections :: int

definition database_summary_of :: "timestamp \<Rightarrow> admin_tables \<Rightarrow> database_summary" where
  "database_summary_of now db =
     \<lparr>ds_total_users = int (length (at_accounts db)),
      ds_registered = period_counts_of (\<lambda>days. since now days (at_accounts db)),
      ds_donation_active = period_counts_of (active_users now (at_donations db)),
      ds_donation_count = period_counts_of (\<lambda>days. since now days (map snd (at_donations db))),
      ds_multichat_users = int (length (connected_multichat db)),
      ds_multichat_configured = period_counts_of (\<lambda>days. since now days (map snd (connected_multichat db))),
      ds_connection_count = int (length (connected_rows db)),
      ds_enabled_sources = int (length (filter id (at_sources_enabled db))),
      ds_overlays = int (length (filter (\<lambda>h. h \<noteq> None) (at_overlay_hashes db))),
      ds_size_bytes = at_size_bytes db, ds_connections = at_db_connections db,
      ds_max_connections = at_max_connections db\<rparr>"

record queue_summary =
  qs_pending :: int
  qs_retried :: int
  qs_oldest :: "int option"

text \<open>\<open>greatest(0, NULL)\<close> is 0, so the age of an empty queue is 0.\<close>

definition queue_summary_of :: "timestamp \<Rightarrow> pending_job list \<Rightarrow> queue_summary" where
  "queue_summary_of now rows =
     (let pending = filter (\<lambda>j. \<not> pj_completed j) rows in
      \<lparr>qs_pending = int (length pending), qs_retried = int (length (filter (\<lambda>j. pj_attempts j > 0) pending)),
       qs_oldest = Some (if pending = [] then 0 else max 0 (now - Min (set (map pj_available_at pending))))\<rparr>)"

definition alerts_in_progress :: "admin_tables \<Rightarrow> int" where
  "alerts_in_progress db =
     int (length (filter (\<lambda>(st, _). st \<in> {Preparing, Pending_playback, Playing}) (at_playbacks db)))"

definition alerts_interrupted_day :: "timestamp \<Rightarrow> admin_tables \<Rightarrow> int" where
  "alerts_interrupted_day now db =
     int (length (filter (\<lambda>(st, fin). st = Interrupted \<and> (case fin of None \<Rightarrow> False | Some t \<Rightarrow> now - day_ms \<le> t))
       (at_playbacks db)))"

record provider_summary =
  pv_provider :: chat_provider
  pv_users :: int
  pv_connections :: int

definition provider_summaries :: "(chat_provider \<Rightarrow> int) \<Rightarrow> admin_tables \<Rightarrow> provider_summary list" where
  "provider_summaries rank db =
     (let rows = connected_rows db in
      sort_key (\<lambda>p. (- pv_users p, rank (pv_provider p)))
        (map (\<lambda>pr. let mine = filter (\<lambda>c. pn_provider c = pr) rows in
              \<lparr>pv_provider = pr, pv_users = int (length (remdups (map pn_user mine))),
               pv_connections = int (length mine)\<rparr>)
          (remdups (map pn_provider rows))))"

record database_metrics =
  dm_summary :: database_summary
  dm_donation_scans :: queue_summary
  dm_video_metadata :: queue_summary
  dm_alerts_in_progress :: int
  dm_alerts_interrupted_day :: int
  dm_providers :: "provider_summary list"
  dm_latency :: int

definition counts_of :: "period_counts \<Rightarrow> int list" where
  "counts_of p = [pc_day p, pc_week p, pc_month p]"

text \<open>Every \<open>count(*)::int\<close>; the cast fails out of its range.\<close>

definition summary_counts :: "database_summary \<Rightarrow> int list" where
  "summary_counts s =
     ds_total_users s # counts_of (ds_registered s) @ counts_of (ds_donation_active s) @
     counts_of (ds_donation_count s) @ ds_multichat_users s # counts_of (ds_multichat_configured s) @
     [ds_connection_count s, ds_enabled_sources s, ds_overlays s, ds_connections s]"

definition queue_counts :: "queue_summary \<Rightarrow> int list" where
  "queue_counts q = [qs_pending q, qs_retried q]"

definition metric_counts :: "database_metrics \<Rightarrow> int list" where
  "metric_counts m =
     summary_counts (dm_summary m) @ queue_counts (dm_donation_scans m) @ queue_counts (dm_video_metadata m) @
     [dm_alerts_in_progress m, dm_alerts_interrupted_day m] @
     concat (map (\<lambda>p. [pv_users p, pv_connections p]) (dm_providers m))"

definition load_database_metrics ::
  "(chat_provider \<Rightarrow> int) \<Rightarrow> timestamp \<Rightarrow> int \<Rightarrow> admin_tables option \<Rightarrow> database_metrics option" where
  "load_database_metrics rank now latency tables =
     Option.bind tables (\<lambda>db.
       let m = \<lparr>dm_summary = database_summary_of now db, dm_donation_scans = queue_summary_of now (at_donation_scans db),
                dm_video_metadata = queue_summary_of now (at_metadata_jobs db),
                dm_alerts_in_progress = alerts_in_progress db,
                dm_alerts_interrupted_day = alerts_interrupted_day now db,
                dm_providers = provider_summaries rank db, dm_latency = latency\<rparr>
       in if list_all (\<lambda>n. 0 \<le> n \<and> n \<le> 2147483647) (metric_counts m) \<and> 0 \<le> at_size_bytes db \<and>
             0 < at_max_connections db
          then Some m else None)"

section \<open>The machine\<close>

record capacity =
  cap_used :: int
  cap_total :: int

datatype memory_scope = Container_scope | System_scope | Process_scope

record machine =
  mc_linux :: bool
  mc_cgroup_files :: "(string option \<times> string option) list"
  mc_meminfo :: "string option"
  mc_total_memory :: int
  mc_rss :: int
  mc_disk :: "(int \<times> int \<times> int) option"
  mc_cpu_count :: int
  mc_load_average :: "int \<times> int \<times> int"
  mc_server_uptime :: int
  mc_web_uptime :: int

fun read_cgroup_memory ::
  "(string \<Rightarrow> int option) \<Rightarrow> int \<Rightarrow> (string option \<times> string option) list \<Rightarrow> capacity option" where
  "read_cgroup_memory num total_memory [] = None"
| "read_cgroup_memory num total_memory ((usage, limit) # rest) =
     (case (usage, limit) of
        (Some u, Some l) \<Rightarrow>
          if js_trim l = ''max'' then read_cgroup_memory num total_memory rest
          else (case (num (js_trim u), num (js_trim l)) of
                  (Some used, Some available) \<Rightarrow>
                    if 0 \<le> used \<and> 0 < available \<and> available \<le> total_memory * 2
                    then Some \<lparr>cap_used = used, cap_total = available\<rparr>
                    else read_cgroup_memory num total_memory rest
                | _ \<Rightarrow> read_cgroup_memory num total_memory rest)
      | _ \<Rightarrow> read_cgroup_memory num total_memory rest)"

text \<open>
  \<open>/^MemTotal:\s+(\d+)\s+kB$/m\<close> and its like: the label at the start of a line, spaces, digits, spaces
  and the unit at the end of a line.
\<close>

definition is_line_end :: "string \<Rightarrow> bool" where
  "is_line_end s \<longleftrightarrow> (case s of [] \<Rightarrow> True | c # _ \<Rightarrow> code c \<in> {10, 13})"

definition after_prefix :: "string \<Rightarrow> string \<Rightarrow> string option" where
  "after_prefix p s = (if take (length p) s = p then Some (drop (length p) s) else None)"

definition match_amount :: "string \<Rightarrow> string \<Rightarrow> string option" where
  "match_amount label s =
     Option.bind (after_prefix label s) (\<lambda>s1.
       let s2 = dropWhile is_space s1; digits = takeWhile is_digit s2; s3 = dropWhile is_digit s2;
           s4 = dropWhile is_space s3
       in if s1 = s2 \<or> digits = [] \<or> s3 = s4 then None
          else (case after_prefix ''kB'' s4 of
                  None \<Rightarrow> None
                | Some s5 \<Rightarrow> if is_line_end s5 then Some digits else None))"

fun find_amount :: "string \<Rightarrow> bool \<Rightarrow> string \<Rightarrow> string option" where
  "find_amount label line_start [] = (if line_start then match_amount label [] else None)"
| "find_amount label line_start (c # cs) =
     (case (if line_start then match_amount label (c # cs) else None) of
        Some digits \<Rightarrow> Some digits
      | None \<Rightarrow> find_amount label (code c \<in> {10, 13}) cs)"

definition read_linux_system_memory :: "string option \<Rightarrow> capacity option" where
  "read_linux_system_memory meminfo =
     Option.bind meminfo (\<lambda>content.
     Option.bind (find_amount ''MemTotal:'' True content) (\<lambda>t.
     Option.bind (find_amount ''MemAvailable:'' True content) (\<lambda>a.
       if nat_of_dec t = 0 then None
       else Some \<lparr>cap_used = max 0 (int (nat_of_dec t) * 1024 - int (nat_of_dec a) * 1024),
                  cap_total = int (nat_of_dec t) * 1024\<rparr>)))"

definition load_memory_metrics :: "(string \<Rightarrow> int option) \<Rightarrow> machine \<Rightarrow> capacity \<times> memory_scope" where
  "load_memory_metrics num m =
     (let process = (\<lparr>cap_used = mc_rss m, cap_total = mc_total_memory m\<rparr>, Process_scope) in
      if mc_linux m
      then (case read_cgroup_memory num (mc_total_memory m) (mc_cgroup_files m) of
              Some c \<Rightarrow> (c, Container_scope)
            | None \<Rightarrow>
                (case read_linux_system_memory (mc_meminfo m) of Some c \<Rightarrow> (c, System_scope) | None \<Rightarrow> process))
      else process)"

definition disk_capacity :: "machine \<Rightarrow> capacity option" where
  "disk_capacity m =
     map_option (\<lambda>(blocks, bsize, bavail).
       \<lparr>cap_used = max 0 (blocks * bsize - bavail * bsize), cap_total = blocks * bsize\<rparr>) (mc_disk m)"

record system_metrics =
  sm_cpu_count :: int
  sm_load_average :: "int \<times> int \<times> int"
  sm_memory :: capacity
  sm_memory_scope :: memory_scope
  sm_disk :: "capacity option"
  sm_server_uptime :: int
  sm_web_uptime :: int
  sm_web_rss :: int

definition load_system_metrics :: "(string \<Rightarrow> int option) \<Rightarrow> machine \<Rightarrow> system_metrics" where
  "load_system_metrics num m =
     (case load_memory_metrics num m of (memory, scope) \<Rightarrow>
        \<lparr>sm_cpu_count = mc_cpu_count m, sm_load_average = mc_load_average m, sm_memory = memory,
         sm_memory_scope = scope, sm_disk = disk_capacity m, sm_server_uptime = mc_server_uptime m,
         sm_web_uptime = mc_web_uptime m, sm_web_rss = mc_rss m\<rparr>)"

section \<open>The dashboard\<close>

datatype service_id = Web_service | Database_service | Chat_service | Donations_service | Activity_service

record service_status =
  ss_id :: service_id
  ss_healthy :: bool
  ss_latency :: int

definition measure_service :: "service_id \<Rightarrow> int \<Rightarrow> service_error + 'a \<Rightarrow> 'a option \<times> service_status" where
  "measure_service id' latency answer =
     (case answer of
        Inr data \<Rightarrow> (Some data, \<lparr>ss_id = id', ss_healthy = True, ss_latency = latency\<rparr>)
      | Inl _ \<Rightarrow> (None, \<lparr>ss_id = id', ss_healthy = False, ss_latency = latency\<rparr>))"

record admin_dashboard =
  ad_captured_at :: timestamp
  ad_system :: system_metrics
  ad_services :: "service_status list"
  ad_database :: database_metrics
  ad_activity :: "activity_snapshot option"
  ad_dead_letters :: "int option"

definition valid_capacity :: "capacity \<Rightarrow> bool" where
  "valid_capacity c \<longleftrightarrow> 0 \<le> cap_used c \<and> 0 < cap_total c"

definition valid_system :: "system_metrics \<Rightarrow> bool" where
  "valid_system s \<longleftrightarrow>
     z_positive_int (sm_cpu_count s) \<and>
     (case sm_load_average s of (a, b, c) \<Rightarrow> 0 \<le> a \<and> 0 \<le> b \<and> 0 \<le> c) \<and> valid_capacity (sm_memory s) \<and>
     optional_holds valid_capacity (sm_disk s) \<and> 0 \<le> sm_server_uptime s \<and> 0 \<le> sm_web_uptime s \<and>
     0 \<le> sm_web_rss s"

definition valid_queue_summary :: "queue_summary \<Rightarrow> bool" where
  "valid_queue_summary q \<longleftrightarrow>
     list_all z_nonnegative_int (queue_counts q) \<and> optional_holds (\<lambda>s. 0 \<le> s) (qs_oldest q)"

definition valid_admin_dashboard :: "admin_dashboard \<Rightarrow> bool" where
  "valid_admin_dashboard d \<longleftrightarrow>
     valid_system (ad_system d) \<and> list_all (\<lambda>s. 0 \<le> ss_latency s) (ad_services d) \<and>
     list_all z_nonnegative_int (metric_counts (ad_database d)) \<and> 0 \<le> ds_size_bytes (dm_summary (ad_database d)) \<and>
     z_positive_int (ds_max_connections (dm_summary (ad_database d))) \<and>
     optional_holds valid_activity_snapshot (ad_activity d) \<and>
     valid_queue_summary (dm_donation_scans (ad_database d)) \<and>
     valid_queue_summary (dm_video_metadata (ad_database d)) \<and> optional_holds z_nonnegative_int (ad_dead_letters d)"

record admin_env =
  an_chat :: chat_env
  an_donations :: alert_env
  an_number :: "string \<Rightarrow> int option"
  an_provider_rank :: "chat_provider \<Rightarrow> int"

text \<open>The times measured: of the database, of the chat service, of the donation service, of the activity.\<close>

record measured =
  ms_database :: int
  ms_chat :: int
  ms_donations :: int
  ms_activity :: int

definition dashboard_requests :: "admin_env \<Rightarrow> service_request list" where
  "dashboard_requests env =
     [operation_request (an_chat env) Health, integration_request (an_donations env) Integration_health,
      operation_request (an_chat env) Admin_activity, operation_request (an_chat env) (Dead_letters None 1)]"

definition activity_of :: "service_error + chat_value \<Rightarrow> service_error + activity_snapshot option" where
  "activity_of r = map_sum id (\<lambda>v. case v of Activity a \<Rightarrow> Some a | _ \<Rightarrow> None) r"

definition dead_letter_total :: "service_error + chat_value \<Rightarrow> int option" where
  "dead_letter_total r = (case r of Inr (Dead_letter_page p) \<Rightarrow> Some (dp_total p) | _ \<Rightarrow> None)"

definition get_admin_dashboard ::
  "admin_env \<Rightarrow> (service_request \<Rightarrow> service_reply) \<Rightarrow> timestamp \<Rightarrow> measured \<Rightarrow> machine \<Rightarrow> admin_tables option \<Rightarrow>
    service_request list \<Rightarrow> (api_error + admin_dashboard) \<times> service_request list" where
  "get_admin_dashboard env net now taken m tables outbox =
     (let answer = (\<lambda>oper. operation_answer (an_chat env) oper (net (operation_request (an_chat env) oper)));
          chat_health = measure_service Chat_service (ms_chat taken) (answer Health);
          donation_health = measure_service Donations_service (ms_donations taken)
            (integration_answer (an_donations env) Integration_health
              (net (integration_request (an_donations env) Integration_health)));
          activity = measure_service Activity_service (ms_activity taken) (activity_of (answer Admin_activity));
          sent = outbox @ dashboard_requests env
      in case load_database_metrics (an_provider_rank env) now (ms_database taken) tables of
           None \<Rightarrow> (Inl (UnexpectedError ''metrics''), sent)
         | Some metrics \<Rightarrow>
             (let d = \<lparr>ad_captured_at = now, ad_system = load_system_metrics (an_number env) m,
                       ad_services =
                         [\<lparr>ss_id = Web_service, ss_healthy = True, ss_latency = 0\<rparr>,
                          \<lparr>ss_id = Database_service, ss_healthy = True, ss_latency = dm_latency metrics\<rparr>,
                          snd chat_health, snd donation_health, snd activity],
                       ad_database = metrics, ad_activity = Option.bind (fst activity) id,
                       ad_dead_letters = dead_letter_total (answer (Dead_letters None 1))\<rparr>
              in (if valid_admin_dashboard d then Inr d else Inl (UnexpectedError ''dashboard''), sent)))"

definition handle_admin_dashboard ::
  "admin_env \<Rightarrow> (service_request \<Rightarrow> service_reply) \<Rightarrow> timestamp \<Rightarrow> measured \<Rightarrow> machine \<Rightarrow> admin_tables option \<Rightarrow>
    api_context \<Rightarrow> service_request list \<Rightarrow> (api_error + admin_dashboard) \<times> service_request list" where
  "handle_admin_dashboard env net now taken m tables ctx outbox =
     call_procedure (admin ctx) (Some ())
       (\<lambda>_ _ s. case get_admin_dashboard env net now taken m tables s of
          (r, sent) \<Rightarrow> (checked_output valid_admin_dashboard r, sent))
       outbox"

end
