(* ===== verification/AdminProperties.thy ===== *)
theory AdminProperties
  imports AdminDashboard
begin

text \<open>
  What administrators can rely on: the dashboard answers whatever happens to the other services, its
  counters agree with each other, and nobody else gets it.
\<close>

section \<open>Counters\<close>

lemma length_filter_mono: "(\<And>x. x \<in> set xs \<Longrightarrow> P x \<Longrightarrow> Q x) \<Longrightarrow> length (filter P xs) \<le> length (filter Q xs)"
  by (induction xs) (auto intro: le_SucI)

lemma since_mono: "d \<le> e \<Longrightarrow> since now d ts \<le> since now e ts"
  unfolding since_def of_nat_le_iff by (rule length_filter_mono) (auto simp: day_ms_def)

lemma since_total: "since now d ts \<le> int (length ts)"
  by (simp add: since_def)

lemma active_users_mono: "d \<le> e \<Longrightarrow> active_users now rows d \<le> active_users now rows e"
  unfolding active_users_def of_nat_le_iff length_remdups_card_conv
proof (rule card_mono)
  assume "d \<le> e"
  then have "now - e * day_ms \<le> t" if "now - d * day_ms \<le> t" for t using that by (simp add: day_ms_def)
  then show "set (map fst (filter (\<lambda>(_, t). now - d * day_ms \<le> t) rows)) \<subseteq>
      set (map fst (filter (\<lambda>(_, t). now - e * day_ms \<le> t) rows))" by force
qed simp

lemma active_users_since: "active_users now rows d \<le> since now d (map snd rows)"
proof -
  have "length (remdups (map fst (filter (\<lambda>(_, t). now - d * day_ms \<le> t) rows))) \<le>
      length (filter (\<lambda>(_, t). now - d * day_ms \<le> t) rows)"
    by (metis length_map length_remdups_leq)
  also have "\<dots> = length (filter (\<lambda>t. now - d * day_ms \<le> t) (map snd rows))"
    by (induction rows) auto
  finally show ?thesis by (simp add: active_users_def since_def)
qed

lemma length_connected_multichat: "length (connected_multichat db) = card (pn_user ` set (connected_rows db))"
  by (simp add: connected_multichat_def length_remdups_card_conv)

lemma provider_summaries_members:
  "set (provider_summaries rank db) =
     (\<lambda>pr. \<lparr>pv_provider = pr, pv_users = int (card (pn_user ` {c \<in> set (connected_rows db). pn_provider c = pr})),
            pv_connections = int (length (filter (\<lambda>c. pn_provider c = pr) (connected_rows db)))\<rparr>) `
     pn_provider ` set (connected_rows db)"
  by (simp add: provider_summaries_def Let_def length_remdups_card_conv)

lemma group_sizes:
  "sum_list (map (\<lambda>k. int (length (filter (\<lambda>x. f x = k) xs))) (remdups (map f xs))) = int (length xs)"
proof -
  have "sum_list (map (\<lambda>k. int (length (filter (\<lambda>x. f x = k) xs))) (remdups (map f xs))) =
      (\<Sum>k \<in> f ` set xs. int (count_list (map f xs) k))"
    by (subst sum_list_distinct_conv_sum_set) (simp_all add: count_list_eq_length_filter filter_map comp_def eq_commute)
  also have "\<dots> = int (\<Sum>k \<in> set (map f xs). count_list (map f xs) k)" by simp
  also have "(\<Sum>k \<in> set (map f xs). count_list (map f xs) k) = length (map f xs)" by (rule sum_count_set) simp_all
  finally show ?thesis by simp
qed

lemma provider_connections_sum:
  "sum_list (map pv_connections (provider_summaries rank db)) = int (length (connected_rows db))"
proof -
  have "sum_list (map pv_connections (provider_summaries rank db)) =
      sum_list (map (\<lambda>k. int (length (filter (\<lambda>c. pn_provider c = k) (connected_rows db))))
        (remdups (map pn_provider (connected_rows db))))"
    by (simp add: provider_summaries_def Let_def image_mset.compositionality comp_def flip: sum_mset_sum_list)
  then show ?thesis by (simp add: group_sizes)
qed

section \<open>A dashboard is always well-formed\<close>

text \<open>Tables of a size that PostgreSQL can count in an \<open>int\<close>, and a machine that reports sane numbers.\<close>

definition tables_small :: "admin_tables \<Rightarrow> bool" where
  "tables_small db \<longleftrightarrow>
     list_all (\<lambda>n. n \<le> 2147483647)
       [length (at_accounts db), length (at_donations db), length (at_connections db),
        length (at_sources_enabled db), length (at_overlay_hashes db), length (at_donation_scans db),
        length (at_metadata_jobs db), length (at_playbacks db)] \<and>
     0 \<le> at_size_bytes db \<and> 0 \<le> at_db_connections db \<and> at_db_connections db \<le> 2147483647 \<and>
     0 < at_max_connections db \<and> at_max_connections db \<le> 2147483647"

definition machine_ok :: "machine \<Rightarrow> bool" where
  "machine_ok m \<longleftrightarrow>
     0 < mc_total_memory m \<and> 0 \<le> mc_rss m \<and> z_positive_int (mc_cpu_count m) \<and>
     (case mc_load_average m of (a, b, c) \<Rightarrow> 0 \<le> a \<and> 0 \<le> b \<and> 0 \<le> c) \<and> 0 \<le> mc_server_uptime m \<and> 0 \<le> mc_web_uptime m \<and>
     optional_holds (\<lambda>(blocks, bsize, bavail). 0 < blocks \<and> 0 < bsize) (mc_disk m)"

lemma read_cgroup_memory_bounds:
  "read_cgroup_memory num t cands = Some c \<Longrightarrow> 0 \<le> cap_used c \<and> 0 < cap_total c \<and> cap_total c \<le> t * 2"
  by (induction num t cands rule: read_cgroup_memory.induct) (auto split: option.split_asm if_split_asm)

lemma read_linux_system_memory_valid: "read_linux_system_memory mi = Some c \<Longrightarrow> valid_capacity c"
  by (auto simp: read_linux_system_memory_def valid_capacity_def bind_eq_Some_conv
      split: option.split_asm if_split_asm)

lemma load_memory_metrics_valid:
  assumes "machine_ok m"
  shows "valid_capacity (fst (load_memory_metrics num m))"
  using assms read_cgroup_memory_bounds [of num "mc_total_memory m" "mc_cgroup_files m"]
    read_linux_system_memory_valid [of "mc_meminfo m"]
  by (auto simp: load_memory_metrics_def Let_def valid_capacity_def machine_ok_def split: option.split)

lemma load_system_metrics_valid:
  assumes "machine_ok m"
  shows "valid_system (load_system_metrics num m)"
proof -
  obtain memory scope where mem: "load_memory_metrics num m = (memory, scope)" by fastforce
  have "valid_capacity memory" using load_memory_metrics_valid [OF assms, of num] mem by simp
  then show ?thesis
    using assms by (auto simp: load_system_metrics_def mem valid_system_def machine_ok_def disk_capacity_def
        valid_capacity_def optional_holds_def split: option.splits)
qed

lemma int4_count: "n \<le> 2147483647 \<Longrightarrow> 0 \<le> int n \<and> int n \<le> 2147483647"
  by simp

lemma since_bounds: "length ts \<le> 2147483647 \<Longrightarrow> 0 \<le> since now d ts \<and> since now d ts \<le> 2147483647"
  using since_total [of now d ts] by (simp add: since_def del: length_filter_le)

lemma queue_counts_bounds:
  assumes "length rows \<le> 2147483647"
  shows "list_all (\<lambda>n. 0 \<le> n \<and> n \<le> 2147483647) (queue_counts (queue_summary_of now rows))"
proof -
  let ?pending = "filter (\<lambda>j. \<not> pj_completed j) rows"
  have "length ?pending \<le> 2147483647" using length_filter_le [of _ rows] assms by (rule order_trans)
  moreover have "length (filter (\<lambda>j. pj_attempts j > 0) ?pending) \<le> 2147483647"
    using length_filter_le [of _ ?pending] calculation by (rule order_trans)
  ultimately show ?thesis unfolding queue_counts_def queue_summary_of_def Let_def
    by (simp del: filter_filter)
qed

lemma length_remdups_bound: "length xs \<le> n \<Longrightarrow> length (remdups xs) \<le> n"
  using length_remdups_leq order_trans by blast

lemma filter_bound: "length xs \<le> n \<Longrightarrow> length (filter P xs) \<le> n"
  using length_filter_le order_trans by blast

lemma period_bounds:
  "(\<And>d. 0 \<le> f d \<and> f d \<le> 2147483647) \<Longrightarrow> list_all (\<lambda>n. 0 \<le> n \<and> n \<le> 2147483647) (counts_of (period_counts_of f))"
  by (simp add: counts_of_def period_counts_of_def)

lemma summary_counts_bounds:
  assumes "tables_small db"
  shows "list_all (\<lambda>n. 0 \<le> n \<and> n \<le> 2147483647) (summary_counts (database_summary_of now db))"
proof -
  have small: "length (at_accounts db) \<le> 2147483647" "length (at_donations db) \<le> 2147483647"
    "length (at_connections db) \<le> 2147483647" "length (at_sources_enabled db) \<le> 2147483647"
    "length (at_overlay_hashes db) \<le> 2147483647"
    using assms by (simp_all add: tables_small_def)
  have connected: "length (connected_rows db) \<le> 2147483647"
    unfolding connected_rows_def by (rule filter_bound [OF small(3)])
  have multichat: "length (connected_multichat db) \<le> 2147483647"
    unfolding connected_multichat_def using connected by (simp add: length_remdups_bound)
  have active: "0 \<le> active_users now (at_donations db) d \<and> active_users now (at_donations db) d \<le> 2147483647" for d
    using active_users_since [of now "at_donations db" d] since_bounds [of "map snd (at_donations db)" now d] small(2)
    by (simp add: active_users_def)
  have donations: "0 \<le> since now d (map snd (at_donations db)) \<and> since now d (map snd (at_donations db)) \<le> 2147483647" for d
    by (rule since_bounds) (simp add: small)
  have configured: "0 \<le> since now d (map snd (connected_multichat db)) \<and>
      since now d (map snd (connected_multichat db)) \<le> 2147483647" for d
    by (rule since_bounds) (simp add: multichat)
  have sources: "length (filter id (at_sources_enabled db)) \<le> 2147483647"
    and overlays: "length (filter (\<lambda>h. h \<noteq> None) (at_overlay_hashes db)) \<le> 2147483647"
    using small filter_bound by blast+
  show ?thesis
    unfolding summary_counts_def database_summary_of_def
    using since_bounds [OF small(1)] small connected multichat sources overlays assms
      period_bounds [OF since_bounds [OF small(1)]] period_bounds [OF active] period_bounds [OF donations]
      period_bounds [OF configured]
    by (simp add: tables_small_def)
qed

lemma provider_counts_bounds:
  assumes "tables_small db" and "p \<in> set (provider_summaries rank db)"
  shows "0 \<le> pv_users p \<and> pv_users p \<le> pv_connections p \<and> pv_connections p \<le> 2147483647"
proof -
  obtain pr where p: "p = \<lparr>pv_provider = pr,
      pv_users = int (card (pn_user ` {c \<in> set (connected_rows db). pn_provider c = pr})),
      pv_connections = int (length (filter (\<lambda>c. pn_provider c = pr) (connected_rows db)))\<rparr>"
    using assms(2) by (auto simp: provider_summaries_members)
  have "card (pn_user ` {c \<in> set (connected_rows db). pn_provider c = pr}) \<le>
      length (filter (\<lambda>c. pn_provider c = pr) (connected_rows db))"
    using card_length [of "map pn_user (filter (\<lambda>c. pn_provider c = pr) (connected_rows db))"] by simp
  moreover have "length (filter (\<lambda>c. pn_provider c = pr) (connected_rows db)) \<le> 2147483647"
    unfolding connected_rows_def by (intro filter_bound) (use assms(1) in \<open>simp add: tables_small_def\<close>)
  ultimately show ?thesis by (simp add: p)
qed

definition metrics_of :: "(chat_provider \<Rightarrow> int) \<Rightarrow> timestamp \<Rightarrow> int \<Rightarrow> admin_tables \<Rightarrow> database_metrics" where
  "metrics_of rank now latency db =
     \<lparr>dm_summary = database_summary_of now db, dm_donation_scans = queue_summary_of now (at_donation_scans db),
      dm_video_metadata = queue_summary_of now (at_metadata_jobs db), dm_alerts_in_progress = alerts_in_progress db,
      dm_alerts_interrupted_day = alerts_interrupted_day now db, dm_providers = provider_summaries rank db,
      dm_latency = latency\<rparr>"

lemma metric_counts_bounds:
  assumes "tables_small db"
  shows "list_all (\<lambda>n. 0 \<le> n \<and> n \<le> 2147483647) (metric_counts (metrics_of rank now latency db))"
proof -
  have small: "length (at_donation_scans db) \<le> 2147483647" "length (at_metadata_jobs db) \<le> 2147483647"
    "length (at_playbacks db) \<le> 2147483647" using assms by (simp_all add: tables_small_def)
  have "alerts_in_progress db \<le> 2147483647" "alerts_interrupted_day now db \<le> 2147483647"
    unfolding alerts_in_progress_def alerts_interrupted_day_def using filter_bound [OF small(3)] by simp_all
  moreover have "0 \<le> alerts_in_progress db" "0 \<le> alerts_interrupted_day now db"
    by (simp_all add: alerts_in_progress_def alerts_interrupted_day_def)
  moreover have "list_all (\<lambda>n. 0 \<le> n \<and> n \<le> 2147483647)
      (concat (map (\<lambda>p. [pv_users p, pv_connections p]) (provider_summaries rank db)))"
    using provider_counts_bounds [OF assms] by (fastforce simp: list_all_iff)
  ultimately show ?thesis
    using summary_counts_bounds [OF assms] queue_counts_bounds [OF small(1)] queue_counts_bounds [OF small(2)]
    by (simp add: metric_counts_def metrics_of_def)
qed

lemma load_database_metrics_small:
  "tables_small db \<Longrightarrow> load_database_metrics rank now latency (Some db) = Some (metrics_of rank now latency db)"
  using metric_counts_bounds [of db rank now latency]
  by (simp add: load_database_metrics_def metrics_of_def Let_def tables_small_def)

lemma activity_valid:
  "operation_answer env Admin_activity reply = Inr (Activity a) \<Longrightarrow> valid_activity_snapshot a"
  by (auto simp: operation_answer_def operation_schema_def service_answer_Inr_iff)

lemma dead_letters_valid:
  "operation_answer env (Dead_letters before n) reply = Inr (Dead_letter_page p) \<Longrightarrow> z_nonnegative_int (dp_total p)"
  by (auto simp: operation_answer_def operation_schema_def service_answer_Inr_iff valid_dead_letter_page_def)

lemma small_counts:
  "list_all (\<lambda>n. 0 \<le> n \<and> n \<le> 2147483647) ns \<Longrightarrow> list_all z_nonnegative_int ns"
  by (induction ns) (simp_all add: z_nonnegative_int_def z_int_def max_safe_integer_def)

lemma activity_of_simps:
  "isl (activity_of r) = isl r"
  "Option.bind (case activity_of r of Inl _ \<Rightarrow> None | Inr x \<Rightarrow> Some x) id =
     (case r of Inr (Activity a) \<Rightarrow> Some a | _ \<Rightarrow> None)"
  by (cases r; simp add: activity_of_def split: chat_value.split)+

lemma queue_summary_valid:
  "length rows \<le> 2147483647 \<Longrightarrow> valid_queue_summary (queue_summary_of now rows)"
proof -
  assume "length rows \<le> 2147483647"
  from small_counts [OF queue_counts_bounds [OF this, of now]] show ?thesis
    unfolding valid_queue_summary_def by (simp add: optional_holds_def queue_summary_of_def Let_def)
qed

section \<open>Properties\<close>

text \<open>
  C9: Only an administrator gets the dashboard, and nothing is asked of any service for anybody else.
  For an administrator four requests are sent and the dashboard is answered whatever the chat and the
  donation service reply: a failed service is shown as unavailable and its figures as unknown.
\<close>

theorem dashboard_survives_services:
  assumes "tables_small db" and "machine_ok m"
    and "list_all (\<lambda>t. 0 \<le> t) [ms_database taken, ms_chat taken, ms_donations taken, ms_activity taken]"
  shows "case admin ctx of
      Inl e \<Rightarrow> handle_admin_dashboard env net now taken m (Some db) ctx outbox = (Inl e, outbox)
    | Inr _ \<Rightarrow>
        (let chat = (\<lambda>oper. operation_answer (an_chat env) oper (net (operation_request (an_chat env) oper)));
             donations = integration_answer (an_donations env) Integration_health
               (net (integration_request (an_donations env) Integration_health))
         in \<exists>d. handle_admin_dashboard env net now taken m (Some db) ctx outbox =
               (Inr d, outbox @ dashboard_requests env) \<and>
             map ss_healthy (ad_services d) =
               [True, True, \<not> isl (chat Health), \<not> isl donations, \<not> isl (chat Admin_activity)] \<and>
             ad_activity d = (case chat Admin_activity of Inr (Activity a) \<Rightarrow> Some a | _ \<Rightarrow> None) \<and>
             ad_dead_letters d = (case chat (Dead_letters None 1) of
               Inr (Dead_letter_page p) \<Rightarrow> Some (dp_total p) | _ \<Rightarrow> None))"
proof (cases "admin ctx")
  case (Inl e)
  then show ?thesis by (simp add: handle_admin_dashboard_def call_procedure_def)
next
  case (Inr u)
  define chat where "chat = (\<lambda>oper. operation_answer (an_chat env) oper (net (operation_request (an_chat env) oper)))"
  define donations where "donations = integration_answer (an_donations env) Integration_health
      (net (integration_request (an_donations env) Integration_health))"
  let ?metrics = "metrics_of (an_provider_rank env) now (ms_database taken) db"
  let ?activity = "case chat Admin_activity of Inr (Activity a) \<Rightarrow> Some a | _ \<Rightarrow> None"
  let ?services = "[\<lparr>ss_id = Web_service, ss_healthy = True, ss_latency = 0\<rparr>,
    \<lparr>ss_id = Database_service, ss_healthy = True, ss_latency = ms_database taken\<rparr>,
    \<lparr>ss_id = Chat_service, ss_healthy = \<not> isl (chat Health), ss_latency = ms_chat taken\<rparr>,
    \<lparr>ss_id = Donations_service, ss_healthy = \<not> isl donations, ss_latency = ms_donations taken\<rparr>,
    \<lparr>ss_id = Activity_service, ss_healthy = \<not> isl (chat Admin_activity), ss_latency = ms_activity taken\<rparr>]"
  define d where "d = \<lparr>ad_captured_at = now, ad_system = load_system_metrics (an_number env) m,
      ad_services = ?services, ad_database = ?metrics, ad_activity = ?activity,
      ad_dead_letters = dead_letter_total (chat (Dead_letters None 1))\<rparr>"
  have measured: "measure_service i t r = ((case r of Inl _ \<Rightarrow> None | Inr x \<Rightarrow> Some x),
      \<lparr>ss_id = i, ss_healthy = \<not> isl r, ss_latency = t\<rparr>)" for i t and r :: "service_error + 'x"
    by (cases r) (simp_all add: measure_service_def)
  have counts: "list_all z_nonnegative_int (metric_counts ?metrics)"
    by (rule small_counts [OF metric_counts_bounds [OF assms(1)]])
  have small: "length (at_donation_scans db) \<le> 2147483647" "length (at_metadata_jobs db) \<le> 2147483647"
    "0 \<le> at_size_bytes db" "z_positive_int (at_max_connections db)"
    using assms(1) by (simp_all add: tables_small_def z_positive_int_def z_int_def max_safe_integer_def)
  have "valid_admin_dashboard d"
    using load_system_metrics_valid [OF assms(2)] counts small queue_summary_valid [OF small(1)]
      queue_summary_valid [OF small(2)] assms(3) activity_valid dead_letters_valid
    by (auto simp: valid_admin_dashboard_def d_def metrics_of_def database_summary_of_def optional_holds_def
        dead_letter_total_def chat_def split: option.splits sum.splits chat_value.splits)
  moreover have "get_admin_dashboard env net now taken m (Some db) outbox =
      (if valid_admin_dashboard d then Inr d else Inl (UnexpectedError ''dashboard''), outbox @ dashboard_requests env)"
    by (simp add: get_admin_dashboard_def load_database_metrics_small [OF assms(1)] measured activity_of_simps
        Let_def d_def chat_def donations_def metrics_of_def)
  ultimately have "handle_admin_dashboard env net now taken m (Some db) ctx outbox = (Inr d, outbox @ dashboard_requests env)"
    using Inr by (simp add: handle_admin_dashboard_def call_procedure_def checked_output_def)
  then show ?thesis
    by (simp add: Inr Let_def flip: chat_def donations_def) (simp add: d_def dead_letter_total_def)
qed

definition sample_admin_env :: admin_env where
  "sample_admin_env =
     \<lparr>an_chat =
        \<lparr>ce_service_url = ''http://chat'', ce_secret = ''secret'', ce_app_domain = ''https://site'',
         ce_json = (\<lambda>_. None), ce_is_url = (\<lambda>_. True), ce_href = (\<lambda>p b. b @ p), ce_sha256_hex = (\<lambda>s. s),
         ce_read_activity = (\<lambda>_. None), ce_read_config = (\<lambda>_. None), ce_read_availability = (\<lambda>_. None),
         ce_read_broadcast = (\<lambda>_. None), ce_read_command = (\<lambda>_. None), ce_read_dead_letters = (\<lambda>_. None),
         ce_read_event = (\<lambda>_. None)\<rparr>,
      an_donations =
        \<lparr>ae_service_url = ''http://donations'', ae_secret = ''secret'', ae_app_domain = ''https://site'',
         ae_json = (\<lambda>_. None), ae_is_url = (\<lambda>_. True), ae_href_hash = (\<lambda>_ _ t. t), ae_read_dashboard = (\<lambda>_. None),
         ae_read_open = (\<lambda>_. None), ae_read_asset = (\<lambda>_. None), ae_read_event = (\<lambda>_. None)\<rparr>,
      an_number = (\<lambda>_. None), an_provider_rank = (\<lambda>_. 0)\<rparr>"

definition sample_tables :: admin_tables where
  "sample_tables =
     \<lparr>at_accounts = [5], at_donations = [(1, 7)], at_connections = [], at_sources_enabled = [True],
      at_overlay_hashes = [None], at_donation_scans = [], at_metadata_jobs = [], at_playbacks = [],
      at_size_bytes = 4096, at_db_connections = 1, at_max_connections = 100\<rparr>"

definition sample_machine :: machine where
  "sample_machine =
     \<lparr>mc_linux = True, mc_cgroup_files = [(Some ''1'', Some ''max'')], mc_meminfo = Some ''MemTotal: 8 kB'',
      mc_total_memory = 8192, mc_rss = 100, mc_disk = None, mc_cpu_count = 2, mc_load_average = (0, 0, 0),
      mc_server_uptime = 10, mc_web_uptime = 5\<rparr>"

theorem dashboard_survives_services_witness:
  "\<exists>d. handle_admin_dashboard sample_admin_env (\<lambda>_. Fetch_failed) 9
       \<lparr>ms_database = 1, ms_chat = 2, ms_donations = 3, ms_activity = 4\<rparr> sample_machine (Some sample_tables)
       \<lparr>ctx_user_id = Some 1, ctx_is_admin = True\<rparr> [] = (Inr d, dashboard_requests sample_admin_env) \<and>
     map ss_healthy (ad_services d) = [True, True, False, False, False]"
proof -
  let ?taken = "\<lparr>ms_database = 1, ms_chat = 2, ms_donations = 3, ms_activity = 4\<rparr>"
  let ?ctx = "\<lparr>ctx_user_id = Some 1, ctx_is_admin = True\<rparr>"
  have tables: "tables_small sample_tables" by (simp add: tables_small_def sample_tables_def)
  have machine: "machine_ok sample_machine"
    by (simp add: machine_ok_def sample_machine_def z_positive_int_def z_int_def max_safe_integer_def optional_holds_def)
  have latencies: "list_all (\<lambda>t. 0 \<le> t) [ms_database ?taken, ms_chat ?taken, ms_donations ?taken, ms_activity ?taken]"
    by simp
  have "admin ?ctx = Inr 1" by (simp add: admin_def authenticated_def)
  moreover have "isl (operation_answer env oper Fetch_failed)" for env oper
    by (simp add: operation_answer_def service_answer_def request_json_def request_text_def)
  moreover have "isl (integration_answer env oper Fetch_failed)" for env oper
    by (simp add: integration_answer_def service_answer_def request_json_def request_text_def)
  ultimately show ?thesis
    using dashboard_survives_services [OF tables machine latencies, where ctx = ?ctx and env = sample_admin_env and
      net = "\<lambda>_. Fetch_failed" and now = 9 and outbox = "[]"]
    by (auto simp: Let_def)
qed

text \<open>
  The figures of the dashboard agree: a count over a longer period is not smaller, no period counts
  more than there is, the users active are at most the donations made, the connections of the
  providers add up to all connections, and no provider has more users than connections.
\<close>

theorem dashboard_counts_agree:
  "let s = database_summary_of now db; ps = provider_summaries rank db;
       grows = (\<lambda>p. pc_day p \<le> pc_week p \<and> pc_week p \<le> pc_month p) in
   grows (ds_registered s) \<and> grows (ds_donation_active s) \<and> grows (ds_donation_count s) \<and>
   grows (ds_multichat_configured s) \<and> pc_month (ds_registered s) \<le> ds_total_users s \<and>
   pc_month (ds_multichat_configured s) \<le> ds_multichat_users s \<and> ds_multichat_users s \<le> ds_connection_count s \<and>
   pc_day (ds_donation_active s) \<le> pc_day (ds_donation_count s) \<and>
   pc_week (ds_donation_active s) \<le> pc_week (ds_donation_count s) \<and>
   pc_month (ds_donation_active s) \<le> pc_month (ds_donation_count s) \<and>
   sum_list (map pv_connections ps) = ds_connection_count s \<and>
   list_all (\<lambda>p. pv_users p \<le> pv_connections p \<and> pv_users p \<le> ds_multichat_users s) ps"
proof -
  have users: "length (connected_multichat db) \<le> length (connected_rows db)"
    using card_length [of "map pn_user (connected_rows db)"] by (simp add: length_connected_multichat)
  have "pv_users p \<le> pv_connections p \<and> pv_users p \<le> int (length (connected_multichat db))"
    if member: "p \<in> set (provider_summaries rank db)" for p
  proof -
    obtain pr where p: "p = \<lparr>pv_provider = pr,
        pv_users = int (card (pn_user ` {c \<in> set (connected_rows db). pn_provider c = pr})),
        pv_connections = int (length (filter (\<lambda>c. pn_provider c = pr) (connected_rows db)))\<rparr>"
      using member by (auto simp: provider_summaries_members)
    have "card (pn_user ` {c \<in> set (connected_rows db). pn_provider c = pr}) \<le> card (pn_user ` set (connected_rows db))"
      by (intro card_mono) auto
    moreover have "card (pn_user ` {c \<in> set (connected_rows db). pn_provider c = pr}) \<le>
        length (filter (\<lambda>c. pn_provider c = pr) (connected_rows db))"
      using card_length [of "map pn_user (filter (\<lambda>c. pn_provider c = pr) (connected_rows db))"] by simp
    ultimately show ?thesis by (simp add: p length_connected_multichat)
  qed
  then show ?thesis
    using users since_mono [of 1 7 now] since_mono [of 7 30 now] active_users_mono [of 1 7 now]
      active_users_mono [of 7 30 now] active_users_since since_total [of now 30 "at_accounts db"]
      since_total [of now 30 "map snd (connected_multichat db)"] provider_connections_sum [of rank db]
    by (simp add: database_summary_of_def period_counts_of_def Let_def list_all_iff)
qed

end
