(* ===== verification/OperationalLog.thy ===== *)
theory OperationalLog
  imports Services
begin

unbundle bit_operations_syntax

text \<open>
  The operational log of the web server (\<open>packages/src/server-logger.ts\<close>): what is written of a value,
  the bounded queue of events being published, the cached connection to NATS and its stream; and the
  health check (\<open>server/health.ts\<close>).  Arguments are the environment, \<open>JSON.stringify\<close> of a value that is
  not plain data, the identifiers and the times of events.
\<close>

section \<open>What is written of a value\<close>

definition contains :: "string \<Rightarrow> string \<Rightarrow> bool" where
  "contains s part \<longleftrightarrow> list_ex (\<lambda>i. take (length part) (drop i s) = part) [0..<Suc (length s)]"

definition is_sensitive :: "string \<Rightarrow> bool" where
  "is_sensitive key \<longleftrightarrow>
     (let normalized = filter (\<lambda>c. is_lower_alpha c \<or> is_digit c) (to_lower key)
      in list_ex (contains normalized) [''authorization'', ''cookie'', ''password'', ''secret'', ''token''])"

fun redact :: "json \<Rightarrow> json" where
  "redact (J_arr xs) = J_arr (map redact xs)"
| "redact (J_obj fs) =
     J_obj (map (\<lambda>(k, child). (k, if is_sensitive k then J_str ''[REDACTED]'' else redact child)) fs)"
| "redact j = j"

text \<open>
  A logged value: an error with its cause, plain data, or anything else, of which \<open>JSON.stringify\<close> may
  throw and then only its text is written.
\<close>

datatype log_value =
    Error_value string string "string option" "log_value option"
  | Plain_value json
  | Text_value string

fun normalize_value :: "log_value \<Rightarrow> json" where
  "normalize_value (Error_value name message stack cause) =
     js_object [(''name'', Some (J_str name)), (''message'', Some (J_str message)),
       (''stack'', case stack of Some s \<Rightarrow> if s = [] then None else Some (J_str s) | None \<Rightarrow> None),
       (''cause'', map_option normalize_value cause)]"
| "normalize_value (Plain_value j) = redact j"
| "normalize_value (Text_value s) = J_str s"

section \<open>Names\<close>

definition nats_subject :: "string option \<Rightarrow> string \<Rightarrow> string" where
  "nats_subject namespace service =
     (case namespace of None \<Rightarrow> [] | Some ns \<Rightarrow> if ns = [] then [] else ns @ ''.'') @ ''ops.logs.'' @ service"

text \<open>\<open>toUpperCase\<close>: of the letters below 256 only the sharp s becomes two; those outside ASCII are replaced below.\<close>

definition upper_chars :: "char \<Rightarrow> string" where
  "upper_chars c =
     (if is_lower_alpha c then [char_of (code c - 32)] else if code c = 223 then ''SS'' else [c])"

definition is_stream_char :: "char \<Rightarrow> bool" where
  "is_stream_char c \<longleftrightarrow> is_upper_alpha c \<or> is_digit c \<or> c = CHR ''_'' \<or> c = CHR ''-''"

definition stream_name :: "string option \<Rightarrow> string" where
  "stream_name namespace =
     (case namespace of
        None \<Rightarrow> ''OPERATIONAL_LOGS''
      | Some ns \<Rightarrow>
          if ns = [] then ''OPERATIONAL_LOGS''
          else ''CB_'' @ map (\<lambda>c. if is_stream_char c then c else CHR ''_'') (concat (map upper_chars ns)) @ ''_OPERATIONAL_LOGS'')"

section \<open>The stream\<close>

text \<open>Calls of the stream manager; a stream that another process adds first is looked up again.\<close>

datatype manager_call = Stream_info string | Stream_add string string

definition ensure_stream ::
  "(manager_call list \<Rightarrow> manager_call \<Rightarrow> bool) \<Rightarrow> string option \<Rightarrow> bool \<times> manager_call list" where
  "ensure_stream answers namespace =
     (let name = stream_name namespace; info = Stream_info name;
          add = Stream_add name (nats_subject namespace ''>'') in
      if answers [] info then (True, [info])
      else if answers [info] add then (True, [info, add])
      else (answers [info, add] info, [info, add, info]))"

section \<open>The connection\<close>

text \<open>
  The cached promise: \<open>connecting\<close> and \<open>connected\<close> are promises of a generation.  Attempts end and
  connections close at any time, in any order, each with the generation it was started with.
\<close>

record jet_stream =
  js_cached :: "nat option"
  js_generation :: nat

datatype jet_event = Get_jet_stream | Connect_failed nat | Connection_closed nat

definition reset_connection :: "nat \<Rightarrow> jet_stream \<Rightarrow> jet_stream" where
  "reset_connection generation s =
     (if generation = js_generation s then s\<lparr>js_cached := None\<rparr> else s)"

definition get_jet_stream :: "jet_stream \<Rightarrow> jet_stream" where
  "get_jet_stream s =
     (case js_cached s of
        Some _ \<Rightarrow> s
      | None \<Rightarrow> s\<lparr>js_generation := js_generation s + 1, js_cached := Some (js_generation s + 1)\<rparr>)"

definition jet_step :: "jet_stream \<Rightarrow> jet_event \<Rightarrow> jet_stream" where
  "jet_step s ev =
     (case ev of
        Get_jet_stream \<Rightarrow> get_jet_stream s
      | Connect_failed generation \<Rightarrow> reset_connection generation s
      | Connection_closed generation \<Rightarrow> reset_connection generation s)"

section \<open>The queue\<close>

datatype log_level = Info | Warn | Error_level

record log_event =
  le_id :: string
  le_occurred_at :: string
  le_level :: log_level
  le_service :: string
  le_environment :: string
  le_message :: string
  le_fields :: "json option"

definition queue_capacity :: nat where "queue_capacity = 256"

text \<open>What the process prints, and the events handed to the publisher.\<close>

datatype console_line = Event_line log_event | Full_line nat

record log_state =
  lg_pending :: nat
  lg_dropped :: nat
  lg_console :: "console_line list"
  lg_published :: "log_event list"

definition no_log :: log_state where
  "no_log = \<lparr>lg_pending = 0, lg_dropped = 0, lg_console = [], lg_published = []\<rparr>"

text \<open>\<open>&\<close> works on 32 bits.\<close>

definition reports_drop :: "nat \<Rightarrow> bool" where
  "reports_drop dropped \<longleftrightarrow>
     dropped = 1 \<or> (dropped mod 2 ^ 32) AND ((dropped - 1) mod 2 ^ 32) = 0"

definition app_environment :: "string option \<Rightarrow> string option \<Rightarrow> string" where
  "app_environment app_env node_env =
     (case app_env of Some e \<Rightarrow> e | None \<Rightarrow> (case node_env of Some e \<Rightarrow> e | None \<Rightarrow> ''development''))"

definition log_fields :: "(string \<times> json) list option \<Rightarrow> json option" where
  "log_fields fs = (case fs of None \<Rightarrow> None | Some kvs \<Rightarrow> if kvs = [] then None else Some (redact (J_obj kvs)))"

definition make_event ::
  "string \<Rightarrow> string \<Rightarrow> string \<Rightarrow> log_level \<Rightarrow> string \<Rightarrow> (string \<times> json) list option \<Rightarrow> log_event" where
  "make_event env i at level message fs =
     \<lparr>le_id = i, le_occurred_at = at, le_level = level, le_service = ''web'', le_environment = env,
      le_message = message, le_fields = log_fields fs\<rparr>"

definition write_event :: "log_event \<Rightarrow> log_state \<Rightarrow> log_state" where
  "write_event ev s =
     (let printed = s\<lparr>lg_console := lg_console s @ [Event_line ev]\<rparr> in
      if queue_capacity \<le> lg_pending s
      then (let dropped = lg_dropped s + 1 in
            printed\<lparr>lg_dropped := dropped,
              lg_console := lg_console printed @ (if reports_drop dropped then [Full_line dropped] else [])\<rparr>)
      else printed\<lparr>lg_pending := lg_pending s + 1, lg_published := lg_published s @ [ev]\<rparr>)"

text \<open>\<open>logError\<close> writes the error beside the fields.\<close>

definition error_fields :: "log_value \<Rightarrow> (string \<times> json) list \<Rightarrow> (string \<times> json) list" where
  "error_fields err fs =
     (if list_ex (\<lambda>(k, _). k = ''error'') fs
      then map (\<lambda>(k, v). (k, if k = ''error'' then normalize_value err else v)) fs
      else fs @ [(''error'', normalize_value err)])"

datatype log_action = Write log_event | Publish_ended

definition log_step :: "log_state \<Rightarrow> log_action \<Rightarrow> log_state" where
  "log_step s a =
     (case a of
        Write ev \<Rightarrow> write_event ev s
      | Publish_ended \<Rightarrow> s\<lparr>lg_pending := lg_pending s - 1\<rparr>)"

section \<open>The health check\<close>

datatype health_signal = Database_answered | Database_failed | Time_ran_out

definition database_timeout_ms :: nat where "database_timeout_ms = 2000"

text \<open>The first signal decides; later ones are ignored.\<close>

definition health_response :: "health_signal list \<Rightarrow> (nat \<times> string) option" where
  "health_response signals =
     (case signals of
        [] \<Rightarrow> None
      | Database_answered # _ \<Rightarrow> Some (200, ''ok'')
      | _ # _ \<Rightarrow> Some (503, ''database unavailable''))"

end
