(* ===== verification/OperationalLogProperties.thy ===== *)
theory OperationalLogProperties
  imports OperationalLog
begin

text \<open>
  The operational log never writes a secret, never holds more than its capacity of events, reports
  drops ever more rarely, and opens a new connection only after the current one is gone.
\<close>

section \<open>Redaction\<close>

text \<open>No field with a sensitive name shows its value, however deep.\<close>

fun no_secrets :: "json \<Rightarrow> bool" where
  "no_secrets (J_arr xs) = list_all no_secrets xs"
| "no_secrets (J_obj fs) =
     list_all (\<lambda>(k, child). if is_sensitive k then child = J_str ''[REDACTED]'' else no_secrets child) fs"
| "no_secrets j = True"

fun plain_names :: "json \<Rightarrow> bool" where
  "plain_names (J_arr xs) = list_all plain_names xs"
| "plain_names (J_obj fs) = list_all (\<lambda>(k, child). \<not> is_sensitive k \<and> plain_names child) fs"
| "plain_names j = True"

lemma no_secrets_redact: "no_secrets (redact j)"
  by (induction j rule: redact.induct) (auto simp: list_all_iff)

lemma redact_no_secrets: "no_secrets j \<Longrightarrow> redact j = j"
proof (induction j rule: redact.induct)
  case (1 xs)
  then show ?case by (auto simp: list_all_iff intro: map_idI)
next
  case (2 fs)
  then show ?case by (auto simp: list_all_iff intro!: map_idI split: if_splits)
qed simp_all

lemma plain_names_no_secrets: "plain_names j \<Longrightarrow> no_secrets j"
  by (induction j rule: plain_names.induct) (auto simp: list_all_iff)

lemma plain_names_redact: "plain_names j \<Longrightarrow> redact j = j"
  by (rule redact_no_secrets [OF plain_names_no_secrets])

section \<open>Drops\<close>

lemma and_pred_power: "0 < n \<Longrightarrow> n AND (n - 1) = 0 \<longleftrightarrow> (\<exists>k. n = (2::nat) ^ k)"
proof (induction n rule: less_induct)
  case (less n)
  show ?case
  proof (cases "even n")
    case True
    then obtain m where m: "n = 2 * m" "0 < m" using less.prems by (auto elim: evenE)
    have "n AND (n - 1) = 2 * (m AND (m - 1))"
    proof -
      have "odd (2 * m - 1)" "(2 * m - 1) div 2 = m - 1" using m by auto
      then show ?thesis unfolding m(1) by (subst and_rec) simp
    qed
    moreover have "(\<exists>k. n = 2 ^ k) \<longleftrightarrow> (\<exists>k. m = 2 ^ k)"
    proof
      assume "\<exists>k. n = 2 ^ k"
      then obtain k where k: "n = 2 ^ k" by blast
      then have "k \<noteq> 0" using True by (intro notI) simp
      then obtain l where "k = Suc l" by (cases k) auto
      then show "\<exists>k. m = 2 ^ k" using k m by auto
    next
      assume "\<exists>k. m = 2 ^ k"
      then obtain k where "m = 2 ^ k" by blast
      then have "n = 2 ^ Suc k" using m by simp
      then show "\<exists>k. n = 2 ^ k" by blast
    qed
    ultimately show ?thesis using less.IH [of m] m by auto
  next
    case False
    then obtain m where m: "n = 2 * m + 1" by (auto elim: oddE)
    have "n AND (n - 1) = 2 * m"
      unfolding m by (subst and_rec) simp
    moreover have "(\<exists>k. n = 2 ^ k) \<longleftrightarrow> m = 0"
    proof
      assume "\<exists>k. n = 2 ^ k"
      then obtain k where k: "n = 2 ^ k" by blast
      then have "k = 0" using False by (cases k) auto
      then show "m = 0" using k m by simp
    next
      assume "m = 0"
      then have "n = 2 ^ 0" using m by simp
      then show "\<exists>k. n = 2 ^ k" by blast
    qed
    ultimately show ?thesis by simp
  qed
qed

lemma reports_drop_iff: "0 < d \<Longrightarrow> d < 2 ^ 32 \<Longrightarrow> reports_drop d \<longleftrightarrow> (\<exists>k. d = 2 ^ k)"
  using and_pred_power [of d] by (auto simp: reports_drop_def intro: exI [of _ 0])

section \<open>Runs\<close>

definition full_lines :: "console_line list \<Rightarrow> console_line list" where
  "full_lines ls = filter (\<lambda>l. case l of Full_line _ \<Rightarrow> True | Event_line _ \<Rightarrow> False) ls"

definition event_lines :: "console_line list \<Rightarrow> log_event list" where
  "event_lines ls = concat (map (\<lambda>l. case l of Event_line e \<Rightarrow> [e] | Full_line _ \<Rightarrow> []) ls)"

definition written :: "log_action list \<Rightarrow> log_event list" where
  "written actions = concat (map (\<lambda>a. case a of Write e \<Rightarrow> [e] | Publish_ended \<Rightarrow> []) actions)"

definition log_ok :: "log_state \<Rightarrow> bool" where
  "log_ok s \<longleftrightarrow> lg_pending s \<le> queue_capacity \<and>
     length (event_lines (lg_console s)) = length (lg_published s) + lg_dropped s \<and>
     full_lines (lg_console s) = map Full_line (filter reports_drop [1..<Suc (lg_dropped s)])"

lemma line_simps [simp]:
  "event_lines [] = []" "event_lines (ls @ ms) = event_lines ls @ event_lines ms"
  "event_lines (Event_line e # ls) = e # event_lines ls" "event_lines (Full_line n # ls) = event_lines ls"
  "full_lines [] = []" "full_lines (ls @ ms) = full_lines ls @ full_lines ms"
  "full_lines (Event_line e # ls) = full_lines ls" "full_lines (Full_line n # ls) = Full_line n # full_lines ls"
  by (simp_all add: event_lines_def full_lines_def)

lemma write_event_ok: "log_ok s \<Longrightarrow> log_ok (write_event e s)"
  by (auto simp: log_ok_def write_event_def Let_def)

interpretation log_machine: invariant_machine log_step "\<lambda>_. True" log_ok
proof
  fix s a
  assume "log_ok s"
  then show "log_ok (log_step s a)"
    using write_event_ok [of s] by (cases a) (auto simp: log_step_def log_ok_def)
qed

lemma run_event_lines: "event_lines (lg_console (foldl log_step s actions)) = event_lines (lg_console s) @ written actions"
  by (induction actions arbitrary: s)
    (auto simp: written_def log_step_def write_event_def Let_def split: log_action.split)

lemma written_length: "length (written actions) \<le> length actions"
  by (induction actions) (auto simp: written_def split: log_action.split)

section \<open>Connections\<close>

text \<open>Attempts are started only after the one before has ended: their number is bounded by the ends seen.\<close>

definition ends :: "jet_event list \<Rightarrow> nat" where
  "ends evs = length (filter (\<lambda>ev. ev \<noteq> Get_jet_stream) evs)"

definition jet_ok :: "jet_stream \<Rightarrow> bool" where
  "jet_ok s \<longleftrightarrow> (case js_cached s of None \<Rightarrow> True | Some g \<Rightarrow> g = js_generation s)"

lemma jet_step_ok: "jet_ok s \<Longrightarrow> jet_ok (jet_step s ev)"
  by (cases ev) (auto simp: jet_step_def get_jet_stream_def reset_connection_def jet_ok_def split: option.splits)

lemma jet_step_bound:
  "js_generation (jet_step s ev) + (if js_cached (jet_step s ev) = None then 1 else 0)
     \<le> js_generation s + (if js_cached s = None then 1 else 0) + ends [ev]"
  by (cases ev) (auto simp: jet_step_def get_jet_stream_def reset_connection_def ends_def split: option.splits)

lemma jet_run_bound:
  "js_generation (foldl jet_step s evs) + (if js_cached (foldl jet_step s evs) = None then 1 else 0)
     \<le> js_generation s + (if js_cached s = None then 1 else 0) + ends evs"
proof (induction evs rule: rev_induct)
  case (snoc ev evs)
  have "ends (evs @ [ev]) = ends evs + ends [ev]" by (simp add: ends_def)
  then show ?case using snoc jet_step_bound [of "foldl jet_step s evs" ev] by simp
qed (simp add: ends_def)

section \<open>Properties\<close>

text \<open>
  C10: Redaction hides the value of every field with a sensitive name at every depth, changes
  nothing when applied twice, and changes nothing of a value without such names.
\<close>
theorem redact_hides_secrets:
  "no_secrets (redact j) \<and> redact (redact j) = redact j \<and> (plain_names j \<longrightarrow> redact j = j)"
  using no_secrets_redact redact_no_secrets plain_names_redact by blast

theorem redact_hides_secrets_witness:
  "redact (J_obj [(''count'', J_null)]) = J_obj [(''count'', J_null)]"
proof -
  have "plain_names (J_obj [(''count'', J_null)])" by code_simp
  then show ?thesis using redact_hides_secrets by blast
qed

text \<open>
  C11: Whatever is logged while publications end in any order, every event is printed, in order;
  at most 256 are being published; each printed event is either handed to the publisher or counted as
  dropped; and the lines that report drops are exactly those for the powers of two.
\<close>
theorem log_queue_bounded:
  assumes "length actions < 2 ^ 32"
  defines "s \<equiv> foldl log_step no_log actions"
  shows "lg_pending s \<le> 256 \<and> event_lines (lg_console s) = written actions \<and>
    length (lg_published s) + lg_dropped s = length (written actions) \<and>
    full_lines (lg_console s) = map Full_line (filter (\<lambda>d. \<exists>k. d = 2 ^ k) [1..<Suc (lg_dropped s)])"
proof -
  have ok: "log_ok s" unfolding s_def by (rule log_machine.run_invar) (auto simp: log_ok_def no_log_def list_all_iff)
  have ev: "event_lines (lg_console s) = written actions"
    unfolding s_def by (simp add: run_event_lines no_log_def)
  have "length (written actions) \<le> length actions" by (rule written_length)
  then have d: "lg_dropped s < 2 ^ 32" using ok ev assms(1) by (auto simp: log_ok_def)
  have "filter reports_drop [1..<Suc (lg_dropped s)] = filter (\<lambda>d. \<exists>k. d = 2 ^ k) [1..<Suc (lg_dropped s)]"
    by (rule filter_cong) (use d in \<open>auto simp: reports_drop_iff\<close>)
  then show ?thesis using ok ev by (simp add: log_ok_def queue_capacity_def)
qed

theorem log_queue_bounded_witness:
  "lg_pending (foldl log_step no_log [Write (make_event ''test'' ''1'' ''t'' Info ''up'' None), Publish_ended]) \<le> 256"
  using log_queue_bounded
    [of "[Write (make_event ''test'' ''1'' ''t'' Info ''up'' None), Publish_ended]"] by simp

text \<open>A failing or closing connection is replaced once: there are never more attempts than one and one per end seen.\<close>
theorem reconnects_bounded:
  "js_generation (foldl jet_step \<lparr>js_cached = None, js_generation = 0\<rparr> evs) \<le> 1 + ends evs"
  using jet_run_bound [of "\<lparr>js_cached = None, js_generation = 0\<rparr>" evs] by simp

end
