(* ===== verification/ClientCache.thy ===== *)
theory ClientCache
  imports Site Donations VideoProperties
begin

text \<open>
  The queries a page keeps and what its changes do to them (\<open>hooks/api.ts\<close>, \<open>hooks/alerts.ts\<close>,
  \<open>hooks/restream.ts\<close>, \<open>hooks/chat-service.ts\<close>).  An answer in the cache is used until its query is
  invalidated, which fetches it again; some queries are fetched at an interval as well.
\<close>

section \<open>Queries and mutations\<close>

datatype query_key =
    User_info_key | Video_page_key | Donation_page_key | Donation_overview_key | Video_priorities_key
  | Video_queues_key | Shared_video_page_key | Auth_urls_key | Admin_dashboard_key | Alert_dashboard_key
  | Restream_config_key | Chat_config_key | Chat_availability_key | Chat_dead_letters_key

datatype client_mutation =
    Set_slug_m | Update_queue_currency_m | Update_public_queue_settings_m | Disconnect_m
  | Connect_donate_stream_m | Connect_tourniquet_m | Retry_video_metadata_m | Add_video_m
  | Create_video_queue_m | Update_video_queue_m | Move_video_m | Update_video_priority_m
  | Update_video_status_m | Update_video_m

definition queue_mutation_keys :: "query_key list" where
  "queue_mutation_keys =
     [Video_queues_key, Video_page_key, Video_priorities_key, Shared_video_page_key, Donation_page_key]"

definition donation_connection_keys :: "query_key list" where
  "donation_connection_keys = [User_info_key, Donation_page_key, Donation_overview_key]"

text \<open>What a successful mutation invalidates.\<close>

definition invalidated :: "client_mutation \<Rightarrow> query_key list" where
  "invalidated m =
     (case m of
        Set_slug_m \<Rightarrow> [User_info_key]
      | Update_queue_currency_m \<Rightarrow> [User_info_key, Video_page_key, Donation_page_key, Video_priorities_key]
      | Update_public_queue_settings_m \<Rightarrow> [User_info_key, Shared_video_page_key]
      | Disconnect_m \<Rightarrow> [User_info_key]
      | Connect_donate_stream_m \<Rightarrow> donation_connection_keys
      | Connect_tourniquet_m \<Rightarrow> donation_connection_keys
      | Retry_video_metadata_m \<Rightarrow> [Video_page_key]
      | Add_video_m \<Rightarrow> [Video_page_key]
      | Create_video_queue_m \<Rightarrow> queue_mutation_keys
      | Update_video_queue_m \<Rightarrow> queue_mutation_keys
      | Move_video_m \<Rightarrow> queue_mutation_keys
      | Update_video_priority_m \<Rightarrow> [Video_priorities_key, Video_page_key, Donation_page_key]
      | Update_video_status_m \<Rightarrow> [Video_page_key, Donation_page_key]
      | Update_video_m \<Rightarrow> [Video_page_key, Donation_page_key])"

text \<open>Every mutation of the alerts page refreshes its dashboard, and those of the restream page its configuration.\<close>

datatype alert_mutation =
  Alert_settings_m | Alert_rotate_m | Alert_test_m | Alert_paused_m | Alert_skip_m | Alert_replay_m | Alert_delete_asset_m

definition alert_invalidated :: "alert_mutation \<Rightarrow> query_key list" where
  "alert_invalidated m = [Alert_dashboard_key]"

datatype restream_mutation =
  Create_destination_m | Delete_destination_m | Rotate_ingest_key_m | Set_destination_enabled_m | Update_destination_m

definition restream_invalidated :: "restream_mutation \<Rightarrow> query_key list" where
  "restream_invalidated m = [Restream_config_key]"

text \<open>Milliseconds between two fetches of a query on show.\<close>

definition refetch_interval :: "query_key \<Rightarrow> nat option" where
  "refetch_interval k =
     (case k of
        Video_page_key \<Rightarrow> Some 15000 | Shared_video_page_key \<Rightarrow> Some 15000 | Admin_dashboard_key \<Rightarrow> Some 30000
      | Alert_dashboard_key \<Rightarrow> Some 5000 | Restream_config_key \<Rightarrow> Some 5000 | _ \<Rightarrow> None)"

text \<open>The mutation behind a request of the video queue's pages.\<close>

definition mutation_of :: "site_request \<Rightarrow> client_mutation" where
  "mutation_of req =
     (case req of
        UpdateSlugRequest _ \<Rightarrow> Set_slug_m
      | UpdatePublicQueueSettingsRequest _ \<Rightarrow> Update_public_queue_settings_m
      | VideoQueueRequest r \<Rightarrow>
          (case r of
             CreateVideoQueue _ \<Rightarrow> Create_video_queue_m
           | UpdateVideoQueue _ _ _ \<Rightarrow> Update_video_queue_m
           | MoveVideo _ _ \<Rightarrow> Move_video_m
           | UpdateQueueCurrency _ _ \<Rightarrow> Update_queue_currency_m
           | AddVideo _ _ _ _ _ \<Rightarrow> Add_video_m
           | UpdateVideoPriority _ _ _ \<Rightarrow> Update_video_priority_m
           | UpdateVideoStatus _ _ _ \<Rightarrow> Update_video_status_m
           | RetryVideoMetadata _ \<Rightarrow> Retry_video_metadata_m
           | UpdateVideo _ _ _ _ \<Rightarrow> Update_video_m))"

section \<open>The cache\<close>

datatype client_query =
    User_info_q
  | Video_page_q page_input
  | Donation_page_q donation_page_request
  | Donation_overview_q
  | Video_priorities_q
  | Video_queues_q
  | Shared_video_page_q shared_input

definition key_of :: "client_query \<Rightarrow> query_key" where
  "key_of q =
     (case q of
        User_info_q \<Rightarrow> User_info_key | Video_page_q _ \<Rightarrow> Video_page_key | Donation_page_q _ \<Rightarrow> Donation_page_key
      | Donation_overview_q \<Rightarrow> Donation_overview_key | Video_priorities_q \<Rightarrow> Video_priorities_key
      | Video_queues_q \<Rightarrow> Video_queues_key | Shared_video_page_q _ \<Rightarrow> Shared_video_page_key)"

datatype client_answer =
    User_info_answer "api_error + user_info option"
  | Video_page_answer "failure + video_page"
  | Donation_page_answer "api_error + donation_page"
  | Donation_overview_answer "api_error + donation_overview"
  | Video_priorities_answer "failure + video_priority list"
  | Video_queues_answer "failure + video_queue list"
  | Shared_video_page_answer "failure + shared_page option"

record query_env =
  qe_connections :: "int \<Rightarrow> user_connections"
  qe_donations :: donation_env

text \<open>The answer of the server to a signed-in visitor at a time.\<close>

definition server_answer :: "query_env \<Rightarrow> timestamp \<Rightarrow> api_context \<Rightarrow> int \<Rightarrow> db \<Rightarrow> client_query \<Rightarrow> client_answer" where
  "server_answer env now ctx uid db q =
     (case q of
        User_info_q \<Rightarrow> User_info_answer (handle_user_info (qe_connections env) ctx db)
      | Video_page_q inp \<Rightarrow> Video_page_answer (list_page (de_is_url (qe_donations env)) db uid inp)
      | Donation_page_q r \<Rightarrow> Donation_page_answer (handle_donation_page (qe_donations env) now ctx r db)
      | Donation_overview_q \<Rightarrow> Donation_overview_answer (handle_donation_overview (qe_donations env) ctx db)
      | Video_priorities_q \<Rightarrow> Video_priorities_answer (list_priorities db uid)
      | Video_queues_q \<Rightarrow> Video_queues_answer (list_queues db uid)
      | Shared_video_page_q inp \<Rightarrow>
          Shared_video_page_answer (list_shared_page (de_is_url (qe_donations env)) db inp))"

record cache_entry =
  ce_query :: client_query
  ce_answer :: client_answer
  ce_stale :: bool

text \<open>\<open>invalidateQueries({queryKey})\<close> of a procedure takes in every input of it.\<close>

definition invalidate_queries :: "query_key list \<Rightarrow> cache_entry list \<Rightarrow> cache_entry list" where
  "invalidate_queries keys cache =
     map (\<lambda>e. if key_of (ce_query e) \<in> set keys then e\<lparr>ce_stale := True\<rparr> else e) cache"

text \<open>A mutation and its \<open>onSuccess\<close>.\<close>

definition after_mutation :: "site_request \<Rightarrow> api_error + 'r \<Rightarrow> cache_entry list \<Rightarrow> cache_entry list" where
  "after_mutation req result cache =
     (case result of Inl _ \<Rightarrow> cache | Inr _ \<Rightarrow> invalidate_queries (invalidated (mutation_of req)) cache)"

text \<open>Every answer on show is current, is being fetched again, or is fetched at an interval.\<close>

definition current_answer :: "query_env \<Rightarrow> api_context \<Rightarrow> int \<Rightarrow> db \<Rightarrow> cache_entry \<Rightarrow> bool" where
  "current_answer env ctx uid db e \<longleftrightarrow>
     (if ce_stale e \<or> refetch_interval (key_of (ce_query e)) \<noteq> None then True
      else \<exists>now. ce_answer e = server_answer env now ctx uid db (ce_query e))"

definition cache_current :: "query_env \<Rightarrow> api_context \<Rightarrow> int \<Rightarrow> db \<Rightarrow> cache_entry list \<Rightarrow> bool" where
  "cache_current env ctx uid db cache \<longleftrightarrow> list_all (current_answer env ctx uid db) cache"

section \<open>What a query reads\<close>

lemma concat_map_filter: "concat (map f xs) = concat (map f (filter (\<lambda>x. f x \<noteq> []) xs))"
  by (induction xs) auto

lemma joined_videos_cong:
  assumes "donations db' = donations db" and "priorities db' = priorities db"
    and "map (\<lambda>u. (u_id u, u_currency u)) (users db') = map (\<lambda>u. (u_id u, u_currency u)) (users db)"
  shows "joined_videos db' uid ids v = joined_videos db uid ids v"
proof -
  have rows: "map (\<lambda>u. donation_video_of db' u did v) (filter (\<lambda>u. u_id u = i) (users db')) =
      map (\<lambda>u. donation_video_of db u did v) (filter (\<lambda>u. u_id u = i) (users db))" for did i
  proof -
    define row where "row = (\<lambda>(p :: int \<times> queue_currency).
      \<lparr>dv_donation_id = did, dv_video_id = v_id v, dv_url = v_url v, dv_title = v_title v,
       dv_start_seconds = v_start v, dv_end_seconds = v_end v, dv_queue_amount = v_amount v,
       dv_queue_currency = snd p, dv_priority_label = map_option p_label (find_priority db v),
       dv_watched_at = v_watched_at v, dv_bookmarked_at = v_bookmarked_at v\<rparr>)"
    have fp: "find_priority db' v = find_priority db v" using assms(2) by (simp add: find_priority_def)
    have "map (\<lambda>u. donation_video_of d u did v) (filter (\<lambda>u. u_id u = i) us) =
        map row (filter (\<lambda>p. fst p = i) (map (\<lambda>u. (u_id u, u_currency u)) us))"
      if "find_priority d v = find_priority db v" for d us
      using that by (induction us) (auto simp: donation_video_of_def row_def)
    then show ?thesis using fp assms(3) by simp
  qed
  show ?thesis using assms(1) rows by (cases "v_donation v") (simp_all add: joined_videos_def)
qed

lemma donation_page_cong:
  assumes "donations db' = donations db"
    and "\<And>ids. donation_video_rows db' uid ids = donation_video_rows db uid ids"
  shows "list_donations_page env db' uid inp = list_donations_page env db uid inp"
  using assms by (simp add: list_donations_page_def count_donations_def donation_rows_def sorted_donations_def Let_def cong: if_cong)

lemma donation_video_rows_cong:
  assumes "donations db' = donations db" and "priorities db' = priorities db" and "videos db' = videos db"
    and "map (\<lambda>u. (u_id u, u_currency u)) (users db') = map (\<lambda>u. (u_id u, u_currency u)) (users db)"
  shows "donation_video_rows db' uid ids = donation_video_rows db uid ids"
proof -
  have "joined_videos db' uid ids = joined_videos db uid ids"
    using joined_videos_cong [OF assms(1,2,4)] by (intro ext)
  then show ?thesis using assms(3) by (simp add: donation_video_rows_def)
qed

text \<open>A video that was added by hand is none of a donation.\<close>

lemma donation_video_rows_manual:
  assumes "donations db' = donations db" and "priorities db' = priorities db" and "users db' = users db"
    and "videos db' = videos db @ [row]" and "v_donation row = None"
  shows "donation_video_rows db' uid ids = donation_video_rows db uid ids"
proof -
  let ?f = "joined_videos db uid ids"
  have f: "joined_videos db' uid ids = ?f"
    using joined_videos_cong [OF assms(1,2)] assms(3) by (auto intro!: ext)
  have "?f row = []" using assms(5) by (simp add: joined_videos_def)
  then have "filter (\<lambda>v. ?f v \<noteq> []) (sort_key v_id (videos db @ [row])) =
      filter (\<lambda>v. ?f v \<noteq> []) (sort_key v_id (videos db))"
    by (simp only: filter_sort) simp
  then show ?thesis unfolding donation_video_rows_def f assms(4) by (metis concat_map_filter)
qed

lemma overview_cong: "donations db' = donations db \<Longrightarrow> get_donation_overview env db' uid = get_donation_overview env db uid"
  by (simp add: get_donation_overview_def recent_donations_def)

lemma user_info_cong: "users db' = users db \<Longrightarrow> get_user_info c db_uid db' = get_user_info c db_uid db"
  by (simp add: get_user_info_def find_user_def)

lemma list_queues_cong: "queues db' = queues db \<Longrightarrow> list_queues db' uid = list_queues db uid"
  by (simp add: list_queues_def)

lemma list_priorities_cong: "priorities db' = priorities db \<Longrightarrow> list_priorities db' uid = list_priorities db uid"
  by (simp add: list_priorities_def)

section \<open>What a request changes\<close>

lemma atomically_result: "atomically s r = (Inr x, s') \<Longrightarrow> r = Inr (x, s')"
  by (auto simp: atomically_def split: sum.splits prod.splits)

lemmas outcome_simps = bind_result_Inr_iff Let_def

lemma create_queue_frame:
  "create_queue uid label db = (Inr x, db') \<Longrightarrow>
     users db' = users db \<and> priorities db' = priorities db \<and> donations db' = donations db \<and> videos db' = videos db"
  by (auto simp: create_queue_def Let_def split: if_split_asm)

lemma update_queue_frame:
  "update_queue uid qid label d db = (Inr x, db') \<Longrightarrow>
     users db' = users db \<and> priorities db' = priorities db \<and> donations db' = donations db \<and> videos db' = videos db"
  by (auto simp: update_queue_def outcome_simps dest!: atomically_result)

lemma move_video_frame:
  "move_video uid vid qid db = (Inr x, db') \<Longrightarrow>
     users db' = users db \<and> priorities db' = priorities db \<and> donations db' = donations db \<and> queues db' = queues db"
  by (auto simp: move_video_def outcome_simps dest!: atomically_result)

lemma update_status_frame:
  "update_status uid vid w b db = (Inr x, db') \<Longrightarrow>
     users db' = users db \<and> priorities db' = priorities db \<and> donations db' = donations db \<and> queues db' = queues db"
  by (auto simp: update_status_def outcome_simps dest!: atomically_result)

lemma retry_metadata_frame:
  "retry_metadata now uid vid db = (Inr x, db') \<Longrightarrow>
     users db' = users db \<and> priorities db' = priorities db \<and> donations db' = donations db \<and> queues db' = queues db \<and>
     videos db' = videos db"
  by (auto simp: retry_metadata_def outcome_simps dest!: atomically_result)

lemma update_video_frame:
  "update_video uid vid amount st e db = (Inr x, db') \<Longrightarrow>
     users db' = users db \<and> priorities db' = priorities db \<and> donations db' = donations db \<and> queues db' = queues db"
  by (auto simp: update_video_def outcome_simps dest!: atomically_result)

lemma update_priority_frame:
  "update_priority uid pid label m db = (Inr x, db') \<Longrightarrow>
     users db' = users db \<and> donations db' = donations db \<and> queues db' = queues db \<and> videos db' = videos db"
  by (auto simp: update_priority_def Let_def split: if_split_asm sum.splits option.splits)

lemma set_queue_currency_frame:
  "set_queue_currency uid c rate db = (Inr x, db') \<Longrightarrow> donations db' = donations db \<and> queues db' = queues db"
  by (auto simp: set_queue_currency_def outcome_simps dest!: atomically_result split: if_split_asm)

lemma add_manual_video_frame:
  assumes "add_manual_video rurl now uid url amount st e q db = (Inr x, db')"
  shows "\<exists>row. users db' = users db \<and> priorities db' = priorities db \<and> donations db' = donations db \<and>
    queues db' = queues db \<and> videos db' = videos db @ [row] \<and> v_donation row = None"
  using assms
proof (cases rule: add_manual_video_result)
  case (3 pv qid row)
  have shape: "row = (manual_video uid now pv url amount st e (next_video_id db) qid)\<lparr>v_priority := v_priority row\<rparr>"
    using 3(2) by (rule store_video_shape)
  have "v_donation row = None" by (subst shape) (simp add: manual_video_def)
  then show ?thesis using 3(4) by auto
qed auto

section \<open>Answers that stay\<close>

text \<open>
  What a change may touch when only some queries are invalidated: the interval takes care of the pages of
  videos.
\<close>

definition covers_change :: "query_key list \<Rightarrow> int \<Rightarrow> db \<Rightarrow> db \<Rightarrow> bool" where
  "covers_change ks uid db db' \<longleftrightarrow>
     donations db' = donations db \<and> (User_info_key \<in> set ks \<or> users db' = users db) \<and>
     (Video_queues_key \<in> set ks \<or> queues db' = queues db) \<and>
     (Video_priorities_key \<in> set ks \<or> priorities db' = priorities db) \<and>
     (Donation_page_key \<in> set ks \<or> (\<forall>ids. donation_video_rows db' uid ids = donation_video_rows db uid ids))"

lemma answer_stays:
  assumes "covers_change ks uid db db'" and "authenticated ctx = Inr uid"
    and "key_of q \<notin> set ks" and "refetch_interval (key_of q) = None"
  shows "server_answer env now ctx uid db' q = server_answer env now ctx uid db q"
proof (cases q)
  case User_info_q
  then have "users db' = users db" using assms(1,3) by (simp add: covers_change_def key_of_def)
  then have "get_user_info c u db' = get_user_info c u db" for c u by (rule user_info_cong)
  then show ?thesis using User_info_q
    by (cases "ctx_user_id ctx") (simp_all add: server_answer_def handle_user_info_def)
next
  case (Donation_page_q r)
  then have "donations db' = donations db" "\<And>ids. donation_video_rows db' uid ids = donation_video_rows db uid ids"
    using assms(1,3) by (auto simp: covers_change_def key_of_def)
  then have "list_donations_page e db' uid inp = list_donations_page e db uid inp" for e inp
    by (rule donation_page_cong)
  then show ?thesis using Donation_page_q assms(2)
    by (simp add: server_answer_def handle_donation_page_def call_procedure_def split: option.split)
next
  case Donation_overview_q
  then show ?thesis using assms(1,2) overview_cong [of db' db]
    by (simp add: server_answer_def handle_donation_overview_def covers_change_def)
next
  case Video_priorities_q
  then show ?thesis using assms(1,3) list_priorities_cong [of db' db]
    by (simp add: server_answer_def covers_change_def key_of_def)
next
  case Video_queues_q
  then show ?thesis using assms(1,3) list_queues_cong [of db' db]
    by (simp add: server_answer_def covers_change_def key_of_def)
qed (use assms(4) in \<open>simp_all add: key_of_def refetch_interval_def\<close>)

lemma user_update_rows:
  assumes "\<And>u. u_id (g u) = u_id u \<and> u_currency (g u) = u_currency u"
  shows "donation_video_rows (db\<lparr>users := update_where P g (users db)\<rparr>) uid ids = donation_video_rows db uid ids"
  using assms by (intro donation_video_rows_cong) (auto simp: update_where_def)

lemma respond_Inr: "respond f r = (Inr y, s) \<Longrightarrow> \<exists>x. r = (Inr x, s)"
  by (cases r) (auto simp: respond_def split: sum.splits)

lemmas covered_simps = covers_change_def invalidated_def mutation_of_def queue_mutation_keys_def

lemma video_call_covered:
  assumes "parse_video_request is_url rurl r = Some call"
    and "video_call_outcome rurl now uid call db = (Inr x, db')"
  shows "covers_change (invalidated (mutation_of (VideoQueueRequest r))) uid db db'"
proof (cases r)
  case (CreateVideoQueue label)
  with assms obtain y where "create_queue uid (the (parse_label label)) db = (Inr y, db')"
    by (auto simp: parse_video_request_def video_call_outcome_def dest!: respond_Inr)
  with CreateVideoQueue show ?thesis
    by (auto simp: covered_simps dest!: create_queue_frame)
next
  case (UpdateVideoQueue qid label d)
  with assms obtain y where "update_queue uid qid (the (parse_label label)) d db = (Inr y, db')"
    by (auto simp: parse_video_request_def video_call_outcome_def dest!: respond_Inr split: if_split_asm)
  with UpdateVideoQueue show ?thesis
    by (auto simp: covered_simps dest!: update_queue_frame)
next
  case (MoveVideo vid qid)
  with assms obtain y where "move_video uid vid qid db = (Inr y, db')"
    by (auto simp: parse_video_request_def video_call_outcome_def dest!: respond_Inr split: if_split_asm)
  with MoveVideo show ?thesis
    by (auto simp: covered_simps dest!: move_video_frame)
next
  case (UpdateQueueCurrency c rate)
  with assms obtain y q where "set_queue_currency uid c q db = (Inr y, db')"
    by (auto simp: parse_video_request_def video_call_outcome_def dest!: respond_Inr split: if_split_asm option.split_asm)
  with UpdateQueueCurrency show ?thesis
    by (auto simp: covered_simps dest!: set_queue_currency_frame)
next
  case (AddVideo url q amount st e)
  with assms obtain y a where "add_manual_video rurl now uid url a st e q db = (Inr y, db')"
    by (auto simp: parse_video_request_def video_call_outcome_def dest!: respond_Inr split: if_split_asm)
  then obtain row where f: "users db' = users db" "priorities db' = priorities db" "donations db' = donations db"
    "queues db' = queues db" "videos db' = videos db @ [row]" "v_donation row = None"
    using add_manual_video_frame by blast
  then show ?thesis using AddVideo donation_video_rows_manual [OF f(3,2,1,5,6)] by (simp add: covered_simps)
next
  case (UpdateVideoPriority pid label m)
  with assms obtain y l c where "update_priority uid pid l c db = (Inr y, db')"
    by (auto simp: parse_video_request_def video_call_outcome_def bind_eq_Some_conv dest!: respond_Inr split: if_split_asm)
  with UpdateVideoPriority show ?thesis
    by (auto simp: covered_simps dest!: update_priority_frame)
next
  case (UpdateVideoStatus vid w b)
  with assms obtain y where "update_status uid vid w b db = (Inr y, db')"
    by (auto simp: parse_video_request_def video_call_outcome_def dest!: respond_Inr split: if_split_asm)
  with UpdateVideoStatus show ?thesis
    by (auto simp: covered_simps dest!: update_status_frame)
next
  case (RetryVideoMetadata vid)
  with assms obtain y where "retry_metadata now uid vid db = (Inr y, db')"
    by (auto simp: parse_video_request_def video_call_outcome_def dest!: respond_Inr split: if_split_asm)
  then have f: "users db' = users db" "priorities db' = priorities db" "donations db' = donations db"
    "queues db' = queues db" "videos db' = videos db" using retry_metadata_frame by blast+
  then have "donation_video_rows db' uid ids = donation_video_rows db uid ids" for ids
    by (intro donation_video_rows_cong) simp_all
  then show ?thesis using RetryVideoMetadata f by (simp add: covered_simps)
next
  case (UpdateVideo vid amount st e)
  with assms obtain y a where "update_video uid vid a st e db = (Inr y, db')"
    by (auto simp: parse_video_request_def video_call_outcome_def dest!: respond_Inr split: if_split_asm)
  with UpdateVideo show ?thesis
    by (auto simp: covered_simps dest!: update_video_frame)
qed

lemma procedure_covered:
  assumes "handle_procedure is_url rurl now ctx req db = (Inr x, db')" and "authenticated ctx = Inr uid"
  shows "covers_change (invalidated (mutation_of req)) uid db db'"
proof (cases req)
  case (VideoQueueRequest r)
  show ?thesis
  proof (cases "parse_video_request is_url rurl r")
    case None
    then show ?thesis using VideoQueueRequest assms
      by (simp add: handle_procedure_def answered_def handle_video_request_def call_procedure_def)
  next
    case (Some call)
    obtain y d where out: "video_call_outcome rurl now uid call db = (y, d)" by (cases "video_call_outcome rurl now uid call db")
    then have "d = db'" "\<exists>z. y = Inr z"
      using VideoQueueRequest assms Some
      by (cases y; simp add: handle_procedure_def answered_def handle_video_request_def call_procedure_def Let_def)+
    then show ?thesis using video_call_covered [OF Some] out VideoQueueRequest by auto
  qed
next
  case (UpdateSlugRequest slug)
  with assms have "db' = db\<lparr>users := update_where (\<lambda>u. u_id u = uid) (\<lambda>u. u\<lparr>u_slug := the (parse_slug slug)\<rparr>) (users db)\<rparr>"
    by (auto simp: handle_procedure_def answered_def handle_update_slug_def call_procedure_def set_slug_def
        update_slug_result_def split: option.splits sum.splits if_split_asm)
  then show ?thesis using UpdateSlugRequest user_update_rows by (simp add: covered_simps)
next
  case (UpdatePublicQueueSettingsRequest settings)
  with assms have "db' = snd (set_public_queue_settings uid settings db)"
    by (auto simp: handle_procedure_def answered_def handle_update_public_queue_settings_def call_procedure_def
        split: prod.splits)
  then show ?thesis using UpdatePublicQueueSettingsRequest user_update_rows
    by (simp add: covered_simps set_public_queue_settings_def Let_def)
qed

section \<open>Property\<close>

text \<open>
  C14: When a change of a visitor's own data has succeeded, every answer the page still shows is either current,
  or is fetched again, or belongs to a query that is fetched every few seconds: no other query of the
  video queue, the donations or the account has a new answer.
\<close>
theorem cache_stays_current:
  assumes "handle_procedure is_url rurl now ctx req db = (Inr x, db')" and "authenticated ctx = Inr uid"
    and "cache_current env ctx uid db cache"
  shows "cache_current env ctx uid db' (after_mutation req (Inr x) cache)"
proof -
  let ?ks = "invalidated (mutation_of req)"
  note cover = procedure_covered [OF assms(1,2)]
  have "current_answer env ctx uid db' (if key_of (ce_query e) \<in> set ?ks then e\<lparr>ce_stale := True\<rparr> else e)"
    if "current_answer env ctx uid db e" for e
    using that answer_stays [OF cover assms(2), of "ce_query e" env]
    by (auto simp: current_answer_def split: if_split_asm)
  then have "\<forall>e \<in> set cache. current_answer env ctx uid db'
      (if key_of (ce_query e) \<in> set ?ks then e\<lparr>ce_stale := True\<rparr> else e)"
    using assms(3) unfolding cache_current_def list_all_iff by blast
  then show ?thesis
    by (simp only: cache_current_def after_mutation_def invalidate_queries_def sum.case list_all_iff set_map ball_simps)
qed

theorem cache_stays_current_witness:
  "\<forall>env. \<exists>db'. cache_current env \<lparr>ctx_user_id = Some 1, ctx_is_admin = False\<rparr> 1 db'
     (after_mutation (UpdatePublicQueueSettingsRequest \<lparr>settingsEnabled = False, showAmounts = False, showWatchedVideos = False\<rparr>)
       (Inr () :: api_error + unit)
       [\<lparr>ce_query = Video_queues_q, ce_answer = Video_queues_answer (list_queues sample_db 1), ce_stale = False\<rparr>])"
proof
  fix env
  let ?settings = "\<lparr>settingsEnabled = False, showAmounts = False, showWatchedVideos = False\<rparr>"
  let ?ctx = "\<lparr>ctx_user_id = Some 1, ctx_is_admin = False\<rparr>"
  let ?req = "UpdatePublicQueueSettingsRequest ?settings"
  let ?cache = "[\<lparr>ce_query = Video_queues_q, ce_answer = Video_queues_answer (list_queues sample_db 1), ce_stale = False\<rparr>]"
  have "find_user (snd (set_public_queue_settings 1 ?settings sample_db)) 1 \<noteq> None"
    by (simp add: set_public_queue_settings_def sample_db_def update_where_def find_user_def first_row_def)
  then obtain x db' where out: "handle_procedure (\<lambda>_. True) (\<lambda>_. None) 0 ?ctx ?req sample_db = (Inr x, db')"
    by (auto simp: handle_procedure_def answered_def handle_update_public_queue_settings_def call_procedure_def
        authenticated_def set_public_queue_settings_def Let_def expect_def)
  have auth: "authenticated ?ctx = Inr 1" by (simp add: authenticated_def)
  have "cache_current env ?ctx 1 sample_db ?cache"
    by (simp add: cache_current_def current_answer_def server_answer_def)
  from cache_stays_current [OF out auth this] show "\<exists>db'. cache_current env \<lparr>ctx_user_id = Some 1, ctx_is_admin = False\<rparr> 1 db'
     (after_mutation ?req (Inr () :: api_error + unit) ?cache)"
    by (auto simp: after_mutation_def)
qed

end
