(* ===== verification/ClientText.thy ===== *)
theory ClientText
  imports Services Currency
begin

text \<open>
  What the pages show (\<open>apps/web/src/lib\<close>): the language and the theme of a visitor, the messages of
  failed calls (\<open>api-error.ts\<close>), amounts and dates (\<open>fmt.ts\<close>), the public address of a queue
  (\<open>slug-params.ts\<close>), the groups of a queue (\<open>group-videos-by-priority.ts\<close>), and links in texts
  (\<open>use-text-with-links.tsx\<close>).  The catalogues of messages, \<open>Intl\<close> and the link finder are arguments.
\<close>

section \<open>Language and theme\<close>

datatype language = En | Ru

definition resolve_locale :: "string option \<Rightarrow> string option \<Rightarrow> language" where
  "resolve_locale stored_locale preferred_language =
     (if stored_locale = Some ''ru'' then Ru
      else if stored_locale = Some ''en'' then En
      else case preferred_language of
             None \<Rightarrow> En
           | Some l \<Rightarrow> if prefix ''ru'' (to_lower l) then Ru else En)"

definition locale_name :: "language \<Rightarrow> string" where
  "locale_name l = (case l of En \<Rightarrow> ''en'' | Ru \<Rightarrow> ''ru'')"

text \<open>Choosing a language stores it for a year; the page and the router then use it.\<close>

definition locale_cookie :: "language \<Rightarrow> string" where
  "locale_cookie l = ''locale='' @ locale_name l @ ''; Path=/; Max-Age=31536000; SameSite=Lax''"

datatype theme = Light | Dark

definition resolve_theme :: "string option \<Rightarrow> theme" where
  "resolve_theme stored_theme = (if stored_theme = Some ''dark'' then Dark else Light)"

section \<open>Messages\<close>

text \<open>A message of a catalogue is a text or a function of its arguments, for each language.\<close>

datatype 'a message = Plain string | With_arguments "'a \<Rightarrow> string"

definition create_translator :: "language \<Rightarrow> (string \<times> (language \<Rightarrow> 'a message)) list \<Rightarrow> string \<Rightarrow> 'a \<Rightarrow> string option" where
  "create_translator l translations key args =
     (case map_of translations key of
        None \<Rightarrow> None
      | Some m \<Rightarrow> (case m l of Plain s \<Rightarrow> Some s | With_arguments f \<Rightarrow> Some (f args)))"

definition api_error_codes :: "string list" where
  "api_error_codes =
     [''BAD_REQUEST'', ''UNAUTHORIZED'', ''FORBIDDEN'', ''NOT_FOUND'', ''CONFLICT'', ''TOO_MANY_REQUESTS'']"

definition message_keys :: "(string \<times> string) list" where
  "message_keys =
     [(''BAD_REQUEST'', ''badRequest''), (''UNAUTHORIZED'', ''unauthorized''), (''FORBIDDEN'', ''forbidden''),
      (''NOT_FOUND'', ''notFound''), (''CONFLICT'', ''conflict''), (''TOO_MANY_REQUESTS'', ''tooManyRequests'')]"

text \<open>The error of a failed call as the client library throws it.\<close>

definition api_error_code :: "json \<Rightarrow> string option" where
  "api_error_code err =
     (case Option.bind (field err ''data'') (\<lambda>d. field d ''code'') of
        Some (J_str c) \<Rightarrow> if c \<in> set api_error_codes then Some c else None
      | _ \<Rightarrow> None)"

definition api_error_message :: "(string \<Rightarrow> string) \<Rightarrow> json \<Rightarrow> (string \<Rightarrow> string option) \<Rightarrow> string" where
  "api_error_message t err messages =
     (case api_error_code err of
        None \<Rightarrow> (case messages ''fallback'' of Some m \<Rightarrow> m | None \<Rightarrow> t ''fallback'')
      | Some c \<Rightarrow>
          (case messages c of
             Some m \<Rightarrow> m
           | None \<Rightarrow> (case map_of message_keys c of Some k \<Rightarrow> t k | None \<Rightarrow> [])))"

text \<open>What reaches the browser of an error: its code, status and message.\<close>

definition code_name :: "trpc_code \<Rightarrow> string" where
  "code_name c =
     (case c of
        BAD_REQUEST \<Rightarrow> ''BAD_REQUEST'' | UNAUTHORIZED \<Rightarrow> ''UNAUTHORIZED'' | FORBIDDEN \<Rightarrow> ''FORBIDDEN''
      | NOT_FOUND \<Rightarrow> ''NOT_FOUND'' | CONFLICT \<Rightarrow> ''CONFLICT'' | PRECONDITION_FAILED \<Rightarrow> ''PRECONDITION_FAILED''
      | INTERNAL_SERVER_ERROR \<Rightarrow> ''INTERNAL_SERVER_ERROR'' | BAD_GATEWAY \<Rightarrow> ''BAD_GATEWAY'')"

definition client_error :: "api_error \<Rightarrow> json" where
  "client_error e =
     J_obj [(''message'', J_str (snd (error_formatter e))),
            (''data'', J_obj [(''code'', J_str (code_name (error_code e))),
                              (''httpStatus'', J_int (int (fst (error_formatter e))))])]"

section \<open>Amounts and dates\<close>

definition format_money_input_value :: "string \<Rightarrow> string" where
  "format_money_input_value amount =
     (if suffix ''.00'' amount then take (length amount - 3) amount else amount)"

text \<open>
  \<open>fmtAmount\<close>: the integer part is formatted with as many decimals as the fraction needs, and the decimals
  shown are replaced by the fraction itself.
\<close>

definition amount_parts :: "string \<Rightarrow> string \<times> string" where
  "amount_parts amount =
     (case js_split (CHR ''.'') amount of
        integer # fraction # _ \<Rightarrow> (integer, fraction)
      | [integer] \<Rightarrow> (integer, ''00'')
      | [] \<Rightarrow> ([], ''00''))"

definition fraction_digits :: "string \<Rightarrow> nat" where
  "fraction_digits fraction =
     (let significant_fraction = strip_trailing_zeros fraction in
      if length fraction \<le> 2 \<and> 0 < length significant_fraction then 2 else length significant_fraction)"

definition display_fraction :: "string \<Rightarrow> string" where
  "display_fraction fraction =
     (if fraction_digits fraction = 2 then pad_end 2 (CHR ''0'') fraction else strip_trailing_zeros fraction)"

record number_format =
  nf_currency :: "string option"
  nf_digits :: nat

definition fmt_amount ::
  "(number_format \<Rightarrow> nat \<Rightarrow> (string \<times> string) list) \<Rightarrow> string \<Rightarrow> string \<Rightarrow> string" where
  "fmt_amount format_to_parts amount currency =
     (let (integer, fraction) = amount_parts amount;
          uses_currency_style = valid_currency_code currency;
          parts = format_to_parts
            \<lparr>nf_currency = if uses_currency_style then Some currency else None,
             nf_digits = fraction_digits fraction\<rparr> (nat_of_dec integer);
          formatted = concat (map (\<lambda>(type, v). if type = ''fraction'' then display_fraction fraction else v) parts)
      in if uses_currency_style then formatted else formatted @ CHR 0xA0 # currency)"

text \<open>
  Calendar days of the visitor are numbered; \<open>time\<close>, \<open>yesterday\<close> and \<open>date\<close> are texts of \<open>Intl\<close>.
\<close>

definition fmt_date :: "string \<Rightarrow> string \<Rightarrow> string" where
  "fmt_date calendar_date time = calendar_date @ '', '' @ time"

definition fmt_list_date :: "int \<Rightarrow> int \<Rightarrow> string \<Rightarrow> string \<Rightarrow> string \<Rightarrow> string" where
  "fmt_list_date date_day now_day yesterday calendar_date time =
     (let day_difference = date_day - now_day in
      if day_difference = 0 then time
      else if day_difference = -1 then yesterday @ '', '' @ time
      else fmt_date calendar_date time)"

section \<open>The address of a public queue\<close>

definition parse_slug_params :: "string \<Rightarrow> string option" where
  "parse_slug_params s =
     (case s of
        c # slug \<Rightarrow> if c = CHR ''@'' \<and> valid_slug slug then Some slug else None
      | [] \<Rightarrow> None)"

definition stringify_slug_params :: "string \<Rightarrow> string" where
  "stringify_slug_params slug = CHR ''@'' # slug"

section \<open>The groups of a queue\<close>

definition priority_ids_of :: "('v \<Rightarrow> int option) \<Rightarrow> 'v list \<Rightarrow> int list" where
  "priority_ids_of prio videos =
     js_unique (concat (map (\<lambda>v. case prio v of None \<Rightarrow> [] | Some p \<Rightarrow> [p]) videos))"

definition group_videos_by_priority :: "('v \<Rightarrow> int option) \<Rightarrow> 'v list \<Rightarrow> (int \<times> 'v list) list \<times> 'v list" where
  "group_videos_by_priority prio videos =
     (map (\<lambda>p. (p, filter (\<lambda>v. prio v = Some p) videos)) (priority_ids_of prio videos),
      filter (\<lambda>v. prio v = None) videos)"

section \<open>Links\<close>

record link_match =
  lm_start :: nat
  lm_end :: nat
  lm_raw :: string
  lm_url :: string

datatype text_chunk = Text_chunk string | Link_chunk string string

fun chunks_from :: "string \<Rightarrow> nat \<Rightarrow> link_match list \<Rightarrow> text_chunk list" where
  "chunks_from body last_index [] = [Text_chunk (drop last_index body)]"
| "chunks_from body last_index (l # ls) =
     Text_chunk (take (lm_start l - last_index) (drop last_index body)) #
     Link_chunk (lm_raw l) (lm_url l) # chunks_from body (lm_end l) ls"

definition text_with_links :: "(string \<Rightarrow> link_match list option) \<Rightarrow> string \<Rightarrow> text_chunk list" where
  "text_with_links find_links body =
     chunks_from body 0 (case find_links body of None \<Rightarrow> [] | Some ls \<Rightarrow> ls)"

definition chunk_text :: "text_chunk \<Rightarrow> string" where
  "chunk_text c = (case c of Text_chunk s \<Rightarrow> s | Link_chunk raw _ \<Rightarrow> raw)"

section \<open>Facts\<close>

lemma slug_params_roundtrip:
  "parse_slug_params s = Some slug \<longleftrightarrow> s = stringify_slug_params slug \<and> valid_slug slug"
  by (auto simp: parse_slug_params_def stringify_slug_params_def split: list.splits if_splits)

lemma chosen_locale_kept: "resolve_locale (Some (locale_name l)) language = l"
  by (cases l) (simp_all add: resolve_locale_def locale_name_def)

lemma api_error_code_client_error:
  "api_error_code (client_error e) =
     (if code_name (error_code e) \<in> set api_error_codes then Some (code_name (error_code e)) else None)"
  by (simp add: api_error_code_def client_error_def field_def)

text \<open>No message shown for an error of the server is the message the server sent, whatever it is.\<close>

lemma shown_message_from_catalogue:
  "api_error_message t (client_error e) messages \<in> range t \<union> ran messages"
proof (cases "api_error_code (client_error e)")
  case None
  then show ?thesis by (auto simp: api_error_message_def ran_def split: option.splits)
next
  case (Some c)
  then have "c \<in> set api_error_codes" by (auto simp: api_error_code_client_error split: if_split_asm)
  then have "map_of message_keys c \<noteq> None" by (auto simp: api_error_codes_def message_keys_def)
  then show ?thesis using Some by (auto simp: api_error_message_def ran_def split: option.splits)
qed

lemma fst_groups: "map fst (fst (group_videos_by_priority prio videos)) = priority_ids_of prio videos"
  by (simp add: group_videos_by_priority_def comp_def)

lemma set_priority_ids: "set (priority_ids_of prio videos) = {p. \<exists>v \<in> set videos. prio v = Some p}"
  by (auto simp: priority_ids_of_def split: option.splits)

lemma distinct_ids: "distinct (priority_ids_of prio videos)"
  by (simp add: priority_ids_of_def)

lemma mset_concat_groups:
  assumes "distinct ps" and "\<And>v. v \<in> set vs \<Longrightarrow> g v \<in> set ps"
  shows "mset (concat (map (\<lambda>p. filter (\<lambda>v. g v = p) vs) ps)) = mset vs"
  using assms
proof (induction vs)
  case (Cons v vs)
  have "mset (concat (map (\<lambda>p. filter (\<lambda>x. g x = p) (v # vs)) qs)) =
      (if g v \<in> set qs then {#v#} else {#}) + mset (concat (map (\<lambda>p. filter (\<lambda>x. g x = p) vs) qs))"
    if "distinct qs" for qs
    using that by (induction qs) auto
  then show ?case using Cons by (auto simp del: mset_map)
qed simp

text \<open>The groups and the rest together are the videos of the page, each once, and keep their order.\<close>

lemma groups_partition:
  "mset (concat (map snd (fst (group_videos_by_priority prio videos))) @ snd (group_videos_by_priority prio videos))
     = mset videos"
proof -
  let ?with = "filter (\<lambda>v. prio v \<noteq> None) videos"
  let ?ps = "priority_ids_of prio videos"
  have "filter (\<lambda>v. prio v = Some p) videos = filter (\<lambda>v. the (prio v) = p) ?with" for p
    by (auto simp: filter_filter intro!: filter_cong)
  then have "mset (concat (map (\<lambda>p. filter (\<lambda>v. prio v = Some p) videos) ?ps)) = mset ?with"
    using mset_concat_groups [OF distinct_ids, of ?with "\<lambda>v. the (prio v)"] set_priority_ids [of prio videos]
    by force
  moreover have "mset ?with + mset (filter (\<lambda>v. prio v = None) videos) = mset videos"
    by (induction videos) auto
  ultimately show ?thesis by (simp add: group_videos_by_priority_def comp_def)
qed

text \<open>Links that lie in the text one after another: the chunks put together are the text.\<close>

fun links_in :: "string \<Rightarrow> nat \<Rightarrow> link_match list \<Rightarrow> bool" where
  "links_in body i [] \<longleftrightarrow> i \<le> length body"
| "links_in body i (l # ls) \<longleftrightarrow>
     i \<le> lm_start l \<and> lm_start l \<le> lm_end l \<and> lm_end l \<le> length body \<and>
     lm_raw l = take (lm_end l - lm_start l) (drop (lm_start l) body) \<and> links_in body (lm_end l) ls"

lemma chunks_join: "links_in body i ls \<Longrightarrow> concat (map chunk_text (chunks_from body i ls)) = drop i body"
proof (induction body i ls rule: chunks_from.induct)
  case (2 body i l ls)
  let ?s = "lm_start l" and ?e = "lm_end l"
  have le: "i \<le> ?s" "?s \<le> ?e" using "2.prems" by simp_all
  have "drop i body = take (?s - i) (drop i body) @ drop ?s body"
    using le by (metis append_take_drop_id drop_drop le_add_diff_inverse2)
  moreover have "drop ?s body = take (?e - ?s) (drop ?s body) @ drop ?e body"
    using le by (metis append_take_drop_id drop_drop le_add_diff_inverse2)
  ultimately show ?case using 2 by (simp add: chunk_text_def)
qed (simp add: chunk_text_def)

end
