(* ===== verification/VideoForms.thy ===== *)
theory VideoForms
  imports ClientText VideoRouter
begin

text \<open>
  The forms of the queue's pages: the timing fields (\<open>components/video-timing-fields.tsx\<close>), the editor of
  a video (\<open>video-card.tsx\<close>), of a priority (\<open>video-priority-editor.tsx\<close>), of a queue
  (\<open>video-queue-controls.tsx\<close>), of the currency (\<open>queue-currency-editor.tsx\<close>), of the slug
  (\<open>slug-editor.tsx\<close>), of the public settings (\<open>public-queue-settings-editor.tsx\<close>), and the form that adds
  a video (\<open>add-video-form.tsx\<close>).

  A form is its values and what happens to them: the events are the user's and the ends of the request
  in flight, a step gives the new state and the requests sent.  The form library calls the submit handler
  exactly when the rules of every field hold; a required text is one that is not empty.  The rules of
  the browser for a field of type \<open>url\<close> are the argument \<open>is_url\<close>.
\<close>

section \<open>Timing fields\<close>

definition required :: "string \<Rightarrow> bool" where "required v \<longleftrightarrow> v \<noteq> []"

datatype timing_error = Enter_video_time | Invalid_video_time | Video_end_after_start | Video_end_within_duration

definition start_time_error :: "string \<Rightarrow> timing_error option" where
  "start_time_error start_time =
     (if \<not> required start_time then Some Enter_video_time
      else if parse_video_time start_time = None then Some Invalid_video_time else None)"

definition end_time_error :: "bool \<Rightarrow> nat option \<Rightarrow> string \<Rightarrow> string \<Rightarrow> timing_error option" where
  "end_time_error allow_open_end maximum_end_seconds start_time end_time =
     (if \<not> allow_open_end \<and> \<not> required end_time then Some Enter_video_time
      else if js_trim end_time = [] then (if allow_open_end then None else Some Enter_video_time)
      else case parse_video_time end_time of
             None \<Rightarrow> Some Invalid_video_time
           | Some candidate_end \<Rightarrow>
               if (case parse_video_time start_time of None \<Rightarrow> False | Some s \<Rightarrow> candidate_end \<le> s)
               then Some Video_end_after_start
               else if (case maximum_end_seconds of None \<Rightarrow> False | Some m \<Rightarrow> candidate_end > m)
               then Some Video_end_within_duration else None)"

text \<open>What is shown below the fields: the parsed times and the watch time.\<close>

definition shown_watch_duration :: "string \<Rightarrow> string \<Rightarrow> (int \<times> int) option" where
  "shown_watch_duration start_time end_time =
     (case (parse_video_time start_time, parse_video_time end_time) of
        (Some s, Some e) \<Rightarrow>
          if e > s then Some (get_rounded_watch_duration_parts (get_watch_duration_seconds (int s) (int e)))
          else None
      | _ \<Rightarrow> None)"

section \<open>A money field\<close>

definition amount_field_ok :: "string \<Rightarrow> bool" where
  "amount_field_ok v \<longleftrightarrow> required v \<and> parse_money_amount (TextInput v) \<noteq> None"

text \<open>Amounts in cents as the database prints them.\<close>

definition money_text :: "nat \<Rightarrow> string" where
  "money_text n = (case money_amount n of Some t \<Rightarrow> t | None \<Rightarrow> [])"

section \<open>The editor of a video\<close>

record video_fields =
  vf_amount :: string
  vf_start :: string
  vf_end :: string

definition video_form_values :: "video_item \<Rightarrow> video_fields" where
  "video_form_values video =
     \<lparr>vf_amount = format_money_input_value (case queueAmount video of None \<Rightarrow> ''0.00'' | Some c \<Rightarrow> money_text c),
      vf_start = format_video_time (nat (startSeconds video)),
      vf_end = (case endSeconds video of None \<Rightarrow> [] | Some e \<Rightarrow> format_video_time (nat e))\<rparr>"

definition maximum_end :: "video_item \<Rightarrow> nat option" where
  "maximum_end video = map_option nat (durationSeconds video)"

definition video_form_valid :: "nat option \<Rightarrow> video_fields \<Rightarrow> bool" where
  "video_form_valid maximum v \<longleftrightarrow>
     amount_field_ok (vf_amount v) \<and> start_time_error (vf_start v) = None \<and>
     end_time_error True maximum (vf_start v) (vf_end v) = None"

text \<open>A failed action and its error; starting an action clears it.\<close>

datatype action_result = Action_done | Action_failed json

record video_editor =
  ve_editing :: bool
  ve_values :: video_fields
  ve_failure :: "json option"

datatype video_editor_event =
    Start_editing_video
  | Cancel_editing_video
  | Change_video_values video_fields
  | Save_video
  | Video_saved action_result

text \<open>The first state of the card, and a step of its editor.\<close>

definition new_video_editor :: "video_item \<Rightarrow> video_editor" where
  "new_video_editor video = \<lparr>ve_editing = False, ve_values = video_form_values video, ve_failure = None\<rparr>"

definition save_video :: "bool \<Rightarrow> video_item \<Rightarrow> video_editor \<Rightarrow> video_editor \<times> video_request list" where
  "save_video can_update video s =
     (if \<not> can_update then (s, [])
      else case parse_video_timing (vf_end (ve_values s)) (vf_start (ve_values s)) True (maximum_end video) of
             None \<Rightarrow> (s, [])
           | Some (start_s, end_s) \<Rightarrow>
               (s\<lparr>ve_failure := None\<rparr>,
                [UpdateVideo (videoId video) (TextInput (vf_amount (ve_values s))) (int start_s) (map_option int end_s)]))"

text \<open>While the page updates a video, the controls are off; the flag of a step says whether it does.\<close>

definition video_editor_step ::
  "bool \<Rightarrow> video_item \<Rightarrow> video_editor \<Rightarrow> bool \<times> video_editor_event \<Rightarrow> video_editor \<times> video_request list" where
  "video_editor_step can_update video s ev =
     (case ev of
        (_, Video_saved Action_done) \<Rightarrow> (s\<lparr>ve_editing := False\<rparr>, [])
      | (_, Video_saved (Action_failed e)) \<Rightarrow> (s\<lparr>ve_failure := Some e\<rparr>, [])
      | (True, _) \<Rightarrow> (s, [])
      | (False, Start_editing_video) \<Rightarrow>
          (\<lparr>ve_editing = True, ve_values = video_form_values video, ve_failure = None\<rparr>, [])
      | (False, Cancel_editing_video) \<Rightarrow>
          (\<lparr>ve_editing = False, ve_values = video_form_values video, ve_failure = None\<rparr>, [])
      | (False, Change_video_values v) \<Rightarrow> (s\<lparr>ve_values := v\<rparr>, [])
      | (False, Save_video) \<Rightarrow>
          if video_form_valid (maximum_end video) (ve_values s) then save_video can_update video s else (s, []))"

text \<open>The buttons below a video's picture.\<close>

definition toggle_watched :: "timestamp \<Rightarrow> video_item \<Rightarrow> video_request" where
  "toggle_watched now video =
     UpdateVideoStatus (videoId video) (Some (if watchedAt video = None then Some now else None)) None"

definition toggle_bookmarked :: "timestamp \<Rightarrow> video_item \<Rightarrow> video_request" where
  "toggle_bookmarked now video =
     UpdateVideoStatus (videoId video) None (Some (if bookmarkedAt video = None then Some now else None))"

datatype metadata_status = Invalid_range | Waits_for_retry timestamp | No_metadata_status

definition video_metadata_status :: "bool \<Rightarrow> video_item \<Rightarrow> metadata_status" where
  "video_metadata_status can_retry video =
     (case durationSeconds video of
        Some d \<Rightarrow> if startSeconds video \<ge> d then Invalid_range else No_metadata_status
      | None \<Rightarrow>
          if \<not> can_retry then No_metadata_status
          else case metadataRetryAt video of None \<Rightarrow> No_metadata_status | Some t \<Rightarrow> Waits_for_retry t)"

text \<open>The ordered watch time: of a video with an end.\<close>

definition ordered_duration :: "video_item \<Rightarrow> (int \<times> int) option" where
  "ordered_duration video =
     (case endSeconds video of
        None \<Rightarrow> None
      | Some e \<Rightarrow> Some (get_rounded_watch_duration_parts (get_watch_duration_seconds (startSeconds video) e)))"

section \<open>The editor of a priority\<close>

record priority_fields =
  pf_label :: string
  pf_min_price :: string

definition priority_form_values :: "video_priority \<Rightarrow> priority_fields" where
  "priority_form_values p =
     \<lparr>pf_label = priorityName p, pf_min_price = format_money_input_value (money_text (minPricePerMinute p))\<rparr>"

definition priority_form_valid :: "priority_fields \<Rightarrow> bool" where
  "priority_form_valid v \<longleftrightarrow>
     required (pf_label v) \<and> js_trim (pf_label v) \<noteq> [] \<and> amount_field_ok (pf_min_price v)"

record priority_editor =
  pe_editing :: bool
  pe_values :: priority_fields
  pe_pending :: bool
  pe_error :: "json option"

datatype priority_editor_event =
    Start_editing_priority
  | Cancel_editing_priority
  | Change_priority_values priority_fields
  | Save_priority
  | Priority_saved video_priority
  | Priority_failed json

text \<open>The field holds at most 64 characters; the save button is off while a request is in flight.\<close>

definition priority_editor_step ::
  "video_priority \<Rightarrow> priority_editor \<Rightarrow> priority_editor_event \<Rightarrow> priority_editor \<times> video_request list" where
  "priority_editor_step p s ev =
     (case ev of
        Start_editing_priority \<Rightarrow>
          (s\<lparr>pe_editing := True, pe_values := priority_form_values p, pe_pending := False, pe_error := None\<rparr>, [])
      | Cancel_editing_priority \<Rightarrow>
          if pe_pending s then (s, [])
          else (s\<lparr>pe_editing := False, pe_values := priority_form_values p, pe_error := None\<rparr>, [])
      | Change_priority_values v \<Rightarrow>
          if length (pf_label v) \<le> 64 then (s\<lparr>pe_values := v\<rparr>, []) else (s, [])
      | Save_priority \<Rightarrow>
          if pe_editing s \<and> priority_form_valid (pe_values s) \<and> pe_values s \<noteq> priority_form_values p \<and> \<not> pe_pending s
          then (s\<lparr>pe_pending := True, pe_error := None\<rparr>,
                [UpdateVideoPriority (videoPriorityId p) (pf_label (pe_values s)) (TextInput (pf_min_price (pe_values s)))])
          else (s, [])
      | Priority_saved q \<Rightarrow>
          (s\<lparr>pe_editing := False, pe_values := priority_form_values q, pe_pending := False\<rparr>, [])
      | Priority_failed e \<Rightarrow> (s\<lparr>pe_pending := False, pe_error := Some e\<rparr>, []))"

section \<open>The form of a queue\<close>

record queue_form =
  qf_queue :: "video_queue option"
  qf_label :: string
  qf_default :: bool
  qf_pending :: bool
  qf_failure :: "json option"

definition new_queue_form :: "video_queue option \<Rightarrow> queue_form" where
  "new_queue_form queue =
     \<lparr>qf_queue = queue, qf_label = (case queue of None \<Rightarrow> [] | Some q \<Rightarrow> queueLabel q),
      qf_default = (case queue of None \<Rightarrow> False | Some q \<Rightarrow> queueIsDefault q),
      qf_pending = False, qf_failure = None\<rparr>"

definition queue_form_dirty :: "queue_form \<Rightarrow> bool" where
  "queue_form_dirty f =
     (let trimmed_label = js_trim (qf_label f) in
      case qf_queue f of
        Some q \<Rightarrow> trimmed_label \<noteq> queueLabel q \<or> qf_default f \<noteq> queueIsDefault q
      | None \<Rightarrow> trimmed_label \<noteq> [])"

definition submit_queue_form :: "queue_form \<Rightarrow> queue_form \<times> video_request list" where
  "submit_queue_form f =
     (let trimmed_label = js_trim (qf_label f) in
      if trimmed_label = [] \<or> \<not> queue_form_dirty f \<or> qf_pending f then (f, [])
      else (f\<lparr>qf_pending := True, qf_failure := None\<rparr>,
            [case qf_queue f of
               Some q \<Rightarrow> UpdateVideoQueue (videoQueueId q) trimmed_label (qf_default f)
             | None \<Rightarrow> CreateVideoQueue trimmed_label]))"

datatype queue_form_event =
    Set_queue_label string
  | Set_queue_default bool
  | Submit_queue
  | Queue_save_failed json

text \<open>
  The label has at most 64 characters; the switch of the default queue is off for the default queue itself,
  and while saving.  A saved queue closes the form.
\<close>

definition queue_form_step :: "queue_form \<Rightarrow> queue_form_event \<Rightarrow> queue_form \<times> video_request list" where
  "queue_form_step f ev =
     (case ev of
        Set_queue_label l \<Rightarrow> if qf_pending f \<or> length l > 64 then (f, []) else (f\<lparr>qf_label := l\<rparr>, [])
      | Set_queue_default b \<Rightarrow>
          (case qf_queue f of
             None \<Rightarrow> (f, [])
           | Some q \<Rightarrow> if queueIsDefault q \<or> qf_pending f then (f, []) else (f\<lparr>qf_default := b\<rparr>, []))
      | Submit_queue \<Rightarrow> submit_queue_form f
      | Queue_save_failed e \<Rightarrow> (f\<lparr>qf_pending := False, qf_failure := Some e\<rparr>, []))"

definition queue_save_message :: "json \<Rightarrow> string" where
  "queue_save_message e =
     (if Option.bind (field e ''data'') (\<lambda>d. field d ''code'') = Some (J_str ''CONFLICT'')
      then ''queueNameTaken'' else ''queueSaveFailed'')"

text \<open>The queue that is shown as selected.\<close>

definition selected_queue :: "video_queue list \<Rightarrow> int option \<Rightarrow> video_queue option" where
  "selected_queue all_queues queue_id =
     (case (case queue_id of None \<Rightarrow> None | Some i \<Rightarrow> find (\<lambda>q. videoQueueId q = i) all_queues) of
        Some q \<Rightarrow> Some q
      | None \<Rightarrow> if queue_id = None then find queueIsDefault all_queues else None)"

section \<open>The currency\<close>

text \<open>The larger currency is the one of more roubles; when they are the same the second one is taken.\<close>

definition larger_currency :: "queue_currency \<Rightarrow> queue_currency \<Rightarrow> queue_currency" where
  "larger_currency left right = (if rubles_per_unit left > rubles_per_unit right then left else right)"

definition smaller_currency :: "queue_currency \<Rightarrow> queue_currency \<Rightarrow> queue_currency" where
  "smaller_currency current next_c = (if larger_currency current next_c = current then next_c else current)"

definition proposed_rate :: "queue_currency \<Rightarrow> queue_currency \<Rightarrow> string" where
  "proposed_rate current next_c =
     (case default_currency_change_rate current next_c of
        Some r \<Rightarrow> format_money_input_value r | None \<Rightarrow> [])"

record currency_form =
  cf_currency :: queue_currency
  cf_rate :: string

definition rate_field_ok :: "string \<Rightarrow> bool" where
  "rate_field_ok v \<longleftrightarrow>
     (case parse_money_amount (TextInput v) of None \<Rightarrow> False | Some r \<Rightarrow> r \<noteq> ''0.00'')"

text \<open>
  Opening the editor proposes the present currency; choosing another one sets the rate proposed for it.
  The rate can be changed only then: its field is not shown otherwise.
\<close>

definition open_currency_form :: "queue_currency \<Rightarrow> currency_form" where
  "open_currency_form current = \<lparr>cf_currency = current, cf_rate = proposed_rate current current\<rparr>"

definition choose_currency :: "queue_currency \<Rightarrow> queue_currency \<Rightarrow> currency_form \<Rightarrow> currency_form" where
  "choose_currency current next_c f =
     (if next_c = cf_currency f then f
      else \<lparr>cf_currency = next_c, cf_rate = proposed_rate current next_c\<rparr>)"

definition set_rate :: "queue_currency \<Rightarrow> string \<Rightarrow> currency_form \<Rightarrow> currency_form" where
  "set_rate current rate f = (if cf_currency f = current then f else f\<lparr>cf_rate := rate\<rparr>)"

definition submit_currency :: "bool \<Rightarrow> currency_form \<Rightarrow> video_request list" where
  "submit_currency pending f =
     (if rate_field_ok (cf_rate f) \<and> \<not> pending
      then [UpdateQueueCurrency (cf_currency f) (TextInput (cf_rate f))] else [])"

section \<open>Adding a video\<close>

record add_video_form =
  av_queue :: int
  av_url :: string
  av_amount :: string
  av_start :: string
  av_end :: string

definition new_add_video_form :: "int \<Rightarrow> add_video_form" where
  "new_add_video_form queue_id =
     \<lparr>av_queue = queue_id, av_url = [], av_amount = format_money_input_value ''0.00'', av_start = ''0:00'', av_end = []\<rparr>"

definition add_video_form_valid ::
  "(string \<Rightarrow> bool) \<Rightarrow> (string \<Rightarrow> readonly_url option) \<Rightarrow> add_video_form \<Rightarrow> bool" where
  "add_video_form_valid is_url rurl f \<longleftrightarrow>
     required (av_url f) \<and> is_url (js_trim (av_url f)) \<and> youtube_video_id rurl (js_trim (av_url f)) \<noteq> None \<and>
     amount_field_ok (av_amount f) \<and> start_time_error (av_start f) = None \<and>
     end_time_error True None (av_start f) (av_end f) = None"

definition submit_add_video ::
  "(string \<Rightarrow> bool) \<Rightarrow> (string \<Rightarrow> readonly_url option) \<Rightarrow> add_video_form \<Rightarrow> video_request list" where
  "submit_add_video is_url rurl f =
     (if \<not> add_video_form_valid is_url rurl f then []
      else case parse_video_timing (av_end f) (av_start f) True None of
             None \<Rightarrow> []
           | Some (start_s, end_s) \<Rightarrow>
               [AddVideo (js_trim (av_url f)) (Some (av_queue f)) (TextInput (av_amount f)) (int start_s)
                  (map_option int end_s)])"

section \<open>The slug\<close>

text \<open>
  The field keeps its text in lower case and at most 47 characters; a changed text is saved, an unchanged
  one is copied as an address.
\<close>

record slug_form =
  sl_slug :: string
  sl_saved :: string
  sl_copied :: bool
  sl_pending :: bool
  sl_error :: "json option"

datatype slug_action = Slug_saving | Slug_save | Slug_copied | Slug_copy

definition slug_form_dirty :: "slug_form \<Rightarrow> bool" where "slug_form_dirty f \<longleftrightarrow> sl_slug f \<noteq> sl_saved f"

definition slug_action_of :: "slug_form \<Rightarrow> slug_action" where
  "slug_action_of f =
     (if sl_pending f then Slug_saving else if slug_form_dirty f then Slug_save
      else if sl_copied f then Slug_copied else Slug_copy)"

datatype slug_event = Type_slug string | Press_slug_button bool | Submit_slug | Slug_updated string | Slug_failed json

datatype slug_effect = Update_slug string | Copy_address string

definition share_url :: "string \<Rightarrow> string \<Rightarrow> string" where
  "share_url origin slug = origin @ ''/@'' @ slug @ ''/videos''"

text \<open>
  The flag of a press tells whether the clipboard takes the text.  The form is submitted by its button or by
  the enter key; a button that is off keeps the key from it, and an unchanged slug has no such button.
\<close>

definition submit_slug :: "slug_form \<Rightarrow> slug_form \<times> slug_effect list" where
  "submit_slug f =
     (if valid_slug (sl_slug f) then (f\<lparr>sl_pending := True, sl_error := None\<rparr>, [Update_slug (sl_slug f)])
      else (f, []))"

definition slug_form_step :: "string \<Rightarrow> string \<Rightarrow> slug_form \<Rightarrow> slug_event \<Rightarrow> slug_form \<times> slug_effect list" where
  "slug_form_step origin user_slug f ev =
     (case ev of
        Type_slug s \<Rightarrow> if length s > 47 then (f, []) else (f\<lparr>sl_slug := to_lower s, sl_copied := False\<rparr>, [])
      | Press_slug_button clipboard \<Rightarrow>
          if sl_pending f then (f, [])
          else if slug_form_dirty f then submit_slug f
          else (f\<lparr>sl_copied := clipboard\<rparr>, [Copy_address (share_url origin user_slug)])
      | Submit_slug \<Rightarrow> if slug_form_dirty f \<and> sl_pending f then (f, []) else submit_slug f
      | Slug_updated s \<Rightarrow> (f\<lparr>sl_slug := s, sl_saved := s, sl_copied := False, sl_pending := False\<rparr>, [])
      | Slug_failed e \<Rightarrow> (f\<lparr>sl_pending := False, sl_error := Some e\<rparr>, []))"

section \<open>The public settings\<close>

record settings_form =
  sf_values :: public_queue_settings
  sf_saved :: public_queue_settings
  sf_pending :: bool

datatype settings_event =
    Set_public_enabled bool
  | Set_show_amounts bool
  | Set_show_watched bool
  | Save_public_settings
  | Public_settings_saved public_queue_settings
  | Public_settings_failed

text \<open>The two switches below are off while the queue is not public.\<close>

definition settings_form_step ::
  "settings_form \<Rightarrow> settings_event \<Rightarrow> settings_form \<times> public_queue_settings list" where
  "settings_form_step f ev =
     (let v = sf_values f in
      case ev of
        Set_public_enabled b \<Rightarrow> (f\<lparr>sf_values := v\<lparr>settingsEnabled := b\<rparr>\<rparr>, [])
      | Set_show_amounts b \<Rightarrow>
          if settingsEnabled v then (f\<lparr>sf_values := v\<lparr>showAmounts := b\<rparr>\<rparr>, []) else (f, [])
      | Set_show_watched b \<Rightarrow>
          if settingsEnabled v then (f\<lparr>sf_values := v\<lparr>showWatchedVideos := b\<rparr>\<rparr>, []) else (f, [])
      | Save_public_settings \<Rightarrow>
          if v \<noteq> sf_saved f \<and> \<not> sf_pending f then (f\<lparr>sf_pending := True\<rparr>, [v]) else (f, [])
      | Public_settings_saved w \<Rightarrow> (f\<lparr>sf_values := w, sf_saved := w, sf_pending := False\<rparr>, [])
      | Public_settings_failed \<Rightarrow> (f\<lparr>sf_pending := False\<rparr>, []))"

end
