(* ===== verification/VideoFormProperties.thy ===== *)
theory VideoFormProperties
  imports VideoForms
begin

text \<open>
  What the forms send: only requests the server's schemas accept, and for an editor that was opened and
  saved without a change exactly what is stored.
\<close>

section \<open>Forms as machines that send requests\<close>

fun run_form :: "('s \<Rightarrow> 'e \<Rightarrow> 's \<times> 'r list) \<Rightarrow> 's \<Rightarrow> 'e list \<Rightarrow> 's \<times> 'r list" where
  "run_form step s [] = (s, [])"
| "run_form step s (e # es) =
     (let (s', sent) = step s e; (s'', later) = run_form step s' es in (s'', sent @ later))"

locale request_machine =
  fixes advance :: "'s \<Rightarrow> 'e \<Rightarrow> 's \<times> 'r list" and admissible :: "'e \<Rightarrow> bool" and invar :: "'s \<Rightarrow> bool"
    and good :: "'r \<Rightarrow> bool"
  assumes advance_invar: "invar s \<Longrightarrow> admissible e \<Longrightarrow> invar (fst (advance s e))"
    and advance_good: "invar s \<Longrightarrow> admissible e \<Longrightarrow> list_all good (snd (advance s e))"
begin

lemma run_good: "invar s \<Longrightarrow> list_all admissible es \<Longrightarrow> list_all good (snd (run_form advance s es))"
proof (induction es arbitrary: s)
  case (Cons e es)
  obtain s' sent where st: "advance s e = (s', sent)" by (cases "advance s e")
  then have "invar s'" "list_all good sent" using advance_invar [of s e] advance_good [of s e] Cons.prems by auto
  then show ?case using Cons.IH [of s'] Cons.prems st by (auto simp: Let_def split: prod.splits)
qed simp

lemma run_invar: "invar s \<Longrightarrow> list_all admissible es \<Longrightarrow> invar (fst (run_form advance s es))"
proof (induction es arbitrary: s)
  case (Cons e es)
  obtain s' sent where st: "advance s e = (s', sent)" by (cases "advance s e")
  then have "invar s'" using advance_invar [of s e] Cons.prems by auto
  then show ?case using Cons.IH [of s'] Cons.prems st by (auto simp: Let_def split: prod.splits)
qed simp

end

section \<open>Fields\<close>

lemma parse_video_time_blank: "js_trim s = [] \<Longrightarrow> parse_video_time s = None"
  by (simp add: parse_video_time_def all_digits_def)

lemma timing_fields_iff:
  "start_time_error start_time = None \<and> end_time_error open_end maximum start_time end_time = None \<longleftrightarrow>
   parse_video_timing end_time start_time open_end maximum \<noteq> None"
proof (cases "parse_video_time start_time")
  case None
  then show ?thesis by (simp add: start_time_error_def parse_video_timing_def Let_def)
next
  case (Some s)
  have r: "required start_time" using Some parse_video_time_blank [of "[]"]
    by (auto simp: required_def js_trim_def)
  have e: "js_trim [] = []" by (simp add: js_trim_def)
  show ?thesis
  proof (cases "js_trim end_time = []")
    case True
    then show ?thesis using Some r
      by (auto simp: start_time_error_def end_time_error_def parse_video_timing_def Let_def required_def)
  next
    case False
    then have "required end_time" using e by (auto simp: required_def)
    then show ?thesis using Some r False
      by (auto simp: start_time_error_def end_time_error_def parse_video_timing_def Let_def not_less split: option.splits)
  qed
qed

lemma parse_video_timing_bounds:
  assumes "parse_video_timing end_time start_time open_end maximum = Some (s, e)"
  shows "s \<le> max_safe_integer" and "optional_holds (\<lambda>x. s < x \<and> x \<le> max_safe_integer) e"
  using assms parse_video_time_safe
  by (auto simp: parse_video_timing_def Let_def optional_holds_def split: option.splits if_splits)

text \<open>A canonical money text and the value of its input field stand for the same amount.\<close>

lemma parse_format_money:
  assumes "parse_money_amount (TextInput t) = Some t"
  shows "parse_money_amount (TextInput (format_money_input_value t)) = Some t"
proof (cases "suffix ''.00'' t")
  case False
  then show ?thesis using assms by (simp add: format_money_input_value_def)
next
  case True
  then obtain a where t: "t = a @ ''.00''" by (auto simp: suffix_def)
  obtain i f where f: "t = i @ ''.'' @ f" "digits_within 18 i" "length f = 2"
    using money_amount_canonical [OF assms] by blast
  then have "a @ ''.00'' = i @ (CHR ''.'' # f)" "length ''.00'' = length (CHR ''.'' # f)" using t by simp_all
  then have "a = i" using append_eq_append_conv [of a i "''.00''" "CHR ''.'' # f"] by blast
  then have "decimal_parts 18 2 a = Some (a, [])"
    using f(2) digits_within_no_dot js_split_no_sep by (auto simp: decimal_parts_def)
  then show ?thesis using True t
    by (simp add: format_money_input_value_def parse_money_amount_def amount_text_def pad_end_def numeral_2_eq_2)
qed

lemma money_text_canonical:
  assumes "c < 10 ^ 20"
  shows "parse_money_amount (TextInput (money_text c)) = Some (money_text c)" "decimal_units 2 (money_text c) = c"
proof -
  let ?i = "dec_nat (c div 100)" and ?f = "pad_start 2 (CHR ''0'') (dec_nat (c mod 100))"
  have i: "digits_within 18 ?i"
    using assms by (intro digits_within_dec_nat) (simp_all add: less_mult_imp_div_less)
  have f: "digits_within 2 ?f" by (intro digits_within_pad_start digits_within_dec_nat) simp_all
  then have len: "length ?f = 2" by (simp add: digits_within_def)
  then have pad: "pad_end 2 (CHR ''0'') ?f = ?f" unfolding pad_end_def by simp
  have parse: "parse_money_amount (TextInput (?i @ ''.'' @ ?f)) = Some (?i @ ''.'' @ ?f)"
    using decimal_parts_join [OF i f] pad by (simp add: parse_money_amount_def amount_text_def)
  then have m: "money_text c = ?i @ ''.'' @ ?f" by (simp add: money_text_def money_amount_def)
  with parse show "parse_money_amount (TextInput (money_text c)) = Some (money_text c)" by simp
  have "CHR ''.'' \<notin> set ?i" "CHR ''.'' \<notin> set ?f" using i f digits_within_no_dot by blast+
  then have "decimal_units 2 (money_text c) = nat_of_dec ?i * 10 ^ 2 + nat_of_dec ?f"
    unfolding m using decimal_units_join(1) pad by simp
  also have "\<dots> = c" by simp
  finally show "decimal_units 2 (money_text c) = c" .
qed

lemma proposed_rate_ok: "rate_field_ok (proposed_rate a b)"
  using default_rate_valid [of a b] parse_format_money
  by (auto simp: proposed_rate_def rate_field_ok_def)

text \<open>The rate is asked for in the direction the server applies it.\<close>

lemma rate_direction:
  assumes "current \<noteq> next_c"
  shows "conversion_factor_for_currency_change current next_c rate =
    (if larger_currency current next_c = current then (cents rate, 100) else (100, cents rate))"
  using assms by (cases current; cases next_c)
    (simp_all add: conversion_factor_for_currency_change_def larger_currency_def rubles_per_unit_def)

section \<open>Accepted requests\<close>

text \<open>Times beyond the server's limit of \<open>2 ^ 31 - 1\<close> seconds pass the forms; they are told apart.\<close>

definition beyond_limit :: "video_request \<Rightarrow> bool" where
  "beyond_limit req =
     (case req of
        AddVideo _ _ _ s e \<Rightarrow> s > max_video_seconds \<or> (case e of None \<Rightarrow> False | Some x \<Rightarrow> x > max_video_seconds)
      | UpdateVideo _ _ s e \<Rightarrow> s > max_video_seconds \<or> (case e of None \<Rightarrow> False | Some x \<Rightarrow> x > max_video_seconds)
      | _ \<Rightarrow> False)"

definition accepted :: "(string \<Rightarrow> bool) \<Rightarrow> (string \<Rightarrow> readonly_url option) \<Rightarrow> video_request \<Rightarrow> bool" where
  "accepted is_url rurl req \<longleftrightarrow> (if beyond_limit req then True else parse_video_request is_url rurl req \<noteq> None)"

lemma parse_details_form:
  assumes "amount_field_ok a" and "parse_video_timing end_time start_time True maximum = Some (s, e)"
    and "int s \<le> max_video_seconds" and "optional_holds (\<lambda>x. int x \<le> max_video_seconds) e"
  shows "parse_details (TextInput a) (int s) (map_option int e) \<noteq> None"
  using assms parse_video_timing_bounds [OF assms(2)]
  by (auto simp: parse_details_def amount_field_ok_def z_nonnegative_int_def z_positive_int_def z_int_def
      optional_holds_def valid_video_timing_def max_video_seconds_def max_safe_integer_def split: option.splits)

lemma save_video_accepted:
  assumes "valid_video_id (videoId video)" and "video_form_valid (maximum_end video) (ve_values s)"
  shows "list_all (accepted is_url rurl) (snd (save_video can_update video s))"
proof (cases "parse_video_timing (vf_end (ve_values s)) (vf_start (ve_values s)) True (maximum_end video)")
  case (Some t)
  obtain b e where t: "t = (b, e)" by (cases t)
  have a: "amount_field_ok (vf_amount (ve_values s))" using assms(2) by (simp add: video_form_valid_def)
  show ?thesis
    using Some t assms(1) parse_details_form [OF a, of "vf_end (ve_values s)" "vf_start (ve_values s)" "maximum_end video" b e]
    by (auto simp: save_video_def accepted_def beyond_limit_def parse_video_request_def optional_holds_def not_less
        split: option.splits)
qed (simp add: save_video_def)

interpretation video_form: request_machine "video_editor_step can_update video" "\<lambda>_. True"
  "\<lambda>_. valid_video_id (videoId video)" "accepted is_url rurl" for can_update video is_url rurl
  by unfold_locales
    (auto simp: video_editor_step_def save_video_accepted split: video_editor_event.split action_result.split prod.split bool.split)

lemma length_js_trim: "length (js_trim s) \<le> length s"
  unfolding js_trim_def by (metis length_dropWhile_le length_rev order_trans)

lemma label_accepted: "js_trim l \<noteq> [] \<Longrightarrow> length l \<le> 64 \<Longrightarrow> parse_label l \<noteq> None"
  using length_js_trim [of l] by (cases "js_trim l") (auto simp: parse_label_def)

text \<open>What the server sends and the events of the page are well-formed.\<close>

definition short_label :: "priority_editor_event \<Rightarrow> bool" where
  "short_label ev = (case ev of Priority_saved q \<Rightarrow> length (priorityName q) \<le> 64 | _ \<Rightarrow> True)"

definition priority_editor_ok :: "video_priority \<Rightarrow> priority_editor \<Rightarrow> bool" where
  "priority_editor_ok p s \<longleftrightarrow>
     valid_video_priority_id (videoPriorityId p) \<and> length (priorityName p) \<le> 64 \<and> length (pf_label (pe_values s)) \<le> 64"

interpretation priority_form: request_machine "priority_editor_step p" short_label "priority_editor_ok p"
  "accepted is_url rurl" for p is_url rurl
proof
  fix s e
  assume s: "priority_editor_ok p s" and e: "short_label e"
  show "priority_editor_ok p (fst (priority_editor_step p s e))"
    using s e by (auto simp: priority_editor_ok_def priority_editor_step_def short_label_def priority_form_values_def
        split: priority_editor_event.splits)
  have l: "\<exists>l. parse_label (pf_label (pe_values s)) = Some l" if "js_trim (pf_label (pe_values s)) \<noteq> []"
    using that s label_accepted by (auto simp: priority_editor_ok_def)
  show "list_all (accepted is_url rurl) (snd (priority_editor_step p s e))"
  proof (cases e)
    case Save_priority
    show ?thesis
    proof (cases "priority_form_valid (pe_values s)")
      case True
      then obtain l m where "parse_label (pf_label (pe_values s)) = Some l"
        "parse_money_amount (TextInput (pf_min_price (pe_values s))) = Some m"
        using l by (auto simp: priority_form_valid_def amount_field_ok_def)
      then show ?thesis using s Save_priority
        by (auto simp: priority_editor_ok_def priority_editor_step_def accepted_def beyond_limit_def
            parse_video_request_def valid_video_priority_id_def)
    qed (simp add: Save_priority priority_editor_step_def)
  qed (auto simp: priority_editor_step_def)
qed

definition queue_form_ok :: "queue_form \<Rightarrow> bool" where
  "queue_form_ok f \<longleftrightarrow> length (qf_label f) \<le> 64 \<and>
     (case qf_queue f of None \<Rightarrow> True | Some q \<Rightarrow> z_positive_int (videoQueueId q))"

interpretation queue_form: request_machine queue_form_step "\<lambda>_. True" queue_form_ok "accepted is_url rurl"
  for is_url rurl
proof
  fix f e
  assume f: "queue_form_ok f"
  show "queue_form_ok (fst (queue_form_step f e))"
    using f by (auto simp: queue_form_ok_def queue_form_step_def submit_queue_form_def Let_def
        split: queue_form_event.split option.splits)
  have l: "parse_label (js_trim (qf_label f)) \<noteq> None" if "js_trim (qf_label f) \<noteq> []"
    using that f label_accepted [of "js_trim (qf_label f)"] length_js_trim [of "qf_label f"]
    by (simp add: queue_form_ok_def)
  show "list_all (accepted is_url rurl) (snd (queue_form_step f e))"
    using f l by (auto simp: queue_form_ok_def queue_form_step_def submit_queue_form_def Let_def accepted_def
        beyond_limit_def parse_video_request_def split: queue_form_event.split option.splits)
qed

interpretation slug_form: request_machine "slug_form_step origin user_slug" "\<lambda>_. True" "\<lambda>_. True"
  "\<lambda>r. case r of Update_slug s \<Rightarrow> valid_slug s | Copy_address _ \<Rightarrow> True" for origin user_slug
  by unfold_locales (auto simp: slug_form_step_def submit_slug_def split: slug_event.split)

lemma add_video_accepted:
  assumes "z_positive_int (av_queue f)"
  shows "list_all (accepted is_url rurl) (submit_add_video is_url rurl f)"
proof (cases "parse_video_timing (av_end f) (av_start f) True None")
  case (Some t)
  obtain b e where t: "t = (b, e)" by (cases t)
  show ?thesis
    using Some t assms parse_details_form [of "av_amount f" "av_end f" "av_start f" None b e]
    by (auto simp: submit_add_video_def add_video_form_valid_def accepted_def beyond_limit_def
        parse_video_request_def optional_holds_def not_less split: option.splits)
qed (simp add: submit_add_video_def)

lemma currency_accepted: "list_all (accepted is_url rurl) (submit_currency pending f)"
  by (auto simp: submit_currency_def rate_field_ok_def accepted_def beyond_limit_def parse_video_request_def
      split: option.splits)

text \<open>The fields of a freshly opened editor are read as the stored amount and the stored timing.\<close>

lemma shown_amount_read:
  assumes "queueAmount video = Some c" and "c < 10 ^ 20"
  shows "parse_money_amount (TextInput (vf_amount (video_form_values video))) = Some (money_text c)"
    and "amount_field_ok (vf_amount (video_form_values video))"
proof -
  show amount: "parse_money_amount (TextInput (vf_amount (video_form_values video))) = Some (money_text c)"
    using parse_format_money [OF money_text_canonical(1) [OF assms(2)]] assms(1) by (simp add: video_form_values_def)
  have "parse_money_amount (TextInput []) = None"
    by (simp add: parse_money_amount_def amount_text_def decimal_parts_def digits_within_def)
  then show "amount_field_ok (vf_amount (video_form_values video))"
    using amount by (auto simp: amount_field_ok_def required_def)
qed

lemma shown_timing_read:
  assumes "0 \<le> startSeconds video" and "startSeconds video \<le> max_video_seconds"
    and "optional_holds (\<lambda>e. startSeconds video < e \<and> e \<le> max_video_seconds \<and>
      optional_holds (\<lambda>d. e \<le> d) (durationSeconds video)) (endSeconds video)"
  shows "parse_video_timing (vf_end (video_form_values video)) (vf_start (video_form_values video)) True
      (maximum_end video) = Some (nat (startSeconds video), map_option nat (endSeconds video))"
proof -
  let ?b = "nat (startSeconds video)"
  have nonblank: "js_trim (format_video_time n) \<noteq> []" if "n \<le> max_safe_integer" for n
    using that parse_format_video_time [of n] parse_video_time_blank [of "format_video_time n"]
    by (auto simp: safe_total_def)
  have small: "?b \<le> max_safe_integer"
    using assms(2) by (simp add: max_video_seconds_def max_safe_integer_def)
  show ?thesis
  proof (cases "endSeconds video")
    case None
    then show ?thesis using small
      by (simp add: video_form_values_def parse_video_timing_def parse_format_video_time safe_total_def js_trim_def)
  next
    case (Some e)
    then have "nat e \<le> max_safe_integer" "?b < nat e" "optional_holds (\<lambda>d. nat e \<le> nat d) (durationSeconds video)"
      using assms(1,3) by (auto simp: optional_holds_def max_video_seconds_def max_safe_integer_def split: option.splits)
    then show ?thesis using Some small nonblank [of "nat e"]
      by (auto simp: video_form_values_def parse_video_timing_def parse_format_video_time safe_total_def
          maximum_end_def Let_def optional_holds_def split: option.splits)
  qed
qed

section \<open>Properties\<close>

text \<open>
  The rules of the two time fields accept exactly what the form's submit handler can read: there is
  no form that is shown as valid and sends nothing, nor one that is refused though it could be sent.
\<close>
theorem timing_fields_agree:
  "(start_time_error start_time = None \<and> end_time_error open_end maximum start_time end_time = None) =
   (parse_video_timing end_time start_time open_end maximum \<noteq> None)"
  by (rule timing_fields_iff)

text \<open>
  C12: Whatever the user does with the editors of a video, a priority and a queue, with the form that adds a
  video and with the one of the currency, every request sent passes the input schema of its procedure, unless
  a time lies beyond the limit of the server; and only valid slugs are sent.
\<close>
theorem forms_send_accepted_requests:
  assumes "valid_video_id (videoId video)" and "priority_editor_ok p pe" and "list_all short_label pes"
    and "queue_form_ok qf" and "z_positive_int (av_queue av)"
  shows
    "list_all (accepted is_url rurl) (snd (run_form (video_editor_step can_update video) ve ves)) \<and>
     list_all (accepted is_url rurl) (snd (run_form (priority_editor_step p) pe pes)) \<and>
     list_all (accepted is_url rurl) (snd (run_form queue_form_step qf qfs)) \<and>
     list_all (accepted is_url rurl) (submit_add_video is_url rurl av) \<and>
     list_all (accepted is_url rurl) (submit_currency pending cf) \<and>
     list_all (\<lambda>r. case r of Update_slug s \<Rightarrow> valid_slug s | Copy_address _ \<Rightarrow> True)
       (snd (run_form (slug_form_step origin user_slug) sl sls))"
  using assms video_form.run_good [of video ves is_url rurl can_update ve] priority_form.run_good [of p pe pes is_url rurl]
    queue_form.run_good [of qf qfs is_url rurl] slug_form.run_good [of sls origin user_slug sl]
    add_video_accepted [of av is_url rurl] currency_accepted
  by (simp add: list_all_iff)


section \<open>Witnesses\<close>

definition sample_video :: video_item where
  "sample_video =
     \<lparr>videoTitle = None, durationSeconds = None, metadataUnavailable = False, metadataRetryAt = None, videoId = 7,
      itemQueueId = 1, itemPriorityId = None, providerVideoId = ''x'', videoUrl = ''u'', queueAmount = Some 1250,
      queueCurrency = RUB, startSeconds = 5, endSeconds = Some 90, priorityLabel = None, watchedAt = None,
      bookmarkedAt = None, createdAt = 0, videoSource = Manual_source, videoDonation = None\<rparr>"

definition sample_priority :: video_priority where
  "sample_priority = \<lparr>videoPriorityId = 3, priorityName = ''A'', minPricePerMinute = 100, priorityIsDefault = False\<rparr>"

theorem forms_send_accepted_requests_witness:
  "list_all (accepted (\<lambda>_. True) (\<lambda>_. None))
     (snd (run_form (queue_form_step) (new_queue_form None) [Set_queue_label ''Music'', Submit_queue]))"
  using forms_send_accepted_requests [of sample_video sample_priority
      "\<lparr>pe_editing = False, pe_values = priority_form_values sample_priority, pe_pending = False, pe_error = None\<rparr>"
      "[Start_editing_priority]" "new_queue_form None" "new_add_video_form 1" "\<lambda>_. True" "\<lambda>_. None" True
      "new_video_editor sample_video" "[]" "[Set_queue_label ''Music'', Submit_queue]" False "open_currency_form RUB"
      "[]" "''abc''" "\<lparr>sl_slug = ''abc'', sl_saved = ''abc'', sl_copied = False, sl_pending = False, sl_error = None\<rparr>" "[]"]
  by (simp add: valid_video_id_def sample_video_def priority_editor_ok_def sample_priority_def valid_video_priority_id_def
      z_positive_int_def z_int_def max_safe_integer_def priority_form_values_def short_label_def queue_form_ok_def
      new_queue_form_def new_add_video_form_def)


end
