(* ===== verification/VideoCards.thy ===== *)
theory VideoCards
  imports VideoForms ClientText
begin

text \<open>
  What the cards of videos show (\<open>components/video-card.tsx\<close>, \<open>components/shared-video-card.tsx\<close>): the picture
  and its times, the amount, the duration, the buttons, and the links of a donation's message.  The URL parser is an
  argument; words, \<open>Intl\<close> and the markup are left out.
\<close>

section \<open>The picture\<close>

text \<open>A picture is that of a video's identifier; the identifier is encoded for the address by an argument.\<close>

definition thumbnail_url :: "(string \<Rightarrow> string) \<Rightarrow> string \<Rightarrow> string" where
  "thumbnail_url encode video = ''https://i.ytimg.com/vi/'' @ encode video @ ''/hqdefault.jpg''"

text \<open>The shared card reads the identifier from the address; the parser throws on an address it cannot read.\<close>

definition shared_card_video_id :: "(string \<Rightarrow> readonly_url option) \<Rightarrow> string \<Rightarrow> string option option" where
  "shared_card_video_id rurl url =
     (case rurl url of
        None \<Rightarrow> None
      | Some parsed_url \<Rightarrow>
          (let host = to_lower (case strip_prefix ''www.'' (url_hostname parsed_url) of
                                  Some rest \<Rightarrow> rest | None \<Rightarrow> url_hostname parsed_url)
           in Some (if host = ''youtu.be''
                    then (case js_split (CHR ''/'') (url_pathname parsed_url) of
                            _ # segment # _ \<Rightarrow> Some segment | _ \<Rightarrow> None)
                    else case map_of (url_search_params parsed_url) ''v'' of
                           Some v \<Rightarrow> Some v
                         | None \<Rightarrow> match_embed (url_pathname parsed_url))))"

datatype timing_label = From_time string | Until_time string | Time_range string string

definition card_timing :: "video_item \<Rightarrow> timing_label" where
  "card_timing v =
     (case endSeconds v of
        None \<Rightarrow> From_time (format_video_time (nat (startSeconds v)))
      | Some e \<Rightarrow> Time_range (format_video_time (nat (startSeconds v))) (format_video_time (nat e)))"

definition shared_card_timing :: "shared_video \<Rightarrow> timing_label option" where
  "shared_card_timing v =
     (case get_shared_video_timing_parts (nat (sharedStartSeconds v)) (map_option nat (sharedEndSeconds v))
             (map_option nat (sharedDurationSeconds v)) of
        (Some s, Some e) \<Rightarrow> Some (Time_range s e)
      | (Some s, None) \<Rightarrow> Some (From_time s)
      | (None, Some e) \<Rightarrow> Some (Until_time e)
      | (None, None) \<Rightarrow> None)"

section \<open>The duration\<close>

datatype watch_duration_label = Duration_unavailable | Duration_pending | Watch_duration "int \<times> int"

definition card_watch_duration :: "int \<Rightarrow> int option \<Rightarrow> bool \<Rightarrow> watch_duration_label" where
  "card_watch_duration start_seconds end_seconds unavailable =
     (case end_seconds of
        None \<Rightarrow> if unavailable then Duration_unavailable else Duration_pending
      | Some e \<Rightarrow> Watch_duration (get_rounded_watch_duration_parts (get_watch_duration_seconds start_seconds e)))"

section \<open>Links of a message\<close>

text \<open>The host, the path without a slash at its end, and the query of an address; \<open>parts\<close> is the parser.\<close>

definition normalize_url :: "(string \<Rightarrow> (string \<times> string \<times> string) option) \<Rightarrow> string \<Rightarrow> string option" where
  "normalize_url parts url =
     map_option (\<lambda>(hostname, pathname, search).
         to_lower hostname @ (if pathname \<noteq> [] \<and> last pathname = CHR ''/'' then butlast pathname else pathname) @ search)
       (parts (if prefix ''www.'' url then ''https://'' @ url else url))"

definition is_video_link :: "(string \<Rightarrow> (string \<times> string \<times> string) option) \<Rightarrow> string \<Rightarrow> string \<Rightarrow> bool" where
  "is_video_link parts href url \<longleftrightarrow> normalize_url parts href = normalize_url parts url"

section \<open>The card of a queue\<close>

record card_options =
  ck_can_update :: bool
  ck_can_change_status :: bool
  ck_can_retry :: bool
  ck_updating :: bool
  ck_show_priority :: bool
  ck_show_source :: bool

record shown_card =
  sk_author :: string
  sk_picture :: string
  sk_timing :: timing_label
  sk_title :: "string option"
  sk_priority :: "string option option"
  sk_added_manually :: bool
  sk_amount :: "nat option"
  sk_edit_button :: bool
  sk_duration :: "watch_duration_label option"
  sk_status_buttons :: "(bool \<times> bool) option"
  sk_watched_at :: "timestamp option"
  sk_message :: "string option"

definition card_author :: "string \<Rightarrow> string \<Rightarrow> video_item \<Rightarrow> string" where
  "card_author anonymous no_donation v =
     (case videoDonation v of
        None \<Rightarrow> no_donation
      | Some d \<Rightarrow> (case donationAuthor d of Some a \<Rightarrow> a | None \<Rightarrow> anonymous))"

definition shown_card_of ::
  "(string \<Rightarrow> string) \<Rightarrow> string \<Rightarrow> string \<Rightarrow> card_options \<Rightarrow> bool \<Rightarrow> video_item \<Rightarrow> shown_card" where
  "shown_card_of encode anonymous no_donation opts editing v =
     \<lparr>sk_author = card_author anonymous no_donation v, sk_picture = thumbnail_url encode (providerVideoId v),
      sk_timing = card_timing v, sk_title = videoTitle v,
      sk_priority = (if ck_show_priority opts then Some (priorityLabel v) else None),
      sk_added_manually = (ck_show_source opts \<and> videoSource v = Manual_source), sk_amount = queueAmount v,
      sk_edit_button = (ck_can_update opts \<and> \<not> editing),
      sk_duration =
        (if editing then None else Some (card_watch_duration (startSeconds v) (endSeconds v) (metadataUnavailable v))),
      sk_status_buttons =
        (if ck_can_change_status opts then Some (watchedAt v \<noteq> None, bookmarkedAt v \<noteq> None) else None),
      sk_watched_at = watchedAt v,
      sk_message = map_option (\<lambda>d. case donationMessage d of Some m \<Rightarrow> m | None \<Rightarrow> []) (videoDonation v)\<rparr>"

section \<open>The card of a shared queue\<close>

record shown_shared_card =
  hk_picture :: "string option"
  hk_timing :: "timing_label option"
  hk_title :: "string option"
  hk_priority :: "string option"
  hk_amount :: "(display_amount \<times> string) option"
  hk_duration :: watch_duration_label
  hk_watched_at :: "timestamp option"

text \<open>\<open>None\<close> when the card cannot be shown, since the parser throws.\<close>

definition shown_shared_card_of ::
  "(string \<Rightarrow> readonly_url option) \<Rightarrow> (string \<Rightarrow> string) \<Rightarrow> bool \<Rightarrow> shared_video \<Rightarrow> shown_shared_card option" where
  "shown_shared_card_of rurl encode show_priority v =
     map_option (\<lambda>video.
       \<lparr>hk_picture = map_option (thumbnail_url encode) video,
        hk_timing = (if video = None then None else shared_card_timing v), hk_title = sharedTitle v,
        hk_priority = (if show_priority then sharedPriorityLabel v else None),
        hk_amount = (case (displayAmount v, displayCurrency v) of (Some a, Some c) \<Rightarrow> Some (a, c) | _ \<Rightarrow> None),
        hk_duration = card_watch_duration (sharedStartSeconds v) (sharedEndSeconds v) (sharedMetadataUnavailable v),
        hk_watched_at = sharedWatchedAt v\<rparr>)
       (shared_card_video_id rurl (sharedUrl v))"

section \<open>One picture for a link\<close>

text \<open>
  For a link that was accepted as one of a video, the shared card can be shown, with the picture of the same video as
  the card of the queue.
\<close>

lemma same_picture:
  assumes "youtube_video_id rurl url = Some video" and "\<not> prefix ''www.'' url"
  shows "shared_card_video_id rurl url = Some (Some video)"
proof -
  obtain u where u: "rurl url = Some u" and y: "is_youtube_url u"
    using assms by (auto simp: youtube_video_id_def parse_url_def split: option.splits if_splits)
  let ?h = "url_hostname u"
  let ?host = "to_lower (case strip_prefix ''www.'' ?h of Some rest \<Rightarrow> rest | None \<Rightarrow> ?h)"
  have "?host = ''youtu.be'' \<longleftrightarrow> to_lower ?h = ''youtu.be''"
  proof (cases "strip_prefix ''www.'' ?h")
    case (Some rest)
    then have h: "?h = ''www.'' @ rest" by (simp add: strip_prefix_iff)
    have "to_lower ?h = ''www.'' @ to_lower rest"
      unfolding h by (simp add: to_lower_def lower_char_def is_upper_alpha_def code_def)
    moreover have "to_lower ?h \<noteq> ''www.youtu.be''"
      using y unfolding is_youtube_url_def Let_def by (auto simp: suffix_to_prefix split: if_splits)
    ultimately have "to_lower rest \<noteq> ''youtu.be''" "to_lower ?h \<noteq> ''youtu.be''" by auto
    then show ?thesis using Some by simp
  qed simp
  then show ?thesis using assms u y
    by (auto simp: youtube_video_id_def shared_card_video_id_def parse_url_def Let_def split: if_splits option.splits)
qed

end
