(* ===== verification/QueuePages.thy ===== *)
theory QueuePages
  imports VideoForms VideoQueuePages Donations
begin

text \<open>
  The pages of the video queue and of the donations (\<open>routes/_authenticated/videos.tsx\<close>,
  \<open>routes/$slug/videos.tsx\<close>, \<open>routes/_authenticated/donations.index.tsx\<close>): the search part of the
  address and its validation, the inputs of the queries, the corrections a page makes to its own address,
  and where its links lead.  The router's parsed search part is a list of JSON fields; \<open>coerce\<close> is
  \<open>Number\<close>, \<open>None\<close> for what is not an integer.
\<close>

section \<open>The address\<close>

text \<open>\<open>z.coerce.number().int().positive()\<close>, with a fallback for what is missing or wrong.\<close>

definition positive_number :: "(json \<Rightarrow> int option) \<Rightarrow> json option \<Rightarrow> int option" where
  "positive_number coerce v =
     Option.bind (Option.bind v coerce) (\<lambda>n. if z_positive_int n then Some n else None)"

definition page_of :: "(json \<Rightarrow> int option) \<Rightarrow> json option \<Rightarrow> int" where
  "page_of coerce v = (case positive_number coerce v of Some n \<Rightarrow> n | None \<Rightarrow> 1)"

text \<open>\<open>/^[1-9][0-9]*$/\<close>\<close>

definition id_text :: "string \<Rightarrow> bool" where
  "id_text s = (case s of [] \<Rightarrow> False | c # cs \<Rightarrow> is_digit c \<and> c \<noteq> CHR ''0'' \<and> list_all is_digit cs)"

definition id_field :: "json option \<Rightarrow> string option" where
  "id_field v = (case v of Some (J_str s) \<Rightarrow> if id_text s then Some s else None | _ \<Rightarrow> None)"

record video_search =
  vs_queue_id :: "int option"
  vs_video_id :: "string option"
  vs_page :: int
  vs_priority :: priority_filter
  vs_status :: video_status

definition priority_field :: "(json \<Rightarrow> int option) \<Rightarrow> json option \<Rightarrow> priority_filter" where
  "priority_field coerce v =
     (if v = Some (J_str ''all'') then Any_priority
      else if v = Some (J_str ''unassigned'') then Unassigned
      else case positive_number coerce v of Some n \<Rightarrow> Only_priority n | None \<Rightarrow> Any_priority)"

definition status_field :: "json option \<Rightarrow> video_status" where
  "status_field v =
     (case v of
        Some (J_str s) \<Rightarrow>
          if s = ''all'' then All_videos else if s = ''watched'' then Watched
          else if s = ''bookmarked'' then Bookmarked else Notwatched
      | _ \<Rightarrow> Notwatched)"

definition validate_video_search :: "(json \<Rightarrow> int option) \<Rightarrow> json \<Rightarrow> video_search" where
  "validate_video_search coerce raw =
     \<lparr>vs_queue_id = positive_number coerce (field raw ''videoQueueId''),
      vs_video_id = id_field (field raw ''videoId''),
      vs_page = page_of coerce (field raw ''page''),
      vs_priority = priority_field coerce (field raw ''videoPriorityId''),
      vs_status = status_field (field raw ''videoStatus'')\<rparr>"

record shared_search =
  ss_queue_id :: "int option"
  ss_page :: int
  ss_status :: shared_status

definition validate_shared_search :: "(json \<Rightarrow> int option) \<Rightarrow> json \<Rightarrow> shared_search" where
  "validate_shared_search coerce raw =
     \<lparr>ss_queue_id = positive_number coerce (field raw ''videoQueueId''),
      ss_page = page_of coerce (field raw ''page''),
      ss_status = (if field raw ''status'' = Some (J_str ''watched'') then Watched_status else Queue_status)\<rparr>"

record donation_search =
  ds_donation_id :: "string option"
  ds_page :: int
  ds_period :: donation_period
  ds_query :: string
  ds_source :: "donation_source option"

definition period_field :: "json option \<Rightarrow> donation_period" where
  "period_field v =
     (if v = Some (J_str ''week'') then Last_week else if v = Some (J_str ''month'') then Last_month else All_time)"

definition query_field :: "json option \<Rightarrow> string" where
  "query_field v = (case v of Some (J_str s) \<Rightarrow> if length s \<le> 200 then s else [] | _ \<Rightarrow> [])"

definition validate_donation_search ::
  "(json \<Rightarrow> int option) \<Rightarrow> (string \<Rightarrow> donation_source option) \<Rightarrow> json \<Rightarrow> donation_search" where
  "validate_donation_search coerce source_of raw =
     \<lparr>ds_donation_id = id_field (field raw ''donationId''),
      ds_page = page_of coerce (field raw ''page''),
      ds_period = period_field (field raw ''period''),
      ds_query = query_field (field raw ''query''),
      ds_source = (case field raw ''source'' of Some (J_str s) \<Rightarrow> source_of s | _ \<Rightarrow> None)\<rparr>"

section \<open>The inputs of the queries\<close>

definition id_value :: "string option \<Rightarrow> int option" where
  "id_value s = map_option (\<lambda>t. int (nat_of_dec t)) s"

definition video_page_input :: "video_search \<Rightarrow> page_input" where
  "video_page_input s =
     \<lparr>in_page = vs_page s, in_page_size = int page_size, in_priority = vs_priority s, in_status = vs_status s,
      in_video_id = id_value (vs_video_id s), in_queue_id = vs_queue_id s\<rparr>"

definition shared_page_input :: "string \<Rightarrow> shared_search \<Rightarrow> shared_input" where
  "shared_page_input slug s =
     \<lparr>sh_slug = slug, sh_page = ss_page s, sh_page_size = int page_size, sh_status = ss_status s,
      sh_queue_id = ss_queue_id s\<rparr>"

definition donation_request :: "donation_search \<Rightarrow> donation_page_request" where
  "donation_request s =
     \<lparr>dr_page = ds_page s, dr_period = ds_period s, dr_donation_id = id_value (ds_donation_id s),
      dr_query = ds_query s, dr_source = ds_source s\<rparr>"

section \<open>Corrections\<close>

text \<open>The new address when the answer shows another page or, for the owner, names the queue.\<close>

definition correct_video_search :: "video_search \<Rightarrow> video_page \<Rightarrow> video_search option" where
  "correct_video_search s data =
     (if page_number data \<noteq> vs_page s \<or> vs_queue_id s = None
      then Some (s\<lparr>vs_page := page_number data, vs_queue_id := Some (videoQueueId (page_queue_item data))\<rparr>)
      else None)"

definition correct_shared_search :: "shared_search \<Rightarrow> shared_page \<Rightarrow> shared_search option" where
  "correct_shared_search s data =
     (if shp_page data \<noteq> ss_page s \<or> shp_status data \<noteq> ss_status s
      then Some (s\<lparr>ss_page := shp_page data, ss_status := shp_status data\<rparr>) else None)"

definition correct_donation_search :: "donation_search \<Rightarrow> donation_page \<Rightarrow> donation_search option" where
  "correct_donation_search s data =
     (if dpg_page data \<noteq> ds_page s then Some (s\<lparr>ds_page := dpg_page data\<rparr>) else None)"

section \<open>Links\<close>

definition queue_link :: "int \<Rightarrow> video_search \<Rightarrow> video_search" where
  "queue_link queue_id s =
     s\<lparr>vs_queue_id := Some queue_id, vs_video_id := None, vs_page := 1, vs_priority := Any_priority\<rparr>"

definition status_link :: "video_page option \<Rightarrow> video_status \<Rightarrow> video_search \<Rightarrow> video_search" where
  "status_link data st s =
     \<lparr>vs_queue_id = (case data of Some d \<Rightarrow> Some (videoQueueId (page_queue_item d)) | None \<Rightarrow> vs_queue_id s),
      vs_video_id = None, vs_page = 1, vs_priority = vs_priority s, vs_status = st\<rparr>"

definition priority_link :: "int option \<Rightarrow> priority_filter \<Rightarrow> video_search \<Rightarrow> video_search" where
  "priority_link queue_id p s =
     \<lparr>vs_queue_id = queue_id, vs_video_id = None, vs_page = 1, vs_priority = p, vs_status = vs_status s\<rparr>"

definition all_videos_link :: video_search where
  "all_videos_link =
     \<lparr>vs_queue_id = None, vs_video_id = None, vs_page = 1, vs_priority = Any_priority, vs_status = All_videos\<rparr>"

text \<open>From a donation to one of its videos, and from a video to its donation.\<close>

definition video_link :: "donation_video \<Rightarrow> video_search" where
  "video_link v = all_videos_link\<lparr>vs_video_id := Some (dec_nat (nat (dv_video_id v)))\<rparr>"

definition donation_link :: "donation_item \<Rightarrow> donation_search" where
  "donation_link d =
     \<lparr>ds_donation_id = Some (dec_nat (nat (donationId d))), ds_page = 1, ds_period = All_time, ds_query = [],
      ds_source = None\<rparr>"

definition shared_queue_link :: "int \<Rightarrow> shared_search \<Rightarrow> shared_search" where
  "shared_queue_link queue_id s = s\<lparr>ss_queue_id := Some queue_id, ss_page := 1\<rparr>"

definition shared_status_link :: "shared_status \<Rightarrow> shared_search \<Rightarrow> shared_search" where
  "shared_status_link st s = \<lparr>ss_queue_id = ss_queue_id s, ss_page = 1, ss_status = st\<rparr>"

definition filter_source :: "donation_source option \<Rightarrow> donation_search \<Rightarrow> donation_search" where
  "filter_source source s = s\<lparr>ds_donation_id := None, ds_page := 1, ds_source := source\<rparr>"

definition filter_period :: "donation_period \<Rightarrow> donation_search \<Rightarrow> donation_search" where
  "filter_period period s = s\<lparr>ds_donation_id := None, ds_page := 1, ds_period := period\<rparr>"

section \<open>Searching donations\<close>

text \<open>
  The text of the input, the address, and whether the timer is set: it is set anew when the text or the
  query of the address changes, and three tenths of a second later the address takes the trimmed text,
  which the router validates again; a changed query of the address changes the input.
\<close>

record donation_finder =
  df_input :: string
  df_search :: donation_search
  df_timer :: bool

definition search_input_value :: "string \<Rightarrow> string \<Rightarrow> string" where
  "search_input_value input address_query = (if js_trim input = address_query then input else address_query)"

definition revalidate :: "donation_search \<Rightarrow> donation_search" where
  "revalidate s = s\<lparr>ds_query := (if length (ds_query s) \<le> 200 then ds_query s else [])\<rparr>"

definition open_search :: "donation_search \<Rightarrow> donation_finder \<Rightarrow> donation_finder" where
  "open_search s f =
     (if ds_query s = ds_query (df_search f) then f\<lparr>df_search := s\<rparr>
      else \<lparr>df_input = search_input_value (df_input f) (ds_query s), df_search = s, df_timer = True\<rparr>)"

definition search_now :: "donation_finder \<Rightarrow> donation_finder" where
  "search_now f =
     (let normalized_query = js_trim (df_input f) in
      if normalized_query = ds_query (df_search f) then f
      else open_search (revalidate ((df_search f)\<lparr>ds_donation_id := None, ds_page := 1,
             ds_query := normalized_query\<rparr>)) f)"

datatype finder_event =
    Type_query string
  | Search_timer
  | Choose_source "donation_source option"
  | Choose_period donation_period
  | Open_donations donation_search

definition finder_step :: "donation_finder \<Rightarrow> finder_event \<Rightarrow> donation_finder" where
  "finder_step f ev =
     (case ev of
        Type_query s \<Rightarrow> if s = df_input f then f else f\<lparr>df_input := s, df_timer := True\<rparr>
      | Search_timer \<Rightarrow> if df_timer f then search_now (f\<lparr>df_timer := False\<rparr>) else f
      | Choose_source src \<Rightarrow> open_search (filter_source src (df_search f)) f
      | Choose_period p \<Rightarrow> open_search (filter_period p (df_search f)) f
      | Open_donations s \<Rightarrow> open_search (revalidate s) f)"

definition run_finder :: "donation_finder \<Rightarrow> finder_event list \<Rightarrow> donation_finder" where
  "run_finder = foldl finder_step"

definition open_finder :: "donation_search \<Rightarrow> donation_finder" where
  "open_finder s = \<lparr>df_input = ds_query s, df_search = s, df_timer = True\<rparr>"

section \<open>What the pages show\<close>

datatype list_view = Loading_list | Failed_list | Empty_list string | Shown_list

text \<open>The list of the owner's page; the text of an empty one tells why it is empty.\<close>

definition empty_queue_title :: "video_search \<Rightarrow> int \<Rightarrow> string" where
  "empty_queue_title s videos_total =
     (if vs_video_id s \<noteq> None then ''linkedVideoUnavailable''
      else if videos_total > 0 then (if vs_status s = All_videos then ''noVideos'' else ''noFilteredVideos'')
      else ''noVideosInQueue'')"

definition video_list_view :: "video_search \<Rightarrow> bool \<Rightarrow> bool \<Rightarrow> video_page option \<Rightarrow> list_view" where
  "video_list_view s loading failed data =
     (if loading then Loading_list
      else if failed then Failed_list
      else (let items = (case data of None \<Rightarrow> [] | Some d \<Rightarrow> page_items d);
                total = (case data of None \<Rightarrow> 0 | Some d \<Rightarrow> count_all (page_status_counts d))
            in if items = [] then Empty_list (empty_queue_title s total) else Shown_list))"

definition donation_list_view :: "donation_search \<Rightarrow> bool \<Rightarrow> bool \<Rightarrow> donation_page option \<Rightarrow> list_view" where
  "donation_list_view s loading failed data =
     (if loading then Loading_list
      else if failed then Failed_list
      else if (case data of None \<Rightarrow> False | Some d \<Rightarrow> dpg_items d \<noteq> []) then Shown_list
      else if ds_donation_id s \<noteq> None then Empty_list ''linkedDonationUnavailable''
      else if ds_query s \<noteq> [] \<or> ds_period s \<noteq> All_time \<or> ds_source s \<noteq> None then Empty_list ''noMatchingDonations''
      else Empty_list ''noDonationsYet'')"

text \<open>The number beside the link to all priorities, and a priority's own numbers.\<close>

definition all_priorities_count :: "(int \<times> int) list \<Rightarrow> int" where
  "all_priorities_count counts = sum_list (map snd counts)"

definition count_of :: "(int \<times> int) list \<Rightarrow> int \<Rightarrow> int" where
  "count_of counts k = (case map_of counts k of Some n \<Rightarrow> n | None \<Rightarrow> 0)"

text \<open>
  The public queue: the videos by priority with a heading for each known one, those without a priority,
  and on the last page the priorities that have no video.
\<close>

datatype shared_section =
    Priority_section shared_priority "shared_video list"
  | Unlabelled_section "shared_video list"
  | Unassigned_section "shared_video list"
  | Empty_priority shared_priority

definition group_section :: "shared_priority list \<Rightarrow> int \<times> shared_video list \<Rightarrow> shared_section" where
  "group_section ps g =
     (case find (\<lambda>p. sp_id p = fst g) ps of
        None \<Rightarrow> Unlabelled_section (snd g) | Some p \<Rightarrow> Priority_section p (snd g))"

definition shared_sections :: "shared_video list \<Rightarrow> bool \<Rightarrow> shared_priority list \<Rightarrow> shared_section list" where
  "shared_sections items is_last_page ps =
     (let (groups, unassigned) = group_videos_by_priority sharedPriorityId items in
      map (group_section ps) groups @ (if unassigned = [] then [] else [Unassigned_section unassigned]) @
      (if is_last_page then map Empty_priority (filter (\<lambda>p. sp_video_count p = 0) ps) else []))"

definition shared_page_sections :: "shared_page \<Rightarrow> shared_section list" where
  "shared_page_sections data =
     (if shp_status data = Queue_status
      then shared_sections (shp_items data) (shp_total_pages data = 0 \<or> shp_page data = shp_total_pages data)
             (shp_priorities data)
      else [Unlabelled_section (shp_items data)])"

definition section_videos :: "shared_section \<Rightarrow> shared_video list" where
  "section_videos s =
     (case s of Priority_section _ vs \<Rightarrow> vs | Unlabelled_section vs \<Rightarrow> vs | Unassigned_section vs \<Rightarrow> vs
      | Empty_priority _ \<Rightarrow> [])"

text \<open>The controls of an own video are off while one of the page's mutations runs; moving needs two queues.\<close>

definition video_card_updating :: "bool \<Rightarrow> bool \<Rightarrow> bool \<Rightarrow> bool \<Rightarrow> bool" where
  "video_card_updating status_pending update_pending move_pending retry_pending \<longleftrightarrow>
     status_pending \<or> update_pending \<or> move_pending \<or> retry_pending"

definition move_control_shown :: "video_queue list option \<Rightarrow> bool" where
  "move_control_shown qs = (case qs of None \<Rightarrow> False | Some l \<Rightarrow> length l > 1)"

end
