(* ===== verification/QueuePageProperties.thy ===== *)
theory QueuePageProperties
  imports QueuePages VideoPageProperties
begin

text \<open>
  A page corrects its address once and then rests, the search of donations follows the input, and the
  public queue shows every video of a page.
\<close>

lemma window_again:
  "get_pagination_window n (win_page (get_pagination_window n p k)) k = get_pagination_window n p k"
  by (simp add: get_pagination_window_def Let_def)

section \<open>The owner's page\<close>

lemma list_page_queue:
  assumes "db_ok db" and "list_page is_url db uid inp = Inr data"
  obtains row where "page_queue db uid inp = Some row" "videoQueueId (page_queue_item data) = q_id row"
    "in_int4 (q_id row)"
    "page_number data = win_page (get_pagination_window (count_videos db uid (q_id row) inp) (in_page inp) (in_page_size inp))"
proof -
  from assms(2) obtain row queue where row: "page_queue db uid inp = Some row"
    and queue: "parse_video_queue (queue_item row) = Some queue"
    and data: "page_queue_item data = queue" "page_number data = win_page
      (get_pagination_window (count_videos db uid (videoQueueId queue) inp) (in_page inp) (in_page_size inp))"
    by (auto simp: list_page_def bind_result_Inr_iff Let_def parse_row_def expect_def split: option.splits)
  have id: "videoQueueId queue = q_id row"
    using queue by (auto simp: parse_video_queue_def queue_item_def split: if_split_asm)
  have "row \<in> set (queues db)" using row unfolding page_queue_def by (blast dest: first_row_filterD)
  then have "in_int4 (q_id row)" using assms(1) by (auto simp: db_ok_def queues_ok_def int4_id_def)
  with that row data id show thesis by simp
qed

lemma list_page_same:
  assumes "page_queue db uid inp' = page_queue db uid inp"
    and "in_priority inp' = in_priority inp" "in_status inp' = in_status inp" "in_video_id inp' = in_video_id inp"
    and "in_page_size inp' = in_page_size inp"
    and "optional_holds in_int4 (in_queue_id inp')" and "list_page is_url db uid inp = Inr data"
    and "\<And>qid. videoQueueId (page_queue_item data) = qid \<Longrightarrow>
      get_pagination_window (count_videos db uid qid inp) (in_page inp') (in_page_size inp) =
      get_pagination_window (count_videos db uid qid inp) (in_page inp) (in_page_size inp)"
  shows "list_page is_url db uid inp' = Inr data"
proof -
  have on: "on_page inp' = on_page inp" using assms(2-4) by (simp add: fun_eq_iff on_page_def)
  then have counts: "count_videos db uid qid inp' = count_videos db uid qid inp"
    and sorted: "sorted_videos db uid qid inp' = sorted_videos db uid qid inp" for qid
    using assms(3) by (simp_all add: count_videos_def sorted_videos_def)
  have rows: "page_rows db uid (videoQueueId (page_queue_item data)) inp' = page_rows db uid (videoQueueId (page_queue_item data)) inp"
    using assms(5,8) counts sorted by (simp add: page_rows_def)
  obtain row queue where row: "page_queue db uid inp = Some row" "parse_video_queue (queue_item row) = Some queue"
    and queue: "page_queue_item data = queue"
    using assms(7) by (auto simp: list_page_def bind_result_Inr_iff Let_def parse_row_def expect_def split: option.splits)
  have "list_page is_url db uid inp' = list_page is_url db uid inp"
    using assms(7) row assms(1-6) assms(8) [OF refl] counts rows
    unfolding queue list_page_def
    by (auto simp: bind_result_Inr_iff Let_def ensure_def parse_row_def expect_def split: if_split_asm
        cong: option.case_cong)
  then show ?thesis using assms(7) by simp
qed

lemma video_search_settles:
  assumes "db_ok db" and "list_page is_url db uid (video_page_input s) = Inr data"
    and "correct_video_search s data = Some s'"
  shows "list_page is_url db uid (video_page_input s') = Inr data \<and> correct_video_search s' data = None"
proof -
  let ?inp = "video_page_input s" and ?inp' = "video_page_input s'"
  obtain row where row: "page_queue db uid ?inp = Some row" "videoQueueId (page_queue_item data) = q_id row"
    "in_int4 (q_id row)"
    "page_number data = win_page (get_pagination_window (count_videos db uid (q_id row) ?inp) (in_page ?inp) (in_page_size ?inp))"
    using assms(1,2) by (rule list_page_queue)
  have s': "s' = s\<lparr>vs_page := page_number data, vs_queue_id := Some (q_id row)\<rparr>"
    using assms(3) row(2) by (simp add: correct_video_search_def split: if_split_asm)
  have "wanted_queue_id db uid ?inp = Some (q_id row)"
    using first_row_filterD [OF row(1) [unfolded page_queue_def]] by simp
  moreover have "wanted_queue_id db uid ?inp' = Some (q_id row)"
    by (simp add: wanted_queue_id_def s' video_page_input_def)
  ultimately have "page_queue db uid ?inp' = page_queue db uid ?inp"
    by (simp only: page_queue_def)
  then have "list_page is_url db uid ?inp' = Inr data"
  proof (rule list_page_same)
    show "get_pagination_window (count_videos db uid qid ?inp) (in_page ?inp') (in_page_size ?inp) =
        get_pagination_window (count_videos db uid qid ?inp) (in_page ?inp) (in_page_size ?inp)"
      if "videoQueueId (page_queue_item data) = qid" for qid
      using that row(2,4) window_again by (simp add: s' video_page_input_def)
  qed (use assms(2) row(3) in \<open>simp_all add: s' video_page_input_def optional_holds_def\<close>)
  then show ?thesis by (simp add: correct_video_search_def s')
qed

section \<open>The public page\<close>

lemma shared_search_settles:
  assumes "list_shared_page is_url db (shared_page_input slug s) = Inr (Some data)"
    and "correct_shared_search s data = Some s'"
  shows "list_shared_page is_url db (shared_page_input slug s') = Inr (Some data) \<and> correct_shared_search s' data = None"
proof -
  let ?inp = "shared_page_input slug s" and ?inp' = "shared_page_input slug s'"
  have s': "s' = s\<lparr>ss_page := shp_page data, ss_status := shp_status data\<rparr>"
    using assms(2) by (simp add: correct_shared_search_def split: if_split_asm)
  have owner: "shared_owner db ?inp' = shared_owner db ?inp"
    by (simp add: shared_owner_def s' shared_page_input_def)
  have again: "effective_status u (effective_status u st) = effective_status u st" for u st
    by (simp add: effective_status_def)
  obtain u q where uq: "shared_owner db ?inp = Some (u, q)"
    using assms(1) by (auto simp: list_shared_page_def bind_result_Inr_iff split: option.splits)
  have data: "shp_status data = effective_status u (ss_status s)"
    "shp_page data = win_page (get_pagination_window (shared_total db u (q_id q) (ss_status s)) (ss_page s) (int page_size))"
    using assms(1) uq by (auto simp: list_shared_page_def bind_result_Inr_iff Let_def shared_page_input_def split: if_split_asm)
  have total: "shared_total db u (q_id q) (effective_status u st) = shared_total db u (q_id q) st" for st
    by (simp add: shared_total_def again)
  have rows: "shared_rows db u (q_id q) ?inp' = shared_rows db u (q_id q) ?inp"
    by (simp add: shared_rows_def s' shared_page_input_def data total again window_again)
  have "list_shared_page is_url db ?inp' = list_shared_page is_url db ?inp"
    unfolding list_shared_page_def owner uq using rows
    by (simp add: s' shared_page_input_def data total again window_again)
  then show ?thesis using assms(1) by (simp add: correct_shared_search_def s')
qed

section \<open>Donations\<close>

lemma donation_search_settles:
  assumes "list_donations_page env db uid (donation_input_of now (donation_request s)) = Inr data"
    and "correct_donation_search s data = Some s'"
  shows "list_donations_page env db uid (donation_input_of now (donation_request s')) = Inr data \<and>
    correct_donation_search s' data = None"
proof -
  let ?inp = "donation_input_of now (donation_request s)" and ?inp' = "donation_input_of now (donation_request s')"
  have s': "s' = s\<lparr>ds_page := dpg_page data\<rparr>"
    using assms(2) by (simp add: correct_donation_search_def split: if_split_asm)
  have inp': "?inp' = ?inp\<lparr>di_page := dpg_page data\<rparr>"
    by (simp add: s' donation_input_of_def donation_request_def)
  have m: "donation_matches env uid (inp\<lparr>di_page := p\<rparr>) = donation_matches env uid inp" for inp p
    by (simp add: fun_eq_iff donation_matches_def)
  have data: "dpg_page data = win_page (get_pagination_window (count_donations env db uid ?inp) (di_page ?inp) (di_page_size ?inp))"
    using assms(1) by (auto simp: list_donations_page_def bind_result_Inr_iff Let_def)
  have c: "count_donations env db uid ?inp' = count_donations env db uid ?inp"
    unfolding inp' by (simp add: count_donations_def m)
  have w: "get_pagination_window (count_donations env db uid ?inp) (dpg_page data) (di_page_size ?inp) =
      get_pagination_window (count_donations env db uid ?inp) (di_page ?inp) (di_page_size ?inp)"
    unfolding data by (rule window_again)
  have rows: "donation_rows env db uid ?inp' = donation_rows env db uid ?inp"
    using c w unfolding donation_rows_def sorted_donations_def inp' by (simp add: m)
  have "list_donations_page env db uid ?inp' = list_donations_page env db uid ?inp"
    unfolding list_donations_page_def Let_def c rows using w by (simp add: inp')
  then show ?thesis using assms(1) by (simp add: correct_donation_search_def s')
qed

section \<open>What the public page shows\<close>

lemma group_section_videos: "section_videos (group_section ps g) = snd g"
  by (simp add: group_section_def section_videos_def split: option.splits)

lemma no_section_videos:
  "concat (map section_videos (map Empty_priority xs)) = []"
  by (simp add: section_videos_def)

lemma sections_partition:
  "mset (concat (map section_videos (shared_sections items b ps))) = mset items"
proof -
  obtain gs un where g: "group_videos_by_priority sharedPriorityId items = (gs, un)" by fastforce
  have "concat (map section_videos (map (group_section ps) gs)) = concat (map snd gs)"
    by (simp add: group_section_videos comp_def)
  moreover have "concat (map section_videos (if un = [] then [] else [Unassigned_section un])) = un"
    by (simp add: section_videos_def)
  moreover have "concat (map section_videos (if b then map Empty_priority xs else [])) = []" for xs
    by (auto simp: section_videos_def)
  ultimately have "concat (map section_videos (shared_sections items b ps)) = concat (map snd gs) @ un"
    by (simp only: shared_sections_def g Let_def prod.case map_append concat_append append_Nil2)
  then show ?thesis using groups_partition [of sharedPriorityId items] g by simp
qed

section \<open>Searching\<close>

lemma finder_timer:
  assumes "df_timer f" and "length (js_trim (df_input f)) \<le> 200"
  shows "ds_query (df_search (finder_step f Search_timer)) = js_trim (df_input f)"
    and "df_input (finder_step f Search_timer) = df_input f"
  using assms
  by (simp_all add: finder_step_def search_now_def Let_def open_search_def search_input_value_def revalidate_def)

lemma finder_rests:
  assumes "js_trim (df_input f) = ds_query (df_search f)"
  shows "finder_step f Search_timer = f\<lparr>df_timer := False\<rparr>"
  using assms by (cases f) (simp add: finder_step_def search_now_def Let_def)

text \<open>A search of more than 200 characters shows all donations; it erases the text when it follows another search.\<close>

lemma long_search_erased:
  assumes "df_timer f" and "length (js_trim (df_input f)) > 200" and "length (ds_query (df_search f)) \<le> 200"
  shows "ds_query (df_search (finder_step f Search_timer)) = [] \<and>
    df_input (finder_step f Search_timer) = (if ds_query (df_search f) = [] then df_input f else [])"
  using assms
  by (auto simp: finder_step_def search_now_def Let_def open_search_def search_input_value_def revalidate_def)

text \<open>
  Unless a search is too long, a page whose timer is not set shows the donations its input asks for.
\<close>

definition finder_ok :: "donation_finder \<Rightarrow> bool" where
  "finder_ok f \<longleftrightarrow> length (ds_query (df_search f)) \<le> 200 \<and>
     (df_timer f \<or> js_trim (df_input f) = ds_query (df_search f) \<or>
      200 < length (js_trim (df_input f)) \<and> ds_query (df_search f) = [])"

lemma finder_step_ok:
  assumes "finder_ok f" shows "finder_ok (finder_step f ev)"
  using assms
  by (cases ev) (auto simp: finder_ok_def finder_step_def search_now_def Let_def open_search_def search_input_value_def
      revalidate_def filter_source_def filter_period_def)

lemma run_finder_ok: "finder_ok f \<Longrightarrow> finder_ok (run_finder f evs)"
  unfolding run_finder_def by (induction evs arbitrary: f) (auto intro: finder_step_ok)

section \<open>Links\<close>

lemma stored_video_queue:
  assumes "db_ok db" and "v \<in> set (videos db)" and "owner_of db v = Some uid"
  obtains u q where "find_user db uid = Some u" "q \<in> set (queues db)" "q_id q = v_queue v" "q_user q = uid"
proof -
  have st: "stored_video_ok db v" using assms(1,2) by (simp add: db_ok_def videos_ok_def)
  obtain w where w: "owner_of db v = Some w" "w \<in> set (user_ids db)" "queue_belongs db (Some w) (v_queue v)"
    using st by (rule stored_owner)
  obtain u where u: "u \<in> set (users db)" "u_id u = uid" using w assms(3) by (auto simp: user_ids_def)
  then have "find_user db uid = Some u"
    using filter_unique_key [of u_id "users db" u] assms(1)
    by (simp add: find_user_def db_ok_def users_ok_def user_ids_def first_row_def)
  with w assms(3) that show thesis by (auto simp: queue_belongs_def)
qed

lemma linked_page:
  assumes "db_ok db" and "urls_ok is_url db" and "v \<in> set (videos db)" and "owner_of db v = Some uid"
    and "dv_video_id dv = v_id v" and "in_int8 (v_id v)"
  shows "\<exists>pg. list_page is_url db uid (video_page_input (video_link dv)) = Inr pg \<and>
    map videoId (page_items pg) = [v_id v] \<and> videoQueueId (page_queue_item pg) = v_queue v"
proof -
  let ?inp = "video_page_input (video_link dv)"
  obtain u q where u: "find_user db uid = Some u" and q: "q \<in> set (queues db)" "q_id q = v_queue v" "q_user q = uid"
    using assms(1,3,4) by (rule stored_video_queue)
  have ids: "distinct (map v_id (videos db))" "distinct (map q_id (queues db))" "0 < v_id v"
    using assms(1,3) by (simp_all add: db_ok_def videos_ok_def queues_ok_def)
  have inp: "in_video_id ?inp = Some (v_id v)" "in_queue_id ?inp = None" "in_priority ?inp = Any_priority"
    "in_status ?inp = All_videos" "in_page ?inp = 1" "in_page_size ?inp = int page_size"
    using ids(3) by (simp_all add: video_page_input_def video_link_def all_videos_link_def id_value_def assms(5))
  have "filter (\<lambda>w. v_id w = v_id v) (videos db) = [v]"
    using ids(1) assms(3) by (rule filter_unique_key)
  then have wanted: "wanted_queue_id db uid ?inp = Some (v_queue v)"
    by (simp add: wanted_queue_id_def inp first_row_def)
  have "filter (\<lambda>r. q_id r = q_id q) (queues db) = [q]"
    using ids(2) q(1) by (rule filter_unique_key)
  then have "filter (\<lambda>r. q_user r = uid) (filter (\<lambda>r. q_id r = v_queue v) (queues db)) = [q]"
    using q(2,3) by simp
  then have "filter (\<lambda>r. q_user r = uid \<and> q_id r = v_queue v) (queues db) = [q]"
    by (simp only: filter_filter conj_commute)
  then have pq: "page_queue db uid ?inp = Some q" by (simp add: page_queue_def wanted first_row_def)
  have "filter (on_page ?inp) (queue_videos db uid (q_id q)) = [v]"
  proof -
    have "filter (on_page ?inp) (queue_videos db uid (q_id q)) =
        filter (\<lambda>w. owner_of db w = Some uid \<and> v_queue w = q_id q) (filter (\<lambda>w. v_id w = v_id v) (videos db))"
      by (auto simp: queue_videos_def on_page_def inp has_priority_def has_status_def intro!: filter_cong)
    then show ?thesis using \<open>filter (\<lambda>w. v_id w = v_id v) (videos db) = [v]\<close> assms(4) q(2) by simp
  qed
  then have "page_rows db uid (q_id q) ?inp = [v]"
    by (simp add: page_rows_def sorted_videos_def count_videos_def inp limit_offset_def page_size_def
        get_pagination_window_def Let_def)
  moreover have "optional_holds in_int8 (in_video_id ?inp)" "optional_holds in_int4 (in_queue_id ?inp)"
    "\<And>i. in_priority ?inp = Only_priority i \<Longrightarrow> in_int4 i"
    using assms(6) by (simp_all add: inp optional_holds_def)
  ultimately show ?thesis
    using list_page_success [OF assms(1,2) u pq]
    by (simp add: q shown_item_def video_item_of_def queue_item_def)
qed

text \<open>
  C15: From a donation, the link of one of its videos opens that video: the page shows it alone, in its own
  queue whatever the default queue is; the page then writes that queue into its address, asks again, gets
  the same answer and leaves the address alone.
\<close>

theorem video_link_opens:
  assumes "db_ok db" and "urls_ok is_url db" and "v \<in> set (videos db)" and "owner_of db v = Some uid"
    and "dv_video_id dv = v_id v" and "in_int8 (v_id v)"
  shows "\<exists>pg s. list_page is_url db uid (video_page_input (video_link dv)) = Inr pg \<and>
    map videoId (page_items pg) = [v_id v] \<and> correct_video_search (video_link dv) pg = Some s \<and>
    vs_queue_id s = Some (v_queue v) \<and>
    list_page is_url db uid (video_page_input s) = Inr pg \<and> correct_video_search s pg = None"
proof -
  obtain pg where pg: "list_page is_url db uid (video_page_input (video_link dv)) = Inr pg"
    "map videoId (page_items pg) = [v_id v]" "videoQueueId (page_queue_item pg) = v_queue v"
    using linked_page [OF assms] by (elim exE conjE)
  obtain s where s: "correct_video_search (video_link dv) pg = Some s"
    by (simp add: correct_video_search_def video_link_def all_videos_link_def)
  then have "vs_queue_id s = Some (v_queue v)"
    using pg(3) by (auto simp: correct_video_search_def split: if_split_asm)
  moreover have "list_page is_url db uid (video_page_input s) = Inr pg \<and> correct_video_search s pg = None"
    using assms(1) pg(1) s by (rule video_search_settles)
  ultimately show ?thesis using pg(1,2) s by (intro exI [of _ pg] exI [of _ s] conjI) simp_all
qed

definition sample_owner :: user_row where
  "sample_owner = \<lparr>u_id = 1, u_auth_id = ''a1'', u_slug = ''anna'', u_currency = RUB, u_public_enabled = True,
     u_show_amounts = False, u_show_watched = True\<rparr>"

theorem video_link_opens_witness:
  "\<exists>pg. list_page (\<lambda>_. True) sample_db 1 (video_page_input (video_link
      (donation_video_of sample_db sample_owner 7 (sample_clip 2 (Some 7) None 100 1)))) = Inr pg \<and>
    map videoId (page_items pg) = [2]"
proof -
  let ?v = "sample_clip 2 (Some 7) None 100 1"
  have urls: "urls_ok (\<lambda>_. True) sample_db" by (simp add: urls_ok_def sample_db_def sample_clip_def)
  have v: "?v \<in> set (videos sample_db)" by (simp add: sample_db_def)
  have w: "owner_of sample_db ?v = Some 1"
    by (simp add: owner_of_def owner_in_def donation_owners_def sample_db_def sample_clip_def)
  have i: "dv_video_id (donation_video_of sample_db sample_owner 7 ?v) = v_id ?v" "in_int8 (v_id ?v)"
    by (simp_all add: donation_video_of_def sample_clip_def in_int8_def)
  have "v_id ?v = 2" by (simp add: sample_clip_def)
  with video_link_opens [OF sample_db_ok urls v w i] show ?thesis by metis
qed

text \<open>
  The pages of the queue, of the public queue and of the donations correct their own address at most once:
  at the corrected address the service gives the same answer, which asks for no correction.
\<close>

theorem corrections_settle:
  assumes "db_ok db"
  shows "(list_page is_url db uid (video_page_input vs) = Inr vdata \<and> correct_video_search vs vdata = Some vs' \<longrightarrow>
       list_page is_url db uid (video_page_input vs') = Inr vdata \<and> correct_video_search vs' vdata = None) \<and>
    (list_shared_page is_url db (shared_page_input slug ss) = Inr (Some sdata) \<and> correct_shared_search ss sdata = Some ss' \<longrightarrow>
       list_shared_page is_url db (shared_page_input slug ss') = Inr (Some sdata) \<and> correct_shared_search ss' sdata = None) \<and>
    (list_donations_page env db uid (donation_input_of now (donation_request ds)) = Inr ddata \<and>
        correct_donation_search ds ddata = Some ds' \<longrightarrow>
       list_donations_page env db uid (donation_input_of now (donation_request ds')) = Inr ddata \<and>
       correct_donation_search ds' ddata = None)"
proof (intro conjI)
qed (intro impI; elim conjE; rule video_search_settles [OF assms] shared_search_settles donation_search_settles;
    assumption)+

theorem corrections_settle_witness:
  "list_page (\<lambda>_. True) sample_db 1 (video_page_input
      (all_videos_link\<lparr>vs_page := 1, vs_queue_id := Some 1\<rparr>)) =
    list_page (\<lambda>_. True) sample_db 1 (video_page_input (all_videos_link\<lparr>vs_page := 9\<rparr>))"
proof -
  let ?s = "all_videos_link\<lparr>vs_page := 9\<rparr>"
  let ?q = "\<lparr>q_id = 1, q_user = 1, q_label = ''Main'', q_default = True\<rparr>"
  have u: "find_user sample_db 1 = Some sample_owner"
    by (simp add: find_user_def sample_db_def first_row_def sample_owner_def)
  have q: "page_queue sample_db 1 (video_page_input ?s) = Some ?q"
    by (simp add: page_queue_def wanted_queue_id_def video_page_input_def all_videos_link_def id_value_def
        sample_db_def sample_clip_def first_row_def)
  have urls: "urls_ok (\<lambda>_. True) sample_db" by (simp add: urls_ok_def sample_db_def sample_clip_def)
  have i: "optional_holds in_int8 (in_video_id (video_page_input ?s))"
    "optional_holds in_int4 (in_queue_id (video_page_input ?s))"
    "\<And>i. in_priority (video_page_input ?s) = Only_priority i \<Longrightarrow> in_int4 i"
    by (simp_all add: video_page_input_def all_videos_link_def id_value_def optional_holds_def)
  obtain pg where pg: "list_page (\<lambda>_. True) sample_db 1 (video_page_input ?s) = Inr pg"
      "page_number pg = 1" "videoQueueId (page_queue_item pg) = 1"
    using list_page_success [OF sample_db_ok urls u q i]
    by (simp add: count_videos_def queue_videos_def owner_of_def owner_in_def donation_owners_def sample_db_def
        sample_clip_def on_page_def has_priority_def has_status_def video_page_input_def all_videos_link_def
        id_value_def get_pagination_window_def page_size_def queue_item_def ceil_div_def)
  then have "correct_video_search ?s pg = Some (all_videos_link\<lparr>vs_page := 1, vs_queue_id := Some 1\<rparr>)"
    by (simp add: correct_video_search_def all_videos_link_def)
  then show ?thesis
    using corrections_settle [OF sample_db_ok, of "\<lambda>_. True" 1 ?s pg] pg(1) by metis
qed

end
