(* ===== verification/AlertPage.thy ===== *)
theory AlertPage
  imports VideoFormProperties AlertHttp
begin

text \<open>
  The page of the alerts (\<open>routes/_authenticated/alerts.tsx\<close>): the draft of the settings, uploads of images
  and sounds, the overlay's link, the preview, and the controls of the player.  Each event of the page
  gives its new state and the requests it sends; answers and refreshed data are events as well.
\<close>

section \<open>State\<close>

datatype alert_notice = Saved_notice | Uploaded_notice | Request_failed | Upload_failed | Unsupported_file

datatype alert_action = Save_action | Rotate_action | Test_action | Paused_action | Skip_action | Replay_action

record alert_page =
  ax_dashboard :: alert_dashboard
  ax_refresh_failed :: bool
  ax_draft :: "alert_settings option"
  ax_dirty :: bool
  ax_uploading :: "upload_kind option"
  ax_notice :: "alert_notice option"
  ax_overlay_url :: "string option"
  ax_copied :: bool
  ax_preview :: "alert_playback option"
  ax_pending :: "alert_action set"

definition open_alert_page :: "alert_dashboard \<Rightarrow> alert_page" where
  "open_alert_page d =
     \<lparr>ax_dashboard = d, ax_refresh_failed = False, ax_draft = Some (db_settings d), ax_dirty = False,
      ax_uploading = None, ax_notice = None, ax_overlay_url = None, ax_copied = False, ax_preview = None,
      ax_pending = {}\<rparr>"

section \<open>The draft\<close>

text \<open>The effect that follows the dashboard and \<open>dirty\<close>.\<close>

definition follow_dashboard :: "alert_page \<Rightarrow> alert_page" where
  "follow_dashboard p = (if ax_dirty p then p else p\<lparr>ax_draft := Some (db_settings (ax_dashboard p))\<rparr>)"

definition refresh_dashboard :: "alert_dashboard option \<Rightarrow> alert_page \<Rightarrow> alert_page" where
  "refresh_dashboard answer p =
     (case answer of
        None \<Rightarrow> p\<lparr>ax_refresh_failed := True\<rparr>
      | Some d \<Rightarrow>
          (if d = ax_dashboard p then p\<lparr>ax_refresh_failed := False\<rparr>
           else follow_dashboard (p\<lparr>ax_refresh_failed := False, ax_dashboard := d\<rparr>)))"

datatype setting_change =
    Set_enabled bool
  | Set_duration_seconds int
  | Set_accent string
  | Toggle_source donation_source
  | Set_tts_enabled bool
  | Set_tts_voice string
  | Set_tts_volume int
  | Set_sound_volume int

definition toggle_source :: "donation_source \<Rightarrow> donation_source list \<Rightarrow> donation_source list" where
  "toggle_source src srcs = (if src \<in> set srcs then filter (\<lambda>s. s \<noteq> src) srcs else srcs @ [src])"

definition change_setting :: "setting_change \<Rightarrow> alert_settings \<Rightarrow> alert_settings" where
  "change_setting ch s =
     (case ch of
        Set_enabled b \<Rightarrow> s\<lparr>al_enabled := b\<rparr>
      | Set_duration_seconds n \<Rightarrow> s\<lparr>al_display_duration_ms := n * 1000\<rparr>
      | Set_accent c \<Rightarrow> s\<lparr>al_accent_color := c\<rparr>
      | Toggle_source src \<Rightarrow> s\<lparr>al_enabled_sources := toggle_source src (al_enabled_sources s)\<rparr>
      | Set_tts_enabled b \<Rightarrow> s\<lparr>al_tts_enabled := b\<rparr>
      | Set_tts_voice v \<Rightarrow> s\<lparr>al_tts_voice := v\<rparr>
      | Set_tts_volume n \<Rightarrow> s\<lparr>al_tts_volume := n\<rparr>
      | Set_sound_volume n \<Rightarrow> s\<lparr>al_sound_volume := n\<rparr>)"

definition set_setting :: "setting_change \<Rightarrow> alert_page \<Rightarrow> alert_page" where
  "set_setting ch p =
     p\<lparr>ax_draft := map_option (change_setting ch) (ax_draft p), ax_dirty := True, ax_notice := None\<rparr>"

definition set_asset :: "upload_kind \<Rightarrow> string option \<Rightarrow> alert_settings \<Rightarrow> alert_settings" where
  "set_asset k a s =
     (case k of Image_upload \<Rightarrow> s\<lparr>al_image_asset_id := a\<rparr> | Sound_upload \<Rightarrow> s\<lparr>al_sound_asset_id := a\<rparr>)"

section \<open>Saving\<close>

definition draft_valid :: "alert_page \<Rightarrow> bool" where
  "draft_valid p = (case ax_draft p of None \<Rightarrow> False | Some s \<Rightarrow> parse_alert_settings s \<noteq> None)"

definition save_disabled :: "alert_page \<Rightarrow> bool" where
  "save_disabled p \<longleftrightarrow> \<not> ax_dirty p \<or> Save_action \<in> ax_pending p \<or> \<not> draft_valid p"

datatype page_request = Call_alerts user_alert_request | Post_upload "(string \<times> form_value) list"

definition start_call :: "alert_action \<Rightarrow> user_alert_request \<Rightarrow> alert_page \<Rightarrow> alert_page \<times> page_request list" where
  "start_call a req p = (p\<lparr>ax_pending := insert a (ax_pending p)\<rparr>, [Call_alerts req])"

text \<open>A disabled submit button also keeps the form from being submitted by the Enter key.\<close>

definition save_settings :: "alert_page \<Rightarrow> alert_page \<times> page_request list" where
  "save_settings p =
     (if save_disabled p then (p, [])
      else case ax_draft p of
        None \<Rightarrow> (p, [])
      | Some s \<Rightarrow> if parse_alert_settings s = None then (p, []) else start_call Save_action (Update_settings_mutation s) p)"

definition end_call :: "alert_action \<Rightarrow> alert_page \<Rightarrow> alert_page" where
  "end_call a p = p\<lparr>ax_pending := ax_pending p - {a}\<rparr>"

definition show_notice :: "alert_notice \<Rightarrow> alert_page \<Rightarrow> alert_page" where
  "show_notice n p = p\<lparr>ax_notice := Some n\<rparr>"

definition settings_answered :: "bool \<Rightarrow> alert_page \<Rightarrow> alert_page" where
  "settings_answered success p =
     (let p = end_call Save_action p in
      if success then follow_dashboard (show_notice Saved_notice (p\<lparr>ax_dirty := False\<rparr>))
      else show_notice Request_failed p)"

definition action_answered :: "alert_action \<Rightarrow> bool \<Rightarrow> alert_page \<Rightarrow> alert_page" where
  "action_answered a success p = (let p = end_call a p in if success then p else show_notice Request_failed p)"

section \<open>Images and sounds\<close>

text \<open>\<open>uploadRules\<close>\<close>

definition rule_max_bytes :: "upload_kind \<Rightarrow> nat" where
  "rule_max_bytes k = (case k of Image_upload \<Rightarrow> 4 * 1024 * 1024 | Sound_upload \<Rightarrow> 10 * 1024 * 1024)"

definition rule_types :: "upload_kind \<Rightarrow> string list" where
  "rule_types k =
     (case k of
        Image_upload \<Rightarrow> [''image/gif'', ''image/jpeg'', ''image/png'', ''image/webp'']
      | Sound_upload \<Rightarrow>
          [''audio/mpeg'', ''audio/ogg'', ''audio/opus'', ''audio/wav'', ''audio/wave'', ''audio/x-wav''])"

definition file_supported :: "upload_kind \<Rightarrow> upload_file \<Rightarrow> bool" where
  "file_supported k f \<longleftrightarrow>
     \<not> (length (uf_bytes f) = 0 \<or> length (uf_bytes f) > rule_max_bytes k \<or> uf_type f \<notin> set (rule_types k))"

definition upload_form :: "upload_kind \<Rightarrow> upload_file \<Rightarrow> (string \<times> form_value) list" where
  "upload_form k f = [(''kind'', Form_text (upload_kind_name k)), (''file'', Form_file f)]"

definition choose_file :: "upload_kind \<Rightarrow> upload_file option \<Rightarrow> alert_page \<Rightarrow> alert_page \<times> page_request list" where
  "choose_file k chosen p =
     (if ax_uploading p = Some k then (p, [])
      else case chosen of
        None \<Rightarrow> (p, [])
      | Some f \<Rightarrow>
          (if file_supported k f
           then (p\<lparr>ax_uploading := Some k, ax_notice := None\<rparr>, [Post_upload (upload_form k f)])
           else (show_notice Unsupported_file p, [])))"

text \<open>The answer of an upload: the status is a success and the body an asset, or something failed.\<close>

definition uploaded_asset :: "bool \<Rightarrow> alert_asset option \<Rightarrow> alert_asset option" where
  "uploaded_asset success body =
     (case body of None \<Rightarrow> None | Some a \<Rightarrow> if success \<and> valid_alert_asset a then Some a else None)"

definition upload_answered :: "upload_kind \<Rightarrow> bool \<Rightarrow> alert_asset option \<Rightarrow> alert_page \<Rightarrow> alert_page" where
  "upload_answered k success body p =
     (case uploaded_asset success body of
        Some a \<Rightarrow> show_notice Uploaded_notice (p\<lparr>ax_draft := map_option (set_asset k (Some (aa_id a))) (ax_draft p)\<rparr>)
      | None \<Rightarrow> (show_notice Upload_failed p)\<lparr>ax_uploading := None\<rparr>)"

definition asset_of :: "upload_kind \<Rightarrow> alert_dashboard \<Rightarrow> alert_asset option" where
  "asset_of k d = (case k of Image_upload \<Rightarrow> db_image_asset d | Sound_upload \<Rightarrow> db_sound_asset d)"

definition remove_asset :: "upload_kind \<Rightarrow> alert_page \<Rightarrow> page_request list" where
  "remove_asset k p =
     (case asset_of k (ax_dashboard p) of None \<Rightarrow> [] | Some a \<Rightarrow> [Call_alerts (Delete_asset_mutation (aa_id a))])"

definition asset_removed :: "upload_kind \<Rightarrow> bool \<Rightarrow> alert_page \<Rightarrow> alert_page" where
  "asset_removed k success p =
     (if success then p\<lparr>ax_draft := map_option (set_asset k None) (ax_draft p)\<rparr> else show_notice Request_failed p)"

section \<open>The overlay's link\<close>

definition rotate_answered :: "string option \<Rightarrow> alert_page \<Rightarrow> alert_page" where
  "rotate_answered answer p =
     (let p = end_call Rotate_action p in
      case answer of
        Some url \<Rightarrow> p\<lparr>ax_overlay_url := Some url, ax_copied := False\<rparr>
      | None \<Rightarrow> show_notice Request_failed p)"

definition copy_link :: "bool \<Rightarrow> alert_page \<Rightarrow> alert_page" where
  "copy_link written p =
     (if ax_overlay_url p = None then p
      else if written then p\<lparr>ax_copied := True\<rparr>
      else show_notice Request_failed (p\<lparr>ax_copied := False\<rparr>))"

section \<open>The preview\<close>

definition preview_settings :: "alert_dashboard \<Rightarrow> alert_settings \<Rightarrow> alert_settings" where
  "preview_settings d draft =
     (case parse_alert_settings draft of
        Some s \<Rightarrow> s
      | None \<Rightarrow> draft\<lparr>al_accent_color := al_accent_color (db_settings d)\<rparr>)"

text \<open>\<open>None\<close> is an exception while the page is drawn; \<open>0\<close> is the date at the epoch.\<close>

definition sample_playback_id :: string where
  "sample_playback_id = ''64fb569a-95bb-4d1a-a6ad-765b0f2d5702''"

definition preview_playback :: "timestamp \<Rightarrow> alert_settings \<Rightarrow> alert_playback option" where
  "preview_playback epoch s =
     parse_alert_playback
       \<lparr>pb_id = sample_playback_id, pb_donation_id = None, pb_kind = Test, pb_source = Some Donationalerts,
        pb_author = Some ''Cosmic Coffee'', pb_message = None, pb_amount = ''25.00'', pb_currency = ''USD'',
        pb_image_asset_id = al_image_asset_id s, pb_sound_asset_id = al_sound_asset_id s, pb_tts_asset_id = None,
        pb_display_duration_ms = al_display_duration_ms s, pb_sound_volume = al_sound_volume s,
        pb_tts_volume = al_tts_volume s, pb_accent_color = al_accent_color s, pb_state = Playing,
        pb_created_at = epoch, pb_started_at = Some epoch, pb_finished_at = None, pb_detail = None\<rparr>"

definition drawn_sample :: "timestamp \<Rightarrow> alert_page \<Rightarrow> alert_playback option" where
  "drawn_sample epoch p =
     Option.bind (ax_draft p) (\<lambda>draft. preview_playback epoch (preview_settings (ax_dashboard p) draft))"

definition play_preview :: "timestamp \<Rightarrow> string \<Rightarrow> alert_page \<Rightarrow> alert_page" where
  "play_preview epoch new_id p =
     (if ax_preview p \<noteq> None then p
      else p\<lparr>ax_preview := Option.bind (drawn_sample epoch p) (\<lambda>s. parse_alert_playback (s\<lparr>pb_id := new_id\<rparr>))\<rparr>)"

section \<open>The controls\<close>

definition can_replay_alert :: "alert_playback \<Rightarrow> bool" where
  "can_replay_alert pb \<longleftrightarrow>
     pb_donation_id pb \<noteq> None \<and> pb_state pb \<in> {Completed, Skipped, Expired, Interrupted}"

definition nothing_to_skip :: "alert_dashboard \<Rightarrow> bool" where
  "nothing_to_skip d \<longleftrightarrow> db_current_playback d = None \<and> db_pending_count d = 0"

datatype alert_page_event =
    Dashboard_refreshed "alert_dashboard option"
  | Setting_changed setting_change
  | Save_pressed
  | Settings_answered bool
  | File_chosen upload_kind "upload_file option"
  | Upload_answered upload_kind bool "alert_asset option"
  | Upload_refreshed
  | Remove_pressed upload_kind
  | Asset_removed upload_kind bool
  | Rotate_pressed
  | Rotate_answered "string option"
  | Copy_pressed bool
  | Preview_pressed string
  | Preview_finished
  | Pause_pressed
  | Test_pressed
  | Skip_pressed
  | Replay_pressed alert_playback
  | Action_answered alert_action bool

definition press :: "alert_action \<Rightarrow> bool \<Rightarrow> user_alert_request \<Rightarrow> alert_page \<Rightarrow> alert_page \<times> page_request list" where
  "press a off req p = (if off \<or> a \<in> ax_pending p then (p, []) else start_call a req p)"

definition pause_pressed :: "alert_page \<Rightarrow> alert_page \<times> page_request list" where
  "pause_pressed p = press Paused_action False (Set_paused_mutation (\<not> al_paused (db_settings (ax_dashboard p)))) p"

definition test_pressed :: "alert_page \<Rightarrow> alert_page \<times> page_request list" where
  "test_pressed p = press Test_action (\<not> db_has_overlay_token (ax_dashboard p)) Test_mutation p"

definition rotate_pressed :: "alert_page \<Rightarrow> alert_page \<times> page_request list" where
  "rotate_pressed p = press Rotate_action False Rotate_token_mutation p"

definition skip_pressed :: "alert_page \<Rightarrow> alert_page \<times> page_request list" where
  "skip_pressed p = press Skip_action (nothing_to_skip (ax_dashboard p)) Skip_mutation p"

definition replay_pressed :: "alert_playback \<Rightarrow> alert_page \<Rightarrow> alert_page \<times> page_request list" where
  "replay_pressed pb p =
     press Replay_action (pb \<notin> set (db_recent_playbacks (ax_dashboard p)) \<or> \<not> can_replay_alert pb)
       (Replay_mutation (pb_id pb)) p"

fun alert_page_step :: "timestamp \<Rightarrow> alert_page \<Rightarrow> alert_page_event \<Rightarrow> alert_page \<times> page_request list" where
  "alert_page_step epoch p (Dashboard_refreshed d) = (refresh_dashboard d p, [])"
| "alert_page_step epoch p (Setting_changed ch) = (set_setting ch p, [])"
| "alert_page_step epoch p Save_pressed = save_settings p"
| "alert_page_step epoch p (Settings_answered success) = (settings_answered success p, [])"
| "alert_page_step epoch p (File_chosen k f) = choose_file k f p"
| "alert_page_step epoch p (Upload_answered k success body) = (upload_answered k success body p, [])"
| "alert_page_step epoch p Upload_refreshed = (p\<lparr>ax_uploading := None\<rparr>, [])"
| "alert_page_step epoch p (Remove_pressed k) = (p, remove_asset k p)"
| "alert_page_step epoch p (Asset_removed k success) = (asset_removed k success p, [])"
| "alert_page_step epoch p Rotate_pressed = rotate_pressed p"
| "alert_page_step epoch p (Rotate_answered answer) = (rotate_answered answer p, [])"
| "alert_page_step epoch p (Copy_pressed written) = (copy_link written p, [])"
| "alert_page_step epoch p (Preview_pressed new_id) = (play_preview epoch new_id p, [])"
| "alert_page_step epoch p Preview_finished = (p\<lparr>ax_preview := None\<rparr>, [])"
| "alert_page_step epoch p Pause_pressed = pause_pressed p"
| "alert_page_step epoch p Test_pressed = test_pressed p"
| "alert_page_step epoch p Skip_pressed = skip_pressed p"
| "alert_page_step epoch p (Replay_pressed pb) = replay_pressed pb p"
| "alert_page_step epoch p (Action_answered a success) = (action_answered a success p, [])"

section \<open>What the page shows\<close>

datatype shown_player = Player_offline | Player_connected | Player_standby

definition player_status :: "alert_dashboard \<Rightarrow> string \<times> shown_player" where
  "player_status d =
     (case db_active_player d of
        None \<Rightarrow> (''noSource'', Player_offline)
      | Some pl \<Rightarrow>
          (if pl_active pl \<and> pl_visible pl then ''activeSource'' else ''hiddenSource'',
           if pl_state pl = Standby_player then Player_standby else Player_connected))"

text \<open>The banner: nothing, or a notice and whether it is shown as a failure.\<close>

definition notice_banner :: "alert_page \<Rightarrow> (alert_notice \<times> bool) option" where
  "notice_banner p =
     (if ax_notice p = None \<and> \<not> ax_refresh_failed p then None
      else Some (case ax_notice p of None \<Rightarrow> Request_failed | Some n \<Rightarrow> n,
             ax_refresh_failed p \<or> ax_notice p = Some Request_failed \<or> ax_notice p = Some Upload_failed))"

definition link_text :: "alert_page \<Rightarrow> string" where
  "link_text p =
     (case ax_overlay_url p of
        Some _ \<Rightarrow> ''linkCreated''
      | None \<Rightarrow> if db_has_overlay_token (ax_dashboard p) then ''hiddenLink'' else ''missingLink'')"

definition diagnostic_copy :: "diagnostic_code \<Rightarrow> string \<times> string" where
  "diagnostic_copy c =
     (case c of
        Renderer Tts_unavailable \<Rightarrow> (''speechFallbackTitle'', ''speechFallback'')
      | Renderer Image_unavailable \<Rightarrow> (''imageFallbackTitle'', ''imageFallback'')
      | Renderer Sound_unavailable \<Rightarrow> (''soundFallbackTitle'', ''soundFallback'')
      | Renderer Audio_blocked \<Rightarrow> (''audioBlockedTitle'', ''audioBlocked'')
      | Alert_expired \<Rightarrow> (''expiredTitle'', ''expiredDetail'')
      | Backlog_limit \<Rightarrow> (''backlogTitle'', ''backlogDetail'')
      | Overlay_rotated \<Rightarrow> (''overlayRotatedTitle'', ''overlayRotated'')
      | Playback_timeout \<Rightarrow> (''playbackTimeoutTitle'', ''playbackTimeout'')
      | Player_disconnected \<Rightarrow> (''playbackInterruptedTitle'', ''playbackInterrupted'')
      | Playback_issue \<Rightarrow> (''playbackIssueTitle'', ''playbackIssue''))"

definition diagnostic_class :: "diagnostic_level \<Rightarrow> string" where
  "diagnostic_class l =
     (case l of Error_level \<Rightarrow> ''destructive'' | Warning_level \<Rightarrow> ''warning'' | Info_level \<Rightarrow> ''muted'')"

text \<open>The name in a row of the history.\<close>

definition row_author :: "alert_playback \<Rightarrow> string option" where
  "row_author pb =
     (case pb_author pb of None \<Rightarrow> None | Some a \<Rightarrow> if js_trim a = [] then None else Some (js_trim a))"

end
