(* ===== verification/AlertPageProperties.thy ===== *)
theory AlertPageProperties
  imports AlertPage
begin

text \<open>
  What the page of the alerts keeps to: it sends only what the server accepts, its preview can always be
  drawn, and a refresh of its data leaves unsaved edits alone.
\<close>

section \<open>The invariant of the page\<close>

definition dashboard_ok :: "alert_dashboard \<Rightarrow> bool" where
  "dashboard_ok d \<longleftrightarrow> parse_alert_dashboard d = Some d"

text \<open>What a draft keeps whatever is typed as its colour: the rest of its fields are picked, not typed.\<close>

definition draft_fields_ok :: "alert_settings \<Rightarrow> bool" where
  "draft_fields_ok s \<longleftrightarrow>
     int_within 1000 30000 (al_display_duration_ms s) \<and> int_within 0 100 (al_sound_volume s) \<and>
     int_within 0 100 (al_tts_volume s) \<and> optional_holds valid_asset_id (al_image_asset_id s) \<and>
     optional_holds valid_asset_id (al_sound_asset_id s)"

definition alert_page_ok :: "alert_page \<Rightarrow> bool" where
  "alert_page_ok p \<longleftrightarrow>
     dashboard_ok (ax_dashboard p) \<and> (case ax_draft p of None \<Rightarrow> False | Some s \<Rightarrow> draft_fields_ok s)"

text \<open>The events a browser and the server can cause: range inputs stay in their range, answers fit their schemas.\<close>

definition change_possible :: "setting_change \<Rightarrow> bool" where
  "change_possible ch =
     (case ch of Set_duration_seconds n \<Rightarrow> 1 \<le> n \<and> n \<le> 30 | Set_tts_volume n \<Rightarrow> 0 \<le> n \<and> n \<le> 100
      | Set_sound_volume n \<Rightarrow> 0 \<le> n \<and> n \<le> 100 | _ \<Rightarrow> True)"

definition event_possible :: "alert_page_event \<Rightarrow> bool" where
  "event_possible e =
     (case e of Dashboard_refreshed (Some d) \<Rightarrow> dashboard_ok d | Setting_changed ch \<Rightarrow> change_possible ch | _ \<Rightarrow> True)"

definition request_accepted :: "page_request \<Rightarrow> bool" where
  "request_accepted rq =
     (case rq of
        Call_alerts r \<Rightarrow> parse_user_alert r \<noteq> None
      | Post_upload form \<Rightarrow> (case validate_upload_form form of Inr _ \<Rightarrow> True | Inl _ \<Rightarrow> False))"

lemma parse_alert_dashboard_Some:
  assumes "parse_alert_dashboard d = Some e"
  shows "parse_alert_settings (db_settings d) = Some (db_settings e) \<and>
    those (map parse_alert_playback (db_recent_playbacks d)) = Some (db_recent_playbacks e)"
  using assms by (auto simp: parse_alert_dashboard_def bind_eq_Some_conv split: if_split_asm)

lemma dashboard_settings:
  assumes "dashboard_ok d" shows "parse_alert_settings (db_settings d) = Some (db_settings d)"
  using assms parse_alert_dashboard_Some unfolding dashboard_ok_def by blast

lemma dashboard_settings_ok:
  assumes "dashboard_ok d" shows "alert_settings_ok (db_settings d)"
  using dashboard_settings [OF assms] by (simp add: parse_alert_settings_def split: if_split_asm)

lemma settings_fields_ok: "alert_settings_ok s \<Longrightarrow> draft_fields_ok s"
  by (simp add: alert_settings_ok_def draft_fields_ok_def)

lemma dashboard_assets:
  assumes "dashboard_ok d" and "asset_of k d = Some a" shows "valid_asset_id (aa_id a)"
  using assms
  by (cases k) (auto simp: dashboard_ok_def parse_alert_dashboard_def asset_of_def optional_holds_def
      valid_alert_asset_def split: if_split_asm)

lemma those_members: "those (map f xs) = Some ys \<Longrightarrow> y \<in> set ys \<Longrightarrow> \<exists>x. f x = Some y"
  by (induction xs arbitrary: ys) (auto split: option.splits)

lemma dashboard_playbacks:
  assumes "dashboard_ok d" and "pb \<in> set (db_recent_playbacks d)" shows "valid_playback_id (pb_id pb)"
proof -
  have "those (map parse_alert_playback (db_recent_playbacks d)) = Some (db_recent_playbacks d)"
    using assms(1) parse_alert_dashboard_Some unfolding dashboard_ok_def by blast
  from those_members [OF this assms(2)] obtain x where "parse_alert_playback x = Some pb" ..
  then show ?thesis by (auto simp: parse_alert_playback_def split: if_split_asm)
qed

lemma int_within_iff: "0 \<le> lo \<Longrightarrow> hi \<le> 30000 \<Longrightarrow> int_within lo hi n \<longleftrightarrow> lo \<le> n \<and> n \<le> hi"
  by (auto simp: int_within_def z_int_def max_safe_integer_def)

lemma change_setting_ok:
  assumes "draft_fields_ok s" and "change_possible ch" shows "draft_fields_ok (change_setting ch s)"
  using assms by (cases ch) (simp_all add: draft_fields_ok_def change_setting_def change_possible_def int_within_iff)

lemma set_asset_ok:
  assumes "draft_fields_ok s" and "optional_holds valid_asset_id a" shows "draft_fields_ok (set_asset k a s)"
  using assms by (cases k) (simp_all add: draft_fields_ok_def set_asset_def)

lemmas page_steps =
  follow_dashboard_def refresh_dashboard_def set_setting_def save_settings_def start_call_def end_call_def
  show_notice_def settings_answered_def action_answered_def choose_file_def upload_answered_def remove_asset_def
  asset_removed_def rotate_answered_def copy_link_def play_preview_def press_def Let_def
  pause_pressed_def test_pressed_def rotate_pressed_def skip_pressed_def replay_pressed_def

lemma step_keeps_page_ok:
  assumes "alert_page_ok p" and "event_possible e"
  shows "alert_page_ok (fst (alert_page_step epoch p e))"
proof (cases e)
  case (Dashboard_refreshed answer)
  then show ?thesis using assms
    by (auto simp: page_steps alert_page_ok_def event_possible_def intro: settings_fields_ok dashboard_settings_ok
        split: option.splits)
next
  case (Setting_changed ch)
  then show ?thesis using assms change_setting_ok
    by (auto simp: page_steps alert_page_ok_def event_possible_def split: option.splits)
next
  case (Settings_answered success)
  then show ?thesis using assms
    by (auto simp: page_steps alert_page_ok_def intro: settings_fields_ok dashboard_settings_ok split: option.splits)
next
  case (Upload_answered k success body)
  have "optional_holds valid_asset_id (Some (aa_id a))" if "uploaded_asset success body = Some a" for a
    using that by (auto simp: uploaded_asset_def valid_alert_asset_def optional_holds_def split: option.splits if_splits)
  then show ?thesis using assms Upload_answered set_asset_ok
    by (auto simp: page_steps alert_page_ok_def split: option.splits)
next
  case (Asset_removed k success)
  then show ?thesis using assms set_asset_ok [of _ None k]
    by (auto simp: page_steps alert_page_ok_def optional_holds_def split: option.splits)
qed (use assms in \<open>auto simp: page_steps alert_page_ok_def split: option.splits\<close>)

section \<open>Requests\<close>

lemma rules_agree: "rule_max_bytes k = upload_max_bytes k" "rule_types k = upload_content_types k"
  by (cases k; simp add: rule_max_bytes_def upload_max_bytes_def rule_types_def upload_content_types_def)+

lemma upload_form_valid:
  assumes "file_supported k f" shows "validate_upload_form (upload_form k f) = Inr (k, f)"
  using assms rules_agree [of k]
  by (cases k) (simp_all add: validate_upload_form_def upload_form_def upload_kind_name_def file_supported_def Let_def)

lemma step_sends_accepted:
  assumes "alert_page_ok p" and "event_possible e"
  shows "list_all request_accepted (snd (alert_page_step epoch p e))"
proof (cases e)
  case Save_pressed
  then show ?thesis
    by (auto simp: page_steps request_accepted_def parse_user_alert_def split: option.splits)
next
  case (File_chosen k f)
  then show ?thesis
    by (auto simp: page_steps request_accepted_def upload_form_valid split: option.splits)
next
  case (Remove_pressed k)
  then show ?thesis using assms dashboard_assets [of "ax_dashboard p" k]
    by (auto simp: page_steps request_accepted_def parse_user_alert_def alert_page_ok_def split: option.splits)
next
  case (Replay_pressed pb)
  then show ?thesis using assms dashboard_playbacks [of "ax_dashboard p" pb]
    by (auto simp: page_steps request_accepted_def parse_user_alert_def alert_page_ok_def)
qed (auto simp: page_steps request_accepted_def parse_user_alert_def split: option.splits)

interpretation alert_form: request_machine "alert_page_step epoch" event_possible alert_page_ok request_accepted
  for epoch
  by unfold_locales (simp_all add: step_keeps_page_ok step_sends_accepted)

lemma open_alert_page_ok: "dashboard_ok d \<Longrightarrow> alert_page_ok (open_alert_page d)"
  by (simp add: alert_page_ok_def open_alert_page_def settings_fields_ok dashboard_settings_ok)

section \<open>The preview\<close>

lemma sample_constants:
  "valid_playback_id sample_playback_id" "valid_donation_asset ''USD''"
  "parse_donation_amount (TextInput ''25.00'') \<noteq> None"
  by (code_simp)+

lemma preview_drawn:
  assumes "alert_page_ok p" shows "drawn_sample epoch p \<noteq> None"
proof -
  obtain s where s: "ax_draft p = Some s" "draft_fields_ok s" and d: "dashboard_ok (ax_dashboard p)"
    using assms by (auto simp: alert_page_ok_def split: option.splits)
  let ?s = "preview_settings (ax_dashboard p) s"
  have ok: "draft_fields_ok ?s \<and> valid_color (al_accent_color ?s)"
  proof (cases "parse_alert_settings s")
    case None
    have "valid_color (al_accent_color (db_settings (ax_dashboard p)))"
      using dashboard_settings_ok [OF d] by (simp add: alert_settings_ok_def)
    then show ?thesis using s(2) None by (simp add: preview_settings_def draft_fields_ok_def)
  next
    case (Some t)
    then have "alert_settings_ok t" using parse_alert_settings_again [OF Some]
      by (simp add: parse_alert_settings_def split: if_split_asm)
    then show ?thesis using Some settings_fields_ok by (simp add: preview_settings_def alert_settings_ok_def)
  qed
  then have "preview_playback epoch ?s \<noteq> None"
    using sample_constants
    by (simp add: preview_playback_def parse_alert_playback_def draft_fields_ok_def optional_holds_def
        at_most_code_points_def)
  then show ?thesis by (simp add: drawn_sample_def s)
qed

text \<open>
  C16: Whatever the user does on the page of the alerts and whatever the server answers, every request it sends
  passes the server's schema, an uploaded file also the checks of its kind, size and type, and the preview
  can be drawn at any time, also while the colour is being typed.
\<close>

theorem alert_page_sends_accepted:
  assumes "dashboard_ok d" and "list_all event_possible es"
  shows "list_all request_accepted (snd (run_form (alert_page_step epoch) (open_alert_page d) es)) \<and>
    drawn_sample epoch (fst (run_form (alert_page_step epoch) (open_alert_page d) es)) \<noteq> None"
  using alert_form.run_good alert_form.run_invar preview_drawn open_alert_page_ok assms by blast

definition sample_settings :: alert_settings where
  "sample_settings =
     \<lparr>al_enabled = True, al_paused = False, al_enabled_sources = [], al_display_duration_ms = 8000,
      al_sound_volume = 70, al_tts_enabled = False, al_tts_voice = ''ru'', al_tts_volume = 50,
      al_accent_color = ''#ff8800'', al_image_asset_id = None, al_sound_asset_id = None\<rparr>"

definition sample_dashboard :: alert_dashboard where
  "sample_dashboard =
     \<lparr>db_settings = sample_settings, db_connected_sources = [], db_has_overlay_token = True, db_image_asset = None,
      db_sound_asset = None, db_active_player = None, db_pending_count = 0, db_current_playback = None,
      db_recent_playbacks = [], db_diagnostics = []\<rparr>"

lemma sample_settings_ok: "parse_alert_settings sample_settings = Some sample_settings"
  by (simp add: sample_settings_def parse_alert_settings_def alert_settings_ok_def int_within_iff valid_color_def
      is_hex_def is_digit_def code_def optional_holds_def parse_label_def js_trim_def is_space_def)

lemma sample_dashboard_ok: "dashboard_ok sample_dashboard"
  by (simp add: dashboard_ok_def sample_dashboard_def parse_alert_dashboard_def sample_settings_ok optional_holds_def
      z_nonnegative_int_def z_int_def max_safe_integer_def parse_nullable_def)

theorem alert_page_sends_accepted_witness:
  "drawn_sample 0 (fst (run_form (alert_page_step 0) (open_alert_page sample_dashboard)
     [Setting_changed (Set_accent ''#f''), Save_pressed])) \<noteq> None"
  using alert_page_sends_accepted [OF sample_dashboard_ok, of "[Setting_changed (Set_accent ''#f''), Save_pressed]" 0]
  by (simp add: event_possible_def change_possible_def)

section \<open>Edits\<close>

text \<open>What an event does to the draft besides following the dashboard.\<close>

definition edited_draft :: "alert_page_event \<Rightarrow> alert_settings \<Rightarrow> alert_settings" where
  "edited_draft e s =
     (case e of
        Setting_changed ch \<Rightarrow> change_setting ch s
      | Upload_answered k success body \<Rightarrow>
          (case uploaded_asset success body of Some a \<Rightarrow> set_asset k (Some (aa_id a)) s | None \<Rightarrow> s)
      | Asset_removed k success \<Rightarrow> if success then set_asset k None s else s
      | _ \<Rightarrow> s)"

lemma edit_kept:
  assumes "ax_dirty p" and "e \<noteq> Settings_answered True"
  shows "ax_dirty (fst (alert_page_step epoch p e)) \<and>
    ax_draft (fst (alert_page_step epoch p e)) = map_option (edited_draft e) (ax_draft p)"
  using assms
  by (cases e; cases "ax_draft p") (auto simp: page_steps edited_draft_def split: option.splits)

lemma edits_kept:
  assumes "ax_dirty p" and "Settings_answered True \<notin> set es"
  shows "ax_dirty (fst (run_form (alert_page_step epoch) p es)) \<and>
    ax_draft (fst (run_form (alert_page_step epoch) p es)) =
      map_option (\<lambda>s. foldl (\<lambda>t e. edited_draft e t) s es) (ax_draft p)"
  using assms
proof (induction es arbitrary: p)
  case (Cons e es)
  obtain p' sent where st: "alert_page_step epoch p e = (p', sent)" by fastforce
  have "ax_dirty p'" "ax_draft p' = map_option (edited_draft e) (ax_draft p)"
    using edit_kept [of p e epoch] Cons.prems st by auto
  then show ?case
    using Cons.IH [of p'] Cons.prems st by (auto simp: Let_def option.map_comp comp_def split: prod.splits)
qed (simp add: option.map_ident)

text \<open>
  C17: Unsaved edits are safe from everything but a save that succeeded: after any events, the dashboard
  refreshed every five seconds, failed saves, uploads and the player's controls among them, the draft is the
  one before with exactly the user's changes, uploads and removals applied in their order; and the save
  button sends exactly the draft or nothing.
\<close>

theorem alert_edits_kept:
  assumes "ax_dirty p" and "Settings_answered True \<notin> set es"
  shows "ax_draft (fst (run_form (alert_page_step epoch) p es)) =
      map_option (\<lambda>s. foldl (\<lambda>t e. edited_draft e t) s es) (ax_draft p) \<and>
    (let p' = fst (run_form (alert_page_step epoch) p es) in
     snd (alert_page_step epoch p' Save_pressed) =
       (if save_disabled p' then [] else [Call_alerts (Update_settings_mutation (the (ax_draft p')))]))"
  using edits_kept [OF assms]
  by (auto simp: Let_def save_settings_def start_call_def save_disabled_def draft_valid_def split: option.splits)

theorem alert_edits_kept_witness:
  "map_option al_enabled (ax_draft (fst (run_form (alert_page_step 0)
      (fst (alert_page_step 0 (open_alert_page sample_dashboard) (Setting_changed (Set_enabled False))))
      [Dashboard_refreshed (Some sample_dashboard), Dashboard_refreshed None, Settings_answered False]))) = Some False"
  using alert_edits_kept [of "fst (alert_page_step 0 (open_alert_page sample_dashboard) (Setting_changed (Set_enabled False)))"
      "[Dashboard_refreshed (Some sample_dashboard), Dashboard_refreshed None, Settings_answered False]" 0]
  by (simp add: set_setting_def edited_draft_def change_setting_def open_alert_page_def)

text \<open>
  Edits made while a save is being answered are lost with its success: the page is no longer dirty and
  shows the settings of the dashboard.
\<close>

lemma edit_during_save_lost:
  assumes "\<not> save_disabled p"
  shows "ax_draft (fst (run_form (alert_page_step epoch) p [Save_pressed, Setting_changed ch, Settings_answered True])) =
      Some (db_settings (ax_dashboard p)) \<and>
    \<not> ax_dirty (fst (run_form (alert_page_step epoch) p [Save_pressed, Setting_changed ch, Settings_answered True]))"
  using assms
  by (auto simp: page_steps save_disabled_def draft_valid_def split: option.splits)

text \<open>The notice about a file that is not supported is not shown as a failure.\<close>

lemma unsupported_file_looks_fine:
  assumes "\<not> file_supported k f" and "ax_uploading p = None" and "\<not> ax_refresh_failed p"
  shows "notice_banner (fst (alert_page_step epoch p (File_chosen k (Some f)))) = Some (Unsupported_file, False)"
  using assms by (simp add: page_steps notice_banner_def)

text \<open>A draft older than a change of the pause does not undo it: a save leaves the pause out.\<close>

lemma save_leaves_pause:
  "editable_settings (s\<lparr>al_paused := b\<rparr>) = editable_settings s"
  by (simp add: editable_settings_def)

end
