(* ===== verification/ChatPage.thy ===== *)
theory ChatPage
  imports ChatStream ChatService VideoFormProperties
begin

text \<open>
  The page of the chat (\<open>routes/_authenticated/chat.tsx\<close>, \<open>hooks/chat-service.ts\<close>, \<open>components/chat-feed.tsx\<close>,
  \<open>components/chat-reconnect-notice.tsx\<close>, \<open>components/boosty-connection-form.tsx\<close>): the feed and its counter of
  unread messages, the composer, the connections with the optimistic switch of a source, the
  overlay's link, and the form that connects Boosty.  Each event of the page gives its new state and
  the requests it sends; answers and refreshed data are events as well.
\<close>

section \<open>The feed\<close>

text \<open>
  \<open>useChatFeedScroll\<close>: the keys shown before, whether the viewport is near its bottom, the number of unread
  messages and the number of times the page has scrolled to the bottom.
\<close>

record chat_feed =
  fe_keys :: "string list"
  fe_near_bottom :: bool
  fe_unread :: nat
  fe_scrolls :: nat

definition new_feed :: chat_feed where
  "new_feed = \<lparr>fe_keys = [], fe_near_bottom = True, fe_unread = 0, fe_scrolls = 0\<rparr>"

definition scroll_to_bottom :: "chat_feed \<Rightarrow> chat_feed" where
  "scroll_to_bottom f = f\<lparr>fe_near_bottom := True, fe_scrolls := fe_scrolls f + 1, fe_unread := 0\<rparr>"

definition arrived_keys :: "string list \<Rightarrow> string list \<Rightarrow> string list" where
  "arrived_keys previous ks = filter (\<lambda>k. k \<notin> set previous) ks"

definition show_messages :: "bool \<Rightarrow> chat_message list \<Rightarrow> chat_feed \<Rightarrow> chat_feed" where
  "show_messages overlay ms f =
     (let previous = fe_keys f; ks = remdups (map chat_message_key ms);
          g = f\<lparr>fe_keys := ks\<rparr>; arrivals = length (arrived_keys previous ks)
      in if ks = [] then g\<lparr>fe_near_bottom := True, fe_unread := 0\<rparr>
         else if previous = [] then g\<lparr>fe_scrolls := fe_scrolls g + 1, fe_unread := 0\<rparr>
         else if arrivals = 0 then g
         else if fe_near_bottom g \<or> overlay then scroll_to_bottom g
         else g\<lparr>fe_unread := fe_unread g + arrivals\<rparr>)"

text \<open>Scroll height, scroll position and height of the viewport, in pixels.\<close>

definition feed_scrolled :: "int \<Rightarrow> int \<Rightarrow> int \<Rightarrow> chat_feed \<Rightarrow> chat_feed" where
  "feed_scrolled height offset client f =
     (let near = height - offset - client < 80
      in f\<lparr>fe_near_bottom := near, fe_unread := (if near then 0 else fe_unread f)\<rparr>)"

datatype feed_event = Messages_shown "chat_message list" | Feed_scrolled int int int | Jump_pressed

definition feed_step :: "bool \<Rightarrow> chat_feed \<Rightarrow> feed_event \<Rightarrow> chat_feed" where
  "feed_step overlay f e =
     (case e of
        Messages_shown ms \<Rightarrow> show_messages overlay ms f
      | Feed_scrolled height offset client \<Rightarrow> feed_scrolled height offset client f
      | Jump_pressed \<Rightarrow> if overlay \<or> fe_unread f = 0 then f else scroll_to_bottom f)"

text \<open>The moderation buttons of a message.\<close>

datatype moderation_action = Delete_message_action | Timeout_action | Ban_action | Unban_action

definition action_capability :: "moderation_action \<Rightarrow> chat_capability" where
  "action_capability a =
     (case a of Delete_message_action \<Rightarrow> Delete_message | Timeout_action \<Rightarrow> Timeout_user | Ban_action \<Rightarrow> Ban_user
      | Unban_action \<Rightarrow> Unban_user)"

definition action_command :: "moderation_action \<Rightarrow> chat_message \<Rightarrow> moderation_command" where
  "action_command a m =
     (case a of
        Delete_message_action \<Rightarrow> DeleteMessage (cm_source_id m) (cm_id m)
      | Timeout_action \<Rightarrow> TimeoutUser (cm_source_id m) (ca_id (cm_author m)) 600 None
      | Ban_action \<Rightarrow> BanUser (cm_source_id m) (ca_id (cm_author m)) None
      | Unban_action \<Rightarrow> UnbanUser (cm_source_id m) (ca_id (cm_author m)))"

definition moderation_actions :: "chat_capability list \<Rightarrow> moderation_action list" where
  "moderation_actions caps =
     filter (\<lambda>a. action_capability a \<in> set caps) [Delete_message_action, Timeout_action, Ban_action, Unban_action]"

section \<open>The state of the page\<close>

datatype overlay_background = Transparent | Black_background | White_background

datatype copy_state = Copy_idle | Copy_copied | Copy_failed

datatype chat_action = Oauth_action | Disconnect_action | Refresh_action | Switch_action | Broadcast_action | Moderate_action

text \<open>A switch being answered remembers the source, the choice and the configuration before it.\<close>

record source_switch =
  sx_source :: string
  sx_enabled :: bool
  sx_previous :: "chat_config option"

record chat_page =
  cp_config :: "chat_config option"
  cp_availability :: "provider_availability list"
  cp_view :: stream_view
  cp_message :: string
  cp_sending :: "string option"
  cp_results :: "command_result list option"
  cp_to_disconnect :: "chat_connection option"
  cp_disconnecting :: bool
  cp_overlay_url :: "string option"
  cp_background :: overlay_background
  cp_copy :: copy_state
  cp_rotating :: bool
  cp_switch :: "source_switch option"
  cp_refreshing :: "string option"
  cp_oauth :: "oauth_provider option"
  cp_boosty_open :: bool
  cp_location :: "string option"
  cp_failed :: "chat_action set"

definition open_chat_page :: chat_page where
  "open_chat_page =
     \<lparr>cp_config = None, cp_availability = [], cp_view = initial_view, cp_message = [], cp_sending = None,
      cp_results = None, cp_to_disconnect = None, cp_disconnecting = False, cp_overlay_url = None,
      cp_background = Transparent, cp_copy = Copy_idle, cp_rotating = False, cp_switch = None,
      cp_refreshing = None, cp_oauth = None, cp_boosty_open = False, cp_location = None, cp_failed = {}\<rparr>"

text \<open>The maps of \<open>chatConfigIndexes\<close>: a later entry of a key replaces an earlier one.\<close>

definition last_with :: "('a \<Rightarrow> bool) \<Rightarrow> 'a list \<Rightarrow> 'a option" where
  "last_with p xs = find p (rev xs)"

definition config_connections :: "chat_page \<Rightarrow> chat_connection list" where
  "config_connections p = (case cp_config p of None \<Rightarrow> [] | Some c \<Rightarrow> cfg_connections c)"

definition config_sources :: "chat_page \<Rightarrow> chat_source list" where
  "config_sources p = (case cp_config p of None \<Rightarrow> [] | Some c \<Rightarrow> cfg_sources c)"

definition connection_by_id :: "chat_page \<Rightarrow> string \<Rightarrow> chat_connection option" where
  "connection_by_id p i = last_with (\<lambda>c. cc_id c = i) (config_connections p)"

definition source_by_connection :: "chat_page \<Rightarrow> string \<Rightarrow> chat_source option" where
  "source_by_connection p i = last_with (\<lambda>s. cs_connection_id s = i) (config_sources p)"

definition source_by_id :: "chat_page \<Rightarrow> string \<Rightarrow> chat_source option" where
  "source_by_id p i = last_with (\<lambda>s. cs_id s = i) (config_sources p)"

definition capabilities_for_source :: "chat_page \<Rightarrow> string \<Rightarrow> chat_capability list" where
  "capabilities_for_source p i =
     (case source_by_id p i of
        None \<Rightarrow> []
      | Some s \<Rightarrow>
          (case connection_by_id p (cs_connection_id s) of
             None \<Rightarrow> []
           | Some c \<Rightarrow> if cs_enabled s \<and> cc_status c = Chat_connected then cc_capabilities c else []))"

definition source_writable :: "chat_page \<Rightarrow> chat_source \<Rightarrow> bool" where
  "source_writable p s \<longleftrightarrow>
     cs_enabled s \<and>
     (case connection_by_id p (cs_connection_id s) of
        None \<Rightarrow> False
      | Some c \<Rightarrow> cc_status c = Chat_connected \<and> Send_message \<in> set (cc_capabilities c))"

definition writable_connection_count :: "chat_page \<Rightarrow> nat" where
  "writable_connection_count p = length (filter (source_writable p) (config_sources p))"

definition configured_overlay_url :: "(string \<Rightarrow> overlay_background \<Rightarrow> string) \<Rightarrow> chat_page \<Rightarrow> string option" where
  "configured_overlay_url with_background p =
     map_option (\<lambda>url. with_background url (cp_background p)) (cp_overlay_url p)"

section \<open>Failures\<close>

definition begin_action :: "chat_action \<Rightarrow> chat_page \<Rightarrow> chat_page" where
  "begin_action a p = p\<lparr>cp_failed := cp_failed p - {a}\<rparr>"

definition fail_action :: "chat_action \<Rightarrow> chat_page \<Rightarrow> chat_page" where
  "fail_action a p = p\<lparr>cp_failed := insert a (cp_failed p)\<rparr>"

section \<open>The composer\<close>

definition send_disabled :: "chat_page \<Rightarrow> bool" where
  "send_disabled p \<longleftrightarrow> js_trim (cp_message p) = [] \<or> cp_sending p \<noteq> None \<or> writable_connection_count p = 0"

definition submit_message :: "chat_page \<Rightarrow> chat_page \<times> chat_api_request list" where
  "submit_message p =
     (let text = cp_message p in
      if js_trim text = [] \<or> cp_sending p \<noteq> None then (p, [])
      else (begin_action Broadcast_action (p\<lparr>cp_results := None, cp_sending := Some text\<rparr>), [Broadcast_mutation text]))"

text \<open>The field is emptied when a source took the message, unless it was edited in the meantime.\<close>

definition broadcast_answered :: "command_result list option \<Rightarrow> chat_page \<Rightarrow> chat_page" where
  "broadcast_answered answer p =
     (case (cp_sending p, answer) of
        (None, _) \<Rightarrow> p
      | (Some _, None) \<Rightarrow> fail_action Broadcast_action (p\<lparr>cp_sending := None\<rparr>)
      | (Some text, Some rs) \<Rightarrow>
          (let q = p\<lparr>cp_sending := None, cp_results := Some rs\<rparr> in
           if \<not> list_ex (\<lambda>r. cr_status r = Succeeded) rs then q
           else if cp_message q = text then q\<lparr>cp_message := []\<rparr> else q))"

section \<open>Connections\<close>

definition oauth_of :: "chat_provider \<Rightarrow> oauth_provider option" where
  "oauth_of p =
     (case p of Youtube \<Rightarrow> Some Oauth_youtube | Twitch \<Rightarrow> Some Oauth_twitch | Kick \<Rightarrow> Some Oauth_kick
      | Vk_video \<Rightarrow> Some Oauth_vk_video | Boosty \<Rightarrow> None)"

definition connect_provider :: "chat_provider \<Rightarrow> chat_page \<Rightarrow> chat_page \<times> chat_api_request list" where
  "connect_provider provider p =
     (case oauth_of provider of
        None \<Rightarrow> (p\<lparr>cp_boosty_open := True\<rparr>, [])
      | Some o' \<Rightarrow> (begin_action Oauth_action (p\<lparr>cp_oauth := Some o'\<rparr>), [Start_oauth_mutation o']))"

definition provider_button_disabled :: "chat_page \<Rightarrow> provider_availability \<Rightarrow> bool" where
  "provider_button_disabled p a \<longleftrightarrow>
     pa_access a = Unavailable \<or> (oauth_of (pa_provider a) = None \<and> pa_provider a \<noteq> Boosty) \<or> cp_oauth p \<noteq> None"

definition reconnect_disabled :: "chat_page \<Rightarrow> chat_connection \<Rightarrow> bool" where
  "reconnect_disabled p c \<longleftrightarrow>
     (case find (\<lambda>a. pa_provider a = cc_provider c) (cp_availability p) of
        Some a \<Rightarrow> pa_access a = Unavailable | None \<Rightarrow> False) \<or> cp_oauth p \<noteq> None"

definition reconnect_notice :: "chat_connection \<Rightarrow> string option" where
  "reconnect_notice c =
     (case cc_status c of Chat_connected \<Rightarrow> None | Refresh_required \<Rightarrow> Some ''refreshRequired''
      | Chat_connection_failed \<Rightarrow> Some ''connectionError'')"

definition oauth_answered :: "string option \<Rightarrow> chat_page \<Rightarrow> chat_page" where
  "oauth_answered url p =
     (let q = p\<lparr>cp_oauth := None\<rparr> in
      case url of Some u \<Rightarrow> q\<lparr>cp_location := Some u\<rparr> | None \<Rightarrow> fail_action Oauth_action q)"

text \<open>A connection that waits to be reconnected collects nothing, whatever its source's last state was.\<close>

definition shown_source_state :: "chat_page \<Rightarrow> chat_connection \<Rightarrow> source_state option" where
  "shown_source_state p c =
     (if cc_status c = Chat_connected
      then Option.bind (source_by_connection p (cc_id c)) (\<lambda>s. sw_statuses (cp_view p) (cs_id s))
      else Some Source_error)"

definition refreshable :: "chat_connection \<Rightarrow> bool" where
  "refreshable c \<longleftrightarrow> cc_status c = Chat_connected \<and> (cc_provider c = Youtube \<or> cc_provider c = Vk_video)"

definition refresh_shown :: "chat_page \<Rightarrow> chat_connection \<Rightarrow> chat_source option" where
  "refresh_shown p c =
     (case source_by_connection p (cc_id c) of
        Some s \<Rightarrow> if refreshable c \<and> cs_enabled s then Some s else None | None \<Rightarrow> None)"

definition refresh_disabled :: "chat_page \<Rightarrow> chat_connection \<Rightarrow> bool" where
  "refresh_disabled p c \<longleftrightarrow>
     cp_refreshing p \<noteq> None \<or> shown_source_state p c = Some Source_live \<or> shown_source_state p c = Some Source_connecting"

definition refresh_source :: "chat_connection \<Rightarrow> chat_page \<Rightarrow> chat_page \<times> chat_api_request list" where
  "refresh_source c p =
     (case refresh_shown p c of
        Some s \<Rightarrow>
          if refresh_disabled p c then (p, [])
          else (begin_action Refresh_action (p\<lparr>cp_refreshing := Some (cs_id s)\<rparr>), [Refresh_source_mutation (cs_id s)])
      | None \<Rightarrow> (p, []))"

text \<open>The optimistic change of \<open>setSourceEnabled\<close>, undone when the service refuses it.\<close>

definition with_source_enabled :: "string \<Rightarrow> bool \<Rightarrow> chat_config \<Rightarrow> chat_config" where
  "with_source_enabled i b c =
     c\<lparr>cfg_sources := map (\<lambda>s. if cs_id s = i then s\<lparr>cs_enabled := b\<rparr> else s) (cfg_sources c)\<rparr>"

definition switch_source :: "chat_connection \<Rightarrow> bool \<Rightarrow> chat_page \<Rightarrow> chat_page \<times> chat_api_request list" where
  "switch_source c b p =
     (case source_by_connection p (cc_id c) of
        None \<Rightarrow> (p, [])
      | Some s \<Rightarrow>
          (if cp_switch p \<noteq> None then (p, [])
           else (begin_action Switch_action
                  (p\<lparr>cp_config := map_option (with_source_enabled (cs_id s) b) (cp_config p),
                     cp_switch := Some \<lparr>sx_source = cs_id s, sx_enabled = b, sx_previous = cp_config p\<rparr>\<rparr>),
                 [Set_source_enabled_mutation (cs_id s) b])))"

definition switch_answered :: "bool \<Rightarrow> chat_page \<Rightarrow> chat_page" where
  "switch_answered success p =
     (case cp_switch p of
        None \<Rightarrow> p
      | Some sx \<Rightarrow>
          (let q = p\<lparr>cp_switch := None\<rparr> in
           if success then q
           else fail_action Switch_action
             (case sx_previous sx of None \<Rightarrow> q | Some c \<Rightarrow> q\<lparr>cp_config := Some c\<rparr>)))"

section \<open>Disconnecting\<close>

definition ask_disconnect :: "chat_connection \<Rightarrow> chat_page \<Rightarrow> chat_page" where
  "ask_disconnect c p =
     (if cp_disconnecting p then p else begin_action Disconnect_action (p\<lparr>cp_to_disconnect := Some c\<rparr>))"

definition cancel_disconnect :: "chat_page \<Rightarrow> chat_page" where
  "cancel_disconnect p = (if cp_disconnecting p then p else p\<lparr>cp_to_disconnect := None\<rparr>)"

definition confirm_disconnect :: "chat_page \<Rightarrow> chat_page \<times> chat_api_request list" where
  "confirm_disconnect p =
     (case cp_to_disconnect p of
        None \<Rightarrow> (p, [])
      | Some c \<Rightarrow>
          (if cp_disconnecting p then (p, [])
           else (begin_action Disconnect_action (p\<lparr>cp_disconnecting := True\<rparr>), [Disconnect_mutation (cc_id c)])))"

definition disconnect_answered :: "bool \<Rightarrow> chat_page \<Rightarrow> chat_page" where
  "disconnect_answered success p =
     (let q = p\<lparr>cp_disconnecting := False\<rparr> in
      if success then q\<lparr>cp_to_disconnect := None\<rparr> else fail_action Disconnect_action q)"

section \<open>Moderation\<close>

definition moderate :: "moderation_action \<Rightarrow> chat_message \<Rightarrow> chat_page \<Rightarrow> chat_page \<times> chat_api_request list" where
  "moderate a m p =
     (if m \<in> set (sw_messages (cp_view p)) \<and>
         a \<in> set (moderation_actions (capabilities_for_source p (cm_source_id m)))
      then (begin_action Moderate_action p, [Moderate_mutation (action_command a m)])
      else (p, []))"

definition moderation_answered :: "moderation_command \<Rightarrow> command_status option \<Rightarrow> chat_page \<Rightarrow> chat_page" where
  "moderation_answered command answer p =
     (case answer of
        None \<Rightarrow> fail_action Moderate_action p
      | Some st \<Rightarrow>
          (case command of
             DeleteMessage source_id message_id \<Rightarrow>
               if st = Succeeded then p\<lparr>cp_view := reducer (cp_view p) (Message_removed source_id message_id)\<rparr> else p
           | _ \<Rightarrow> p))"

section \<open>The overlay's link\<close>

definition rotate_overlay :: "chat_page \<Rightarrow> chat_page \<times> chat_api_request list" where
  "rotate_overlay p = (if cp_rotating p then (p, []) else (p\<lparr>cp_rotating := True\<rparr>, [Rotate_overlay_token_mutation]))"

definition overlay_rotated :: "string option \<Rightarrow> chat_page \<Rightarrow> chat_page" where
  "overlay_rotated url p =
     (let q = p\<lparr>cp_rotating := False\<rparr> in
      case url of None \<Rightarrow> q | Some u \<Rightarrow> q\<lparr>cp_overlay_url := Some u, cp_copy := Copy_idle\<rparr>)"

definition choose_background :: "overlay_background \<Rightarrow> chat_page \<Rightarrow> chat_page" where
  "choose_background b p = p\<lparr>cp_background := b, cp_copy := Copy_idle\<rparr>"

definition copy_overlay_url :: "bool \<Rightarrow> chat_page \<Rightarrow> chat_page" where
  "copy_overlay_url written p =
     (if cp_overlay_url p = None then p
      else p\<lparr>cp_copy := (if written then Copy_copied else Copy_failed)\<rparr>)"

section \<open>The page\<close>

datatype chat_page_event =
    Config_refreshed chat_config
  | Availability_refreshed "provider_availability list"
  | Stream_changed stream_action
  | Message_typed string
  | Send_pressed
  | Broadcast_answered "command_result list option"
  | Provider_pressed provider_availability
  | Reconnect_pressed chat_connection
  | Oauth_answered "string option"
  | Refresh_pressed chat_connection
  | Refresh_answered bool
  | Switch_pressed chat_connection bool
  | Switch_answered bool
  | Disconnect_pressed chat_connection
  | Disconnect_cancelled
  | Disconnect_confirmed
  | Disconnect_answered bool
  | Moderation_pressed moderation_action chat_message
  | Moderation_answered moderation_command "command_status option"
  | Overlay_rotate_pressed
  | Overlay_rotated_answer "string option"
  | Background_chosen overlay_background
  | Overlay_copy_pressed bool
  | Boosty_closed

fun chat_page_step :: "chat_page \<Rightarrow> chat_page_event \<Rightarrow> chat_page \<times> chat_api_request list" where
  "chat_page_step p (Config_refreshed c) = (p\<lparr>cp_config := Some c\<rparr>, [])"
| "chat_page_step p (Availability_refreshed a) = (p\<lparr>cp_availability := a\<rparr>, [])"
| "chat_page_step p (Stream_changed action) = (p\<lparr>cp_view := reducer (cp_view p) action\<rparr>, [])"
| "chat_page_step p (Message_typed s) = (p\<lparr>cp_message := s\<rparr>, [])"
| "chat_page_step p Send_pressed = (if send_disabled p then (p, []) else submit_message p)"
| "chat_page_step p (Broadcast_answered answer) = (broadcast_answered answer p, [])"
| "chat_page_step p (Provider_pressed a) =
     (if a \<notin> set (cp_availability p) \<or> provider_button_disabled p a then (p, []) else connect_provider (pa_provider a) p)"
| "chat_page_step p (Reconnect_pressed c) =
     (if c \<notin> set (config_connections p) \<or> reconnect_notice c = None \<or> reconnect_disabled p c then (p, [])
      else connect_provider (cc_provider c) p)"
| "chat_page_step p (Oauth_answered url) = (oauth_answered url p, [])"
| "chat_page_step p (Refresh_pressed c) =
     (if c \<in> set (config_connections p) then refresh_source c p else (p, []))"
| "chat_page_step p (Refresh_answered success) =
     (let q = p\<lparr>cp_refreshing := None\<rparr> in (if success then q else fail_action Refresh_action q, []))"
| "chat_page_step p (Switch_pressed c b) =
     (if c \<in> set (config_connections p) then switch_source c b p else (p, []))"
| "chat_page_step p (Switch_answered success) = (switch_answered success p, [])"
| "chat_page_step p (Disconnect_pressed c) =
     (if c \<in> set (config_connections p) then ask_disconnect c p else p, [])"
| "chat_page_step p Disconnect_cancelled = (cancel_disconnect p, [])"
| "chat_page_step p Disconnect_confirmed = confirm_disconnect p"
| "chat_page_step p (Disconnect_answered success) = (disconnect_answered success p, [])"
| "chat_page_step p (Moderation_pressed a m) = moderate a m p"
| "chat_page_step p (Moderation_answered command answer) = (moderation_answered command answer p, [])"
| "chat_page_step p Overlay_rotate_pressed = rotate_overlay p"
| "chat_page_step p (Overlay_rotated_answer url) = (overlay_rotated url p, [])"
| "chat_page_step p (Background_chosen b) = (choose_background b p, [])"
| "chat_page_step p (Overlay_copy_pressed written) = (copy_overlay_url written p, [])"
| "chat_page_step p Boosty_closed = (p\<lparr>cp_boosty_open := False\<rparr>, [])"

section \<open>What the page says\<close>

text \<open>The notice after a provider's authorization: \<open>chat_oauth\<close> and \<open>chat_oauth_error\<close> of the address.\<close>

datatype oauth_outcome = Oauth_success | Oauth_error

definition oauth_outcome_field :: "json option \<Rightarrow> oauth_outcome option" where
  "oauth_outcome_field v =
     (if v = Some (J_str ''success'') then Some Oauth_success
      else if v = Some (J_str ''error'') then Some Oauth_error else None)"

definition oauth_error_messages :: "(string \<times> string) list" where
  "oauth_error_messages =
     [(''invalid oauth callback'', ''chatOauthInvalidCallback''), (''expired oauth attempt'', ''chatOauthExpired''),
      (''oauth provider unavailable'', ''chatOauthProviderUnavailable''),
      (''oauth token exchange failed'', ''chatOauthTokenExchangeFailed''),
      (''oauth profile failed'', ''chatOauthProfileFailed''),
      (''chat source limit reached'', ''chatOauthSourceLimitReached''),
      (''oauth session mismatch'', ''chatOauthSessionMismatch''),
      (''chat account connected to another user'', ''chatOauthAccountConnectedElsewhere''),
      (''unknown'', ''chatOauthUnknownError'')]"

definition oauth_error_field :: "json option \<Rightarrow> string option" where
  "oauth_error_field v =
     (case v of Some (J_str s) \<Rightarrow> if map_of oauth_error_messages s = None then None else Some s | _ \<Rightarrow> None)"

definition oauth_notice :: "json \<Rightarrow> string option" where
  "oauth_notice raw =
     (case oauth_outcome_field (field raw ''chat_oauth'') of
        None \<Rightarrow> None
      | Some Oauth_success \<Rightarrow> Some ''chatOauthSuccess''
      | Some Oauth_error \<Rightarrow>
          map_of oauth_error_messages
            (case oauth_error_field (field raw ''chat_oauth_error'') of None \<Rightarrow> ''unknown'' | Some s \<Rightarrow> s))"

definition connection_error_message :: "connection_error_code \<Rightarrow> string" where
  "connection_error_message c =
     (case c of
        Configuration_unavailable \<Rightarrow> ''configurationUnavailable'' | Overlay_not_found \<Rightarrow> ''overlayNotFound''
      | Stream_unavailable \<Rightarrow> ''streamUnavailable'' | Transport_unavailable \<Rightarrow> ''transportUnavailable''
      | Unauthorized \<Rightarrow> ''unauthorized'')"

definition broadcast_status_message :: "command_status \<Rightarrow> string" where
  "broadcast_status_message st =
     (case st of Succeeded \<Rightarrow> ''broadcastSucceeded'' | Failed_command \<Rightarrow> ''broadcastFailed''
      | Unsupported \<Rightarrow> ''broadcastUnsupported'')"

section \<open>Connecting Boosty\<close>

text \<open>
  \<open>JSON.parse(decodeURIComponent(text))\<close> is the argument \<open>decode\<close>, \<open>None\<close> for what throws; the fields are those of
  \<open>BoostyAuthSchema\<close>.
\<close>

definition credential_field :: "json \<Rightarrow> string \<Rightarrow> string option" where
  "credential_field auth k = (case field auth k of Some (J_str s) \<Rightarrow> parse_credential 8192 s | _ \<Rightarrow> None)"

definition parse_boosty_auth :: "(string \<Rightarrow> json option) \<Rightarrow> string \<Rightarrow> (int \<times> string \<times> string) option" where
  "parse_boosty_auth decode auth =
     Option.bind (decode (js_trim auth)) (\<lambda>j.
       case field j ''expiresAt'' of
         Some (J_int t) \<Rightarrow>
           if z_positive_int t \<and> t \<le> max_date_ms
           then Option.bind (credential_field j ''accessToken'') (\<lambda>access.
                map_option (\<lambda>refresh. (t, access, refresh)) (credential_field j ''refreshToken''))
           else None
       | _ \<Rightarrow> None)"

record boosty_form =
  bf_dedicated :: bool
  bf_auth :: string
  bf_auth_invalid :: bool
  bf_device_id :: string
  bf_pending :: bool
  bf_failed :: bool
  bf_open :: bool

definition open_boosty_form :: boosty_form where
  "open_boosty_form =
     \<lparr>bf_dedicated = False, bf_auth = [], bf_auth_invalid = False, bf_device_id = [], bf_pending = False,
      bf_failed = False, bf_open = True\<rparr>"

definition boosty_disabled :: "boosty_form \<Rightarrow> bool" where
  "boosty_disabled f \<longleftrightarrow>
     \<not> bf_dedicated f \<or> js_trim (bf_auth f) = [] \<or> js_trim (bf_device_id f) = [] \<or> bf_pending f"

definition submit_boosty :: "(string \<Rightarrow> json option) \<Rightarrow> boosty_form \<Rightarrow> boosty_form \<times> chat_api_request list" where
  "submit_boosty decode f =
     (if boosty_disabled f then (f, [])
      else case parse_boosty_auth decode (bf_auth f) of
        None \<Rightarrow> (f\<lparr>bf_auth_invalid := True\<rparr>, [])
      | Some (t, access, refresh) \<Rightarrow>
          (f\<lparr>bf_auth_invalid := False, bf_pending := True, bf_failed := False\<rparr>,
           [Connect_boosty_mutation
             \<lparr>bs_access_token = access, bs_refresh_token = Some refresh, bs_device_id = Some (js_trim (bf_device_id f)),
              bs_expires_at = Some t, bs_dedicated_session = Some (bf_dedicated f)\<rparr>]))"

datatype boosty_event =
    Dedicated_switched bool
  | Auth_typed string
  | Device_typed string
  | Boosty_submitted
  | Boosty_answered bool
  | Boosty_dismissed

definition boosty_step :: "(string \<Rightarrow> json option) \<Rightarrow> boosty_form \<Rightarrow> boosty_event \<Rightarrow> boosty_form \<times> chat_api_request list" where
  "boosty_step decode f e =
     (case e of
        Dedicated_switched b \<Rightarrow> (if bf_pending f then f else f\<lparr>bf_dedicated := b\<rparr>, [])
      | Auth_typed s \<Rightarrow> (if bf_pending f then f else f\<lparr>bf_auth := s, bf_auth_invalid := False\<rparr>, [])
      | Device_typed s \<Rightarrow> (if bf_pending f then f else f\<lparr>bf_device_id := s\<rparr>, [])
      | Boosty_submitted \<Rightarrow> submit_boosty decode f
      | Boosty_answered success \<Rightarrow>
          (if success then f\<lparr>bf_pending := False, bf_open := False\<rparr> else f\<lparr>bf_pending := False, bf_failed := True\<rparr>, [])
      | Boosty_dismissed \<Rightarrow> (if bf_pending f then f else f\<lparr>bf_open := False\<rparr>, []))"

text \<open>The developer tools' shortcut by the browser: \<open>getDevtoolsShortcut\<close>.\<close>

definition mentions :: "string \<Rightarrow> string \<Rightarrow> bool" where
  "mentions word text \<longleftrightarrow> sublist word text"

text \<open>\<open>/version\/.*safari\//\<close>, in a text of one line.\<close>

definition version_then_safari :: "string \<Rightarrow> bool" where
  "version_then_safari ua \<longleftrightarrow>
     list_ex (\<lambda>i. prefix ''version/'' (drop i ua) \<and> mentions ''safari/'' (drop (i + 8) ua)) [0..<Suc (length ua)]"

datatype shortcut = Shift_F9 | Ctrl_shift_I | Command_option_I

datatype devtools_browser = Mobile | Firefox | Chromium | Safari | Unknown_browser

definition get_devtools_shortcut :: "string \<Rightarrow> int \<Rightarrow> devtools_browser \<times> shortcut option" where
  "get_devtools_shortcut user_agent max_touch_points =
     (let ua = to_lower user_agent; is_mac = mentions ''macintosh'' ua \<or> mentions ''mac os x'' ua in
      if list_ex (\<lambda>w. mentions w ua) [''android'', ''iphone'', ''ipad'', ''ipod'', ''mobile''] \<or>
         is_mac \<and> max_touch_points > 1 then (Mobile, None)
      else if mentions ''firefox/'' ua then (Firefox, Some Shift_F9)
      else if (mentions ''chrome/'' ua \<or> mentions ''chromium/'' ua) \<and>
              list_ex (\<lambda>w. mentions w ua) [''windows'', ''linux'', ''cros'', ''macintosh''] then
        (Chromium, Some (if is_mac then Command_option_I else Ctrl_shift_I))
      else if is_mac \<and> version_then_safari ua then (Safari, Some Command_option_I)
      else (Unknown_browser, None))"

end
