(* ===== verification/ChatPageProperties.thy ===== *)
theory ChatPageProperties
  imports ChatPage
begin

text \<open>
  What the page of the chat keeps to: it sends only what the server accepts, undoes a switch that failed,
  never loses a text that no source has taken, and moderates only where it may.
\<close>

section \<open>The feed\<close>

definition scroll_ok :: "bool \<Rightarrow> chat_feed \<Rightarrow> bool" where
  "scroll_ok overlay f \<longleftrightarrow> (fe_near_bottom f \<or> overlay \<or> fe_keys f = [] \<longrightarrow> fe_unread f = 0) \<and> distinct (fe_keys f)"

lemma feed_step_scroll_ok: "scroll_ok overlay f \<Longrightarrow> scroll_ok overlay (feed_step overlay f e)"
  by (cases e) (auto simp: scroll_ok_def feed_step_def show_messages_def feed_scrolled_def scroll_to_bottom_def Let_def)

text \<open>A reader who has scrolled up is told of every message that arrives, once per message, and is left where he is.\<close>

lemma unread_counts_arrivals:
  assumes "\<not> fe_near_bottom f" and "fe_keys f \<noteq> []" and "ms \<noteq> []"
  shows "fe_unread (feed_step False f (Messages_shown ms)) =
      fe_unread f + card (chat_message_key ` set ms - set (fe_keys f)) \<and>
    fe_scrolls (feed_step False f (Messages_shown ms)) = fe_scrolls f"
proof -
  let ?new = "arrived_keys (fe_keys f) (remdups (map chat_message_key ms))"
  have "distinct ?new" "set ?new = chat_message_key ` set ms - set (fe_keys f)"
    by (auto simp: arrived_keys_def)
  then have "length ?new = card (chat_message_key ` set ms - set (fe_keys f))"
    using distinct_card by fastforce
  then show ?thesis
    using assms by (auto simp: feed_step_def show_messages_def Let_def remdups_eq_nil_iff)
qed

section \<open>The invariant of the page\<close>

definition chat_page_ok :: "(string \<Rightarrow> bool) \<Rightarrow> chat_page \<Rightarrow> bool" where
  "chat_page_ok is_url p \<longleftrightarrow>
     optional_holds (valid_chat_config is_url) (cp_config p) \<and>
     optional_holds (\<lambda>sx. optional_holds (valid_chat_config is_url) (sx_previous sx)) (cp_switch p) \<and>
     list_all valid_chat_message (sw_messages (cp_view p)) \<and> optional_holds valid_chat_connection (cp_to_disconnect p) \<and>
     length (cp_message p) \<le> max_chat_message_length"

text \<open>Refreshed data fit their schemas, and the field takes at most 500 characters.\<close>

definition stream_action_ok :: "stream_action \<Rightarrow> bool" where
  "stream_action_ok a = (case a of Event e \<Rightarrow> valid_stream_event e | _ \<Rightarrow> True)"

definition chat_event_possible :: "(string \<Rightarrow> bool) \<Rightarrow> chat_page_event \<Rightarrow> bool" where
  "chat_event_possible is_url e =
     (case e of
        Config_refreshed c \<Rightarrow> valid_chat_config is_url c
      | Stream_changed a \<Rightarrow> stream_action_ok a
      | Message_typed s \<Rightarrow> length s \<le> max_chat_message_length
      | _ \<Rightarrow> True)"

definition chat_request_accepted :: "chat_api_request \<Rightarrow> bool" where
  "chat_request_accepted r \<longleftrightarrow> parse_chat_request r \<noteq> None"

lemma insert_message_subset: "set (insert_message m ms) \<subseteq> insert m (set ms)"
proof -
  have "set (take_last n xs) \<subseteq> set xs" for n and xs :: "chat_message list"
    by (simp add: take_last_def set_drop_subset)
  then show ?thesis
    by (fastforce simp: insert_message_def Let_def dest: in_set_takeD in_set_dropD split: option.splits)
qed

lemma reducer_messages_ok:
  assumes "list_all valid_chat_message (sw_messages v)" and "stream_action_ok a"
  shows "list_all valid_chat_message (sw_messages (reducer v a))"
proof (cases a)
  case (Event e)
  then show ?thesis
  proof (cases e)
    case (Message m)
    then show ?thesis
      using assms Event insert_message_subset [of m "sw_messages v"]
      by (auto simp: reducer_def stream_action_ok_def valid_stream_event_def list_all_iff)
  qed (use assms Event in \<open>auto simp: reducer_def without_message_def list_all_iff\<close>)
qed (use assms in \<open>auto simp: reducer_def without_message_def initial_view_def list_all_iff\<close>)

lemma find_member: "find q xs = Some x \<Longrightarrow> x \<in> set xs \<and> q x"
  by (induction xs) (auto split: if_splits)

lemma last_with_Some: "last_with q xs = Some x \<Longrightarrow> x \<in> set xs \<and> q x"
  unfolding last_with_def by (drule find_member) simp

lemma enabled_config_ok: "valid_chat_config is_url c \<Longrightarrow> valid_chat_config is_url (with_source_enabled i b c)"
  by (auto simp: valid_chat_config_def with_source_enabled_def list_all_iff valid_chat_source_def)

lemma config_source_ok:
  assumes "chat_page_ok is_url p" and "source_by_connection p i = Some s" shows "valid_uuid (cs_id s)"
proof -
  have "s \<in> set (config_sources p)" using last_with_Some [OF assms(2) [unfolded source_by_connection_def]] by simp
  then show ?thesis using assms(1)
    by (auto simp: chat_page_ok_def config_sources_def optional_holds_def valid_chat_config_def list_all_iff
        valid_chat_source_def split: option.splits)
qed

lemma config_connection_ok:
  assumes "chat_page_ok is_url p" and "c \<in> set (config_connections p)" shows "valid_chat_connection c"
  using assms
  by (auto simp: chat_page_ok_def config_connections_def optional_holds_def valid_chat_config_def list_all_iff
      split: option.splits)

lemmas chat_steps =
  begin_action_def fail_action_def submit_message_def broadcast_answered_def connect_provider_def oauth_answered_def
  refresh_source_def switch_source_def switch_answered_def ask_disconnect_def cancel_disconnect_def
  confirm_disconnect_def disconnect_answered_def moderate_def moderation_answered_def rotate_overlay_def
  overlay_rotated_def choose_background_def copy_overlay_url_def Let_def

lemma chat_step_ok:
  assumes "chat_page_ok is_url p" and "chat_event_possible is_url e"
  shows "chat_page_ok is_url (fst (chat_page_step p e))"
proof (cases e)
  case (Stream_changed a)
  then show ?thesis using assms reducer_messages_ok [of "cp_view p" a]
    by (auto simp: chat_page_ok_def chat_event_possible_def)
next
  case (Moderation_answered command answer)
  then show ?thesis using assms reducer_messages_ok [of "cp_view p"]
    by (cases command) (auto simp: chat_page_ok_def chat_steps stream_action_ok_def split: option.splits)
next
  case (Switch_pressed c b)
  then show ?thesis using assms enabled_config_ok [of is_url]
    by (auto simp: chat_page_ok_def chat_steps optional_holds_def split: option.splits)
next
  case (Switch_answered success)
  then show ?thesis using assms
    by (auto simp: chat_page_ok_def chat_steps optional_holds_def split: option.splits)
next
  case (Disconnect_pressed c)
  then show ?thesis using assms config_connection_ok [OF assms(1), of c]
    by (auto simp: chat_page_ok_def chat_steps optional_holds_def split: option.splits)
qed (use assms in \<open>auto simp: chat_page_ok_def chat_event_possible_def chat_steps optional_holds_def split: option.splits\<close>)

lemma command_accepted:
  assumes "valid_chat_message m" shows "parse_moderation_command (action_command a m) \<noteq> None"
  using assms
  by (cases a) (auto simp: action_command_def parse_moderation_command_def parse_reason_def valid_chat_message_def
      valid_chat_author_def z_positive_int_def z_int_def max_safe_integer_def)

lemma chat_step_accepted:
  assumes "chat_page_ok is_url p" and "chat_event_possible is_url e"
  shows "list_all chat_request_accepted (snd (chat_page_step p e))"
proof (cases e)
  case (Refresh_pressed c)
  have "valid_uuid (cs_id s)" if "refresh_shown p c = Some s" for s
    using that config_source_ok [OF assms(1), of "cc_id c" s]
    by (auto simp: refresh_shown_def split: option.splits if_splits)
  then show ?thesis using Refresh_pressed
    by (auto simp: chat_steps chat_request_accepted_def parse_chat_request_def split: option.splits)
next
  case (Switch_pressed c b)
  then show ?thesis using config_source_ok [OF assms(1), of "cc_id c"]
    by (auto simp: chat_steps chat_request_accepted_def parse_chat_request_def split: option.splits)
next
  case Disconnect_confirmed
  then show ?thesis using assms(1)
    by (auto simp: chat_steps chat_request_accepted_def parse_chat_request_def chat_page_ok_def optional_holds_def
        valid_chat_connection_def split: option.splits)
next
  case (Moderation_pressed a m)
  then show ?thesis using assms(1) command_accepted [of m a]
    by (auto simp: chat_steps chat_request_accepted_def parse_chat_request_def chat_page_ok_def list_all_iff)
next
  case Send_pressed
  then show ?thesis using assms(1)
    by (auto simp: chat_steps chat_request_accepted_def parse_chat_request_def chat_page_ok_def)
qed (auto simp: chat_steps chat_request_accepted_def parse_chat_request_def split: option.splits)

interpretation chat_form: request_machine chat_page_step "chat_event_possible is_url" "chat_page_ok is_url"
  chat_request_accepted for is_url
  by unfold_locales (simp_all add: chat_step_ok chat_step_accepted)

lemma open_chat_page_ok: "chat_page_ok is_url open_chat_page"
  by (simp add: chat_page_ok_def open_chat_page_def optional_holds_def initial_view_def)

section \<open>Connecting Boosty\<close>

lemma parse_credential_again: "parse_credential n s = Some t \<Longrightarrow> parse_credential n t = Some t"
  by (auto simp: parse_credential_def Let_def split: if_split_asm)

text \<open>Whatever the form sends is accepted but for an identifier of the device that is not plain.\<close>

definition boosty_accepted :: "chat_api_request \<Rightarrow> bool" where
  "boosty_accepted r =
     (case r of
        Connect_boosty_mutation b \<Rightarrow>
          parse_chat_request r \<noteq> None \<or> optional_holds (\<lambda>d. parse_credential 200 d = None) (bs_device_id b)
      | _ \<Rightarrow> False)"

lemma boosty_auth_parts:
  assumes "parse_boosty_auth decode auth = Some (t, access, refresh)"
  shows "z_positive_int t \<and> t \<le> max_date_ms \<and> parse_credential 8192 access = Some access \<and>
    parse_credential 8192 refresh = Some refresh"
proof -
  have field: "parse_credential 8192 v = Some v" if "credential_field j k = Some v" for j k v
    using that by (auto simp: credential_field_def intro: parse_credential_again split: option.splits json.splits)
  obtain j where j: "decode (js_trim auth) = Some j"
    using assms by (auto simp: parse_boosty_auth_def bind_eq_Some_conv)
  then obtain n where n: "field j ''expiresAt'' = Some (J_int n)" "z_positive_int n" "n \<le> max_date_ms"
    and rest: "Option.bind (credential_field j ''accessToken'') (\<lambda>a.
      map_option (\<lambda>r. (n, a, r)) (credential_field j ''refreshToken'')) = Some (t, access, refresh)"
    using assms by (auto simp: parse_boosty_auth_def split: option.splits json.splits if_splits)
  from rest have "t = n" "credential_field j ''accessToken'' = Some access" "credential_field j ''refreshToken'' = Some refresh"
    by (auto simp: bind_eq_Some_conv)
  with n field show ?thesis by simp
qed

lemma boosty_step_accepted: "list_all boosty_accepted (snd (boosty_step decode f e))"
proof (cases e)
  case Boosty_submitted
  show ?thesis
  proof (cases "parse_boosty_auth decode (bf_auth f)")
    case (Some r)
    then obtain t access refresh where r: "parse_boosty_auth decode (bf_auth f) = Some (t, access, refresh)"
      by (metis prod_cases3)
    from boosty_auth_parts [OF r] show ?thesis
      by (auto simp: Boosty_submitted boosty_step_def submit_boosty_def r boosty_accepted_def parse_chat_request_def
          parse_boosty_def parse_optional_def optional_holds_def)
  qed (simp add: Boosty_submitted boosty_step_def submit_boosty_def)
qed (simp_all add: boosty_step_def)

interpretation boosty_machine: request_machine "boosty_step decode" "\<lambda>_. True" "\<lambda>_. True" boosty_accepted for decode
  by unfold_locales (simp_all add: boosty_step_accepted)

text \<open>
  Whatever the user does on the page of the chat and whatever the services answer, every request it sends
  passes its input schema; the form that connects Boosty sends, for a readable \<open>auth\<close>, a request that passes
  unless the device's identifier has a blank or a special character inside.
\<close>

theorem chat_page_sends_accepted:
  assumes "list_all (chat_event_possible is_url) es"
  shows "list_all chat_request_accepted (snd (run_form chat_page_step open_chat_page es)) \<and>
    list_all boosty_accepted (snd (run_form (boosty_step decode) open_boosty_form bs))"
  using chat_form.run_good [OF open_chat_page_ok assms] boosty_machine.run_good [of bs decode open_boosty_form]
  by (simp add: list_all_iff)

theorem chat_page_sends_accepted_witness:
  "list_all chat_request_accepted (snd (run_form chat_page_step open_chat_page
     [Message_typed ''hello'', Send_pressed, Overlay_rotate_pressed]))"
  using chat_page_sends_accepted [of "\<lambda>_. True" "[Message_typed ''hello'', Send_pressed, Overlay_rotate_pressed]"
      "\<lambda>_. None" "[]"]
  by (simp add: chat_event_possible_def max_chat_message_length_def)

section \<open>The switch of a source\<close>

definition config_event :: "chat_page_event \<Rightarrow> bool" where
  "config_event e = (case e of Config_refreshed _ \<Rightarrow> True | Switch_answered _ \<Rightarrow> True | _ \<Rightarrow> False)"

lemma other_events_keep_switch:
  assumes "\<not> config_event e" and "cp_switch p = Some sx"
  shows "cp_config (fst (chat_page_step p e)) = cp_config p \<and> cp_switch (fst (chat_page_step p e)) = Some sx"
  using assms by (cases e) (auto simp: chat_steps config_event_def split: option.splits moderation_command.splits)

lemma run_keeps_switch:
  assumes "list_all (\<lambda>e. \<not> config_event e) es" and "cp_switch p = Some sx"
  shows "cp_config (fst (run_form chat_page_step p es)) = cp_config p \<and>
    cp_switch (fst (run_form chat_page_step p es)) = Some sx"
  using assms
proof (induction es arbitrary: p)
  case (Cons e es)
  obtain q sent where st: "chat_page_step p e = (q, sent)" by fastforce
  have "cp_config q = cp_config p \<and> cp_switch q = Some sx"
    using other_events_keep_switch [of e p sx] Cons.prems st by simp
  then show ?case using Cons.IH [of q] Cons.prems st by (simp add: Let_def split_beta)
qed simp


definition sample_connection :: chat_connection where
  "sample_connection =
     \<lparr>cc_id = ''c1'', cc_provider = Twitch, cc_provider_user_id = ''u'', cc_display_name = ''Anna'',
      cc_status = Chat_connected, cc_capabilities = [Read, Send_message], cc_connected_at = 0\<rparr>"

definition sample_source :: chat_source where
  "sample_source =
     \<lparr>cs_id = ''s1'', cs_connection_id = ''c1'', cs_provider = Twitch, cs_provider_source_id = ''p'',
      cs_display_name = ''Anna'', cs_url = ''u'', cs_position = 0, cs_enabled = True\<rparr>"

definition sample_chat_page :: chat_page where
  "sample_chat_page =
     open_chat_page\<lparr>cp_config := Some \<lparr>cfg_connections = [sample_connection], cfg_sources = [sample_source],
       cfg_has_overlay_token = False\<rparr>\<rparr>"


section \<open>The composer\<close>

lemma text_leaves_field:
  assumes "cp_message (fst (chat_page_step p e)) \<noteq> cp_message p" and "\<And>s. e \<noteq> Message_typed s"
  shows "\<exists>rs. e = Broadcast_answered (Some rs) \<and> list_ex (\<lambda>r. cr_status r = Succeeded) rs \<and>
    cp_sending p = Some (cp_message p) \<and> cp_message (fst (chat_page_step p e)) = []"
  using assms by (cases e) (auto simp: chat_steps split: option.splits moderation_command.splits if_splits)

lemma capability_needed:
  assumes "Moderate_mutation command \<in> set (snd (chat_page_step p e))"
  shows "\<exists>a m s c. command = action_command a m \<and> m \<in> set (sw_messages (cp_view p)) \<and>
    s \<in> set (config_sources p) \<and> cs_id s = cm_source_id m \<and> cs_enabled s \<and>
    c \<in> set (config_connections p) \<and> cc_id c = cs_connection_id s \<and> cc_status c = Chat_connected \<and>
    action_capability a \<in> set (cc_capabilities c)"
proof -
  obtain a m where e: "e = Moderation_pressed a m" and m: "m \<in> set (sw_messages (cp_view p))"
    and a: "a \<in> set (moderation_actions (capabilities_for_source p (cm_source_id m)))"
    and command: "command = action_command a m"
    using assms by (cases e) (auto simp: chat_steps split: option.splits if_splits)
  have caps: "action_capability a \<in> set (capabilities_for_source p (cm_source_id m))"
    using a by (auto simp: moderation_actions_def simp del: filter.simps)
  then obtain s c where "source_by_id p (cm_source_id m) = Some s" "connection_by_id p (cs_connection_id s) = Some c"
    "cs_enabled s" "cc_status c = Chat_connected" "action_capability a \<in> set (cc_capabilities c)"
    by (cases "source_by_id p (cm_source_id m)"; cases "connection_by_id p (cs_connection_id (the (source_by_id p (cm_source_id m))))")
       (simp_all add: capabilities_for_source_def split: if_split_asm)
  moreover from this have "s \<in> set (config_sources p)" "cs_id s = cm_source_id m"
      "c \<in> set (config_connections p)" "cc_id c = cs_connection_id s"
    using last_with_Some unfolding source_by_id_def connection_by_id_def by (blast dest: last_with_Some)+
  ultimately show ?thesis using command m by blast
qed

lemma broadcast_source:
  assumes "Broadcast_mutation text \<in> set (snd (chat_page_step p e))"
  shows "text = cp_message p \<and> js_trim text \<noteq> [] \<and> cp_sending p = None \<and> (\<exists>s \<in> set (config_sources p). source_writable p s)"
proof -
  have e: "e = Send_pressed" and d: "\<not> send_disabled p" and t: "text = cp_message p"
    using assms by (cases e; auto simp: chat_steps split: option.splits if_splits)+
  have "filter (source_writable p) (config_sources p) \<noteq> []"
    using d by (auto simp: send_disabled_def writable_connection_count_def)
  then have "\<exists>s \<in> set (config_sources p). source_writable p s" by (auto simp: filter_empty_conv)
  with d t show ?thesis by (simp add: send_disabled_def)
qed

text \<open>
  C19: The page of the chat speaks only where it may: a message is sent as it stands in the field, and only when
  a source that is on belongs to a connected account that may write; a moderation command names a message
  on show whose source is on and whose connected account has that capability.  And the field keeps its
  text until the user changes it or a source has taken exactly this text.
\<close>

theorem chat_speaks_where_it_may:
  "((\<exists>s. e = Message_typed s) \<or> cp_message (fst (chat_page_step p e)) = cp_message p \<or>
     (\<exists>rs. e = Broadcast_answered (Some rs) \<and> list_ex (\<lambda>r. cr_status r = Succeeded) rs \<and>
        cp_sending p = Some (cp_message p) \<and> cp_message (fst (chat_page_step p e)) = [])) \<and>
   list_all (\<lambda>r. case r of
       Broadcast_mutation text \<Rightarrow> text = cp_message p \<and> js_trim text \<noteq> [] \<and> cp_sending p = None \<and>
         list_ex (source_writable p) (config_sources p)
     | Moderate_mutation command \<Rightarrow>
         (\<exists>a m s c. command = action_command a m \<and> m \<in> set (sw_messages (cp_view p)) \<and>
           s \<in> set (config_sources p) \<and> cs_id s = cm_source_id m \<and> cs_enabled s \<and>
           c \<in> set (config_connections p) \<and> cc_id c = cs_connection_id s \<and> cc_status c = Chat_connected \<and>
           action_capability a \<in> set (cc_capabilities c))
     | _ \<Rightarrow> True) (snd (chat_page_step p e))"
proof (intro conjI)
  show "(\<exists>s. e = Message_typed s) \<or> cp_message (fst (chat_page_step p e)) = cp_message p \<or>
     (\<exists>rs. e = Broadcast_answered (Some rs) \<and> list_ex (\<lambda>r. cr_status r = Succeeded) rs \<and>
        cp_sending p = Some (cp_message p) \<and> cp_message (fst (chat_page_step p e)) = [])"
    using text_leaves_field [of p e] by metis
next
  show "list_all (\<lambda>r. case r of
       Broadcast_mutation text \<Rightarrow> text = cp_message p \<and> js_trim text \<noteq> [] \<and> cp_sending p = None \<and>
         list_ex (source_writable p) (config_sources p)
     | Moderate_mutation command \<Rightarrow>
         (\<exists>a m s c. command = action_command a m \<and> m \<in> set (sw_messages (cp_view p)) \<and>
           s \<in> set (config_sources p) \<and> cs_id s = cm_source_id m \<and> cs_enabled s \<and>
           c \<in> set (config_connections p) \<and> cc_id c = cs_connection_id s \<and> cc_status c = Chat_connected \<and>
           action_capability a \<in> set (cc_capabilities c))
     | _ \<Rightarrow> True) (snd (chat_page_step p e))" (is "list_all ?ok ?sent")
    unfolding list_all_iff
  proof
    fix r assume r: "r \<in> set ?sent"
    show "?ok r"
    proof (cases r)
      case (Broadcast_mutation words)
      with r show ?thesis using broadcast_source [of words p e] by (auto simp: list_ex_iff)
    next
      case (Moderate_mutation command)
      with r show ?thesis using capability_needed [of command p e] by simp
    qed simp_all
  qed
qed

end
