(* ===== verification/MultistreamPage.thy ===== *)
theory MultistreamPage
  imports RestreamRouter VideoFormProperties
begin

text \<open>
  The page of restreaming (\<open>routes/_authenticated/multistream.tsx\<close>): the ingest key, the destinations with
  their controls, the form of a destination, and what is shown of a session.  Each event of the page
  gives its new state and the requests it sends; answers and refreshed data are events as well.
\<close>

section \<open>The form of a destination\<close>

record destination_draft =
  dd_id :: "string option"
  dd_platform :: restream_platform
  dd_label :: string
  dd_server_url :: string
  dd_stream_key :: string
  dd_key_hint :: "string option"

definition empty_draft :: destination_draft where
  "empty_draft =
     \<lparr>dd_id = None, dd_platform = Youtube_platform, dd_label = [], dd_server_url = [], dd_stream_key = [],
      dd_key_hint = None\<rparr>"

definition draft_of :: "destination_view \<Rightarrow> destination_draft" where
  "draft_of d =
     \<lparr>dd_id = Some (dv_id d), dd_platform = dv_platform d, dd_label = dv_label d, dd_server_url = dv_server_url d,
      dd_stream_key = [], dd_key_hint = Some (dv_key_hint d)\<rparr>"

definition platform_help :: "restream_platform \<Rightarrow> string option" where
  "platform_help p =
     (case p of
        Youtube_platform \<Rightarrow> Some ''https://support.google.com/youtube/answer/2907883''
      | Twitch_platform \<Rightarrow> Some ''https://help.twitch.tv/s/article/twitch-stream-key-faq''
      | Kick_platform \<Rightarrow> Some ''https://help.kick.com/en/articles/7066931-how-to-stream-on-kick-com''
      | Custom_platform \<Rightarrow> None)"

datatype draft_change = Platform_chosen restream_platform | Label_typed string | Server_typed string | Key_typed string

definition change_draft :: "draft_change \<Rightarrow> destination_draft \<Rightarrow> destination_draft" where
  "change_draft ch d =
     (case ch of
        Platform_chosen p \<Rightarrow> d\<lparr>dd_platform := p\<rparr> | Label_typed s \<Rightarrow> d\<lparr>dd_label := s\<rparr>
      | Server_typed s \<Rightarrow> d\<lparr>dd_server_url := s\<rparr> | Key_typed s \<Rightarrow> d\<lparr>dd_stream_key := s\<rparr>)"

text \<open>The browser submits a form only when its required fields are filled.\<close>

definition draft_filled :: "destination_draft \<Rightarrow> bool" where
  "draft_filled d \<longleftrightarrow>
     dd_label d \<noteq> [] \<and> dd_server_url d \<noteq> [] \<and> (dd_id d = None \<longrightarrow> dd_stream_key d \<noteq> [])"

definition draft_request :: "destination_draft \<Rightarrow> restream_request" where
  "draft_request d =
     (case dd_id d of
        None \<Rightarrow> CreateDestination (dd_platform d) (dd_label d) (dd_server_url d) (dd_stream_key d)
      | Some i \<Rightarrow>
          UpdateDestination i (dd_platform d) (dd_label d) (dd_server_url d)
            (if dd_stream_key d = [] then None else Some (dd_stream_key d)))"

section \<open>The page\<close>

text \<open>
  Every opened form has a number of its own; a submission remembers the number of its form, since its answer
  comes also when that form has been closed.
\<close>

record multistream_page =
  mp_config :: restream_config
  mp_failed :: bool
  mp_shown :: nat
  mp_form :: "(nat \<times> destination_draft) option"
  mp_next_form :: nat
  mp_form_error :: bool
  mp_submissions :: "nat list"
  mp_deleting :: bool
  mp_switching :: bool
  mp_delete_error :: bool
  mp_switch_error :: bool
  mp_confirm_delete :: "string list"
  mp_button :: nat
  mp_rotating :: bool
  mp_confirm_rotation :: bool
  mp_rotation_error :: bool

definition open_multistream :: "restream_config \<Rightarrow> multistream_page" where
  "open_multistream c =
     \<lparr>mp_config = c, mp_failed = False, mp_shown = 0, mp_form = None, mp_next_form = 0, mp_form_error = False, mp_submissions = [],
      mp_deleting = False, mp_switching = False, mp_delete_error = False,
      mp_switch_error = False, mp_confirm_delete = [], mp_button = 0, mp_rotating = False,
      mp_confirm_rotation = False, mp_rotation_error = False\<rparr>"

definition is_live :: "multistream_page \<Rightarrow> bool" where
  "is_live p \<longleftrightarrow> rc_session (mp_config p) \<noteq> None"

definition enabled_count :: "restream_config \<Rightarrow> nat" where
  "enabled_count c = length (filter dv_enabled (rc_destinations c))"

definition limit_reached :: "multistream_page \<Rightarrow> bool" where
  "limit_reached p \<longleftrightarrow> length (rc_destinations (mp_config p)) \<ge> max_restream_destinations"

definition mutation_busy :: "multistream_page \<Rightarrow> bool" where
  "mutation_busy p \<longleftrightarrow> mp_deleting p \<or> mp_switching p"

definition listed :: "multistream_page \<Rightarrow> string \<Rightarrow> bool" where
  "listed p i \<longleftrightarrow> i \<in> set (map dv_id (rc_destinations (mp_config p)))"

text \<open>
  Which button of the key is shown: none while a stream runs, the one to generate or the one to replace a key.
  A row that is no longer listed and a button that is no longer shown forget their state; the next button has
  the next number, and the answer to a button that is gone changes nothing.  When the query fails, the whole
  content gives way to the error and starts afresh afterwards.
\<close>

datatype ingest_key_action = No_button | Generate_button | Rotate_button

definition key_action :: "restream_config \<Rightarrow> ingest_key_action" where
  "key_action c =
     (if rc_session c \<noteq> None then No_button else if rc_ingest c = None then Generate_button else Rotate_button)"

definition button_shown :: "restream_config \<Rightarrow> multistream_page \<Rightarrow> multistream_page" where
  "button_shown c p =
     (if key_action c = key_action (mp_config p) then p
      else p\<lparr>mp_button := mp_button p + 1, mp_rotating := False, mp_confirm_rotation := False,
             mp_rotation_error := False\<rparr>)"

definition content_closed :: "multistream_page \<Rightarrow> multistream_page" where
  "content_closed p =
     (open_multistream (mp_config p))
       \<lparr>mp_failed := True, mp_shown := mp_shown p + 1, mp_next_form := mp_next_form p, mp_button := mp_button p + 1\<rparr>"

definition config_refreshed :: "restream_config option \<Rightarrow> multistream_page \<Rightarrow> multistream_page" where
  "config_refreshed reply p =
     (case reply of
        None \<Rightarrow> content_closed p
      | Some c \<Rightarrow>
          (button_shown c p)\<lparr>mp_config := c, mp_failed := False,
            mp_confirm_delete := filter (\<lambda>i. i \<in> set (map dv_id (rc_destinations c))) (mp_confirm_delete p)\<rparr>)"

definition open_form :: "destination_draft \<Rightarrow> multistream_page \<Rightarrow> multistream_page" where
  "open_form d p =
     p\<lparr>mp_form := Some (mp_next_form p, d), mp_next_form := mp_next_form p + 1, mp_form_error := False\<rparr>"

definition add_pressed :: "multistream_page \<Rightarrow> multistream_page" where
  "add_pressed p = (if limit_reached p \<or> is_live p \<or> mp_form p \<noteq> None then p else open_form empty_draft p)"

definition edit_pressed :: "destination_view \<Rightarrow> multistream_page \<Rightarrow> multistream_page" where
  "edit_pressed d p = (if mutation_busy p \<or> is_live p \<or> mp_form p \<noteq> None then p else open_form (draft_of d) p)"

definition draft_changed :: "draft_change \<Rightarrow> multistream_page \<Rightarrow> multistream_page" where
  "draft_changed ch p = p\<lparr>mp_form := map_option (\<lambda>(n, d). (n, change_draft ch d)) (mp_form p)\<rparr>"

definition submit_form :: "multistream_page \<Rightarrow> multistream_page \<times> restream_request list" where
  "submit_form p =
     (case mp_form p of
        None \<Rightarrow> (p, [])
      | Some (n, d) \<Rightarrow>
          (if n \<in> set (mp_submissions p) \<or> \<not> draft_filled d then (p, [])
           else (p\<lparr>mp_submissions := mp_submissions p @ [n], mp_form_error := False\<rparr>, [draft_request d])))"

text \<open>\<open>onClose\<close> of a form closes whatever form is open.\<close>

definition form_answered :: "nat \<Rightarrow> bool \<Rightarrow> multistream_page \<Rightarrow> multistream_page" where
  "form_answered n success p =
     (let q = p\<lparr>mp_submissions := filter (\<lambda>m. m \<noteq> n) (mp_submissions p)\<rparr> in
      if success then q\<lparr>mp_form := None\<rparr>
      else if map_option fst (mp_form p) = Some n then q\<lparr>mp_form_error := True\<rparr> else q)"

definition toggle_pressed :: "string \<Rightarrow> bool \<Rightarrow> multistream_page \<Rightarrow> multistream_page \<times> restream_request list" where
  "toggle_pressed i b p =
     (if mutation_busy p \<or> is_live p \<or> \<not> listed p i then (p, [])
      else (p\<lparr>mp_switching := True, mp_switch_error := False\<rparr>, [SetDestinationEnabled i b]))"

definition delete_pressed :: "string \<Rightarrow> multistream_page \<Rightarrow> multistream_page \<times> restream_request list" where
  "delete_pressed i p =
     (if mutation_busy p \<or> is_live p \<or> \<not> listed p i then (p, [])
      else if i \<notin> set (mp_confirm_delete p) then (p\<lparr>mp_confirm_delete := mp_confirm_delete p @ [i]\<rparr>, [])
      else (p\<lparr>mp_deleting := True, mp_delete_error := False\<rparr>, [DeleteDestination i]))"

definition rotate_key_pressed :: "multistream_page \<Rightarrow> multistream_page \<times> restream_request list" where
  "rotate_key_pressed p =
     (if is_live p \<or> mp_rotating p then (p, [])
      else if rc_ingest (mp_config p) \<noteq> None \<and> \<not> mp_confirm_rotation p then (p\<lparr>mp_confirm_rotation := True\<rparr>, [])
      else (p\<lparr>mp_rotating := True, mp_rotation_error := False\<rparr>, [RotateIngestKey]))"

definition rotation_answered :: "nat \<Rightarrow> bool \<Rightarrow> multistream_page \<Rightarrow> multistream_page" where
  "rotation_answered n success p =
     (if n \<noteq> mp_button p then p
      else if success then p\<lparr>mp_rotating := False, mp_confirm_rotation := False\<rparr>
      else p\<lparr>mp_rotating := False, mp_rotation_error := True\<rparr>)"

datatype multistream_event =
    Restream_refreshed "restream_config option"
  | Add_pressed
  | Edit_pressed destination_view
  | Draft_changed draft_change
  | Form_submitted
  | Form_answered nat bool
  | Form_cancelled
  | Toggle_pressed string bool
  | Toggle_answered nat bool
  | Delete_pressed string
  | Delete_answered nat bool
  | Rotation_pressed
  | Rotation_answered nat bool

fun content_step :: "multistream_page \<Rightarrow> multistream_event \<Rightarrow> multistream_page \<times> restream_request list" where
  "content_step p (Restream_refreshed c) = (config_refreshed c p, [])"
| "content_step p Add_pressed = (add_pressed p, [])"
| "content_step p (Edit_pressed d) = (if d \<in> set (rc_destinations (mp_config p)) then edit_pressed d p else p, [])"
| "content_step p (Draft_changed ch) = (draft_changed ch p, [])"
| "content_step p Form_submitted = submit_form p"
| "content_step p (Form_answered n success) = (if n \<in> set (mp_submissions p) then form_answered n success p else p, [])"
| "content_step p Form_cancelled = (p\<lparr>mp_form := None\<rparr>, [])"
| "content_step p (Toggle_pressed i b) = toggle_pressed i b p"
| "content_step p (Toggle_answered n success) =
     (if n = mp_shown p then p\<lparr>mp_switching := False, mp_switch_error := \<not> success\<rparr> else p, [])"
| "content_step p (Delete_pressed i) = delete_pressed i p"
| "content_step p (Delete_answered n success) =
     (if n = mp_shown p then p\<lparr>mp_deleting := False, mp_delete_error := \<not> success\<rparr> else p, [])"
| "content_step p Rotation_pressed = rotate_key_pressed p"
| "content_step p (Rotation_answered n success) = (rotation_answered n success p, [])"

text \<open>While the error is shown there is nothing to press; only the query goes on.\<close>

definition multistream_step :: "multistream_page \<Rightarrow> multistream_event \<Rightarrow> multistream_page \<times> restream_request list" where
  "multistream_step p e =
     (if mp_failed p \<and> (case e of Restream_refreshed c \<Rightarrow> False | _ \<Rightarrow> True) then (p, []) else content_step p e)"

section \<open>What the page shows\<close>

datatype shown_destination = Shown_disabled | Shown_state destination_state

definition get_destination_state :: "destination_view \<Rightarrow> session_state option \<Rightarrow> shown_destination" where
  "get_destination_state d live =
     (if \<not> dv_enabled d then Shown_disabled
      else Shown_state (case live of Some s \<Rightarrow> ss_state s | None \<Rightarrow> Idle))"

definition live_state :: "restream_config \<Rightarrow> destination_view \<Rightarrow> session_state option" where
  "live_state c d = find (\<lambda>s. ss_id s = dv_id d) (case rc_session c of None \<Rightarrow> [] | Some s \<Rightarrow> sv_destinations s)"

definition rail_text :: "restream_config \<Rightarrow> string" where
  "rail_text c =
     (case rc_session c of
        None \<Rightarrow> ''ready''
      | Some s \<Rightarrow> (case sv_status s of Live \<Rightarrow> ''live'' | Connecting \<Rightarrow> ''connecting'' | Session_ended \<Rightarrow> ''ready''))"

text \<open>
  \<open>formatBytes\<close>: \<open>floor_log\<close> stands for \<open>Math.floor(Math.log(n) / Math.log(1024))\<close> in floating-point numbers,
  \<open>shown_quotient\<close> for the formatted quotient.
\<close>

definition format_bytes :: "(int \<Rightarrow> int) \<Rightarrow> (int \<Rightarrow> int \<Rightarrow> string) \<Rightarrow> int \<Rightarrow> string" where
  "format_bytes floor_log shown_quotient n =
     (if n < 1024 then dec_nat (nat n) @ '' B''
      else let unit_index = min (floor_log n - 1) 3
           in shown_quotient n (1024 ^ nat (unit_index + 1)) @ '' '' @ [''KB'', ''MB'', ''GB'', ''TB''] ! nat unit_index)"

record ingest_field =
  if_visible :: bool
  if_copied :: bool
  if_copy_failed :: bool

definition ingest_copied :: "bool \<Rightarrow> ingest_field \<Rightarrow> ingest_field" where
  "ingest_copied written f = f\<lparr>if_copied := written, if_copy_failed := \<not> written\<rparr>"

definition ingest_input_type :: "bool \<Rightarrow> ingest_field \<Rightarrow> string" where
  "ingest_input_type secret f = (if secret \<and> \<not> if_visible f then ''password'' else ''text'')"

end
