(* ===== verification/MultistreamPageProperties.thy ===== *)
theory MultistreamPageProperties
  imports MultistreamPage
begin

text \<open>
  What the page of restreaming keeps to: it asks before it deletes or replaces, touches nothing while a
  stream runs, and an editor saved as it was opened sends what is stored.
\<close>

definition restream_config_ok :: "restream_config \<Rightarrow> bool" where
  "restream_config_ok c \<longleftrightarrow> parse_config c = Some c"

definition multistream_ok :: "multistream_page \<Rightarrow> bool" where
  "multistream_ok p \<longleftrightarrow> restream_config_ok (mp_config p)"

definition multistream_possible :: "multistream_event \<Rightarrow> bool" where
  "multistream_possible e = (case e of Restream_refreshed (Some c) \<Rightarrow> restream_config_ok c | _ \<Rightarrow> True)"

text \<open>The requests of the controls are accepted; those of the form are what was typed.\<close>

definition control_accepted :: "restream_request \<Rightarrow> bool" where
  "control_accepted r =
     (case r of CreateDestination _ _ _ _ \<Rightarrow> True | UpdateDestination _ _ _ _ _ \<Rightarrow> True
      | _ \<Rightarrow> parse_restream_request r \<noteq> None)"

lemma those_result: "those (map f xs) = Some ys \<Longrightarrow> x \<in> set xs \<Longrightarrow> f x \<noteq> None"
  by (induction xs arbitrary: ys) (auto split: option.splits)

lemma listed_parsed:
  assumes "restream_config_ok c" and "d \<in> set (rc_destinations c)" shows "parse_destination d \<noteq> None"
proof -
  obtain ds where "those (map parse_destination (rc_destinations c)) = Some ds"
    using assms(1) by (auto simp: restream_config_ok_def parse_config_def bind_eq_Some_conv split: if_split_asm)
  then show ?thesis using assms(2) by (rule those_result)
qed

lemma listed_uuid:
  assumes "multistream_ok p" and "listed p i" shows "valid_uuid i"
proof -
  obtain d where "d \<in> set (rc_destinations (mp_config p))" "i = dv_id d" using assms(2) by (auto simp: listed_def)
  then show ?thesis
    using listed_parsed [of "mp_config p" d] assms(1)
    by (auto simp: multistream_ok_def parse_destination_def split: if_split_asm)
qed

lemmas multistream_steps =
  multistream_step_def config_refreshed_def content_closed_def open_multistream_def button_shown_def open_form_def add_pressed_def edit_pressed_def draft_changed_def submit_form_def
  form_answered_def toggle_pressed_def delete_pressed_def rotate_key_pressed_def rotation_answered_def Let_def

lemma multistream_step_ok:
  "multistream_ok p \<Longrightarrow> multistream_possible e \<Longrightarrow> multistream_ok (fst (multistream_step p e))"
  by (cases e) (auto simp: multistream_steps multistream_ok_def multistream_possible_def split: option.splits)

lemma multistream_step_accepted:
  assumes "multistream_ok p"
  shows "list_all control_accepted (snd (multistream_step p e))"
  using listed_uuid [OF assms]
  by (cases e) (auto simp: multistream_steps control_accepted_def draft_request_def parse_restream_request_def
      split: option.splits)

interpretation multistream_form: request_machine multistream_step multistream_possible multistream_ok control_accepted
  by unfold_locales (simp_all add: multistream_step_ok multistream_step_accepted)

section \<open>Asking first\<close>

text \<open>What a request of the page needs to have been confirmed.\<close>

definition confirmed :: "multistream_page \<Rightarrow> restream_request \<Rightarrow> bool" where
  "confirmed p r =
     (case r of
        DeleteDestination i \<Rightarrow> i \<in> set (mp_confirm_delete p) \<and> listed p i \<and> \<not> is_live p
      | RotateIngestKey \<Rightarrow> (rc_ingest (mp_config p) = None \<or> mp_confirm_rotation p) \<and> \<not> is_live p
      | SetDestinationEnabled i _ \<Rightarrow> listed p i \<and> \<not> is_live p
      | _ \<Rightarrow> \<exists>n d. mp_form p = Some (n, d) \<and> r = draft_request d \<and> draft_filled d)"

lemma step_confirmed: "list_all (confirmed p) (snd (multistream_step p e))"
  by (cases e; cases "rc_ingest (mp_config p)")
    (auto simp: multistream_steps confirmed_def draft_request_def split: option.splits)

text \<open>A destination or the key is marked for confirmation only by a press of its own button.\<close>

lemma confirmation_given:
  "i \<in> set (mp_confirm_delete (fst (multistream_step p e))) \<Longrightarrow>
    i \<in> set (mp_confirm_delete p) \<or> e = Delete_pressed i"
  "mp_confirm_rotation (fst (multistream_step p e)) \<Longrightarrow> mp_confirm_rotation p \<or> e = Rotation_pressed"
  by (cases e; auto simp: multistream_steps split: option.splits if_splits)+

lemma press_before_confirmation:
  assumes "i \<in> set (mp_confirm_delete (fst (run_form multistream_step p es)))" and "i \<notin> set (mp_confirm_delete p)"
  shows "Delete_pressed i \<in> set es"
  using assms
proof (induction es arbitrary: p)
  case (Cons e es)
  obtain q sent where st: "multistream_step p e = (q, sent)" by fastforce
  then have "i \<in> set (mp_confirm_delete (fst (run_form multistream_step q es)))"
    using Cons.prems(1) by (simp add: Let_def split_beta)
  then show ?case
    using Cons.IH [of q] confirmation_given(1) [of i p e] Cons.prems(2) st by auto
qed simp

lemma press_before_rotation:
  assumes "mp_confirm_rotation (fst (run_form multistream_step p es))" and "\<not> mp_confirm_rotation p"
  shows "Rotation_pressed \<in> set es"
  using assms
proof (induction es arbitrary: p)
  case (Cons e es)
  obtain q sent where st: "multistream_step p e = (q, sent)" by fastforce
  then have "mp_confirm_rotation (fst (run_form multistream_step q es))"
    using Cons.prems(1) by (simp add: Let_def split_beta)
  then show ?case
    using Cons.IH [of q] confirmation_given(2) [of p e] Cons.prems(2) st by auto
qed simp

text \<open>
  C20: The page of restreaming asks first: after any events since it was opened, a request to delete a
  destination goes out only for a listed one whose button was pressed before, one to replace an existing
  key only when its button was pressed before, both and the switches only while no stream runs, and
  the identifiers are accepted by the server; the form sends exactly what stands in it.
\<close>

theorem multistream_asks_first:
  assumes "restream_config_ok c" and "list_all multistream_possible es"
    and p: "p = fst (run_form multistream_step (open_multistream c) es)"
  shows "list_all (\<lambda>r. control_accepted r \<and>
    (case r of
       DeleteDestination i \<Rightarrow> Delete_pressed i \<in> set es \<and> listed p i \<and> \<not> is_live p
     | RotateIngestKey \<Rightarrow> (rc_ingest (mp_config p) = None \<or> Rotation_pressed \<in> set es) \<and> \<not> is_live p
     | SetDestinationEnabled i _ \<Rightarrow> listed p i \<and> \<not> is_live p
     | _ \<Rightarrow> \<exists>n d. mp_form p = Some (n, d) \<and> r = draft_request d \<and> draft_filled d)) (snd (multistream_step p e))"
proof -
  have "multistream_ok (open_multistream c)" using assms(1) by (simp add: multistream_ok_def open_multistream_def)
  then have "multistream_ok p" using multistream_form.run_invar assms(2) p by blast
  then have accepted: "list_all control_accepted (snd (multistream_step p e))" by (rule multistream_step_accepted)
  have "i \<in> set (mp_confirm_delete p) \<Longrightarrow> Delete_pressed i \<in> set es" for i
    using press_before_confirmation [of i "open_multistream c" es] p by (simp add: open_multistream_def)
  moreover have "mp_confirm_rotation p \<Longrightarrow> Rotation_pressed \<in> set es"
    using press_before_rotation [of "open_multistream c" es] p by (simp add: open_multistream_def)
  ultimately have "confirmed p r \<Longrightarrow> (case r of
       DeleteDestination i \<Rightarrow> Delete_pressed i \<in> set es \<and> listed p i \<and> \<not> is_live p
     | RotateIngestKey \<Rightarrow> (rc_ingest (mp_config p) = None \<or> Rotation_pressed \<in> set es) \<and> \<not> is_live p
     | SetDestinationEnabled i _ \<Rightarrow> listed p i \<and> \<not> is_live p
     | _ \<Rightarrow> \<exists>n d. mp_form p = Some (n, d) \<and> r = draft_request d \<and> draft_filled d)" for r
    by (cases r) (auto simp: confirmed_def)
  then show ?thesis using accepted step_confirmed [of p e] unfolding list_all_iff by blast
qed

definition listed_destination :: destination_view where
  "listed_destination =
     \<lparr>dv_id = ''11111111-1111-4111-8111-111111111111'', dv_platform = Twitch_platform, dv_label = ''Main'',
      dv_server_url = ''rtmp://live.twitch.tv/app'', dv_key_hint = ''abcd'', dv_enabled = True, dv_position = 0\<rparr>"

definition sample_restream_config :: restream_config where
  "sample_restream_config = \<lparr>rc_ingest = None, rc_destinations = [listed_destination], rc_session = None\<rparr>"

lemma sample_restream_config_ok: "restream_config_ok sample_restream_config"
  by (simp add: restream_config_ok_def sample_restream_config_def parse_config_def parse_destination_def
      listed_destination_def max_restream_destinations_def optional_holds_def z_nonnegative_int_def z_int_def
      max_safe_integer_def valid_uuid_def is_hex_def is_digit_def code_def valid_server_url_def rtmp_rest_def
      strip_prefix_def plain_char_def is_space_def parse_label_def js_trim_def)

theorem multistream_asks_first_witness:
  "snd (multistream_step
      (fst (run_form multistream_step (open_multistream sample_restream_config) [Delete_pressed (dv_id listed_destination)]))
      (Delete_pressed (dv_id listed_destination))) = [DeleteDestination (dv_id listed_destination)] \<and>
   control_accepted (DeleteDestination (dv_id listed_destination))"
proof -
  have "list_all multistream_possible [Delete_pressed (dv_id listed_destination)]"
    by (simp add: multistream_possible_def)
  note multistream_asks_first [OF sample_restream_config_ok this refl, of "Delete_pressed (dv_id listed_destination)"]
  moreover have "snd (multistream_step
      (fst (run_form multistream_step (open_multistream sample_restream_config) [Delete_pressed (dv_id listed_destination)]))
      (Delete_pressed (dv_id listed_destination))) = [DeleteDestination (dv_id listed_destination)]"
    by (simp add: multistream_step_def delete_pressed_def is_live_def listed_def mutation_busy_def open_multistream_def
        sample_restream_config_def)
  ultimately show ?thesis by (simp only: list.pred_inject)
qed

section \<open>The form\<close>

lemma unchanged_destination:
  assumes "restream_config_ok (mp_config p)" and "d \<in> set (rc_destinations (mp_config p))"
    and "\<not> mutation_busy p" and "\<not> mp_failed p" and "\<not> is_live p" and "mp_form p = None" and "mp_next_form p \<notin> set (mp_submissions p)"
  shows "snd (run_form multistream_step p [Edit_pressed d, Form_submitted]) =
    [UpdateDestination (dv_id d) (dv_platform d) (dv_label d) (dv_server_url d) None]"
proof -
  have parsed: "parse_destination d \<noteq> None" using assms(1,2) by (rule listed_parsed)
  have "parse_label [] = None" by (simp add: parse_label_def js_trim_def)
  then have "dv_label d \<noteq> []" using parsed by (auto simp: parse_destination_def split: if_split_asm)
  moreover have "valid_server_url (dv_server_url d)" using parsed by (auto simp: parse_destination_def split: if_split_asm)
  then have "dv_server_url d \<noteq> []" by (auto simp: valid_server_url_def)
  ultimately show ?thesis using assms(2-7)
    by (simp add: multistream_step_def edit_pressed_def open_form_def submit_form_def draft_filled_def draft_of_def draft_request_def)
qed

text \<open>
  The answer of a form that was cancelled while it was being saved closes the form that has been opened
  since, and what was typed there is lost.
\<close>

lemma late_answer_closes_other_form:
  assumes "mp_form p = Some (n, d)" and "draft_filled d" and "n \<notin> set (mp_submissions p)" and "\<not> limit_reached p"
    and "\<not> is_live p" and "\<not> mp_failed p"
  shows "mp_form (fst (run_form multistream_step p [Form_submitted, Form_cancelled, Add_pressed, Draft_changed ch])) =
      Some (mp_next_form p, change_draft ch empty_draft) \<and>
    mp_form (fst (run_form multistream_step p
      [Form_submitted, Form_cancelled, Add_pressed, Draft_changed ch, Form_answered n True])) = None"
  using assms
  by (simp add: multistream_step_def submit_form_def add_pressed_def limit_reached_def is_live_def open_form_def draft_changed_def
      form_answered_def Let_def)

end
