(* ===== verification/AdminPage.thy ===== *)
theory AdminPage
  imports AdminDashboard
begin

text \<open>
  The pages of the administrators (\<open>routes/_authenticated/_admin.tsx\<close>, \<open>admin/index.tsx\<close>, \<open>admin/dlq.tsx\<close>): who may
  open them, what is shown of a dashboard, the signals that need attention, and the pages of dead letters.
  Fractions are pairs of a value and its positive whole, compared exactly; the code divides in floating-point
  numbers, which agree for wholes below ten to the fifteenth.  The load average is kept in hundredths.
  \<open>Intl\<close> and the words around the numbers are left out: what is shown is the numbers.
\<close>

section \<open>The gate\<close>

datatype ('r) gate = Redirected string | Opened 'r

definition admin_before_load :: "bool option \<Rightarrow> unit gate" where
  "admin_before_load viewer_is_admin = (if viewer_is_admin = Some True then Opened () else Redirected ''/'')"

section \<open>What a query shows\<close>

datatype 'a shown_section = Shown_skeleton | Shown_error | Shown_data 'a | Shown_nothing

definition shown_query :: "bool \<Rightarrow> bool \<Rightarrow> 'a option \<Rightarrow> 'a shown_section" where
  "shown_query loading failed data =
     (if loading then Shown_skeleton else if failed then Shown_error
      else case data of Some d \<Rightarrow> Shown_data d | None \<Rightarrow> Shown_nothing)"

section \<open>Signals that need attention\<close>

definition at_least :: "int \<Rightarrow> int \<times> int \<Rightarrow> bool" where
  "at_least percent share \<longleftrightarrow> percent * snd share \<le> 100 * fst share"

definition load_share :: "system_metrics \<Rightarrow> int \<times> int" where
  "load_share s = (fst (sm_load_average s), 100 * sm_cpu_count s)"

definition capacity_share :: "capacity \<Rightarrow> int \<times> int" where
  "capacity_share c = (cap_used c, cap_total c)"

definition system_shares :: "admin_dashboard \<Rightarrow> (int \<times> int) list" where
  "system_shares d =
     [load_share (ad_system d), capacity_share (sm_memory (ad_system d))] @
     (case sm_disk (ad_system d) of None \<Rightarrow> [] | Some c \<Rightarrow> [capacity_share c]) @
     [(ds_connections (dm_summary (ad_database d)), ds_max_connections (dm_summary (ad_database d)))]"

definition attention_count :: "admin_dashboard \<Rightarrow> nat" where
  "attention_count d =
     length (filter (\<lambda>s. \<not> ss_healthy s) (ad_services d)) +
     length (filter (at_least 90) (system_shares d)) +
     of_bool (sm_disk (ad_system d) = None) +
     of_bool (qs_retried (dm_donation_scans (ad_database d)) > 0) +
     of_bool (qs_retried (dm_video_metadata (ad_database d)) > 0) +
     of_bool (dm_alerts_interrupted_day (ad_database d) > 0) +
     of_bool (case ad_dead_letters d of None \<Rightarrow> True | Some n \<Rightarrow> n > 0)"

datatype attention_badge = No_badge | No_operational_issues | Signals_need_attention nat

definition header_badge :: "admin_dashboard option \<Rightarrow> attention_badge" where
  "header_badge data =
     (case data of
        None \<Rightarrow> No_badge
      | Some d \<Rightarrow> if attention_count d = 0 then No_operational_issues else Signals_need_attention (attention_count d))"

section \<open>Resources\<close>

datatype tone = Tone_unknown | Tone_error | Tone_warning | Tone_normal

definition resource_tone :: "(int \<times> int) option \<Rightarrow> tone" where
  "resource_tone share =
     (case share of
        None \<Rightarrow> Tone_unknown
      | Some s \<Rightarrow> if at_least 90 s then Tone_error else if at_least 70 s then Tone_warning else Tone_normal)"

text \<open>\<open>Math.round\<close> of the width in percent; a half is rounded up.\<close>

definition progress_value :: "int \<times> int \<Rightarrow> int" where
  "progress_value share =
     (let (v, t) = share in if t \<le> v then 100 else if v \<le> 0 then 0 else (200 * v + t) div (2 * t))"

record resource_row =
  rr_share :: "(int \<times> int) option"
  rr_tone :: tone
  rr_bar :: "int option"

definition resource_row_of :: "(int \<times> int) option \<Rightarrow> resource_row" where
  "resource_row_of share = \<lparr>rr_share = share, rr_tone = resource_tone share, rr_bar = map_option progress_value share\<rparr>"

definition resource_rows :: "admin_dashboard \<Rightarrow> resource_row list" where
  "resource_rows d =
     map resource_row_of
       [Some (load_share (ad_system d)), Some (capacity_share (sm_memory (ad_system d))),
        map_option capacity_share (sm_disk (ad_system d))]"

section \<open>Activity\<close>

record shown_activity =
  sa_multichat :: "int option list"
  sa_overlay :: "int option list"
  sa_total :: "int option list"
  sa_donations :: "int option list"

definition activity_cells :: "activity_period option \<Rightarrow> int option list" where
  "activity_cells period =
     (case period of
        None \<Rightarrow> [None, None, None, None]
      | Some a \<Rightarrow> [Some (ap_now a), Some (ap_day a), Some (ap_week a), Some (ap_month a)])"

definition activity_table :: "admin_dashboard \<Rightarrow> shown_activity" where
  "activity_table d =
     (let a = ad_activity d; donors = ds_donation_active (dm_summary (ad_database d)) in
      \<lparr>sa_multichat = activity_cells (map_option as_multichat a), sa_overlay = activity_cells (map_option as_overlay a),
       sa_total = activity_cells (map_option as_total a),
       sa_donations = None # map Some (counts_of donors)\<rparr>)"

datatype tracking_state = Telemetry_unavailable | Tracking_partial timestamp | Tracking_complete

definition tracking_notice :: "admin_dashboard \<Rightarrow> tracking_state" where
  "tracking_notice d =
     (case ad_activity d of
        None \<Rightarrow> Telemetry_unavailable
      | Some a \<Rightarrow>
          if ad_captured_at d - as_tracking_since a < 30 * 86400000 then Tracking_partial (as_tracking_since a)
          else Tracking_complete)"

section \<open>Usage\<close>

definition usage_share :: "int \<Rightarrow> int \<Rightarrow> int \<times> int" where
  "usage_share v whole = (if whole = 0 then (0, 1) else (v, whole))"

definition adoption :: "admin_dashboard \<Rightarrow> (int \<times> (int \<times> int) option) list" where
  "adoption d =
     (let s = dm_summary (ad_database d) in
      [(ds_total_users s, None),
       (ds_multichat_users s, Some (usage_share (ds_multichat_users s) (ds_total_users s))),
       (ds_overlays s, Some (usage_share (ds_overlays s) (ds_total_users s)))])"

definition period_rows :: "admin_dashboard \<Rightarrow> int list list" where
  "period_rows d =
     (let s = dm_summary (ad_database d) in
      map counts_of [ds_registered s, ds_multichat_configured s, ds_donation_count s])"

definition provider_row :: "provider_summary \<Rightarrow> int \<times> int option" where
  "provider_row p = (pv_users p, if pv_connections p \<noteq> pv_users p then Some (pv_connections p) else None)"

section \<open>Durations\<close>

datatype shown_duration = Days_hours int int | Hours_minutes int int | Minutes int

definition format_duration :: "int \<Rightarrow> shown_duration" where
  "format_duration seconds =
     (let days = seconds div 86400; hours = (seconds mod 86400) div 3600; minutes = (seconds mod 3600) div 60 in
      if days > 0 then Days_hours days hours else if hours > 0 then Hours_minutes hours minutes else Minutes minutes)"

text \<open>
  \<open>formatBytes\<close>: \<open>floor_log\<close> stands for \<open>Math.floor(Math.log(n) / Math.log(1024))\<close> in floating-point numbers; shown are
  the bytes, the power of 1024 they are divided by, and the number of the unit.
\<close>

definition shown_bytes :: "(int \<Rightarrow> int) \<Rightarrow> int \<Rightarrow> int \<times> int \<times> nat" where
  "shown_bytes floor_log bytes =
     (let unit_index = nat (min (floor_log (max bytes 1)) 4) in (bytes, 1024 ^ unit_index, unit_index))"

section \<open>Queues\<close>

datatype detail_item = Pending_count int | Retried_count int | Oldest shown_duration

definition queue_detail :: "int \<Rightarrow> int \<Rightarrow> int option \<Rightarrow> detail_item list option" where
  "queue_detail pending retried oldest_seconds =
     (if pending = 0 then None
      else Some ([Pending_count pending] @ (if retried > 0 then [Retried_count retried] else []) @
                 (case oldest_seconds of None \<Rightarrow> [] | Some s \<Rightarrow> [Oldest (format_duration s)])))"

record processing_row =
  qr_attention :: bool
  qr_details :: "detail_item list option"
  qr_value :: int

text \<open>The ages of the queues are kept in thousandths of a second.\<close>

definition processing_row_of :: "queue_summary \<Rightarrow> processing_row" where
  "processing_row_of q =
     \<lparr>qr_attention = qs_retried q > 0,
      qr_details = queue_detail (qs_pending q) (qs_retried q) (map_option (\<lambda>ms. ms div 1000) (qs_oldest q)),
      qr_value = qs_pending q\<rparr>"

text \<open>The row of the alerts: its attention, and the counts in progress and interrupted within a day.\<close>

definition alert_row :: "admin_dashboard \<Rightarrow> bool \<times> int \<times> int" where
  "alert_row d =
     (dm_alerts_interrupted_day (ad_database d) > 0, dm_alerts_in_progress (ad_database d),
      dm_alerts_interrupted_day (ad_database d))"

definition dead_letter_row :: "admin_dashboard \<Rightarrow> bool \<times> int option" where
  "dead_letter_row d = ((case ad_dead_letters d of None \<Rightarrow> False | Some n \<Rightarrow> n > 0), ad_dead_letters d)"

section \<open>Pages of dead letters\<close>

text \<open>\<open>validateSearch\<close>: what is not the number of a message is dropped.\<close>

definition dead_letter_search :: "string option \<Rightarrow> string option" where
  "dead_letter_search before = (case before of None \<Rightarrow> None | Some s \<Rightarrow> if valid_sequence s then Some s else None)"

definition dead_letter_query :: "string option \<Rightarrow> chat_api_request" where
  "dead_letter_query before = Dead_letters_query (dead_letter_search before)"

text \<open>The links under the list: to the newest page, and to the older one.\<close>

record dead_letter_links =
  dk_newest :: bool
  dk_older :: "string option"

definition dead_letter_links_of :: "string option \<Rightarrow> dead_letter_page option \<Rightarrow> dead_letter_links option" where
  "dead_letter_links_of before data =
     (case data of
        None \<Rightarrow> None
      | Some p \<Rightarrow>
          if dp_items p = [] then None
          else Some \<lparr>dk_newest = dead_letter_search before \<noteq> None, dk_older = dp_next_before_sequence p\<rparr>)"

text \<open>The pages a visitor sees who follows the links to older ones from an address, at most \<open>n\<close> of them.\<close>

fun older_pages :: "(string option \<Rightarrow> dead_letter_page) \<Rightarrow> nat \<Rightarrow> string option \<Rightarrow> dead_letter list list" where
  "older_pages answer_of 0 before = []"
| "older_pages answer_of (Suc n) before =
     (let p = answer_of (dead_letter_search before) in
      dp_items p # (case Option.bind (dead_letter_links_of before (Some p)) dk_older of
                      None \<Rightarrow> []
                    | Some s \<Rightarrow> older_pages answer_of n (Some s)))"

end
