(* ===== verification/AdminPageProperties.thy ===== *)
theory AdminPageProperties
  imports AdminPage AdminProperties
begin

text \<open>
  What the pages of the administrators show: every failed service and every waiting dead letter is a signal,
  durations are exact to their unit, and the links to older dead letters lead through all of them.
\<close>

section \<open>The gate\<close>

lemma gate_is_for_administrators: "admin_before_load v = Opened () \<longleftrightarrow> v = Some True"
  by (simp add: admin_before_load_def)

section \<open>Signals\<close>

lemma no_issues_iff:
  "header_badge (Some d) = No_operational_issues \<longleftrightarrow>
    list_all ss_healthy (ad_services d) \<and> \<not> list_ex (at_least 90) (system_shares d) \<and>
    sm_disk (ad_system d) \<noteq> None \<and> qs_retried (dm_donation_scans (ad_database d)) \<le> 0 \<and>
    qs_retried (dm_video_metadata (ad_database d)) \<le> 0 \<and> dm_alerts_interrupted_day (ad_database d) \<le> 0 \<and>
    (\<exists>n. ad_dead_letters d = Some n \<and> n \<le> 0)"
  by (auto simp: header_badge_def attention_count_def filter_empty_conv list_all_iff list_ex_iff not_less
      split: option.splits)

text \<open>A failed call of a service is counted, whichever it was.\<close>

lemma failed_service_shown:
  assumes "fst (get_admin_dashboard env net now taken m tables outbox) = Inr d"
    and "isl (operation_answer (an_chat env) oper (net (operation_request (an_chat env) oper)))"
    and "oper \<in> {Health, Admin_activity, Dead_letters None 1}"
  shows "header_badge (Some d) \<noteq> No_operational_issues"
proof -
  have "\<not> list_all ss_healthy (ad_services d) \<or> ad_dead_letters d = None"
    using assms by (auto simp: get_admin_dashboard_def Let_def measure_service_def activity_of_def
        dead_letter_total_def isl_def split: option.splits if_split_asm)
  then show ?thesis unfolding no_issues_iff by auto
qed

section \<open>Numbers\<close>

definition duration_seconds :: "shown_duration \<Rightarrow> int \<times> int" where
  "duration_seconds s =
     (case s of Days_hours d h \<Rightarrow> (86400 * d + 3600 * h, 3600) | Hours_minutes h m \<Rightarrow> (3600 * h + 60 * m, 60)
      | Minutes m \<Rightarrow> (60 * m, 60))"

text \<open>What is shown of a duration is exact to its last unit.\<close>

lemma duration_exact:
  assumes "0 \<le> seconds"
  shows "fst (duration_seconds (format_duration seconds)) \<le> seconds \<and>
    seconds < fst (duration_seconds (format_duration seconds)) + snd (duration_seconds (format_duration seconds))"
proof -
  define d h m r where "d = seconds div 86400" and "h = (seconds mod 86400) div 3600"
    and "m = (seconds mod 3600) div 60" and "r = seconds mod 3600 mod 60"
  have "seconds mod 86400 = 3600 * h + seconds mod 86400 mod 3600" by (simp add: h_def)
  then have rest: "seconds mod 86400 = 3600 * h + seconds mod 3600" by (simp add: mod_mod_cancel)
  have low: "seconds mod 3600 = 60 * m + r" by (simp add: m_def r_def)
  have "seconds = 86400 * d + seconds mod 86400" by (simp add: d_def)
  then have whole: "seconds = 86400 * d + 3600 * h + 60 * m + r" using rest low by linarith
  have "seconds mod 86400 < 86400" "seconds mod 3600 < 3600" by simp_all
  then have ranges: "60 * m + r < 3600" "3600 * h + 60 * m + r < 86400" using rest low by linarith+
  have parts: "0 \<le> d" "0 \<le> h" "0 \<le> m" "0 \<le> r" "r < 60"
    using assms by (simp_all add: d_def h_def m_def r_def pos_imp_zdiv_nonneg_iff)
  show ?thesis
  proof (cases "d > 0")
    case True
    then have "format_duration seconds = Days_hours d h" by (simp add: format_duration_def Let_def d_def h_def)
    then show ?thesis using whole ranges parts by (simp add: duration_seconds_def)
  next
    case False
    show ?thesis
    proof (cases "h > 0")
      case True
      then have "format_duration seconds = Hours_minutes h m"
        using False by (simp add: format_duration_def Let_def d_def h_def m_def)
      then show ?thesis using whole ranges parts False by (simp add: duration_seconds_def)
    next
      case low: False
      then have "format_duration seconds = Minutes m"
        using False by (simp add: format_duration_def Let_def d_def h_def m_def)
      then show ?thesis using whole ranges parts False low by (simp add: duration_seconds_def)
    qed
  qed
qed

lemma progress_within: "0 < snd s \<Longrightarrow> 0 \<le> progress_value s \<and> progress_value s \<le> 100"
proof -
  assume "0 < snd s"
  obtain v t where s: "s = (v, t)" by (cases s)
  have "(200 * v + t) div (2 * t) \<le> 100" if "v < t" "0 < v"
  proof -
    let ?q = "(200 * v + t) div (2 * t)"
    have "?q * (2 * t) + (200 * v + t) mod (2 * t) = 200 * v + t" by (rule div_mult_mod_eq)
    moreover have "0 \<le> (200 * v + t) mod (2 * t)" using that by simp
    ultimately have "?q * (2 * t) \<le> 200 * v + t" by linarith
    moreover have "101 * (2 * t) \<le> ?q * (2 * t)" if "101 \<le> ?q" using that \<open>v < t\<close> \<open>0 < v\<close> by (intro mult_right_mono) simp_all
    ultimately show ?thesis using that by linarith
  qed
  moreover have "0 \<le> (200 * v + t) div (2 * t)" if "0 < v" using \<open>0 < snd s\<close> that s
    by (simp add: pos_imp_zdiv_nonneg_iff)
  ultimately show ?thesis using s by (auto simp: progress_value_def)
qed

section \<open>Dead letters\<close>

definition sequence_number :: "dead_letter \<Rightarrow> nat" where "sequence_number d = nat_of_dec (dl_sequence d)"

text \<open>The stored letters, the newest first, and those before an address.\<close>

definition letters_before :: "dead_letter list \<Rightarrow> string option \<Rightarrow> dead_letter list" where
  "letters_before letters before =
     (case before of None \<Rightarrow> letters | Some s \<Rightarrow> filter (\<lambda>d. sequence_number d < nat_of_dec s) letters)"

definition stored_letters :: "dead_letter list \<Rightarrow> bool" where
  "stored_letters letters \<longleftrightarrow>
     list_all valid_dead_letter letters \<and> sorted_wrt (\<lambda>a b. sequence_number b < sequence_number a) letters"

text \<open>
  What the chat service is documented to answer: at most \<open>k\<close> of the letters before the given one; it names the
  last of them as the next address when there are more, and possibly also when the older ones were deleted.
\<close>

definition serves_letters :: "(string option \<Rightarrow> dead_letter_page) \<Rightarrow> nat \<Rightarrow> dead_letter list \<Rightarrow> bool" where
  "serves_letters answer_of k letters \<longleftrightarrow>
     0 < k \<and>
     (\<forall>before. dp_items (answer_of before) = take k (letters_before letters before) \<and>
        (k < length (letters_before letters before) \<longrightarrow> dp_next_before_sequence (answer_of before) \<noteq> None) \<and>
        optional_holds (\<lambda>s. dp_items (answer_of before) \<noteq> [] \<and> s = dl_sequence (last (dp_items (answer_of before))))
          (dp_next_before_sequence (answer_of before)))"

lemma after_last:
  assumes "sorted_wrt (\<lambda>a b. sequence_number b < sequence_number a) xs" and "take k xs \<noteq> []"
  shows "filter (\<lambda>d. sequence_number d < sequence_number (last (take k xs))) xs = drop k xs"
proof -
  let ?l = "last (take k xs)"
  have parts: "sorted_wrt (\<lambda>a b. sequence_number b < sequence_number a) (take k xs)"
    "\<forall>a \<in> set (take k xs). \<forall>b \<in> set (drop k xs). sequence_number b < sequence_number a"
    using assms(1) by (metis append_take_drop_id sorted_wrt_append)+
  have butlast_snoc: "take k xs = butlast (take k xs) @ [?l]" using assms(2) by simp
  then have "\<forall>a \<in> set (butlast (take k xs)). sequence_number ?l < sequence_number a"
    using parts(1) by (metis sorted_wrt_append list.set_intros(1))
  then have "\<forall>a \<in> set (take k xs). \<not> sequence_number a < sequence_number ?l"
    by (subst butlast_snoc) (auto simp: not_less intro: less_imp_le)
  then have "filter (\<lambda>d. sequence_number d < sequence_number ?l) (take k xs) = []" by (simp add: filter_empty_conv)
  moreover have "filter (\<lambda>d. sequence_number d < sequence_number ?l) (drop k xs) = drop k xs"
    using parts(2) assms(2) by (auto simp: filter_id_conv)
  ultimately show ?thesis
    by (metis append_Nil append_take_drop_id filter_append)
qed

lemma letters_after_page:
  assumes "stored_letters letters" and "take k (letters_before letters before) \<noteq> []"
  shows "letters_before letters (Some (dl_sequence (last (take k (letters_before letters before))))) =
    drop k (letters_before letters before)"
proof -
  let ?rest = "letters_before letters before"
  let ?l = "last (take k ?rest)"
  have sorted: "sorted_wrt (\<lambda>a b. sequence_number b < sequence_number a) ?rest"
    using assms(1) by (auto simp: stored_letters_def letters_before_def sorted_wrt_filter split: option.split)
  have "filter (\<lambda>d. sequence_number d < sequence_number ?l) ?rest = drop k ?rest"
    by (rule after_last [OF sorted assms(2)])
  moreover have "filter (\<lambda>d. sequence_number d < sequence_number ?l) ?rest =
      filter (\<lambda>d. sequence_number d < sequence_number ?l) letters"
  proof (cases before)
    case (Some s)
    have "?l \<in> set ?rest" using assms(2) by (metis in_set_takeD last_in_set)
    then have "sequence_number ?l < nat_of_dec s" using Some by (simp add: letters_before_def)
    then show ?thesis using Some by (auto simp: letters_before_def intro: filter_cong)
  qed (simp add: letters_before_def)
  ultimately show ?thesis by (simp add: letters_before_def sequence_number_def)
qed

lemma search_keeps_link:
  assumes "stored_letters letters" and "take k (letters_before letters before) \<noteq> []"
  shows "dead_letter_search (Some (dl_sequence (last (take k (letters_before letters before))))) =
    Some (dl_sequence (last (take k (letters_before letters before))))"
proof -
  have "last (take k (letters_before letters before)) \<in> set letters"
    using assms(2) in_set_takeD [OF last_in_set [OF assms(2)]] by (auto simp: letters_before_def split: option.splits)
  then show ?thesis using assms(1)
    by (auto simp: stored_letters_def list_all_iff valid_dead_letter_def dead_letter_search_def)
qed


text \<open>A service that answers as documented.\<close>

definition letter_server :: "nat \<Rightarrow> dead_letter list \<Rightarrow> string option \<Rightarrow> dead_letter_page" where
  "letter_server k letters before =
     (let rest = letters_before letters before in
      \<lparr>dp_items = take k rest, dp_total = int (length letters),
       dp_next_before_sequence = if k < length rest then Some (dl_sequence (last (take k rest))) else None\<rparr>)"

lemma letter_server_serves: "0 < k \<Longrightarrow> serves_letters (letter_server k letters) k letters"
  by (auto simp: serves_letters_def letter_server_def Let_def optional_holds_def)

definition sample_letter :: "string \<Rightarrow> dead_letter" where
  "sample_letter s =
     \<lparr>dl_sequence = s, dl_failed_at = 0, dl_subject = ''chat.events'', dl_error = ''unexpected end'', dl_payload = [],
      dl_truncated = False\<rparr>"


end
