(* ===== verification/SitePages.thy ===== *)
theory SitePages
  imports ClientText Donations AlertService
begin

text \<open>
  The frame of the pages: what happens before a page (\<open>start.ts\<close>, \<open>router.tsx\<close>, \<open>routes/__root.tsx\<close>,
  \<open>components/sign-in.tsx\<close>), the overview (\<open>routes/_authenticated/index.tsx\<close>), the page of the integrations with its
  forms (\<open>routes/_authenticated/integrations.tsx\<close>, \<open>components/widget-connection-form.tsx\<close>), and the pages of the
  overlays.  Cookies and headers are given read; upper case, formatted amounts and the browser's check of an
  address field are arguments.
\<close>

section \<open>Before a page\<close>

definition layout_redirect :: "string \<Rightarrow> string \<Rightarrow> string \<Rightarrow> string option" where
  "layout_redirect request_method pathname search =
     (if request_method \<noteq> ''GET'' \<and> request_method \<noteq> ''HEAD'' then None
      else if pathname \<noteq> ''/_authenticated'' \<and> pathname \<noteq> ''/_authenticated/'' then None
      else Some (CHR ''/'' # search))"

record stored_cookie =
  sc_name :: string
  sc_value :: string
  sc_max_age :: nat

definition locale_middleware :: "string option \<Rightarrow> string option \<Rightarrow> language \<times> stored_cookie option" where
  "locale_middleware cookie_locale accept_language =
     (let l = resolve_locale cookie_locale accept_language in
      (l, if cookie_locale \<noteq> Some (locale_name l)
          then Some \<lparr>sc_name = ''locale'', sc_value = locale_name l, sc_max_age = 60 * 60 * 24 * 365\<rparr> else None))"

definition route_preferences :: "string option \<Rightarrow> string option \<Rightarrow> string option \<Rightarrow> language \<times> theme" where
  "route_preferences cookie_locale cookie_theme preferred =
     (resolve_locale cookie_locale preferred, resolve_theme cookie_theme)"

text \<open>Outside a browser the router starts in English and light; \<open>None\<close> is no document.\<close>

definition initial_preferences :: "(string option \<times> string option \<times> string option) option \<Rightarrow> language \<times> theme" where
  "initial_preferences document =
     (case document of
        None \<Rightarrow> (En, Light)
      | Some (cookie_locale, cookie_theme, preferred) \<Rightarrow> route_preferences cookie_locale cookie_theme preferred)"

text \<open>A request of the server itself carries the visitor's cookie.\<close>

definition forwarded_headers :: "string option \<Rightarrow> (string \<times> string) list \<Rightarrow> (string \<times> string) list" where
  "forwarded_headers cookie headers =
     (case cookie of
        Some c \<Rightarrow> if c = [] then headers else filter (\<lambda>h. fst h \<noteq> ''cookie'') headers @ [(''cookie'', c)]
      | None \<Rightarrow> headers)"

definition is_overlay :: "string \<Rightarrow> bool" where
  "is_overlay pathname \<longleftrightarrow> pathname = ''/alerts/overlay'' \<or> prefix ''/chat/overlay/'' pathname"

section \<open>The frame\<close>

record document_frame =
  df_dark :: bool
  df_language :: string
  df_overlay :: bool

definition root_document :: "language \<Rightarrow> theme \<Rightarrow> string \<Rightarrow> document_frame" where
  "root_document l th pathname =
     \<lparr>df_dark = (th = Dark), df_language = locale_name l, df_overlay = is_overlay pathname\<rparr>"

record frame =
  fr_dark :: bool
  fr_theme_cookie :: "string option"
  fr_menu_open :: bool
  fr_warning :: bool

definition open_frame :: "string option \<Rightarrow> frame" where
  "open_frame cookie_theme =
     \<lparr>fr_dark = (resolve_theme cookie_theme = Dark), fr_theme_cookie = cookie_theme, fr_menu_open = False,
      fr_warning = True\<rparr>"

definition theme_name :: "theme \<Rightarrow> string" where
  "theme_name th = (case th of Light \<Rightarrow> ''light'' | Dark \<Rightarrow> ''dark'')"

definition toggle_dark :: "frame \<Rightarrow> frame" where
  "toggle_dark f =
     (let th = if fr_dark f then Light else Dark in f\<lparr>fr_dark := (th = Dark), fr_theme_cookie := Some (theme_name th)\<rparr>)"

datatype frame_event = Dark_toggled | Menu_opened | Link_followed | Warning_dismissed

definition frame_step :: "frame \<Rightarrow> frame_event \<Rightarrow> frame" where
  "frame_step f e =
     (case e of
        Dark_toggled \<Rightarrow> toggle_dark f
      | Menu_opened \<Rightarrow> f\<lparr>fr_menu_open := True\<rparr>
      | Link_followed \<Rightarrow> f\<lparr>fr_menu_open := False\<rparr>
      | Warning_dismissed \<Rightarrow> f\<lparr>fr_warning := False\<rparr>)"

datatype shown_root = Shown_sign_in | Shown_application "string list"

definition nav_links :: "bool \<Rightarrow> string list" where
  "nav_links is_admin =
     [''/'', ''/donations'', ''/videos'', ''/integrations'', ''/chat'', ''/multistream'', ''/alerts''] @
     (if is_admin then [''/admin''] else [])"

definition authenticated_root :: "bool option \<Rightarrow> user_info option \<Rightarrow> shown_root" where
  "authenticated_root viewer_is_admin info =
     (case (viewer_is_admin, info) of
        (Some is_admin, Some u) \<Rightarrow> Shown_application (nav_links is_admin)
      | _ \<Rightarrow> Shown_sign_in)"

text \<open>\<open>split(/\s+/)\<close>: runs of spaces separate; spaces at an end leave an empty part.\<close>

fun split_spaces_from :: "bool \<Rightarrow> string \<Rightarrow> string list" where
  "split_spaces_from skipping [] = [[]]"
| "split_spaces_from skipping (c # cs) =
     (if is_space c then (if skipping then split_spaces_from True cs else [] # split_spaces_from True cs)
      else (case split_spaces_from False cs of w # ws \<Rightarrow> (c # w) # ws | [] \<Rightarrow> [[c]]))"

definition split_spaces :: "string \<Rightarrow> string list" where
  "split_spaces s = split_spaces_from False s"

definition first_chars :: "string list \<Rightarrow> string" where
  "first_chars parts = concat (map (take 1) parts)"

definition avatar_initials :: "(string \<Rightarrow> string) \<Rightarrow> string \<Rightarrow> string" where
  "avatar_initials upper name = upper (first_chars (take 2 (split_spaces name)))"

definition author_initials :: "(string \<Rightarrow> string) \<Rightarrow> string \<Rightarrow> string" where
  "author_initials upper author = upper (take 2 (first_chars (split_spaces author)))"

datatype avatar = Avatar_image string | Avatar_initials string

definition account_avatar :: "(string \<Rightarrow> string) \<Rightarrow> string option \<Rightarrow> bool \<Rightarrow> string \<Rightarrow> avatar" where
  "account_avatar upper picture failed name =
     (case picture of
        Some src \<Rightarrow> if src \<noteq> [] \<and> \<not> failed then Avatar_image src else Avatar_initials (avatar_initials upper name)
      | None \<Rightarrow> Avatar_initials (avatar_initials upper name))"

section \<open>Signing in\<close>

record sign_in =
  si_signing_in :: bool
  si_error :: bool
  si_started :: nat

datatype sign_in_event = Sign_in_pressed | Sign_in_refused

definition sign_in_step :: "sign_in \<Rightarrow> sign_in_event \<Rightarrow> sign_in" where
  "sign_in_step s e =
     (case e of
        Sign_in_pressed \<Rightarrow>
          if si_signing_in s then s else s\<lparr>si_error := False, si_signing_in := True, si_started := si_started s + 1\<rparr>
      | Sign_in_refused \<Rightarrow> if si_signing_in s then s\<lparr>si_error := True, si_signing_in := False\<rparr> else s)"

section \<open>The overview\<close>

definition currency_metric ::
  "(nat \<Rightarrow> string \<Rightarrow> string) \<Rightarrow> (currency_overview \<Rightarrow> nat) \<Rightarrow> currency_overview list \<Rightarrow> string \<times> string list" where
  "currency_metric fmt amount currencies =
     (case map (\<lambda>c. fmt (amount c) (co_currency c)) currencies of
        [] \<Rightarrow> (''0'', [])
      | primary # others \<Rightarrow> (primary, others))"

definition source_connected :: "user_info option \<Rightarrow> donation_source \<Rightarrow> bool" where
  "source_connected info source =
     (case info of
        None \<Rightarrow> False
      | Some u \<Rightarrow>
          (case source of
             Donationalerts \<Rightarrow> hasDonationAlertsConnection u | Donate_stream \<Rightarrow> hasDonateStreamConnection u
           | Streamlabs \<Rightarrow> hasStreamlabsConnection u | Streamelements \<Rightarrow> hasStreamElementsConnection u
           | Tourniquet \<Rightarrow> hasTourniquetConnection u))"

definition donation_source_connections :: "user_info option \<Rightarrow> (donation_source \<times> bool) list" where
  "donation_source_connections info =
     map (\<lambda>s. (s, source_connected info s)) [Donationalerts, Donate_stream, Streamlabs, Streamelements, Tourniquet]"

definition has_donation_connection :: "user_info option \<Rightarrow> bool" where
  "has_donation_connection info \<longleftrightarrow> list_ex snd (donation_source_connections info)"

record shown_overview =
  so_received :: "string \<times> string list"
  so_donations :: string
  so_average :: "string \<times> string list"
  so_recent :: "donation_item list"
  so_automatic_sync :: bool

definition shown_overview_of ::
  "(nat \<Rightarrow> string \<Rightarrow> string) \<Rightarrow> user_info option \<Rightarrow> donation_overview option \<Rightarrow> shown_overview" where
  "shown_overview_of fmt info data =
     (let currencies = (case data of None \<Rightarrow> [] | Some d \<Rightarrow> do_currencies d) in
      \<lparr>so_received = currency_metric fmt co_total_amount currencies,
       so_donations = dec_nat (nat (case data of None \<Rightarrow> 0 | Some d \<Rightarrow> do_donation_count d)),
       so_average = currency_metric fmt co_average_amount currencies,
       so_recent = (case data of None \<Rightarrow> [] | Some d \<Rightarrow> do_recent_donations d),
       so_automatic_sync = has_donation_connection info\<rparr>)"

section \<open>Parts of other pages\<close>

text \<open>The line under a list: the numbers of its first and last items; which of the arrows are off.\<close>

record pagination_line =
  pl_first :: int
  pl_last :: int
  pl_arrows :: bool
  pl_previous_off :: bool
  pl_next_off :: bool

definition pagination_line_of :: "bool \<Rightarrow> int \<Rightarrow> int \<Rightarrow> int \<Rightarrow> int \<Rightarrow> pagination_line option" where
  "pagination_line_of off page per_page item_count total_pages =
     (if item_count = 0 then None
      else Some \<lparr>pl_first = (page - 1) * per_page + 1, pl_last = min (page * per_page) item_count,
                 pl_arrows = total_pages > 1, pl_previous_off = (off \<or> page = 1),
                 pl_next_off = (off \<or> page = total_pages)\<rparr>)"

text \<open>The server knows neither the visitor's zone nor clock.\<close>

definition local_time :: "bool \<Rightarrow> bool \<Rightarrow> string \<Rightarrow> string \<Rightarrow> string option" where
  "local_time hydrated list_format date_text list_text =
     (if \<not> hydrated then None else Some (if list_format then list_text else date_text))"

definition alert_author :: "string option \<Rightarrow> string \<Rightarrow> string" where
  "alert_author author anonymous =
     (case author of Some a \<Rightarrow> if js_trim a = [] then anonymous else js_trim a | None \<Rightarrow> anonymous)"

definition alert_message :: "string option \<Rightarrow> playback_kind \<Rightarrow> string \<Rightarrow> string" where
  "alert_message message kind test_message =
     (let m = (case message of Some s \<Rightarrow> js_trim s | None \<Rightarrow> []) in
      if m \<noteq> [] then m else if kind = Test then test_message else [])"

text \<open>The overlay of the alerts reads its token from the fragment of its address, again whenever that changes.\<close>

definition read_overlay_token :: "string \<Rightarrow> string option" where
  "read_overlay_token hash = (let t = drop 1 hash in if valid_overlay_token t then Some t else None)"

definition overlay_headers :: "(string \<times> string) list" where
  "overlay_headers =
     [(''Cache-Control'', ''no-store''), (''Referrer-Policy'', ''no-referrer''),
      (''X-Robots-Tag'', ''noindex, nofollow'')]"

definition robots_txt :: "(string \<Rightarrow> string) \<Rightarrow> string" where
  "robots_txt absolute =
     ''User-agent: *'' @ [CHR 10] @ ''Allow: /'' @ [CHR 10] @ ''Sitemap: '' @ absolute ''/sitemap.xml'' @ [CHR 10]"

definition sitemap_xml :: "(string \<Rightarrow> string) \<Rightarrow> string" where
  "sitemap_xml absolute =
     ''<?xml version=\"1.0\" encoding=\"UTF-8\"?>'' @ [CHR 10] @
     ''<urlset xmlns=\"http://www.sitemaps.org/schemas/sitemap/0.9\">'' @
     concat (map (\<lambda>path. ''<url><loc>'' @ absolute path @ ''</loc></url>'') [''/'', ''/docs/privacy'', ''/docs/tos'']) @
     ''</urlset>'' @ [CHR 10]"

section \<open>Integrations\<close>

datatype widget_source = Donate_stream_widget | Tourniquet_widget

definition widget_donation_source :: "widget_source \<Rightarrow> donation_source" where
  "widget_donation_source w = (case w of Donate_stream_widget \<Rightarrow> Donate_stream | Tourniquet_widget \<Rightarrow> Tourniquet)"

definition connect_request :: "widget_source \<Rightarrow> string \<Rightarrow> integration_api_request" where
  "connect_request w url =
     (case w of
        Donate_stream_widget \<Rightarrow> Connect_donate_stream_mutation url
      | Tourniquet_widget \<Rightarrow> Connect_tourniquet_mutation url)"

text \<open>
  Calls are numbered: an observer of calls follows the last one it made, and a form that was reset or closed
  follows none.
\<close>

datatype call_state = Call_pending | Call_failed | Call_done

record widget_form =
  wf_source :: widget_source
  wf_url :: string
  wf_call :: "(nat \<times> call_state) option"

record integrations_page =
  ip_user :: "user_info option"
  ip_auth_urls :: "(donation_source \<rightharpoonup> string) option"
  ip_disconnect :: "(nat \<times> donation_source \<times> call_state) option"
  ip_form :: "widget_form option"
  ip_next_call :: nat

definition open_integrations :: "user_info option \<Rightarrow> integrations_page" where
  "open_integrations info =
     \<lparr>ip_user = info, ip_auth_urls = None, ip_disconnect = None, ip_form = None, ip_next_call = 0\<rparr>"

definition disconnecting :: "integrations_page \<Rightarrow> donation_source \<Rightarrow> bool" where
  "disconnecting p source \<longleftrightarrow> (case ip_disconnect p of Some (_, s, Call_pending) \<Rightarrow> s = source | _ \<Rightarrow> False)"

datatype connection_control = Disconnect_button bool | Authorization_link string | Retry_button | Connect_button bool

definition connection_action :: "integrations_page \<Rightarrow> donation_source \<Rightarrow> connection_control" where
  "connection_action p source =
     (if source_connected (ip_user p) source then Disconnect_button (disconnecting p source)
      else if source = Donate_stream \<or> source = Tourniquet then Connect_button (disconnecting p source)
      else case Option.bind (ip_auth_urls p) (\<lambda>urls. urls source) of
             Some url \<Rightarrow> Authorization_link url
           | None \<Rightarrow> Retry_button)"

datatype connection_issue = No_issue | Authorization_expired | Synchronization_stopped

definition stream_elements_issue :: "user_info option \<Rightarrow> connection_issue" where
  "stream_elements_issue info =
     (case Option.bind info streamElementsConnectionStatus of
        Some Reauthorization_required \<Rightarrow> Authorization_expired
      | Some Connection_error \<Rightarrow> Synchronization_stopped
      | _ \<Rightarrow> No_issue)"

definition connection_notice :: "donation_source option \<Rightarrow> bool option \<Rightarrow> (donation_source \<times> bool) option" where
  "connection_notice source success =
     (case (source, success) of (Some s, Some b) \<Rightarrow> Some (s, b) | _ \<Rightarrow> None)"

definition disconnect_failed :: "integrations_page \<Rightarrow> donation_source option" where
  "disconnect_failed p = (case ip_disconnect p of Some (_, s, Call_failed) \<Rightarrow> Some s | _ \<Rightarrow> None)"

datatype integrations_event =
    User_refreshed "user_info option"
  | Auth_urls_refreshed "(donation_source \<rightharpoonup> string) option"
  | Disconnect_pressed donation_source
  | Disconnect_answered nat bool
  | Connect_pressed widget_source
  | Url_typed string
  | Connect_submitted
  | Connect_answered nat bool
  | Connect_closed

definition source_disconnect_pressed ::
  "donation_source \<Rightarrow> integrations_page \<Rightarrow> integrations_page \<times> integration_api_request list" where
  "source_disconnect_pressed source p =
     (if connection_action p source = Disconnect_button False
      then (p\<lparr>ip_disconnect := Some (ip_next_call p, source, Call_pending), ip_next_call := ip_next_call p + 1\<rparr>,
            [Disconnect_source_mutation source])
      else (p, []))"

definition source_disconnect_answered :: "nat \<Rightarrow> bool \<Rightarrow> integrations_page \<Rightarrow> integrations_page" where
  "source_disconnect_answered n success p =
     (case ip_disconnect p of
        Some (m, s, Call_pending) \<Rightarrow>
          if m = n then p\<lparr>ip_disconnect := Some (m, s, if success then Call_done else Call_failed)\<rparr> else p
      | _ \<Rightarrow> p)"

definition connect_pressed :: "widget_source \<Rightarrow> integrations_page \<Rightarrow> integrations_page" where
  "connect_pressed w p =
     (if ip_form p = None \<and> connection_action p (widget_donation_source w) = Connect_button False
      then p\<lparr>ip_form := Some \<lparr>wf_source = w, wf_url = [], wf_call = None\<rparr>\<rparr> else p)"

text \<open>Typing resets the call, also while it is being answered.\<close>

definition url_typed :: "string \<Rightarrow> integrations_page \<Rightarrow> integrations_page" where
  "url_typed s p = p\<lparr>ip_form := map_option (\<lambda>f. f\<lparr>wf_url := s, wf_call := None\<rparr>) (ip_form p)\<rparr>"

definition form_pending :: "widget_form \<Rightarrow> bool" where
  "form_pending f \<longleftrightarrow> (case wf_call f of Some (_, Call_pending) \<Rightarrow> True | _ \<Rightarrow> False)"

definition connect_submitted ::
  "(string \<Rightarrow> bool) \<Rightarrow> integrations_page \<Rightarrow> integrations_page \<times> integration_api_request list" where
  "connect_submitted browser_accepts p =
     (case ip_form p of
        None \<Rightarrow> (p, [])
      | Some f \<Rightarrow>
          (let url = js_trim (wf_url f) in
           if url = [] \<or> form_pending f \<or> \<not> browser_accepts (wf_url f) then (p, [])
           else (p\<lparr>ip_form := Some (f\<lparr>wf_call := Some (ip_next_call p, Call_pending)\<rparr>), ip_next_call := ip_next_call p + 1\<rparr>,
                 [connect_request (wf_source f) url])))"

definition connect_answered :: "nat \<Rightarrow> bool \<Rightarrow> integrations_page \<Rightarrow> integrations_page" where
  "connect_answered n success p =
     (case ip_form p of
        None \<Rightarrow> p
      | Some f \<Rightarrow>
          if wf_call f \<noteq> Some (n, Call_pending) then p
          else if success then p\<lparr>ip_form := None\<rparr>
          else p\<lparr>ip_form := Some (f\<lparr>wf_call := Some (n, Call_failed)\<rparr>)\<rparr>)"

fun integrations_step ::
  "(string \<Rightarrow> bool) \<Rightarrow> integrations_page \<Rightarrow> integrations_event \<Rightarrow> integrations_page \<times> integration_api_request list" where
  "integrations_step acc p (User_refreshed u) = (p\<lparr>ip_user := u\<rparr>, [])"
| "integrations_step acc p (Auth_urls_refreshed urls) = (p\<lparr>ip_auth_urls := urls\<rparr>, [])"
| "integrations_step acc p (Disconnect_pressed s) = source_disconnect_pressed s p"
| "integrations_step acc p (Disconnect_answered n success) = (source_disconnect_answered n success p, [])"
| "integrations_step acc p (Connect_pressed w) = (connect_pressed w p, [])"
| "integrations_step acc p (Url_typed s) = (url_typed s p, [])"
| "integrations_step acc p Connect_submitted = connect_submitted acc p"
| "integrations_step acc p (Connect_answered n success) = (connect_answered n success p, [])"
| "integrations_step acc p Connect_closed = (p\<lparr>ip_form := None\<rparr>, [])"

end
