(* ===== verification/SitePageProperties.thy ===== *)
theory SitePageProperties
  imports SitePages VideoFormProperties
begin

text \<open>
  What the frame and its pages keep to: the chosen language and theme last, the overview leads with the
  currency received most often, and the page of the integrations ends and makes connections as asked.
\<close>

section \<open>Preferences\<close>

lemma locale_settled:
  assumes "locale_middleware c h = (l, set_cookie)"
  shows "locale_middleware (case set_cookie of Some k \<Rightarrow> Some (sc_value k) | None \<Rightarrow> c) h' = (l, None)"
  using assms
  by (auto simp: locale_middleware_def Let_def chosen_locale_kept split: if_split_asm option.splits)

lemma theme_kept: "resolve_theme (Some (theme_name th)) = th"
  by (cases th) (simp_all add: theme_name_def resolve_theme_def)

text \<open>After any events, opening the page again shows the same theme.\<close>

lemma theme_kept_step:
  assumes "fr_dark (open_frame (fr_theme_cookie f)) = fr_dark f"
  shows "fr_dark (open_frame (fr_theme_cookie (frame_step f e))) = fr_dark (frame_step f e)"
  using assms by (cases e) (simp_all add: frame_step_def toggle_dark_def open_frame_def Let_def theme_kept)

lemma theme_survives_reload:
  "fr_dark (open_frame (fr_theme_cookie (foldl frame_step (open_frame c) es))) = fr_dark (foldl frame_step (open_frame c) es)"
  by (induction es rule: rev_induct) (simp_all add: theme_kept_step, simp add: open_frame_def)

lemma admin_link_for_administrators: "authenticated_root v info = Shown_application links \<Longrightarrow> ''/admin'' \<in> set links \<longleftrightarrow> v = Some True"
  by (auto simp: authenticated_root_def nav_links_def split: option.splits bool.splits)

section \<open>The overview\<close>

lemma parsed_array:
  assumes "parse_array parse xs = Inr ys" and "\<And>x y. parse x = Some y \<Longrightarrow> y = x"
  shows "ys = xs"
  using assms
  by (induction xs arbitrary: ys) (auto simp: parse_array_def parse_row_def bind_result_Inr_iff split: option.splits)

text \<open>The amount shown first is of the currency that was received most often.\<close>

lemma primary_currency_most_frequent:
  assumes "get_donation_overview env db uid = Inr d" and "do_currencies d = c # cs"
  shows "fst (so_received (shown_overview_of fmt info (Some d))) = fmt (co_total_amount c) (co_currency c)"
    and "\<forall>c' \<in> set cs. co_donation_count c' \<le> co_donation_count c"
proof -
  show "fst (so_received (shown_overview_of fmt info (Some d))) = fmt (co_total_amount c) (co_currency c)"
    using assms(2) by (simp add: shown_overview_of_def currency_metric_def)
  let ?os = "currency_overviews env (filter (\<lambda>d. d_user d = uid) (donations db))"
  have "parse_array parse_currency_overview ?os = Inr (do_currencies d)"
    using assms(1) by (auto simp: get_donation_overview_def bind_result_Inr_iff)
  then have "do_currencies d = ?os"
    by (rule parsed_array) (simp add: parse_currency_overview_def split: if_split_asm)
  then have os: "?os = c # cs" by (rule trans [OF sym assms(2)])
  have "sorted (map (\<lambda>o'. (- co_donation_count o', de_rank env (co_currency o'))) (c # cs))"
    unfolding os [symmetric] currency_overviews_def by (rule sorted_sort_key)
  then show "\<forall>c' \<in> set cs. co_donation_count c' \<le> co_donation_count c"
    by (auto simp: less_eq_prod_def)
qed

section \<open>Integrations\<close>

definition form_ok :: "integrations_page \<Rightarrow> bool" where
  "form_ok p \<longleftrightarrow> (case ip_form p of None \<Rightarrow> True | Some f \<Rightarrow> length (wf_url f) \<le> 4096)"

text \<open>The field takes at most 4096 characters.\<close>

definition integrations_possible :: "integrations_event \<Rightarrow> bool" where
  "integrations_possible e = (case e of Url_typed s \<Rightarrow> length s \<le> 4096 | _ \<Rightarrow> True)"

definition browser_checks_addresses :: "alert_env \<Rightarrow> (string \<Rightarrow> bool) \<Rightarrow> bool" where
  "browser_checks_addresses env acc \<longleftrightarrow> (\<forall>s. acc s \<longrightarrow> js_trim s \<noteq> [] \<longrightarrow> ae_is_url env (js_trim s))"

lemmas integrations_steps =
  source_disconnect_pressed_def source_disconnect_answered_def connect_pressed_def url_typed_def connect_submitted_def
  connect_answered_def Let_def

lemma integrations_step_ok:
  "form_ok p \<Longrightarrow> integrations_possible e \<Longrightarrow> form_ok (fst (integrations_step acc p e))"
  by (cases e) (auto simp: integrations_steps form_ok_def integrations_possible_def
      split: option.splits call_state.splits if_splits)

lemma integrations_step_accepted:
  assumes "browser_checks_addresses env acc" and "form_ok p"
  shows "list_all (\<lambda>r. parse_integration_request env r \<noteq> None) (snd (integrations_step acc p e))"
proof (cases e)
  case Connect_submitted
  have "length (js_trim (wf_url f)) \<le> 4096" if "ip_form p = Some f" for f
    using assms(2) that length_js_trim [of "wf_url f"] by (simp add: form_ok_def)
  then show ?thesis using assms(1) Connect_submitted
    by (auto simp: connect_submitted_def Let_def connect_request_def parse_integration_request_def
        browser_checks_addresses_def split: option.split widget_source.split)
qed (auto simp: integrations_steps parse_integration_request_def)

interpretation integrations_form: request_machine "integrations_step acc" integrations_possible form_ok
  "\<lambda>r. browser_checks_addresses env acc \<longrightarrow> parse_integration_request env r \<noteq> None" for acc env
  by unfold_locales
    (use integrations_step_ok integrations_step_accepted in \<open>auto simp: list_all_iff\<close>)

text \<open>A button ends what is connected, once; a form sends what stands in it without the spaces around.\<close>

lemma integrations_request_exact:
  assumes "r \<in> set (snd (integrations_step acc p e))"
  shows "case r of
      Disconnect_source_mutation s \<Rightarrow> e = Disconnect_pressed s \<and> source_connected (ip_user p) s \<and> \<not> disconnecting p s
    | _ \<Rightarrow> \<exists>f. ip_form p = Some f \<and> r = connect_request (wf_source f) (js_trim (wf_url f)) \<and>
        js_trim (wf_url f) \<noteq> [] \<and> \<not> form_pending f"
  using assms
  by (cases e)
    (auto simp: integrations_steps connection_action_def connect_request_def
      split: option.splits if_splits widget_source.splits)

text \<open>The calls of forms are numbered before the next one, so an answer closes only the form that made the call.\<close>

definition calls_ok :: "integrations_page \<Rightarrow> bool" where
  "calls_ok p \<longleftrightarrow>
     (case Option.bind (ip_form p) wf_call of None \<Rightarrow> True | Some (n, _) \<Rightarrow> n < ip_next_call p)"

lemma calls_ok_step: "calls_ok p \<Longrightarrow> calls_ok (fst (integrations_step acc p e))"
  by (cases e; cases "ip_form p") (auto simp: integrations_steps calls_ok_def split: option.splits call_state.splits if_splits)

lemma answer_closes_own_form:
  assumes "ip_form (fst (integrations_step acc p (Connect_answered n success))) \<noteq> ip_form p"
  shows "\<exists>f. ip_form p = Some f \<and> wf_call f = Some (n, Call_pending)"
  using assms by (auto simp: connect_answered_def split: option.splits if_splits)

text \<open>
  Typing while a connection is being made forgets the call: the same address can be sent again, and the form stays
  open when the first call succeeds.
\<close>

lemma typing_forgets_call:
  assumes "ip_form p = Some f" and "js_trim (wf_url f) \<noteq> []" and "acc (wf_url f)" and "\<not> form_pending f"
  shows "snd (run_form (integrations_step acc) p [Connect_submitted, Url_typed (wf_url f), Connect_submitted]) =
      [connect_request (wf_source f) (js_trim (wf_url f)), connect_request (wf_source f) (js_trim (wf_url f))]"
    and "ip_form (fst (run_form (integrations_step acc) p
      [Connect_submitted, Url_typed (wf_url f), Connect_answered (ip_next_call p) True])) \<noteq> None"
  using assms by (simp_all add: connect_submitted_def url_typed_def connect_answered_def form_pending_def Let_def)

end
