(* ===== verification/DevScripts.thy ===== *)
theory DevScripts
  imports Prelude
begin

text \<open>
  The scripts of the repository that are written in its language (\<open>scripts/env-init.ts\<close>, \<open>dev-db-up.ts\<close>,
  \<open>dev-infra-up.ts\<close>, \<open>dev-cleanup-validate.ts\<close>, \<open>dev-resources-cleanup.ts\<close>, \<open>dev-cleanup.ts\<close> and \<open>format-sql.ts\<close>).
  The hash of \<open>git hash-object\<close>, the outputs and exit codes of other programs, and the formatter \<open>sqruff\<close> are
  arguments; a script that stops at a failed command gives the commands it had run.
\<close>

section \<open>Names and ports of a checkout\<close>

definition is_name_char :: "char \<Rightarrow> bool" where
  "is_name_char c \<longleftrightarrow> is_lower_alpha c \<or> is_digit c"

text \<open>Runs of other characters become one underscore; \<open>skipping\<close> is inside of such a run.\<close>

fun underscore_runs :: "bool \<Rightarrow> string \<Rightarrow> string" where
  "underscore_runs skipping [] = []"
| "underscore_runs skipping (c # cs) =
     (if is_name_char c then c # underscore_runs False cs
      else if skipping then underscore_runs True cs else CHR ''_'' # underscore_runs True cs)"

definition strip_underscores :: "string \<Rightarrow> string" where
  "strip_underscores s = rev (dropWhile (\<lambda>c. c = CHR ''_'') (rev (dropWhile (\<lambda>c. c = CHR ''_'') s)))"

definition sanitize_name :: "string \<Rightarrow> string" where
  "sanitize_name s = strip_underscores (underscore_runs False (to_lower s))"

definition is_lower_hex :: "char \<Rightarrow> bool" where
  "is_lower_hex c \<longleftrightarrow> is_digit c \<or> (97 \<le> code c \<and> code c \<le> 102)"

definition hex_value :: "char \<Rightarrow> nat" where
  "hex_value c = (if is_digit c then code c - 48 else code c - 87)"

definition parse_hex :: "string \<Rightarrow> nat" where
  "parse_hex s = foldl (\<lambda>n c. n * 16 + hex_value c) 0 s"

definition hash_port :: "(string \<Rightarrow> string) \<Rightarrow> string \<Rightarrow> nat" where
  "hash_port hash s = 10000 + parse_hex (take 8 (hash s)) mod 40000"

definition branch_name :: "string \<Rightarrow> string \<Rightarrow> string" where
  "branch_name current short_head = (if current = [] then ''detached_'' @ short_head else current)"

record checkout =
  co_repository :: string
  co_parent :: string
  co_branch :: string
  co_project_override :: "string option"

text \<open>\<open>git config\<close> ended with 0 and its output, with 1 and none, or otherwise.\<close>

definition project_override :: "nat \<Rightarrow> string \<Rightarrow> string + string option" where
  "project_override exit_code output =
     (if exit_code \<notin> {0, 1} then Inl ''Could not read streambrew.devComposeProject Git setting''
      else let name = rev (dropWhile (\<lambda>c. code c = 10) (rev output)) in
           if name = [] then Inr None
           else if is_name_char (hd name) \<and> list_all (\<lambda>c. is_name_char c \<or> c = CHR ''_'' \<or> c = CHR ''-'') name
                then Inr (Some name)
           else Inl ''Invalid streambrew.devComposeProject Git setting'')"

definition repository_hash :: "(string \<Rightarrow> string) \<Rightarrow> checkout \<Rightarrow> string" where
  "repository_hash hash k = take 8 (hash (co_repository k))"

definition branch_hash :: "(string \<Rightarrow> string) \<Rightarrow> checkout \<Rightarrow> string" where
  "branch_hash hash k = take 8 (hash (co_repository k @ '':'' @ co_branch k))"

definition database_name :: "(string \<Rightarrow> string) \<Rightarrow> checkout \<Rightarrow> string" where
  "database_name hash k = ''streambrew_'' @ take 40 (sanitize_name (co_branch k)) @ ''_'' @ branch_hash hash k"

definition nats_namespace :: "(string \<Rightarrow> string) \<Rightarrow> checkout \<Rightarrow> string" where
  "nats_namespace hash k = ''wt_'' @ branch_hash hash k"

definition compose_project :: "(string \<Rightarrow> string) \<Rightarrow> checkout \<Rightarrow> string" where
  "compose_project hash k =
     (case co_project_override k of
        Some name \<Rightarrow> name
      | None \<Rightarrow> take 32 (sanitize_name (co_parent k)) @ ''_dev_'' @ repository_hash hash k)"

definition branch_port :: "(string \<Rightarrow> string) \<Rightarrow> checkout \<Rightarrow> string \<Rightarrow> nat" where
  "branch_port hash k service = hash_port hash (co_repository k @ '':'' @ co_branch k @ '':'' @ service)"

definition repository_port :: "(string \<Rightarrow> string) \<Rightarrow> checkout \<Rightarrow> string \<Rightarrow> nat" where
  "repository_port hash k service = hash_port hash (co_repository k @ '':'' @ service)"

definition env_settings :: "(string \<Rightarrow> string) \<Rightarrow> checkout \<Rightarrow> (string \<times> string) list" where
  "env_settings hash k =
     (let port = (\<lambda>service. dec_nat (branch_port hash k service));
          app = port ''app''; chat = port ''chat''; donations = port ''donations'';
          nats = dec_nat (repository_port hash k ''nats'')
      in [(''APP_PORT'', app), (''APP_DOMAIN'', ''http://localhost:'' @ app), (''CHAT_PORT'', chat),
          (''CHAT_PUBLIC_URL'', ''http://localhost:'' @ app @ ''/api/chat''),
          (''CHAT_SERVICE_URL'', ''http://127.0.0.1:'' @ chat), (''CHAT_WEB_URL'', ''http://localhost:'' @ app),
          (''DONATIONS_PORT'', donations), (''DONATIONS_SERVICE_URL'', ''http://127.0.0.1:'' @ donations),
          (''NATS_PORT'', nats), (''NATS_SERVERS'', ''nats://127.0.0.1:'' @ nats),
          (''NATS_NAMESPACE'', nats_namespace hash k), (''PGHOST'', ''127.0.0.1''), (''PGSSLMODE'', ''disable''),
          (''PGPORT'', dec_nat (repository_port hash k ''db'')), (''PGDATABASE'', database_name hash k),
          (''RESTREAM_INGEST_URL'', ''rtmp://127.0.0.1:'' @ port ''restream-ingest''),
          (''COMPOSE_PROJECT_NAME'', compose_project hash k)])"

definition database_url :: "string \<Rightarrow> string \<Rightarrow> (string \<Rightarrow> string) \<Rightarrow> checkout \<Rightarrow> string" where
  "database_url user password hash k =
     ''postgresql://'' @ user @ '':'' @ password @ ''@127.0.0.1:'' @ dec_nat (repository_port hash k ''db'') @ ''/'' @
     database_name hash k @ ''?sslmode=disable''"

section \<open>What the other scripts accept\<close>

text \<open>\<open>/^streambrew_[a-z0-9_]+_[0-9a-f]{8}$/\<close> and \<open>/^wt_[0-9a-f]{8}$/\<close>\<close>

definition cleanup_accepts_database :: "string \<Rightarrow> bool" where
  "cleanup_accepts_database s \<longleftrightarrow>
     (case strip_prefix ''streambrew_'' s of
        None \<Rightarrow> False
      | Some rest \<Rightarrow>
          10 \<le> length rest \<and>
          (let middle = take (length rest - 9) rest; tail = drop (length rest - 9) rest in
           list_all (\<lambda>c. is_name_char c \<or> c = CHR ''_'') middle \<and> hd tail = CHR ''_'' \<and> list_all is_lower_hex (tl tail)))"

definition cleanup_accepts_namespace :: "string \<Rightarrow> bool" where
  "cleanup_accepts_namespace s \<longleftrightarrow>
     (case strip_prefix ''wt_'' s of None \<Rightarrow> False | Some rest \<Rightarrow> length rest = 8 \<and> list_all is_lower_hex rest)"

definition cleanup_validate :: "string option \<Rightarrow> string option \<Rightarrow> bool" where
  "cleanup_validate database namespace \<longleftrightarrow>
     cleanup_accepts_database (case database of None \<Rightarrow> [] | Some s \<Rightarrow> s) \<and>
     cleanup_accepts_namespace (case namespace of None \<Rightarrow> [] | Some s \<Rightarrow> s)"

definition db_up_accepts :: "string \<Rightarrow> bool" where
  "db_up_accepts s \<longleftrightarrow> s \<noteq> [] \<and> list_all (\<lambda>c. is_name_char c \<or> c = CHR ''_'') s"

text \<open>The query of \<open>dev-db-up.ts\<close>, and whether its answer makes it create the database.\<close>

definition db_up_query :: "string \<Rightarrow> string option" where
  "db_up_query database =
     (if db_up_accepts database then Some (''SELECT 1 FROM pg_database WHERE datname = '' @ [CHR 39] @ database @ [CHR 39])
      else None)"

definition db_up_creates :: "string \<Rightarrow> bool" where
  "db_up_creates answer_text \<longleftrightarrow> ''1'' \<notin> set (js_split (CHR 10) answer_text)"

definition infra_up_accepts :: "(string \<Rightarrow> nat \<Rightarrow> string) \<Rightarrow> string \<Rightarrow> string \<Rightarrow> bool" where
  "infra_up_accepts published pg_port nats_port \<longleftrightarrow>
     published ''postgres'' 5432 = ''127.0.0.1:'' @ pg_port \<and> published ''nats'' 4222 = ''127.0.0.1:'' @ nats_port"

text \<open>The databases listed are those whose name starts with \<open>streambrew_\<close>.\<close>

definition dropped_databases :: "string \<Rightarrow> string \<Rightarrow> string list" where
  "dropped_databases own answer_text = filter (\<lambda>d. d \<noteq> [] \<and> d \<noteq> own) (js_split (CHR 10) answer_text)"

section \<open>Cleaning up worktrees\<close>

record worktree =
  wt_path :: string
  wt_branch :: "string option"
  wt_locked :: bool

definition field_after :: "string \<Rightarrow> string list \<Rightarrow> string option" where
  "field_after p parts = map_option (drop (length p)) (find (prefix p) parts)"

text \<open>A record of \<open>git worktree list --porcelain -z\<close>: fields that end with a zero character.\<close>

definition parse_worktree :: "string list \<Rightarrow> worktree option" where
  "parse_worktree record_fields =
     (case field_after ''worktree '' record_fields of
        None \<Rightarrow> None
      | Some path \<Rightarrow>
          if path = [] then None
          else Some \<lparr>wt_path = path, wt_branch = field_after ''branch refs/heads/'' record_fields,
                     wt_locked = list_ex (\<lambda>f. f = ''locked'' \<or> prefix ''locked '' f) record_fields\<rparr>)"

text \<open>What \<open>git\<close> says of a worktree: it has no changes, its head is merged.\<close>

record worktree_state =
  ws_clean :: "string \<Rightarrow> bool"
  ws_merged :: "string \<Rightarrow> bool"

datatype cleanup_command =
    Validate_env | Prune_worktrees | Remove_worktree string | Delete_branch string | Infra_up | Resources_cleanup
  | Infra_down

datatype cleanup_error =
    Not_primary | No_env_file | Bad_record | Locked_worktree string | Changed_worktree string | Unmerged_worktree string
  | Command_failed

definition refused_worktree :: "worktree_state \<Rightarrow> worktree \<Rightarrow> cleanup_error option" where
  "refused_worktree st w =
     (if wt_locked w then Some (Locked_worktree (wt_path w))
      else if \<not> ws_clean st (wt_path w) then Some (Changed_worktree (wt_path w))
      else if \<not> ws_merged st (wt_path w) then Some (Unmerged_worktree (wt_path w))
      else None)"

definition other_worktrees :: "string \<Rightarrow> string list list \<Rightarrow> worktree list option" where
  "other_worktrees primary records = map_option (filter (\<lambda>w. wt_path w \<noteq> primary)) (those (map parse_worktree records))"

text \<open>Commands run until one fails.\<close>

fun run_commands :: "(cleanup_command \<Rightarrow> bool) \<Rightarrow> cleanup_command list \<Rightarrow> cleanup_command list \<times> bool" where
  "run_commands succeeds [] = ([], True)"
| "run_commands succeeds (c # cs) =
     (if succeeds c then (case run_commands succeeds cs of (done, ok) \<Rightarrow> (c # done, ok)) else ([c], False))"

definition removal_commands :: "worktree list \<Rightarrow> cleanup_command list" where
  "removal_commands ws =
     concat (map (\<lambda>w. Remove_worktree (wt_path w) #
       (case wt_branch w of Some b \<Rightarrow> if b = [] then [] else [Delete_branch b] | None \<Rightarrow> [])) ws)"

text \<open>The resources are cleaned with the infrastructure up; it is taken down again when it was down before.\<close>

definition clean_resources :: "(cleanup_command \<Rightarrow> bool) \<Rightarrow> bool \<Rightarrow> cleanup_command list \<times> bool" where
  "clean_resources succeeds infra_was_running =
     (let (done, ok) = run_commands succeeds [Resources_cleanup];
          (after, after_ok) = run_commands succeeds (if infra_was_running then [] else [Infra_down])
      in (done @ after, ok \<and> after_ok))"

record cleanup_start =
  cs_current :: string
  cs_primary :: string
  cs_env_exists :: bool
  cs_running_services :: "string list"
  cs_records :: "string list list"

definition infra_was_running :: "cleanup_start \<Rightarrow> bool" where
  "infra_was_running s \<longleftrightarrow> list_all (\<lambda>x. x \<in> set (cs_running_services s)) [''postgres'', ''nats'']"

definition dev_cleanup ::
  "cleanup_start \<Rightarrow> worktree_state \<Rightarrow> (cleanup_command \<Rightarrow> bool) \<Rightarrow> cleanup_command list \<times> cleanup_error option" where
  "dev_cleanup s st succeeds =
     (if cs_current s \<noteq> cs_primary s then ([], Some Not_primary)
      else if \<not> cs_env_exists s then ([], Some No_env_file)
      else case run_commands succeeds [Validate_env, Prune_worktrees] of
        (first, False) \<Rightarrow> (first, Some Command_failed)
      | (first, True) \<Rightarrow>
          (case other_worktrees (cs_primary s) (cs_records s) of
             None \<Rightarrow> (first, Some Bad_record)
           | Some ws \<Rightarrow>
               (case first_row (List.map_filter (refused_worktree st) ws) of
                  Some e \<Rightarrow> (first, Some e)
                | None \<Rightarrow>
                    (case run_commands succeeds (removal_commands ws @ [Prune_worktrees, Infra_up]) of
                       (removed, False) \<Rightarrow> (first @ removed, Some Command_failed)
                     | (removed, True) \<Rightarrow>
                         (case clean_resources succeeds (infra_was_running s) of
                            (cleaned, ok) \<Rightarrow> (first @ removed @ cleaned, if ok then None else Some Command_failed))))))"

section \<open>Formatting SQL\<close>

definition is_word_char :: "char \<Rightarrow> bool" where
  "is_word_char c \<longleftrightarrow> is_lower_alpha c \<or> is_upper_alpha c \<or> is_digit c \<or> c = CHR ''_''"

text \<open>A keyword at the start of a text, whatever its case, that ends at a word boundary.\<close>

definition starts_with_keyword :: "string \<Rightarrow> string \<Rightarrow> bool" where
  "starts_with_keyword k s \<longleftrightarrow>
     to_lower (take (length k) s) = to_lower k \<and>
     (case drop (length k) s of [] \<Rightarrow> True | c # _ \<Rightarrow> \<not> is_word_char c)"

definition table_constraints :: "string list" where
  "table_constraints =
     [''CHECK'', ''CONSTRAINT'', ''EXCLUDE'', ''FOREIGN'', ''LIKE'', ''ON'', ''PRIMARY'', ''REFERENCES'', ''UNIQUE'']"

definition column_constraints :: "string list" where
  "column_constraints =
     [''CHECK'', ''COLLATE'', ''CONSTRAINT'', ''DEFAULT'', ''GENERATED'', ''NOT'', ''NULL'', ''PRIMARY'', ''REFERENCES'',
      ''UNIQUE'']"

definition is_table_constraint :: "string \<Rightarrow> bool" where
  "is_table_constraint s \<longleftrightarrow> list_ex (\<lambda>k. starts_with_keyword k s) table_constraints"

text \<open>
  \<open>/\s+(?=(...)\b)/\<close>: the text before the first spaces that a constraint follows, and the text from its keyword on.
\<close>

fun split_constraint :: "string \<Rightarrow> (string \<times> string) option" where
  "split_constraint [] = None"
| "split_constraint (c # cs) =
     (if is_space c \<and> list_ex (\<lambda>k. starts_with_keyword k (dropWhile is_space cs)) column_constraints
      then Some ([], dropWhile is_space cs)
      else map_option (\<lambda>(before, rest). (c # before, rest)) (split_constraint cs))"

text \<open>
  \<open>/^  ("[^"]+"|\S+)\s+(.+)$/\<close>: two spaces, a quoted or plain name, spaces, and a definition.  When only spaces
  follow the name, the last of them is the definition.
\<close>

definition definition_after :: "string \<Rightarrow> string option" where
  "definition_after s =
     (let spaces = takeWhile is_space s; rest = dropWhile is_space s in
      if spaces = [] then None
      else if rest \<noteq> [] then Some rest
      else if 2 \<le> length spaces then Some [last spaces] else None)"

definition match_quoted :: "string \<Rightarrow> (string \<times> string) option" where
  "match_quoted s =
     (case s of
        [] \<Rightarrow> None
      | q # cs \<Rightarrow>
          let inner = takeWhile (\<lambda>c. c \<noteq> CHR 34) cs; rest = dropWhile (\<lambda>c. c \<noteq> CHR 34) cs in
          if q \<noteq> CHR 34 \<or> inner = [] \<or> rest = [] then None
          else map_option (\<lambda>d. (CHR 34 # inner @ [CHR 34], d)) (definition_after (tl rest)))"

definition match_plain :: "string \<Rightarrow> (string \<times> string) option" where
  "match_plain s =
     (let name = takeWhile (\<lambda>c. \<not> is_space c) s in
      if name = [] then None else map_option (\<lambda>d. (name, d)) (definition_after (dropWhile (\<lambda>c. \<not> is_space c) s)))"

definition match_column :: "string \<Rightarrow> (string \<times> string) option" where
  "match_column line =
     (case strip_prefix ''  '' line of
        None \<Rightarrow> None
      | Some s \<Rightarrow> (case match_quoted s of Some m \<Rightarrow> Some m | None \<Rightarrow> match_plain s))"

record column =
  cl_name :: string
  cl_type :: string
  cl_constraint :: string
  cl_comma :: bool

definition column_of :: "string \<times> string \<Rightarrow> column" where
  "column_of m =
     (let (name, definition_text) = m;
          comma = definition_text \<noteq> [] \<and> last definition_text = CHR '','';
          d = (if comma then butlast definition_text else definition_text)
      in case split_constraint d of
           None \<Rightarrow> \<lparr>cl_name = name, cl_type = d, cl_constraint = [], cl_comma = comma\<rparr>
         | Some (before, rest) \<Rightarrow> \<lparr>cl_name = name, cl_type = before, cl_constraint = rest, cl_comma = comma\<rparr>)"

definition parse_column :: "string \<Rightarrow> column option" where
  "parse_column line =
     (case match_column line of
        None \<Rightarrow> None
      | Some m \<Rightarrow> if is_table_constraint (fst m) then None else Some (column_of m))"

definition trim_end :: "string \<Rightarrow> string" where
  "trim_end s = rev (dropWhile is_space (rev s))"

definition format_column :: "nat \<Rightarrow> nat \<Rightarrow> column \<Rightarrow> string" where
  "format_column name_width type_width c =
     (let constraint =
            (if cl_constraint c = [] then []
             else (if take 4 (cl_constraint c) = ''NULL'' then ''     '' else '' '') @ cl_constraint c);
          text_line = ''  '' @ pad_end name_width (CHR '' '') (cl_name c) @ '' '' @ pad_end type_width (CHR '' '') (cl_type c)
      in (if constraint \<noteq> [] then text_line @ constraint else trim_end text_line) @
         (if cl_comma c then '','' else []))"

definition width_of :: "(column \<Rightarrow> string) \<Rightarrow> column list \<Rightarrow> nat" where
  "width_of f columns = Max (set (map (\<lambda>c. length (f c)) columns))"

definition format_line :: "nat \<Rightarrow> nat \<Rightarrow> string \<Rightarrow> string" where
  "format_line name_width type_width line =
     (case parse_column line of None \<Rightarrow> line | Some c \<Rightarrow> format_column name_width type_width c)"

definition format_body :: "string list \<Rightarrow> string list" where
  "format_body body =
     (let columns = List.map_filter parse_column body in
      map (format_line (width_of cl_name columns) (width_of cl_type columns)) body)"

definition opens_table :: "string \<Rightarrow> bool" where
  "opens_table line \<longleftrightarrow> starts_with_keyword ''CREATE TABLE'' line \<and> last line = CHR ''(''"

text \<open>
  The lines from a position on.  A table without columns is passed by its first line only; otherwise the next
  line looked at is the one after its end.
\<close>

function align_lines :: "string list \<Rightarrow> string list" where
  "align_lines [] = []"
| "align_lines (l # ls) =
     (let body = takeWhile (\<lambda>x. x \<noteq> '');'') ls; rest = dropWhile (\<lambda>x. x \<noteq> '');'') ls in
      if opens_table l \<and> rest \<noteq> [] \<and> List.map_filter parse_column body \<noteq> []
      then l # format_body body @ hd rest # align_lines (tl rest)
      else l # align_lines ls)"
  by pat_completeness auto

termination
proof (relation "measure length")
  fix l :: string and ls body rest
  assume "rest = dropWhile (\<lambda>x. x \<noteq> '');'') ls"
  then show "(tl rest, l # ls) \<in> measure length"
    using length_dropWhile_le [of "\<lambda>x. x \<noteq> '');''" ls] by simp
qed simp_all

definition align_table_columns :: "string \<Rightarrow> string" where
  "align_table_columns source = js_join [CHR 10] (align_lines (js_split (CHR 10) source))"

text \<open>Comments: \<open>/^\s*-- migrate:(up|down)\s*$/\<close> keeps its line, of others \<open>/\s*--.*$/\<close> is removed.\<close>

definition is_migrate_line :: "string \<Rightarrow> bool" where
  "is_migrate_line line \<longleftrightarrow> js_trim line \<in> {''-- migrate:up'', ''-- migrate:down''}"

fun before_comment :: "string \<Rightarrow> string" where
  "before_comment [] = []"
| "before_comment (c # cs) =
     (if prefix ''--'' (dropWhile is_space (c # cs)) then [] else c # before_comment cs)"

fun squeeze_newlines :: "nat \<Rightarrow> string \<Rightarrow> string" where
  "squeeze_newlines n [] = []"
| "squeeze_newlines n (c # cs) =
     (if code c = 10 then (if n < 2 then c # squeeze_newlines (n + 1) cs else squeeze_newlines n cs)
      else c # squeeze_newlines 0 cs)"

definition without_comments :: "string \<Rightarrow> string" where
  "without_comments source =
     squeeze_newlines 0 (js_join [CHR 10]
       (map (\<lambda>line. if is_migrate_line line then line else before_comment line) (js_split (CHR 10) source)))"

definition format_sql :: "(string \<Rightarrow> string option) \<Rightarrow> string \<Rightarrow> string option" where
  "format_sql sqruff source = map_option align_table_columns (sqruff (without_comments source))"

datatype file_action = Left_alone | Reported_unformatted | Written string

definition format_file :: "(string \<Rightarrow> string option) \<Rightarrow> bool \<Rightarrow> string \<Rightarrow> file_action option" where
  "format_file sqruff check_only source =
     map_option (\<lambda>formatted. if formatted = source then Left_alone else if check_only then Reported_unformatted else Written formatted)
       (format_sql sqruff source)"

end
