(* ===== verification/DevScriptProperties.thy ===== *)
theory DevScriptProperties
  imports DevScripts
begin

text \<open>
  What the scripts keep to: the names and ports they give a checkout are those the other scripts accept, cleaning up
  removes nothing that is not saved, and formatting a formatted file changes nothing.
\<close>

section \<open>Names\<close>

lemma underscore_runs_chars: "list_all (\<lambda>c. is_name_char c \<or> c = CHR ''_'') (underscore_runs b s)"
  by (induction b s rule: underscore_runs.induct) auto

lemma strip_underscores_chars: "set (strip_underscores s) \<subseteq> set s"
  by (auto simp: strip_underscores_def dest!: set_dropWhileD)

lemma sanitize_name_chars: "list_all (\<lambda>c. is_name_char c \<or> c = CHR ''_'') (sanitize_name s)"
  using underscore_runs_chars [of False "to_lower s"] strip_underscores_chars
  unfolding sanitize_name_def list_all_iff by blast

lemma underscore_runs_kept: "is_name_char c \<Longrightarrow> c \<in> set (underscore_runs b s) \<longleftrightarrow> c \<in> set s"
  by (induction b s rule: underscore_runs.induct) (auto simp: is_name_char_def is_lower_alpha_def is_digit_def code_def)

lemma strip_underscores_kept: "c \<noteq> CHR ''_'' \<Longrightarrow> c \<in> set (strip_underscores s) \<longleftrightarrow> c \<in> set s"
proof -
  assume c: "c \<noteq> CHR ''_''"
  have "c \<in> set (dropWhile (\<lambda>c. c = CHR ''_'') t) \<longleftrightarrow> c \<in> set t" for t using c by (induction t) auto
  then show ?thesis by (simp add: strip_underscores_def)
qed

lemma not_underscore: "is_name_char c \<Longrightarrow> c \<noteq> CHR ''_''"
  by (auto simp: is_name_char_def is_lower_alpha_def is_digit_def code_def)

lemma stripped_underscores:
  assumes "strip_underscores s \<noteq> []" shows "hd (strip_underscores s) \<noteq> CHR ''_''"
proof -
  let ?t = "dropWhile (\<lambda>c. c = CHR ''_'') s"
  obtain j where "dropWhile (\<lambda>c. c = CHR ''_'') (rev ?t) = drop j (rev ?t)" by (metis dropWhile_eq_drop)
  then have k: "strip_underscores s = take (length ?t - j) ?t" by (simp add: strip_underscores_def rev_drop)
  then have "hd (strip_underscores s) = hd ?t" "?t \<noteq> []"
    using assms by (auto simp: hd_take)
  then show ?thesis using hd_dropWhile [of "\<lambda>c. c = CHR ''_''" s] by simp
qed

text \<open>A name is empty when the text has no letter and digit of those kept.\<close>

lemma sanitize_name_empty_iff: "sanitize_name s = [] \<longleftrightarrow> list_all (\<lambda>c. \<not> is_name_char c) (to_lower s)"
proof
  assume "sanitize_name s = []"
  then show "list_all (\<lambda>c. \<not> is_name_char c) (to_lower s)"
    using strip_underscores_kept not_underscore underscore_runs_kept
    unfolding sanitize_name_def list_all_iff by (metis empty_iff list.set(1))
next
  assume none: "list_all (\<lambda>c. \<not> is_name_char c) (to_lower s)"
  show "sanitize_name s = []"
  proof (rule ccontr)
    assume "sanitize_name s \<noteq> []"
    then have "hd (sanitize_name s) \<in> set (sanitize_name s)" "hd (sanitize_name s) \<noteq> CHR ''_''"
      using stripped_underscores by (simp_all add: sanitize_name_def)
    then have "is_name_char (hd (sanitize_name s))" using sanitize_name_chars [of s] by (auto simp: list_all_iff)
    then show False using none strip_underscores_chars underscore_runs_kept \<open>hd (sanitize_name s) \<in> set (sanitize_name s)\<close>
      unfolding sanitize_name_def list_all_iff by blast
  qed
qed

text \<open>The documented result of \<open>git hash-object\<close>.\<close>

definition hash_ok :: "(string \<Rightarrow> string) \<Rightarrow> bool" where
  "hash_ok hash \<longleftrightarrow> (\<forall>s. length (hash s) = 40 \<and> list_all is_lower_hex (hash s))"

lemma hash_prefix: "hash_ok hash \<Longrightarrow> length (take 8 (hash s)) = 8 \<and> list_all is_lower_hex (take 8 (hash s))"
  by (auto simp: hash_ok_def list_all_iff dest: in_set_takeD)

lemma hex_is_name: "is_lower_hex c \<Longrightarrow> is_name_char c"
  by (auto simp: is_lower_hex_def is_name_char_def is_lower_alpha_def)

lemma accepted_rest:
  assumes "list_all (\<lambda>c. is_name_char c \<or> c = CHR ''_'') m" and "length h = 8" and "list_all is_lower_hex h"
  shows "10 \<le> length (m @ CHR ''_'' # h) \<and>
     (let middle = take (length (m @ CHR ''_'' # h) - 9) (m @ CHR ''_'' # h);
          tail = drop (length (m @ CHR ''_'' # h) - 9) (m @ CHR ''_'' # h) in
      list_all (\<lambda>c. is_name_char c \<or> c = CHR ''_'') middle \<and> hd tail = CHR ''_'' \<and> list_all is_lower_hex (tl tail)) \<longleftrightarrow>
    m \<noteq> []"
proof -
  have "length (m @ CHR ''_'' # h) - 9 = length m" using assms(2) by simp
  then show ?thesis using assms by (cases m) (simp_all add: Let_def)
qed

text \<open>
  The database of a checkout is accepted by the clean-up exactly when the branch has a letter or digit of those kept;
  it always passes the script that creates it, and its name is short enough for PostgreSQL.
\<close>

lemma database_name_accepted:
  assumes "hash_ok hash"
  shows "cleanup_accepts_database (database_name hash k) \<longleftrightarrow> sanitize_name (co_branch k) \<noteq> []"
    and "db_up_accepts (database_name hash k)" and "length (database_name hash k) \<le> 60"
proof -
  let ?m = "take 40 (sanitize_name (co_branch k))"
  have h: "length (branch_hash hash k) = 8" "list_all is_lower_hex (branch_hash hash k)"
    using hash_prefix [OF assms] by (simp_all add: branch_hash_def)
  have m: "list_all (\<lambda>c. is_name_char c \<or> c = CHR ''_'') ?m"
    using sanitize_name_chars [of "co_branch k"] by (auto simp: list_all_iff dest: in_set_takeD)
  have split: "strip_prefix ''streambrew_'' (database_name hash k) = Some (?m @ CHR ''_'' # branch_hash hash k)"
    unfolding database_name_def using strip_prefix_append [of "''streambrew_''"] by simp
  show "cleanup_accepts_database (database_name hash k) \<longleftrightarrow> sanitize_name (co_branch k) \<noteq> []"
    using accepted_rest [OF m h] by (simp add: cleanup_accepts_database_def split)
  have "list_all (\<lambda>c. is_name_char c \<or> c = CHR ''_'') ''streambrew_''"
    by (simp add: is_name_char_def is_lower_alpha_def is_digit_def code_def)
  then show "db_up_accepts (database_name hash k)"
    using h m hex_is_name unfolding db_up_accepts_def database_name_def by (auto simp: list_all_iff)
  show "length (database_name hash k) \<le> 60" using h(1) by (simp add: database_name_def)
qed

lemma nats_namespace_accepted: "hash_ok hash \<Longrightarrow> cleanup_accepts_namespace (nats_namespace hash k)"
  using hash_prefix [of hash] strip_prefix_append [of "''wt_''"]
  by (simp add: cleanup_accepts_namespace_def nats_namespace_def branch_hash_def)

lemma ports_in_bounds: "10000 \<le> hash_port hash s \<and> hash_port hash s < 50000"
  by (simp add: hash_port_def)

lemma own_database_kept: "own \<notin> set (dropped_databases own listing)"
  by (simp add: dropped_databases_def)

section \<open>Cleaning up\<close>

lemma run_commands_subset: "set (fst (run_commands succeeds cs)) \<subseteq> set cs"
  by (induction cs) (auto split: prod.splits)

lemma removal_command_paths: "Remove_worktree path \<in> set (removal_commands ws) \<Longrightarrow> \<exists>w \<in> set ws. wt_path w = path"
  by (auto simp: removal_commands_def split: option.splits if_splits)

lemma none_refused: "first_row (List.map_filter f xs) = None \<longleftrightarrow> (\<forall>x \<in> set xs. f x = None)"
  by (induction xs) (auto simp: first_row_def List.map_filter_simps split: option.splits list.splits)

text \<open>
  No worktree is removed unless the clean-up runs in the primary checkout, and then none of the listed ones is locked,
  changed or unmerged, and the primary checkout itself is not among the removed.
\<close>

lemma cleanup_spares_work:
  assumes "Remove_worktree path \<in> set (fst (dev_cleanup s st succeeds))"
  shows "cs_current s = cs_primary s \<and> path \<noteq> cs_primary s \<and> succeeds Validate_env \<and>
    (\<exists>ws. other_worktrees (cs_primary s) (cs_records s) = Some ws \<and> path \<in> wt_path ` set ws \<and>
      (\<forall>w \<in> set ws. \<not> wt_locked w \<and> ws_clean st (wt_path w) \<and> ws_merged st (wt_path w)))"
proof -
  have primary: "cs_current s = cs_primary s" "cs_env_exists s"
    using assms by (auto simp: dev_cleanup_def split: if_splits)
  obtain first where first: "run_commands succeeds [Validate_env, Prune_worktrees] = (first, True)"
    and valid: "succeeds Validate_env"
    using assms primary by (auto simp: dev_cleanup_def split: if_splits)
  have no_first: "Remove_worktree path \<notin> set first" using first by (auto split: if_splits)
  obtain ws where ws: "other_worktrees (cs_primary s) (cs_records s) = Some ws"
    using assms primary first no_first by (auto simp: dev_cleanup_def simp del: run_commands.simps split: option.splits)
  have spared: "\<forall>w \<in> set ws. refused_worktree st w = None"
    using assms primary first no_first ws none_refused [of "refused_worktree st" ws]
    by (auto simp: dev_cleanup_def simp del: run_commands.simps split: option.splits)
  have "Remove_worktree path \<notin> set (fst (clean_resources succeeds b))" for b
    by (auto simp: clean_resources_def Let_def)
  then have "Remove_worktree path \<in> set (fst (run_commands succeeds (removal_commands ws @ [Prune_worktrees, Infra_up])))"
    using assms primary first no_first ws spared none_refused [of "refused_worktree st" ws]
    by (auto simp: dev_cleanup_def simp del: run_commands.simps split: option.splits prod.splits bool.splits)
      (metis fst_conv)+
  then have "path \<in> wt_path ` set ws"
    using run_commands_subset [of succeeds] removal_command_paths [of path ws] by fastforce
  moreover have "\<forall>w \<in> set ws. wt_path w \<noteq> cs_primary s" using ws by (auto simp: other_worktrees_def)
  ultimately show ?thesis using primary valid ws spared
    by (auto simp: refused_worktree_def split: if_splits)
qed

text \<open>Infrastructure that was down is asked to go down again, whether the resources could be cleaned or not.\<close>

lemma infra_restored: "\<not> running \<Longrightarrow> Infra_down \<in> set (fst (clean_resources succeeds running))"
  by (auto simp: clean_resources_def Let_def split: prod.splits)

section \<open>Formatting\<close>

text \<open>A column as tidy sources have it: a plain or quoted name, a type that begins and ends without spaces.\<close>

definition tidy_name :: "string \<Rightarrow> bool" where
  "tidy_name n \<longleftrightarrow>
     (n \<noteq> [] \<and> list_all (\<lambda>c. \<not> is_space c \<and> c \<noteq> CHR 34) n) \<or>
     (\<exists>inner. n = CHR 34 # inner @ [CHR 34] \<and> inner \<noteq> [] \<and> CHR 34 \<notin> set inner)"

definition tidy_text :: "string \<Rightarrow> bool" where
  "tidy_text t \<longleftrightarrow> t \<noteq> [] \<and> \<not> is_space (hd t) \<and> \<not> is_space (last t)"

definition tidy_column :: "column \<Rightarrow> bool" where
  "tidy_column c \<longleftrightarrow>
     tidy_name (cl_name c) \<and> \<not> is_table_constraint (cl_name c) \<and> tidy_text (cl_type c) \<and> split_constraint (cl_type c) = None \<and>
     (cl_constraint c = [] \<and> (cl_comma c \<or> last (cl_type c) \<noteq> CHR '','') \<or>
      tidy_text (cl_constraint c) \<and> list_ex (\<lambda>k. starts_with_keyword k (cl_constraint c)) column_constraints \<and>
      (cl_comma c \<or> last (cl_constraint c) \<noteq> CHR '',''))"

lemma space_is_space [simp]: "is_space (CHR '' '')"
  by (simp add: is_space_def code_def)

lemma comma_no_space [simp]: "\<not> is_space (CHR '','')"
  by (simp add: is_space_def code_def)

lemma quote_no_space [simp]: "\<not> is_space (CHR 34)"
  by (simp add: is_space_def code_def)

lemma lower_space: "is_space c \<Longrightarrow> lower_char c = c"
  by (auto simp: is_space_def lower_char_def is_upper_alpha_def)

text \<open>Spaces end a word, so what follows them does not matter for a keyword.\<close>

lemma keyword_before_space:
  assumes "is_space b" and "\<forall>c \<in> set (to_lower k). \<not> is_space c"
  shows "starts_with_keyword k (w @ b # x) \<longleftrightarrow> starts_with_keyword k w"
proof (cases "length k \<le> length w")
  case True
  have "\<not> is_word_char b" using assms(1)
    by (auto simp: is_space_def is_word_char_def is_lower_alpha_def is_upper_alpha_def is_digit_def code_def)
  then show ?thesis using True
    by (cases "length k = length w") (auto simp: starts_with_keyword_def split: list.split)
next
  case False
  then have "take (length k) (w @ b # x) = w @ b # take (length k - length w - 1) x"
    by (cases "length k - length w") simp_all
  then have "is_space (lower_char b) \<and> lower_char b \<in> set (to_lower (take (length k) (w @ b # x)))"
    using assms(1) by (simp add: to_lower_def lower_space)
  then have "to_lower (take (length k) (w @ b # x)) \<noteq> to_lower k" using assms(2) by metis
  moreover have "to_lower (take (length k) w) \<noteq> to_lower k"
    using False by (metis (no_types, lifting) length_map not_less take_all_iff to_lower_def nat_le_linear order_refl)
  ultimately show ?thesis by (simp add: starts_with_keyword_def)
qed

lemma constraint_keywords: "k \<in> set column_constraints \<Longrightarrow> \<forall>c \<in> set (to_lower k). \<not> is_space c"
  by (auto simp: column_constraints_def to_lower_def lower_char_def is_upper_alpha_def is_space_def code_def)

lemma constraint_before_space:
  "is_space b \<Longrightarrow> list_ex (\<lambda>k. starts_with_keyword k (w @ b # x)) column_constraints \<longleftrightarrow>
    list_ex (\<lambda>k. starts_with_keyword k w) column_constraints"
  using keyword_before_space constraint_keywords unfolding list_ex_iff by blast

lemma dropWhile_tidy: "\<not> is_space (last w) \<Longrightarrow> w \<noteq> [] \<Longrightarrow> dropWhile is_space (w @ x) = dropWhile is_space w @ x"
  by (induction w) (auto split: if_splits)

lemma split_constraint_after:
  assumes "split_constraint t = None" and "t \<noteq> []" and "\<not> is_space (last t)" and "list_all is_space bs"
    and "tidy_text k" and "list_ex (\<lambda>w. starts_with_keyword w k) column_constraints"
  shows "split_constraint (t @ CHR '' '' # bs @ k) = Some (t, k)"
  using assms(1-3)
proof (induction t)
  case (Cons c t)
  have blank: "dropWhile is_space (bs @ k) = k"
    using assms(4,5) by (auto simp: tidy_text_def dropWhile_append list_all_iff dropWhile_eq_Nil_conv dropWhile_eq_self_iff)
  show ?case
  proof (cases t)
    case Nil
    then have "\<not> is_space c" using Cons.prems by simp
    then show ?thesis using Nil assms(6) blank by simp
  next
    case (Cons d ds)
    then have ne: "t \<noteq> []" "\<not> is_space (last t)" using Cons.prems(3) by simp_all
    then have "dropWhile is_space (t @ CHR '' '' # bs @ k) = dropWhile is_space t @ CHR '' '' # bs @ k"
      by (rule dropWhile_tidy [rotated])
    then have "\<not> (is_space c \<and> list_ex (\<lambda>w. starts_with_keyword w (dropWhile is_space (t @ CHR '' '' # bs @ k))) column_constraints)"
      using Cons.prems(1) constraint_before_space [of "CHR '' ''" "dropWhile is_space t" "bs @ k"] by (auto split: if_splits)
    moreover have "split_constraint (t @ CHR '' '' # bs @ k) = Some (t, k)"
      using Cons.IH Cons.prems(1) ne by (auto split: if_splits)
    ultimately show ?thesis by (simp del: append_Cons add: append_Cons [of c])
  qed
qed simp

lemma match_column_formatted:
  assumes "tidy_name n" and "tidy_text t"
  shows "match_column (''  '' @ n @ replicate k (CHR '' '') @ CHR '' '' # t) = Some (n, t)"
proof -
  have def_after: "definition_after (replicate k (CHR '' '') @ CHR '' '' # t) = Some t"
  proof -
    have "dropWhile is_space (replicate k (CHR '' '') @ CHR '' '' # t) = t"
      "takeWhile is_space (replicate k (CHR '' '') @ CHR '' '' # t) \<noteq> []"
      using assms(2) by (cases t; induction k; simp add: tidy_text_def)+
    then show ?thesis using assms(2) by (simp add: definition_after_def Let_def tidy_text_def)
  qed
  have prefix: "strip_prefix ''  '' (''  '' @ s) = Some s" for s by (rule strip_prefix_append)
  from assms(1) consider (plain) "n \<noteq> []" "list_all (\<lambda>c. \<not> is_space c \<and> c \<noteq> CHR 34) n"
    | (quoted) inner where "n = CHR 34 # inner @ [CHR 34]" "inner \<noteq> []" "CHR 34 \<notin> set inner"
    by (auto simp: tidy_name_def)
  then show ?thesis
  proof cases
    case plain
    then have parts: "takeWhile (\<lambda>c. \<not> is_space c) (n @ replicate k (CHR '' '') @ CHR '' '' # t) = n"
      "dropWhile (\<lambda>c. \<not> is_space c) (n @ replicate k (CHR '' '') @ CHR '' '' # t) = replicate k (CHR '' '') @ CHR '' '' # t"
      by (cases k; simp add: takeWhile_append dropWhile_append list_all_iff)+
    have "match_quoted (n @ replicate k (CHR '' '') @ CHR '' '' # t) = None"
      using plain by (cases n) (simp_all add: match_quoted_def Let_def)
    then show ?thesis using plain(1) parts def_after prefix
      by (simp add: match_column_def match_plain_def Let_def del: append_Cons)
  next
    case quoted
    then have "match_quoted (n @ replicate k (CHR '' '') @ CHR '' '' # t) = Some (n, t)"
      using def_after by (auto simp: match_quoted_def Let_def takeWhile_append dropWhile_append)
    then show ?thesis using prefix by (simp add: match_column_def del: append_Cons)
  qed
qed

lemma spaces_first: "replicate m (CHR '' '') @ CHR '' '' # xs = CHR '' '' # replicate m (CHR '' '') @ xs"
  by (induction m) simp_all

text \<open>Reading a formatted column gives the column, whatever the widths.\<close>

lemma parse_format_column:
  assumes "tidy_column c" shows "parse_column (format_column nw tw c) = Some c"
proof -
  let ?n = "cl_name c" and ?t = "cl_type c" and ?k = "cl_constraint c"
  let ?comma = "if cl_comma c then '','' else []"
  have tidy: "tidy_name ?n" "\<not> is_table_constraint ?n" "tidy_text ?t" "split_constraint ?t = None"
    using assms by (simp_all add: tidy_column_def)
  show ?thesis
  proof (cases "?k = []")
    case True
    have line: "format_column nw tw c = ''  '' @ ?n @ replicate (nw - length ?n) (CHR '' '') @ CHR '' '' # (?t @ ?comma)"
    proof -
      have "trim_end (s @ ?t @ replicate m (CHR '' '')) = s @ ?t" for s m
        using tidy(3) by (cases ?t rule: rev_cases) (simp_all add: trim_end_def tidy_text_def dropWhile_append)
      from this [of "''  '' @ ?n @ replicate (nw - length ?n) (CHR '' '') @ '' ''" "tw - length ?t"] show ?thesis
        using True by (simp add: format_column_def Let_def pad_end_def)
    qed
    have "tidy_text (?t @ ?comma)" using tidy(3) by (auto simp: tidy_text_def)
    then have "match_column (format_column nw tw c) = Some (?n, ?t @ ?comma)"
      unfolding line by (rule match_column_formatted [OF tidy(1)])
    then show ?thesis using assms tidy True
      by (cases c) (auto simp: parse_column_def column_of_def Let_def tidy_column_def tidy_text_def)
  next
    case False
    define bs where "bs = replicate (tw - length ?t) (CHR '' '') @ (if take 4 ?k = ''NULL'' then ''    '' else [])"
    have k: "tidy_text ?k" "list_ex (\<lambda>w. starts_with_keyword w ?k) column_constraints"
      "cl_comma c \<or> last ?k \<noteq> CHR '',''"
      using assms False by (simp_all add: tidy_column_def)
    have line: "format_column nw tw c =
        ''  '' @ ?n @ replicate (nw - length ?n) (CHR '' '') @ CHR '' '' # (?t @ CHR '' '' # bs @ ?k @ ?comma)"
      using False by (simp add: format_column_def Let_def pad_end_def bs_def spaces_first)
    have "tidy_text (?t @ CHR '' '' # bs @ ?k @ ?comma)" using tidy(3) k(1) by (auto simp: tidy_text_def)
    then have match: "match_column (format_column nw tw c) = Some (?n, ?t @ CHR '' '' # bs @ ?k @ ?comma)"
      unfolding line by (rule match_column_formatted [OF tidy(1)])
    have "list_all is_space bs" by (auto simp: bs_def list_all_iff)
    then have "split_constraint (?t @ CHR '' '' # bs @ ?k) = Some (?t, ?k)"
      using split_constraint_after [OF tidy(4) _ _ _ k(1,2)] tidy(3) by (simp add: tidy_text_def)
    moreover have "butlast (?t @ CHR '' '' # bs @ ?k @ '','') = ?t @ CHR '' '' # bs @ ?k"
      by (simp add: butlast_append)
    moreover have "last (?t @ CHR '' '' # bs @ ?k) = last ?k" using False by simp
    ultimately show ?thesis using match tidy(2) k(3)
      by (cases "cl_comma c"; cases c) (simp_all add: parse_column_def column_of_def Let_def)
  qed
qed

definition tidy_lines :: "string list \<Rightarrow> bool" where
  "tidy_lines ls \<longleftrightarrow> (\<forall>l \<in> set ls. \<forall>c. parse_column l = Some c \<longrightarrow> tidy_column c)"

lemma parse_format_line: "tidy_lines [l] \<Longrightarrow> parse_column (format_line nw tw l) = parse_column l"
  by (auto simp: tidy_lines_def format_line_def parse_format_column split: option.split)

lemma format_line_twice: "tidy_lines [l] \<Longrightarrow> format_line nw tw (format_line nw tw l) = format_line nw tw l"
  by (auto simp: tidy_lines_def format_line_def parse_format_column split: option.split)

lemma format_body_columns:
  "tidy_lines body \<Longrightarrow> List.map_filter parse_column (format_body body) = List.map_filter parse_column body"
proof -
  have "List.map_filter parse_column (map (format_line nw tw) ls) = List.map_filter parse_column ls" if "tidy_lines ls"
    for nw tw ls
    using that by (induction ls) (auto simp: map_filter_simps parse_format_line tidy_lines_def split: option.split)
  then show "tidy_lines body \<Longrightarrow> ?thesis" by (simp add: format_body_def Let_def)
qed

lemma format_body_twice:
  assumes "tidy_lines body" shows "format_body (format_body body) = format_body body"
proof -
  have "format_line nw tw (format_line nw tw l) = format_line nw tw l" if "l \<in> set body" for l nw tw
    using assms that by (intro format_line_twice) (simp add: tidy_lines_def)
  then show ?thesis
    using format_body_columns [OF assms] by (simp add: format_body_def [of "format_body body"] Let_def)
      (simp add: format_body_def Let_def)
qed

lemma end_is_no_column: "parse_column '');'' = None"
  by (simp add: parse_column_def match_column_def strip_prefix_def)

lemma format_line_no_end: "tidy_lines [l] \<Longrightarrow> format_line nw tw l = '');'' \<Longrightarrow> l = '');''"
  using parse_format_line [of l nw tw] end_is_no_column by (cases "parse_column l") (auto simp: format_line_def)

lemma format_body_no_end: "tidy_lines body \<Longrightarrow> '');'' \<notin> set body \<Longrightarrow> '');'' \<notin> set (format_body body)"
proof
  assume tidy: "tidy_lines body" and no: "'');'' \<notin> set body" and "'');'' \<in> set (format_body body)"
  then obtain l nw tw where "l \<in> set body" "format_line nw tw l = '');''" by (auto simp: format_body_def Let_def)
  moreover from this tidy have "tidy_lines [l]" by (simp add: tidy_lines_def)
  ultimately show False using format_line_no_end no by blast
qed

abbreviation before_end :: "string list \<Rightarrow> string list" where
  "before_end \<equiv> takeWhile (\<lambda>x. x \<noteq> '');'')"

abbreviation from_end :: "string list \<Rightarrow> string list" where
  "from_end \<equiv> dropWhile (\<lambda>x. x \<noteq> '');'')"

lemma parts_at_end:
  assumes "'');'' \<notin> set body" shows "before_end (body @ '');'' # ls) = body" and "from_end (body @ '');'' # ls) = '');'' # ls"
  using assms by (induction body) auto

text \<open>A table with columns, and a line that starts none.\<close>

lemma align_lines_table:
  assumes "opens_table l" and "'');'' \<notin> set body" and "List.map_filter parse_column body \<noteq> []"
  shows "align_lines (l # body @ '');'' # ls) = l # format_body body @ '');'' # align_lines ls"
  using assms by (simp add: Let_def parts_at_end)

lemma align_lines_other:
  assumes "\<not> (opens_table l \<and> from_end ls \<noteq> [] \<and> List.map_filter parse_column (before_end ls) \<noteq> [])"
  shows "align_lines (l # ls) = l # align_lines ls"
  using assms by (auto simp: Let_def)

declare align_lines.simps(2) [simp del]

lemma table_parts:
  assumes "from_end ls \<noteq> []" shows "ls = before_end ls @ '');'' # tl (from_end ls)"
proof -
  have "hd (from_end ls) = '');''" using hd_dropWhile [OF assms] by simp
  then show ?thesis using assms by (metis list.collapse takeWhile_dropWhile_id)
qed

lemma before_end_no_end: "'');'' \<notin> set (before_end ls)"
  by (auto dest: set_takeWhileD)

lemma align_lines_cases [case_names None Table Other]:
  assumes "ls = [] \<Longrightarrow> P"
    and "\<And>l body rest. ls = l # body @ '');'' # rest \<Longrightarrow> opens_table l \<Longrightarrow> '');'' \<notin> set body \<Longrightarrow>
      List.map_filter parse_column body \<noteq> [] \<Longrightarrow> P"
    and "\<And>l rest. ls = l # rest \<Longrightarrow>
      \<not> (opens_table l \<and> from_end rest \<noteq> [] \<and> List.map_filter parse_column (before_end rest) \<noteq> []) \<Longrightarrow> P"
  shows P
proof (cases ls)
  case (Cons l rest)
  show ?thesis
  proof (cases "opens_table l \<and> from_end rest \<noteq> [] \<and> List.map_filter parse_column (before_end rest) \<noteq> []")
    case True
    then show ?thesis using assms(2) [of l "before_end rest"] Cons table_parts [of rest] before_end_no_end by blast
  qed (use assms(3) Cons in blast)
qed (rule assms(1))

text \<open>What is before the first end of a table stays when it has no columns; whether there is an end stays always.\<close>

lemma align_lines_keep:
  assumes "tidy_lines ls"
  shows "('');'' \<in> set (align_lines ls) \<longleftrightarrow> '');'' \<in> set ls) \<and>
    (List.map_filter parse_column (before_end ls) = [] \<longrightarrow> before_end (align_lines ls) = before_end ls)"
  using assms
proof (induction "length ls" arbitrary: ls rule: less_induct)
  case less
  show ?case
  proof (cases ls rule: align_lines_cases)
    case (Table l body rest)
    then have "l \<noteq> '');''" by (auto simp: opens_table_def starts_with_keyword_def)
    then show ?thesis using Table by (auto simp: align_lines_table parts_at_end map_filter_simps split: option.splits)
  next
    case (Other l rest)
    then have "('');'' \<in> set (align_lines rest) \<longleftrightarrow> '');'' \<in> set rest) \<and>
      (List.map_filter parse_column (before_end rest) = [] \<longrightarrow> before_end (align_lines rest) = before_end rest)"
      using less by (simp add: tidy_lines_def)
    then show ?thesis using Other by (auto simp: align_lines_other map_filter_simps split: option.splits)
  qed simp
qed

text \<open>Formatting formatted lines changes nothing.\<close>

lemma align_lines_twice: "tidy_lines ls \<Longrightarrow> align_lines (align_lines ls) = align_lines ls"
proof (induction "length ls" arbitrary: ls rule: less_induct)
  case less
  show ?case
  proof (cases ls rule: align_lines_cases)
    case (Table l body rest)
    then have tidy: "tidy_lines body" "tidy_lines rest" using less.prems by (auto simp: tidy_lines_def)
    then have "align_lines (align_lines rest) = align_lines rest" using less Table(1) by simp
    then show ?thesis using Table tidy format_body_no_end format_body_columns format_body_twice
      by (simp add: align_lines_table)
  next
    case (Other l rest)
    have rest: "tidy_lines rest" using less.prems Other(1) by (simp add: tidy_lines_def)
    then have "align_lines (align_lines rest) = align_lines rest" using less Other(1) by simp
    moreover have "\<not> (opens_table l \<and> from_end (align_lines rest) \<noteq> [] \<and>
        List.map_filter parse_column (before_end (align_lines rest)) \<noteq> [])"
      using align_lines_keep [OF rest] Other(2) by (auto simp: dropWhile_eq_Nil_conv)
    ultimately show ?thesis using Other by (simp add: align_lines_other)
  qed simp
qed

text \<open>
  Comments are found by their two dashes alone, also inside of a quoted text: the rest of such a line is lost.
\<close>

lemma dashes_in_text_lost: "before_comment ''  separator text DEFAULT '' @ [CHR 39] = ''  separator text DEFAULT '' @ [CHR 39] \<and>
    before_comment (''  separator text DEFAULT '' @ [CHR 39] @ ''--'' @ [CHR 39]) = ''  separator text DEFAULT '' @ [CHR 39]"
  by (simp add: is_space_def code_def)

end
