(* ===== verification/Spec2Isabelle.thy ===== *)
theory Spec2Isabelle
  imports SiteProperties VideoErrors VideoPageProperties OAuthProperties DonationProperties
    RestreamSessions ChatStream ChatSubscriptions AlertUploads AlertPlayerProperties AlertOverlayProperties
    AdminProperties OperationalLogProperties ClientCache VideoFormProperties VideoCards QueuePageProperties
    AlertPageProperties ChatPageProperties MultistreamPageProperties AdminPageProperties SitePageProperties
    DevScriptProperties
begin

text \<open>
  \<^bold>\<open>StreamBrew\<close>

  StreamBrew lets a streamer collect donations, keep queues of videos, read and moderate the chat of several platforms,
  show alerts and the chat in a broadcast, and send one stream to several platforms.  This development models the
  TypeScript of the repository: the web server, the pages it serves, the code they share, and the scripts.

  \<^bold>\<open>The parts and how they meet\<close>

  A browser opens a page (\<open>apps/web/src/routes\<close>, \<open>components\<close>), which keeps the answers of the server in a cache
  (\<open>hooks/api.ts\<close>) and sends requests to the tRPC procedures (\<open>server/api/trpc\<close>).  A procedure reads its input with the
  schemas of \<open>packages/src\<close>, checks who asks, and runs an operation of a store over PostgreSQL (\<open>server/video-queue\<close>,
  \<open>server/sensors/db\<close>, \<open>server/restream\<close>) or a call of one of the services written in Go (\<open>server/chat\<close>,
  \<open>server/donation-alert\<close>, \<open>server/donation-integration\<close>).  Plain routes serve uploads, media, event streams, the
  callbacks of OAuth and the media servers.  Overlays are pages without a viewer that follow an event stream by a token.

  \<^bold>\<open>Which theory models what\<close>

  The vocabulary: \<open>Prelude\<close> (strings of JavaScript, decimal numerals, results that may fail, rows of tables, the
  locale of machines with an invariant), \<open>Schemas\<close> (\<open>packages/src/schemas.ts\<close>), \<open>Pagination\<close> (\<open>server/pagination.ts\<close>,
  \<open>ui/page-pagination.tsx\<close>), \<open>VideoTiming\<close>, \<open>Currency\<close>, \<open>Youtube\<close> (the files of these names in \<open>packages/src\<close>), \<open>Trpc\<close>
  (\<open>trpc/_config.ts\<close>), \<open>Services\<close> (\<open>packages/src/http.ts\<close>), \<open>Ndjson\<close> (\<open>lib/ndjson.ts\<close>), \<open>RequestBody\<close>
  (\<open>server/request-body.ts\<close>, \<open>trpc/request.ts\<close>, \<open>routes/api/chat/$.tsx\<close>).

  \<^item> Video queues: \<open>VideoQueueDb\<close> (tables, constraints and the trigger of \<open>db/schema.sql\<close>), \<open>VideoQueue\<close> and
    \<open>VideoQueuePages\<close> (the class \<open>PostgresVideoQueue\<close>), \<open>VideoRouter\<close> (\<open>trpc/video.ts\<close>).  A record \<open>db\<close> holds the
    tables as lists of rows; each method is a function of it that gives a failure or a result with the new tables.
    \<open>VideoQueueInvariant\<close>, \<open>VideoIsolation\<close>, \<open>VideoProperties\<close>, \<open>VideoErrors\<close> and \<open>VideoPageProperties\<close> show that every
    operation keeps the tables well-formed and the rows of others untouched, what it does exactly, which errors can
    occur, and that the listings show every video once and nothing the owner hides.
  \<^item> Accounts: \<open>Accounts\<close>, \<open>AccountsInvariant\<close>, \<open>Site\<close>, \<open>SiteProperties\<close> (\<open>server/admin.ts\<close>, \<open>packages/src/slug.ts\<close>,
    \<open>server/api/_util.ts\<close>, \<open>createContext\<close>): a first visit creates an account, and all requests together keep the
    database well-formed.
  \<^item> Donations: \<open>Donations\<close>, \<open>DonationProperties\<close> (\<open>server/sensors/db/store.ts\<close>): search, pages and overview.
  \<^item> Connections of donation sources: \<open>OAuth\<close>, \<open>OAuthProperties\<close> (\<open>server/api/integration.ts\<close> and the state in a signed
    cookie): a callback connects only what the same browser started.
  \<^item> Restreaming: \<open>RestreamSchemas\<close>, \<open>Restream\<close>, \<open>RestreamRouter\<close> (\<open>server/restream\<close>, \<open>trpc/restream.ts\<close>), with
    \<open>RestreamInvariant\<close>, \<open>RestreamOperations\<close>, \<open>RestreamProperties\<close> and \<open>RestreamSessions\<close>: well-formed tables, isolation,
    destinations outside private networks, and that a valid publisher is let in.
  \<^item> Chat: \<open>ChatSchemas\<close>, \<open>ChatService\<close>, \<open>ChatSubscriptions\<close> (\<open>server/chat\<close>, \<open>trpc/chat.ts\<close>), \<open>ChatStream\<close>
    (\<open>hooks/use-chat-service-stream.ts\<close>): calls speak for the viewer, a rotated token ends its overlays, and the feed is the
    newest messages of what was received.
  \<^item> Alerts: \<open>AlertSchemas\<close>, \<open>AlertService\<close>, \<open>AlertHttp\<close> (\<open>server/donation-alert\<close>, \<open>trpc/alerts.ts\<close>,
    \<open>trpc/integration.ts\<close>), \<open>AlertPlayer\<close>, \<open>AlertOverlay\<close> (\<open>components/alert-player-runtime.ts\<close>,
    \<open>hooks/use-alert-overlay.ts\<close>), with \<open>AlertCalls\<close>, \<open>AlertUploads\<close>, \<open>AlertPlayerProperties\<close> and \<open>AlertOverlayProperties\<close>: what is
    uploaded was checked, a presentation ends and is reported once, and messages concern what is playing.
  \<^item> Operation: \<open>AdminDashboard\<close>, \<open>AdminProperties\<close> (\<open>server/admin-dashboard.ts\<close>), \<open>OperationalLog\<close>,
    \<open>OperationalLogProperties\<close> (\<open>packages/src/server-logger.ts\<close>, \<open>server/health.ts\<close>).
  \<^item> Pages: \<open>ClientText\<close> (\<open>lib\<close>), \<open>ClientCache\<close> (\<open>hooks\<close>), \<open>VideoForms\<close> and \<open>VideoFormProperties\<close> (the forms of the
    queues), \<open>VideoCards\<close>, \<open>QueuePages\<close> and \<open>QueuePageProperties\<close>, \<open>AlertPage\<close> and \<open>AlertPageProperties\<close>, \<open>ChatPage\<close> and
    \<open>ChatPageProperties\<close>, \<open>MultistreamPage\<close> and \<open>MultistreamPageProperties\<close>, \<open>AdminPage\<close> and \<open>AdminPageProperties\<close>,
    \<open>SitePages\<close> and \<open>SitePageProperties\<close> (the frame, the overview and the integrations).  A page is a record of its
    state; a step gives for an event (a press, a typed text, an answer, a refresh) the new state and the requests sent.
  \<^item> \<open>DevScripts\<close> and \<open>DevScriptProperties\<close> (\<open>scripts\<close>).

  \<^bold>\<open>Interfaces\<close>

  \<open>invariant_machine\<close> (a step keeps an invariant, so every run does) is interpreted for the video procedures, the whole
  site, restreaming, uploads, the overlay's hook and the log; \<open>paged_listing\<close> (a page is a window of one ordered
  list) for the owner's, the shared and the donations' pages; \<open>line_stream\<close> (lines come out whatever the chunks)
  for both readers of lines; \<open>translated_service\<close> (a failure of a service reaches the caller without the service's
  words) for the chat and the alerts; \<open>request_machine\<close> (a form or page that sends only requests which the server's schemas
  accept) for every form and page that sends requests.  A state machine with steps in any order is the inductive
  relation \<open>hook_step\<close> of the chat's subscription, with \<open>hook_reaches\<close>.

  \<^bold>\<open>Conventions and bounds\<close>

  Strings are lists of characters, read as code units below 256.  Money is in cents, amounts of donations in units of
  ten to the minus eighteenth, times in milliseconds; identifiers of 64 bits are integers with their bounds written
  out.  Errors are sums: the left side is the branch of the throw.  Rows of a table are in the order of insertion, and
  \<open>ORDER BY\<close> is a stable sort by its key.  A transaction runs alone.  Loops over input are structural; the only bounds
  given as fuel are the number of attempts of the source itself (an account's slug, acknowledgements until their
  deadline) and the number of pages or events a statement speaks of, which is arbitrary there.

  What the code does not define is an argument: URL parsing, cryptography and random bytes, \<open>JSON.parse\<close>, \<open>Intl\<close>,
  floating-point logarithms, the clock, the multipart parser, cookies, and the replies of the services, of PostgreSQL's
  collation, of the browser and of other programs.  Where a theorem needs something of them, the hypothesis names it
  (\<open>crypto_ok\<close>, \<open>env_ok\<close>, \<open>hash_ok\<close>, \<open>serves_letters\<close>), and its witness gives a function that satisfies it.

  \<^bold>\<open>What modelling showed\<close>

  Lemmas state behaviours that the code hardly intends: a rate of \<open>00.00\<close> is accepted (\<open>zero_rate_accepted\<close>), an
  IPv4 address mapped into IPv6 passes the check for private networks (\<open>mapped_loopback_accepted\<close>), edits made
  while alert settings are saved are lost (\<open>edit_during_save_lost\<close>), a notice of failure looks like success
  (\<open>unsupported_file_looks_fine\<close>), a long search is erased (\<open>long_search_erased\<close>), the answer of a cancelled form
  closes another (\<open>late_answer_closes_other_form\<close>), typing forgets a pending connection (\<open>typing_forgets_call\<close>), the
  formatter cuts texts at two dashes (\<open>dashes_in_text_lost\<close>), and a branch without Latin letters and digits gets a
  database the clean-up refuses (\<open>database_name_accepted\<close>).

  \<^bold>\<open>Not modelled\<close>

  The services in Go; the markup, styles, texts and icons of the pages, the components of \<open>components/ui\<close> but for the
  links of a pagination, and the static pages, which hold no operations; the generated table of routes; the libraries
  for rendering, routing, caching, authentication and database access beyond what their calls are documented to do,
  with the files that only configure them; build and deployment.
\<close>

end
